(* ===== verification/PyPrelude.thy ===== *)
theory PyPrelude
  imports Complex_Main "HOL-Library.AList"
begin

text \<open>
  Shared vocabulary of the development: the Python values that the graph state holds, the
  operations of the language that the sources apply to them, and the lemmas every component
  uses.

  \<^item> \<open>pyval\<close> is the type of the values stored in a state dictionary. A \<open>dict\<close> is an
    association list in insertion order, changed with \<open>AList.update\<close> (which, like Python,
    overwrites in place and appends a new key). Strings are lists of characters, so the texts
    of the model are ASCII texts. A float is the exact rational it is written as.
  \<^item> A Python exception is the left value of the sum \<open>exn + 'a\<close>; \<open>bind\<close> runs the next
    step only after a normal return. \<open>Unmodelled\<close> is not an exception of the program: it
    marks the few inputs whose text Python computes and the model does not (the \<open>str\<close> of a
    float or of a container).
  \<^item> \<open>truthy\<close>, \<open>por\<close>, \<open>get\<close>, \<open>getd\<close>, \<open>dmerge\<close>, \<open>dedupe\<close> are \<open>bool(x)\<close>,
    \<open>x or y\<close>, \<open>d.get(k)\<close>, \<open>d.get(k, default)\<close>, \<open>{**a, **b}\<close> and
    \<open>list(dict.fromkeys(xs))\<close>.
\<close>

named_theorems returns_intros \<open>rules that show that an operation returns normally\<close>

section \<open>Values\<close>

datatype pyval =
    PNone
  | PBool bool
  | PInt int
  | PFloat rat
  | PStr string
  | PList "pyval list"
  | PDict "(string \<times> pyval) list"

type_synonym pydict = "(string \<times> pyval) list"

datatype exn =
    TypeError
  | AttributeError
  | KeyError string
  | ValueError string
  | RuntimeError string
  | TimeoutError
  | EOFError
  | ToolError string
  | Unmodelled

fun truthy :: "pyval \<Rightarrow> bool" where
  "truthy PNone = False"
| "truthy (PBool b) = b"
| "truthy (PInt i) = (i \<noteq> 0)"
| "truthy (PFloat r) = (r \<noteq> 0)"
| "truthy (PStr s) = (s \<noteq> [])"
| "truthy (PList xs) = (xs \<noteq> [])"
| "truthy (PDict d) = (d \<noteq> [])"

definition por :: "pyval \<Rightarrow> pyval \<Rightarrow> pyval" where
  "por a b = (if truthy a then a else b)"

section \<open>Exceptions\<close>

fun bind :: "('e + 'a) \<Rightarrow> ('a \<Rightarrow> 'e + 'b) \<Rightarrow> 'e + 'b" where
  "bind (Inl e) f = Inl e"
| "bind (Inr x) f = f x"

lemma bind_eq_Inr_iff: "bind m f = Inr y \<longleftrightarrow> (\<exists>x. m = Inr x \<and> f x = Inr y)"
  by (cases m) auto

lemma bind_InrE:
  "bind m f = Inr y \<Longrightarrow> (\<And>x. m = Inr x \<Longrightarrow> f x = Inr y \<Longrightarrow> P) \<Longrightarrow> P"
  by (cases m) auto

lemma bind_eq_Inl_iff:
  "bind m f = Inl e \<longleftrightarrow> m = Inl e \<or> (\<exists>x. m = Inr x \<and> f x = Inl e)"
  by (cases m) auto

lemma bind_cong [fundef_cong]:
  "m = m' \<Longrightarrow> (\<And>x. m' = Inr x \<Longrightarrow> f x = g x) \<Longrightarrow> bind m f = bind m' g"
  by (cases m') auto

lemma bind_split:
  "P (bind m f) \<longleftrightarrow> (\<forall>e. m = Inl e \<longrightarrow> P (Inl e)) \<and> (\<forall>x. m = Inr x \<longrightarrow> P (f x))"
  by (cases m) auto

lemma isl_bind: "isl (bind m f) \<longleftrightarrow> isl m \<or> isl (f (projr m))"
  by (cases m) auto

text \<open>\<open>and\<close>, \<open>or\<close>, \<open>not\<close> and \<open>if\<close> whose condition may raise, evaluated left to right.\<close>

definition ifM :: "('e + bool) \<Rightarrow> ('e + 'a) \<Rightarrow> ('e + 'a) \<Rightarrow> 'e + 'a" where
  "ifM c a b = bind c (\<lambda>x. if x then a else b)"

definition andM :: "('e + bool) \<Rightarrow> ('e + bool) \<Rightarrow> 'e + bool" where
  "andM a b = ifM a b (Inr False)"

definition orM :: "('e + bool) \<Rightarrow> ('e + bool) \<Rightarrow> 'e + bool" where
  "orM a b = ifM a (Inr True) b"

definition notM :: "('e + bool) \<Rightarrow> 'e + bool" where
  "notM a = bind a (\<lambda>x. Inr (\<not> x))"

lemma ifM_Inr [simp]: "ifM (Inr x) a b = (if x then a else b)"
  by (simp add: ifM_def)

lemma andM_Inr [simp]: "andM (Inr x) b = (if x then b else Inr False)"
  by (simp add: andM_def)

lemma orM_Inr [simp]: "orM (Inr x) b = (if x then Inr True else b)"
  by (simp add: orM_def)

lemma notM_Inr [simp]: "notM (Inr x) = Inr (\<not> x)"
  by (simp add: notM_def)

lemma ifM_eq_Inr_iff:
  "ifM c a b = Inr y \<longleftrightarrow> (c = Inr True \<and> a = Inr y) \<or> (c = Inr False \<and> b = Inr y)"
  by (cases c) (auto simp: ifM_def)

lemma andM_eq_True_iff: "andM a b = Inr True \<longleftrightarrow> a = Inr True \<and> b = Inr True"
  by (cases a) (auto simp: andM_def ifM_def)

lemma andM_eq_False_iff:
  "andM a b = Inr False \<longleftrightarrow> a = Inr False \<or> (a = Inr True \<and> b = Inr False)"
  by (cases a) (auto simp: andM_def ifM_def)

lemma orM_eq_False_iff: "orM a b = Inr False \<longleftrightarrow> a = Inr False \<and> b = Inr False"
  by (cases a) (auto simp: orM_def ifM_def)

lemma orM_eq_True_iff:
  "orM a b = Inr True \<longleftrightarrow> a = Inr True \<or> (a = Inr False \<and> b = Inr True)"
  by (cases a) (auto simp: orM_def ifM_def)

lemma notM_eq_iff [simp]: "notM a = Inr b \<longleftrightarrow> a = Inr (\<not> b)"
  by (cases a) (auto simp: notM_def)

lemmas guardM_iff = andM_eq_True_iff andM_eq_False_iff orM_eq_True_iff orM_eq_False_iff

text \<open>An operation that raises nothing; the rules follow its structure.\<close>

definition returns :: "('e + 'a) \<Rightarrow> bool" where
  "returns m = (\<exists>x. m = Inr x)"

lemma returns_Inr [simp, returns_intros]: "returns (Inr x)"
  by (simp add: returns_def)

lemma not_returns_Inl [simp]: "\<not> returns (Inl e)"
  by (simp add: returns_def)

lemma returns_bind [returns_intros]:
  "returns m \<Longrightarrow> (\<And>x. m = Inr x \<Longrightarrow> returns (f x)) \<Longrightarrow> returns (bind m f)"
  by (auto simp: returns_def)

lemma returns_ifM [returns_intros]: "returns c \<Longrightarrow> returns a \<Longrightarrow> returns b \<Longrightarrow> returns (ifM c a b)"
  by (auto simp: returns_def)

lemma returns_andM [returns_intros]: "returns a \<Longrightarrow> returns b \<Longrightarrow> returns (andM a b)"
  by (auto simp: returns_def)

lemma returns_orM [returns_intros]: "returns a \<Longrightarrow> returns b \<Longrightarrow> returns (orM a b)"
  by (auto simp: returns_def)

lemma returns_notM [returns_intros]: "returns a \<Longrightarrow> returns (notM a)"
  by (auto simp: returns_def)

lemma returns_if [returns_intros]:
  "(c \<Longrightarrow> returns a) \<Longrightarrow> (\<not> c \<Longrightarrow> returns b) \<Longrightarrow> returns (if c then a else b)"
  by simp

lemma returnsE: "returns m \<Longrightarrow> (\<And>x. m = Inr x \<Longrightarrow> P) \<Longrightarrow> P"
  by (auto simp: returns_def)

fun mapm :: "('a \<Rightarrow> 'e + 'b) \<Rightarrow> 'a list \<Rightarrow> 'e + 'b list" where
  "mapm f [] = Inr []"
| "mapm f (x # xs) = bind (f x) (\<lambda>y. bind (mapm f xs) (\<lambda>ys. Inr (y # ys)))"

lemma mapm_Inr_length: "mapm f xs = Inr ys \<Longrightarrow> length ys = length xs"
  by (induction xs arbitrary: ys) (auto simp: bind_eq_Inr_iff)

lemma mapm_returns: "(\<And>x. x \<in> set xs \<Longrightarrow> returns (f x)) \<Longrightarrow> returns (mapm f xs)"
  by (induction xs) (auto intro!: returns_intros)

fun filterm :: "('a \<Rightarrow> 'e + bool) \<Rightarrow> 'a list \<Rightarrow> 'e + 'a list" where
  "filterm p [] = Inr []"
| "filterm p (x # xs) =
     bind (p x) (\<lambda>b. bind (filterm p xs) (\<lambda>ys. Inr (if b then x # ys else ys)))"

lemma filterm_returns: "(\<And>x. x \<in> set xs \<Longrightarrow> returns (p x)) \<Longrightarrow> returns (filterm p xs)"
  by (induction xs) (auto intro!: returns_intros)

lemma filterm_pure: "(\<And>x. x \<in> set xs \<Longrightarrow> p x = Inr (q x)) \<Longrightarrow> filterm p xs = Inr (filter q xs)"
  by (induction xs) auto

lemma mapm_pure: "(\<And>x. x \<in> set xs \<Longrightarrow> f x = Inr (g x)) \<Longrightarrow> mapm f xs = Inr (map g xs)"
  by (induction xs) auto

section \<open>Dictionaries\<close>

definition get :: "pydict \<Rightarrow> string \<Rightarrow> pyval" where
  "get d k = (case map_of d k of None \<Rightarrow> PNone | Some v \<Rightarrow> v)"

definition getd :: "pydict \<Rightarrow> string \<Rightarrow> pyval \<Rightarrow> pyval" where
  "getd d k dflt = (case map_of d k of None \<Rightarrow> dflt | Some v \<Rightarrow> v)"

definition has_key :: "pydict \<Rightarrow> string \<Rightarrow> bool" where
  "has_key d k = (map_of d k \<noteq> None)"

fun dmerge :: "pydict \<Rightarrow> pydict \<Rightarrow> pydict" where
  "dmerge a [] = a"
| "dmerge a ((k, v) # b) = dmerge (AList.update k v a) b"

definition dict_ok :: "pydict \<Rightarrow> bool" where
  "dict_ok d = distinct (map fst d)"

lemma keys_update: "fst ` set (AList.update k v d) = insert k (fst ` set d)"
  by (induction d) auto

lemma get_Nil [simp]: "get [] k = PNone"
  by (simp add: get_def)

lemma get_Cons [simp]: "get ((k', v) # d) k = (if k' = k then v else get d k)"
  by (simp add: get_def)

lemma getd_Nil [simp]: "getd [] k x = x"
  by (simp add: getd_def)

lemma getd_Cons [simp]: "getd ((k', v) # d) k x = (if k' = k then v else getd d k x)"
  by (simp add: getd_def)

lemma get_update [simp]: "get (AList.update k' v d) k = (if k' = k then v else get d k)"
  by (simp add: get_def update_conv)

lemma getd_update [simp]: "getd (AList.update k' v d) k x = (if k' = k then v else getd d k x)"
  by (simp add: getd_def update_conv)

lemma has_key_Nil [simp]: "\<not> has_key [] k"
  by (simp add: has_key_def)

lemma has_key_Cons [simp]: "has_key ((k', v) # d) k \<longleftrightarrow> k' = k \<or> has_key d k"
  by (auto simp: has_key_def)

lemma has_key_update [simp]: "has_key (AList.update k' v d) k \<longleftrightarrow> k' = k \<or> has_key d k"
  by (auto simp: has_key_def update_conv)

lemma getd_has_key: "has_key d k \<Longrightarrow> getd d k x = get d k"
  by (auto simp: has_key_def getd_def get_def)

lemma getd_no_key: "\<not> has_key d k \<Longrightarrow> getd d k x = x"
  by (auto simp: has_key_def getd_def)

lemma get_no_key: "\<not> has_key d k \<Longrightarrow> get d k = PNone"
  by (auto simp: has_key_def get_def)

lemma has_key_fst_set: "has_key d k \<longleftrightarrow> k \<in> fst ` set d"
  by (induction d) (auto simp: has_key_def)

lemma get_map_of_Some: "map_of d k = Some v \<Longrightarrow> get d k = v"
  by (simp add: get_def)

lemma getd_append: "getd (a @ b) k v = getd a k (getd b k v)"
  by (induction a) auto

lemma has_key_append: "has_key (a @ b) k \<longleftrightarrow> has_key a k \<or> has_key b k"
  by (auto simp: has_key_fst_set)

text \<open>Merging writes exactly the keys of the second dictionary.\<close>

lemma get_dmerge_other: "\<not> has_key b k \<Longrightarrow> get (dmerge a b) k = get a k"
  by (induction a b rule: dmerge.induct) auto

lemma has_key_dmerge [simp]: "has_key (dmerge a b) k \<longleftrightarrow> has_key a k \<or> has_key b k"
  by (induction a b rule: dmerge.induct) auto

lemma map_of_dmerge:
  "dict_ok b \<Longrightarrow> map_of (dmerge a b) k = (case map_of b k of None \<Rightarrow> map_of a k | Some v \<Rightarrow> Some v)"
proof (induction a b rule: dmerge.induct)
  case (1 a)
  show ?case by simp
next
  case (2 a k' v b)
  then have "map_of b k' = None"
    by (auto simp: dict_ok_def map_of_eq_None_iff)
  with 2 show ?case
    by (auto simp: dict_ok_def update_conv split: option.splits)
qed

lemma get_dmerge:
  "dict_ok b \<Longrightarrow> get (dmerge a b) k = (if has_key b k then get b k else get a k)"
  by (auto simp: get_def has_key_def map_of_dmerge split: option.splits)

lemma getd_dmerge:
  "dict_ok b \<Longrightarrow> getd (dmerge a b) k x = (if has_key b k then get b k else getd a k x)"
  by (auto simp: getd_def get_def has_key_def map_of_dmerge split: option.splits)

lemma dict_ok_update: "dict_ok d \<Longrightarrow> dict_ok (AList.update k v d)"
  by (simp add: dict_ok_def distinct_update)

lemma dict_ok_dmerge: "dict_ok a \<Longrightarrow> dict_ok (dmerge a b)"
  by (induction a b rule: dmerge.induct) (auto intro: dict_ok_update)

lemma dict_ok_Nil [simp]: "dict_ok []"
  by (simp add: dict_ok_def)

lemma set_dmerge_subset: "set (dmerge a b) \<subseteq> set a \<union> set b"
proof (induction a b rule: dmerge.induct)
  case (2 a k v b)
  moreover have "set (AList.update k v a) \<subseteq> insert (k, v) (set a)"
    by (induction a) auto
  ultimately show ?case by auto
qed simp

end
