(* ===== verification/PyText.thy ===== *)
theory PyText
  imports PyPrelude "HOL-Library.Sublist"
begin

text \<open>
  Python's text operations and the conversions between values and text, numbers and
  dictionaries: \<open>casefold\<close>, \<open>strip\<close>, \<open>in\<close>, \<open>startswith\<close>, \<open>str(x)\<close>, \<open>int(x)\<close>,
  \<open>==\<close>, membership in a set of strings, and \<open>list(dict.fromkeys(xs))\<close>.
  A character is a code point below 256: the texts of the model are Latin-1 texts. The letters,
  digits and word characters of the program's own character classes are those of ASCII, \<open>\\w\<close>
  of a pattern, case conversion and white space are those of Latin-1, where \<open>lower\<close> and \<open>casefold\<close> differ on two characters only, which are left
  as they are (the sharp s and the micro sign).
\<close>

section \<open>Characters and strings\<close>

definition lower_char :: "char \<Rightarrow> char" where
  "lower_char c =
    (let n = (of_char c :: nat) in
     if 65 \<le> n \<and> n \<le> 90 \<or> 192 \<le> n \<and> n \<le> 222 \<and> n \<noteq> 215 then char_of (n + 32) else c)"

definition casefold :: "string \<Rightarrow> string" where
  "casefold s = map lower_char s"

definition is_space :: "char \<Rightarrow> bool" where
  "is_space c = (let n = (of_char c :: nat) in n = 32 \<or> (9 \<le> n \<and> n \<le> 13) \<or> (28 \<le> n \<and> n \<le> 31)
    \<or> n = 133 \<or> n = 160)"

definition is_digit :: "char \<Rightarrow> bool" where
  "is_digit c = (48 \<le> (of_char c :: nat) \<and> (of_char c :: nat) \<le> 57)"

definition is_alpha :: "char \<Rightarrow> bool" where
  "is_alpha c = (let n = (of_char c :: nat) in (65 \<le> n \<and> n \<le> 90) \<or> (97 \<le> n \<and> n \<le> 122))"

definition is_word :: "char \<Rightarrow> bool" where
  "is_word c = (is_alpha c \<or> is_digit c \<or> c = CHR ''_'')"

definition strip_by :: "(char \<Rightarrow> bool) \<Rightarrow> string \<Rightarrow> string" where
  "strip_by p s = rev (dropWhile p (rev (dropWhile p s)))"

definition strip :: "string \<Rightarrow> string" where
  "strip s = strip_by is_space s"

definition starts_with :: "string \<Rightarrow> string \<Rightarrow> bool" where
  "starts_with s p = prefix p s"

definition ends_with :: "string \<Rightarrow> string \<Rightarrow> bool" where
  "ends_with s p = suffix p s"

fun contains :: "string \<Rightarrow> string \<Rightarrow> bool" where
  "contains [] p = (p = [])"
| "contains (c # s) p = (prefix p (c # s) \<or> contains s p)"

definition any_in :: "string list \<Rightarrow> string \<Rightarrow> bool" where
  "any_in ps s = list_ex (contains s) ps"

fun join :: "string \<Rightarrow> string list \<Rightarrow> string" where
  "join sep [] = []"
| "join sep [x] = x"
| "join sep (x # y # ys) = x @ sep @ join sep (y # ys)"

fun replace_char :: "char \<Rightarrow> char \<Rightarrow> string \<Rightarrow> string" where
  "replace_char a b [] = []"
| "replace_char a b (c # s) = (if c = a then b else c) # replace_char a b s"

fun split_on :: "char \<Rightarrow> string \<Rightarrow> string list" where
  "split_on sep [] = [[]]"
| "split_on sep (c # s) =
     (if c = sep then [] # split_on sep s
      else (case split_on sep s of [] \<Rightarrow> [[c]] | p # ps \<Rightarrow> (c # p) # ps))"

text \<open>\<open>str.split()\<close>: the pieces between runs of white space.\<close>

fun words_from :: "string \<Rightarrow> string \<Rightarrow> string list" where
  "words_from cur [] = (if cur = [] then [] else [rev cur])"
| "words_from cur (c # s) =
     (if \<not> is_space c then words_from (c # cur) s
      else if cur = [] then words_from [] s else rev cur # words_from [] s)"

definition words :: "string \<Rightarrow> string list" where
  "words s = words_from [] s"

definition rstrip :: "string \<Rightarrow> string" where
  "rstrip s = rev (dropWhile is_space (rev s))"

text \<open>\<open>str.splitlines\<close>: a carriage return and a line feed together end one line.\<close>

definition is_line_break :: "char \<Rightarrow> bool" where
  "is_line_break c =
    (let n = (of_char c :: nat) in (10 \<le> n \<and> n \<le> 13) \<or> (28 \<le> n \<and> n \<le> 30) \<or> n = 133)"

fun lines_from :: "string \<Rightarrow> string \<Rightarrow> string list" where
  "lines_from cur [] = (if cur = [] then [] else [rev cur])"
| "lines_from cur (c # s) =
     (if c = CHR 0x0D \<and> s \<noteq> [] \<and> hd s = CHR 0x0A then lines_from cur s
      else if is_line_break c then rev cur # lines_from [] s
      else lines_from (c # cur) s)"

definition splitlines :: "string \<Rightarrow> string list" where
  "splitlines s = lines_from [] s"

text \<open>The bytes of a text in UTF-8.\<close>

definition utf8_size :: "string \<Rightarrow> int" where
  "utf8_size s = sum_list (map (\<lambda>c. if (of_char c :: nat) < 128 then 1 else 2) s)"

text \<open>The character classes as formulas over the bits of a character, to evaluate texts fast.\<close>

lemma of_char_bits:
  "(of_char (Char b0 b1 b2 b3 b4 b5 b6 b7) :: nat) =
    of_bool b0 + 2 * of_bool b1 + 4 * of_bool b2 + 8 * of_bool b3 + 16 * of_bool b4
    + 32 * of_bool b5 + 64 * of_bool b6 + 128 * of_bool b7"
  by (simp add: of_char_def)

lemma is_alpha_code [code]:
  "is_alpha (Char b0 b1 b2 b3 b4 b5 b6 b7) =
    (\<not> b7 \<and> b6 \<and> (b0 \<or> b1 \<or> b2 \<or> b3 \<or> b4) \<and> \<not> (b4 \<and> b3 \<and> (b2 \<or> b1 \<and> b0)))"
  unfolding is_alpha_def Let_def of_char_bits
  by (cases b0; cases b1; cases b2; cases b3; cases b4; cases b5; cases b6; cases b7) simp_all

lemma lower_char_code [code]:
  "lower_char (Char b0 b1 b2 b3 b4 b5 b6 b7) =
    Char b0 b1 b2 b3 b4
      (b5 \<or> is_alpha (Char b0 b1 b2 b3 b4 b5 b6 b7)
       \<or> b7 \<and> b6 \<and> \<not> (b4 \<and> b2 \<and> b1 \<and> b0)) b6 b7"
  unfolding lower_char_def Let_def is_alpha_code of_char_bits
  by (cases b0; cases b1; cases b2; cases b3; cases b4; cases b5; cases b6; cases b7)
     (simp_all add: char_of_def bit_simps)

lemma is_digit_code [code]:
  "is_digit (Char b0 b1 b2 b3 b4 b5 b6 b7) =
    (\<not> b7 \<and> \<not> b6 \<and> b5 \<and> b4 \<and> (\<not> b3 \<or> \<not> b2 \<and> \<not> b1))"
  unfolding is_digit_def of_char_bits
  by (cases b0; cases b1; cases b2; cases b3; cases b4; cases b5; cases b6; cases b7) simp_all

lemma is_space_code [code]:
  "is_space (Char b0 b1 b2 b3 b4 b5 b6 b7) =
    (\<not> b6 \<and> b7 \<and> \<not> b4 \<and> \<not> b3 \<and> (\<not> b5 \<and> b2 \<and> \<not> b1 \<and> b0 \<or> b5 \<and> \<not> b2 \<and> \<not> b1 \<and> \<not> b0)
     \<or> \<not> b7 \<and> \<not> b6 \<and>
      (b5 \<and> \<not> b4 \<and> \<not> b3 \<and> \<not> b2 \<and> \<not> b1 \<and> \<not> b0
       \<or> \<not> b5 \<and> \<not> b4 \<and> b3 \<and> (\<not> b2 \<and> (b1 \<or> b0) \<or> b2 \<and> \<not> b1)
       \<or> \<not> b5 \<and> b4 \<and> b3 \<and> b2))"
  unfolding is_space_def Let_def of_char_bits
  by (cases b0; cases b1; cases b2; cases b3; cases b4; cases b5; cases b6; cases b7) simp_all

lemma is_line_break_code [code]:
  "is_line_break (Char b0 b1 b2 b3 b4 b5 b6 b7) =
    (\<not> b6 \<and> \<not> b5 \<and>
      (\<not> b7 \<and> \<not> b4 \<and> b3 \<and> (\<not> b2 \<and> b1 \<or> b2 \<and> \<not> b1)
       \<or> \<not> b7 \<and> b4 \<and> b3 \<and> b2 \<and> \<not> (b1 \<and> b0)
       \<or> b7 \<and> \<not> b4 \<and> \<not> b3 \<and> b2 \<and> \<not> b1 \<and> b0))"
  unfolding is_line_break_def Let_def of_char_bits
  by (cases b0; cases b1; cases b2; cases b3; cases b4; cases b5; cases b6; cases b7) simp_all

text \<open>
  What \<open>\\w\<close> matches: also the Latin-1 letters, ordinals, superscripts and fractions.
\<close>

definition regex_word :: "char \<Rightarrow> bool" where
  "regex_word c = (is_word c \<or>
    (let n = (of_char c :: nat) in
     n \<in> {170, 178, 179, 181, 185, 186, 188, 189, 190} \<or> 192 \<le> n \<and> n \<noteq> 215 \<and> n \<noteq> 247))"

lemma regex_word_code [code]:
  "regex_word (Char b0 b1 b2 b3 b4 b5 b6 b7) =
    (if \<not> b7 then is_word (Char b0 b1 b2 b3 b4 b5 b6 b7)
     else if b6 then \<not> (b4 \<and> \<not> b3 \<and> b2 \<and> b1 \<and> b0)
     else b5 \<and> b3 \<and> (if b4 then (b0 \<or> b1 \<or> b2) \<and> \<not> (b2 \<and> b1 \<and> b0) \<and> \<not> (\<not> b2 \<and> b1 \<and> b0) else \<not> b2 \<and> b1 \<and> \<not> b0)
       \<or> b5 \<and> b4 \<and> \<not> b3 \<and> (\<not> b2 \<and> b1 \<or> b2 \<and> \<not> b1 \<and> b0))"
  unfolding regex_word_def is_word_def is_alpha_code is_digit_code Let_def of_char_bits
  by (cases b0; cases b1; cases b2; cases b3; cases b4; cases b5; cases b6; cases b7) simp_all

text \<open>\<open>str.isidentifier\<close>, for ASCII texts.\<close>

definition is_identifier :: "string \<Rightarrow> bool" where
  "is_identifier s = (s \<noteq> [] \<and> \<not> is_digit (hd s) \<and> list_all is_word s)"

lemma contains_iff_sublist: "contains s p \<longleftrightarrow> sublist p s"
  by (induction s) (auto simp: sublist_Cons_right)

lemma contains_append: "contains s p \<Longrightarrow> contains (s @ t) p"
  unfolding contains_iff_sublist sublist_def by (metis append.assoc)

lemma split_on_ne [simp]: "split_on sep s \<noteq> []"
  by (induction s) (auto split: list.splits)

lemma split_on_no_sep: "p \<in> set (split_on sep s) \<Longrightarrow> sep \<notin> set p"
  by (induction s arbitrary: p) (auto split: list.splits if_splits)

lemma join_split_on: "join [sep] (split_on sep s) = s"
proof (induction s)
  case Nil
  show ?case by simp
next
  case (Cons c s)
  then show ?case
    by (cases "split_on sep s"; cases "tl (split_on sep s)") auto
qed

lemma casefold_idem: "casefold (casefold s) = casefold s"
proof -
  have "lower_char (lower_char c) = lower_char c" for c
    by (cases c) (simp add: lower_char_code is_alpha_code, blast?)
  then show ?thesis by (simp add: casefold_def)
qed

lemma length_casefold [simp]: "length (casefold s) = length s"
  by (simp add: casefold_def)

section \<open>Duplicates\<close>

definition dedupe :: "'a list \<Rightarrow> 'a list" where
  "dedupe xs = rev (remdups (rev xs))"

lemma set_dedupe [simp]: "set (dedupe xs) = set xs"
  by (simp add: dedupe_def)

lemma distinct_dedupe [simp]: "distinct (dedupe xs)"
  by (simp add: dedupe_def)

lemma dedupe_distinct: "distinct xs \<Longrightarrow> dedupe xs = xs"
  by (simp add: dedupe_def distinct_remdups_id)

lemma dedupe_Nil [simp]: "dedupe [] = []"
  by (simp add: dedupe_def)

lemma dedupe_eq_Nil [simp]: "dedupe xs = [] \<longleftrightarrow> xs = []"
  by (simp add: dedupe_def)

lemma dedupe_snoc: "dedupe (xs @ [x]) = (if x \<in> set xs then dedupe xs else dedupe xs @ [x])"
  by (simp add: dedupe_def)

lemma hd_dedupe: "xs \<noteq> [] \<Longrightarrow> hd (dedupe xs) = hd xs"
  by (induction xs rule: rev_induct) (auto simp: dedupe_snoc hd_append)

section \<open>Numbers as text\<close>

fun nat_str :: "nat \<Rightarrow> string" where
  "nat_str n = (if n < 10 then [char_of (48 + n)]
                else nat_str (n div 10) @ [char_of (48 + n mod 10)])"

declare nat_str.simps [simp del]

definition int_str :: "int \<Rightarrow> string" where
  "int_str i = (if i < 0 then CHR ''-'' # nat_str (nat (- i)) else nat_str (nat i))"

fun digits_val :: "nat \<Rightarrow> string \<Rightarrow> nat" where
  "digits_val acc [] = acc"
| "digits_val acc (c # s) = digits_val (10 * acc + (of_char c - 48)) s"

text \<open>
  \<open>int(s)\<close> on a text: white space around it, one optional sign, digits with single
  underscores between them; anything else raises \<open>ValueError\<close>.
\<close>

fun digits_ok :: "bool \<Rightarrow> string \<Rightarrow> bool" where
  "digits_ok prev [] = prev"
| "digits_ok prev (c # s) =
     (if is_digit c then digits_ok True s
      else c = CHR ''_'' \<and> prev \<and> digits_ok False s)"

definition parse_nat :: "string \<Rightarrow> nat option" where
  "parse_nat s = (if digits_ok False s then Some (digits_val 0 (filter is_digit s)) else None)"

definition parse_int :: "string \<Rightarrow> int option" where
  "parse_int s =
     (case strip s of
        [] \<Rightarrow> None
      | c # t \<Rightarrow>
          (if c = CHR ''-'' then map_option (\<lambda>n. - int n) (parse_nat t)
           else if c = CHR ''+'' then map_option int (parse_nat t)
           else map_option int (parse_nat (c # t))))"

lemma nat_str_digits: "c \<in> set (nat_str n) \<Longrightarrow> is_digit c"
proof (induction n rule: nat_str.induct)
  case (1 n)
  then show ?case
    by (subst (asm) nat_str.simps) (auto simp: is_digit_def split: if_splits)
qed

lemma nat_str_ne [simp]: "nat_str n \<noteq> []"
  by (subst nat_str.simps) simp

lemma digits_val_append: "digits_val acc (s @ [c]) = 10 * digits_val acc s + (of_char c - 48)"
  by (induction s arbitrary: acc) auto

lemma digits_val_nat_str: "digits_val 0 (nat_str n) = n"
proof (induction n rule: nat_str.induct)
  case (1 n)
  show ?case
  proof (cases "n < 10")
    case True
    then show ?thesis by (subst nat_str.simps) simp
  next
    case False
    with 1 show ?thesis
      by (subst nat_str.simps) (simp add: digits_val_append)
  qed
qed

lemma digits_ok_all: "s \<noteq> [] \<or> prev \<Longrightarrow> (\<And>c. c \<in> set s \<Longrightarrow> is_digit c) \<Longrightarrow> digits_ok prev s"
  by (induction s arbitrary: prev) auto

lemma parse_nat_str: "parse_nat (nat_str n) = Some n"
proof -
  have all: "\<And>c. c \<in> set (nat_str n) \<Longrightarrow> is_digit c" by (rule nat_str_digits)
  then have "filter is_digit (nat_str n) = nat_str n" by (simp add: filter_id_conv)
  moreover have "digits_ok False (nat_str n)" by (rule digits_ok_all) (auto intro: all)
  ultimately show ?thesis by (simp add: parse_nat_def digits_val_nat_str)
qed

lemma is_digit_not_space: "is_digit c \<Longrightarrow> \<not> is_space c"
  by (auto simp: is_digit_def is_space_def Let_def)

lemma strip_no_space: "(\<And>c. c \<in> set s \<Longrightarrow> \<not> is_space c) \<Longrightarrow> strip s = s"
proof -
  assume a: "\<And>c. c \<in> set s \<Longrightarrow> \<not> is_space c"
  have d: "dropWhile is_space t = t" if "set t \<subseteq> set s" for t
    using that a by (cases t) auto
  show ?thesis by (simp add: strip_def strip_by_def d)
qed

lemma nat_str_inj: "nat_str m = nat_str n \<longleftrightarrow> m = n"
  by (metis digits_val_nat_str)

text \<open>Printing an integer and reading it back gives the integer.\<close>

lemma parse_int_str: "parse_int (int_str i) = Some i"
proof -
  have sp: "strip (int_str i) = int_str i"
    by (rule strip_no_space)
       (auto simp: int_str_def is_space_def Let_def split: if_splits
             dest: nat_str_digits is_digit_not_space[unfolded is_space_def Let_def])
  obtain c t where ct: "nat_str (nat \<bar>i\<bar>) = c # t"
    by (cases "nat_str (nat \<bar>i\<bar>)") auto
  then have "is_digit c" using nat_str_digits[of c "nat \<bar>i\<bar>"] by simp
  then have "c \<noteq> CHR ''-''" "c \<noteq> CHR ''+''" by (auto simp: is_digit_def)
  with ct sp show ?thesis
    using parse_nat_str[of "nat \<bar>i\<bar>"]
    by (cases "i < 0") (auto simp: parse_int_def int_str_def)
qed

end
