(* ===== verification/PyFloat.thy ===== *)
theory PyFloat
  imports PyText
begin

text \<open>
  Python's floats as the rationals they denote: rounding to a double (round half to even, with
  gradual underflow; the values of the program are far below the overflow threshold), and the
  text of a float, the shortest decimal that rounds to it.
\<close>

definition pow_int :: "rat \<Rightarrow> int \<Rightarrow> rat" where
  "pow_int b k = (if 0 \<le> k then b ^ nat k else 1 / b ^ nat (- k))"

function digit_count :: "int \<Rightarrow> int \<Rightarrow> int" where
  "digit_count b n = (if b < 2 \<or> n < b then 1 else 1 + digit_count b (n div b))"
  by pat_completeness auto
termination
proof (relation "measure (\<lambda>(b, n). nat n)")
  fix b n :: int
  assume "\<not> (b < 2 \<or> n < b)"
  then have "n div b < n" "0 < n" by (auto intro: int_div_less_self)
  then show "((b, n div b), b, n) \<in> measure (\<lambda>(b, n). nat n)" by simp
qed simp

declare digit_count.simps [simp del]

function digits_text :: "int \<Rightarrow> string" where
  "digits_text n =
    (if n < 10 then [char_of (48 + n)] else digits_text (n div 10) @ [char_of (48 + n mod 10)])"
  by pat_completeness auto
termination
  by (relation "measure nat") auto

declare digits_text.simps [simp del]

text \<open>The floor of the logarithm of a positive rational.\<close>

definition log_floor :: "int \<Rightarrow> rat \<Rightarrow> int" where
  "log_floor b q =
    (let (n, d) = quotient_of q;
         k = digit_count b n - digit_count b d in
     if pow_int (of_int b) k \<le> q then k else k - 1)"

definition round_half_even :: "rat \<Rightarrow> int" where
  "round_half_even x =
    (let f = \<lfloor>x\<rfloor>; r = x - of_int f in
     if r < 1 / 2 then f else if 1 / 2 < r then f + 1 else if even f then f else f + 1)"

definition round_double :: "rat \<Rightarrow> rat" where
  "round_double q =
    (if q = 0 then 0
     else let a = \<bar>q\<bar>; quantum = pow_int 2 (max (log_floor 2 a - 52) (- 1074)) in
       sgn q * (of_int (round_half_even (a / quantum)) * quantum))"

definition float_add :: "rat \<Rightarrow> rat \<Rightarrow> rat" where
  "float_add a b = round_double (a + b)"

definition float_sub :: "rat \<Rightarrow> rat \<Rightarrow> rat" where
  "float_sub a b = round_double (a - b)"

definition float_mul :: "rat \<Rightarrow> rat \<Rightarrow> rat" where
  "float_mul a b = round_double (a * b)"

definition float_div :: "rat \<Rightarrow> rat \<Rightarrow> rat" where
  "float_div a b = round_double (a / b)"

text \<open>\<open>int(x)\<close> of a float: towards zero.\<close>

definition float_int :: "rat \<Rightarrow> int" where
  "float_int q = (if 0 \<le> q then \<lfloor>q\<rfloor> else - \<lfloor>- q\<rfloor>)"

section \<open>The text of a float\<close>

text \<open>The decimals with \<open>n\<close> digits around \<open>a\<close> that round to \<open>a\<close>, the nearest first.\<close>

definition decimal_with :: "rat \<Rightarrow> int \<Rightarrow> nat \<Rightarrow> (int \<times> int) option" where
  "decimal_with a e10 n =
    (let shift = e10 - int n + 1;
         unit = pow_int 10 shift;
         low = \<lfloor>a / unit\<rfloor>;
         near = (if a - of_int low * unit \<le> of_int (low + 1) * unit - a then [low, low + 1] else [low + 1, low]) in
     case filter (\<lambda>c. round_double (of_int c * unit) = a) near of
       [] \<Rightarrow> None | c # _ \<Rightarrow> Some (c, shift))"

fun shortest_decimal :: "rat \<Rightarrow> int \<Rightarrow> nat list \<Rightarrow> int \<times> int" where
  "shortest_decimal a e10 [] = (0, 0)"
| "shortest_decimal a e10 (n # ns) =
     (case decimal_with a e10 n of Some d \<Rightarrow> d | None \<Rightarrow> shortest_decimal a e10 ns)"

definition exponent_text :: "int \<Rightarrow> string" where
  "exponent_text e =
    (let t = digits_text \<bar>e\<bar> in
     (if e < 0 then ''-'' else ''+'') @ (if length t < 2 then CHR ''0'' # t else t))"

definition positive_text :: "rat \<Rightarrow> string" where
  "positive_text a =
    (let (c, shift) = shortest_decimal a (log_floor 10 a) [1..<18];
         all = digits_text c;
         digits = rev (dropWhile (\<lambda>d. d = CHR ''0'') (rev all));
         point = int (length all) + shift in
     if - 4 < point \<and> point \<le> 16
     then (if point \<le> 0 then ''0.'' @ replicate (nat (- point)) (CHR ''0'') @ digits
           else if int (length digits) \<le> point
           then digits @ replicate (nat point - length digits) (CHR ''0'') @ ''.0''
           else take (nat point) digits @ ''.'' @ drop (nat point) digits)
     else take 1 digits @ (if length digits > 1 then ''.'' @ drop 1 digits else [])
          @ ''e'' @ exponent_text (point - 1))"

definition float_str :: "rat \<Rightarrow> string" where
  "float_str q =
    (if q = 0 then ''0.0'' else if q < 0 then CHR ''-'' # positive_text (- q) else positive_text q)"

text \<open>The rounding keeps small integers and halves, and never moves a value across an integer.\<close>

lemma round_half_even_int [simp]: "round_half_even (of_int i) = i"
  by (simp add: round_half_even_def)

lemma round_half_even_mono:
  assumes "x \<le> y"
  shows "round_half_even x \<le> round_half_even y"
proof (cases "\<lfloor>x\<rfloor> = \<lfloor>y\<rfloor>")
  case True
  with assms show ?thesis by (auto simp: round_half_even_def Let_def)
next
  case False
  with floor_mono[OF assms] have "\<lfloor>x\<rfloor> + 1 \<le> \<lfloor>y\<rfloor>" by simp
  moreover have "round_half_even x \<le> \<lfloor>x\<rfloor> + 1" by (simp add: round_half_even_def Let_def)
  moreover have "\<lfloor>y\<rfloor> \<le> round_half_even y" by (simp add: round_half_even_def Let_def)
  ultimately show ?thesis by simp
qed

end
