(* ===== verification/PyValue.thy ===== *)
theory PyValue
  imports PyFloat
begin

text \<open>
  Conversions and comparisons of Python values (\<open>int(x)\<close>, \<open>str(x)\<close>, \<open>x == y\<close>,
  \<open>x in {...}\<close>, attribute access to a mapping), and the types that a \<open>TypedDict\<close>
  declares, with the conformance of a value and of a dictionary to them.
\<close>

section \<open>Conversions\<close>

fun py_int :: "pyval \<Rightarrow> exn + int" where
  "py_int (PInt i) = Inr i"
| "py_int (PBool b) = Inr (if b then 1 else 0)"
| "py_int (PFloat r) = Inr (if r < 0 then - \<lfloor>- r\<rfloor> else \<lfloor>r\<rfloor>)"
| "py_int (PStr s) = (case parse_int s of None \<Rightarrow> Inl (ValueError ''int'') | Some i \<Rightarrow> Inr i)"
| "py_int PNone = Inl TypeError"
| "py_int (PList xs) = Inl TypeError"
| "py_int (PDict d) = Inl TypeError"

fun py_str :: "pyval \<Rightarrow> exn + string" where
  "py_str (PStr s) = Inr s"
| "py_str PNone = Inr ''None''"
| "py_str (PBool b) = Inr (if b then ''True'' else ''False'')"
| "py_str (PInt i) = Inr (int_str i)"
| "py_str (PFloat r) = Inr (float_str r)"
| "py_str (PList xs) = Inl Unmodelled"
| "py_str (PDict d) = Inl Unmodelled"

text \<open>\<open>x.get(...)\<close>, \<open>x.items()\<close>: only a dictionary has them.\<close>

fun as_dict :: "pyval \<Rightarrow> exn + pydict" where
  "as_dict (PDict d) = Inr d"
| "as_dict _ = Inl AttributeError"

text \<open>\<open>list(x or [])\<close> and iteration over \<open>x or []\<close>: a list gives its elements, an
  empty value the empty list, a dictionary its keys, a text its characters.\<close>

fun as_list :: "pyval \<Rightarrow> exn + pyval list" where
  "as_list (PList xs) = Inr xs"
| "as_list (PDict d) = Inr (map (\<lambda>(k, v). PStr k) d)"
| "as_list (PStr s) = Inr (map (\<lambda>c. PStr [c]) s)"
| "as_list _ = Inl TypeError"

definition list_or_empty :: "pyval \<Rightarrow> exn + pyval list" where
  "list_or_empty v = as_list (por v (PList []))"

definition dict_or_empty :: "pyval \<Rightarrow> exn + pydict" where
  "dict_or_empty v = as_dict (por v (PDict []))"

text \<open>\<open>isinstance(x, Mapping)\<close> with the empty mapping as the fallback.\<close>

fun mapping_of :: "pyval \<Rightarrow> pydict" where
  "mapping_of (PDict d) = d"
| "mapping_of _ = []"

fun is_list :: "pyval \<Rightarrow> bool" where
  "is_list (PList _) = True"
| "is_list _ = False"

fun is_dict :: "pyval \<Rightarrow> bool" where
  "is_dict (PDict _) = True"
| "is_dict _ = False"

fun is_str :: "pyval \<Rightarrow> bool" where
  "is_str (PStr _) = True"
| "is_str _ = False"

fun str_list :: "pyval list \<Rightarrow> exn + string list" where
  "str_list xs = mapm py_str xs"

abbreviation pstrs :: "string list \<Rightarrow> pyval" where
  "pstrs xs \<equiv> PList (map PStr xs)"

section \<open>Comparisons\<close>

fun numval :: "pyval \<Rightarrow> rat option" where
  "numval (PBool b) = Some (if b then 1 else 0)"
| "numval (PInt i) = Some (of_int i)"
| "numval (PFloat r) = Some r"
| "numval _ = None"

text \<open>
  \<open>==\<close>: numbers compare by value across their types, lists element by element, and
  dictionaries as maps, whatever their order.
\<close>

function py_eq :: "pyval \<Rightarrow> pyval \<Rightarrow> bool" where
  "py_eq a b =
     (case (a, b) of
        (PNone, PNone) \<Rightarrow> True
      | (PStr s, PStr t) \<Rightarrow> s = t
      | (PList xs, PList ys) \<Rightarrow>
          length xs = length ys \<and> list_all (\<lambda>(x, y). py_eq x y) (zip xs ys)
      | (PDict d, PDict e) \<Rightarrow>
          length d = length e \<and>
          list_all (\<lambda>(k, v). case map_of e k of None \<Rightarrow> False | Some w \<Rightarrow> py_eq v w) d
      | _ \<Rightarrow> (case (numval a, numval b) of (Some x, Some y) \<Rightarrow> x = y | _ \<Rightarrow> False))"
  by pat_completeness auto
termination
proof (relation "measure (\<lambda>(a, b). size a)", goal_cases)
  case 1
  show ?case by simp
next
  case (2 a b v w xs ys p x y)
  then have "x \<in> set xs" by (auto dest: set_zip_leftD)
  then have "size x < Suc (size_list size xs)"
    by (simp add: less_Suc_eq_le size_list_estimation')
  with 2 show ?case by auto
next
  case (3 a b v w d e p k v' w')
  then have "(k, v') \<in> set d" by auto
  then have "size v' < Suc (size_list (size_prod (\<lambda>_. 0) size) d)"
    by (force simp: less_Suc_eq_le intro: size_list_estimation'[where x = "(k, v')"])
  with 3 show ?case by auto
qed

declare py_eq.simps [simp del]

text \<open>Membership in a set of texts: a list or a dictionary is not hashable.\<close>

fun in_strs :: "pyval \<Rightarrow> string list \<Rightarrow> exn + bool" where
  "in_strs (PStr s) xs = Inr (s \<in> set xs)"
| "in_strs (PList _) xs = Inl TypeError"
| "in_strs (PDict _) xs = Inl TypeError"
| "in_strs _ xs = Inr False"

lemma py_eq_dict_iff:
  "py_eq (PDict d) (PDict e) \<longleftrightarrow>
     length d = length e \<and>
     list_all (\<lambda>(k, v). case map_of e k of None \<Rightarrow> False | Some w \<Rightarrow> py_eq v w) d"
  by (subst py_eq.simps) simp

lemma py_eq_list_iff:
  "py_eq (PList xs) (PList ys) \<longleftrightarrow> list_all2 py_eq xs ys"
  by (subst py_eq.simps) (auto simp: list_all2_iff list_all_iff)

lemma py_eq_atoms [simp]:
  "py_eq (PStr s) (PStr t) \<longleftrightarrow> s = t"
  "py_eq (PInt i) (PInt j) \<longleftrightarrow> i = j"
  "py_eq (PBool b) (PBool c) \<longleftrightarrow> b = c"
  "py_eq PNone PNone"
  "py_eq PNone (PStr s) = False" "py_eq (PStr s) PNone = False"
  by (subst py_eq.simps; simp)+

section \<open>Declared types\<close>

datatype pytype =
    TAny
  | TStr
  | TInt
  | TBool
  | TFloat
  | TLit "string list"
  | TOpt pytype
  | TList pytype
  | TDict pytype

fun has_type :: "pyval \<Rightarrow> pytype \<Rightarrow> bool" where
  "has_type v TAny = True"
| "has_type v TStr = (case v of PStr _ \<Rightarrow> True | _ \<Rightarrow> False)"
| "has_type v TInt = (case v of PInt _ \<Rightarrow> True | PBool _ \<Rightarrow> True | _ \<Rightarrow> False)"
| "has_type v TBool = (case v of PBool _ \<Rightarrow> True | _ \<Rightarrow> False)"
| "has_type v TFloat = (case v of PFloat _ \<Rightarrow> True | PInt _ \<Rightarrow> True | PBool _ \<Rightarrow> True | _ \<Rightarrow> False)"
| "has_type v (TLit xs) = (case v of PStr s \<Rightarrow> s \<in> set xs | _ \<Rightarrow> False)"
| "has_type v (TOpt t) = (v = PNone \<or> has_type v t)"
| "has_type v (TList t) = (case v of PList xs \<Rightarrow> list_all (\<lambda>x. has_type x t) xs | _ \<Rightarrow> False)"
| "has_type v (TDict t) = (case v of PDict d \<Rightarrow> list_all (\<lambda>(k, x). has_type x t) d | _ \<Rightarrow> False)"

type_synonym schema = "(string \<times> pytype) list"

definition conforms :: "schema \<Rightarrow> pydict \<Rightarrow> bool" where
  "conforms sch d =
     list_all (\<lambda>(k, v). case map_of sch k of None \<Rightarrow> True | Some t \<Rightarrow> has_type v t) d"

lemma has_type_strE: "has_type v TStr \<Longrightarrow> (\<And>s. v = PStr s \<Longrightarrow> P) \<Longrightarrow> P"
  by (auto split: pyval.splits)

lemma has_type_boolE: "has_type v TBool \<Longrightarrow> (\<And>b. v = PBool b \<Longrightarrow> P) \<Longrightarrow> P"
  by (auto split: pyval.splits)

lemma has_type_int_py_int: "has_type v TInt \<Longrightarrow> returns (py_int v)"
  by (auto split: pyval.splits)

lemma has_type_opt_str_in: "has_type v (TOpt TStr) \<Longrightarrow> returns (in_strs v xs)"
  by (auto split: pyval.splits)

lemma has_type_opt_str_py_str: "has_type v (TOpt TStr) \<Longrightarrow> returns (py_str v)"
  by (auto split: pyval.splits)

lemma has_type_opt_opt: "has_type v (TOpt (TOpt t)) \<Longrightarrow> has_type v (TOpt t)"
  by auto

lemma has_type_lit_str: "has_type v (TLit xs) \<Longrightarrow> has_type v TStr"
  by (auto split: pyval.splits)

lemma has_type_dict_or_empty: "has_type v (TOpt (TDict t)) \<Longrightarrow> returns (dict_or_empty v)"
  by (auto simp: dict_or_empty_def por_def split: pyval.splits)

lemma has_type_list_or_empty: "has_type v (TOpt (TList t)) \<Longrightarrow> returns (list_or_empty v)"
  by (auto simp: list_or_empty_def por_def split: pyval.splits)

lemma dict_or_empty_dict [simp]: "dict_or_empty (PDict d) = Inr d"
  by (cases d) (auto simp: dict_or_empty_def por_def)

lemma dict_or_empty_None [simp]: "dict_or_empty PNone = Inr []"
  by (simp add: dict_or_empty_def por_def)

lemma list_or_empty_list [simp]: "list_or_empty (PList xs) = Inr xs"
  by (cases xs) (auto simp: list_or_empty_def por_def)

lemma list_or_empty_None [simp]: "list_or_empty PNone = Inr []"
  by (simp add: list_or_empty_def por_def)

text \<open>A conforming dictionary: reading, writing and merging.\<close>

lemma conforms_Nil [simp]: "conforms sch []"
  by (simp add: conforms_def)

lemma conforms_Cons:
  "conforms sch ((k, v) # d) \<longleftrightarrow>
     (case map_of sch k of None \<Rightarrow> True | Some t \<Rightarrow> has_type v t) \<and> conforms sch d"
  by (simp add: conforms_def)

lemma conforms_map_of:
  "conforms sch d \<Longrightarrow> map_of d k = Some v \<Longrightarrow> map_of sch k = Some t \<Longrightarrow> has_type v t"
  by (induction d) (auto simp: conforms_Cons split: if_splits)

lemma conforms_get:
  "conforms sch d \<Longrightarrow> map_of sch k = Some t \<Longrightarrow> has_type (get d k) (TOpt t)"
  by (auto simp: get_def dest: conforms_map_of split: option.splits)

lemma conforms_getd:
  "conforms sch d \<Longrightarrow> map_of sch k = Some t \<Longrightarrow> has_type x t \<Longrightarrow> has_type (getd d k x) t"
  by (auto simp: getd_def dest: conforms_map_of split: option.splits)

lemma conforms_subset: "set d \<subseteq> set e \<Longrightarrow> conforms sch e \<Longrightarrow> conforms sch d"
  by (auto simp: conforms_def list_all_iff)

lemma conforms_append [simp]: "conforms sch (a @ b) \<longleftrightarrow> conforms sch a \<and> conforms sch b"
  by (simp add: conforms_def)

lemma conforms_dmerge: "conforms sch a \<Longrightarrow> conforms sch b \<Longrightarrow> conforms sch (dmerge a b)"
  by (rule conforms_subset[of _ "a @ b"]) (use set_dmerge_subset in auto)

end
