(* ===== verification/StateSchema.thy ===== *)
theory StateSchema
  imports PyValue
begin

text \<open>
  The workflow state of \<open>graph/state.py\<close>: the literal types, the \<open>TypedDict\<close>
  \<open>SoftwareFactoryState\<close> as a schema (field name and declared type, in the order of the
  class), and \<open>create_initial_state\<close> as the dictionary it returns. The class and the
  dictionary are cut into twelve consecutive pieces each, at the same fields.

  A state is \<open>wf_state\<close> when every declared field it holds has the declared type; a field
  may be missing (\<open>total=False\<close>) and undeclared keys are not constrained. The lemmas give
  the type of a field that is read and the preservation of \<open>wf_state\<close> by the merge that
  applies a node's updates.
\<close>

section \<open>Declared fields\<close>

definition WorkflowIntent_t :: pytype where
  "WorkflowIntent_t = TLit [''create_project'', ''review_existing_project'']"

definition RepairPhase_t :: pytype where
  "RepairPhase_t = TLit [''not_started'', ''read_failing_test'', ''read_related_source'', ''apply_fix'', ''rerun_tests'', ''completed'']"

definition DeveloperKnowledgeState_t :: pytype where
  "DeveloperKnowledgeState_t = TLit [''not_started'', ''available'', ''empty'', ''unavailable'']"

definition PlannerKnowledgeState_t :: pytype where
  "PlannerKnowledgeState_t = TLit [''not_started'', ''available'', ''empty'', ''unavailable'']"

definition QAKnowledgeState_t :: pytype where
  "QAKnowledgeState_t = TLit [''not_started'', ''available'', ''empty'', ''unavailable'']"

definition RepairKnowledgeState_t :: pytype where
  "RepairKnowledgeState_t = TLit [''not_started'', ''available'', ''empty'', ''unavailable'']"

definition WorkflowLearningState_t :: pytype where
  "WorkflowLearningState_t = TLit [''not_started'', ''extracted'', ''submitted'', ''partial'', ''unavailable'']"

definition TerminalStatus_t :: pytype where
  "TerminalStatus_t = TLit [''pending'', ''completed'', ''infrastructure_failed'', ''tests_failed'', ''repair_limit_reached'', ''user_cancelled'', ''planning_failed'', ''implementation_failed'', ''ci_failed'', ''supervisor_loop_detected'']"

definition PendingOperation_t :: pytype where
  "PendingOperation_t = TLit [''create_project'', ''prepare_environment'', ''run_tests'', ''apply_fix'', ''git_commit'', ''planning_risk_approval'', ''git_merge'']"

definition PendingApprovalStatus_t :: pytype where
  "PendingApprovalStatus_t = TLit [''none'', ''waiting'', ''approved'', ''rejected'']"

definition schema_plan :: schema where
  "schema_plan =
    [(''workflow_id'', TStr),
     (''original_user_message'', TStr),
     (''workflow_intent'', WorkflowIntent_t),
     (''project_name'', TOpt TStr),
     (''planning_result'', TDict TAny),
     (''implementation_result'', TDict TAny),
     (''testing_result'', TDict TAny),
     (''analysis_completed'', TBool),
     (''tasks_created'', TBool),
     (''requirement_analysis'', TOpt (TDict TAny)),
     (''acceptance_criteria'', TList (TDict TAny)),
     (''implementation_tasks'', TList (TDict TAny)),
     (''planning_valid'', TBool),
     (''planning_errors'', TList TStr),
     (''planning_attempts'', TInt),
     (''max_planning_attempts'', TInt),
     (''planning_failure_reason'', TOpt TStr),
     (''planning_execution_order'', TList TInt),
     (''planning_dependency_edges'', TList (TDict TInt))]"

definition schema_plan_risk :: schema where
  "schema_plan_risk =
    [(''planning_risk_score'', TOpt TInt),
     (''planning_risk_level'', TOpt TStr),
     (''planning_risk_reasons'', TList TStr),
     (''planning_sensitive_tasks'', TList (TDict TAny)),
     (''planning_impact_areas'', TList TStr),
     (''planning_approval_required'', TBool),
     (''planning_approval_reason'', TOpt TStr),
     (''planning_approval_status'', TOpt (TLit [''not_required'', ''awaiting_approval'', ''approved'', ''rejected''])),
     (''planning_approval_id'', TOpt TStr),
     (''planning_policy_decision'', TOpt (TLit [''allow'', ''require_approval''])),
     (''planning_approval_fingerprint'', TOpt TStr),
     (''planning_quality_score'', TOpt TInt),
     (''planning_quality_level'', TOpt TStr),
     (''planning_quality_dimensions'', TDict TInt),
     (''planning_quality_issues'', TList TStr),
     (''planning_decision_confidence'', TOpt TFloat),
     (''planning_quality_version'', TOpt TStr),
     (''planning_quality_gate_decision'', TOpt (TLit [''continue'', ''refine'', ''fail''])),
     (''planning_quality_gate_reason'', TOpt TStr),
     (''planning_quality_refinement_required'', TBool),
     (''planning_quality_refinement_attempts'', TInt),
     (''planning_quality_previous_score'', TOpt TInt),
     (''planning_quality_score_delta'', TOpt TInt),
     (''planning_quality_refinement_guidance'', TList TStr)]"

definition schema_plan_judge :: schema where
  "schema_plan_judge =
    [(''planning_evaluation'', TDict TAny),
     (''planning_evaluation_version'', TOpt TStr),
     (''planning_evaluation_outcome'', TOpt TStr),
     (''planning_outcome_score'', TOpt TInt),
     (''planning_quality_prediction_error'', TOpt TFloat),
     (''planning_quality_prediction_absolute_error'', TOpt TFloat),
     (''planning_confidence_error'', TOpt TFloat),
     (''planning_confidence_absolute_error'', TOpt TFloat),
     (''planning_confidence_calibration'', TOpt TStr),
     (''planning_risk_observed_severity'', TOpt TStr),
     (''planning_risk_calibration'', TOpt TStr),
     (''planning_refinement_effective'', TOpt TBool),
     (''planning_quality_gate_false_positive'', TBool),
     (''planning_quality_gate_false_negative'', TBool),
     (''planning_judge_status'', TOpt (TLit [''disabled'', ''completed'', ''unavailable''])),
     (''planning_judge_result'', TOpt (TDict TAny)),
     (''planning_judge_model'', TOpt TStr),
     (''planning_judge_version'', TOpt TStr),
     (''planning_judge_evaluated_at'', TOpt TStr),
     (''planning_judge_plan_fingerprint'', TOpt TStr),
     (''planning_judge_disagreement'', TOpt (TDict TAny)),
     (''planning_hybrid_evaluation'', TDict TAny),
     (''planning_hybrid_evaluation_version'', TOpt TStr),
     (''planning_judge_calibration_status'', TOpt TStr),
     (''planning_judge_calibration'', TOpt (TDict TAny)),
     (''planning_judge_calibration_version'', TOpt TStr)]"

definition schema_plan_score :: schema where
  "schema_plan_score =
    [(''planning_judge_score'', TOpt TFloat),
     (''planning_judge_score_error'', TOpt TFloat),
     (''planning_judge_score_absolute_error'', TOpt TFloat),
     (''planning_judge_confidence'', TOpt TFloat),
     (''planning_judge_confidence_error'', TOpt TFloat),
     (''planning_judge_confidence_absolute_error'', TOpt TFloat),
     (''planning_hybrid_calibration_status'', TOpt TStr),
     (''planning_hybrid_calibration'', TOpt (TDict TAny)),
     (''planning_hybrid_prediction_error'', TOpt TFloat),
     (''planning_hybrid_absolute_error'', TOpt TFloat),
     (''planning_deterministic_prediction_error'', TOpt TFloat),
     (''planning_deterministic_absolute_error'', TOpt TFloat),
     (''agent_performance_evaluations'', TDict TAny),
     (''agent_performance_version'', TOpt TStr),
     (''failure_attribution'', TDict TAny),
     (''failure_attribution_version'', TOpt TStr),
     (''planner_knowledge_query'', TOpt TStr),
     (''planner_knowledge_retrieval_id'', TOpt TStr),
     (''planner_knowledge_context'', TOpt TStr),
     (''planner_knowledge_sources'', TList (TDict TAny)),
     (''planner_knowledge_state'', PlannerKnowledgeState_t),
     (''planner_knowledge_retrieval_used'', TBool),
     (''planner_retrieved_context_count'', TInt),
     (''planner_knowledge_context_tokens'', TInt)]"

definition schema_impl :: schema where
  "schema_impl =
    [(''implementation_valid'', TBool),
     (''implementation_errors'', TList TStr),
     (''resolved_validation_errors'', TList TStr),
     (''remaining_validation_errors'', TList TStr),
     (''refinement_input_errors'', TList TStr),
     (''implementation_attempts'', TInt),
     (''max_implementation_attempts'', TInt),
     (''generated_package_name'', TOpt TStr),
     (''generated_files'', TList TStr),
     (''collectable_test_count'', TInt),
     (''test_functions'', TList TStr),
     (''implementation_failure_reason'', TOpt TStr),
     (''project_implementation'', TOpt (TDict TAny)),
     (''developer_knowledge_query'', TOpt TStr),
     (''developer_knowledge_retrieval_id'', TOpt TStr),
     (''developer_knowledge_context'', TOpt TStr),
     (''developer_knowledge_sources'', TList (TDict TAny)),
     (''developer_knowledge_state'', DeveloperKnowledgeState_t),
     (''knowledge_context_state'', DeveloperKnowledgeState_t),
     (''knowledge_retrieval_used'', TBool),
     (''retrieved_context_count'', TInt),
     (''knowledge_context_tokens'', TInt),
     (''retrieval_id'', TOpt TStr),
     (''dependency_policy_applied'', TBool),
     (''normalized_dependency_file'', TOpt TStr),
     (''dependency_policy_errors'', TList TStr),
     (''dependency_normalization_attempts'', TInt)]"

definition schema_workspace :: schema where
  "schema_workspace =
    [(''workspace_inspected'', TBool),
     (''project_created'', TBool),
     (''project_exists'', TBool),
     (''created_project_name'', TOpt TStr),
     (''detected_test_framework'', TOpt TStr),
     (''expected_test_command'', TOpt (TList TStr)),
     (''environment_prepared'', TBool),
     (''dependencies_installed'', TBool),
     (''environment_python'', TOpt TStr),
     (''installed_fastapi_version'', TOpt TStr),
     (''installed_starlette_version'', TOpt TStr),
     (''tests_executed'', TBool),
     (''tests_passed'', TBool),
     (''qa_knowledge_query'', TOpt TStr),
     (''qa_knowledge_retrieval_id'', TOpt TStr),
     (''qa_knowledge_context'', TOpt TStr),
     (''qa_knowledge_sources'', TList (TDict TAny)),
     (''qa_knowledge_state'', QAKnowledgeState_t),
     (''qa_knowledge_retrieval_used'', TBool),
     (''qa_retrieved_context_count'', TInt),
     (''qa_knowledge_context_tokens'', TInt),
     (''repair_knowledge_query'', TOpt TStr),
     (''repair_knowledge_retrieval_id'', TOpt TStr),
     (''repair_knowledge_context'', TOpt TStr),
     (''repair_knowledge_sources'', TList (TDict TAny)),
     (''repair_knowledge_state'', RepairKnowledgeState_t),
     (''repair_knowledge_retrieval_used'', TBool),
     (''repair_retrieved_context_count'', TInt),
     (''repair_knowledge_context_tokens'', TInt)]"

definition schema_testing :: schema where
  "schema_testing =
    [(''test_infrastructure_failed'', TBool),
     (''retry_limit_reached'', TBool),
     (''user_cancelled'', TBool),
     (''terminal_status'', TOpt TerminalStatus_t),
     (''test_warning_count'', TOpt TInt),
     (''actual_test_command'', TOpt (TList TStr)),
     (''failure_type'', TOpt TStr),
     (''failure_stage'', TOpt TStr),
     (''failure_message'', TOpt TStr),
     (''test_stdout'', TOpt TStr),
     (''test_stderr'', TOpt TStr),
     (''test_failure_summary'', TOpt TStr)]"

definition schema_repair :: schema where
  "schema_repair =
    [(''repair_phase'', RepairPhase_t),
     (''repair_attempts'', TInt),
     (''repair_decision'', TOpt TStr),
     (''repair_before'', TOpt TStr),
     (''repair_after'', TOpt TStr),
     (''failing_test_files'', TList TStr),
     (''files_read_during_repair'', TList TStr),
     (''files_updated_during_repair'', TList TStr),
     (''first_test_result_summary'', TOpt TStr),
     (''final_test_result_summary'', TOpt TStr),
     (''failing_test_content'', TOpt TStr),
     (''related_source_content'', TOpt TStr),
     (''related_source_file'', TOpt TStr),
     (''related_source_candidates'', TList TStr),
     (''related_source_read_attempts'', TInt)]"

definition schema_approval :: schema where
  "schema_approval =
    [(''pending_operation'', TOpt PendingOperation_t),
     (''pending_tool_name'', TOpt TStr),
     (''pending_tool_arguments'', TOpt (TDict TAny)),
     (''pending_approval_preview'', TOpt (TDict TAny)),
     (''pending_approval_status'', PendingApprovalStatus_t),
     (''approval_reason'', TOpt TStr),
     (''last_approved_tool'', TOpt TStr),
     (''last_rejected_tool'', TOpt TStr),
     (''fork_origin_checkpoint_id'', TOpt TStr),
     (''fork_reason'', TOpt TStr),
     (''fork_updated_fields'', TList TStr),
     (''fork_lineage'', TOpt (TLit [''fork'']))]"

definition schema_supervisor :: schema where
  "schema_supervisor =
    [(''supervisor_decision'', TOpt TStr),
     (''supervisor_reason'', TOpt TStr),
     (''supervisor_confidence'', TOpt TFloat),
     (''supervisor_decision_source'', TOpt TStr),
     (''supervisor_attempts'', TInt),
     (''max_supervisor_attempts'', TInt),
     (''allowed_handoffs'', TList TStr),
     (''handoff_history'', TList (TDict TAny)),
     (''supervisor_errors'', TList TStr),
     (''supervisor_invalid_decision_count'', TInt),
     (''consecutive_invalid_decisions'', TInt),
     (''supervisor_stagnant_loop_probe_count'', TInt),
     (''supervisor_stagnant_loop_fingerprint'', TOpt (TDict TAny)),
     (''supervisor_stagnant_loop_active'', TBool),
     (''last_completed_stage'', TOpt TStr),
     (''last_completed_node'', TOpt TStr),
     (''workflow_learning_candidates'', TList (TDict TAny)),
     (''workflow_learning_submission_results'', TList (TDict TAny)),
     (''workflow_learning_state'', WorkflowLearningState_t),
     (''final_response'', TStr)]"

definition schema_git :: schema where
  "schema_git =
    [(''git_state'', TLit [''not_initialized'', ''ready'', ''changes_staged'', ''awaiting_approval'', ''committed'', ''rejected'', ''unavailable'']),
     (''git_repository'', TBool),
     (''git_base_branch'', TOpt TStr),
     (''git_base_commit'', TOpt TStr),
     (''git_branch'', TOpt TStr),
     (''git_head_commit'', TOpt TStr),
     (''git_staged_files'', TList TStr),
     (''git_commit_preview'', TOpt (TDict TAny)),
     (''git_commit_approval_id'', TOpt TStr),
     (''git_commit_status'', TOpt TStr),
     (''git_workflow_state'', TStr),
     (''git_workflow_branch'', TOpt TStr),
     (''git_developer_commit_sha'', TOpt TStr),
     (''git_repair_commit_sha'', TOpt TStr),
     (''git_commit_history'', TList (TDict TAny)),
     (''git_commit_phase'', TOpt (TLit [''implementation'', ''repair''])),
     (''git_integration_enabled'', TBool),
     (''git_promotion_state'', TStr),
     (''git_promotion_id'', TOpt TStr),
     (''git_promotion_preview'', TOpt (TDict TAny)),
     (''git_promotion_approval_id'', TOpt TStr),
     (''git_promotion_result_commit'', TOpt TStr),
     (''git_promotion_strategy'', TOpt TStr),
     (''git_promotion_conflicts'', TList TStr),
     (''git_auto_prepare_promotion'', TBool),
     (''git_promotion_required'', TBool)]"

definition schema_ci :: schema where
  "schema_ci =
    [(''ci_state'', TStr),
     (''ci_run_id'', TOpt TStr),
     (''ci_status'', TOpt TStr),
     (''ci_decision'', TOpt TStr),
     (''ci_validated_commit'', TOpt TStr),
     (''ci_failure_type'', TOpt TStr),
     (''ci_failure_message'', TOpt TStr),
     (''ci_gate_summary'', TDict TAny),
     (''ci_promotion_eligible'', TOpt TBool),
     (''ci_promotion_eligibility'', TOpt (TDict TAny)),
     (''ci_promotion_required'', TBool),
     (''ci_promotion_allow_warnings'', TBool),
     (''ci_repair_state'', TStr),
     (''ci_repair_attempts'', TInt),
     (''ci_repair_failure_type'', TOpt TStr),
     (''ci_repair_failure_message'', TOpt TStr),
     (''ci_repair_source_run_id'', TOpt TStr),
     (''ci_repair_source_commit'', TOpt TStr),
     (''ci_repair_target_commit'', TOpt TStr),
     (''ci_repair_repairability'', TOpt (TDict TAny)),
     (''ci_repair_lineage'', TList (TDict TAny)),
     (''ci_repair_enabled'', TBool),
     (''ci_repair_max_attempts'', TInt)]"

definition state_schema :: "schema list" where
  "state_schema =
    [schema_plan,
     schema_plan_risk,
     schema_plan_judge,
     schema_plan_score,
     schema_impl,
     schema_workspace,
     schema_testing,
     schema_repair,
     schema_approval,
     schema_supervisor,
     schema_git,
     schema_ci]"

lemmas literal_types =
  WorkflowIntent_t_def RepairPhase_t_def DeveloperKnowledgeState_t_def PlannerKnowledgeState_t_def
  QAKnowledgeState_t_def RepairKnowledgeState_t_def WorkflowLearningState_t_def TerminalStatus_t_def
  PendingOperation_t_def PendingApprovalStatus_t_def

section \<open>The initial state\<close>

definition initial_plan :: "string \<Rightarrow> pydict" where
  "initial_plan user_message =
    [(''original_user_message'', PStr user_message),
     (''workflow_intent'', PStr ''create_project''),
     (''project_name'', PNone),
     (''planning_result'', PDict []),
     (''implementation_result'', PDict []),
     (''testing_result'', PDict []),
     (''analysis_completed'', PBool False),
     (''tasks_created'', PBool False),
     (''requirement_analysis'', PNone),
     (''acceptance_criteria'', PList []),
     (''implementation_tasks'', PList []),
     (''planning_valid'', PBool False),
     (''planning_errors'', PList []),
     (''planning_attempts'', PInt 0),
     (''max_planning_attempts'', PInt 2),
     (''planning_failure_reason'', PNone),
     (''planning_execution_order'', PList []),
     (''planning_dependency_edges'', PList [])]"

definition initial_plan_risk :: "pydict" where
  "initial_plan_risk =
    [(''planning_risk_score'', PNone),
     (''planning_risk_level'', PNone),
     (''planning_risk_reasons'', PList []),
     (''planning_sensitive_tasks'', PList []),
     (''planning_impact_areas'', PList []),
     (''planning_approval_required'', PBool False),
     (''planning_approval_reason'', PNone),
     (''planning_approval_status'', PStr ''not_required''),
     (''planning_approval_id'', PNone),
     (''planning_policy_decision'', PNone),
     (''planning_approval_fingerprint'', PNone),
     (''planning_quality_score'', PNone),
     (''planning_quality_level'', PNone),
     (''planning_quality_dimensions'', PDict []),
     (''planning_quality_issues'', PList []),
     (''planning_decision_confidence'', PNone),
     (''planning_quality_version'', PNone),
     (''planning_quality_gate_decision'', PNone),
     (''planning_quality_gate_reason'', PNone),
     (''planning_quality_refinement_required'', PBool False),
     (''planning_quality_refinement_attempts'', PInt 0),
     (''planning_quality_previous_score'', PNone),
     (''planning_quality_score_delta'', PNone),
     (''planning_quality_refinement_guidance'', PList [])]"

definition initial_plan_judge :: "pydict" where
  "initial_plan_judge =
    [(''planning_evaluation'', PDict []),
     (''planning_evaluation_version'', PNone),
     (''planning_evaluation_outcome'', PNone),
     (''planning_outcome_score'', PNone),
     (''planning_quality_prediction_error'', PNone),
     (''planning_quality_prediction_absolute_error'', PNone),
     (''planning_confidence_error'', PNone),
     (''planning_confidence_absolute_error'', PNone),
     (''planning_confidence_calibration'', PNone),
     (''planning_risk_observed_severity'', PNone),
     (''planning_risk_calibration'', PNone),
     (''planning_refinement_effective'', PNone),
     (''planning_quality_gate_false_positive'', PBool False),
     (''planning_quality_gate_false_negative'', PBool False),
     (''planning_judge_status'', PNone),
     (''planning_judge_result'', PNone),
     (''planning_judge_model'', PNone),
     (''planning_judge_version'', PNone),
     (''planning_judge_evaluated_at'', PNone),
     (''planning_judge_plan_fingerprint'', PNone),
     (''planning_judge_disagreement'', PNone),
     (''planning_hybrid_evaluation'', PDict []),
     (''planning_hybrid_evaluation_version'', PNone),
     (''planning_judge_calibration_status'', PNone),
     (''planning_judge_calibration'', PNone),
     (''planning_judge_calibration_version'', PNone)]"

definition initial_plan_score :: "pydict" where
  "initial_plan_score =
    [(''planning_judge_score'', PNone),
     (''planning_judge_score_error'', PNone),
     (''planning_judge_score_absolute_error'', PNone),
     (''planning_judge_confidence'', PNone),
     (''planning_judge_confidence_error'', PNone),
     (''planning_judge_confidence_absolute_error'', PNone),
     (''planning_hybrid_calibration_status'', PNone),
     (''planning_hybrid_calibration'', PNone),
     (''planning_hybrid_prediction_error'', PNone),
     (''planning_hybrid_absolute_error'', PNone),
     (''planning_deterministic_prediction_error'', PNone),
     (''planning_deterministic_absolute_error'', PNone),
     (''agent_performance_evaluations'', PDict []),
     (''agent_performance_version'', PNone),
     (''failure_attribution'', PDict []),
     (''failure_attribution_version'', PNone),
     (''planner_knowledge_query'', PNone),
     (''planner_knowledge_retrieval_id'', PNone),
     (''planner_knowledge_context'', PNone),
     (''planner_knowledge_sources'', PList []),
     (''planner_knowledge_state'', PStr ''not_started''),
     (''planner_knowledge_retrieval_used'', PBool False),
     (''planner_retrieved_context_count'', PInt 0),
     (''planner_knowledge_context_tokens'', PInt 0)]"

definition initial_impl :: "pydict" where
  "initial_impl =
    [(''implementation_valid'', PBool False),
     (''implementation_errors'', PList []),
     (''resolved_validation_errors'', PList []),
     (''remaining_validation_errors'', PList []),
     (''refinement_input_errors'', PList []),
     (''implementation_attempts'', PInt 0),
     (''max_implementation_attempts'', PInt 2),
     (''generated_package_name'', PNone),
     (''generated_files'', PList []),
     (''collectable_test_count'', PInt 0),
     (''test_functions'', PList []),
     (''implementation_failure_reason'', PNone),
     (''project_implementation'', PNone),
     (''developer_knowledge_query'', PNone),
     (''developer_knowledge_retrieval_id'', PNone),
     (''developer_knowledge_context'', PNone),
     (''developer_knowledge_sources'', PList []),
     (''developer_knowledge_state'', PStr ''not_started''),
     (''knowledge_context_state'', PStr ''not_started''),
     (''knowledge_retrieval_used'', PBool False),
     (''retrieved_context_count'', PInt 0),
     (''knowledge_context_tokens'', PInt 0),
     (''retrieval_id'', PNone),
     (''dependency_policy_applied'', PBool False),
     (''normalized_dependency_file'', PNone),
     (''dependency_policy_errors'', PList []),
     (''dependency_normalization_attempts'', PInt 0)]"

definition initial_workspace :: "pydict" where
  "initial_workspace =
    [(''workspace_inspected'', PBool False),
     (''project_created'', PBool False),
     (''project_exists'', PBool False),
     (''created_project_name'', PNone),
     (''detected_test_framework'', PNone),
     (''expected_test_command'', PNone),
     (''environment_prepared'', PBool False),
     (''dependencies_installed'', PBool False),
     (''environment_python'', PNone),
     (''installed_fastapi_version'', PNone),
     (''installed_starlette_version'', PNone),
     (''tests_executed'', PBool False),
     (''tests_passed'', PBool False),
     (''qa_knowledge_query'', PNone),
     (''qa_knowledge_retrieval_id'', PNone),
     (''qa_knowledge_context'', PNone),
     (''qa_knowledge_sources'', PList []),
     (''qa_knowledge_state'', PStr ''not_started''),
     (''qa_knowledge_retrieval_used'', PBool False),
     (''qa_retrieved_context_count'', PInt 0),
     (''qa_knowledge_context_tokens'', PInt 0),
     (''repair_knowledge_query'', PNone),
     (''repair_knowledge_retrieval_id'', PNone),
     (''repair_knowledge_context'', PNone),
     (''repair_knowledge_sources'', PList []),
     (''repair_knowledge_state'', PStr ''not_started''),
     (''repair_knowledge_retrieval_used'', PBool False),
     (''repair_retrieved_context_count'', PInt 0),
     (''repair_knowledge_context_tokens'', PInt 0)]"

definition initial_testing :: "pydict" where
  "initial_testing =
    [(''test_infrastructure_failed'', PBool False),
     (''retry_limit_reached'', PBool False),
     (''user_cancelled'', PBool False),
     (''terminal_status'', PNone),
     (''test_warning_count'', PNone),
     (''actual_test_command'', PNone),
     (''failure_type'', PNone),
     (''failure_stage'', PNone),
     (''failure_message'', PNone),
     (''test_stdout'', PNone),
     (''test_stderr'', PNone),
     (''test_failure_summary'', PNone)]"

definition initial_repair :: "pydict" where
  "initial_repair =
    [(''repair_phase'', PStr ''not_started''),
     (''repair_attempts'', PInt 0),
     (''repair_decision'', PNone),
     (''repair_before'', PNone),
     (''repair_after'', PNone),
     (''failing_test_files'', PList []),
     (''files_read_during_repair'', PList []),
     (''files_updated_during_repair'', PList []),
     (''first_test_result_summary'', PNone),
     (''final_test_result_summary'', PNone),
     (''failing_test_content'', PNone),
     (''related_source_content'', PNone),
     (''related_source_file'', PNone),
     (''related_source_candidates'', PList []),
     (''related_source_read_attempts'', PInt 0)]"

definition initial_approval :: "pydict" where
  "initial_approval =
    [(''pending_operation'', PNone),
     (''pending_tool_name'', PNone),
     (''pending_tool_arguments'', PNone),
     (''pending_approval_preview'', PNone),
     (''pending_approval_status'', PStr ''none''),
     (''approval_reason'', PNone),
     (''last_approved_tool'', PNone),
     (''last_rejected_tool'', PNone),
     (''fork_origin_checkpoint_id'', PNone),
     (''fork_reason'', PNone),
     (''fork_updated_fields'', PList []),
     (''fork_lineage'', PNone)]"

definition initial_supervisor :: "pydict" where
  "initial_supervisor =
    [(''supervisor_decision'', PNone),
     (''supervisor_reason'', PNone),
     (''supervisor_confidence'', PNone),
     (''supervisor_decision_source'', PNone),
     (''supervisor_attempts'', PInt 0),
     (''max_supervisor_attempts'', PInt 3),
     (''allowed_handoffs'', PList []),
     (''handoff_history'', PList []),
     (''supervisor_errors'', PList []),
     (''supervisor_invalid_decision_count'', PInt 0),
     (''consecutive_invalid_decisions'', PInt 0),
     (''supervisor_stagnant_loop_probe_count'', PInt 0),
     (''supervisor_stagnant_loop_fingerprint'', PNone),
     (''supervisor_stagnant_loop_active'', PBool False),
     (''last_completed_stage'', PNone),
     (''last_completed_node'', PNone),
     (''workflow_learning_candidates'', PList []),
     (''workflow_learning_submission_results'', PList []),
     (''workflow_learning_state'', PStr ''not_started''),
     (''final_response'', PStr [])]"

definition initial_git :: "pydict" where
  "initial_git =
    [(''git_state'', PStr ''not_initialized''),
     (''git_repository'', PBool False),
     (''git_base_branch'', PNone),
     (''git_base_commit'', PNone),
     (''git_branch'', PNone),
     (''git_head_commit'', PNone),
     (''git_staged_files'', PList []),
     (''git_commit_preview'', PNone),
     (''git_commit_approval_id'', PNone),
     (''git_commit_status'', PNone),
     (''git_workflow_state'', PStr ''not_initialized''),
     (''git_workflow_branch'', PNone),
     (''git_developer_commit_sha'', PNone),
     (''git_repair_commit_sha'', PNone),
     (''git_commit_history'', PList []),
     (''git_commit_phase'', PNone),
     (''git_integration_enabled'', PBool False),
     (''git_promotion_state'', PStr ''not_started''),
     (''git_promotion_id'', PNone),
     (''git_promotion_preview'', PNone),
     (''git_promotion_approval_id'', PNone),
     (''git_promotion_result_commit'', PNone),
     (''git_promotion_strategy'', PNone),
     (''git_promotion_conflicts'', PList []),
     (''git_auto_prepare_promotion'', PBool False),
     (''git_promotion_required'', PBool False)]"

definition initial_ci :: "pydict" where
  "initial_ci =
    [(''ci_state'', PStr ''not_started''),
     (''ci_run_id'', PNone),
     (''ci_status'', PNone),
     (''ci_decision'', PNone),
     (''ci_validated_commit'', PNone),
     (''ci_failure_type'', PNone),
     (''ci_failure_message'', PNone),
     (''ci_gate_summary'', PDict []),
     (''ci_promotion_eligible'', PNone),
     (''ci_promotion_eligibility'', PNone),
     (''ci_promotion_required'', PBool False),
     (''ci_promotion_allow_warnings'', PBool True),
     (''ci_repair_state'', PStr ''not_required''),
     (''ci_repair_attempts'', PInt 0),
     (''ci_repair_failure_type'', PNone),
     (''ci_repair_failure_message'', PNone),
     (''ci_repair_source_run_id'', PNone),
     (''ci_repair_source_commit'', PNone),
     (''ci_repair_target_commit'', PNone),
     (''ci_repair_repairability'', PNone),
     (''ci_repair_lineage'', PList []),
     (''ci_repair_enabled'', PBool False),
     (''ci_repair_max_attempts'', PInt 2)]"

definition create_initial_state :: "string \<Rightarrow> pydict" where
  "create_initial_state user_message =
     initial_plan user_message @ initial_plan_risk @ initial_plan_judge @ initial_plan_score
     @ initial_impl @ initial_workspace @ initial_testing @ initial_repair @ initial_approval
     @ initial_supervisor @ initial_git @ initial_ci"

section \<open>Well-typed states\<close>

definition wf_state :: "pydict \<Rightarrow> bool" where
  "wf_state s = list_all (\<lambda>sch. conforms sch s) state_schema"

lemma wf_state_piece: "wf_state s \<Longrightarrow> sch \<in> set state_schema \<Longrightarrow> conforms sch s"
  by (simp add: wf_state_def list_all_iff)

lemma wf_state_Nil [simp]: "wf_state []"
  by (simp add: wf_state_def list_all_iff)

lemma wf_state_dmerge: "wf_state s \<Longrightarrow> wf_state u \<Longrightarrow> wf_state (dmerge s u)"
  by (simp add: wf_state_def list_all_iff conforms_dmerge)

lemma wf_state_Cons:
  "wf_state ((k, v) # s) \<longleftrightarrow>
     list_all (\<lambda>sch. case map_of sch k of None \<Rightarrow> True | Some t \<Rightarrow> has_type v t) state_schema
     \<and> wf_state s"
  by (auto simp: wf_state_def list_all_iff conforms_Cons)

lemma wf_state_pieces [simp]:
  "schema_plan \<in> set state_schema"
  "schema_plan_risk \<in> set state_schema"
  "schema_plan_judge \<in> set state_schema"
  "schema_plan_score \<in> set state_schema"
  "schema_impl \<in> set state_schema"
  "schema_workspace \<in> set state_schema"
  "schema_testing \<in> set state_schema"
  "schema_repair \<in> set state_schema"
  "schema_approval \<in> set state_schema"
  "schema_supervisor \<in> set state_schema"
  "schema_git \<in> set state_schema"
  "schema_ci \<in> set state_schema"
  by (simp_all add: state_schema_def)

text \<open>The type of a field that is read, from the piece of the class that declares it.\<close>

lemma field_get:
  assumes "wf_state s" "sch \<in> set state_schema" "map_of sch k = Some t"
  shows "has_type (get s k) (TOpt t)"
  using conforms_get[OF wf_state_piece[OF assms(1,2)] assms(3)] .

lemma field_getd:
  assumes "wf_state s" "sch \<in> set state_schema" "map_of sch k = Some t" "has_type x t"
  shows "has_type (getd s k x) t"
  using conforms_getd[OF wf_state_piece[OF assms(1,2)] assms(3,4)] .

end
