(* ===== verification/SupervisorGuards.thy ===== *)
theory SupervisorGuards
  imports StateSchema
begin

text \<open>
  \<open>graph/supervisor/guards.py\<close> and \<open>graph/supervisor/models.py\<close>: the targets a supervisor
  can hand the workflow to, the fingerprint of the progress made so far, the predicates on
  the state, the handoffs a state allows, the handoff that policy makes mandatory, the safe
  fallback and the detection of a loop of handoffs without progress.
\<close>

section \<open>Targets\<close>

datatype SupervisorTarget =
  PLANNING | INSPECT_WORKSPACE | IMPLEMENTATION | TESTING_REPAIR | GIT_WORKFLOW | CI_PIPELINE
| GIT_PROMOTION | FINALIZE

fun target_value :: "SupervisorTarget \<Rightarrow> string" where
  "target_value PLANNING = ''planning''"
| "target_value INSPECT_WORKSPACE = ''inspect_workspace''"
| "target_value IMPLEMENTATION = ''implementation''"
| "target_value TESTING_REPAIR = ''testing_repair''"
| "target_value GIT_WORKFLOW = ''git_workflow''"
| "target_value CI_PIPELINE = ''ci_pipeline''"
| "target_value GIT_PROMOTION = ''git_promotion''"
| "target_value FINALIZE = ''finalize''"

definition all_targets :: "SupervisorTarget list" where
  "all_targets = [PLANNING, INSPECT_WORKSPACE, IMPLEMENTATION, TESTING_REPAIR, GIT_WORKFLOW,
                  CI_PIPELINE, GIT_PROMOTION, FINALIZE]"

text \<open>\<open>SupervisorTarget(s)\<close>: the member with that value, \<open>ValueError\<close> when there is none.\<close>

definition target_of :: "string \<Rightarrow> exn + SupervisorTarget" where
  "target_of s = (case find (\<lambda>t. target_value t = s) all_targets of
                    None \<Rightarrow> Inl (ValueError s) | Some t \<Rightarrow> Inr t)"

lemma target_of_value [simp]: "target_of (target_value t) = Inr t"
  by (cases t) (simp_all add: target_of_def all_targets_def)

lemma target_value_inject: "target_value t = target_value u \<longleftrightarrow> t = u"
  by (metis Inr_inject target_of_value)

definition GIT_WORKSPACE_PREPARED_STATES :: "string list" where
  "GIT_WORKSPACE_PREPARED_STATES =
    [''workspace_prepared'', ''ready'', ''awaiting_approval'', ''committed'', ''no_changes'',
     ''unavailable'']"

definition GIT_FINAL_STATES :: "string list" where
  "GIT_FINAL_STATES = [''committed'', ''no_changes'', ''unavailable'']"

definition GIT_PROMOTION_TERMINAL_STATES :: "string list" where
  "GIT_PROMOTION_TERMINAL_STATES =
    [''completed'', ''rejected'', ''conflicts'', ''unavailable'', ''already_promoted'']"

section \<open>Progress fingerprint\<close>

record SupervisorProgressFingerprint =
  fp_current_stage :: string
  fp_planning_valid :: bool
  fp_planning_attempts :: int
  fp_workspace_inspected :: bool
  fp_implementation_valid :: bool
  fp_implementation_attempts :: int
  fp_project_created :: bool
  fp_environment_prepared :: bool
  fp_tests_executed :: bool
  fp_tests_passed :: bool
  fp_repair_phase :: string
  fp_repair_attempts :: int
  fp_git_workflow_state :: string
  fp_git_commit_status :: pyval
  fp_ci_state :: string
  fp_ci_validated_commit :: pyval

definition as_serializable :: "SupervisorProgressFingerprint \<Rightarrow> pydict" where
  "as_serializable f =
    [(''current_stage'', PStr (fp_current_stage f)),
     (''planning_valid'', PBool (fp_planning_valid f)),
     (''planning_attempts'', PInt (fp_planning_attempts f)),
     (''workspace_inspected'', PBool (fp_workspace_inspected f)),
     (''implementation_valid'', PBool (fp_implementation_valid f)),
     (''implementation_attempts'', PInt (fp_implementation_attempts f)),
     (''project_created'', PBool (fp_project_created f)),
     (''environment_prepared'', PBool (fp_environment_prepared f)),
     (''tests_executed'', PBool (fp_tests_executed f)),
     (''tests_passed'', PBool (fp_tests_passed f)),
     (''repair_phase'', PStr (fp_repair_phase f)),
     (''repair_attempts'', PInt (fp_repair_attempts f)),
     (''git_workflow_state'', PStr (fp_git_workflow_state f)),
     (''git_commit_status'', fp_git_commit_status f),
     (''ci_state'', PStr (fp_ci_state f)),
     (''ci_validated_commit'', fp_ci_validated_commit f)]"

text \<open>
  The grouped result \<open>r\<close> wins over the flat field: \<open>r.get(key, state.get(flat, default))\<close>.
\<close>

definition grouped :: "pydict \<Rightarrow> string \<Rightarrow> pydict \<Rightarrow> string \<Rightarrow> pyval \<Rightarrow> pyval" where
  "grouped r key s flat dflt = getd r key (getd s flat dflt)"

definition supervisor_progress_fingerprint :: "pydict \<Rightarrow> exn + SupervisorProgressFingerprint" where
  "supervisor_progress_fingerprint state =
    bind (py_str (por (get state ''last_completed_stage'')
                   (por (get state ''last_completed_node'') (PStr ''intent'')))) (\<lambda>current_stage.
    bind (dict_or_empty (get state ''planning_result'')) (\<lambda>planning.
    bind (py_int (grouped planning ''attempts'' state ''planning_attempts'' (PInt 0)))
      (\<lambda>planning_attempts.
    bind (dict_or_empty (get state ''implementation_result'')) (\<lambda>implementation.
    bind (py_int (grouped implementation ''attempts'' state ''implementation_attempts'' (PInt 0)))
      (\<lambda>implementation_attempts.
    bind (dict_or_empty (get state ''testing_result'')) (\<lambda>testing.
    bind (py_str (grouped testing ''repair_phase'' state ''repair_phase'' (PStr ''not_started'')))
      (\<lambda>repair_phase.
    bind (py_int (grouped testing ''repair_attempts'' state ''repair_attempts'' (PInt 0)))
      (\<lambda>repair_attempts.
    bind (py_str (getd state ''git_workflow_state'' (PStr ''not_initialized'')))
      (\<lambda>git_workflow_state.
    bind (py_str (getd state ''ci_state'' (PStr ''not_started''))) (\<lambda>ci_state.
    Inr \<lparr>fp_current_stage = current_stage,
         fp_planning_valid = truthy (grouped planning ''valid'' state ''planning_valid'' (PBool False)),
         fp_planning_attempts = planning_attempts,
         fp_workspace_inspected = truthy (get state ''workspace_inspected''),
         fp_implementation_valid =
           truthy (grouped implementation ''valid'' state ''implementation_valid'' (PBool False)),
         fp_implementation_attempts = implementation_attempts,
         fp_project_created =
           truthy (grouped implementation ''project_created'' state ''project_created'' (PBool False)),
         fp_environment_prepared =
           truthy (grouped implementation ''environment_prepared'' state ''environment_prepared''
             (PBool False)),
         fp_tests_executed =
           truthy (grouped testing ''tests_executed'' state ''tests_executed'' (PBool False)),
         fp_tests_passed = truthy (grouped testing ''tests_passed'' state ''tests_passed'' (PBool False)),
         fp_repair_phase = repair_phase,
         fp_repair_attempts = repair_attempts,
         fp_git_workflow_state = git_workflow_state,
         fp_git_commit_status = get state ''git_commit_status'',
         fp_ci_state = ci_state,
         fp_ci_validated_commit = get state ''ci_validated_commit''\<rparr>))))))))))"

section \<open>Predicates on the state\<close>

definition approval_blocks_supervisor :: "pydict \<Rightarrow> bool" where
  "approval_blocks_supervisor state = (get state ''pending_approval_status'' = PStr ''waiting'')"

definition planning_valid :: "pydict \<Rightarrow> exn + bool" where
  "planning_valid state =
    bind (dict_or_empty (get state ''planning_result'')) (\<lambda>planning.
      Inr (truthy (grouped planning ''valid'' state ''planning_valid'' (PBool False))))"

definition implementation_valid :: "pydict \<Rightarrow> exn + bool" where
  "implementation_valid state =
    bind (dict_or_empty (get state ''implementation_result'')) (\<lambda>implementation.
      Inr (truthy (grouped implementation ''valid'' state ''implementation_valid'' (PBool False))))"

definition project_available :: "pydict \<Rightarrow> exn + bool" where
  "project_available state =
    bind (dict_or_empty (get state ''implementation_result'')) (\<lambda>implementation.
      Inr (truthy (por (grouped implementation ''project_created'' state ''project_created'' (PBool False))
                       (get state ''project_exists''))))"

definition environment_prepared :: "pydict \<Rightarrow> exn + bool" where
  "environment_prepared state =
    bind (dict_or_empty (get state ''implementation_result'')) (\<lambda>implementation.
      Inr (truthy (grouped implementation ''environment_prepared'' state ''environment_prepared''
                    (PBool False))))"

definition tests_executed :: "pydict \<Rightarrow> exn + bool" where
  "tests_executed state =
    bind (dict_or_empty (get state ''testing_result'')) (\<lambda>testing.
      Inr (truthy (grouped testing ''tests_executed'' state ''tests_executed'' (PBool False))))"

definition tests_passed :: "pydict \<Rightarrow> exn + bool" where
  "tests_passed state =
    bind (dict_or_empty (get state ''testing_result'')) (\<lambda>testing.
      Inr (truthy (grouped testing ''tests_passed'' state ''tests_passed'' (PBool False))))"

definition git_workspace_prepared :: "pydict \<Rightarrow> exn + bool" where
  "git_workspace_prepared state =
    (if \<not> truthy (get state ''git_integration_enabled'') then Inr True
     else andM (in_strs (get state ''git_workflow_state'') GIT_WORKSPACE_PREPARED_STATES)
               (Inr (truthy (get state ''git_workflow_branch''))))"

definition git_commit_complete :: "pydict \<Rightarrow> exn + bool" where
  "git_commit_complete state =
    (if \<not> truthy (get state ''git_integration_enabled'') then Inr True
     else let repair_commit_pending =
                truthy (get state ''git_developer_commit_sha'')
                \<and> truthy (get state ''files_updated_during_repair'')
                \<and> \<not> truthy (get state ''git_repair_commit_sha'')
          in andM (in_strs (get state ''git_workflow_state'') GIT_FINAL_STATES)
                  (Inr (\<not> repair_commit_pending)))"

definition promotion_complete :: "pydict \<Rightarrow> exn + bool" where
  "promotion_complete state =
    (if \<not> truthy (get state ''git_promotion_required'') then Inr True
     else in_strs (get state ''git_promotion_state'') [''completed'', ''already_promoted''])"

definition ci_required :: "pydict \<Rightarrow> bool" where
  "ci_required state =
    (truthy (get state ''git_integration_enabled'') \<and> truthy (get state ''ci_promotion_required''))"

definition git_target_commit :: "pydict \<Rightarrow> pyval" where
  "git_target_commit state =
    por (get state ''git_repair_commit_sha'')
      (por (get state ''git_developer_commit_sha'') (get state ''git_head_commit''))"

definition ci_valid_for_commit :: "pydict \<Rightarrow> exn + bool" where
  "ci_valid_for_commit state =
    (if \<not> ci_required state then Inr True
     else let target = git_target_commit state in
       if truthy target \<and> py_eq (get state ''ci_validated_commit'') target
          \<and> get state ''ci_promotion_eligible'' = PBool True
       then in_strs (get state ''ci_decision'') [''accepted'', ''accepted_with_warnings'']
       else Inr False)"

section \<open>Allowed handoffs\<close>

text \<open>The branch of \<open>determine_allowed_handoffs\<close> for a workflow whose tests pass.\<close>

definition handoffs_tests_passed :: "pydict \<Rightarrow> exn + SupervisorTarget list" where
  "handoffs_tests_passed state =
    (let git_on = truthy (get state ''git_integration_enabled'') in
     ifM (andM (Inr git_on) (notM (git_commit_complete state)))
       (Inr [GIT_WORKFLOW])
    (ifM (andM (Inr git_on) (andM (git_commit_complete state) (notM (ci_valid_for_commit state))))
       (Inr [CI_PIPELINE])
    (ifM (andM (Inr (truthy (get state ''git_auto_prepare_promotion'')
                     \<and> get state ''git_workflow_state'' = PStr ''committed''))
           (andM (ci_valid_for_commit state)
             (notM (in_strs (get state ''git_promotion_state'') GIT_PROMOTION_TERMINAL_STATES))))
       (Inr [GIT_PROMOTION])
    (ifM (andM (git_workspace_prepared state)
           (andM (git_commit_complete state) (promotion_complete state)))
       (Inr [FINALIZE])
    (if git_on then Inr [GIT_WORKFLOW] else Inr [FINALIZE])))))"

text \<open>The stages after planning and the inspection of the workspace.\<close>

definition handoffs_build :: "pydict \<Rightarrow> exn + SupervisorTarget list" where
  "handoffs_build state =
    bind (project_available state) (\<lambda>available.
    ifM (andM (Inr (truthy (get state ''git_integration_enabled'') \<and> available))
           (notM (git_workspace_prepared state)))
      (Inr [GIT_WORKFLOW])
   (ifM (andM (environment_prepared state) (notM (tests_executed state)))
      (Inr [TESTING_REPAIR])
   (ifM (andM (tests_executed state) (notM (tests_passed state)))
      (ifM (andM (Inr (\<not> truthy (get state ''retry_limit_reached'')
                       \<and> \<not> truthy (get state ''test_infrastructure_failed'')))
             (bind (py_int (getd state ''repair_attempts'' (PInt 0))) (\<lambda>n. Inr (n < 2))))
         (Inr [TESTING_REPAIR])
         (Inr [FINALIZE]))
   (ifM (andM (environment_prepared state)
           (Inr (truthy (get state ''detected_test_framework'') \<and> available)))
      (Inr [TESTING_REPAIR])
   (bind (py_int (getd state ''implementation_attempts'' (PInt 0))) (\<lambda>attempts.
    bind (py_int (getd state ''max_implementation_attempts'' (PInt 2))) (\<lambda>maximum.
      if attempts < maximum then Inr [IMPLEMENTATION] else Inr [FINALIZE])))))))"

definition planning_started :: "pydict \<Rightarrow> bool" where
  "planning_started state =
    truthy (por (get state ''planning_result'')
             (por (getd state ''planning_attempts'' (PInt 0)) (get state ''planning_valid'')))"

definition determine_allowed_handoffs :: "pydict \<Rightarrow> exn + SupervisorTarget list" where
  "determine_allowed_handoffs state =
    (if get state ''terminal_status'' \<noteq> PNone then Inr [FINALIZE]
     else if approval_blocks_supervisor state then Inr []
     else ifM (tests_passed state) (handoffs_tests_passed state)
    (if truthy (get state ''test_infrastructure_failed'') then Inr [FINALIZE]
     else let intent = get state ''workflow_intent'';
              review = (intent = PStr ''review_existing_project'') in
     if review \<and> \<not> truthy (get state ''workspace_inspected'') then Inr [INSPECT_WORKSPACE]
     else if \<not> review \<and> \<not> planning_started state then Inr [PLANNING]
     else ifM (andM (Inr (\<not> review)) (notM (planning_valid state)))
       (bind (py_int (getd state ''planning_attempts'' (PInt 0))) (\<lambda>attempts.
        bind (py_int (getd state ''max_planning_attempts'' (PInt 2))) (\<lambda>maximum.
          if attempts < maximum then Inr [PLANNING] else Inr [FINALIZE])))
    (if \<not> truthy (get state ''workspace_inspected'') then Inr [INSPECT_WORKSPACE]
     else handoffs_build state)))"

definition resolve_mandatory_handoff ::
  "pydict \<Rightarrow> SupervisorTarget list \<Rightarrow> SupervisorTarget option" where
  "resolve_mandatory_handoff state allowed_handoffs =
    (if approval_blocks_supervisor state then None
     else if get state ''terminal_status'' \<noteq> PNone then Some FINALIZE
     else if allowed_handoffs = [] then None
     else let non_terminal = filter (\<lambda>t. t \<noteq> FINALIZE) allowed_handoffs in
       if length non_terminal = 1 then Some (non_terminal ! 0)
       else if allowed_handoffs = [FINALIZE] then Some FINALIZE
       else None)"

fun safe_fallback_target :: "SupervisorTarget list \<Rightarrow> SupervisorTarget" where
  "safe_fallback_target [] = FINALIZE"
| "safe_fallback_target (t # ts) = (if t \<noteq> FINALIZE then t else safe_fallback_target ts)"

section \<open>Loop detection\<close>

text \<open>\<open>len({...}) == 1\<close>: the elements must be hashable.\<close>

fun hashable :: "pyval \<Rightarrow> bool" where
  "hashable (PList _) = False"
| "hashable (PDict _) = False"
| "hashable _ = True"

definition one_value :: "pyval list \<Rightarrow> exn + bool" where
  "one_value vs =
    (if \<not> list_all hashable vs then Inl TypeError
     else Inr (case vs of [] \<Rightarrow> False | v # ws \<Rightarrow> list_all (py_eq v) ws))"

definition one_row :: "pyval list list \<Rightarrow> exn + bool" where
  "one_row vs =
    (if \<not> list_all (list_all hashable) vs then Inl TypeError
     else Inr (case vs of [] \<Rightarrow> False | v # ws \<Rightarrow> list_all (list_all2 py_eq v) ws))"

text \<open>
  The last three entries of the active branch: the same target, and the same progress
  fingerprint where all three have one (older checkpoints are compared on the counters of
  the target's stage instead).
\<close>

definition stagnant :: "pydict list \<Rightarrow> exn + bool" where
  "stagnant recent =
    (let targets = map (\<lambda>i. por (get i ''executed_to'') (get i ''to'')) recent;
         fingerprints = map (\<lambda>i. get i ''progress_fingerprint'') recent;
         target = targets ! 0 in
     ifM (notM (one_value targets)) (Inr False)
    (if list_all (\<lambda>f. f \<noteq> PNone) fingerprints
     then Inr (py_eq (fingerprints ! 0) (fingerprints ! 1)
               \<and> py_eq (fingerprints ! 1) (fingerprints ! 2))
     else if target = PStr (target_value PLANNING)
     then one_value (map (\<lambda>i. get i ''planning_attempts'') recent)
     else if target = PStr (target_value IMPLEMENTATION)
     then one_value (map (\<lambda>i. get i ''implementation_attempts'') recent)
     else if target = PStr (target_value TESTING_REPAIR)
     then one_row (map (\<lambda>i. [get i ''tests_executed'', get i ''tests_passed'',
                              get i ''repair_phase'', get i ''repair_attempts'']) recent)
     else Inr True))"

definition detect_supervisor_loop :: "pyval list \<Rightarrow> exn + bool" where
  "detect_supervisor_loop handoff_history =
    (if handoff_history = [] then Inr False
     else bind (as_dict (last handoff_history)) (\<lambda>latest.
       let latest_branch = get latest ''branch_id'' in
       bind (filterm (\<lambda>item. if latest_branch = PNone then Inr True
               else bind (as_dict item) (\<lambda>d.
                 Inr (py_eq (getd d ''branch_id'' (PStr ''original'')) latest_branch)))
             handoff_history) (\<lambda>active_history.
       if length active_history < 3 then Inr False
       else bind (mapm as_dict (drop (length active_history - 3) active_history)) stagnant)))"

section \<open>At most one handoff\<close>

lemma handoffs_tests_passed_single: "handoffs_tests_passed s = Inr ts \<Longrightarrow> \<exists>t. ts = [t]"
  by (auto simp: handoffs_tests_passed_def Let_def ifM_eq_Inr_iff split: if_splits)

lemma handoffs_build_single: "handoffs_build s = Inr ts \<Longrightarrow> \<exists>t. ts = [t]"
  by (auto simp: handoffs_build_def ifM_eq_Inr_iff bind_eq_Inr_iff split: if_splits)

lemma allowed_single:
  assumes "determine_allowed_handoffs s = Inr ts"
  shows "ts = [] \<or> (\<exists>t. ts = [t])"
  using assms
  by (auto simp: determine_allowed_handoffs_def Let_def ifM_eq_Inr_iff bind_eq_Inr_iff
           dest: handoffs_tests_passed_single handoffs_build_single split: if_splits)

lemma allowed_empty_iff:
  assumes "determine_allowed_handoffs s = Inr ts"
  shows "ts = [] \<longleftrightarrow> get s ''terminal_status'' = PNone \<and> approval_blocks_supervisor s"
  using assms
  by (auto simp: determine_allowed_handoffs_def Let_def ifM_eq_Inr_iff bind_eq_Inr_iff
           dest: handoffs_tests_passed_single handoffs_build_single split: if_splits)

lemma mandatory_of_allowed:
  assumes "determine_allowed_handoffs s = Inr ts" "\<not> approval_blocks_supervisor s"
  shows "\<exists>t. ts = [t] \<and> resolve_mandatory_handoff s ts = Some t"
proof -
  from assms obtain t where ts: "ts = [t]"
    using allowed_single allowed_empty_iff by blast
  show ?thesis
  proof (cases "get s ''terminal_status'' = PNone")
    case True
    with ts assms show ?thesis by (cases "t = FINALIZE") (auto simp: resolve_mandatory_handoff_def)
  next
    case False
    with assms ts show ?thesis
      by (auto simp: determine_allowed_handoffs_def resolve_mandatory_handoff_def)
  qed
qed

section \<open>No exception on a well-typed state\<close>

lemma handoff_field_types:
  "map_of schema_plan ''planning_result'' = Some (TDict TAny)"
  "map_of schema_plan ''implementation_result'' = Some (TDict TAny)"
  "map_of schema_plan ''testing_result'' = Some (TDict TAny)"
  "map_of schema_plan ''planning_attempts'' = Some (TInt)"
  "map_of schema_plan ''max_planning_attempts'' = Some (TInt)"
  "map_of schema_impl ''implementation_attempts'' = Some (TInt)"
  "map_of schema_impl ''max_implementation_attempts'' = Some (TInt)"
  "map_of schema_repair ''repair_attempts'' = Some (TInt)"
  "map_of schema_git ''git_workflow_state'' = Some (TStr)"
  "map_of schema_git ''git_promotion_state'' = Some (TStr)"
  "map_of schema_ci ''ci_decision'' = Some (TOpt TStr)"
  by (simp_all add: schema_plan_def schema_impl_def schema_repair_def schema_git_def schema_ci_def
        schema_plan_risk_def schema_workspace_def schema_testing_def)

lemma wf_result_dicts:
  assumes "wf_state s"
  shows "returns (dict_or_empty (get s ''planning_result''))"
    and "returns (dict_or_empty (get s ''implementation_result''))"
    and "returns (dict_or_empty (get s ''testing_result''))"
  using field_get[OF assms wf_state_pieces(1) handoff_field_types(1)]
    field_get[OF assms wf_state_pieces(1) handoff_field_types(2)]
    field_get[OF assms wf_state_pieces(1) handoff_field_types(3)]
  by (blast intro: has_type_dict_or_empty)+

lemma wf_handoff_ints:
  assumes "wf_state s"
  shows "returns (py_int (getd s ''planning_attempts'' (PInt n)))"
    and "returns (py_int (getd s ''max_planning_attempts'' (PInt n)))"
    and "returns (py_int (getd s ''implementation_attempts'' (PInt n)))"
    and "returns (py_int (getd s ''max_implementation_attempts'' (PInt n)))"
    and "returns (py_int (getd s ''repair_attempts'' (PInt n)))"
  using field_getd[OF assms wf_state_pieces(1) handoff_field_types(4), of "PInt n"]
    field_getd[OF assms wf_state_pieces(1) handoff_field_types(5), of "PInt n"]
    field_getd[OF assms wf_state_pieces(5) handoff_field_types(6), of "PInt n"]
    field_getd[OF assms wf_state_pieces(5) handoff_field_types(7), of "PInt n"]
    field_getd[OF assms wf_state_pieces(8) handoff_field_types(8), of "PInt n"]
  by (simp_all add: has_type_int_py_int)

lemma wf_handoff_strs:
  assumes "wf_state s"
  shows "returns (in_strs (get s ''git_workflow_state'') xs)"
    and "returns (in_strs (get s ''git_promotion_state'') xs)"
    and "returns (in_strs (get s ''ci_decision'') xs)"
  using field_get[OF assms wf_state_pieces(11) handoff_field_types(9)]
    field_get[OF assms wf_state_pieces(11) handoff_field_types(10)]
    field_get[OF assms wf_state_pieces(12) handoff_field_types(11)]
  by (blast intro: has_type_opt_str_in has_type_opt_opt)+

lemma wf_state_predicates:
  assumes "wf_state s"
  shows "returns (planning_valid s)" "returns (implementation_valid s)"
    "returns (project_available s)" "returns (environment_prepared s)"
    "returns (tests_executed s)" "returns (tests_passed s)"
    "returns (git_workspace_prepared s)" "returns (git_commit_complete s)"
    "returns (promotion_complete s)" "returns (ci_valid_for_commit s)"
  unfolding planning_valid_def implementation_valid_def project_available_def
    environment_prepared_def tests_executed_def tests_passed_def git_workspace_prepared_def
    git_commit_complete_def promotion_complete_def ci_valid_for_commit_def Let_def
  by (intro returns_intros wf_result_dicts[OF assms] wf_handoff_strs[OF assms])+

lemma wf_determine_total:
  assumes "wf_state s"
  shows "returns (determine_allowed_handoffs s)"
  unfolding determine_allowed_handoffs_def handoffs_tests_passed_def handoffs_build_def Let_def
  by (intro returns_intros wf_state_predicates[OF assms] wf_handoff_ints[OF assms]
        wf_handoff_strs[OF assms])

end
