(* ===== verification/SupervisorService.thy ===== *)
theory SupervisorService
  imports SupervisorGuards
begin

text \<open>
  The supervisor node: \<open>graph/supervisor/config.py\<close> (development hooks),
  \<open>adapters.py\<close> (the private input and the keys it may write back), \<open>validators.py\<close>,
  \<open>routers.py\<close> and \<open>service.py\<close> (the decision, the handoff history, the stagnant-loop
  probe, the node). The language model is the parameter \<open>ask\<close>: it maps the payload of a
  request to one of the outcomes the code distinguishes. The environment variables are a
  function from names to optional values. Printing and the copies that \<open>deepcopy\<close> makes have
  no effect on values and are left out.
\<close>

section \<open>Development configuration\<close>

record SupervisorDevelopmentConfig =
  development :: bool
  force_model_decision :: bool
  force_timeout :: bool
  force_invalid_target :: bool
  force_target :: "string option"
  force_stagnant_loop :: bool

definition default_config :: SupervisorDevelopmentConfig where
  "default_config =
    \<lparr>development = False, force_model_decision = False, force_timeout = False,
     force_invalid_target = False, force_target = None, force_stagnant_loop = False\<rparr>"

definition env_flag :: "(string \<Rightarrow> string option) \<Rightarrow> string \<Rightarrow> bool" where
  "env_flag env name =
    (casefold (strip (case env name of None \<Rightarrow> ''false'' | Some v \<Rightarrow> v))
       \<in> set [''1'', ''true'', ''yes'', ''on''])"

definition config_from_env ::
  "(string \<Rightarrow> string option) \<Rightarrow> exn + SupervisorDevelopmentConfig" where
  "config_from_env env =
    (if \<not> env_flag env ''LANGGRAPH_DEVELOPMENT'' then Inr default_config
     else
       let stripped = strip (case env ''SUPERVISOR_FORCE_TARGET'' of None \<Rightarrow> [] | Some v \<Rightarrow> v);
           forced_target = (if stripped = [] then None else Some stripped);
           config = \<lparr>development = True,
                     force_model_decision = env_flag env ''SUPERVISOR_FORCE_MODEL_DECISION'',
                     force_timeout = env_flag env ''SUPERVISOR_FORCE_TIMEOUT'',
                     force_invalid_target = env_flag env ''SUPERVISOR_FORCE_INVALID_TARGET'',
                     force_target = forced_target,
                     force_stagnant_loop = env_flag env ''SUPERVISOR_FORCE_STAGNANT_LOOP''\<rparr>;
           active_hooks = [force_timeout config, force_invalid_target config,
                           force_target config \<noteq> None, force_stagnant_loop config]
       in if length (filter id active_hooks) > 1
          then Inl (ValueError ''supervisor_development_config_conflict'')
          else Inr config)"

section \<open>Decisions and their validation\<close>

record SupervisorDecision =
  d_target :: string
  d_reason :: string
  d_confidence :: rat

text \<open>The constructor with the field constraints of the model class.\<close>

definition make_decision :: "string \<Rightarrow> string \<Rightarrow> rat \<Rightarrow> exn + SupervisorDecision" where
  "make_decision target reason confidence =
    bind (target_of target) (\<lambda>t.
      let r = strip reason in
      if r = [] \<or> length r > 500 then Inl (ValueError ''reason'')
      else if confidence < 0 \<or> confidence > 1 then Inl (ValueError ''confidence'')
      else Inr \<lparr>d_target = target_value t, d_reason = r, d_confidence = confidence\<rparr>)"

definition validate_supervisor_decision ::
  "SupervisorDecision \<Rightarrow> SupervisorTarget list \<Rightarrow> pydict option \<Rightarrow> string list" where
  "validate_supervisor_decision decision allowed_handoffs state_option =
    (let errors =
       (if d_target decision \<notin> set (map target_value allowed_handoffs)
        then [''target_not_allowed''] else [])
       @ (if strip (d_reason decision) = [] then [''supervisor_reason_missing''] else [])
       @ (if \<not> (0 \<le> d_confidence decision \<and> d_confidence decision \<le> 1)
          then [''supervisor_confidence_invalid''] else [])
     in case state_option of
          None \<Rightarrow> errors
        | Some state \<Rightarrow> dedupe (errors
            @ (if get state ''terminal_status'' \<noteq> PNone \<and> d_target decision \<noteq> target_value FINALIZE
               then [''supervisor_terminal_state_conflict''] else [])
            @ (if d_target decision = target_value TESTING_REPAIR
                  \<and> \<not> truthy (get state ''environment_prepared'')
               then [''supervisor_testing_environment_missing''] else [])
            @ (if d_target decision = target_value IMPLEMENTATION
                  \<and> get state ''workflow_intent'' \<noteq> PStr ''review_existing_project''
                  \<and> \<not> truthy (get state ''planning_valid'')
               then [''supervisor_implementation_without_plan''] else [])
            @ (if d_target decision = target_value PLANNING
                  \<and> get state ''workflow_intent'' = PStr ''review_existing_project''
               then [''supervisor_planning_not_allowed_for_review''] else [])
            @ (if approval_blocks_supervisor state
               then [''supervisor_approval_pending''] else [])))"

section \<open>Routing after the supervisor\<close>

definition route_after_supervisor :: "pydict \<Rightarrow> exn + string" where
  "route_after_supervisor state =
    (let value = get state ''supervisor_decision'' in
     if value = PStr ''supervisor_loop_probe'' \<and> truthy (get state ''supervisor_stagnant_loop_active'')
     then Inr ''supervisor_loop_probe''
     else bind (py_str value) (\<lambda>text.
       case target_of text of
         Inr t \<Rightarrow> Inr (target_value t)
       | Inl _ \<Rightarrow> Inr (target_value FINALIZE)))"

section \<open>The private state\<close>

fun count :: "pyval \<Rightarrow> int" where
  "count (PList xs) = int (length xs)"
| "count (PDict d) = int (length d)"
| "count _ = 0"

definition current_stage :: "pydict \<Rightarrow> exn + string" where
  "current_stage state =
    (let stage = get state ''last_completed_stage'' in
     if truthy stage then py_str stage
     else bind (py_str (por (get state ''last_completed_node'') (PStr []))) (\<lambda>last.
       if last \<in> set [''planning'', ''inspect_workspace'', ''implementation'', ''testing_repair'',
                      ''finalize''] then Inr last
       else if truthy (get state ''tests_executed'') then Inr ''testing_repair''
       else if truthy (get state ''environment_prepared'') \<or> truthy (get state ''implementation_valid'')
       then Inr ''implementation''
       else if truthy (get state ''workspace_inspected'') then Inr ''inspect_workspace''
       else if truthy (por (get state ''planning_valid'') (getd state ''planning_attempts'' (PInt 0)))
       then Inr ''planning''
       else Inr ''intent''))"

definition failure_or_stage :: "pydict \<Rightarrow> string \<Rightarrow> string list \<Rightarrow> exn + pyval" where
  "failure_or_stage state reason_key stages =
    (if truthy (get state reason_key) then Inr (get state reason_key)
     else bind (in_strs (get state ''failure_stage'') stages) (\<lambda>b.
       Inr (if b then get state ''failure_message'' else PNone)))"

definition planning_summary :: "pydict \<Rightarrow> pydict" where
  "planning_summary state =
    (let planning = mapping_of (get state ''planning_result'');
         planning_analysis = mapping_of (get planning ''analysis'');
         legacy_analysis = mapping_of (get state ''requirement_analysis'');
         functional = getd planning_analysis ''functional_requirements''
                        (getd legacy_analysis ''functional_requirements'' (PList []));
         acceptance = grouped planning ''acceptance_criteria'' state ''acceptance_criteria'' (PList []);
         tasks = grouped planning ''tasks'' state ''implementation_tasks'' (PList []);
         failure = (if truthy (get state ''planning_failure_reason'')
                    then get state ''planning_failure_reason''
                    else if get state ''failure_stage'' = PStr ''planning''
                    then get state ''failure_message'' else PNone)
     in [(''valid'', grouped planning ''valid'' state ''planning_valid'' (PBool False)),
             (''attempts'', grouped planning ''attempts'' state ''planning_attempts'' (PInt 0)),
             (''project_type'', getd planning_analysis ''project_type'' (get legacy_analysis ''project_type'')),
             (''functional_requirement_count'', PInt (count functional)),
             (''acceptance_criteria_count'', PInt (count acceptance)),
             (''task_count'', PInt (count tasks)),
             (''failure'', failure)])"

definition implementation_summary :: "pydict \<Rightarrow> pydict" where
  "implementation_summary state =
    (let implementation = mapping_of (get state ''implementation_result'');
         failure = (if truthy (get state ''implementation_failure_reason'')
                    then get state ''implementation_failure_reason''
                    else if get state ''failure_stage'' = PStr ''implementation''
                    then get state ''failure_message'' else PNone)
     in [(''valid'', grouped implementation ''valid'' state ''implementation_valid'' (PBool False)),
             (''attempts'', grouped implementation ''attempts'' state ''implementation_attempts'' (PInt 0)),
             (''project_created'',
                grouped implementation ''project_created'' state ''project_created'' (PBool False)),
             (''project_exists'', getd state ''project_exists'' (PBool False)),
             (''environment_prepared'',
                grouped implementation ''environment_prepared'' state ''environment_prepared'' (PBool False)),
             (''dependencies_installed'', getd state ''dependencies_installed'' (PBool False)),
             (''framework'', getd implementation ''framework'' (get state ''detected_test_framework'')),
             (''failure'', failure)])"

definition testing_summary :: "pydict \<Rightarrow> exn + pydict" where
  "testing_summary state =
    (let testing = mapping_of (get state ''testing_result'') in
     bind (failure_or_stage state ''test_failure_summary'' [''testing'', ''testing_repair'']) (\<lambda>failure.
     Inr [(''executed'', grouped testing ''tests_executed'' state ''tests_executed'' (PBool False)),
          (''passed'', grouped testing ''tests_passed'' state ''tests_passed'' (PBool False)),
          (''summary'', getd testing ''summary'' (get state ''final_test_result_summary'')),
          (''repair_phase'', grouped testing ''repair_phase'' state ''repair_phase'' (PStr ''not_started'')),
          (''repair_attempts'', grouped testing ''repair_attempts'' state ''repair_attempts'' (PInt 0)),
          (''failure'', failure)]))"

definition to_supervisor_input :: "pydict \<Rightarrow> exn + pydict" where
  "to_supervisor_input state =
    bind (py_str (por (get state ''original_user_message'') (PStr []))) (\<lambda>message.
    bind (py_str (por (get state ''created_project_name'') (por (get state ''project_name'') (PStr []))))
      (\<lambda>project.
    bind (py_str (por (get state ''workflow_intent'') (PStr []))) (\<lambda>intent.
    bind (testing_summary state) (\<lambda>testing.
    bind (current_stage state) (\<lambda>stage.
    bind (list_or_empty (get state ''allowed_handoffs'')) (\<lambda>allowed.
    bind (py_int (getd state ''supervisor_attempts'' (PInt 0))) (\<lambda>attempts.
    bind (py_int (getd state ''max_supervisor_attempts'' (PInt 3))) (\<lambda>max_attempts.
    bind (list_or_empty (get state ''supervisor_errors'')) (\<lambda>errors.
    bind (py_int (getd state ''supervisor_invalid_decision_count'' (PInt 0))) (\<lambda>invalid.
    bind (py_int (getd state ''consecutive_invalid_decisions'' (PInt 0))) (\<lambda>consecutive.
    bind (py_int (getd state ''supervisor_stagnant_loop_probe_count'' (PInt 0))) (\<lambda>probes.
    Inr [(''original_user_message'', PStr message), (''project_name'', PStr project),
         (''workflow_intent'', PStr intent), (''planning_summary'', PDict (planning_summary state)),
         (''implementation_summary'', PDict (implementation_summary state)), (''testing_summary'', PDict testing),
         (''current_stage'', PStr stage),
         (''last_completed_stage'',
            por (get state ''last_completed_stage'') (get state ''last_completed_node'')),
         (''allowed_handoffs'', PList allowed),
         (''supervisor_decision'', get state ''supervisor_decision''),
         (''supervisor_reason'', get state ''supervisor_reason''),
         (''supervisor_confidence'', get state ''supervisor_confidence''),
         (''supervisor_decision_source'', get state ''supervisor_decision_source''),
         (''supervisor_attempts'', PInt attempts), (''max_supervisor_attempts'', PInt max_attempts),
         (''supervisor_errors'', PList errors),
         (''supervisor_invalid_decision_count'', PInt invalid),
         (''consecutive_invalid_decisions'', PInt consecutive),
         (''supervisor_stagnant_loop_probe_count'', PInt probes),
         (''supervisor_stagnant_loop_fingerprint'', get state ''supervisor_stagnant_loop_fingerprint''),
         (''supervisor_stagnant_loop_active'',
            PBool (truthy (getd state ''supervisor_stagnant_loop_active'' (PBool False)))),
         (''handoff_history'', por (get state ''handoff_history'') (PList []))]))))))))))))"

definition SUPERVISOR_OUTPUT_KEYS :: "string list" where
  "SUPERVISOR_OUTPUT_KEYS =
    [''supervisor_decision'', ''supervisor_reason'', ''supervisor_confidence'',
     ''supervisor_decision_source'', ''supervisor_attempts'', ''allowed_handoffs'',
     ''handoff_history'', ''supervisor_errors'', ''supervisor_invalid_decision_count'',
     ''consecutive_invalid_decisions'', ''supervisor_stagnant_loop_probe_count'',
     ''supervisor_stagnant_loop_fingerprint'', ''supervisor_stagnant_loop_active'']"

definition from_supervisor_output :: "pydict \<Rightarrow> pydict" where
  "from_supervisor_output result =
    map (\<lambda>key. (key, get result key)) (filter (has_key result) SUPERVISOR_OUTPUT_KEYS)"

section \<open>The decision\<close>

text \<open>What a request to the language model can come back with.\<close>

datatype model_reply =
    ReplyTimeout
  | ReplyRaises string
  | ReplyIncomplete
  | ReplyRefused
  | ReplyEmpty
  | ReplyInvalid
  | ReplyDecision SupervisorDecision

definition decide ::
  "SupervisorDevelopmentConfig \<Rightarrow> (pydict \<Rightarrow> model_reply) \<Rightarrow> pydict \<Rightarrow>
   SupervisorTarget list \<Rightarrow> exn + SupervisorDecision" where
  "decide config ask state allowed_handoffs =
    (if development config \<and> force_timeout config then Inl TimeoutError
     else if development config \<and> force_invalid_target config
     then Inr \<lparr>d_target = ''deployment'', d_reason = ''Forced invalid target for development.'',
               d_confidence = 9/10\<rparr>
     else if development config \<and> force_target config \<notin> {None, Some []}
     then Inr \<lparr>d_target = the (force_target config),
               d_reason = ''Forced target '' @ the (force_target config) @ '' for development.'',
               d_confidence = 9/10\<rparr>
     else
       let payload =
         [(''objective'', get state ''original_user_message''),
          (''intent'', get state ''workflow_intent''),
          (''current_stage'', get state ''current_stage''),
          (''planning'', get state ''planning_summary''),
          (''implementation'', get state ''implementation_summary''),
          (''testing'', get state ''testing_summary''),
          (''allowed_handoffs'', pstrs (map target_value allowed_handoffs)),
          (''errors'', getd state ''supervisor_errors'' (PList []))]
       in case ask payload of
            ReplyTimeout \<Rightarrow> Inl TimeoutError
          | ReplyRaises message \<Rightarrow> Inl (ToolError message)
          | ReplyIncomplete \<Rightarrow> Inl (RuntimeError ''supervisor_output_incomplete'')
          | ReplyRefused \<Rightarrow> Inl (RuntimeError ''supervisor_refused'')
          | ReplyEmpty \<Rightarrow> Inl (RuntimeError ''supervisor_output_empty'')
          | ReplyInvalid \<Rightarrow> Inl (RuntimeError ''supervisor_output_invalid'')
          | ReplyDecision d \<Rightarrow> Inr d)"

section \<open>The handoff history\<close>

definition MAX_HANDOFF_HISTORY :: nat where
  "MAX_HANDOFF_HISTORY = 50"

fun is_int :: "pyval \<Rightarrow> bool" where
  "is_int (PInt _) = True"
| "is_int (PBool _) = True"
| "is_int _ = False"

definition next_sequence :: "pyval list \<Rightarrow> exn + int" where
  "next_sequence history =
    (if history = [] then Inr 1
     else bind (as_dict (last history)) (\<lambda>d.
       let last_sequence = getd d ''sequence'' (PInt (int (length history))) in
       if is_int last_sequence then bind (py_int last_sequence) (\<lambda>n. Inr (n + 1))
       else Inr (int (length history) + 1)))"

definition branch_of :: "pydict \<Rightarrow> exn + string" where
  "branch_of state =
    (if truthy (get state ''fork_origin_checkpoint_id'')
     then bind (py_str (get state ''fork_origin_checkpoint_id'')) (\<lambda>c. Inr (''fork:'' @ c))
     else Inr ''original'')"

definition handoff_entry ::
  "pydict \<Rightarrow> SupervisorTarget \<Rightarrow> string \<Rightarrow> string \<Rightarrow> rat \<Rightarrow> string option \<Rightarrow> string option \<Rightarrow>
   pydict option \<Rightarrow> bool option \<Rightarrow> exn + pydict" where
  "handoff_entry state target reason source confidence attempted_target selected_target
       progress_fingerprint progress_detected =
    bind (list_or_empty (get state ''handoff_history'')) (\<lambda>history.
    bind (next_sequence history) (\<lambda>sequence.
    bind (branch_of state) (\<lambda>branch_id.
    bind (case progress_fingerprint of
            Some (p # ps) \<Rightarrow> Inr (p # ps)
          | _ \<Rightarrow> bind (supervisor_progress_fingerprint state) (\<lambda>f. Inr (as_serializable f)))
      (\<lambda>fingerprint.
    bind (py_int (getd state ''planning_attempts'' (PInt 0))) (\<lambda>planning_attempts.
    bind (py_int (getd state ''implementation_attempts'' (PInt 0))) (\<lambda>implementation_attempts.
    bind (py_int (getd state ''repair_attempts'' (PInt 0))) (\<lambda>repair_attempts.
    let effective_target = target_value target;
        nonempty = (\<lambda>opt. case opt of Some (c # t) \<Rightarrow> c # t | _ \<Rightarrow> effective_target) in
    Inr ([(''sequence'', PInt sequence), (''from'', PStr ''supervisor''), (''to'', PStr effective_target),
          (''attempted_to'', PStr (nonempty attempted_target)),
          (''selected_to'', PStr (nonempty selected_target)),
          (''executed_to'', PStr effective_target), (''reason'', PStr reason),
          (''source'', PStr source), (''confidence'', PFloat confidence),
          (''progress_fingerprint'', PDict fingerprint)]
         @ (case progress_detected of None \<Rightarrow> [] | Some b \<Rightarrow> [(''progress_detected'', PBool b)])
         @ [(''branch_id'', PStr branch_id), (''planning_attempts'', PInt planning_attempts),
            (''implementation_attempts'', PInt implementation_attempts),
            (''tests_executed'', PBool (truthy (get state ''tests_executed''))),
            (''tests_passed'', PBool (truthy (get state ''tests_passed''))),
            (''repair_phase'', get state ''repair_phase''), (''repair_attempts'', PInt repair_attempts),
            (''lineage'', PStr (if truthy (get state ''fork_origin_checkpoint_id'')
                              then ''fork'' else ''original''))]))))))))"

definition keep_last :: "nat \<Rightarrow> 'a list \<Rightarrow> 'a list" where
  "keep_last n xs = drop (length xs - n) xs"

fun dedupe_values :: "pyval list \<Rightarrow> pyval list \<Rightarrow> pyval list" where
  "dedupe_values acc [] = acc"
| "dedupe_values acc (v # vs) =
     dedupe_values (if list_ex (py_eq v) acc then acc else acc @ [v]) vs"

definition unique_errors :: "pyval list \<Rightarrow> exn + pyval list" where
  "unique_errors errors =
    (if list_all hashable errors then Inr (dedupe_values [] errors) else Inl TypeError)"

definition loop_terminal_updates :: pydict where
  "loop_terminal_updates =
    [(''terminal_status'', PStr ''supervisor_loop_detected''),
     (''failure_type'', PStr ''supervisor_loop_detected''),
     (''failure_stage'', PStr ''supervisor''),
     (''failure_message'', PStr (''El Supervisor detect'' @ [CHR 0xF3] @
        '' un ciclo de handoffs sin progreso.''))]"

section \<open>The stagnant-loop probe\<close>

definition stagnant_loop_probe_updates ::
  "pydict \<Rightarrow> SupervisorTarget list \<Rightarrow> exn + pydict" where
  "stagnant_loop_probe_updates state allowed =
    (let target = PLANNING; stored = get state ''supervisor_stagnant_loop_fingerprint'' in
     bind (case stored of
             PDict d \<Rightarrow> Inr d
           | _ \<Rightarrow> bind (supervisor_progress_fingerprint state) (\<lambda>f. Inr (as_serializable f)))
       (\<lambda>fingerprint.
     bind (py_int (getd state ''supervisor_stagnant_loop_probe_count'' (PInt 0))) (\<lambda>probes.
     let probe_count = probes + 1 in
     bind (list_or_empty (get state ''handoff_history'')) (\<lambda>history.
     bind (handoff_entry state target ''Forced stagnant loop probe for development.''
             ''development_loop_probe'' 1 (Some (target_value target)) (Some (target_value target))
             (Some fingerprint) (Some False)) (\<lambda>entry.
     let history = keep_last MAX_HANDOFF_HISTORY (history @ [PDict entry]) in
     bind (detect_supervisor_loop history) (\<lambda>loop_detected.
     bind (list_or_empty (get state ''supervisor_errors'')) (\<lambda>errors.
     let errors = errors @ (if loop_detected then [PStr ''supervisor_loop_detected''] else []) in
     bind (py_int (getd state ''supervisor_attempts'' (PInt 0))) (\<lambda>attempts.
     bind (unique_errors errors) (\<lambda>unique.
     bind (py_int (getd state ''supervisor_invalid_decision_count'' (PInt 0))) (\<lambda>invalid.
     bind (py_int (getd state ''consecutive_invalid_decisions'' (PInt 0))) (\<lambda>consecutive.
     let output =
       [(''supervisor_decision'',
           PStr (if loop_detected then target_value FINALIZE else ''supervisor_loop_probe'')),
        (''supervisor_reason'',
           PStr (if loop_detected then ''Supervisor loop detected; finalizing safely.''
                 else ''Continue controlled stagnant-loop probe.'')),
        (''supervisor_confidence'', PFloat 1),
        (''supervisor_decision_source'', PStr ''development_loop_probe''),
        (''supervisor_attempts'', PInt attempts),
        (''allowed_handoffs'', pstrs (map target_value allowed)),
        (''handoff_history'', PList history), (''supervisor_errors'', PList unique),
        (''supervisor_invalid_decision_count'', PInt invalid),
        (''consecutive_invalid_decisions'', PInt consecutive),
        (''supervisor_stagnant_loop_probe_count'', PInt probe_count),
        (''supervisor_stagnant_loop_fingerprint'', PDict fingerprint),
        (''supervisor_stagnant_loop_active'', PBool (\<not> loop_detected))]
     in Inr (if loop_detected
             then dmerge (from_supervisor_output output) loop_terminal_updates
             else from_supervisor_output output))))))))))))"

section \<open>The node\<close>

record selection =
  sel_decision :: SupervisorDecision
  sel_source :: string
  sel_attempts :: int
  sel_errors :: "pyval list"
  sel_attempted :: "string option"
  sel_selected :: "string option"
  sel_invalid :: bool

text \<open>The text \<open>str(exc)\<close> of the exceptions that a decision can raise.\<close>

fun exn_text :: "exn \<Rightarrow> string" where
  "exn_text (RuntimeError s) = s"
| "exn_text (ValueError s) = s"
| "exn_text (ToolError s) = s"
| "exn_text (KeyError s) = s"
| "exn_text _ = []"

definition fallback_selection ::
  "SupervisorTarget list \<Rightarrow> string \<Rightarrow> int \<Rightarrow> pyval list \<Rightarrow> string option \<Rightarrow> bool \<Rightarrow> selection" where
  "fallback_selection allowed reason attempts errors attempted invalid =
    (let target = safe_fallback_target allowed in
     \<lparr>sel_decision = \<lparr>d_target = target_value target, d_reason = reason, d_confidence = 1\<rparr>,
      sel_source = ''fallback'', sel_attempts = attempts + 1, sel_errors = errors,
      sel_attempted = attempted, sel_selected = Some (target_value target), sel_invalid = invalid\<rparr>)"

definition model_selection ::
  "SupervisorDevelopmentConfig \<Rightarrow> (pydict \<Rightarrow> model_reply) \<Rightarrow> pydict \<Rightarrow> pydict \<Rightarrow>
   SupervisorTarget list \<Rightarrow> int \<Rightarrow> pyval list \<Rightarrow> selection" where
  "model_selection config ask state private_state allowed attempts errors =
    (case decide config ask private_state allowed of
       Inl TimeoutError \<Rightarrow>
         fallback_selection allowed ''Safe deterministic fallback after supervisor timeout.''
           attempts (errors @ [PStr ''supervisor_timeout'']) None False
     | Inl e \<Rightarrow>
         fallback_selection allowed ''Safe deterministic fallback after supervisor failure.''
           attempts (errors @ [PStr ''supervisor_decision_failed'', PStr (take 500 (exn_text e))])
           None False
     | Inr d \<Rightarrow>
         (let problems = validate_supervisor_decision d allowed (Some state) in
          if problems \<noteq> []
          then fallback_selection allowed
                 ''Safe deterministic fallback after an invalid supervisor decision.'' attempts
                 (errors @ PStr ''supervisor_invalid_decision'' # map PStr problems)
                 (Some (d_target d)) True
          else (case make_decision (d_target d) (d_reason d) (d_confidence d) of
                  Inr d' \<Rightarrow>
                    \<lparr>sel_decision = d', sel_source = ''model'', sel_attempts = attempts,
                     sel_errors = errors, sel_attempted = Some (d_target d),
                     sel_selected = Some (d_target d'), sel_invalid = False\<rparr>
                | Inl e \<Rightarrow>
                    fallback_selection allowed
                      ''Safe deterministic fallback after supervisor failure.'' attempts
                      (errors @ [PStr ''supervisor_decision_failed'', PStr (take 500 (exn_text e))])
                      (Some (d_target d)) False)))"

definition select_handoff ::
  "SupervisorDevelopmentConfig \<Rightarrow> (pydict \<Rightarrow> model_reply) \<Rightarrow> pydict \<Rightarrow> pydict \<Rightarrow>
   SupervisorTarget list \<Rightarrow> exn + selection" where
  "select_handoff config ask state private_state allowed =
    (let mandatory = resolve_mandatory_handoff state allowed;
         force_model = development config \<and> force_model_decision config \<and> length allowed \<ge> 2
                       \<and> mandatory \<notin> {Some TESTING_REPAIR, Some FINALIZE} in
     bind (list_or_empty (get state ''supervisor_errors'')) (\<lambda>errors.
     bind (py_int (getd state ''supervisor_attempts'' (PInt 0))) (\<lambda>attempts.
     bind (py_int (getd state ''max_supervisor_attempts'' (PInt 3))) (\<lambda>max_attempts.
     Inr (case mandatory of
            Some t \<Rightarrow>
              if \<not> force_model \<or> attempts \<ge> max_attempts
              then \<lparr>sel_decision = \<lparr>d_target = target_value t,
                      d_reason = ''Deterministic policy selected '' @ target_value t @ ''.'',
                      d_confidence = 1\<rparr>,
                    sel_source = ''deterministic'', sel_attempts = attempts, sel_errors = errors,
                    sel_attempted = Some (target_value t), sel_selected = Some (target_value t),
                    sel_invalid = False\<rparr>
              else model_selection config ask state private_state allowed attempts errors
          | None \<Rightarrow> model_selection config ask state private_state allowed attempts errors)))))"

text \<open>The entry that replaces the last one when a loop is detected.\<close>

definition loop_entry :: "pydict \<Rightarrow> string \<Rightarrow> exn + pydict" where
  "loop_entry state repeated_target =
    bind (handoff_entry state FINALIZE ''Supervisor loop detected; finalizing safely.''
            ''deterministic'' 1 (Some repeated_target) (Some (target_value FINALIZE)) None None)
      (\<lambda>entry.
    bind (list_or_empty (get state ''handoff_history'')) (\<lambda>previous.
    Inr (AList.update ''sequence'' (PInt (int (length previous) + 1)) entry)))"

definition supervisor_output ::
  "SupervisorDecision \<Rightarrow> string \<Rightarrow> int \<Rightarrow> SupervisorTarget list \<Rightarrow> pyval list \<Rightarrow> pyval list \<Rightarrow>
   int \<Rightarrow> int \<Rightarrow> pydict" where
  "supervisor_output decision source attempts allowed history errors invalid consecutive =
    [(''supervisor_decision'', PStr (d_target decision)),
     (''supervisor_reason'', PStr (d_reason decision)),
     (''supervisor_confidence'', PFloat (d_confidence decision)),
     (''supervisor_decision_source'', PStr source),
     (''supervisor_attempts'', PInt attempts),
     (''allowed_handoffs'', pstrs (map target_value allowed)),
     (''handoff_history'', PList history), (''supervisor_errors'', PList errors),
     (''supervisor_invalid_decision_count'', PInt invalid),
     (''consecutive_invalid_decisions'', PInt consecutive)]"

text \<open>The new entry is appended and the history cut to its bound.\<close>

definition record_handoff :: "pydict \<Rightarrow> selection \<Rightarrow> exn + pyval list" where
  "record_handoff state sel =
    bind (list_or_empty (get state ''handoff_history'')) (\<lambda>previous.
    bind (target_of (d_target (sel_decision sel))) (\<lambda>target.
    bind (handoff_entry state target (d_reason (sel_decision sel)) (sel_source sel)
            (d_confidence (sel_decision sel)) (sel_attempted sel) (sel_selected sel) None None) (\<lambda>entry.
    Inr (keep_last MAX_HANDOFF_HISTORY (previous @ [PDict entry])))))"

text \<open>With a loop detected, the decision becomes the safe end of the workflow.\<close>

definition resolve_loop ::
  "pydict \<Rightarrow> selection \<Rightarrow> pyval list \<Rightarrow>
   exn + (SupervisorDecision \<times> string \<times> pyval list \<times> pyval list \<times> pydict)" where
  "resolve_loop state sel history =
    bind (detect_supervisor_loop history) (\<lambda>loop_detected.
    if \<not> loop_detected
    then Inr (sel_decision sel, sel_source sel, history, sel_errors sel, [])
    else
      let repeated_target =
            (case sel_attempted sel of Some (c # t) \<Rightarrow> c # t | _ \<Rightarrow> d_target (sel_decision sel)) in
      bind (loop_entry state repeated_target) (\<lambda>replacement.
      Inr (\<lparr>d_target = target_value FINALIZE,
            d_reason = ''Supervisor loop detected; finalizing safely.'', d_confidence = 1\<rparr>,
           ''deterministic'', butlast history @ [PDict replacement],
           sel_errors sel @ [PStr ''supervisor_loop_detected''], loop_terminal_updates)))"

definition supervisor_updates ::
  "pydict \<Rightarrow> SupervisorTarget list \<Rightarrow> selection \<Rightarrow> exn + pydict" where
  "supervisor_updates state allowed sel =
    bind (record_handoff state sel) (\<lambda>recorded.
    bind (resolve_loop state sel recorded) (\<lambda>(decision, source, history, errors, terminal_updates).
    bind (unique_errors errors) (\<lambda>unique.
    bind (py_int (getd state ''supervisor_invalid_decision_count'' (PInt 0))) (\<lambda>invalid.
    bind (if sel_invalid sel
          then bind (py_int (getd state ''consecutive_invalid_decisions'' (PInt 0))) (\<lambda>n. Inr (n + 1))
          else Inr 0) (\<lambda>consecutive.
    Inr (dmerge (from_supervisor_output
           (supervisor_output decision source (sel_attempts sel) allowed history unique
              (invalid + (if sel_invalid sel then 1 else 0)) consecutive)) terminal_updates))))))"

definition supervisor_node ::
  "SupervisorDevelopmentConfig \<Rightarrow> (pydict \<Rightarrow> model_reply) \<Rightarrow> pydict \<Rightarrow> exn + pydict" where
  "supervisor_node config ask state =
    (if approval_blocks_supervisor state then Inr []
     else bind (to_supervisor_input state) (\<lambda>private_state.
          bind (determine_allowed_handoffs state) (\<lambda>allowed.
          if development config \<and> force_stagnant_loop config
          then stagnant_loop_probe_updates state allowed
          else bind (select_handoff config ask state private_state allowed)
                 (supervisor_updates state allowed))))"

section \<open>The model is never consulted\<close>

lemma select_handoff_deterministic:
  assumes "determine_allowed_handoffs s = Inr allowed" "\<not> approval_blocks_supervisor s"
    and "select_handoff config ask s inp allowed = Inr sel"
  shows "\<exists>t. allowed = [t] \<and> d_target (sel_decision sel) = target_value t
         \<and> sel_source sel = ''deterministic'' \<and> \<not> sel_invalid sel
         \<and> sel_attempted sel = Some (target_value t) \<and> sel_selected sel = Some (target_value t)"
proof -
  obtain t where t: "allowed = [t]" "resolve_mandatory_handoff s allowed = Some t"
    using mandatory_of_allowed[OF assms(1,2)] by blast
  then show ?thesis
    using assms(3) by (auto simp: select_handoff_def Let_def bind_eq_Inr_iff)
qed

lemma select_handoff_ignores_model:
  assumes "determine_allowed_handoffs s = Inr allowed" "\<not> approval_blocks_supervisor s"
  shows "select_handoff config ask s inp allowed = select_handoff config ask' s inp allowed"
proof -
  obtain t where t: "allowed = [t]" "resolve_mandatory_handoff s allowed = Some t"
    using mandatory_of_allowed[OF assms] by blast
  then show ?thesis by (simp add: select_handoff_def Let_def)
qed

section \<open>What the node writes\<close>

lemma keep_last_length: "length (keep_last n xs) \<le> n"
  by (simp add: keep_last_def)

lemma keep_last_snoc_ne: "0 < n \<Longrightarrow> keep_last n (xs @ [x]) \<noteq> []"
  by (simp add: keep_last_def)

lemma last_keep_last_snoc: "0 < n \<Longrightarrow> last (keep_last n (xs @ [x])) = x"
  by (simp add: keep_last_def)

lemma dict_ok_terminal_updates: "dict_ok loop_terminal_updates"
  by (simp add: loop_terminal_updates_def dict_ok_def)

text \<open>Every key of the node's updates is one it is allowed to write.\<close>

lemma from_supervisor_output_keys:
  "has_key (from_supervisor_output d) k \<Longrightarrow> k \<in> set SUPERVISOR_OUTPUT_KEYS"
  by (auto simp: from_supervisor_output_def has_key_fst_set)

lemma get_from_supervisor_output:
  "k \<in> set SUPERVISOR_OUTPUT_KEYS \<Longrightarrow> get (from_supervisor_output d) k = get d k"
proof -
  have "get (map (\<lambda>key. (key, get d key)) (filter (has_key d) ks)) k
        = (if k \<in> set ks then get d k else PNone)" for ks
    by (induction ks) (auto simp: get_no_key)
  then show "k \<in> set SUPERVISOR_OUTPUT_KEYS \<Longrightarrow> ?thesis"
    by (simp add: from_supervisor_output_def)
qed

lemma get_supervisor_output:
  "get (from_supervisor_output (supervisor_output d src att al h er bad con)) ''supervisor_decision''
     = PStr (d_target d)"
  "get (from_supervisor_output (supervisor_output d src att al h er bad con)) ''handoff_history''
     = PList h"
  "get (from_supervisor_output (supervisor_output d src att al h er bad con)) ''supervisor_errors''
     = PList er"
  "get (from_supervisor_output (supervisor_output d src att al h er bad con))
     ''supervisor_invalid_decision_count'' = PInt bad"
  "get (from_supervisor_output (supervisor_output d src att al h er bad con)) ''supervisor_attempts''
     = PInt att"
  by (simp_all add: get_from_supervisor_output SUPERVISOR_OUTPUT_KEYS_def)
     (simp_all add: supervisor_output_def)

lemma supervisor_output_no_terminal:
  "\<not> has_key (from_supervisor_output d) ''terminal_status''"
  using from_supervisor_output_keys[of d "''terminal_status''"]
  by (auto simp: SUPERVISOR_OUTPUT_KEYS_def)

lemma terminal_updates_keys:
  "has_key loop_terminal_updates ''terminal_status''"
  "get loop_terminal_updates ''terminal_status'' = PStr ''supervisor_loop_detected''"
  "\<not> has_key loop_terminal_updates ''supervisor_decision''"
  "\<not> has_key loop_terminal_updates ''handoff_history''"
  by (simp_all add: loop_terminal_updates_def)

end
