(* ===== verification/SupervisorProps.thy ===== *)
theory SupervisorProps
  imports SupervisorService
begin

text \<open>
  Properties of the supervisor: its node follows the deterministic policy and routes to the
  handoff the state allows, a loop without progress finalizes the workflow, the history stays
  bounded, promotion and finalization are tied to the validated commit, the node writes only
  its own keys, and nothing raises on a well-typed state.
\<close>

section \<open>Lemmas on the node\<close>

lemma target_value_neq_probe: "target_value t \<noteq> ''supervisor_loop_probe''"
  by (cases t) simp_all

lemma supervisor_node_cases:
  assumes "supervisor_node cfg ask s = Inr u" "\<not> approval_blocks_supervisor s"
    and "\<not> (development cfg \<and> force_stagnant_loop cfg)"
  obtains inp allowed sel t where
    "to_supervisor_input s = Inr inp" "determine_allowed_handoffs s = Inr allowed"
    "select_handoff cfg ask s inp allowed = Inr sel" "supervisor_updates s allowed sel = Inr u"
    "allowed = [t]" "d_target (sel_decision sel) = target_value t"
    "sel_attempted sel = Some (target_value t)" "\<not> sel_invalid sel"
proof -
  from assms obtain inp allowed sel where
    a: "to_supervisor_input s = Inr inp" "determine_allowed_handoffs s = Inr allowed"
      "select_handoff cfg ask s inp allowed = Inr sel" "supervisor_updates s allowed sel = Inr u"
    by (auto simp: supervisor_node_def bind_eq_Inr_iff)
  with select_handoff_deterministic[OF a(2) assms(2) a(3)] that show ?thesis by blast
qed

lemma handoff_entry_targets:
  assumes "handoff_entry s t reason src conf att sel fp pd = Inr e"
  shows "get e ''executed_to'' = PStr (target_value t)" "get e ''to'' = PStr (target_value t)"
  using assms by (auto simp: handoff_entry_def bind_eq_Inr_iff Let_def)

lemma handoff_entry_sequence:
  assumes "handoff_entry s t reason src conf att sel fp pd = Inr e"
    and "list_or_empty (get s ''handoff_history'') = Inr h"
  shows "\<exists>n. next_sequence h = Inr n \<and> get e ''sequence'' = PInt n"
  using assms by (auto simp: handoff_entry_def bind_eq_Inr_iff Let_def)

lemma loop_entry_facts:
  assumes "loop_entry s r = Inr e"
  shows "get e ''executed_to'' = PStr (target_value FINALIZE)"
    and "\<exists>h. list_or_empty (get s ''handoff_history'') = Inr h
             \<and> get e ''sequence'' = PInt (int (length h) + 1)"
  using assms by (auto simp: loop_entry_def bind_eq_Inr_iff dest: handoff_entry_targets)

text \<open>
  The two outcomes of the node, with the entry \<open>e\<close> for the handoff it is about to make at the
  end of the stored history \<open>h\<close>: the handoff, when this history holds no loop, or the safe end.
\<close>

definition continues_to :: "string \<Rightarrow> pyval list \<Rightarrow> pydict \<Rightarrow> pydict \<Rightarrow> bool" where
  "continues_to value h e u \<longleftrightarrow>
    (detect_supervisor_loop (keep_last MAX_HANDOFF_HISTORY (h @ [PDict e])) = Inr False
      \<and> get u ''handoff_history'' = PList (keep_last MAX_HANDOFF_HISTORY (h @ [PDict e]))
      \<and> get u ''supervisor_decision'' = PStr value
      \<and> \<not> has_key u ''terminal_status'')"

definition ends_loop :: "pyval list \<Rightarrow> pydict \<Rightarrow> pydict \<Rightarrow> pydict \<Rightarrow> bool" where
  "ends_loop h e repl u \<longleftrightarrow>
    (detect_supervisor_loop (keep_last MAX_HANDOFF_HISTORY (h @ [PDict e])) = Inr True
      \<and> get u ''handoff_history''
          = PList (butlast (keep_last MAX_HANDOFF_HISTORY (h @ [PDict e])) @ [PDict repl])
      \<and> get u ''supervisor_decision'' = PStr (target_value FINALIZE)
      \<and> get u ''terminal_status'' = PStr ''supervisor_loop_detected'')"

lemma has_key_of_get: "get u k \<noteq> PNone \<Longrightarrow> has_key u k"
  using get_no_key by blast

lemma continues_to_has_decision:
  assumes "continues_to value h e u"
  shows "has_key u ''supervisor_decision'' \<and> get u ''supervisor_decision'' = PStr value"
  using assms by (simp add: continues_to_def has_key_of_get)

lemma ends_loop_has_keys:
  assumes "ends_loop h e repl u"
  shows "has_key u ''supervisor_decision'' \<and> has_key u ''terminal_status''"
  using assms by (simp add: ends_loop_def has_key_of_get)

lemma keep_last_Suc_snoc: "keep_last (Suc n) (xs @ [x]) = keep_last n xs @ [x]"
  by (simp add: keep_last_def Suc_diff_le)

lemma keep_history: "keep_last MAX_HANDOFF_HISTORY (h @ [x]) = drop (length h - 49) h @ [x]"
  using keep_last_Suc_snoc[of 49 h x] by (simp add: MAX_HANDOFF_HISTORY_def keep_last_def)

lemma record_handoff_cases:
  assumes "record_handoff s sel = Inr rec" "d_target (sel_decision sel) = target_value t"
  shows "\<exists>h entry. rec = keep_last MAX_HANDOFF_HISTORY (h @ [PDict entry])
           \<and> list_or_empty (get s ''handoff_history'') = Inr h
           \<and> get entry ''executed_to'' = PStr (target_value t)"
  using assms by (auto simp: record_handoff_def bind_eq_Inr_iff dest: handoff_entry_targets)

lemma resolve_loop_cases:
  assumes "resolve_loop s sel rec = Inr (d, src, h, er, tu)"
  shows "detect_supervisor_loop rec = Inr False \<and> d = sel_decision sel \<and> h = rec \<and> tu = []
         \<or> detect_supervisor_loop rec = Inr True \<and> d_target d = target_value FINALIZE
           \<and> tu = loop_terminal_updates
           \<and> (\<exists>repl. h = butlast rec @ [PDict repl]
                \<and> get repl ''executed_to'' = PStr (target_value FINALIZE))"
  using assms by (auto simp: resolve_loop_def Let_def bind_eq_Inr_iff loop_entry_facts split: if_splits)

lemma supervisor_updates_shape:
  assumes "supervisor_updates s allowed sel = Inr u"
  obtains rec d src h er tu er' bad con where
    "record_handoff s sel = Inr rec" "resolve_loop s sel rec = Inr (d, src, h, er, tu)"
    "u = dmerge (from_supervisor_output (supervisor_output d src (sel_attempts sel) allowed h er' bad con)) tu"
  using assms by (auto simp: supervisor_updates_def bind_eq_Inr_iff)

lemma supervisor_updates_cases:
  assumes u: "supervisor_updates s allowed sel = Inr u"
    and t: "d_target (sel_decision sel) = target_value t"
  obtains h e repl where "list_or_empty (get s ''handoff_history'') = Inr h"
    "get e ''executed_to'' = PStr (target_value t)"
    "get repl ''executed_to'' = PStr (target_value FINALIZE)"
    "continues_to (target_value t) h e u \<or> ends_loop h e repl u"
proof -
  obtain rec d src h er tu er' bad con where
    r: "record_handoff s sel = Inr rec" "resolve_loop s sel rec = Inr (d, src, h, er, tu)"
    and ueq: "u = dmerge (from_supervisor_output
                (supervisor_output d src (sel_attempts sel) allowed h er' bad con)) tu"
    using supervisor_updates_shape[OF u] .
  from record_handoff_cases[OF r(1) t] obtain p entry where
    rec: "rec = keep_last MAX_HANDOFF_HISTORY (p @ [PDict entry])"
    "list_or_empty (get s ''handoff_history'') = Inr p"
    "get entry ''executed_to'' = PStr (target_value t)" by blast
  from resolve_loop_cases[OF r(2)] show ?thesis
  proof (elim disjE conjE exE)
    assume "detect_supervisor_loop rec = Inr False" "d = sel_decision sel" "h = rec" "tu = []"
    with ueq t rec have "continues_to (target_value t) p entry u"
      unfolding continues_to_def by (auto simp: get_supervisor_output supervisor_output_no_terminal)
    moreover have "get [(''executed_to'', PStr (target_value FINALIZE))] ''executed_to''
        = PStr (target_value FINALIZE)" by simp
    ultimately show ?thesis using that rec(2,3) by blast
  next
    fix repl
    assume l: "detect_supervisor_loop rec = Inr True" "d_target d = target_value FINALIZE"
      "tu = loop_terminal_updates"
      "h = butlast rec @ [PDict repl]" "get repl ''executed_to'' = PStr (target_value FINALIZE)"
    with ueq rec have "ends_loop p entry repl u"
      unfolding ends_loop_def
      by (auto simp: get_dmerge dict_ok_terminal_updates terminal_updates_keys get_supervisor_output)
    then show ?thesis using that rec(2,3) l(5) by blast
  qed
qed

text \<open>The probe of the development mode records a handoff to planning that makes no progress.\<close>

lemma probe_keys:
  "k \<in> {''supervisor_decision'', ''handoff_history'', ''supervisor_stagnant_loop_active''} \<Longrightarrow>
   k \<in> set SUPERVISOR_OUTPUT_KEYS"
  by (auto simp: SUPERVISOR_OUTPUT_KEYS_def)

lemma probe_shape:
  assumes "stagnant_loop_probe_updates s allowed = Inr u"
  shows "\<exists>fp h e l d. list_or_empty (get s ''handoff_history'') = Inr h
    \<and> handoff_entry s PLANNING ''Forced stagnant loop probe for development.''
          ''development_loop_probe'' 1 (Some (target_value PLANNING)) (Some (target_value PLANNING))
          (Some fp) (Some False) = Inr e
    \<and> detect_supervisor_loop (keep_last MAX_HANDOFF_HISTORY (h @ [PDict e])) = Inr l
    \<and> u = (if l then dmerge (from_supervisor_output d) loop_terminal_updates
           else from_supervisor_output d)
    \<and> get d ''supervisor_decision''
        = PStr (if l then target_value FINALIZE else ''supervisor_loop_probe'')
    \<and> get d ''handoff_history'' = PList (keep_last MAX_HANDOFF_HISTORY (h @ [PDict e]))
    \<and> get d ''supervisor_stagnant_loop_active'' = PBool (\<not> l)"
  using assms unfolding stagnant_loop_probe_updates_def Let_def
  apply (elim bind_InrE)
  apply (drule sum.inject(2)[THEN iffD1])
  apply (intro exI conjI, assumption, assumption, assumption, erule sym)
    apply (simp_all del: target_value.simps)
  done

lemma probe_cases:
  assumes "stagnant_loop_probe_updates s allowed = Inr u"
  obtains h e repl where "list_or_empty (get s ''handoff_history'') = Inr h"
    "get e ''executed_to'' = PStr (target_value PLANNING)"
    "continues_to ''supervisor_loop_probe'' h e u
       \<and> get u ''supervisor_stagnant_loop_active'' = PBool True
     \<or> ends_loop h e repl u \<and> repl = e"
proof -
  obtain fp h e l d where h: "list_or_empty (get s ''handoff_history'') = Inr h"
    and e: "handoff_entry s PLANNING ''Forced stagnant loop probe for development.''
          ''development_loop_probe'' 1 (Some (target_value PLANNING)) (Some (target_value PLANNING))
          (Some fp) (Some False) = Inr e"
    and l: "detect_supervisor_loop (keep_last MAX_HANDOFF_HISTORY (h @ [PDict e])) = Inr l"
    and u: "u = (if l then dmerge (from_supervisor_output d) loop_terminal_updates
                 else from_supervisor_output d)"
    and d: "get d ''supervisor_decision''
          = PStr (if l then target_value FINALIZE else ''supervisor_loop_probe'')"
      "get d ''handoff_history'' = PList (keep_last MAX_HANDOFF_HISTORY (h @ [PDict e]))"
      "get d ''supervisor_stagnant_loop_active'' = PBool (\<not> l)"
    using probe_shape[OF assms] by blast
  have g: "get (from_supervisor_output d) k = get d k"
    if "k \<in> {''supervisor_decision'', ''handoff_history'', ''supervisor_stagnant_loop_active''}" for k
    using probe_keys[OF that] by (rule get_from_supervisor_output)
  show ?thesis
  proof (cases l)
    case True
    have k: "butlast (keep_last MAX_HANDOFF_HISTORY (h @ [PDict e])) @ [PDict e]
        = keep_last MAX_HANDOFF_HISTORY (h @ [PDict e])"
      by (simp add: keep_history)
    have "ends_loop h e e u"
      unfolding ends_loop_def k using True l u d g
      by (simp add: get_dmerge dict_ok_terminal_updates terminal_updates_keys)
    then show ?thesis using that h handoff_entry_targets(1)[OF e] by blast
  next
    case False
    then have "continues_to ''supervisor_loop_probe'' h e u
        \<and> get u ''supervisor_stagnant_loop_active'' = PBool True"
      unfolding continues_to_def using l u d g by (simp add: supervisor_output_no_terminal)
    then show ?thesis using that h handoff_entry_targets(1)[OF e] by blast
  qed
qed

text \<open>
  What the node does when no approval waits, in both modes: it prepares the entry \<open>e\<close> for the
  allowed handoff (for planning, in probe mode), and makes the handoff or ends the loop.
\<close>

abbreviation probing :: "SupervisorDevelopmentConfig \<Rightarrow> bool" where
  "probing cfg \<equiv> development cfg \<and> force_stagnant_loop cfg"

lemma supervisor_node_outcome:
  assumes "supervisor_node cfg ask s = Inr u" "\<not> approval_blocks_supervisor s"
  obtains t h e repl where "determine_allowed_handoffs s = Inr [t]"
    "list_or_empty (get s ''handoff_history'') = Inr h"
    "get e ''executed_to'' = PStr (target_value (if probing cfg then PLANNING else t))"
    "get repl ''executed_to'' = PStr (target_value (if probing cfg then PLANNING else FINALIZE))"
    "continues_to (if probing cfg then ''supervisor_loop_probe'' else target_value t) h e u
       \<and> (probing cfg \<longrightarrow> get u ''supervisor_stagnant_loop_active'' = PBool True)
     \<or> ends_loop h e repl u"
proof -
  obtain allowed where al: "determine_allowed_handoffs s = Inr allowed"
    using assms by (auto simp: supervisor_node_def bind_eq_Inr_iff)
  then obtain t where t: "allowed = [t]" using mandatory_of_allowed assms(2) by blast
  show ?thesis
  proof (cases "probing cfg")
    case True
    with assms al have "stagnant_loop_probe_updates s allowed = Inr u"
      by (auto simp: supervisor_node_def bind_eq_Inr_iff)
    then show ?thesis
    proof (rule probe_cases)
      fix h e repl
      assume p: "list_or_empty (get s ''handoff_history'') = Inr h"
        "get e ''executed_to'' = PStr (target_value PLANNING)"
        "continues_to ''supervisor_loop_probe'' h e u
           \<and> get u ''supervisor_stagnant_loop_active'' = PBool True
         \<or> ends_loop h e repl u \<and> repl = e"
      let ?r = "if continues_to ''supervisor_loop_probe'' h e u then e else repl"
      have "get e ''executed_to'' = PStr (target_value (if probing cfg then PLANNING else t))"
        using p(2) True by simp
      moreover have "continues_to (if probing cfg then ''supervisor_loop_probe'' else target_value t) h e u
          \<and> (probing cfg \<longrightarrow> get u ''supervisor_stagnant_loop_active'' = PBool True)
        \<or> ends_loop h e e u"
        using p(3) True by auto
      ultimately show ?thesis using that[of t h e e] al t p(1,2) True by auto
    qed
  next
    case False
    from supervisor_node_cases[OF assms False] obtain sel u' where
      "supervisor_updates s allowed sel = Inr u" "d_target (sel_decision sel) = target_value t"
      using al t target_value_inject by (metis Inr_inject list.inject)
    then show ?thesis
      by (rule supervisor_updates_cases) (use that al t False in auto)
  qed
qed

text \<open>The node's updates are output fields, with the terminal fields when it ends a loop.\<close>

lemma supervisor_node_shape:
  assumes "supervisor_node cfg ask s = Inr u"
  shows "u = [] \<or> (\<exists>d. u = from_supervisor_output d \<or> u = dmerge (from_supervisor_output d) loop_terminal_updates)"
proof (cases "approval_blocks_supervisor s")
  case True
  with assms show ?thesis by (simp add: supervisor_node_def)
next
  case False
  with assms(1) consider
      allowed where "stagnant_loop_probe_updates s allowed = Inr u"
    | allowed sel where "supervisor_updates s allowed sel = Inr u"
    by (auto simp: supervisor_node_def bind_eq_Inr_iff split: if_splits)
  then show ?thesis
  proof cases
    case 1
    from probe_shape[OF this] show ?thesis by metis
  next
    case 2
    then obtain rec d src h er tu er' bad con where
      r: "resolve_loop s sel rec = Inr (d, src, h, er, tu)" and
      u: "u = dmerge (from_supervisor_output (supervisor_output d src (sel_attempts sel) allowed h er' bad con)) tu"
      using supervisor_updates_shape by metis
    from resolve_loop_cases[OF r] have "tu = [] \<or> tu = loop_terminal_updates" by auto
    with u show ?thesis by auto
  qed
qed

lemma supervisor_node_dict_ok:
  assumes "supervisor_node cfg ask s = Inr u"
  shows "dict_ok u"
proof -
  have "distinct SUPERVISOR_OUTPUT_KEYS" by (simp add: SUPERVISOR_OUTPUT_KEYS_def)
  then have "dict_ok (from_supervisor_output d)" for d
    by (simp add: dict_ok_def from_supervisor_output_def comp_def)
  then show ?thesis
    using supervisor_node_shape[OF assms] by (auto intro: dict_ok_dmerge)
qed

text \<open>What the router does with the merged state.\<close>

lemma routed_continuation:
  assumes m: "\<And>k. k \<in> {''supervisor_decision'', ''supervisor_stagnant_loop_active'', ''terminal_status''}
          \<Longrightarrow> get s' k = (if has_key u k then get u k else get s k)"
    and c: "continues_to (if probing cfg then ''supervisor_loop_probe'' else target_value t) h e u
       \<and> (probing cfg \<longrightarrow> get u ''supervisor_stagnant_loop_active'' = PBool True)"
  shows "detect_supervisor_loop (keep_last MAX_HANDOFF_HISTORY (h @ [PDict e])) = Inr False
      \<and> get s' ''terminal_status'' = get s ''terminal_status''
      \<and> route_after_supervisor s' = Inr (if probing cfg then ''supervisor_loop_probe'' else target_value t)"
proof -
  let ?v = "if probing cfg then ''supervisor_loop_probe'' else target_value t"
  have d: "get s' ''supervisor_decision'' = PStr ?v"
    using continues_to_has_decision[OF conjunct1[OF c]] m[of "''supervisor_decision''"] by simp
  have a: "get s' ''supervisor_stagnant_loop_active'' = PBool True" if "probing cfg"
    using c that m[of "''supervisor_stagnant_loop_active''"]
    by (simp add: has_key_of_get)
  have "route_after_supervisor s' = Inr ?v"
    using d a by (cases "probing cfg") (simp_all add: route_after_supervisor_def target_value_neq_probe)
  moreover have "get s' ''terminal_status'' = get s ''terminal_status''"
    using c m[of "''terminal_status''"] by (simp add: continues_to_def)
  ultimately show ?thesis using c by (simp add: continues_to_def)
qed

lemma routed_loop:
  assumes m: "\<And>k. k \<in> {''supervisor_decision'', ''supervisor_stagnant_loop_active'', ''terminal_status''}
          \<Longrightarrow> get s' k = (if has_key u k then get u k else get s k)"
    and l: "ends_loop h e repl u"
  shows "detect_supervisor_loop (keep_last MAX_HANDOFF_HISTORY (h @ [PDict e])) = Inr True
      \<and> get s' ''terminal_status'' = PStr ''supervisor_loop_detected''
      \<and> route_after_supervisor s' = Inr ''finalize''"
proof -
  have d: "get s' ''supervisor_decision'' = PStr (target_value FINALIZE)"
    "get s' ''terminal_status'' = PStr ''supervisor_loop_detected''"
    using ends_loop_has_keys[OF l] l m by (simp_all add: ends_loop_def)
  have "route_after_supervisor s' = Inr (target_value FINALIZE)"
    unfolding route_after_supervisor_def Let_def d(1)
    by (simp del: target_value.simps add: target_value_neq_probe)
  with d l show ?thesis by (simp add: ends_loop_def)
qed

section \<open>Properties of the node\<close>

text \<open>A concrete workflow whose tests failed once, for the examples below.\<close>

definition repairing_state :: pydict where
  "repairing_state =
    [(''planning_valid'', PBool True), (''workspace_inspected'', PBool True),
     (''git_integration_enabled'', PBool False), (''project_name'', PStr ''demo''),
     (''tests_executed'', PBool True), (''tests_passed'', PBool False),
     (''environment_prepared'', PBool True), (''repair_attempts'', PInt 1),
     (''handoff_history'', PList [])]"

definition refusing_model :: "pydict \<Rightarrow> model_reply" where
  "refusing_model payload = ReplyRefused"

lemma repairing_run:
  "isl (supervisor_node default_config refusing_model repairing_state) = False"
  "approval_blocks_supervisor repairing_state = False"
  "development default_config = False"
  "determine_allowed_handoffs repairing_state = Inr [TESTING_REPAIR]"
  by code_simp+

lemma repairing_run_obtain:
  obtains u where "supervisor_node default_config refusing_model repairing_state = Inr u"
  using repairing_run(1) by (cases "supervisor_node default_config refusing_model repairing_state") auto

text \<open>(C38) The supervisor node never depends on the language model: whatever the model would
  answer, the node computes the same result, because the deterministic policy always leaves
  exactly one handoff.\<close>

theorem supervisor_node_ignores_model:
  "supervisor_node cfg ask s = supervisor_node cfg ask' s"
proof (cases "determine_allowed_handoffs s")
  case (Inr allowed)
  show ?thesis
  proof (cases "approval_blocks_supervisor s")
    case False
    with Inr show ?thesis
      using select_handoff_ignores_model[OF Inr False, of cfg ask _ ask']
      by (cases "development cfg"; cases "force_stagnant_loop cfg") (simp_all add: supervisor_node_def)
  qed (simp add: supervisor_node_def)
qed (simp add: supervisor_node_def)

text \<open>(C1) Routing. While an approval waits, the node writes nothing and the router repeats what
  it did before. Otherwise the policy allows exactly one handoff, and what the router does with
  the node's updates depends on the stored history with the entry for this handoff: when that
  history holds a loop, the workflow is routed to \<open>finalize\<close> and the loop is its terminal status;
  when it holds none, the terminal status stays as it was and the router takes the allowed
  handoff. In the probe mode of the development configuration the entry is one for planning, and
  the router takes the probe in place of the handoff.\<close>

theorem supervisor_routes_to_allowed:
  assumes "supervisor_node cfg ask s = Inr u"
    and "\<And>k. k \<in> {''supervisor_decision'', ''supervisor_stagnant_loop_active'', ''terminal_status''}
          \<Longrightarrow> get s' k = (if has_key u k then get u k else get s k)"
  shows "if approval_blocks_supervisor s
    then u = [] \<and> route_after_supervisor s' = route_after_supervisor s
    else \<exists>t h e. determine_allowed_handoffs s = Inr [t]
      \<and> list_or_empty (get s ''handoff_history'') = Inr h
      \<and> get e ''executed_to''
          = PStr (if development cfg \<and> force_stagnant_loop cfg then ''planning'' else target_value t)
      \<and> (detect_supervisor_loop (keep_last 50 (h @ [PDict e])) = Inr True
          \<and> get s' ''terminal_status'' = PStr ''supervisor_loop_detected''
          \<and> route_after_supervisor s' = Inr ''finalize''
        \<or> detect_supervisor_loop (keep_last 50 (h @ [PDict e])) = Inr False
          \<and> get s' ''terminal_status'' = get s ''terminal_status''
          \<and> route_after_supervisor s'
              = Inr (if development cfg \<and> force_stagnant_loop cfg then ''supervisor_loop_probe''
                     else target_value t))"
proof (cases "approval_blocks_supervisor s")
  case True
  with assms(1) have "u = []" by (simp add: supervisor_node_def)
  with True assms(2) show ?thesis by (simp add: route_after_supervisor_def)
next
  case False
  from supervisor_node_outcome[OF assms(1) False] obtain t h e repl where
    r: "determine_allowed_handoffs s = Inr [t]" "list_or_empty (get s ''handoff_history'') = Inr h"
    "get e ''executed_to'' = PStr (target_value (if probing cfg then PLANNING else t))"
    "continues_to (if probing cfg then ''supervisor_loop_probe'' else target_value t) h e u
       \<and> (probing cfg \<longrightarrow> get u ''supervisor_stagnant_loop_active'' = PBool True)
     \<or> ends_loop h e repl u"
    by metis
  have e: "get e ''executed_to''
      = PStr (if development cfg \<and> force_stagnant_loop cfg then ''planning'' else target_value t)"
    using r(3) by simp
  from r(4) have "detect_supervisor_loop (keep_last 50 (h @ [PDict e])) = Inr True
          \<and> get s' ''terminal_status'' = PStr ''supervisor_loop_detected''
          \<and> route_after_supervisor s' = Inr ''finalize''
        \<or> detect_supervisor_loop (keep_last 50 (h @ [PDict e])) = Inr False
          \<and> get s' ''terminal_status'' = get s ''terminal_status''
          \<and> route_after_supervisor s'
              = Inr (if development cfg \<and> force_stagnant_loop cfg then ''supervisor_loop_probe''
                     else target_value t)"
    using routed_continuation[OF assms(2)] routed_loop[OF assms(2)]
    unfolding MAX_HANDOFF_HISTORY_def by blast
  with False r(1,2) e show ?thesis by auto
qed

theorem supervisor_routes_to_allowed_witness:
  "\<exists>u. supervisor_node default_config refusing_model repairing_state = Inr u \<and>
     route_after_supervisor (dmerge repairing_state u) \<in> {Inr ''testing_repair'', Inr ''finalize''}"
proof -
  obtain u where u: "supervisor_node default_config refusing_model repairing_state = Inr u"
    by (rule repairing_run_obtain)
  have m: "get (dmerge repairing_state u) k = (if has_key u k then get u k else get repairing_state k)"
    for k by (simp add: get_dmerge supervisor_node_dict_ok[OF u])
  from supervisor_routes_to_allowed[OF u m] u show ?thesis
    by (auto simp: repairing_run default_config_def)
qed

text \<open>(C21) While an approval waits, the node writes nothing. Otherwise the history it writes is
  the stored one cut to its last 49 entries with one entry added, so it is never longer than 50.
  Unless the node finalizes, the written history holds no loop: no handoff is made a third time
  in a row without progress. The added entry executes the decided target, except in the probe
  mode of the development configuration, where it executes planning.\<close>

theorem supervisor_history_has_no_loop:
  assumes "supervisor_node cfg ask s = Inr u"
  shows "if approval_blocks_supervisor s then u = []
    else \<exists>h e. list_or_empty (get s ''handoff_history'') = Inr h
      \<and> get u ''handoff_history'' = PList (drop (length h - 49) h @ [PDict e])
      \<and> length (drop (length h - 49) h @ [PDict e]) \<le> 50
      \<and> get e ''executed_to'' = (if development cfg \<and> force_stagnant_loop cfg
                                 then PStr ''planning'' else get u ''supervisor_decision'')
      \<and> (get u ''supervisor_decision'' = PStr ''finalize''
         \<or> detect_supervisor_loop (drop (length h - 49) h @ [PDict e]) = Inr False)"
proof (cases "approval_blocks_supervisor s")
  case True
  with assms(1) show ?thesis by (simp add: supervisor_node_def)
next
  case False
  from supervisor_node_outcome[OF assms(1) False] obtain t h e repl where
    r: "list_or_empty (get s ''handoff_history'') = Inr h"
    "get e ''executed_to'' = PStr (target_value (if probing cfg then PLANNING else t))"
    "get repl ''executed_to'' = PStr (target_value (if probing cfg then PLANNING else FINALIZE))"
    "continues_to (if probing cfg then ''supervisor_loop_probe'' else target_value t) h e u
     \<or> ends_loop h e repl u"
    by metis
  have len: "length (drop (length h - 49) h @ [x]) \<le> 50" for x by simp
  from r(4) have "\<exists>e'. get u ''handoff_history'' = PList (drop (length h - 49) h @ [PDict e'])
      \<and> get e' ''executed_to'' = (if development cfg \<and> force_stagnant_loop cfg
                                 then PStr ''planning'' else get u ''supervisor_decision'')
      \<and> (get u ''supervisor_decision'' = PStr ''finalize''
         \<or> detect_supervisor_loop (drop (length h - 49) h @ [PDict e']) = Inr False)"
  proof
    assume "continues_to (if probing cfg then ''supervisor_loop_probe'' else target_value t) h e u"
    with r(2) show ?thesis
      unfolding continues_to_def keep_history by (intro exI[of _ e]) auto
  next
    assume "ends_loop h e repl u"
    with r(3) show ?thesis
      unfolding ends_loop_def keep_history by (intro exI[of _ repl]) auto
  qed
  with False r(1) len show ?thesis by auto
qed

theorem supervisor_history_has_no_loop_witness:
  "\<exists>u h. supervisor_node default_config refusing_model repairing_state = Inr u \<and>
     get u ''handoff_history'' = PList h \<and> h \<noteq> [] \<and> length h \<le> 50"
proof -
  obtain u where u: "supervisor_node default_config refusing_model repairing_state = Inr u"
    by (rule repairing_run_obtain)
  from supervisor_history_has_no_loop[OF u] u show ?thesis
    by (auto simp: repairing_run)
qed

section \<open>Properties of the policy\<close>

lemma handoffs_build_targets:
  "handoffs_build s = Inr ts \<Longrightarrow> ts \<in> {[GIT_WORKFLOW], [TESTING_REPAIR], [IMPLEMENTATION], [FINALIZE]}"
  by (auto simp: handoffs_build_def bind_eq_Inr_iff ifM_eq_Inr_iff split: if_splits)

lemma determine_passed:
  assumes "get s ''terminal_status'' = PNone" "\<not> approval_blocks_supervisor s"
    and "tests_passed s = Inr True"
  shows "determine_allowed_handoffs s = handoffs_tests_passed s"
  using assms by (simp add: determine_allowed_handoffs_def)

text \<open>The handoff to promotion and the gate in front of every delivery.\<close>

lemma promotion_handoff:
  assumes "determine_allowed_handoffs s = Inr [GIT_PROMOTION]"
  shows "get s ''terminal_status'' = PNone \<and> tests_passed s = Inr True
    \<and> get s ''git_workflow_state'' = PStr ''committed''"
proof -
  have "handoffs_build s \<noteq> Inr [GIT_PROMOTION]"
    using handoffs_build_targets by fastforce
  then have "get s ''terminal_status'' = PNone \<and> tests_passed s = Inr True
      \<and> handoffs_tests_passed s = Inr [GIT_PROMOTION]"
    using assms by (auto simp: determine_allowed_handoffs_def Let_def ifM_eq_Inr_iff bind_eq_Inr_iff
      split: if_splits)
  then show ?thesis
    by (auto simp: handoffs_tests_passed_def Let_def ifM_eq_Inr_iff guardM_iff split: if_splits)
qed

definition delivery_gate :: "pydict \<Rightarrow> bool" where
  "delivery_gate s \<longleftrightarrow> git_commit_complete s = Inr True \<and> ci_valid_for_commit s = Inr True"

lemma delivery_gate_of_handoff:
  assumes "determine_allowed_handoffs s = Inr [t]" "t = GIT_PROMOTION \<or> t = FINALIZE"
    and "get s ''terminal_status'' = PNone" "tests_passed s = Inr True"
    and "truthy (get s ''git_integration_enabled'')"
  shows "delivery_gate s"
proof -
  have "\<not> approval_blocks_supervisor s"
    using assms(1,3) by (auto simp: determine_allowed_handoffs_def)
  with assms have "handoffs_tests_passed s = Inr [t]" by (simp add: determine_passed)
  then show ?thesis
    using assms(2,5) unfolding delivery_gate_def
    by (auto simp: handoffs_tests_passed_def Let_def ifM_eq_Inr_iff guardM_iff split: if_splits)
qed

lemma delivery_gate_commit:
  assumes "delivery_gate s" "truthy (get s ''git_integration_enabled'')"
  shows "get s ''git_workflow_state'' \<in> {PStr ''committed'', PStr ''no_changes'', PStr ''unavailable''}
      \<and> (truthy (get s ''git_developer_commit_sha'') \<and> truthy (get s ''files_updated_during_repair'')
           \<longrightarrow> truthy (get s ''git_repair_commit_sha''))"
  using assms
  by (cases "get s ''git_workflow_state''")
     (auto simp: delivery_gate_def git_commit_complete_def Let_def GIT_FINAL_STATES_def
        andM_eq_True_iff split: if_split_asm)

lemma delivery_gate_ci:
  assumes "delivery_gate s" "ci_required s"
  shows "truthy (git_target_commit s) \<and> py_eq (get s ''ci_validated_commit'') (git_target_commit s)
      \<and> get s ''ci_promotion_eligible'' = PBool True
      \<and> get s ''ci_decision'' \<in> {PStr ''accepted'', PStr ''accepted_with_warnings''}"
  using assms
  by (cases "get s ''ci_decision''")
     (auto simp: delivery_gate_def ci_valid_for_commit_def Let_def split: if_splits)

text \<open>(C34) On a state whose fields have their declared types the policy raises nothing.\<close>

theorem handoffs_defined_on_typed_states:
  "wf_state s \<Longrightarrow> \<exists>ts. determine_allowed_handoffs s = Inr ts \<and> length ts \<le> 1"
  using wf_determine_total[of s] by (fastforce simp: returns_def dest: allowed_single)

theorem handoffs_defined_on_typed_states_witness:
  "\<exists>ts. determine_allowed_handoffs [(''planning_result'', PDict []), (''planning_attempts'', PInt 1),
       (''workflow_intent'', PStr ''create_project'')] = Inr ts \<and> length ts \<le> 1"
  by (rule handoffs_defined_on_typed_states)
     code_simp

text \<open>(C4) The gate before delivery, for a workflow with Git integration. The policy hands over to
  the promotion step only when the workflow is not yet terminal, the tests passed and Git's work
  is committed. It hands over to the promotion step, or finalizes a workflow that is not yet
  terminal and whose tests passed, only when Git's work is in a final state (committed, nothing
  to commit, or Git unavailable), no commit of a repair is outstanding and, where continuous
  integration is required, the validated commit is the very commit that is to be delivered and
  the run was accepted.\<close>

theorem delivery_needs_validated_commit:
  assumes "determine_allowed_handoffs s = Inr [t]"
    and "truthy (get s ''git_integration_enabled'')"
  shows "(t = GIT_PROMOTION \<longrightarrow>
      get s ''terminal_status'' = PNone \<and> tests_passed s = Inr True
      \<and> get s ''git_workflow_state'' = PStr ''committed'')
    \<and> (t = GIT_PROMOTION
        \<or> t = FINALIZE \<and> get s ''terminal_status'' = PNone \<and> tests_passed s = Inr True \<longrightarrow>
      get s ''git_workflow_state'' \<in> {PStr ''committed'', PStr ''no_changes'', PStr ''unavailable''}
      \<and> (truthy (get s ''git_developer_commit_sha'') \<and> truthy (get s ''files_updated_during_repair'')
           \<longrightarrow> truthy (get s ''git_repair_commit_sha''))
      \<and> (ci_required s \<longrightarrow>
          truthy (git_target_commit s) \<and> py_eq (get s ''ci_validated_commit'') (git_target_commit s)
          \<and> get s ''ci_promotion_eligible'' = PBool True
          \<and> get s ''ci_decision'' \<in> {PStr ''accepted'', PStr ''accepted_with_warnings''}))"
proof -
  have p: "get s ''terminal_status'' = PNone \<and> tests_passed s = Inr True
      \<and> get s ''git_workflow_state'' = PStr ''committed''" if "t = GIT_PROMOTION"
    using assms(1) that promotion_handoff by blast
  have "delivery_gate s" if "t = GIT_PROMOTION
        \<or> t = FINALIZE \<and> get s ''terminal_status'' = PNone \<and> tests_passed s = Inr True"
    using assms that p delivery_gate_of_handoff by blast
  with p show ?thesis
    using delivery_gate_commit[OF _ assms(2)] delivery_gate_ci by blast
qed

definition delivered_state :: pydict where
  "delivered_state =
    [(''tests_passed'', PBool True), (''git_integration_enabled'', PBool True),
     (''git_workflow_state'', PStr ''committed''), (''git_workflow_branch'', PStr ''wf/1''),
     (''git_developer_commit_sha'', PStr ''abc''), (''ci_promotion_required'', PBool True),
     (''ci_validated_commit'', PStr ''abc''), (''ci_promotion_eligible'', PBool True),
     (''ci_decision'', PStr ''accepted''), (''git_auto_prepare_promotion'', PBool True),
     (''git_promotion_state'', PStr ''not_started'')]"

theorem delivery_needs_validated_commit_witness:
  "py_eq (get delivered_state ''ci_validated_commit'') (git_target_commit delivered_state)
   \<and> tests_passed delivered_state = Inr True"
proof -
  have "determine_allowed_handoffs delivered_state = Inr [GIT_PROMOTION]" by code_simp
  moreover have "truthy (get delivered_state ''git_integration_enabled'')" by code_simp
  moreover have "ci_required delivered_state" by code_simp
  ultimately show ?thesis
    using delivery_needs_validated_commit[of delivered_state GIT_PROMOTION] by blast
qed

text \<open>(C22) Work is bounded: the policy hands over to planning or implementation again only below
  the attempt limit of that stage, and to testing, once tests were executed in a prepared
  environment, only below two repairs.\<close>

theorem retries_are_bounded:
  assumes "determine_allowed_handoffs s = Inr [t]"
  shows "(t = PLANNING \<and> planning_started s \<longrightarrow>
            (\<exists>n m. py_int (getd s ''planning_attempts'' (PInt 0)) = Inr n
               \<and> py_int (getd s ''max_planning_attempts'' (PInt 2)) = Inr m \<and> n < m))
       \<and> (t = IMPLEMENTATION \<longrightarrow>
            (\<exists>n m. py_int (getd s ''implementation_attempts'' (PInt 0)) = Inr n
               \<and> py_int (getd s ''max_implementation_attempts'' (PInt 2)) = Inr m \<and> n < m))
       \<and> (t = TESTING_REPAIR \<and> tests_executed s = Inr True \<and> environment_prepared s = Inr True \<longrightarrow>
            (\<exists>n. py_int (getd s ''repair_attempts'' (PInt 0)) = Inr n \<and> n < 2))"
proof -
  have "handoffs_tests_passed s \<noteq> Inr [PLANNING]" "handoffs_tests_passed s \<noteq> Inr [IMPLEMENTATION]"
    "handoffs_tests_passed s \<noteq> Inr [TESTING_REPAIR]"
    by (auto simp: handoffs_tests_passed_def Let_def ifM_eq_Inr_iff split: if_splits)
  moreover have "handoffs_build s \<noteq> Inr [PLANNING]"
    using handoffs_build_targets by fastforce
  moreover have "handoffs_build s = Inr [IMPLEMENTATION] \<Longrightarrow>
      \<exists>n m. py_int (getd s ''implementation_attempts'' (PInt 0)) = Inr n
         \<and> py_int (getd s ''max_implementation_attempts'' (PInt 2)) = Inr m \<and> n < m"
    by (auto simp: handoffs_build_def bind_eq_Inr_iff ifM_eq_Inr_iff split: if_splits)
  moreover have "handoffs_build s = Inr [TESTING_REPAIR] \<Longrightarrow> tests_executed s = Inr True \<Longrightarrow>
      tests_passed s = Inr False \<Longrightarrow> \<exists>n. py_int (getd s ''repair_attempts'' (PInt 0)) = Inr n \<and> n < 2"
    by (auto simp: handoffs_build_def bind_eq_Inr_iff ifM_eq_Inr_iff guardM_iff split: if_splits)
  ultimately show ?thesis
    using assms
    by (auto simp: determine_allowed_handoffs_def Let_def ifM_eq_Inr_iff bind_eq_Inr_iff
          split: if_splits)
qed

theorem retries_are_bounded_witness:
  "\<exists>n m. py_int (getd [(''planning_attempts'', PInt 1)] ''planning_attempts'' (PInt 0)) = Inr n
     \<and> py_int (getd [(''planning_attempts'', PInt 1)] ''max_planning_attempts'' (PInt 2)) = Inr m \<and> n < m"
proof -
  have "determine_allowed_handoffs [(''planning_attempts'', PInt 1)] = Inr [PLANNING]" by code_simp
  moreover have "planning_started [(''planning_attempts'', PInt 1)]" by code_simp
  ultimately show ?thesis using retries_are_bounded by blast
qed

section \<open>Sequence numbers, keys, hooks and validation\<close>

text \<open>Sequence numbers can go backwards. A regular entry continues after the last sequence
  number of the history, but the entry that records a detected loop is numbered by the length of
  the stored history, which is cut to 50 entries: once the last number exceeds that length, the
  new entry is numbered below the one a regular entry would get, and not above the last one.\<close>

theorem loop_entry_sequence_not_increasing:
  assumes "get s ''handoff_history'' = PList (h @ [PDict l])" "get l ''sequence'' = PInt n"
    and "int (length (h @ [PDict l])) < n" "loop_entry s target = Inr e"
    and "handoff_entry s t reason src conf att sel fp pd = Inr regular"
  shows "get regular ''sequence'' = PInt (n + 1) \<and> (\<exists>m. get e ''sequence'' = PInt m \<and> m \<le> n)"
proof -
  have l: "list_or_empty (get s ''handoff_history'') = Inr (h @ [PDict l])"
    using assms(1) by simp
  have "next_sequence (h @ [PDict l]) = Inr (n + 1)"
    using assms(2) by (auto simp: next_sequence_def Let_def getd_def get_def split: option.splits)
  then have "get regular ''sequence'' = PInt (n + 1)"
    using handoff_entry_sequence[OF assms(5) l] by auto
  moreover have "get e ''sequence'' = PInt (int (length (h @ [PDict l])) + 1)"
    using loop_entry_facts(2)[OF assms(4)] l by auto
  ultimately show ?thesis using assms(3) by auto
qed

definition cut_history_state :: pydict where
  "cut_history_state =
    [(''handoff_history'', PList [PDict [(''sequence'', PInt 60), (''to'', PStr ''planning'')]])]"

theorem loop_entry_sequence_not_increasing_witness:
  "\<exists>e m. loop_entry cut_history_state ''planning'' = Inr e \<and> get e ''sequence'' = PInt m \<and> m \<le> 60"
proof -
  obtain e where e: "loop_entry cut_history_state ''planning'' = Inr e"
    by (simp add: loop_entry_def handoff_entry_def cut_history_state_def next_sequence_def
          branch_of_def supervisor_progress_fingerprint_def Let_def por_def grouped_def)
  obtain r where r: "handoff_entry cut_history_state PLANNING [] [] 1 None None None None = Inr r"
    by (simp add: handoff_entry_def cut_history_state_def next_sequence_def
          branch_of_def supervisor_progress_fingerprint_def Let_def por_def grouped_def)
  have h: "get cut_history_state ''handoff_history'' =
      PList ([] @ [PDict [(''sequence'', PInt 60), (''to'', PStr ''planning'')]])"
    by (simp add: cut_history_state_def)
  show ?thesis
    using loop_entry_sequence_not_increasing[OF h _ _ e r, of 60] e by auto
qed

text \<open>The keys a supervisor step may write.\<close>

definition supervisor_keys :: "string list" where
  "supervisor_keys = SUPERVISOR_OUTPUT_KEYS
     @ [''terminal_status'', ''failure_type'', ''failure_stage'', ''failure_message'']"

lemma terminal_updates_in_keys:
  "has_key loop_terminal_updates k \<Longrightarrow> k \<in> set supervisor_keys"
  by (auto simp: loop_terminal_updates_def supervisor_keys_def)

lemma output_in_keys: "has_key (from_supervisor_output d) k \<Longrightarrow> k \<in> set supervisor_keys"
  using from_supervisor_output_keys[of d k] by (auto simp: supervisor_keys_def)

text \<open>The node writes only its own keys: the supervisor's output keys and, when it ends a
  loop, the terminal fields. In particular it never changes the results of a stage.\<close>

theorem supervisor_writes_own_keys:
  assumes "supervisor_node cfg ask s = Inr u" "has_key u k"
  shows "k \<in> set supervisor_keys"
  using supervisor_node_shape[OF assms(1)] assms(2)
  by (auto dest: terminal_updates_in_keys output_in_keys)

theorem supervisor_writes_own_keys_witness:
  "\<exists>u. supervisor_node default_config refusing_model repairing_state = Inr u
     \<and> \<not> has_key u ''tests_passed''"
proof -
  obtain u where u: "supervisor_node default_config refusing_model repairing_state = Inr u"
    by (rule repairing_run_obtain)
  have "''tests_passed'' \<notin> set supervisor_keys" by code_simp
  with u supervisor_writes_own_keys[OF u, of "''tests_passed''"] show ?thesis by blast
qed

lemma safe_fallback_in_allowed:
  "safe_fallback_target allowed \<in> set allowed \<or> allowed = [] \<and> safe_fallback_target allowed = FINALIZE"
proof -
  have "safe_fallback_target ts \<in> set ts \<or> safe_fallback_target ts = FINALIZE \<and> set ts \<subseteq> {FINALIZE}"
    for ts by (induction ts) auto
  from this[of allowed] show ?thesis by (cases allowed) auto
qed

lemma validated_target_allowed:
  "validate_supervisor_decision d allowed (Some s) = [] \<Longrightarrow> d_target d \<in> set (map target_value allowed)"
  by (auto simp: validate_supervisor_decision_def Let_def split: if_splits)

lemma make_decision_target: "make_decision t r c = Inr d \<Longrightarrow> d_target d = t"
proof -
  assume a: "make_decision t r c = Inr d"
  then obtain u where u: "target_of t = Inr u" and d: "d_target d = target_value u"
    by (auto simp: make_decision_def bind_eq_Inr_iff Let_def split: if_splits)
  from u have "target_value u = t"
    by (auto simp: target_of_def find_Some_iff split: option.splits)
  with d show ?thesis by simp
qed

text \<open>Containment of the language model: on the path that consults it, whatever it replies
  (an invalid target, a refusal, a timeout, an exception), the selected target is one of the
  allowed handoffs, or \<open>finalize\<close> when none is allowed.\<close>

theorem model_choice_is_contained:
  "\<exists>t. d_target (sel_decision (model_selection cfg ask s inp allowed n errs)) = target_value t
     \<and> (t \<in> set allowed \<or> allowed = [] \<and> t = FINALIZE)"
proof -
  have fb: "\<exists>t. d_target (sel_decision (fallback_selection allowed r n e att b)) = target_value t
      \<and> (t \<in> set allowed \<or> allowed = [] \<and> t = FINALIZE)" for r e att b
    using safe_fallback_in_allowed[of allowed] by (auto simp: fallback_selection_def Let_def)
  show ?thesis
  proof (cases "decide cfg ask inp allowed")
    case (Inl e)
    then show ?thesis by (cases e) (simp_all add: model_selection_def fb)
  next
    case (Inr d)
    show ?thesis
    proof (cases "validate_supervisor_decision d allowed (Some s) = []")
      case True
      with Inr validated_target_allowed[OF True] show ?thesis
        by (cases "make_decision (d_target d) (d_reason d) (d_confidence d)")
           (auto simp: model_selection_def fb make_decision_target)
    next
      case False
      with Inr show ?thesis by (simp add: model_selection_def fb)
    qed
  qed
qed

text \<open>The development hooks exclude each other, and outside development mode no hook is
  active.\<close>

theorem config_has_one_hook:
  assumes "config_from_env env = Inr c"
  shows "length (filter id [force_timeout c, force_invalid_target c, force_target c \<noteq> None,
                            force_stagnant_loop c]) \<le> 1
    \<and> (env_flag env ''LANGGRAPH_DEVELOPMENT'' \<or> c = default_config)"
proof (cases "env_flag env ''LANGGRAPH_DEVELOPMENT''")
  case True
  with assms show ?thesis
    unfolding config_from_env_def Let_def by (auto simp del: filter.simps split: if_split_asm)
next
  case False
  with assms have "c = default_config" by (simp add: config_from_env_def)
  then show ?thesis by (simp add: default_config_def)
qed

theorem config_has_one_hook_witness:
  "\<exists>c. config_from_env [''LANGGRAPH_DEVELOPMENT'' \<mapsto> '' True '', ''SUPERVISOR_FORCE_TIMEOUT'' \<mapsto> ''1''] = Inr c
     \<and> force_timeout c \<and> \<not> force_stagnant_loop c"
proof -
  let ?env = "[''LANGGRAPH_DEVELOPMENT'' \<mapsto> '' True '', ''SUPERVISOR_FORCE_TIMEOUT'' \<mapsto> ''1'']"
  let ?c = "default_config\<lparr>development := True, force_timeout := True\<rparr>"
  have c: "config_from_env ?env = Inr ?c" by code_simp
  from config_has_one_hook[OF c] c show ?thesis by (auto simp: default_config_def)
qed

end
