(* ===== verification/PyRegex.thy ===== *)
theory PyRegex
  imports PyText
begin

text \<open>
  The part of Python's \<open>re\<close> that the program uses, as a backtracking matcher: \<open>run r p\<close> lists
  the positions a match of \<open>r\<close> started at \<open>p\<close> can end in, in the order the engine tries
  them, so the head of the list is the match Python returns. A position carries the captured
  groups, the text already passed (reversed) and the text that follows. The negative lookbehind
  ignores case, as its only use does. Characters are the
  Latin-1 ones of \<open>char\<close>.
\<close>

section \<open>Patterns and positions\<close>

datatype re =
    Eps
  | Cls "char \<Rightarrow> bool"
  | Cat re re
  | Or re re
  | Star re
  | Lazy re
  | Grp string re
  | Bound
  | NotBehind string

record pos =
  groups :: "(string \<times> string) list"
  before :: string
  after :: string

definition at_start :: "string \<Rightarrow> pos" where
  "at_start s = \<lparr>groups = [], before = [], after = s\<rparr>"

fun step_char :: "(char \<Rightarrow> bool) \<Rightarrow> pos \<Rightarrow> pos list" where
  "step_char ok p =
    (case after p of
       [] \<Rightarrow> []
     | c # cs \<Rightarrow> if ok c then [p\<lparr>before := c # before p, after := cs\<rparr>] else [])"

definition at_bound :: "pos \<Rightarrow> bool" where
  "at_bound p =
    ((before p \<noteq> [] \<and> regex_word (hd (before p))) \<noteq> (after p \<noteq> [] \<and> regex_word (hd (after p))))"

text \<open>The text passed between two positions of one run.\<close>

definition passed :: "pos \<Rightarrow> pos \<Rightarrow> string" where
  "passed p q = rev (take (length (before q) - length (before p)) (before q))"

text \<open>Iterations of a loop body: every one must consume, so the length of the rest bounds them.\<close>

fun greedy :: "nat \<Rightarrow> (pos \<Rightarrow> pos list) \<Rightarrow> pos \<Rightarrow> pos list" where
  "greedy 0 step p = [p]"
| "greedy (Suc n) step p =
     concat (map (greedy n step) (filter (\<lambda>q. length (after q) < length (after p)) (step p))) @ [p]"

fun frugal :: "nat \<Rightarrow> (pos \<Rightarrow> pos list) \<Rightarrow> pos \<Rightarrow> pos list" where
  "frugal 0 step p = [p]"
| "frugal (Suc n) step p =
     p # concat (map (frugal n step) (filter (\<lambda>q. length (after q) < length (after p)) (step p)))"

primrec run :: "re \<Rightarrow> pos \<Rightarrow> pos list" where
  "run Eps p = [p]"
| "run (Cls ok) p = step_char ok p"
| "run (Cat a b) p = concat (map (run b) (run a p))"
| "run (Or a b) p = run a p @ run b p"
| "run (Star a) p = greedy (length (after p)) (run a) p"
| "run (Lazy a) p = frugal (length (after p)) (run a) p"
| "run (Grp n a) p = map (\<lambda>q. q\<lparr>groups := (n, passed p q) # groups q\<rparr>) (run a p)"
| "run Bound p = (if at_bound p then [p] else [])"
| "run (NotBehind s) p =
     (if casefold (take (length s) (before p)) = casefold (rev s) then [] else [p])"

section \<open>Derived patterns\<close>

definition chr_re :: "char \<Rightarrow> re" where
  "chr_re c = Cls (\<lambda>d. d = c)"

definition ci_char :: "char \<Rightarrow> re" where
  "ci_char c = Cls (\<lambda>d. lower_char d = lower_char c)"

fun lit :: "string \<Rightarrow> re" where
  "lit [] = Eps"
| "lit (c # s) = Cat (chr_re c) (lit s)"

fun ci_lit :: "string \<Rightarrow> re" where
  "ci_lit [] = Eps"
| "ci_lit (c # s) = Cat (ci_char c) (ci_lit s)"

fun seq :: "re list \<Rightarrow> re" where
  "seq [] = Eps"
| "seq [r] = r"
| "seq (r # rs) = Cat r (seq rs)"

fun alts :: "re list \<Rightarrow> re" where
  "alts [] = Cls (\<lambda>_. False)"
| "alts [r] = r"
| "alts (r # rs) = Or r (alts rs)"

definition plus :: "re \<Rightarrow> re" where
  "plus r = Cat r (Star r)"

definition plus_lazy :: "re \<Rightarrow> re" where
  "plus_lazy r = Cat r (Lazy r)"

definition opt :: "re \<Rightarrow> re" where
  "opt r = Or r Eps"

text \<open>\<open>r{m,m+n}\<close>.\<close>

fun up_to :: "nat \<Rightarrow> re \<Rightarrow> re" where
  "up_to 0 r = Eps"
| "up_to (Suc n) r = Or (Cat r (up_to n r)) Eps"

fun times_re :: "nat \<Rightarrow> re \<Rightarrow> re" where
  "times_re 0 r = Eps"
| "times_re (Suc n) r = Cat r (times_re n r)"

definition repeat_re :: "nat \<Rightarrow> nat \<Rightarrow> re \<Rightarrow> re" where
  "repeat_re m n r = Cat (times_re m r) (up_to (n - m) r)"

section \<open>Searching\<close>

record match =
  m_text :: string
  m_groups :: "(string \<times> string) list"
  m_end :: pos

definition match_at :: "re \<Rightarrow> pos \<Rightarrow> match option" where
  "match_at r p =
    (case run r (p\<lparr>groups := []\<rparr>) of
       [] \<Rightarrow> None
     | q # qs \<Rightarrow> Some \<lparr>m_text = passed p q, m_groups = groups q, m_end = q\<rparr>)"

definition re_match :: "re \<Rightarrow> string \<Rightarrow> match option" where
  "re_match r s = match_at r (at_start s)"

fun advance :: "pos \<Rightarrow> pos" where
  "advance p = (case after p of [] \<Rightarrow> p | c # cs \<Rightarrow> p\<lparr>before := c # before p, after := cs\<rparr>)"

text \<open>\<open>search_from n r p\<close> tries \<open>p\<close> and the \<open>n\<close> positions after it.\<close>

fun search_from :: "nat \<Rightarrow> re \<Rightarrow> pos \<Rightarrow> match option" where
  "search_from 0 r p = match_at r p"
| "search_from (Suc n) r p =
     (case match_at r p of Some m \<Rightarrow> Some m | None \<Rightarrow> search_from n r (advance p))"

definition re_search :: "re \<Rightarrow> string \<Rightarrow> match option" where
  "re_search r s = search_from (length s) r (at_start s)"

definition re_found :: "re \<Rightarrow> string \<Rightarrow> bool" where
  "re_found r s = (re_search r s \<noteq> None)"

text \<open>
  The non-overlapping matches from left to right. The next search starts where the match ended,
  and one character further after an empty match, so the length of the rest bounds their number.
\<close>

fun matches_from :: "nat \<Rightarrow> re \<Rightarrow> pos \<Rightarrow> match list" where
  "matches_from 0 r p = []"
| "matches_from (Suc n) r p =
     (case search_from (length (after p)) r p of
        None \<Rightarrow> []
      | Some m \<Rightarrow>
          m # (if m_text m = []
               then if after (m_end m) = [] then [] else matches_from n r (advance (m_end m))
               else matches_from n r (m_end m)))"

definition re_finditer :: "re \<Rightarrow> string \<Rightarrow> match list" where
  "re_finditer r s = matches_from (Suc (length s)) r (at_start s)"

definition re_findall :: "re \<Rightarrow> string \<Rightarrow> string list" where
  "re_findall r s = map m_text (re_finditer r s)"

definition group :: "match \<Rightarrow> string \<Rightarrow> string" where
  "group m n = (case map_of (m_groups m) n of Some t \<Rightarrow> t | None \<Rightarrow> [])"

text \<open>\<open>re.sub\<close> with a pattern that never matches the empty text.\<close>

fun sub_from :: "nat \<Rightarrow> re \<Rightarrow> string \<Rightarrow> pos \<Rightarrow> string" where
  "sub_from 0 r new p = after p"
| "sub_from (Suc n) r new p =
     (case after p of
        [] \<Rightarrow> []
      | c # cs \<Rightarrow>
          (case match_at r p of
             Some m \<Rightarrow> if m_text m = [] then c # sub_from n r new (advance p)
                       else new @ sub_from n r new (m_end m)
           | None \<Rightarrow> c # sub_from n r new (advance p)))"

definition re_sub :: "re \<Rightarrow> string \<Rightarrow> string \<Rightarrow> string" where
  "re_sub r new s = sub_from (length s) r new (at_start s)"

section \<open>What a run passes\<close>

text \<open>A run keeps the text: what it passed and what follows make up what followed before.\<close>

definition extends :: "pos \<Rightarrow> pos \<Rightarrow> bool" where
  "extends p q \<longleftrightarrow> (\<exists>u. before q = rev u @ before p \<and> after p = u @ after q)"

lemma extends_refl [simp]: "extends p p"
  by (auto simp: extends_def)

lemma extends_trans: "extends p q \<Longrightarrow> extends q r \<Longrightarrow> extends p r"
  unfolding extends_def by (metis append.assoc rev_append)

lemma greedy_extends:
  assumes "\<And>p q. q \<in> set (step p) \<Longrightarrow> extends p q"
  shows "q \<in> set (greedy n step p) \<Longrightarrow> extends p q"
  by (induction n arbitrary: p) (auto dest!: assms intro: extends_trans)

lemma frugal_extends:
  assumes "\<And>p q. q \<in> set (step p) \<Longrightarrow> extends p q"
  shows "q \<in> set (frugal n step p) \<Longrightarrow> extends p q"
  by (induction n arbitrary: p) (auto dest!: assms intro: extends_trans)

lemma run_extends: "q \<in> set (run r p) \<Longrightarrow> extends p q"
proof (induction r arbitrary: p q)
  case (Cat a b)
  then obtain x where "x \<in> set (run a p)" "q \<in> set (run b x)" by auto
  with Cat.IH show ?case by (blast intro: extends_trans)
next
  case (Cls ok)
  then show ?case by (auto simp: extends_def split: list.splits if_splits)
next
  case (Grp n a)
  then obtain q' where "q' \<in> set (run a p)" "q = q'\<lparr>groups := (n, passed p q') # groups q'\<rparr>"
    by auto
  with Grp.IH[of q' p] show ?case by (auto simp: extends_def)
qed (auto intro: extends_trans greedy_extends frugal_extends split: if_splits)

lemma passed_extends: "extends p q \<Longrightarrow> after p = passed p q @ after q"
  by (auto simp: extends_def passed_def)

lemma match_at_extends:
  assumes "match_at r p = Some m"
  shows "extends p (m_end m)" "m_text m = passed p (m_end m)"
proof -
  obtain q qs where q: "run r (p\<lparr>groups := []\<rparr>) = q # qs"
    and m: "m = \<lparr>m_text = passed p q, m_groups = groups q, m_end = q\<rparr>"
    using assms by (auto simp: match_at_def split: list.splits)
  from q have "extends (p\<lparr>groups := []\<rparr>) q" by (intro run_extends[of q r]) simp
  with m show "extends p (m_end m)" "m_text m = passed p (m_end m)" by (auto simp: extends_def)
qed

lemma extends_advance: "extends p (advance p)"
proof (cases "after p")
  case (Cons c cs)
  then show ?thesis by (auto simp: extends_def intro: exI[of _ "[c]"])
qed simp

lemma search_from_extends: "search_from n r p = Some m \<Longrightarrow> \<exists>q. extends p q \<and> match_at r q = Some m"
proof (induction n arbitrary: p)
  case (Suc n)
  then show ?case
    by (metis (no_types, lifting) extends_advance extends_refl extends_trans
        option.case_eq_if option.collapse search_from.simps(2))
qed (auto intro: extends_refl)

text \<open>A match of a search is a factor of the text.\<close>

lemma search_factor:
  assumes "re_search r s = Some m"
  shows "\<exists>a b. s = a @ m_text m @ b"
proof -
  obtain q where q: "extends (at_start s) q" "match_at r q = Some m"
    using search_from_extends[of "length s" r "at_start s" m] assms by (auto simp: re_search_def)
  from q(1) obtain u where u: "s = u @ after q" by (auto simp: extends_def at_start_def)
  from match_at_extends[OF q(2)] have "after q = m_text m @ after (m_end m)"
    using passed_extends by simp
  with u show ?thesis by blast
qed

end
