(* ===== verification/PyJson.thy ===== *)
theory PyJson
  imports PyValue "HOL-Library.List_Lexorder" "HOL-Library.Char_ord"
begin

text \<open>
  Python's \<open>json\<close>: the text of a value with sorted keys, and the reading of a text. A text that
  Python reads as a value outside \<open>pyval\<close> (not a number, an infinity, a float beyond the
  normal range, a character above Latin-1) is \<open>Unmodelled\<close>.
\<close>

section \<open>Writing\<close>

text \<open>\<open>json.dumps(v, ensure_ascii=False, sort_keys=True)\<close>.\<close>

definition hex_digit :: "nat \<Rightarrow> char" where
  "hex_digit n = (if n < 10 then char_of (48 + n) else char_of (87 + n))"

definition json_char :: "char \<Rightarrow> string" where
  "json_char c =
    (let n = (of_char c :: nat) in
     if c = CHR 0x22 \<or> c = CHR 0x5C then [CHR 0x5C, c]
     else if n = 8 then [CHR 0x5C, CHR ''b''] else if n = 9 then [CHR 0x5C, CHR ''t'']
     else if n = 10 then [CHR 0x5C, CHR ''n''] else if n = 12 then [CHR 0x5C, CHR ''f'']
     else if n = 13 then [CHR 0x5C, CHR ''r'']
     else if n < 32 then CHR 0x5C # ''u00'' @ [hex_digit (n div 16), hex_digit (n mod 16)]
     else [c])"

definition json_string :: "string \<Rightarrow> string" where
  "json_string s = CHR 0x22 # concat (map json_char s) @ [CHR 0x22]"

fun json_text :: "pyval \<Rightarrow> string" where
  "json_text PNone = ''null''"
| "json_text (PBool b) = (if b then ''true'' else ''false'')"
| "json_text (PInt i) = int_str i"
| "json_text (PFloat r) = float_str r"
| "json_text (PStr s) = json_string s"
| "json_text (PList xs) = ''['' @ join '', '' (map json_text xs) @ '']''"
| "json_text (PDict d) =
     ''{'' @ join '', '' (map (\<lambda>(k, t). json_string k @ '': '' @ t)
       (sort_key fst (map (\<lambda>(k, v). (k, json_text v)) d))) @ ''}''"

section \<open>Reading\<close>

definition json_error :: exn where
  "json_error = ValueError ''JSONDecodeError''"

definition skip_ws :: "string \<Rightarrow> string" where
  "skip_ws = dropWhile (\<lambda>c. c \<in> {CHR '' '', CHR 0x09, CHR 0x0A, CHR 0x0D})"

definition hex_value :: "char \<Rightarrow> nat option" where
  "hex_value c =
    (let n = (of_char c :: nat) in
     if 48 \<le> n \<and> n \<le> 57 then Some (n - 48)
     else if 65 \<le> n \<and> n \<le> 70 then Some (n - 55)
     else if 97 \<le> n \<and> n \<le> 102 then Some (n - 87) else None)"

definition simple_escapes :: "(char \<times> char) list" where
  "simple_escapes = [(CHR 0x22, CHR 0x22), (CHR 0x5C, CHR 0x5C), (CHR ''/'', CHR ''/''), (CHR ''b'', CHR 0x08),
     (CHR ''f'', CHR 0x0C), (CHR ''n'', CHR 0x0A), (CHR ''r'', CHR 0x0D), (CHR ''t'', CHR 0x09)]"

text \<open>The rest of a string literal after its opening quote.\<close>

fun json_chars :: "string \<Rightarrow> exn + string \<times> string" where
  "json_chars [] = Inl json_error"
| "json_chars (c # s) =
     (if c = CHR 0x22 then Inr ([], s)
      else if c = CHR 0x5C then
        (case s of
           [] \<Rightarrow> Inl json_error
         | d # t \<Rightarrow>
             (case map_of simple_escapes d of
                Some e \<Rightarrow> bind (json_chars t) (\<lambda>(x, r). Inr (e # x, r))
              | None \<Rightarrow>
                  (if d \<noteq> CHR ''u'' then Inl json_error
                   else (case map hex_value (take 4 t) of
                     [Some h3, Some h2, Some h1, Some h0] \<Rightarrow>
                       if h3 \<noteq> 0 \<or> h2 \<noteq> 0 then Inl Unmodelled
                       else bind (json_chars (drop 4 t)) (\<lambda>(x, r). Inr (char_of (16 * h1 + h0) # x, r))
                   | _ \<Rightarrow> Inl json_error))))
      else if (of_char c :: nat) < 32 then Inl json_error
      else bind (json_chars s) (\<lambda>(x, r). Inr (c # x, r)))"

text \<open>A number: an integer part without leading zeros, then a fraction and an exponent if well formed.\<close>

definition json_fraction :: "string \<Rightarrow> string \<times> string" where
  "json_fraction s =
    (case s of
       c # t \<Rightarrow> if c = CHR ''.'' \<and> takeWhile is_digit t \<noteq> [] then (takeWhile is_digit t, dropWhile is_digit t) else ([], s)
     | [] \<Rightarrow> ([], s))"

definition json_exponent :: "string \<Rightarrow> int option \<times> string" where
  "json_exponent s =
    (case s of
       c # t \<Rightarrow>
         (let (sign, u) = (case t of d # v \<Rightarrow> if d = CHR ''-'' then (- 1, v) else if d = CHR ''+'' then (1, v) else (1, t)
                                   | [] \<Rightarrow> (1, t)) in
          if c \<in> {CHR ''e'', CHR ''E''} \<and> takeWhile is_digit u \<noteq> []
          then (Some (sign * int (digits_val 0 (takeWhile is_digit u))), dropWhile is_digit u)
          else (None, s))
     | [] \<Rightarrow> (None, s))"

definition json_float :: "rat \<Rightarrow> exn + pyval" where
  "json_float q =
    (let x = round_double q in
     if x = 0 \<or> pow_int 2 (- 1022) \<le> \<bar>x\<bar> \<and> \<bar>x\<bar> < pow_int 2 1024 then Inr (PFloat x) else Inl Unmodelled)"

definition json_number :: "string \<Rightarrow> exn + pyval \<times> string" where
  "json_number s =
    (let neg = (s \<noteq> [] \<and> hd s = CHR ''-''); t = (if neg then tl s else s);
         whole = (if t \<noteq> [] \<and> hd t = CHR ''0'' then ''0'' else takeWhile is_digit t);
         (frac, u) = json_fraction (drop (length whole) t); (ex, r) = json_exponent u;
         sign = (if neg then - 1 else 1 :: int); digits = sign * int (digits_val 0 (whole @ frac)) in
     if whole = [] then Inl json_error
     else if frac = [] \<and> ex = None then Inr (PInt digits, r)
     else bind (json_float (of_int digits * pow_int 10 ((case ex of None \<Rightarrow> 0 | Some e \<Rightarrow> e) - int (length frac))))
       (\<lambda>v. Inr (v, r)))"

definition json_constants :: "(string \<times> (exn + pyval)) list" where
  "json_constants = [(''null'', Inr PNone), (''true'', Inr (PBool True)), (''false'', Inr (PBool False)),
     (''NaN'', Inl Unmodelled), (''Infinity'', Inl Unmodelled), (''-Infinity'', Inl Unmodelled)]"

definition json_scalar :: "string \<Rightarrow> exn + pyval \<times> string" where
  "json_scalar s =
    (case filter (\<lambda>(w, v). prefix w s) json_constants of
       (w, v) # _ \<Rightarrow> bind v (\<lambda>x. Inr (x, drop (length w) s))
     | [] \<Rightarrow> json_number s)"

lemma skip_ws_shorter:
  "length t < n \<Longrightarrow> Suc (2 * length (skip_ws t)) \<le> 2 * n"
  "length t \<le> n \<Longrightarrow> 2 * length (skip_ws t) \<le> Suc (2 * n)"
  "length t \<le> n \<Longrightarrow> 2 * length (skip_ws t) \<le> Suc (Suc (2 * n))"
  "skip_ws s = c # t \<Longrightarrow> Suc (Suc (2 * length t)) \<le> 2 * length s"
proof -
  have shorter: "length (skip_ws r) \<le> length r" for r by (simp add: skip_ws_def length_dropWhile_le)
  show "length t < n \<Longrightarrow> Suc (2 * length (skip_ws t)) \<le> 2 * n"
    and "length t \<le> n \<Longrightarrow> 2 * length (skip_ws t) \<le> Suc (2 * n)"
    and "length t \<le> n \<Longrightarrow> 2 * length (skip_ws t) \<le> Suc (Suc (2 * n))"
    using shorter[of t] by linarith+
  show "skip_ws s = c # t \<Longrightarrow> Suc (Suc (2 * length t)) \<le> 2 * length s"
    using shorter[of s] by simp
qed

text \<open>
  Values, the elements of an array and the members of an object. Every one consumes text; the
  comparisons of lengths, which always hold, let the recursion be seen to end.
\<close>

function json_value :: "string \<Rightarrow> exn + pyval \<times> string"
  and json_elements :: "string \<Rightarrow> exn + pyval list \<times> string"
  and json_members :: "string \<Rightarrow> exn + (string \<times> pyval) list \<times> string" where
  "json_value s =
     (case s of
        [] \<Rightarrow> Inl json_error
      | c # t \<Rightarrow>
          if c = CHR 0x22 then bind (json_chars t) (\<lambda>(x, r). Inr (PStr x, r))
          else if c = CHR ''['' then
            (case skip_ws t of
               [] \<Rightarrow> Inl json_error
             | d # u \<Rightarrow> if d = CHR '']'' then Inr (PList [], u)
                 else bind (json_elements (skip_ws t)) (\<lambda>(xs, r). Inr (PList xs, r)))
          else if c = CHR ''{'' then
            (case skip_ws t of
               [] \<Rightarrow> Inl json_error
             | d # u \<Rightarrow> if d = CHR ''}'' then Inr (PDict [], u)
                 else bind (json_members (skip_ws t)) (\<lambda>(xs, r). Inr (PDict (dmerge [] xs), r)))
          else json_scalar s)"
| "json_elements s =
     bind (json_value s) (\<lambda>(x, r).
       case skip_ws r of
         [] \<Rightarrow> Inl json_error
       | c # t \<Rightarrow>
           if c = CHR '']'' then Inr ([x], t)
           else if c = CHR '','' \<and> length t < length s
           then bind (json_elements (skip_ws t)) (\<lambda>(xs, u). Inr (x # xs, u))
           else Inl json_error)"
| "json_members s =
     (case s of
        [] \<Rightarrow> Inl json_error
      | q # s' \<Rightarrow>
          if q \<noteq> CHR 0x22 then Inl json_error
          else bind (json_chars s') (\<lambda>(k, r).
            case skip_ws r of
              [] \<Rightarrow> Inl json_error
            | c # t \<Rightarrow>
                if c \<noteq> CHR '':'' \<or> length t \<ge> length s then Inl json_error
                else bind (json_value (skip_ws t)) (\<lambda>(v, u).
                  case skip_ws u of
                    [] \<Rightarrow> Inl json_error
                  | d # w \<Rightarrow>
                      if d = CHR ''}'' then Inr ([(k, v)], w)
                      else if d = CHR '','' \<and> length w < length s
                      then bind (json_members (skip_ws w)) (\<lambda>(xs, z). Inr ((k, v) # xs, z))
                      else Inl json_error)))"
  by pat_completeness auto

termination
  by (relation "measure (\<lambda>x. case x of Inl s \<Rightarrow> 2 * length s | Inr (Inl s) \<Rightarrow> 2 * length s + 1
      | Inr (Inr s) \<Rightarrow> 2 * length s + 1)")
    (auto simp: less_Suc_eq_le not_le intro: skip_ws_shorter)

declare json_value.simps [simp del] json_elements.simps [simp del] json_members.simps [simp del]

definition json_loads :: "string \<Rightarrow> exn + pyval" where
  "json_loads s =
    bind (json_value (skip_ws s)) (\<lambda>(v, r). if skip_ws r = [] then Inr v else Inl json_error)"

end
