(* ===== verification/HostPaths.thy ===== *)
theory HostPaths
  imports PyRegex PyValue
begin

text \<open>
  Paths of the host: the pure POSIX paths of \<open>pathlib\<close> (\<open>as_posix\<close>, \<open>parts\<close>,
  \<open>is_absolute\<close>, \<open>name\<close>), and the normalisation of a tool's path into the project it
  belongs to (host.py), with the proof that a normalised path stays in its project.
\<close>

section \<open>Pure POSIX paths\<close>

text \<open>The root is kept as \<open>//\<close> only for exactly two leading slashes.\<close>

definition path_root :: "string \<Rightarrow> string" where
  "path_root s =
    (if starts_with s ''//'' \<and> \<not> starts_with s ''///'' then ''//''
     else if starts_with s ''/'' then ''/'' else [])"

definition path_tail :: "string \<Rightarrow> string list" where
  "path_tail s = filter (\<lambda>c. c \<noteq> [] \<and> c \<noteq> ''.'') (split_on (CHR ''/'') s)"

definition as_posix :: "string \<Rightarrow> string" where
  "as_posix s =
    (let t = path_root s @ join ''/'' (path_tail s) in if t = [] then ''.'' else t)"

definition is_absolute :: "string \<Rightarrow> bool" where
  "is_absolute s \<longleftrightarrow> path_root s \<noteq> []"

definition path_parts :: "string \<Rightarrow> string list" where
  "path_parts s = (if path_root s = [] then path_tail s else path_root s # path_tail s)"

definition path_name :: "string \<Rightarrow> string" where
  "path_name s = (if path_tail s = [] then [] else last (path_tail s))"

section \<open>Paths in a project\<close>

definition normalize_pytest_path :: "string \<Rightarrow> string" where
  "normalize_pytest_path path = as_posix (replace_char (CHR 0x5C) (CHR ''/'') path)"

fun windows_absolute :: "string \<Rightarrow> bool" where
  "windows_absolute (d # c # s # rest) = (is_alpha d \<and> c = CHR '':'' \<and> s = CHR ''/'')"
| "windows_absolute _ = False"

definition strip_slashes :: "string \<Rightarrow> string" where
  "strip_slashes s = strip_by (\<lambda>c. c = CHR ''/'') s"

definition normalize_project_relative_path :: "string \<Rightarrow> string \<Rightarrow> exn + string" where
  "normalize_project_relative_path project_name path =
    (let clean_project = strip_slashes (normalize_pytest_path project_name);
         clean_path = strip (normalize_pytest_path path) in
     if clean_project = [] then Inl (ValueError ''project_name must not be empty'')
     else if clean_path = [] then Inl (ValueError ''path must not be empty'')
     else if is_absolute clean_path \<or> windows_absolute clean_path
     then Inl (ValueError ''absolute paths are not allowed'')
     else if ''..'' \<in> set (path_parts clean_path)
     then Inl (ValueError ''path traversal is not allowed'')
     else let normalized = strip_slashes clean_path in
       if normalized = clean_project \<or> starts_with normalized (clean_project @ ''/'')
       then Inr normalized
       else Inr (clean_project @ ''/'' @ normalized))"

section \<open>Splitting and joining\<close>

lemma split_on_append_sep:
  "sep \<notin> set a \<Longrightarrow> split_on sep (a @ sep # s) = a # split_on sep s"
  by (induction a) auto

lemma split_on_no: "sep \<notin> set a \<Longrightarrow> split_on sep a = [a]"
  by (induction a) auto

lemma split_on_join:
  assumes "cs \<noteq> []" "\<And>c. c \<in> set cs \<Longrightarrow> sep \<notin> set c"
  shows "split_on sep (join [sep] cs) = cs"
  using assms
proof (induction cs rule: induct_list012)
  case (3 x y zs)
  then show ?case using split_on_append_sep[of sep x "join [sep] (y # zs)"] by simp
qed (auto simp: split_on_no)

lemma split_on_append:
  "split_on sep (a @ sep # b) = split_on sep a @ split_on sep b"
proof (induction a)
  case (Cons c a)
  then show ?case by (cases "split_on sep a") auto
qed simp

lemma path_tail_append: "path_tail (a @ ''/'' @ b) = path_tail a @ path_tail b"
  by (simp add: path_tail_def split_on_append)

lemma path_tail_join:
  assumes "\<And>c. c \<in> set cs \<Longrightarrow> CHR ''/'' \<notin> set c \<and> c \<noteq> [] \<and> c \<noteq> ''.''"
  shows "path_tail (join ''/'' cs) = cs"
proof (cases cs)
  case Nil
  then show ?thesis by (simp add: path_tail_def)
next
  case (Cons c cs')
  with assms have "split_on (CHR ''/'') (join ''/'' cs) = cs" by (intro split_on_join) auto
  with assms show ?thesis by (auto simp: path_tail_def intro: filter_True)
qed

lemma path_tail_comps:
  "c \<in> set (path_tail s) \<Longrightarrow> CHR ''/'' \<notin> set c \<and> c \<noteq> [] \<and> c \<noteq> ''.''"
  by (auto simp: path_tail_def dest: split_on_no_sep)

lemma path_tail_tail: "path_tail (join ''/'' (path_tail s)) = path_tail s"
  using path_tail_comps by (intro path_tail_join) blast

section \<open>A normalised path stays in its project\<close>

lemma path_tail_slash: "path_tail (CHR ''/'' # s) = path_tail s"
  by (simp add: path_tail_def)

lemma path_tail_snoc_slash: "path_tail (s @ [CHR ''/'']) = path_tail s"
  using path_tail_append[of s "[]"] by (simp add: path_tail_def)

lemma path_tail_dropWhile: "path_tail (dropWhile (\<lambda>c. c = CHR ''/'') s) = path_tail s"
  by (induction s) (auto simp: path_tail_slash)

lemma path_tail_dropWhile_end:
  "path_tail (rev (dropWhile (\<lambda>c. c = CHR ''/'') (rev s))) = path_tail s"
  by (induction s rule: rev_induct) (auto simp: path_tail_snoc_slash)

lemma path_tail_strip [simp]: "path_tail (strip_slashes s) = path_tail s"
  by (simp add: strip_slashes_def strip_by_def path_tail_dropWhile path_tail_dropWhile_end)

lemma hd_rev_dropWhile_rev: "rev (dropWhile p (rev s)) \<noteq> [] \<Longrightarrow> hd (rev (dropWhile p (rev s))) = hd s"
  by (metis dropWhile_eq_drop hd_append2 rev_rev_ident suffix_def suffix_dropWhile rev_append)

lemma strip_slashes_hd: "strip_slashes s \<noteq> [] \<Longrightarrow> hd (strip_slashes s) \<noteq> CHR ''/''"
proof -
  assume ne: "strip_slashes s \<noteq> []"
  let ?d = "dropWhile (\<lambda>c. c = CHR ''/'') s"
  have "hd (strip_slashes s) = hd ?d"
    using ne unfolding strip_slashes_def strip_by_def by (rule hd_rev_dropWhile_rev)
  moreover have "?d \<noteq> []" using ne unfolding strip_slashes_def strip_by_def by fastforce
  ultimately show ?thesis using hd_dropWhile[of "\<lambda>c. c = CHR ''/''" s] by simp
qed

lemma relative_hd: "s \<noteq> [] \<Longrightarrow> hd s \<noteq> CHR ''/'' \<Longrightarrow> \<not> is_absolute s"
  by (cases s) (auto simp: is_absolute_def path_root_def starts_with_def)

lemma starts_with_append: "starts_with s (p @ q) \<longleftrightarrow> (\<exists>r. s = p @ q @ r)"
  by (auto simp: starts_with_def prefix_def)

text \<open>A path that the host normalises is relative, begins with the project's own path and
  never leaves it: what follows the project has no parent component.\<close>

theorem normalized_path_in_project:
  assumes "normalize_project_relative_path project path = Inr r"
  shows "let p = strip_slashes (normalize_pytest_path project) in
    \<not> is_absolute r \<and> (r = p \<or> starts_with r (p @ ''/''))
    \<and> (\<exists>rest. path_tail r = path_tail p @ rest \<and> ''..'' \<notin> set rest)"
proof -
  define p where "p = strip_slashes (normalize_pytest_path project)"
  define q where "q = strip (normalize_pytest_path path)"
  define n where "n = strip_slashes q"
  have p: "p \<noteq> []" and dots: "''..'' \<notin> set (path_tail q)"
    and r: "r = (if n = p \<or> starts_with n (p @ ''/'') then n else p @ ''/'' @ n)"
    using assms unfolding normalize_project_relative_path_def
    by (auto simp: Let_def p_def[symmetric] q_def[symmetric] n_def[symmetric] path_parts_def
        split: if_splits)
  have hd: "hd p \<noteq> CHR ''/''" using p strip_slashes_hd by (simp add: p_def)
  have tail_n: "path_tail n = path_tail q" by (simp add: n_def)
  consider "r = p" | x where "r = p @ ''/'' @ x" "''..'' \<notin> set (path_tail x)"
  proof (cases "n = p")
    case False
    show ?thesis
    proof (cases "starts_with n (p @ ''/'')")
      case True
      then obtain x where x: "n = p @ ''/'' @ x" by (auto simp: starts_with_append)
      then have "path_tail q = path_tail p @ path_tail x" using tail_n path_tail_append by metis
      with dots x r True that(2) show ?thesis by auto
    qed (use False r dots tail_n that(2) in auto)
  qed (use r that(1) in auto)
  then show ?thesis
    unfolding Let_def p_def[symmetric]
  proof cases
    case 1
    then show "\<not> is_absolute r \<and> (r = p \<or> starts_with r (p @ ''/''))
        \<and> (\<exists>rest. path_tail r = path_tail p @ rest \<and> ''..'' \<notin> set rest)"
      using relative_hd p hd by auto
  next
    case 2
    moreover have "\<not> is_absolute (p @ ''/'' @ x)" using p hd by (intro relative_hd) auto
    ultimately show "\<not> is_absolute r \<and> (r = p \<or> starts_with r (p @ ''/''))
        \<and> (\<exists>rest. path_tail r = path_tail p @ rest \<and> ''..'' \<notin> set rest)"
      by (metis path_tail_append starts_with_append append.assoc)
  qed
qed

theorem normalized_path_in_project_witness:
  "normalize_project_relative_path ''demo'' ''tests/./test_main.py'' = Inr ''demo/tests/test_main.py''
   \<and> \<not> is_absolute ''demo/tests/test_main.py''"
proof -
  have n: "normalize_project_relative_path ''demo'' ''tests/./test_main.py'' =
    Inr ''demo/tests/test_main.py''" by code_simp
  from normalized_path_in_project[OF n] n show ?thesis by (simp add: Let_def)
qed

text \<open>The host's check that the project name is not empty cannot fail for an empty name: as a
  path it is \<open>.\<close>, so a file of an unnamed project is placed under \<open>./\<close>; and an empty path
  is not rejected either, it becomes the project itself.\<close>

theorem empty_names_are_accepted:
  "normalize_project_relative_path [] path \<noteq> Inl (ValueError ''project_name must not be empty'')
   \<and> normalize_project_relative_path [] ''tests/test_main.py'' = Inr ''./tests/test_main.py''
   \<and> normalize_project_relative_path ''demo'' [] = Inr ''demo/.''"
proof -
  have "strip_slashes (normalize_pytest_path []) \<noteq> []" by code_simp
  then have "normalize_project_relative_path [] path \<noteq> Inl (ValueError ''project_name must not be empty'')"
    by (simp add: normalize_project_relative_path_def Let_def)
  moreover have "normalize_project_relative_path [] ''tests/test_main.py'' = Inr ''./tests/test_main.py''"
    by code_simp
  moreover have "normalize_project_relative_path ''demo'' [] = Inr ''demo/.''" by code_simp
  ultimately show ?thesis by blast
qed

end
