(* ===== verification/ImplementationPlan.thy ===== *)
theory ImplementationPlan
  imports HostPaths
begin

text \<open>
  The generated implementation: the dependency policy of a framework with the normalisation and
  the validation of a \<open>requirements.txt\<close> (policies/dependencies.py), the same policy as the
  host enforces it on \<open>create_project_structure\<close> (host.py), and the parsing of a generated
  plan (graph/subgraphs/implementation/models.py).
\<close>

section \<open>Dependency policy\<close>

record DependencyPolicy =
  dp_framework :: string
  required_dependencies :: "(string \<times> string) list"
  optional_dependencies :: "(string \<times> string) list"

definition FASTAPI_DEPENDENCY_POLICY :: DependencyPolicy where
  "FASTAPI_DEPENDENCY_POLICY =
    \<lparr>dp_framework = ''fastapi'',
     required_dependencies = [(''fastapi'', ''fastapi[standard]==0.139.0''), (''pytest'', ''pytest>=8,<9'')],
     optional_dependencies = [(''httpx'', ''httpx>=0.23,<1''), (''uvicorn'', ''uvicorn>=0.17,<1'')]\<rparr>"

definition DEFAULT_FASTAPI_REQUIREMENT :: string where
  "DEFAULT_FASTAPI_REQUIREMENT = ''fastapi[standard]==0.139.0''"

definition DEFAULT_PYTEST_REQUIREMENT :: string where
  "DEFAULT_PYTEST_REQUIREMENT = ''pytest>=8,<9''"

definition BLOCKED_FASTAPI_REQUIREMENTS :: "string list" where
  "BLOCKED_FASTAPI_REQUIREMENTS = [''fastapi[standard]>=0.139.2,<0.140'']"

definition dependency_policy_for :: "string \<Rightarrow> DependencyPolicy option" where
  "dependency_policy_for framework =
    (if casefold (strip framework) = dp_framework FASTAPI_DEPENDENCY_POLICY
     then Some FASTAPI_DEPENDENCY_POLICY else None)"

definition without_comment :: "string \<Rightarrow> string" where
  "without_comment line = strip (hd (split_on (CHR ''#'') line))"

definition requirement_lines :: "string \<Rightarrow> string list" where
  "requirement_lines content = filter (\<lambda>l. l \<noteq> []) (map without_comment (splitlines content))"

text \<open>The name before the version: the greedy prefix the pattern \<open>REQUIREMENT_NAME\<close> captures.\<close>

definition extract_dependency_name :: "string \<Rightarrow> string" where
  "extract_dependency_name line =
    replace_char (CHR ''_'') (CHR ''-'')
      (casefold (takeWhile (\<lambda>c. is_word c \<or> c = CHR ''.'' \<or> c = CHR ''-'') (without_comment line)))"

record GeneratedFile =
  f_path :: string
  f_content :: string

definition is_requirements :: "GeneratedFile \<Rightarrow> bool" where
  "is_requirements file \<longleftrightarrow> casefold (f_path file) = ''requirements.txt''"

definition requirements_file :: "GeneratedFile list \<Rightarrow> GeneratedFile option" where
  "requirements_file files = find is_requirements files"

definition dependency_normalization_errors :: "string \<Rightarrow> GeneratedFile list \<Rightarrow> string list" where
  "dependency_normalization_errors framework files =
    (case dependency_policy_for framework of None \<Rightarrow> []
     | Some policy \<Rightarrow>
         (case requirements_file files of None \<Rightarrow> []
          | Some requirements \<Rightarrow>
              let controlled = map fst (required_dependencies policy @ optional_dependencies policy) in
              dedupe (map (\<lambda>line. ''unsupported_dependency: '' @ line)
                (filter (\<lambda>line. extract_dependency_name line \<notin> set controlled)
                  (requirement_lines (f_content requirements))))))"

text \<open>\<open>file is requirements\<close> picks the first requirements file by identity.\<close>

fun replace_requirements :: "string \<Rightarrow> GeneratedFile list \<Rightarrow> GeneratedFile list" where
  "replace_requirements content [] = []"
| "replace_requirements content (file # files) =
     (if is_requirements file then file\<lparr>f_content := content\<rparr> # files
      else file # replace_requirements content files)"

definition lines_text :: "string list \<Rightarrow> string" where
  "lines_text lines = join [CHR 0x0A] lines @ [CHR 0x0A]"

definition optional_present :: "DependencyPolicy \<Rightarrow> string \<Rightarrow> string list" where
  "optional_present policy content =
    (let names = map extract_dependency_name (requirement_lines content) in
     map snd (filter (\<lambda>(name, canonical). name \<in> set names) (optional_dependencies policy)))"

definition normalize_dependency_file :: "string \<Rightarrow> GeneratedFile list \<Rightarrow> GeneratedFile list" where
  "normalize_dependency_file framework files =
    (case dependency_policy_for framework of None \<Rightarrow> files
     | Some policy \<Rightarrow>
         let required = map snd (required_dependencies policy) in
         (case requirements_file files of
            None \<Rightarrow> files @ [\<lparr>f_path = ''requirements.txt'', f_content = lines_text required\<rparr>]
          | Some requirements \<Rightarrow>
              replace_requirements
                (lines_text (required @ optional_present policy (f_content requirements))) files))"

fun duplicate_errors :: "string list \<Rightarrow> string list \<Rightarrow> string list" where
  "duplicate_errors seen [] = []"
| "duplicate_errors seen (line # lines) =
     (if line \<in> set seen then [''duplicate_dependency: '' @ line] else [])
     @ duplicate_errors (line # seen) lines"

definition missing_errors :: "DependencyPolicy \<Rightarrow> string list \<Rightarrow> string list" where
  "missing_errors policy lines =
    concat (map (\<lambda>(name, required).
      if casefold required \<in> set (map casefold lines) then []
      else [(if name \<in> set (map extract_dependency_name lines)
             then ''incompatible_dependency_version: '' else ''missing_required_dependency: '') @ required])
      (required_dependencies policy))"

definition line_errors :: "DependencyPolicy \<Rightarrow> string list \<Rightarrow> string list" where
  "line_errors policy lines =
    (let controlled = required_dependencies policy @ optional_dependencies policy in
     concat (map (\<lambda>line.
       if casefold line \<in> set (map (casefold \<circ> snd) controlled) then []
       else [(if extract_dependency_name line \<in> set (map fst controlled)
              then ''incompatible_dependency_version: '' else ''unsupported_dependency: '') @ line])
       lines))"

definition validate_dependency_file :: "string \<Rightarrow> GeneratedFile list \<Rightarrow> string list" where
  "validate_dependency_file framework files =
    (case dependency_policy_for framework of None \<Rightarrow> []
     | Some policy \<Rightarrow>
         (case requirements_file files of
            None \<Rightarrow> [''missing_required_dependency: requirements.txt'']
          | Some requirements \<Rightarrow>
              let lines = requirement_lines (f_content requirements) in
              dedupe (missing_errors policy lines @ line_errors policy lines
                      @ duplicate_errors [] (map casefold lines))))"

section \<open>The host's check of the same policy\<close>

definition policy_violation :: "string \<Rightarrow> string \<Rightarrow> pydict" where
  "policy_violation expected received =
    [(''success'', PBool False), (''status'', PStr ''dependency_policy_violation''),
     (''expected'', PStr expected), (''received'', PStr received),
     (''message'', PStr ''Usa las dependencias configuradas por el Host.'')]"

definition validate_fastapi_dependency_policy :: "string \<Rightarrow> pydict option" where
  "validate_fastapi_dependency_policy content =
    (let lines = requirement_lines content;
         lower_lines = map casefold lines;
         fastapi_lines = filter (\<lambda>line. starts_with (casefold line) ''fastapi'') lines in
     case fastapi_lines of [] \<Rightarrow> None
     | received # _ \<Rightarrow>
         if casefold DEFAULT_FASTAPI_REQUIREMENT \<in> set lower_lines
            \<and> casefold DEFAULT_PYTEST_REQUIREMENT \<in> set lower_lines then None
         else if casefold received \<in> set BLOCKED_FASTAPI_REQUIREMENTS
                 \<or> received \<noteq> DEFAULT_FASTAPI_REQUIREMENT
         then Some (policy_violation DEFAULT_FASTAPI_REQUIREMENT received)
         else if casefold DEFAULT_PYTEST_REQUIREMENT \<notin> set lower_lines
         then Some (policy_violation DEFAULT_PYTEST_REQUIREMENT [])
         else None)"

fun dependency_policy_files :: "pyval list \<Rightarrow> exn + pydict option" where
  "dependency_policy_files [] = Inr None"
| "dependency_policy_files (PDict file # files) =
     bind (py_str (getd file ''path'' (PStr []))) (\<lambda>path.
       if casefold (path_name path) \<noteq> ''requirements.txt'' then dependency_policy_files files
       else bind (py_str (getd file ''content'' (PStr [])))
              (\<lambda>content. Inr (validate_fastapi_dependency_policy content)))"
| "dependency_policy_files (file # files) = dependency_policy_files files"

fun dependency_policy_for_project_files :: "pyval \<Rightarrow> exn + pydict option" where
  "dependency_policy_for_project_files (PList files) = dependency_policy_files files"
| "dependency_policy_for_project_files _ = Inr None"

section \<open>Normalised dependencies are valid\<close>

lemma find_append: "find P (xs @ ys) = (case find P xs of None \<Rightarrow> find P ys | Some x \<Rightarrow> Some x)"
  by (induction xs) auto

lemma requirements_replaced:
  "requirements_file files = Some r \<Longrightarrow>
    requirements_file (replace_requirements c files) = Some (r\<lparr>f_content := c\<rparr>)"
  by (induction files) (auto simp: requirements_file_def is_requirements_def split: if_splits)

lemma replace_twice:
  "replace_requirements c (replace_requirements d files) = replace_requirements c files"
  by (induction files) (auto simp: is_requirements_def)

lemma replace_appended:
  "requirements_file files = None \<Longrightarrow>
    replace_requirements c (files @ [f]) = files @ replace_requirements c [f]"
  by (induction files) (auto simp: requirements_file_def split: if_splits)

text \<open>The contents a normalisation can write: the required lines and some optional ones.\<close>

definition canonical_contents :: "string list" where
  "canonical_contents =
    map (\<lambda>opts. lines_text (map snd (required_dependencies FASTAPI_DEPENDENCY_POLICY) @ opts))
      [[], [''httpx>=0.23,<1''], [''uvicorn>=0.17,<1''], [''httpx>=0.23,<1'', ''uvicorn>=0.17,<1'']]"

lemma optional_present_cases:
  "optional_present FASTAPI_DEPENDENCY_POLICY content
     \<in> set [[], [''httpx>=0.23,<1''], [''uvicorn>=0.17,<1''], [''httpx>=0.23,<1'', ''uvicorn>=0.17,<1'']]"
proof -
  define names where "names = set (map extract_dependency_name (requirement_lines content))"
  have o: "optional_present FASTAPI_DEPENDENCY_POLICY content =
      (if ''httpx'' \<in> names then [''httpx>=0.23,<1''] else [])
      @ (if ''uvicorn'' \<in> names then [''uvicorn>=0.17,<1''] else [])"
    unfolding optional_present_def FASTAPI_DEPENDENCY_POLICY_def names_def[symmetric] Let_def by simp
  show ?thesis
    unfolding o by (cases "''httpx'' \<in> names"; cases "''uvicorn'' \<in> names") simp_all
qed

lemma canonical_content:
  "lines_text (map snd (required_dependencies FASTAPI_DEPENDENCY_POLICY)
     @ optional_present FASTAPI_DEPENDENCY_POLICY content) \<in> set canonical_contents"
  unfolding canonical_contents_def set_map by (rule imageI) (rule optional_present_cases)

lemma canonical_required:
  "lines_text (map snd (required_dependencies FASTAPI_DEPENDENCY_POLICY)) \<in> set canonical_contents"
  by (simp add: canonical_contents_def)

lemma canonical_contents_valid:
  "list_all (\<lambda>c. let lines = requirement_lines c in
      missing_errors FASTAPI_DEPENDENCY_POLICY lines @ line_errors FASTAPI_DEPENDENCY_POLICY lines
        @ duplicate_errors [] (map casefold lines) = []) canonical_contents"
  "list_all (\<lambda>c. validate_fastapi_dependency_policy c = None) canonical_contents"
  "list_all (\<lambda>c. lines_text (map snd (required_dependencies FASTAPI_DEPENDENCY_POLICY)
      @ optional_present FASTAPI_DEPENDENCY_POLICY c) = c) canonical_contents"
  by code_simp+

lemmas canonical_valid = canonical_contents_valid[unfolded list_all_iff, rule_format]

lemma policy_cases:
  "dependency_policy_for framework = None
   \<or> dependency_policy_for framework = Some FASTAPI_DEPENDENCY_POLICY"
  by (simp add: dependency_policy_for_def)

text \<open>The requirements file a normalised implementation has.\<close>

lemma normalized_requirements:
  assumes "dependency_policy_for framework = Some FASTAPI_DEPENDENCY_POLICY"
  shows "\<exists>r. requirements_file (normalize_dependency_file framework files) = Some r
           \<and> f_content r \<in> set canonical_contents"
proof (cases "requirements_file files")
  case None
  then have "requirements_file (normalize_dependency_file framework files)
      = Some \<lparr>f_path = ''requirements.txt'',
              f_content = lines_text (map snd (required_dependencies FASTAPI_DEPENDENCY_POLICY))\<rparr>"
    using assms by (simp add: normalize_dependency_file_def Let_def)
      (simp add: requirements_file_def find_append is_requirements_def casefold_def lower_char_def)
  then show ?thesis using canonical_required by simp
next
  case (Some r)
  then show ?thesis
    using assms requirements_replaced[OF Some] canonical_content
    by (simp add: normalize_dependency_file_def Let_def)
qed

text \<open>Whatever files were generated for whatever framework, after the normalisation of the
  dependencies their validation finds no error.\<close>

theorem normalized_dependencies_valid:
  "validate_dependency_file framework (normalize_dependency_file framework files) = []"
proof (cases "dependency_policy_for framework")
  case (Some p)
  then have p: "dependency_policy_for framework = Some FASTAPI_DEPENDENCY_POLICY"
    using policy_cases[of framework] by simp
  obtain r where "requirements_file (normalize_dependency_file framework files) = Some r"
    "f_content r \<in> set canonical_contents"
    using normalized_requirements[OF p] by blast
  with p canonical_valid(1)[of "f_content r"] show ?thesis
    by (simp add: validate_dependency_file_def Let_def)
qed (simp add: validate_dependency_file_def)

text \<open>Normalising the dependencies twice is normalising them once.\<close>

theorem normalize_dependencies_idempotent:
  "normalize_dependency_file framework (normalize_dependency_file framework files)
   = normalize_dependency_file framework files"
proof (cases "dependency_policy_for framework")
  case (Some p)
  then have p: "dependency_policy_for framework = Some FASTAPI_DEPENDENCY_POLICY"
    using policy_cases[of framework] by simp
  let ?n = "normalize_dependency_file framework files"
  obtain r where r: "requirements_file ?n = Some r" "f_content r \<in> set canonical_contents"
    using normalized_requirements[OF p] by blast
  have same: "replace_requirements (f_content x) fs = fs" if "requirements_file fs = Some x" for fs x
    using that by (induction fs) (auto simp: requirements_file_def split: if_splits)
  show ?thesis
    using p r(1) same[OF r(1)] canonical_valid(3)[OF r(2)]
    by (simp add: normalize_dependency_file_def[of framework ?n] Let_def)
qed (simp add: normalize_dependency_file_def)

text \<open>The host's own check accepts every normalised requirements file, so the two
  implementations of the policy agree on what the implementation stage produces.\<close>

theorem host_accepts_normalized_dependencies:
  assumes "requirements_file (normalize_dependency_file ''fastapi'' files) = Some r"
  shows "validate_fastapi_dependency_policy (f_content r) = None"
proof -
  have "dependency_policy_for ''fastapi'' = Some FASTAPI_DEPENDENCY_POLICY" by code_simp
  from normalized_requirements[OF this, of files] assms canonical_valid(2)[of "f_content r"]
  show ?thesis by auto
qed

theorem host_accepts_normalized_dependencies_witness:
  "validate_fastapi_dependency_policy (lines_text [''fastapi[standard]==0.139.0'', ''pytest>=8,<9'', ''httpx>=0.23,<1'']) = None"
proof -
  have "requirements_file (normalize_dependency_file ''fastapi''
      [\<lparr>f_path = ''Requirements.txt'', f_content = ''FastAPI==1 # old'' @ [CHR 0x0A] @ ''httpx''\<rparr>]) =
    Some \<lparr>f_path = ''Requirements.txt'',
      f_content = lines_text [''fastapi[standard]==0.139.0'', ''pytest>=8,<9'', ''httpx>=0.23,<1'']\<rparr>"
    by code_simp
  from host_accepts_normalized_dependencies[OF this] show ?thesis by simp
qed

section \<open>Parsing a generated plan\<close>

definition SUPPORTED_FRAMEWORKS :: "string list" where
  "SUPPORTED_FRAMEWORKS = [''fastapi'', ''dotnet'', ''node'']"

text \<open>\<open>^[A-Za-z]:[/\\]\<close>.\<close>

fun WINDOWS_ABSOLUTE :: "string \<Rightarrow> bool" where
  "WINDOWS_ABSOLUTE (d # c # s # rest) = (is_alpha d \<and> c = CHR '':'' \<and> (s = CHR ''/'' \<or> s = CHR 0x5C))"
| "WINDOWS_ABSOLUTE _ = False"

definition validate_path :: "string \<Rightarrow> exn + string" where
  "validate_path value =
    (let normalized = replace_char (CHR 0x5C) (CHR ''/'') (strip value) in
     if is_absolute normalized \<or> WINDOWS_ABSOLUTE normalized
     then Inl (ValueError ''file path must be relative'')
     else if ''..'' \<in> set (path_parts normalized) \<or> path_parts normalized = []
     then Inl (ValueError ''file path must not contain traversal'')
     else if list_ex (\<lambda>part. casefold part = ''.git'') (path_parts normalized)
     then Inl (ValueError ''file path must not target .git'')
     else Inr (as_posix normalized))"

text \<open>A declared string field: its type and the bounds on its length.\<close>

fun string_field :: "int \<Rightarrow> int \<Rightarrow> pyval \<Rightarrow> exn + string" where
  "string_field lo hi (PStr s) =
     (if lo \<le> int (length s) \<and> int (length s) \<le> hi then Inr s else Inl (ValueError ''string length''))"
| "string_field lo hi _ = Inl (ValueError ''string type'')"

definition only_keys :: "string list \<Rightarrow> pydict \<Rightarrow> exn + unit" where
  "only_keys ks d = (if list_all (\<lambda>(k, v). k \<in> set ks) d then Inr () else Inl (ValueError ''extra fields''))"

fun parse_generated_file :: "pyval \<Rightarrow> exn + GeneratedFile" where
  "parse_generated_file (PDict d) =
     bind (only_keys [''path'', ''content''] d) (\<lambda>_.
     bind (string_field 1 500 (get d ''path'')) (\<lambda>path.
     bind (validate_path path) (\<lambda>path'.
     bind (string_field 0 1048576 (get d ''content'')) (\<lambda>content.
     Inr \<lparr>f_path = path', f_content = content\<rparr>))))"
| "parse_generated_file _ = Inl (ValueError ''model type'')"

text \<open>The validator that runs before the fields: paths under the project's directory become
  relative to it, and files given twice with one content are kept once.\<close>

definition relative_to_prefix :: "string \<Rightarrow> string \<Rightarrow> string" where
  "relative_to_prefix pre path = (if starts_with path pre then drop (length pre) path else path)"

fun normalize_items :: "string \<Rightarrow> (string \<times> string) list \<Rightarrow> pyval list \<Rightarrow> exn + pyval list" where
  "normalize_items pre seen [] = Inr []"
| "normalize_items pre seen (PDict item # items) =
     bind (py_str (por (get item ''path'') (PStr []))) (\<lambda>raw.
       let path = relative_to_prefix pre (replace_char (CHR 0x5C) (CHR ''/'') (strip raw));
           item' = AList.update ''path'' (PStr path) item;
           key = casefold path in
       bind (py_str (por (get item' ''content'') (PStr []))) (\<lambda>content.
         case map_of seen key of
           Some previous \<Rightarrow>
             if previous \<noteq> content
             then Inl (ValueError (''implementation_path_conflict: '' @ path))
             else normalize_items pre seen items
         | None \<Rightarrow>
             bind (normalize_items pre ((key, content) # seen) items)
               (\<lambda>rest. Inr (PDict item' # rest))))"
| "normalize_items pre seen (item # items) =
     bind (normalize_items pre seen items) (\<lambda>rest. Inr (item # rest))"

definition normalize_project_relative_file_paths :: "pydict \<Rightarrow> exn + pydict" where
  "normalize_project_relative_file_paths data =
    bind (py_str (por (get data ''project_name'') (PStr []))) (\<lambda>name.
      let project_name = strip_slashes (replace_char (CHR 0x5C) (CHR ''/'') (strip name)) in
      case get data ''files'' of
        PList files \<Rightarrow>
          if project_name = [] then Inr data
          else bind (normalize_items (project_name @ ''/'') [] files)
                 (\<lambda>files'. Inr (AList.update ''files'' (PList files') data))
      | _ \<Rightarrow> Inr data)"

definition validate_framework :: "string \<Rightarrow> exn + string" where
  "validate_framework value =
    (let lowered = casefold (strip value) in
     if lowered \<in> set SUPPORTED_FRAMEWORKS then Inr lowered
     else Inl (ValueError (''unsupported framework: '' @ value)))"

definition normalize_name :: "string \<Rightarrow> exn + string" where
  "normalize_name value =
    (if strip value = [] then Inl (ValueError ''name must not be empty'') else Inr (strip value))"

record ProjectImplementationPlan =
  ip_project_name :: string
  ip_framework :: string
  ip_package_name :: string
  ip_files :: "GeneratedFile list"

definition validate_unique_paths :: "ProjectImplementationPlan \<Rightarrow> exn + ProjectImplementationPlan" where
  "validate_unique_paths plan =
    (if ip_framework plan = ''fastapi'' \<and> \<not> is_identifier (ip_package_name plan)
     then Inl (ValueError ''package_name must be a valid Python identifier for FastAPI'')
     else if \<not> distinct (map (casefold \<circ> f_path) (ip_files plan))
     then Inl (ValueError ''generated file paths must be unique'')
     else Inr plan)"

fun files_field :: "pyval \<Rightarrow> exn + GeneratedFile list" where
  "files_field (PList files) =
     (if 1 \<le> int (length files) \<and> int (length files) \<le> 50 then mapm parse_generated_file files
      else Inl (ValueError ''list length''))"
| "files_field _ = Inl (ValueError ''list type'')"

definition parse_implementation_plan :: "pydict \<Rightarrow> exn + ProjectImplementationPlan" where
  "parse_implementation_plan raw =
    bind (normalize_project_relative_file_paths raw) (\<lambda>data.
    bind (only_keys [''project_name'', ''framework'', ''package_name'', ''files''] data) (\<lambda>_.
    bind (string_field 1 120 (get data ''project_name'')) (\<lambda>project.
    bind (normalize_name project) (\<lambda>project'.
    bind (string_field 1 50 (get data ''framework'')) (\<lambda>framework.
    bind (validate_framework framework) (\<lambda>framework'.
    bind (string_field 1 120 (get data ''package_name'')) (\<lambda>package.
    bind (normalize_name package) (\<lambda>package'.
    bind (files_field (get data ''files'')) (\<lambda>files.
    validate_unique_paths
      \<lparr>ip_project_name = project', ip_framework = framework', ip_package_name = package',
       ip_files = files\<rparr>)))))))))"

text \<open>What every path of a parsed plan satisfies.\<close>

definition safe_path :: "string \<Rightarrow> bool" where
  "safe_path path \<longleftrightarrow> \<not> is_absolute path \<and> path_tail path \<noteq> []
     \<and> list_all (\<lambda>part. part \<noteq> ''..'' \<and> casefold part \<noteq> ''.git'') (path_tail path)"

lemma join_hd: "path_tail s \<noteq> [] \<Longrightarrow> join ''/'' (path_tail s) \<noteq> [] \<and> hd (join ''/'' (path_tail s)) \<noteq> CHR ''/''"
proof -
  assume "path_tail s \<noteq> []"
  then obtain c cs where c: "path_tail s = c # cs" by (cases "path_tail s") auto
  then have "CHR ''/'' \<notin> set c" "c \<noteq> []" using path_tail_comps[of c s] by auto
  with c show ?thesis by (cases cs; cases c) auto
qed

lemma validated_path_safe:
  assumes "validate_path value = Inr path"
  shows "safe_path path"
proof -
  define n where "n = replace_char (CHR 0x5C) (CHR ''/'') (strip value)"
  have v: "\<not> is_absolute n" "''..'' \<notin> set (path_parts n)" "path_parts n \<noteq> []"
    "\<not> list_ex (\<lambda>part. casefold part = ''.git'') (path_parts n)" "path = as_posix n"
    using assms by (auto simp: validate_path_def Let_def n_def[symmetric] split: if_splits)
  then have r: "path_root n = []" by (simp add: is_absolute_def)
  with v have parts: "path_parts n = path_tail n" by (simp add: path_parts_def)
  with v have ne: "path_tail n \<noteq> []" by simp
  then have p: "path = join ''/'' (path_tail n)"
    using v(5) r join_hd[OF ne] by (simp add: as_posix_def Let_def)
  then have "path_tail path = path_tail n" by (simp add: path_tail_tail)
  moreover have "\<not> is_absolute path" using p join_hd[OF ne] relative_hd by simp
  ultimately show ?thesis
    using v(2,4) ne parts by (auto simp: safe_path_def list_all_iff list_ex_iff)
qed

lemma parsed_file_safe: "parse_generated_file v = Inr f \<Longrightarrow> safe_path (f_path f)"
  by (cases v) (auto simp: bind_eq_Inr_iff dest: validated_path_safe)

lemma mapm_all: "mapm g xs = Inr ys \<Longrightarrow> y \<in> set ys \<Longrightarrow> \<exists>x. g x = Inr y"
  by (induction xs arbitrary: ys) (auto simp: bind_eq_Inr_iff)

lemma parsed_plan_facts:
  assumes "parse_implementation_plan raw = Inr plan"
  shows "(\<forall>f \<in> set (ip_files plan). safe_path (f_path f))
    \<and> distinct (map (casefold \<circ> f_path) (ip_files plan))
    \<and> ip_framework plan \<in> set SUPPORTED_FRAMEWORKS \<and> ip_project_name plan \<noteq> []
    \<and> (ip_framework plan = ''fastapi'' \<longrightarrow> is_identifier (ip_package_name plan))"
proof -
  obtain data framework framework' project project' package files
    where f: "files_field (get data ''files'') = Inr files"
    and fr: "validate_framework framework = Inr framework'"
    and pr: "normalize_name project = Inr project'"
    and u: "validate_unique_paths \<lparr>ip_project_name = project', ip_framework = framework',
       ip_package_name = package, ip_files = files\<rparr> = Inr plan"
    using assms unfolding parse_implementation_plan_def by (elim bind_InrE) blast
  have plan: "plan = \<lparr>ip_project_name = project', ip_framework = framework',
       ip_package_name = package, ip_files = files\<rparr>"
    and d: "distinct (map (casefold \<circ> f_path) files)"
    and i: "framework' = ''fastapi'' \<longrightarrow> is_identifier package"
    using u by (auto simp: validate_unique_paths_def split: if_splits)
  have "\<forall>f \<in> set files. safe_path (f_path f)"
    using f by (cases "get data ''files''") (auto dest: mapm_all parsed_file_safe split: if_splits)
  moreover have "framework' \<in> set SUPPORTED_FRAMEWORKS"
    using fr by (auto simp: validate_framework_def Let_def split: if_splits)
  moreover have "project' \<noteq> []" using pr by (auto simp: normalize_name_def split: if_splits)
  ultimately show ?thesis using plan d i by simp
qed

text \<open>(C33) A plan that parses is safe to write: every file path is relative, non-empty, without a
  parent component or a \<open>.git\<close> directory, the paths are distinct even without regard to case,
  and the framework is one of the supported ones, with a package name that Python can import
  for FastAPI.\<close>

theorem parsed_plan_is_safe:
  assumes "parse_implementation_plan raw = Inr plan"
  shows "(\<forall>f \<in> set (ip_files plan). safe_path (f_path f))
    \<and> distinct (map (casefold \<circ> f_path) (ip_files plan))
    \<and> ip_framework plan \<in> set SUPPORTED_FRAMEWORKS \<and> ip_project_name plan \<noteq> []
    \<and> (ip_framework plan = ''fastapi'' \<longrightarrow> is_identifier (ip_package_name plan))"
  using assms by (rule parsed_plan_facts)

definition example_raw_plan :: pydict where
  "example_raw_plan =
    [(''project_name'', PStr ''my-demo''), (''framework'', PStr '' FastAPI''), (''package_name'', PStr ''my_demo''),
     (''files'', PList [PDict [(''path'', PStr ''my-demo/my_demo/main.py''), (''content'', PStr ''app'')],
        PDict [(''path'', PStr ''my_demo/main.py''), (''content'', PStr ''app'')],
        PDict [(''path'', PStr ''tests/test_main.py''), (''content'', PStr ''t'')]])]"

theorem parsed_plan_is_safe_witness:
  "\<exists>plan. parse_implementation_plan example_raw_plan = Inr plan
     \<and> map f_path (ip_files plan) = [''my_demo/main.py'', ''tests/test_main.py'']
     \<and> (\<forall>f \<in> set (ip_files plan). safe_path (f_path f))"
proof -
  let ?plan = "\<lparr>ip_project_name = ''my-demo'', ip_framework = ''fastapi'', ip_package_name = ''my_demo'',
    ip_files = [\<lparr>f_path = ''my_demo/main.py'', f_content = ''app''\<rparr>,
                \<lparr>f_path = ''tests/test_main.py'', f_content = ''t''\<rparr>]\<rparr>"
  have p: "parse_implementation_plan example_raw_plan = Inr ?plan" by code_simp
  have "map f_path (ip_files ?plan) = [''my_demo/main.py'', ''tests/test_main.py'']" by simp
  moreover have "\<forall>f \<in> set (ip_files ?plan). safe_path (f_path f)"
    using parsed_plan_is_safe[OF p] by (rule conjunct1)
  ultimately show ?thesis by (intro exI[of _ ?plan] conjI p)
qed

section \<open>A package named as its project\<close>

lemma word_plain:
  assumes "is_word c"
  shows "\<not> is_space c" "c \<noteq> CHR ''/''" "c \<noteq> CHR 0x5C"
proof -
  have "\<forall>c. is_word c \<longrightarrow> \<not> is_space c \<and> c \<noteq> CHR ''/'' \<and> c \<noteq> CHR 0x5C"
    by (intro allI, case_tac c) (simp add: is_word_def is_alpha_code is_digit_code is_space_code)
  with assms show "\<not> is_space c" "c \<noteq> CHR ''/''" "c \<noteq> CHR 0x5C" by auto
qed

lemma strip_by_none:
  assumes "list_all (\<lambda>c. \<not> p c) s"
  shows "strip_by p s = s"
proof -
  have d: "dropWhile p xs = xs" if "list_all (\<lambda>c. \<not> p c) xs" for xs
    using that by (cases xs) auto
  show ?thesis using d[OF assms] d[of "rev s"] assms by (simp add: strip_by_def)
qed

lemma replace_none: "a \<notin> set s \<Longrightarrow> replace_char a b s = s"
  by (induction s) auto

lemma identifier_plain:
  assumes "is_identifier p"
  shows "strip p = p" "strip_slashes p = p" "replace_char (CHR 0x5C) x p = p" "p \<noteq> []"
proof -
  have w: "list_all is_word p" "p \<noteq> []" using assms by (simp_all add: is_identifier_def)
  then show "strip p = p" "strip_slashes p = p"
    using word_plain unfolding strip_def strip_slashes_def
    by (auto intro!: strip_by_none simp: list_all_iff)
  show "replace_char (CHR 0x5C) x p = p"
    using w(1) word_plain(3) by (intro replace_none) (auto simp: list_all_iff)
  show "p \<noteq> []" by (rule w)
qed

lemma plain_main_file:
  "only_keys [''path'', ''content''] [(''path'', PStr ''main.py''), (''content'', PStr c)] = Inr ()"
  "validate_path ''main.py'' = Inr ''main.py''"
  "string_field 1 500 (PStr ''main.py'') = Inr ''main.py''"
  by code_simp+

lemma module_path_plain:
  assumes "is_identifier p"
  shows "replace_char (CHR 0x5C) (CHR ''/'') (strip (p @ ''/main.py'')) = p @ ''/main.py''"
proof -
  have w: "list_all is_word p" using assms by (simp add: is_identifier_def)
  have "list_all (\<lambda>c. \<not> is_space c) ''/main.py''" "CHR 0x5C \<notin> set ''/main.py''" by code_simp+
  with w have "list_all (\<lambda>c. \<not> is_space c) (p @ ''/main.py'')" "CHR 0x5C \<notin> set (p @ ''/main.py'')"
    using word_plain by (auto simp: list_all_iff)
  then show ?thesis by (simp add: strip_def strip_by_none replace_none)
qed

text \<open>When the Python package has the project's own name, as every project whose name is an
  identifier has it, the directory of the package is taken for the project's directory: the main
  module \<open>p/main.py\<close> of the plan becomes \<open>main.py\<close>, outside its package.\<close>

theorem package_directory_is_stripped:
  assumes "is_identifier p" "int (length p) \<le> 120" "int (length c) \<le> 1048576"
  shows "\<exists>plan. parse_implementation_plan
      [(''project_name'', PStr p), (''framework'', PStr ''fastapi''), (''package_name'', PStr p),
       (''files'', PList [PDict [(''path'', PStr (p @ ''/main.py'')), (''content'', PStr c)]])] = Inr plan
    \<and> ip_package_name plan = p \<and> map f_path (ip_files plan) = [''main.py'']"
proof -
  let ?raw = "[(''project_name'', PStr p), (''framework'', PStr ''fastapi''), (''package_name'', PStr p),
       (''files'', PList [PDict [(''path'', PStr (p @ ''/main.py'')), (''content'', PStr c)]])]"
  let ?files = "PList [PDict [(''path'', PStr ''main.py''), (''content'', PStr c)]]"
  let ?data = "[(''project_name'', PStr p), (''framework'', PStr ''fastapi''), (''package_name'', PStr p),
       (''files'', ?files)]"
  note plain = identifier_plain[OF assms(1)]
  have rel: "relative_to_prefix (p @ ''/'') (p @ ''/main.py'') = ''main.py''"
    by (simp add: relative_to_prefix_def starts_with_def)
  have "normalize_items (p @ ''/'') [] [PDict [(''path'', PStr (p @ ''/main.py'')), (''content'', PStr c)]]
      = Inr [PDict [(''path'', PStr ''main.py''), (''content'', PStr c)]]"
    using module_path_plain[OF assms(1)] rel by (simp add: Let_def por_def)
  then have n: "normalize_project_relative_file_paths ?raw = Inr ?data"
    using plain by (simp add: normalize_project_relative_file_paths_def Let_def por_def)
  have "files_field ?files = Inr [\<lparr>f_path = ''main.py'', f_content = c\<rparr>]"
    using assms(3) by (simp add: plain_main_file)
  moreover have "string_field 1 120 (PStr p) = Inr p"
    using assms(2) plain(4) by (cases p) auto
  moreover have "normalize_name p = Inr p" using plain by (simp add: normalize_name_def)
  moreover have "validate_framework ''fastapi'' = Inr ''fastapi''"
    "string_field 1 50 (PStr ''fastapi'') = Inr ''fastapi''" by code_simp+
  moreover have "only_keys [''project_name'', ''framework'', ''package_name'', ''files''] ?data = Inr ()"
    by (simp add: only_keys_def)
  ultimately show ?thesis
    using assms(1) n by (simp add: parse_implementation_plan_def validate_unique_paths_def)
qed

theorem package_directory_is_stripped_witness:
  "\<exists>plan. parse_implementation_plan
      [(''project_name'', PStr ''demo''), (''framework'', PStr ''fastapi''), (''package_name'', PStr ''demo''),
       (''files'', PList [PDict [(''path'', PStr (''demo'' @ ''/main.py'')), (''content'', PStr ''x'')]])] = Inr plan
    \<and> ip_package_name plan = ''demo'' \<and> map f_path (ip_files plan) = [''main.py'']"
  by (rule package_directory_is_stripped) code_simp+

end
