(* ===== verification/HostState.thy ===== *)
theory HostState
  imports ImplementationPlan
begin

text \<open>
  The execution state of the host (host.py): the record \<open>ExecutionState\<close>, the decision which
  step comes next, the repair phases, the texts the host reads out of a test run with its
  regular expressions, and the names it derives from a request. The parser of Python
  (\<open>ast.parse\<close>) is a parameter: it lists the modules of the absolute \<open>from m import ...\<close>
  statements of a source text, or is \<open>None\<close> for a syntax error.
\<close>

section \<open>State\<close>

record ExecutionState =
  es_original_user_message :: string
  es_requested_project_name :: "string option"
  es_workflow_intent :: string
  es_analysis_completed :: bool
  es_tasks_created :: bool
  es_workspace_inspected :: bool
  es_project_created :: bool
  es_project_exists :: bool
  es_created_project_name :: "string option"
  es_tests_executed :: bool
  es_tests_passed :: bool
  es_test_infrastructure_failed :: bool
  es_retry_limit_reached :: bool
  es_user_cancelled :: bool
  es_terminal_status :: "string option"
  es_failure_type :: "string option"
  es_failure_stage :: "string option"
  es_failure_message :: "string option"
  es_detected_test_framework :: "string option"
  es_expected_test_command :: "string list option"
  es_actual_test_command :: "string list option"
  es_environment_prepared :: bool
  es_dependencies_installed :: bool
  es_environment_python :: "string option"
  es_installed_fastapi_version :: "string option"
  es_installed_starlette_version :: "string option"
  es_test_warning_count :: "int option"
  es_test_stdout :: "string option"
  es_test_stderr :: "string option"
  es_test_failure_summary :: "string option"
  es_failing_test_files :: "string list"
  es_failing_test_content :: "string option"
  es_related_source_content :: "string option"
  es_related_source_file :: "string option"
  es_related_source_candidates :: "string list"
  es_related_source_read_attempts :: int
  es_repair_phase :: string
  es_files_read_during_repair :: "string list"
  es_files_updated_during_repair :: "string list"
  es_repair_attempts :: int
  es_repair_decision :: "string option"
  es_repair_before :: "string option"
  es_repair_after :: "string option"
  es_first_test_result_summary :: "string option"
  es_final_test_result_summary :: "string option"
  es_sensitive_tools_executed :: "string list"
  es_rejected_tools :: "string list"
  es_last_tool_executed :: "string option"

definition new_execution_state :: "string \<Rightarrow> string option \<Rightarrow> string \<Rightarrow> ExecutionState" where
  "new_execution_state message project intent =
    \<lparr>es_original_user_message = message, es_requested_project_name = project, es_workflow_intent = intent,
     es_analysis_completed = False, es_tasks_created = False, es_workspace_inspected = False,
     es_project_created = False, es_project_exists = False, es_created_project_name = None,
     es_tests_executed = False, es_tests_passed = False, es_test_infrastructure_failed = False,
     es_retry_limit_reached = False, es_user_cancelled = False, es_terminal_status = None,
     es_failure_type = None, es_failure_stage = None, es_failure_message = None,
     es_detected_test_framework = None, es_expected_test_command = None, es_actual_test_command = None,
     es_environment_prepared = False, es_dependencies_installed = False, es_environment_python = None,
     es_installed_fastapi_version = None, es_installed_starlette_version = None, es_test_warning_count = None,
     es_test_stdout = None, es_test_stderr = None, es_test_failure_summary = None,
     es_failing_test_files = [], es_failing_test_content = None, es_related_source_content = None,
     es_related_source_file = None, es_related_source_candidates = [], es_related_source_read_attempts = 0,
     es_repair_phase = ''not_started'', es_files_read_during_repair = [], es_files_updated_during_repair = [],
     es_repair_attempts = 0, es_repair_decision = None, es_repair_before = None,
     es_repair_after = None, es_first_test_result_summary = None, es_final_test_result_summary = None,
     es_sensitive_tools_executed = [], es_rejected_tools = [], es_last_tool_executed = None\<rparr>"

definition MAX_REPAIR_ATTEMPTS :: int where "MAX_REPAIR_ATTEMPTS = 2"

definition MAX_TEST_ATTEMPTS :: int where "MAX_TEST_ATTEMPTS = 3"

definition is_terminal_failure :: "ExecutionState \<Rightarrow> bool" where
  "is_terminal_failure st \<longleftrightarrow> es_test_infrastructure_failed st \<or> es_retry_limit_reached st
     \<or> es_user_cancelled st \<or> es_terminal_status st = Some ''project_not_found''"

definition is_terminal_state :: "ExecutionState \<Rightarrow> bool" where
  "is_terminal_state st \<longleftrightarrow> is_terminal_failure st \<or> es_tests_passed st"

definition terminal_status_for :: "ExecutionState \<Rightarrow> string option" where
  "terminal_status_for st =
    (if es_tests_passed st then Some ''completed''
     else if es_test_infrastructure_failed st then Some ''infrastructure_failed''
     else if es_user_cancelled st then Some ''rejected_by_user''
     else if es_retry_limit_reached st then Some ''retry_limit_reached''
     else es_terminal_status st)"

definition determine_next_action :: "ExecutionState \<Rightarrow> string" where
  "determine_next_action st =
    (if is_terminal_state st then ''finalize''
     else if es_workflow_intent st = ''review_existing_project'' then
       (if \<not> es_workspace_inspected st then ''filesystem__list_files''
        else if \<not> es_project_exists st \<and> \<not> es_project_created st then ''finalize''
        else if es_detected_test_framework st = None then ''testing__detect_test_framework''
        else if \<not> es_environment_prepared st then ''testing__prepare_test_environment''
        else if es_tests_passed st then ''finalize''
        else if \<not> es_tests_executed st \<or> es_repair_phase st = ''rerun_tests'' then ''testing__run_tests''
        else if es_tests_executed st \<and> \<not> es_tests_passed st \<and> \<not> es_test_infrastructure_failed st
        then ''fix_failed_tests''
        else ''finalize'')
     else if \<not> es_analysis_completed st then ''software_factory__analyze_requirement''
     else if \<not> es_tasks_created st then ''software_factory__create_tasks''
     else if \<not> es_workspace_inspected st then ''filesystem__list_files''
     else if \<not> es_project_created st \<and> \<not> es_project_exists st then ''filesystem__create_project_structure''
     else if es_detected_test_framework st = None then ''testing__detect_test_framework''
     else if \<not> es_environment_prepared st then ''testing__prepare_test_environment''
     else if es_tests_passed st then ''finalize''
     else if \<not> es_tests_executed st then ''testing__run_tests''
     else if es_tests_executed st \<and> \<not> es_tests_passed st \<and> \<not> es_test_infrastructure_failed st
     then ''fix_failed_tests''
     else ''finalize'')"

definition repair_phase_allowed_tool_name :: "ExecutionState \<Rightarrow> string" where
  "repair_phase_allowed_tool_name st =
    (if es_repair_phase st \<in> {''not_started'', ''read_failing_test'', ''read_related_source''}
     then ''filesystem__read_file''
     else if es_repair_phase st = ''apply_fix'' then ''filesystem__update_project_files''
     else if es_repair_phase st = ''rerun_tests'' then ''testing__run_tests''
     else [])"

section \<open>Names\<close>

definition python_keywords :: "string list" where
  "python_keywords =
    [''False'', ''None'', ''True'', ''and'', ''as'', ''assert'', ''async'', ''await'', ''break'',
     ''class'', ''continue'', ''def'', ''del'', ''elif'', ''else'', ''except'', ''finally'', ''for'',
     ''from'', ''global'', ''if'', ''import'', ''in'', ''is'', ''lambda'', ''nonlocal'', ''not'',
     ''or'', ''pass'', ''raise'', ''return'', ''try'', ''while'', ''with'', ''yield'']"

text \<open>\<open>re.sub(r"_+", "_", s)\<close>.\<close>

fun collapse_underscores :: "string \<Rightarrow> string" where
  "collapse_underscores (a # b # s) =
     (if a = CHR ''_'' \<and> b = CHR ''_'' then collapse_underscores (b # s)
      else a # collapse_underscores (b # s))"
| "collapse_underscores s = s"

definition project_name_to_python_package :: "string \<Rightarrow> exn + string" where
  "project_name_to_python_package project_name =
    (let replaced = map (\<lambda>c. if is_word c then c else CHR ''_'')
           (replace_char (CHR ''-'') (CHR ''_'') (strip project_name));
         normalized = strip_by (\<lambda>c. c = CHR ''_'') (collapse_underscores replaced) in
     if normalized = []
     then Inl (ValueError (''El nombre del proyecto no puede estar vac'' @ [CHR 0xED] @ ''o ni carecer de caracteres v'' @ [CHR 0xE1] @ ''lidos.''))
     else let named = (if is_digit (hd normalized) then CHR ''_'' # normalized else normalized);
              safe = (if named \<in> set python_keywords then named @ ''_'' else named) in
       if \<not> is_identifier safe
       then Inl (ValueError (''El nombre del proyecto no puede convertirse en un package Python v'' @ [CHR 0xE1] @ ''lido.''))
       else Inr safe)"

definition main_module_path :: "string \<Rightarrow> string option" where
  "main_module_path modname =
    (let parts = split_on (CHR ''.'') modname in
     if 2 \<le> length parts \<and> last parts = ''main'' \<and> list_all is_identifier parts
     then Some (join ''/'' parts @ ''.py'') else None)"

fun first_some :: "('a \<Rightarrow> 'b option) \<Rightarrow> 'a list \<Rightarrow> 'b option" where
  "first_some f [] = None"
| "first_some f (x # xs) = (case f x of Some y \<Rightarrow> Some y | None \<Rightarrow> first_some f xs)"

definition extract_related_source_path_from_test ::
  "(string \<Rightarrow> string list option) \<Rightarrow> string \<Rightarrow> string option" where
  "extract_related_source_path_from_test imports test_content =
    (case imports test_content of None \<Rightarrow> None | Some modules \<Rightarrow> first_some main_module_path modules)"

definition project_of :: "ExecutionState \<Rightarrow> string" where
  "project_of st =
    (case es_created_project_name st of
       Some (c # s) \<Rightarrow> c # s
     | _ \<Rightarrow> (case es_requested_project_name st of Some n \<Rightarrow> n | None \<Rightarrow> []))"

definition expected_project_relative_path :: "ExecutionState \<Rightarrow> string \<Rightarrow> exn + string" where
  "expected_project_relative_path st relative_path =
    normalize_project_relative_path (project_of st) relative_path"

definition infer_related_source_file ::
  "(string \<Rightarrow> string list option) \<Rightarrow> ExecutionState \<Rightarrow> string option" where
  "infer_related_source_file imports st =
    (case es_related_source_file st of
       Some (c # s) \<Rightarrow> Some (c # s)
     | _ \<Rightarrow>
       (case extract_related_source_path_from_test imports
               (case es_failing_test_content st of Some t \<Rightarrow> t | None \<Rightarrow> []) of
          Some path \<Rightarrow> Some path
        | None \<Rightarrow>
            (case project_name_to_python_package (project_of st) of
               Inr package \<Rightarrow> Some (package @ ''/main.py'')
             | Inl _ \<Rightarrow> None)))"

section \<open>The request\<close>

definition name_char :: "char \<Rightarrow> bool" where
  "name_char c = (is_word c \<or> c = CHR ''-'')"

definition captured_name :: re where
  "captured_name = Cat (plus (Cls is_space)) (Cat (Grp ''1'' (repeat_re 1 64 (Cls name_char))) Bound)"

definition PROJECT_NAME_PATTERNS :: "re list" where
  "PROJECT_NAME_PATTERNS =
    [seq [Bound, Or (ci_lit ''llamado'') (ci_lit ''llamada''), captured_name],
     seq [NotBehind ''sin '', Bound, ci_lit ''nombre'', captured_name],
     seq [Bound, ci_lit ''proyecto'', captured_name]]"

definition PROJECT_FRAMEWORK_WORDS :: "string list" where
  "PROJECT_FRAMEWORK_WORDS = [''fastapi'', ''dotnet'', ''node'', ''python'']"

fun name_from_patterns :: "nat \<Rightarrow> re list \<Rightarrow> string \<Rightarrow> string option" where
  "name_from_patterns index [] message = None"
| "name_from_patterns index (p # ps) message =
     (case re_search p message of
        None \<Rightarrow> name_from_patterns (Suc index) ps message
      | Some m \<Rightarrow>
          if index = 2 \<and> casefold (group m ''1'') \<in> set PROJECT_FRAMEWORK_WORDS
          then name_from_patterns (Suc index) ps message
          else Some (group m ''1''))"

definition extract_requested_project_name :: "string \<Rightarrow> string option" where
  "extract_requested_project_name message = name_from_patterns 0 PROJECT_NAME_PATTERNS message"

definition CREATE_INTENT_RE :: re where
  "CREATE_INTENT_RE =
    seq [Bound, alts (map ci_lit [''crea'', ''crear'', ''genera'', ''generar'', ''construye'', ''construir'']),
         Bound]"

definition REVIEW_INTENT_RE :: re where
  "REVIEW_INTENT_RE =
    Or (seq [Bound, alts (map ci_lit [''revisa'', ''revisar'', ''valida'', ''validar'', ''corrige'',
               ''corregir'']), Bound])
       (ci_lit ''ejecuta sus pruebas'')"

definition extract_workflow_intent :: "string \<Rightarrow> string option \<Rightarrow> string" where
  "extract_workflow_intent message project_name =
    (if re_found CREATE_INTENT_RE message then ''create_project''
     else if project_name \<notin> {None, Some []} \<and> re_found REVIEW_INTENT_RE message
     then ''review_existing_project''
     else ''create_project'')"

section \<open>The output of a test run\<close>

definition file_char :: "char \<Rightarrow> bool" where
  "file_char c = (is_word c \<or> c = CHR ''.'' \<or> c = CHR ''-'')"

definition PYTEST_FILE_RE :: re where
  "PYTEST_FILE_RE =
    seq [Grp ''path'' (seq [plus (Cat (plus (Cls file_char)) (Cls (\<lambda>c. c = CHR ''/'' \<or> c = CHR 0x5C))),
                            lit ''test_'', plus (Cls file_char), lit ''.py'']),
         lit '':'', Grp ''line'' (plus (Cls is_digit))]"

definition combined_output :: "string \<Rightarrow> string \<Rightarrow> string" where
  "combined_output out err = out @ CHR 0x0A # err"

definition extract_failing_test_files :: "string \<Rightarrow> string \<Rightarrow> string list" where
  "extract_failing_test_files stdout stderr =
    dedupe (map (\<lambda>m. normalize_pytest_path (group m ''path''))
      (re_finditer PYTEST_FILE_RE (combined_output stdout stderr)))"

text \<open>\<open>"status": "v"\<close> with the quote \<open>q\<close>.\<close>

definition status_pair :: "char \<Rightarrow> string \<Rightarrow> string" where
  "status_pair q v = [q] @ ''status'' @ [q] @ '': '' @ [q] @ v @ [q]"

definition healthy_summary :: string where
  "healthy_summary = (''esperaba {'' @ status_pair (CHR 0x22) ''healthy'' @ (''}, pero el endpoint devolvi'' @ [CHR 0xF3] @ '' {'') @ status_pair (CHR 0x22) ''ok'' @ ''}.'')"

definition extract_failure_summary :: "string \<Rightarrow> string \<Rightarrow> string" where
  "extract_failure_summary stdout stderr =
    (let combined = combined_output stdout stderr;
         location = (case re_search PYTEST_FILE_RE combined of None \<Rightarrow> []
                     | Some m \<Rightarrow> normalize_pytest_path (group m ''path'') @ '':'' @ group m ''line'' @ '' '') in
     if contains combined (status_pair (CHR 0x22) ''healthy'') \<and> contains combined (status_pair (CHR 0x22) ''ok'')
     then strip (location @ healthy_summary)
     else if contains combined (status_pair (CHR 0x27) ''healthy'') \<and> contains combined (status_pair (CHR 0x27) ''ok'')
     then strip (location @ healthy_summary)
     else (case find (\<lambda>line. starts_with line ''E '' \<or> contains line ''AssertionError'')
                  (map strip (splitlines combined)) of
             Some line \<Rightarrow> line
           | None \<Rightarrow> ''Las pruebas fallaron; revisa stdout/stderr para el detalle.''))"

definition counted_outcome :: re where
  "counted_outcome =
    seq [plus (Cls is_digit), plus (Cls is_space),
         alts [lit ''passed'', lit ''failed'', Cat (lit ''error'') (opt (lit ''s'')),
               Cat (lit ''warning'') (opt (lit ''s''))]]"

definition summarize_pytest_result :: "string \<Rightarrow> bool \<Rightarrow> string" where
  "summarize_pytest_result stdout success =
    (let found = re_findall (Cat counted_outcome
                   (Star (seq [lit '','', Star (Cls is_space), counted_outcome]))) stdout in
     if found \<noteq> [] then last found else if success then ''passed'' else ''failed'')"

fun extract_repair_evidence :: "pyval list \<Rightarrow> exn + (string \<times> string \<times> string) option" where
  "extract_repair_evidence [] = Inr None"
| "extract_repair_evidence (PDict file # files) =
     bind (py_str (getd file ''content'' (PStr []))) (\<lambda>content.
       if contains content (status_pair (CHR 0x22) ''ok'')
       then Inr (Some ((status_pair (CHR 0x22) ''healthy''), (status_pair (CHR 0x22) ''ok''),
              (''El endpoint ya cumpl'' @ [CHR 0xED] @ ''a el requerimiento original. Se corrigi'' @ [CHR 0xF3] @ '' el test.'')))
       else extract_repair_evidence files)"
| "extract_repair_evidence (file # files) = extract_repair_evidence files"

end
