(* ===== verification/HostTools.thy ===== *)
theory HostTools
  imports HostState "HOL-Library.List_Lexorder" "HOL-Library.Char_ord"
begin

text \<open>
  The host's path from a requested tool call to the MCP server and back (host.py):
  the validation of the arguments and of the call against the execution state, the retry limit
  of test runs, the approval of sensitive tools, the reconciliation of the reply and the update
  of the state. The servers, the person who approves, the JSON schema validator and the Python
  parser are the fields of \<open>HostEnv\<close>. The host's history of questions and sent calls is a
  specification variable: the code does not read it.
\<close>

section \<open>Tools, replies and the environment\<close>

record RegisteredTool =
  public_name :: string
  original_name :: string
  server_name :: string
  description :: string
  input_schema :: pydict
  requires_approval :: bool

text \<open>The tools a server declares, and their registration under a public name (clients/).\<close>

record ToolDeclaration =
  decl_server :: string
  decl_name :: string
  decl_description :: string
  decl_schema :: pydict

definition normalize_server_name :: "string \<Rightarrow> string" where
  "normalize_server_name server =
    collapse_underscores (replace_char (CHR '' '') (CHR ''_'')
      (replace_char (CHR ''-'') (CHR ''_'') (casefold (strip server))))"

definition SENSITIVE_TOOLS :: "(string \<times> string) list" where
  "SENSITIVE_TOOLS =
    [(''filesystem'', ''create_directory''), (''filesystem'', ''write_file''),
     (''filesystem'', ''create_project_structure''), (''filesystem'', ''update_project_files''),
     (''testing'', ''prepare_test_environment''), (''testing'', ''run_tests''), (''git'', ''commit''),
     (''git'', ''approve_commit''), (''git'', ''merge_workflow_branch''), (''git'', ''prepare_promotion''),
     (''git'', ''approve_promotion'')]"

definition register ::
  "(string \<times> RegisteredTool) list \<Rightarrow> ToolDeclaration \<Rightarrow> bool \<Rightarrow> exn + (string \<times> RegisteredTool) list" where
  "register tools decl requires =
    (let pre = normalize_server_name (decl_server decl);
         public = pre @ ''__'' @ decl_name decl in
     if public \<in> set (map fst tools) then Inl (ValueError (''duplicate tool public name: '' @ public))
     else Inr (tools @ [(public,
       \<lparr>public_name = public, original_name = decl_name decl, server_name = pre,
        description = decl_description decl,
        input_schema = (if decl_schema decl = []
          then [(''type'', PStr ''object''), (''properties'', PDict [])] else decl_schema decl),
        requires_approval = requires\<rparr>)]))"

fun register_tools ::
  "(string \<times> RegisteredTool) list \<Rightarrow> ToolDeclaration list \<Rightarrow> exn + (string \<times> RegisteredTool) list" where
  "register_tools tools [] = Inr tools"
| "register_tools tools (decl # decls) =
     bind (register tools decl ((normalize_server_name (decl_server decl), decl_name decl)
             \<in> set (map (\<lambda>(srv, name). (normalize_server_name srv, name)) SENSITIVE_TOOLS)))
       (\<lambda>tools'. register_tools tools' decls)"

text \<open>A JSON text is represented by the value it decodes to; a text part that is not JSON by \<open>None\<close>.\<close>

record ToolExecutionResult =
  output_for_model :: pydict
  r_payload :: "pydict option"
  is_error :: bool
  content_text :: "string list"

datatype mcp_result =
    McpDict pydict
  | McpObject (structured: "pydict option") (contents: "(string \<times> pyval option) list option")
      (error_flag: bool) (dumped: "pydict option") (shown: string)

datatype mcp_reply =
    Replied mcp_result
  | TimedOut (timeout_server: string) (timeout_tool: string) (timeout_text: string)
  | Raised string

datatype approval_mode = Prompt | AlreadyApproved

datatype host_event =
    Asked RegisteredTool pydict bool
  | Sent RegisteredTool pydict approval_mode

record HostEnv =
  declarations :: "ToolDeclaration list"
  schema_messages :: "pydict \<Rightarrow> pydict \<Rightarrow> string list"
  call_tool :: "host_event list \<Rightarrow> RegisteredTool \<Rightarrow> pydict \<Rightarrow> mcp_reply"
  answers :: "host_event list \<Rightarrow> RegisteredTool \<Rightarrow> pydict \<Rightarrow> string list"
  py_imports :: "string \<Rightarrow> string list option"

text \<open>The registry of a host; a registration that fails stops the start of the host.\<close>

definition registry :: "HostEnv \<Rightarrow> (string \<times> RegisteredTool) list" where
  "registry env = (case register_tools [] (declarations env) of Inr tools \<Rightarrow> tools | Inl e \<Rightarrow> [])"

record Host =
  rejected_calls :: "(string \<times> pyval) list"
  test_attempts :: "(string \<times> int) list"
  host_state :: "ExecutionState option"
  history :: "host_event list"

definition new_host :: Host where
  "new_host = \<lparr>rejected_calls = [], test_attempts = [], host_state = None, history = []\<rparr>"

definition reset_request_state :: "Host \<Rightarrow> Host" where
  "reset_request_state h = h\<lparr>rejected_calls := [], test_attempts := [], host_state := None\<rparr>"

section \<open>Replies\<close>

definition unwrap_business_payload :: "pydict option \<Rightarrow> pydict option" where
  "unwrap_business_payload payload =
    (case payload of None \<Rightarrow> None
     | Some p \<Rightarrow> (case get p ''data'' of PDict d \<Rightarrow> Some d | _ \<Rightarrow> Some p))"

fun json_object :: "pyval option \<Rightarrow> pydict option" where
  "json_object (Some (PDict d)) = Some d"
| "json_object _ = None"

fun extract_mcp_payload :: "mcp_result \<Rightarrow> pydict option \<times> string list" where
  "extract_mcp_payload (McpDict d) = (unwrap_business_payload (Some d), [])"
| "extract_mcp_payload (McpObject (Some d) cs e md sh) = (unwrap_business_payload (Some d), [])"
| "extract_mcp_payload (McpObject None (Some parts) e md sh) =
     (unwrap_business_payload (first_some (\<lambda>(t, v). json_object v) parts), map fst parts)"
| "extract_mcp_payload (McpObject None None e (Some d) sh) = (unwrap_business_payload (Some d), [])"
| "extract_mcp_payload (McpObject None None e None sh) = (None, [sh])"

fun result_error_flag :: "mcp_result \<Rightarrow> bool" where
  "result_error_flag (McpDict d) = False"
| "result_error_flag (McpObject st cs e md sh) = e"

definition normalize_mcp_result :: "mcp_result \<Rightarrow> ToolExecutionResult" where
  "normalize_mcp_result result =
    (let (payload, text_parts) = extract_mcp_payload result;
         error = result_error_flag result;
         output = [(''transport_success'', PBool (\<not> error)),
                   (''business_success'', case payload of Some p \<Rightarrow> get p ''success'' | None \<Rightarrow> PNone),
                   (''success'', PBool (\<not> error)),
                   (''data'', PDict (case payload of Some p \<Rightarrow> p | None \<Rightarrow> []))] in
     \<lparr>output_for_model = (if text_parts \<noteq> [] \<and> payload = None
                          then output @ [(''content'', pstrs text_parts)] else output),
      r_payload = payload, is_error = error, content_text = text_parts\<rparr>)"

definition local_execution_result :: "pydict \<Rightarrow> bool \<Rightarrow> ToolExecutionResult" where
  "local_execution_result payload error =
    \<lparr>output_for_model = [(''transport_success'', PBool (\<not> error)),
       (''business_success'', get payload ''success''), (''success'', PBool (\<not> error)),
       (''data'', PDict payload)],
     r_payload = Some payload, is_error = error, content_text = []\<rparr>"

definition result_error_text :: "ToolExecutionResult \<Rightarrow> exn + string" where
  "result_error_text result =
    bind (mapm py_str (filter truthy
           (case r_payload result of None \<Rightarrow> []
            | Some p \<Rightarrow> map (get p) [''error'', ''message'', ''status''])))
      (\<lambda>parts. Inr (join [CHR 0x0A] (parts @ content_text result)))"

definition PROJECT_EXISTS_MARKERS :: "string list" where
  "PROJECT_EXISTS_MARKERS = [''already exists'', ''ya existe'', ''fileexistserror'']"

definition indicates_project_already_exists :: "string \<Rightarrow> bool" where
  "indicates_project_already_exists text = any_in PROJECT_EXISTS_MARKERS (casefold text)"

definition is_test_timeout_payload :: "pydict option \<Rightarrow> bool" where
  "is_test_timeout_payload payload =
    (case payload of Some p \<Rightarrow> get p ''timed_out'' = PBool True | None \<Rightarrow> False)"

section \<open>Arguments\<close>

definition normalize_tool_arguments :: "RegisteredTool \<Rightarrow> pydict \<Rightarrow> pydict" where
  "normalize_tool_arguments tool arguments =
    (if server_name tool = ''filesystem'' \<and> original_name tool = ''list_files''
     then (case get arguments ''relative_path'' of
             PStr s \<Rightarrow> if strip s = [] then AList.update ''relative_path'' (PStr ''.'') arguments
                       else arguments
           | _ \<Rightarrow> AList.update ''relative_path'' (PStr ''.'') arguments)
     else arguments)"

definition validate_tool_arguments :: "HostEnv \<Rightarrow> RegisteredTool \<Rightarrow> pydict \<Rightarrow> string list" where
  "validate_tool_arguments env tool arguments =
    (if input_schema tool = [] then []
     else schema_messages env (input_schema tool) arguments @
       (case get (input_schema tool) ''properties'' of
          PDict (p # ps) \<Rightarrow>
            map (\<lambda>key. ''Additional property '' @ [CHR 0x27] @ key @ [CHR 0x27] @ '' is not allowed'')
              (sort (filter (\<lambda>key. key \<notin> set (map fst (p # ps))) (map fst arguments)))
        | _ \<Rightarrow> []))"

definition invalid_tool_arguments_payload :: "RegisteredTool \<Rightarrow> string list \<Rightarrow> pydict" where
  "invalid_tool_arguments_payload tool errors =
    [(''success'', PBool False), (''status'', PStr ''invalid_tool_arguments''),
     (''failure_type'', PStr ''invalid_tool_arguments''), (''tool'', PStr (public_name tool)),
     (''errors'', pstrs errors),
     (''message'', PStr ''Corrige los argumentos usando el schema publicado por la tool.'')]"

section \<open>Approval\<close>

definition parse_approval :: "string \<Rightarrow> bool option" where
  "parse_approval answer =
    (let normalized = casefold (strip answer) in
     if normalized \<in> {''s'', ''si'', (''s'' @ [CHR 0xED]), ''y'', ''yes''} then Some True
     else if normalized \<in> {''n'', ''no''} then Some False else None)"

text \<open>The question is repeated until an answer parses; at the end of the input \<open>input\<close> raises.\<close>

definition ask_approval :: "HostEnv \<Rightarrow> host_event list \<Rightarrow> RegisteredTool \<Rightarrow> pydict \<Rightarrow> exn + bool" where
  "ask_approval env past tool arguments =
    (case first_some parse_approval (answers env past tool arguments) of
       Some b \<Rightarrow> Inr b | None \<Rightarrow> Inl EOFError)"

section \<open>The call against the state\<close>

fun opt_str :: "string option \<Rightarrow> pyval" where
  "opt_str None = PNone"
| "opt_str (Some s) = PStr s"

fun nonempty :: "string option \<Rightarrow> bool" where
  "nonempty (Some (c # s)) = True"
| "nonempty _ = False"

text \<open>The first check that refuses the call decides.\<close>

definition or_else :: "exn + pydict option \<Rightarrow> exn + pydict option \<Rightarrow> exn + pydict option" where
  "or_else check next_check =
    bind check (\<lambda>r. case r of Some p \<Rightarrow> Inr (Some p) | None \<Rightarrow> next_check)"

definition refuse_when :: "bool \<Rightarrow> pydict \<Rightarrow> exn + pydict option" where
  "refuse_when b payload = Inr (if b then Some payload else None)"

definition completed_step_refusal :: "ExecutionState \<Rightarrow> string \<Rightarrow> exn + pydict option" where
  "completed_step_refusal st tool =
    (let refusal = (\<lambda>message. [(''success'', PBool False), (''status'', PStr ''step_already_completed''),
           (''tool'', PStr tool), (''message'', PStr message)]) in
     if tool = ''software_factory__analyze_requirement''
     then refuse_when (es_analysis_completed st)
            (refusal (''El an'' @ [CHR 0xE1] @ ''lisis ya fue completado. Contin'' @ [CHR 0xFA] @ ''a con la siguiente etapa.''))
     else if tool = ''software_factory__create_tasks''
     then refuse_when (es_tasks_created st)
            (refusal (''Las tareas ya fueron creadas. Contin'' @ [CHR 0xFA] @ ''a con la siguiente etapa.''))
     else Inr None)"

definition blocked_after_infra_failure :: "string list" where
  "blocked_after_infra_failure =
    [''filesystem__list_files'', ''filesystem__read_file'', ''filesystem__update_project_files'',
     ''testing__detect_test_framework'', ''testing__prepare_test_environment'', ''testing__run_tests'']"

definition infra_refusal :: "ExecutionState \<Rightarrow> string \<Rightarrow> exn + pydict option" where
  "infra_refusal st tool =
    refuse_when (es_test_infrastructure_failed st \<and> tool \<in> set blocked_after_infra_failure)
      [(''success'', PBool False), (''status'', PStr ''workflow_stopped_after_test_infrastructure_failure''),
       (''tool'', PStr tool),
       (''message'', PStr ''El flujo se detuvo porque las pruebas no pudieron ejecutarse por un problema de infraestructura.'')]"

definition prepared_refusal :: "ExecutionState \<Rightarrow> string \<Rightarrow> pydict \<Rightarrow> exn + pydict option" where
  "prepared_refusal st tool arguments =
    refuse_when (tool = ''testing__prepare_test_environment'' \<and> es_environment_prepared st)
      [(''success'', PBool False), (''status'', PStr ''environment_already_prepared''),
       (''project_name'', por (get arguments ''project_name'') (opt_str (es_created_project_name st))),
       (''message'', PStr (''El entorno ya fue preparado. Contin'' @ [CHR 0xFA] @ ''a con run_tests.''))]"

text \<open>The project the repair works on, when the state names one.\<close>

definition project_conflict :: "ExecutionState \<Rightarrow> pydict \<Rightarrow> bool" where
  "project_conflict st arguments \<longleftrightarrow>
    project_of st \<noteq> [] \<and> get arguments ''project_name'' \<noteq> PStr (project_of st)"

definition reads_failing_test :: "ExecutionState \<Rightarrow> bool" where
  "reads_failing_test st \<longleftrightarrow> es_repair_phase st \<in> {''not_started'', ''read_failing_test''}"

definition read_refusal ::
  "(string \<Rightarrow> string list option) \<Rightarrow> ExecutionState \<Rightarrow> pydict \<Rightarrow> exn + pydict option" where
  "read_refusal imports st arguments =
    (if reads_failing_test st \<and> es_failing_test_files st = []
     then Inr (Some [(''success'', PBool False), (''status'', PStr ''missing_failing_test_file''),
            (''message'', PStr ''No se pudo extraer de pytest un archivo de test fallido para reparar de forma segura.'')])
     else
       let expected_relative = (if reads_failing_test st then Some (hd (es_failing_test_files st))
                                else infer_related_source_file imports st) in
       (case expected_relative of
          Some (c # s) \<Rightarrow>
            bind (expected_project_relative_path st (c # s)) (\<lambda>expected_path.
            bind (py_str (getd arguments ''relative_path'' (PStr []))) (\<lambda>relative.
              let received_path = normalize_pytest_path relative in
              refuse_when (received_path \<noteq> expected_path)
                [(''success'', PBool False), (''status'', PStr ''repair_read_path_not_allowed''),
                 (''expected'', PStr expected_path), (''received'', PStr received_path),
                 (''message'', PStr (''Lee '' @ [CHR 0xFA] @ ''nicamente el archivo requerido por la fase de reparaci'' @ [CHR 0xF3] @ ''n.''))]))
        | _ \<Rightarrow> Inr None))"

fun update_path :: "pyval \<Rightarrow> exn + string" where
  "update_path (PDict file) =
     bind (py_str (getd file ''path'' (PStr []))) (\<lambda>p. Inr (normalize_pytest_path p))"
| "update_path _ = Inr []"

fun update_files_refusal :: "string list \<Rightarrow> pyval list \<Rightarrow> exn + pydict option" where
  "update_files_refusal allowed [] = Inr None"
| "update_files_refusal allowed (file # files) =
     bind (update_path file) (\<lambda>path.
       if path = [] \<or> is_absolute path \<or> ''..'' \<in> set (path_parts path)
       then Inr (Some [(''success'', PBool False), (''status'', PStr ''invalid_tool_arguments''),
              (''message'', PStr ''update_project_files solo acepta paths relativos dentro del proyecto.'')])
       else if allowed \<noteq> [] \<and> path \<notin> set allowed
       then Inr (Some [(''success'', PBool False), (''status'', PStr ''repair_update_path_not_allowed''),
              (''expected'', pstrs (sort (dedupe allowed))), (''received'', PStr path),
              (''message'', PStr (''La reparaci'' @ [CHR 0xF3] @ ''n debe modificar '' @ [CHR 0xFA] @ ''nicamente el test fallido identificado.''))])
       else update_files_refusal allowed files)"

fun nonempty_list :: "pyval \<Rightarrow> pyval list option" where
  "nonempty_list (PList (x # xs)) = Some (x # xs)"
| "nonempty_list _ = None"

definition update_refusal :: "ExecutionState \<Rightarrow> pydict \<Rightarrow> exn + pydict option" where
  "update_refusal st arguments =
    (if project_conflict st arguments
     then Inr (Some [(''success'', PBool False), (''status'', PStr ''argument_conflict''),
            (''field'', PStr ''project_name''), (''expected'', PStr (project_of st)),
            (''received'', get arguments ''project_name''),
            (''message'', PStr (''update_project_files debe apuntar al proyecto en revisi'' @ [CHR 0xF3] @ ''n.''))])
     else (case nonempty_list (get arguments ''files'') of
             None \<Rightarrow> Inr (Some [(''success'', PBool False), (''status'', PStr ''invalid_tool_arguments''),
                      (''message'', PStr ''update_project_files requiere al menos un archivo.'')])
           | Some files \<Rightarrow> update_files_refusal (es_failing_test_files st) files))"

definition run_refusal :: "ExecutionState \<Rightarrow> pydict \<Rightarrow> exn + pydict option" where
  "run_refusal st arguments =
    refuse_when (project_conflict st arguments)
      [(''success'', PBool False), (''status'', PStr ''argument_conflict''),
       (''field'', PStr ''project_name''), (''expected'', PStr (project_of st)),
       (''received'', get arguments ''project_name'')]"

definition repair_refusal ::
  "(string \<Rightarrow> string list option) \<Rightarrow> ExecutionState \<Rightarrow> string \<Rightarrow> pydict \<Rightarrow> exn + pydict option" where
  "repair_refusal imports st tool arguments =
    (if determine_next_action st \<noteq> ''fix_failed_tests'' then Inr None
     else let expected_tool = repair_phase_allowed_tool_name st in
       if tool \<noteq> expected_tool
       then Inr (Some [(''success'', PBool False), (''status'', PStr ''repair_step_not_allowed''),
              (''tool'', PStr tool), (''expected_tool'', PStr expected_tool),
              (''repair_phase'', PStr (es_repair_phase st)),
              (''message'', PStr (''Sigue la fase de reparaci'' @ [CHR 0xF3] @ ''n indicada por el Host.''))])
       else if tool = ''filesystem__read_file'' then read_refusal imports st arguments
       else if tool = ''filesystem__update_project_files'' then update_refusal st arguments
       else if tool = ''testing__run_tests'' then run_refusal st arguments
       else Inr None)"

definition create_refusal :: "ExecutionState \<Rightarrow> string \<Rightarrow> pydict \<Rightarrow> exn + pydict option" where
  "create_refusal st tool arguments =
    (if tool \<noteq> ''filesystem__create_project_structure'' then Inr None
     else if nonempty_list (get arguments ''files'') = None
     then Inr (Some [(''success'', PBool False), (''status'', PStr ''invalid_tool_arguments''),
            (''message'', PStr ''create_project_structure requiere al menos un archivo.'')])
     else if nonempty (es_requested_project_name st)
             \<and> get arguments ''project_name'' \<noteq> opt_str (es_requested_project_name st)
     then Inr (Some [(''success'', PBool False), (''status'', PStr ''argument_conflict''),
            (''tool'', PStr ''filesystem__create_project_structure''), (''field'', PStr ''project_name''),
            (''expected'', opt_str (es_requested_project_name st)),
            (''received'', get arguments ''project_name''),
            (''message'', PStr (''El nombre del proyecto contradice la solicitud expl'' @ [CHR 0xED] @ ''cita del usuario.''))])
     else if es_project_created st \<or> es_project_exists st
     then Inr (Some [(''success'', PBool False),
            (''status'', PStr (if es_project_created st then ''project_already_created_in_current_run''
                               else ''project_already_exists'')),
            (''project_name'', opt_str (es_created_project_name st)),
            (''message'', PStr (if es_project_created st
               then (''El proyecto ya fue creado durante esta solicitud. Contin'' @ [CHR 0xFA] @ ''a con pruebas o correcciones.'')
               else (''El proyecto ya existe. No vuelvas a crearlo; inspecci'' @ [CHR 0xF3] @ ''nalo y usa update_project_files si necesita correcciones.'')))])
     else dependency_policy_for_project_files (get arguments ''files''))"

definition validate_call_against_state ::
  "(string \<Rightarrow> string list option) \<Rightarrow> ExecutionState option \<Rightarrow> RegisteredTool \<Rightarrow> pydict \<Rightarrow>
   exn + pydict option" where
  "validate_call_against_state imports state tool arguments =
    (case state of None \<Rightarrow> Inr None
     | Some st \<Rightarrow>
         or_else (completed_step_refusal st (public_name tool))
        (or_else (infra_refusal st (public_name tool))
        (or_else (prepared_refusal st (public_name tool) arguments)
        (or_else (repair_refusal imports st (public_name tool) arguments)
                 (create_refusal st (public_name tool) arguments)))))"

section \<open>The retry limit of test runs\<close>

definition is_run_tests :: "RegisteredTool \<Rightarrow> bool" where
  "is_run_tests tool \<longleftrightarrow> server_name tool = ''testing'' \<and> original_name tool = ''run_tests''"

definition attempts_of :: "Host \<Rightarrow> string \<Rightarrow> int" where
  "attempts_of h project = (case map_of (test_attempts h) project of Some n \<Rightarrow> n | None \<Rightarrow> 0)"

definition limit_reached_state :: "ExecutionState \<Rightarrow> ExecutionState" where
  "limit_reached_state st =
    st\<lparr>es_retry_limit_reached := True, es_terminal_status := Some ''retry_limit_reached'',
       es_failure_type := Some ''retry_limit_reached'', es_failure_stage := Some ''run_tests'',
       es_failure_message := Some ((''Se alcanz'' @ [CHR 0xF3] @ '' el l'' @ [CHR 0xED] @ ''mite de '') @ int_str MAX_TEST_ATTEMPTS
         @ '' intentos de prueba.'')\<rparr>"

definition enforce_test_retry_limit ::
  "Host \<Rightarrow> RegisteredTool \<Rightarrow> pydict \<Rightarrow> exn + (Host \<times> pydict option)" where
  "enforce_test_retry_limit h tool arguments =
    (if \<not> is_run_tests tool then Inr (h, None)
     else bind (py_str (getd arguments ''project_name'' (PStr []))) (\<lambda>project_name.
       let attempts = attempts_of h project_name in
       if attempts \<ge> MAX_TEST_ATTEMPTS
       then Inr (h\<lparr>host_state := map_option limit_reached_state (host_state h)\<rparr>,
                 Some [(''success'', PBool False), (''status'', PStr ''retry_limit_reached''),
                   (''project_name'', PStr project_name), (''attempts'', PInt attempts),
                   (''max_attempts'', PInt MAX_TEST_ATTEMPTS)])
       else Inr (h\<lparr>test_attempts := AList.update project_name (attempts + 1) (test_attempts h)\<rparr>, None)))"

section \<open>Facts on the registry\<close>

definition well_registered :: "string \<times> RegisteredTool \<Rightarrow> bool" where
  "well_registered = (\<lambda>(name, tool). public_name tool = name
     \<and> name = server_name tool @ ''__'' @ original_name tool
     \<and> requires_approval tool = ((server_name tool, original_name tool) \<in> set SENSITIVE_TOOLS))"

lemma sensitive_normal:
  "map (\<lambda>(srv, name). (normalize_server_name srv, name)) SENSITIVE_TOOLS = SENSITIVE_TOOLS"
  by code_simp

lemma register_tools_well:
  "register_tools tools decls = Inr tools' \<Longrightarrow> list_all well_registered tools \<Longrightarrow> list_all well_registered tools'"
proof (induction tools decls rule: register_tools.induct)
  case (2 tools decl decls)
  then obtain tools1 where r: "register tools decl ((normalize_server_name (decl_server decl), decl_name decl)
      \<in> set SENSITIVE_TOOLS) = Inr tools1" and rest: "register_tools tools1 decls = Inr tools'"
    by (auto simp: sensitive_normal elim!: bind_InrE)
  have "list_all well_registered tools1"
    using r 2(3) by (auto simp: register_def Let_def well_registered_def split: if_splits)
  with 2(1) r rest show ?case by (simp add: sensitive_normal)
qed simp

lemma registry_well: "map_of (registry env) name = Some tool \<Longrightarrow> well_registered (name, tool)"
proof -
  have "list_all well_registered (registry env)"
    using register_tools_well[of "[]" "declarations env"] by (auto simp: registry_def split: sum.splits)
  then show "map_of (registry env) name = Some tool \<Longrightarrow> ?thesis"
    by (auto simp: list_all_iff dest: map_of_SomeD)
qed

lemmas registered_facts = registry_well[unfolded well_registered_def prod.case]

end
