(* ===== verification/HostUpdates.thy ===== *)
theory HostUpdates
  imports HostTools
begin

text \<open>
  What a reply does to the host's state (host.py): the reconciliation of a reply with the tool
  that was called, the update of the execution state tool by tool, and the whole handling of a
  function call.
\<close>

section \<open>Reconciliation\<close>

definition failed_prepare_status :: "pydict \<Rightarrow> exn + string" where
  "failed_prepare_status payload =
    (if get payload ''timed_out'' = PBool True then Inr ''installation_timeout''
     else bind (py_str (get payload ''failure_stage'')) (\<lambda>stage.
       Inr (case map_of
         [(''validate_dependencies'', ''dependency_policy_violation''), (''create_venv'', ''create_venv_failure''),
          (''invalid_existing_environment'', ''invalid_existing_environment''),
          (''upgrade_pip'', ''pip_upgrade_failure''),
          (''install_dependencies'', ''dependency_installation_failure''),
          (''pip_check'', ''pip_check_failure''), (''inspect_versions'', ''version_inspection_failure'')] stage of
         Some status \<Rightarrow> status | None \<Rightarrow> ''dependency_installation_failure'')))"

definition reconcile_execution_result ::
  "ExecutionState option \<Rightarrow> RegisteredTool \<Rightarrow> pydict \<Rightarrow> ToolExecutionResult \<Rightarrow>
   exn + ToolExecutionResult" where
  "reconcile_execution_result state tool arguments result =
    (let server = server_name tool; name = original_name tool in
     if server = ''filesystem'' \<and> name = ''create_project_structure'' \<and> is_error result
     then bind (result_error_text result) (\<lambda>text.
       if indicates_project_already_exists text
       then bind (py_str (por (get arguments ''project_name'')
                   (case state of Some st \<Rightarrow> opt_str (es_created_project_name st) | None \<Rightarrow> PStr [])))
            (\<lambda>project_name. Inr (local_execution_result
              [(''success'', PBool False), (''status'', PStr ''project_already_exists''),
               (''project_name'', PStr project_name),
               (''message'', PStr (''El proyecto ya existe. No vuelvas a crearlo; inspecci'' @ [CHR 0xF3] @ ''nalo y usa update_project_files si necesita correcciones.''))]
              False))
       else Inr result)
     else if server = ''testing'' \<and> name = ''run_tests'' \<and> \<not> is_error result
             \<and> is_test_timeout_payload (r_payload result)
     then Inr (local_execution_result
       (dmerge (the (r_payload result))
         [(''success'', PBool False), (''status'', PStr ''test_infrastructure_failure''),
          (''message'', PStr (''La ejecuci'' @ [CHR 0xF3] @ ''n de pruebas excedi'' @ [CHR 0xF3] @ '' el timeout. No modifiques el c'' @ [CHR 0xF3] @ ''digo bas'' @ [CHR 0xE1] @ ''ndote en este resultado.''))])
       False)
     else if server = ''testing'' \<and> name = ''prepare_test_environment'' \<and> \<not> is_error result
     then (case r_payload result of
             Some (kv # p) \<Rightarrow>
               if get (kv # p) ''success'' = PBool False
               then bind (failed_prepare_status (kv # p)) (\<lambda>status.
                 let updated = AList.update ''status'' (PStr status) (kv # p) in
                 Inr (local_execution_result
                   (if has_key updated ''message'' then updated
                    else AList.update ''message'' (PStr (''La preparaci'' @ [CHR 0xF3] @ ''n del entorno fall'' @ [CHR 0xF3] @ ''. No modifiques archivos autom'' @ [CHR 0xE1] @ ''ticamente bas'' @ [CHR 0xE1] @ ''ndote en este resultado.'')) updated)
                   False))
               else Inr result
           | _ \<Rightarrow> Inr result)
     else Inr result)"

section \<open>The update of the state\<close>

text \<open>\<open>str(a or b or ...)\<close> over the fields of a payload, with a last text.\<close>

definition first_text :: "pydict \<Rightarrow> string list \<Rightarrow> string \<Rightarrow> exn + string" where
  "first_text p keys final =
    (case find (\<lambda>k. truthy (get p k)) keys of Some k \<Rightarrow> py_str (get p k) | None \<Rightarrow> Inr final)"

definition set_add :: "string \<Rightarrow> string list \<Rightarrow> string list" where
  "set_add x xs = (if x \<in> set xs then xs else xs @ [x])"

definition is_tool :: "RegisteredTool \<Rightarrow> string \<Rightarrow> string \<Rightarrow> bool" where
  "is_tool tool server name \<longleftrightarrow> server_name tool = server \<and> original_name tool = name"

definition mark_called :: "RegisteredTool \<Rightarrow> bool \<Rightarrow> ExecutionState \<Rightarrow> ExecutionState" where
  "mark_called tool error st0 =
    (let st1 = st0\<lparr>es_last_tool_executed := Some (public_name tool)\<rparr>;
         st = (if requires_approval tool
               then st1\<lparr>es_sensitive_tools_executed := es_sensitive_tools_executed st1 @ [public_name tool]\<rparr>
               else st1) in
     if error then st
     else if is_tool tool ''software_factory'' ''analyze_requirement'' then st\<lparr>es_analysis_completed := True\<rparr>
     else if is_tool tool ''software_factory'' ''create_tasks'' then st\<lparr>es_tasks_created := True\<rparr>
     else if is_tool tool ''filesystem'' ''list_files'' then st\<lparr>es_workspace_inspected := True\<rparr>
     else st)"

text \<open>A payload that reports no success sets the failure fields.\<close>

definition note_failure :: "RegisteredTool \<Rightarrow> pydict \<Rightarrow> ExecutionState \<Rightarrow> exn + ExecutionState" where
  "note_failure tool p st =
    (if get p ''success'' \<noteq> PBool False then Inr st
     else bind (first_text p [''failure_type'', ''status''] ''unknown_failure'') (\<lambda>ft.
       bind (first_text p [''failure_stage'', ''status''] (original_name tool)) (\<lambda>fs.
       bind (first_text p [''message'', ''error'', ''stderr'', ''status''] []) (\<lambda>fm.
       let st1 = st\<lparr>es_failure_type := Some ft, es_failure_stage := Some fs,
                    es_failure_message := (if fm = [] then None else Some fm)\<rparr> in
       if get p ''status'' \<noteq> PStr ''mcp_timeout'' then Inr st1
       else if is_tool tool ''git'' ''init''
       then bind (first_text p [''message'', ''error''] ''Git MCP initialization timed out.'') (\<lambda>m.
         Inr (st1\<lparr>es_terminal_status := Some ''infrastructure_failed'',
                  es_failure_type := Some ''git_initialization_failed'',
                  es_failure_stage := Some ''git.init'', es_failure_message := Some m\<rparr>))
       else if server_name tool = ''testing''
       then Inr (st1\<lparr>es_terminal_status := Some ''infrastructure_failed'',
                     es_test_infrastructure_failed := True\<rparr>)
       else Inr st1))))"

text \<open>\<open>str.rstrip("/")\<close>.\<close>

definition rstrip_slashes :: "string \<Rightarrow> string" where
  "rstrip_slashes s = rev (dropWhile (\<lambda>c. c = CHR ''/'') (rev s))"

fun entry_found :: "string \<Rightarrow> pyval list \<Rightarrow> exn + bool" where
  "entry_found name [] = Inr False"
| "entry_found name (PDict entry # entries) =
     (if get entry ''type'' \<noteq> PStr ''directory'' then entry_found name entries
      else bind (py_str (getd entry ''path'' (PStr []))) (\<lambda>path.
        if rstrip_slashes (normalize_pytest_path path) = name then Inr True
        else entry_found name entries))"
| "entry_found name (entry # entries) = entry_found name entries"

definition update_list_files :: "pydict \<Rightarrow> ExecutionState \<Rightarrow> exn + ExecutionState" where
  "update_list_files p st =
    (case (es_requested_project_name st, get p ''entries'') of
       (Some (c # s), PList entries) \<Rightarrow>
         bind (entry_found (c # s) entries) (\<lambda>found.
           if found then Inr (st\<lparr>es_project_exists := True, es_created_project_name := Some (c # s)\<rparr>)
           else if es_workflow_intent st = ''review_existing_project''
           then Inr (st\<lparr>es_terminal_status := Some ''project_not_found'',
                  es_failure_type := Some ''project_not_found'', es_failure_stage := Some ''list_files'',
                  es_failure_message := Some ((''No se encontr'' @ [CHR 0xF3] @ '' el proyecto existente solicitado: '') @ (c # s) @ ''.'')\<rparr>)
           else Inr st)
     | _ \<Rightarrow> Inr st)"

text \<open>\<open>str(payload.get(k) or arguments.get(a, ""))\<close>.\<close>

definition text_or_argument :: "pydict \<Rightarrow> string \<Rightarrow> pydict \<Rightarrow> string \<Rightarrow> exn + string" where
  "text_or_argument p k arguments a = py_str (por (get p k) (getd arguments a (PStr [])))"

definition business_success :: "ToolExecutionResult \<Rightarrow> pydict option \<Rightarrow> bool" where
  "business_success result payload \<longleftrightarrow>
    \<not> is_error result \<and> (case payload of Some p \<Rightarrow> get p ''success'' = PBool True | None \<Rightarrow> False)"

definition update_create_project ::
  "bool \<Rightarrow> pydict option \<Rightarrow> pydict \<Rightarrow> bool \<Rightarrow> ExecutionState \<Rightarrow> exn + ExecutionState" where
  "update_create_project error payload arguments succeeded st =
    (case payload of
       Some p \<Rightarrow>
         if \<not> error \<and> p \<noteq> [] \<and> get p ''status'' = PStr ''project_already_exists''
         then bind (text_or_argument p ''project_name'' arguments ''project_name'') (\<lambda>name.
           Inr (st\<lparr>es_project_exists := True, es_created_project_name := Some name\<rparr>))
         else if succeeded
         then bind (text_or_argument p ''project_name'' arguments ''project_name'') (\<lambda>name.
           Inr (st\<lparr>es_project_created := True, es_created_project_name := Some name\<rparr>))
         else Inr st
     | None \<Rightarrow> Inr st)"

definition update_read_file ::
  "(string \<Rightarrow> string list option) \<Rightarrow> pydict \<Rightarrow> pydict \<Rightarrow> ExecutionState \<Rightarrow> exn + ExecutionState" where
  "update_read_file imports p arguments st =
    bind (text_or_argument p ''path'' arguments ''relative_path'') (\<lambda>raw.
      let path = normalize_pytest_path raw in
      if es_repair_phase st \<in> {''not_started'', ''read_failing_test'', ''read_related_source''}
      then Inr (st\<lparr>es_files_read_during_repair := set_add path (es_files_read_during_repair st),
                   es_repair_phase :=
                     (if es_repair_phase st = ''read_related_source'' then ''apply_fix''
                      else if nonempty (infer_related_source_file imports st) then ''read_related_source''
                      else ''apply_fix'')\<rparr>)
      else Inr st)"

fun updated_paths :: "pyval list \<Rightarrow> exn + string list" where
  "updated_paths [] = Inr []"
| "updated_paths (PDict file # files) =
     bind (py_str (getd file ''path'' (PStr []))) (\<lambda>path.
     bind (updated_paths files) (\<lambda>rest. Inr (normalize_pytest_path path # rest)))"
| "updated_paths (file # files) = updated_paths files"

definition update_project_files :: "pydict \<Rightarrow> ExecutionState \<Rightarrow> exn + ExecutionState" where
  "update_project_files arguments st0 =
    bind (case get arguments ''files'' of
            PList files \<Rightarrow>
              bind (updated_paths files) (\<lambda>paths.
              bind (extract_repair_evidence files) (\<lambda>evidence.
                let st1 = st0\<lparr>es_files_updated_during_repair :=
                            fold set_add paths (es_files_updated_during_repair st0)\<rparr> in
                Inr (case evidence of None \<Rightarrow> st1
                     | Some (before_fix, after_fix, decision) \<Rightarrow>
                         st1\<lparr>es_repair_before := Some before_fix, es_repair_after := Some after_fix,
                             es_repair_decision := Some decision\<rparr>)))
          | _ \<Rightarrow> Inr st0)
      (\<lambda>st. Inr (if es_repair_phase st = ''apply_fix''
                 then st\<lparr>es_repair_attempts := es_repair_attempts st + 1, es_repair_phase := ''rerun_tests''\<rparr>
                 else st))"

definition update_detect_framework :: "pydict \<Rightarrow> ExecutionState \<Rightarrow> exn + ExecutionState" where
  "update_detect_framework p st =
    bind (if truthy (get p ''framework'')
          then bind (py_str (get p ''framework'')) (\<lambda>f. Inr (st\<lparr>es_detected_test_framework := Some f\<rparr>))
          else Inr st) (\<lambda>st1.
    case get p ''command'' of
      PList parts \<Rightarrow> bind (mapm py_str parts) (\<lambda>command. Inr (st1\<lparr>es_expected_test_command := Some command\<rparr>))
    | _ \<Rightarrow> Inr st1)"

section \<open>A test run\<close>

definition update_no_tests :: "ExecutionState \<Rightarrow> ExecutionState" where
  "update_no_tests st =
    (let message = Some (''Pytest no encontr'' @ [CHR 0xC3] @ [CHR 0xB3] @ '' pruebas ejecutables.'') in
     st\<lparr>es_failure_type := Some ''no_tests_collected'', es_failure_stage := Some ''run_tests'',
        es_failure_message := message, es_test_failure_summary := message, es_failing_test_files := [],
        es_repair_phase := ''not_started'', es_terminal_status := Some ''tests_failed''\<rparr>)"

definition update_failed_tests :: "string \<Rightarrow> string \<Rightarrow> ExecutionState \<Rightarrow> ExecutionState" where
  "update_failed_tests out err st0 =
    (let summary = Some (extract_failure_summary out err);
         st = st0\<lparr>es_failure_type := Some ''test_failure'', es_failure_stage := Some ''run_tests'',
                  es_test_failure_summary := summary, es_failure_message := summary,
                  es_failing_test_files := extract_failing_test_files out err\<rparr> in
     if es_repair_attempts st \<ge> MAX_REPAIR_ATTEMPTS
     then st\<lparr>es_retry_limit_reached := True, es_terminal_status := Some ''retry_limit_reached''\<rparr>
     else st\<lparr>es_repair_phase := ''read_failing_test''\<rparr>)"

definition record_test_output :: "string \<Rightarrow> string \<Rightarrow> ExecutionState \<Rightarrow> ExecutionState" where
  "record_test_output out err st0 =
    (let st = st0\<lparr>es_test_stdout := Some out, es_test_stderr := Some err\<rparr>;
         summary = summarize_pytest_result out (es_tests_passed st) in
     if es_tests_passed st
     then (let st1 = st\<lparr>es_final_test_result_summary := Some summary\<rparr> in
           if es_repair_phase st1 = ''rerun_tests'' then st1\<lparr>es_repair_phase := ''completed''\<rparr> else st1)
     else if es_first_test_result_summary st = None
     then st\<lparr>es_first_test_result_summary := Some summary\<rparr>
     else st)"

definition update_test_payload :: "pydict \<Rightarrow> ExecutionState \<Rightarrow> exn + ExecutionState" where
  "update_test_payload p st =
    bind (first_text p [''stdout''] []) (\<lambda>out.
    bind (first_text p [''stderr''] []) (\<lambda>err.
      let st1 = record_test_output out err st in
      Inr (if py_eq (get p ''exit_code'') (PInt 5) then update_no_tests st1
           else if get p ''failure_type'' = PStr ''test_failure'' then update_failed_tests out err st1
           else st1)))"

definition update_test_details :: "pydict \<Rightarrow> ExecutionState \<Rightarrow> exn + ExecutionState" where
  "update_test_details p st =
    bind (case get p ''command'' of
            PList parts \<Rightarrow> bind (mapm py_str parts) (\<lambda>command. Inr (st\<lparr>es_actual_test_command := Some command\<rparr>))
          | _ \<Rightarrow> Inr st) (\<lambda>st1.
    let st2 = (if p \<noteq> [] \<and> has_key p ''test_warning_count''
               then st1\<lparr>es_test_warning_count :=
                      (case get p ''test_warning_count'' of
                         PInt n \<Rightarrow> Some n | PBool b \<Rightarrow> Some (if b then 1 else 0) | _ \<Rightarrow> None)\<rparr>
               else st1) in
    if get p ''timed_out'' = PBool True
    then bind (first_text p [''stderr'', ''message''] (''La ejecuci'' @ [CHR 0xF3] @ ''n de pruebas excedi'' @ [CHR 0xF3] @ '' el timeout.'')) (\<lambda>m.
      Inr (st2\<lparr>es_test_infrastructure_failed := True, es_failure_type := Some ''test_timeout'',
               es_failure_stage := Some ''run_tests'', es_failure_message := Some m\<rparr>))
    else Inr st2)"

definition update_run_tests :: "pydict option \<Rightarrow> ExecutionState \<Rightarrow> exn + ExecutionState" where
  "update_run_tests payload st =
    (let p = (case payload of Some p \<Rightarrow> p | None \<Rightarrow> []);
         st1 = st\<lparr>es_tests_executed := True, es_tests_passed := (get p ''success'' = PBool True)\<rparr> in
     if p = [] then Inr st1
     else bind (update_test_payload p st1) (update_test_details p))"

definition infrastructure_failures :: "string list" where
  "infrastructure_failures =
    [''timeout'', ''create_venv_failure'', ''pip_upgrade_failure'', ''dependency_installation_failure'',
     ''pip_check_failure'', ''version_inspection_failure'', ''invalid_existing_environment'']"

definition infrastructure_stages :: "string list" where
  "infrastructure_stages =
    [''create_venv'', ''upgrade_pip'', ''install_dependencies'', ''pip_check'', ''inspect_versions'',
     ''invalid_existing_environment'']"

definition optional_text :: "pyval \<Rightarrow> exn + string option" where
  "optional_text v = (if truthy v then bind (py_str v) (\<lambda>t. Inr (Some t)) else Inr None)"

definition update_prepare_environment ::
  "pydict option \<Rightarrow> bool \<Rightarrow> ExecutionState \<Rightarrow> exn + ExecutionState" where
  "update_prepare_environment payload succeeded st =
    (let p = (case payload of Some p \<Rightarrow> p | None \<Rightarrow> []) in
     if succeeded
     then bind (first_text p [''python_executable''] []) (\<lambda>python.
          bind (optional_text (get p ''installed_fastapi_version'')) (\<lambda>fastapi.
          bind (optional_text (get p ''installed_starlette_version'')) (\<lambda>starlette.
          Inr (st\<lparr>es_environment_prepared := True, es_dependencies_installed := True,
                  es_environment_python := Some python, es_installed_fastapi_version := fastapi,
                  es_installed_starlette_version := starlette\<rparr>))))
     else bind (first_text p [''failure_type''] []) (\<lambda>ft.
          bind (first_text p [''failure_stage''] []) (\<lambda>fs.
            let st1 = st\<lparr>es_environment_prepared := False, es_dependencies_installed := False\<rparr> in
            Inr (if ft \<in> set infrastructure_failures \<or> fs \<in> set infrastructure_stages
                 then st1\<lparr>es_test_infrastructure_failed := True,
                          es_terminal_status := Some ''infrastructure_failed''\<rparr>
                 else st1))))"

definition when_tool ::
  "RegisteredTool \<Rightarrow> string \<Rightarrow> string \<Rightarrow> (ExecutionState \<Rightarrow> exn + ExecutionState) \<Rightarrow>
   ExecutionState \<Rightarrow> exn + ExecutionState" where
  "when_tool tool server name act st = (if is_tool tool server name then act st else Inr st)"

definition update_execution_state ::
  "(string \<Rightarrow> string list option) \<Rightarrow> RegisteredTool \<Rightarrow> ToolExecutionResult \<Rightarrow> pydict \<Rightarrow>
   ExecutionState \<Rightarrow> exn + ExecutionState" where
  "update_execution_state imports tool result arguments st =
    (let payload = unwrap_business_payload (r_payload result);
         p = (case payload of Some p \<Rightarrow> p | None \<Rightarrow> []);
         ok = business_success result payload;
         given = (\<lambda>act st. if p = [] then Inr st else act st) in
     bind (given (note_failure tool p) (mark_called tool (is_error result) st)) (\<lambda>st1.
     bind (when_tool tool ''filesystem'' ''list_files'' (given (update_list_files p)) st1) (\<lambda>st2.
     bind (when_tool tool ''filesystem'' ''create_project_structure''
             (update_create_project (is_error result) payload arguments ok) st2) (\<lambda>st3.
     bind (when_tool tool ''filesystem'' ''read_file'' (given (update_read_file imports p arguments)) st3) (\<lambda>st4.
     bind (when_tool tool ''filesystem'' ''update_project_files''
             (\<lambda>st. if ok then update_project_files arguments st else Inr st) st4) (\<lambda>st5.
     bind (when_tool tool ''testing'' ''detect_test_framework'' (given (update_detect_framework p)) st5) (\<lambda>st6.
     bind (when_tool tool ''testing'' ''run_tests'' (update_run_tests payload) st6) (\<lambda>st7.
     when_tool tool ''testing'' ''prepare_test_environment'' (update_prepare_environment payload ok) st7))))))))"

end
