(* ===== verification/HostCalls.thy ===== *)
theory HostCalls
  imports HostUpdates
begin

text \<open>
  The handling of a function call by the host (\<open>handle_function_call\<close> of host.py), and the
  invariants of the host over any sequence of calls: a sensitive tool is sent to its server only
  when it was approved, a refused call is never sent, and the test runs of a project are bounded.
\<close>

section \<open>Handling a call\<close>

text \<open>\<open>json.dumps(..., sort_keys=True)\<close>: equal texts are equal values with sorted keys.\<close>

fun sorted_keys :: "pyval \<Rightarrow> pyval" where
  "sorted_keys (PList xs) = PList (map sorted_keys xs)"
| "sorted_keys (PDict d) = PDict (sort_key fst (map (\<lambda>(k, v). (k, sorted_keys v)) d))"
| "sorted_keys v = v"

definition call_key :: "string \<Rightarrow> pydict \<Rightarrow> string \<times> pyval" where
  "call_key name arguments = (name, sorted_keys (PDict arguments))"

text \<open>The preview of a question reads every file of the arguments as a dictionary.\<close>

definition preview_check :: "pydict \<Rightarrow> exn + unit" where
  "preview_check arguments =
    (case get arguments ''files'' of
       PList files \<Rightarrow> if list_all is_dict files then Inr () else Inl AttributeError
     | _ \<Rightarrow> Inr ())"

definition invalid_arguments_state :: "string list \<Rightarrow> ExecutionState \<Rightarrow> ExecutionState" where
  "invalid_arguments_state errors st =
    st\<lparr>es_failure_type := Some ''invalid_tool_arguments'', es_failure_stage := Some ''validate_arguments'',
       es_failure_message := Some (join ''; '' errors)\<rparr>"

definition rejected_state :: "RegisteredTool \<Rightarrow> ExecutionState \<Rightarrow> ExecutionState" where
  "rejected_state tool st =
    st\<lparr>es_rejected_tools := set_add (public_name tool) (es_rejected_tools st), es_user_cancelled := True,
       es_terminal_status := Some ''rejected_by_user'', es_failure_type := Some ''user_rejected'',
       es_failure_stage := Some ''approval'',
       es_failure_message := Some (''El usuario rechaz'' @ [CHR 0xF3] @ '' la operaci'' @ [CHR 0xF3] @ ''n sensible.'')\<rparr>"

text \<open>While failed tests are repaired, the path to read is normalised into the project.\<close>

definition fix_path_arguments ::
  "ExecutionState option \<Rightarrow> RegisteredTool \<Rightarrow> pydict \<Rightarrow> exn + (pydict + pydict)" where
  "fix_path_arguments state tool arguments =
    (case state of None \<Rightarrow> Inr (Inr arguments)
     | Some st \<Rightarrow>
         if determine_next_action st = ''fix_failed_tests'' \<and> public_name tool = ''filesystem__read_file''
         then bind (py_str (getd arguments ''relative_path'' (PStr []))) (\<lambda>path.
                case normalize_project_relative_path (project_of st) path of
                  Inr p \<Rightarrow> Inr (Inr (AList.update ''relative_path'' (PStr p) arguments))
                | Inl (ValueError text) \<Rightarrow>
                    Inr (Inl [(''success'', PBool False), (''status'', PStr ''invalid_tool_arguments''),
                              (''message'', PStr text)])
                | Inl e \<Rightarrow> Inl e)
         else Inr (Inr arguments))"

text \<open>The approval step: \<open>Some payload\<close> answers the call without sending it.\<close>

definition approval_step ::
  "HostEnv \<Rightarrow> Host \<Rightarrow> RegisteredTool \<Rightarrow> pydict \<Rightarrow> string \<times> pyval \<Rightarrow> approval_mode \<Rightarrow>
   exn + (Host \<times> pydict option)" where
  "approval_step env h tool arguments key mode =
    (if \<not> (requires_approval tool \<and> mode = Prompt) then Inr (h, None)
     else if (case host_state h of Some st \<Rightarrow> public_name tool \<in> set (es_rejected_tools st) | None \<Rightarrow> False)
     then Inr (h, Some [(''success'', PBool False), (''status'', PStr ''previously_rejected''),
            (''tool'', PStr (public_name tool)),
            (''message'', PStr (''El usuario ya rechaz'' @ [CHR 0xF3] @ '' esta operaci'' @ [CHR 0xF3] @ ''n durante la solicitud actual.''))])
     else bind (preview_check arguments) (\<lambda>_.
       bind (ask_approval env (history h) tool arguments) (\<lambda>approved.
       let asked = h\<lparr>history := history h @ [Asked tool arguments approved]\<rparr> in
       if approved then Inr (asked, None)
       else Inr (asked\<lparr>rejected_calls := key # rejected_calls asked,
                       host_state := map_option (rejected_state tool) (host_state asked)\<rparr>,
                 Some [(''success'', PBool False), (''status'', PStr ''rejected_by_user''),
                   (''server'', PStr (server_name tool)), (''tool'', PStr (original_name tool))]))))"

fun reply_result :: "RegisteredTool \<Rightarrow> mcp_reply \<Rightarrow> ToolExecutionResult" where
  "reply_result tool (Replied r) = normalize_mcp_result r"
| "reply_result tool (TimedOut srv name text) =
     local_execution_result
       [(''success'', PBool False), (''status'', PStr ''mcp_timeout''), (''failure_type'', PStr ''mcp_timeout''),
        (''failure_stage'', PStr (original_name tool)), (''server'', PStr srv), (''tool'', PStr name),
        (''error'', PStr text),
        (''message'', PStr (''El MCP Server no respondi'' @ [CHR 0xF3] @ '' dentro del timeout configurado.''))] True"
| "reply_result tool (Raised text) =
     local_execution_result
       [(''success'', PBool False), (''status'', PStr ''mcp_error''), (''error'', PStr text)] True"

text \<open>The reconciliation of a result and the update of the state by it.\<close>

definition settle_reply ::
  "HostEnv \<Rightarrow> ExecutionState option \<Rightarrow> RegisteredTool \<Rightarrow> pydict \<Rightarrow> mcp_reply \<Rightarrow>
   exn + (ExecutionState option \<times> ToolExecutionResult)" where
  "settle_reply env state tool arguments reply =
    bind (reconcile_execution_result state tool arguments (reply_result tool reply)) (\<lambda>result.
    bind (case state of None \<Rightarrow> Inr None
          | Some st \<Rightarrow> bind (update_execution_state (py_imports env) tool result arguments st) (\<lambda>st'. Inr (Some st')))
      (\<lambda>state'. Inr (state', result)))"

text \<open>\<open>str(exc)\<close> of an exception that carries its text.\<close>

fun raised_text :: "exn \<Rightarrow> string" where
  "raised_text (ValueError text) = text"
| "raised_text (RuntimeError text) = text"
| "raised_text (ToolError text) = text"
| "raised_text _ = []"

text \<open>
  The \<open>try\<close> around the call: an exception after a reply is handled like one of the call itself, one
  in a handler leaves the host. By \<open>settle_raises\<close> below nothing but what is not modelled (the
  text of a list or a dictionary) ever fails there, so the handler is reached only by the
  exceptions of the call.
\<close>

definition send_call ::
  "HostEnv \<Rightarrow> Host \<Rightarrow> RegisteredTool \<Rightarrow> pydict \<Rightarrow> approval_mode \<Rightarrow> exn + (Host \<times> pydict \<times> bool)" where
  "send_call env h tool arguments mode =
    (let sent = h\<lparr>history := history h @ [Sent tool arguments mode]\<rparr>;
         reply = call_tool env (history h) tool arguments;
         settle = settle_reply env (host_state h) tool arguments in
     bind (case settle reply of
             Inr outcome \<Rightarrow> Inr outcome
           | Inl e \<Rightarrow>
               (case reply of
                  Replied r \<Rightarrow> if e = Unmodelled then Inl e else settle (Raised (raised_text e))
                | _ \<Rightarrow> Inl e))
       (\<lambda>(state, result). Inr (sent\<lparr>host_state := state\<rparr>, output_for_model result, requires_approval tool)))"

text \<open>A call answered by the host itself.\<close>

definition answered :: "Host \<Rightarrow> pydict \<Rightarrow> bool \<Rightarrow> exn + (Host \<times> pydict \<times> bool)" where
  "answered h payload error = Inr (h, output_for_model (local_execution_result payload error), False)"

definition guarded_call ::
  "HostEnv \<Rightarrow> Host \<Rightarrow> RegisteredTool \<Rightarrow> pydict \<Rightarrow> string \<times> pyval \<Rightarrow> approval_mode \<Rightarrow>
   exn + (Host \<times> pydict \<times> bool)" where
  "guarded_call env h tool arguments key mode =
    (if key \<in> set (rejected_calls h)
     then answered h [(''success'', PBool False), (''status'', PStr ''repeated_rejected_operation'')] False
     else bind (validate_call_against_state (py_imports env) (host_state h) tool arguments) (\<lambda>refusal.
       case refusal of Some payload \<Rightarrow> answered h payload False
       | None \<Rightarrow>
       bind (enforce_test_retry_limit h tool arguments) (\<lambda>(h1, limit).
       case limit of Some payload \<Rightarrow> answered h1 payload False
       | None \<Rightarrow>
       bind (approval_step env h1 tool arguments key mode) (\<lambda>(h2, rejection).
       case rejection of Some payload \<Rightarrow> answered h2 payload False
       | None \<Rightarrow> send_call env h2 tool arguments mode))))"

definition tool_call ::
  "HostEnv \<Rightarrow> Host \<Rightarrow> string \<Rightarrow> RegisteredTool \<Rightarrow> pydict \<Rightarrow> approval_mode \<Rightarrow>
   exn + (Host \<times> pydict \<times> bool)" where
  "tool_call env h name tool raw mode =
    (let arguments = normalize_tool_arguments tool raw;
         schema_errors = validate_tool_arguments env tool arguments in
     if schema_errors \<noteq> []
     then answered (h\<lparr>host_state := map_option (invalid_arguments_state schema_errors) (host_state h)\<rparr>)
            (invalid_tool_arguments_payload tool schema_errors) False
     else bind (fix_path_arguments (host_state h) tool arguments) (\<lambda>fixed.
       case fixed of Inl payload \<Rightarrow> answered h payload False
       | Inr effective \<Rightarrow>
           guarded_call env h tool effective
             (call_key name effective) mode))"

text \<open>The raw arguments are a JSON text: its error message, or the value it decodes to.\<close>

definition handle_function_call ::
  "HostEnv \<Rightarrow> Host \<Rightarrow> string \<Rightarrow> string + pyval \<Rightarrow> approval_mode \<Rightarrow> exn + (Host \<times> pydict \<times> bool)" where
  "handle_function_call env h name raw mode =
    (let invalid = (\<lambda>text. answered h [(''success'', PBool False), (''status'', PStr ''invalid_json''),
                                        (''error'', PStr text)] True) in
     case raw of Inl text \<Rightarrow> invalid text
     | Inr (PDict arguments) \<Rightarrow>
         (case map_of (registry env) name of
            None \<Rightarrow> answered h [(''success'', PBool False), (''status'', PStr ''unknown_tool''),
                      (''error'', PStr ([CHR 0x27] @ ''tool not registered: '' @ name @ [CHR 0x27]))] True
          | Some tool \<Rightarrow> tool_call env h name tool arguments mode)
     | Inr v \<Rightarrow> invalid ''function arguments must be a JSON object'')"

section \<open>Runs of a host\<close>

text \<open>A host serves any sequence of calls; between two calls its execution state may be replaced,
  as the executor of the graph does for every call.\<close>

inductive host_run :: "HostEnv \<Rightarrow> Host \<Rightarrow> Host \<Rightarrow> bool" for env :: HostEnv where
  begin_run: "host_run env h h"
| new_state: "host_run env h h1 \<Longrightarrow> host_run env h (h1\<lparr>host_state := st\<rparr>)"
| one_call: "host_run env h h1 \<Longrightarrow> handle_function_call env h1 name raw mode = Inr (h2, out, executed)
    \<Longrightarrow> host_run env h h2"

text \<open>
  What a call does to the parts of the host that outlive it: nothing, a counted test run, a
  refusal of the person, or a call sent after its checks.
\<close>

definition same_memory :: "Host \<Rightarrow> Host \<Rightarrow> bool" where
  "same_memory h h' \<longleftrightarrow> history h' = history h \<and> rejected_calls h' = rejected_calls h
     \<and> test_attempts h' = test_attempts h"

definition counts_run :: "Host \<Rightarrow> Host \<Rightarrow> RegisteredTool \<Rightarrow> pydict \<Rightarrow> bool" where
  "counts_run h h' tool arguments \<longleftrightarrow>
    history h' = history h \<and> rejected_calls h' = rejected_calls h \<and>
    (if is_run_tests tool
     then \<exists>p. py_str (getd arguments ''project_name'' (PStr [])) = Inr p
            \<and> attempts_of h p < MAX_TEST_ATTEMPTS
            \<and> test_attempts h' = AList.update p (attempts_of h p + 1) (test_attempts h)
     else test_attempts h' = test_attempts h)"

definition asks :: "Host \<Rightarrow> Host \<Rightarrow> RegisteredTool \<Rightarrow> pydict \<Rightarrow> string \<times> pyval \<Rightarrow> bool \<Rightarrow> bool" where
  "asks h h' tool arguments key approved \<longleftrightarrow>
    test_attempts h' = test_attempts h \<and> history h' = history h @ [Asked tool arguments approved]
    \<and> rejected_calls h' = (if approved then rejected_calls h else key # rejected_calls h)"

lemma enforce_cases:
  assumes "enforce_test_retry_limit h tool arguments = Inr (h1, limit)"
  shows "limit \<noteq> None \<and> same_memory h h1 \<or> limit = None \<and> counts_run h h1 tool arguments"
  using assms
  by (auto simp: enforce_test_retry_limit_def same_memory_def counts_run_def Let_def bind_eq_Inr_iff
      split: if_splits)

lemma approval_cases:
  assumes "approval_step env h tool arguments key mode = Inr (h1, rejection)"
  shows "rejection = None \<and> h1 = h \<and> (requires_approval tool \<longrightarrow> mode = AlreadyApproved)
       \<or> rejection \<noteq> None \<and> h1 = h
       \<or> rejection = None \<and> asks h h1 tool arguments key True
       \<or> rejection \<noteq> None \<and> asks h h1 tool arguments key False"
proof (cases "requires_approval tool \<and> mode = Prompt")
  case True
  then show ?thesis
    using assms unfolding approval_step_def
    by (auto simp: asks_def Let_def bind_eq_Inr_iff split: if_splits option.splits)
next
  case False
  with assms show ?thesis by (cases mode) (auto simp: approval_step_def)
qed

text \<open>Nothing raises after a call: the texts of all values that are modelled can be taken.\<close>

definition raises_nothing :: "exn + 'a \<Rightarrow> bool" where
  "raises_nothing m \<longleftrightarrow> (\<forall>e. m = Inl e \<longrightarrow> e = Unmodelled)"

lemma raises_nothing_bind:
  "raises_nothing m \<Longrightarrow> (\<And>x. raises_nothing (f x)) \<Longrightarrow> raises_nothing (bind m f)"
  by (auto simp: raises_nothing_def bind_eq_Inl_iff)

lemma raises_nothing_cases:
  "raises_nothing (Inr x)"
  "raises_nothing a \<Longrightarrow> raises_nothing b \<Longrightarrow> raises_nothing (if c then a else b)"
  "raises_nothing a \<Longrightarrow> (\<And>x. raises_nothing (f x)) \<Longrightarrow> raises_nothing (case v of None \<Rightarrow> a | Some x \<Rightarrow> f x)"
  "raises_nothing a \<Longrightarrow> (\<And>x xs. raises_nothing (g x xs)) \<Longrightarrow> raises_nothing (case ys of [] \<Rightarrow> a | x # xs \<Rightarrow> g x xs)"
  "(\<And>x y. raises_nothing (h x y)) \<Longrightarrow> raises_nothing (case q of (x, y) \<Rightarrow> h x y)"
  "raises_nothing a \<Longrightarrow> (\<And>xs. raises_nothing (k xs)) \<Longrightarrow> raises_nothing (case w of PList xs \<Rightarrow> k xs | _ \<Rightarrow> a)"
  by (simp_all add: raises_nothing_def split: option.splits list.splits pyval.splits prod.splits)

lemma raises_nothing_str: "raises_nothing (py_str v)"
  by (cases v) (auto simp: raises_nothing_def)

lemma raises_nothing_mapm: "(\<And>x. raises_nothing (f x)) \<Longrightarrow> raises_nothing (mapm f xs)"
  by (induction xs) (auto intro!: raises_nothing_bind raises_nothing_cases(1))

lemma raises_nothing_found: "raises_nothing (entry_found name entries)"
  by (induction name entries rule: entry_found.induct)
     (auto simp: raises_nothing_def bind_eq_Inl_iff
       dest: raises_nothing_str[unfolded raises_nothing_def, rule_format] split: if_splits)

lemma raises_nothing_paths: "raises_nothing (updated_paths files)"
  by (induction files rule: updated_paths.induct)
     (auto simp: raises_nothing_def bind_eq_Inl_iff
       dest: raises_nothing_str[unfolded raises_nothing_def, rule_format] split: if_splits)

lemma raises_nothing_evidence: "raises_nothing (extract_repair_evidence files)"
  by (induction files rule: extract_repair_evidence.induct)
     (auto simp: raises_nothing_def bind_eq_Inl_iff
       dest: raises_nothing_str[unfolded raises_nothing_def, rule_format] split: if_splits)

lemma raises_nothing_first: "raises_nothing (first_text p ks final)"
  unfolding first_text_def by (intro raises_nothing_cases raises_nothing_str)

lemmas raises_nothing_intros = raises_nothing_bind raises_nothing_cases raises_nothing_str raises_nothing_mapm
  raises_nothing_found raises_nothing_paths raises_nothing_evidence raises_nothing_first

lemma raises_nothing_reconcile: "raises_nothing (reconcile_execution_result state tool arguments result)"
  unfolding reconcile_execution_result_def Let_def result_error_text_def failed_prepare_status_def
  by (intro raises_nothing_intros)

lemma raises_nothing_parts:
  "raises_nothing (note_failure tool p st)" "raises_nothing (update_list_files p st)"
  "raises_nothing (update_create_project error payload arguments succeeded st)"
  "raises_nothing (update_read_file imports p arguments st)" "raises_nothing (update_project_files arguments st)"
  "raises_nothing (update_detect_framework p st)" "raises_nothing (update_run_tests payload st)"
  "raises_nothing (update_prepare_environment payload succeeded st)"
  unfolding note_failure_def update_list_files_def update_create_project_def update_read_file_def
    update_project_files_def update_detect_framework_def update_run_tests_def update_test_payload_def
    update_test_details_def update_prepare_environment_def optional_text_def text_or_argument_def Let_def
  by (intro raises_nothing_intros)+

lemma raises_nothing_update: "raises_nothing (update_execution_state imports tool result arguments st)"
  unfolding update_execution_state_def Let_def when_tool_def
  by (intro raises_nothing_intros raises_nothing_parts)

lemma settle_raises: "settle_reply env state tool arguments reply = Inl e \<Longrightarrow> e = Unmodelled"
proof -
  have "raises_nothing (settle_reply env state tool arguments reply)"
    unfolding settle_reply_def
    by (intro raises_nothing_intros raises_nothing_reconcile raises_nothing_update)
  then show "settle_reply env state tool arguments reply = Inl e \<Longrightarrow> ?thesis" by (simp add: raises_nothing_def)
qed

lemma send_call_settles:
  "send_call env h tool arguments mode =
    bind (settle_reply env (host_state h) tool arguments (call_tool env (history h) tool arguments))
      (\<lambda>(state, result). Inr (h\<lparr>history := history h @ [Sent tool arguments mode], host_state := state\<rparr>,
         output_for_model result, requires_approval tool))"
proof (cases "settle_reply env (host_state h) tool arguments (call_tool env (history h) tool arguments)")
  case (Inl e)
  with settle_raises[OF Inl] show ?thesis by (simp add: send_call_def Let_def split: mcp_reply.split)
next
  case (Inr r)
  then show ?thesis by (simp add: send_call_def Let_def)
qed

lemma send_facts:
  assumes "send_call env h tool arguments mode = Inr (h1, out, executed)"
  shows "history h1 = history h @ [Sent tool arguments mode]" "rejected_calls h1 = rejected_calls h"
    "test_attempts h1 = test_attempts h" "executed = requires_approval tool"
  using assms by (auto simp: send_call_settles bind_eq_Inr_iff)

lemma answered_facts:
  "answered h payload error = Inr (h1, out, executed) \<Longrightarrow> h1 = h \<and> \<not> executed"
  by (auto simp: answered_def)

text \<open>The possible effects of one call on the memory of the host.\<close>

definition admitted :: "HostEnv \<Rightarrow> Host \<Rightarrow> string \<Rightarrow> RegisteredTool \<Rightarrow> pydict \<Rightarrow> bool" where
  "admitted env h name tool args \<longleftrightarrow> call_key name args \<notin> set (rejected_calls h)
     \<and> validate_call_against_state (py_imports env) (host_state h) tool args = Inr None"

inductive call_effect ::
  "HostEnv \<Rightarrow> Host \<Rightarrow> Host \<Rightarrow> string \<Rightarrow> RegisteredTool \<Rightarrow> pydict \<Rightarrow> approval_mode \<Rightarrow> bool"
  for env :: HostEnv where
  quiet: "same_memory h h' \<Longrightarrow> call_effect env h h' name tool args mode"
| counted_only: "counts_run h h' tool args \<Longrightarrow> call_effect env h h' name tool args mode"
| refused: "counts_run h h1 tool args \<Longrightarrow> asks h1 h' tool args (call_key name args) False
    \<Longrightarrow> call_effect env h h' name tool args mode"
| sent_free: "counts_run h h1 tool args \<Longrightarrow> admitted env h name tool args
    \<Longrightarrow> (requires_approval tool \<longrightarrow> mode = AlreadyApproved)
    \<Longrightarrow> history h' = history h1 @ [Sent tool args mode] \<Longrightarrow> rejected_calls h' = rejected_calls h1
    \<Longrightarrow> test_attempts h' = test_attempts h1 \<Longrightarrow> call_effect env h h' name tool args mode"
| sent_approved: "counts_run h h1 tool args \<Longrightarrow> admitted env h name tool args
    \<Longrightarrow> asks h1 h2 tool args (call_key name args) True
    \<Longrightarrow> history h' = history h2 @ [Sent tool args mode] \<Longrightarrow> rejected_calls h' = rejected_calls h2
    \<Longrightarrow> test_attempts h' = test_attempts h2 \<Longrightarrow> call_effect env h h' name tool args mode"

lemma guarded_call_effect:
  assumes "guarded_call env h tool args (call_key name args) mode = Inr (h', out, executed)"
  shows "call_effect env h h' name tool args mode"
proof (cases "(call_key name args) \<in> set (rejected_calls h)")
  case True
  with assms show ?thesis
    by (auto simp: guarded_call_def same_memory_def dest!: answered_facts intro: quiet)
next
  case fresh: False
  let ?key = "call_key name args"
  obtain refusal where ref: "validate_call_against_state (py_imports env) (host_state h) tool args = Inr refusal"
    and c1: "(case refusal of Some payload \<Rightarrow> answered h payload False
       | None \<Rightarrow> bind (enforce_test_retry_limit h tool args) (\<lambda>(h1, limit).
         case limit of Some payload \<Rightarrow> answered h1 payload False
         | None \<Rightarrow> bind (approval_step env h1 tool args ?key mode) (\<lambda>(h2, rejection).
           case rejection of Some payload \<Rightarrow> answered h2 payload False
           | None \<Rightarrow> send_call env h2 tool args mode))) = Inr (h', out, executed)"
    using assms fresh unfolding guarded_call_def by (auto elim!: bind_InrE)
  show ?thesis
  proof (cases refusal)
    case (Some payload)
    with c1 show ?thesis by (auto simp: same_memory_def dest!: answered_facts intro: quiet)
  next
    case None
    with ref fresh have adm: "admitted env h name tool args" by (simp add: admitted_def)
    from None c1 obtain h1 limit where en: "enforce_test_retry_limit h tool args = Inr (h1, limit)"
      and c2: "(case limit of Some payload \<Rightarrow> answered h1 payload False
         | None \<Rightarrow> bind (approval_step env h1 tool args ?key mode) (\<lambda>(h2, rejection).
           case rejection of Some payload \<Rightarrow> answered h2 payload False
           | None \<Rightarrow> send_call env h2 tool args mode)) = Inr (h', out, executed)"
      by (auto elim!: bind_InrE)
    show ?thesis
    proof (cases limit)
      case (Some payload)
      with c2 enforce_cases[OF en] show ?thesis by (auto dest!: answered_facts intro: quiet)
    next
      case None
      with enforce_cases[OF en] have cnt: "counts_run h h1 tool args" by simp
      from None c2 obtain h2 rejection where
        ap: "approval_step env h1 tool args ?key mode = Inr (h2, rejection)"
        and c3: "(case rejection of Some payload \<Rightarrow> answered h2 payload False
           | None \<Rightarrow> send_call env h2 tool args mode) = Inr (h', out, executed)"
        by (auto elim!: bind_InrE)
      from approval_cases[OF ap] show ?thesis
      proof (elim disjE conjE)
        assume "rejection = None" "h2 = h1" and m: "requires_approval tool \<longrightarrow> mode = AlreadyApproved"
        with c3 have "send_call env h1 tool args mode = Inr (h', out, executed)" by simp
        from sent_free[OF cnt adm m send_facts(1-3)[OF this]] show ?thesis .
      next
        assume "rejection \<noteq> None" "h2 = h1"
        with c3 cnt show ?thesis by (auto dest!: answered_facts intro: counted_only)
      next
        assume "rejection = None" and a: "asks h1 h2 tool args ?key True"
        with c3 have "send_call env h2 tool args mode = Inr (h', out, executed)" by simp
        from sent_approved[OF cnt adm a send_facts(1-3)[OF this]] show ?thesis .
      next
        assume "rejection \<noteq> None" "asks h1 h2 tool args ?key False"
        with c3 cnt show ?thesis by (auto dest!: answered_facts intro: refused)
      qed
    qed
  qed
qed

lemma tool_call_effect:
  assumes "tool_call env h name tool raw mode = Inr (h', out, executed)"
  shows "\<exists>args. call_effect env h h' name tool args mode
     \<and> (public_name tool \<noteq> ''filesystem__read_file'' \<longrightarrow> args = normalize_tool_arguments tool raw)"
proof -
  let ?args = "normalize_tool_arguments tool raw"
  show ?thesis
  proof (cases "validate_tool_arguments env tool ?args = []")
    case False
    with assms show ?thesis
      by (auto simp: tool_call_def Let_def same_memory_def dest!: answered_facts intro!: exI[of _ ?args] quiet)
  next
    case True
    with assms obtain fixed where
      fx: "fix_path_arguments (host_state h) tool ?args = Inr fixed" and
      c: "(case fixed of Inl payload \<Rightarrow> answered h payload False
       | Inr effective \<Rightarrow> guarded_call env h tool effective (call_key name effective) mode)
       = Inr (h', out, executed)"
      by (auto simp: tool_call_def Let_def elim!: bind_InrE)
    show ?thesis
    proof (cases fixed)
      case (Inl payload)
      with c show ?thesis
        by (auto simp: same_memory_def dest!: answered_facts intro!: exI[of _ ?args] quiet)
    next
      case (Inr effective)
      with c have "guarded_call env h tool effective (call_key name effective) mode = Inr (h', out, executed)"
        by simp
      moreover have "public_name tool \<noteq> ''filesystem__read_file'' \<longrightarrow> effective = ?args"
        using fx Inr by (auto simp: fix_path_arguments_def split: option.splits)
      ultimately show ?thesis by (blast dest: guarded_call_effect)
    qed
  qed
qed

lemma handle_call_effect:
  assumes "handle_function_call env h name raw mode = Inr (h', out, executed)"
  obtains (unchanged) "same_memory h h'"
  | (called) tool args given where "map_of (registry env) name = Some tool" "raw = Inr (PDict given)"
    "call_effect env h h' name tool args mode"
    "public_name tool \<noteq> ''filesystem__read_file'' \<longrightarrow> args = normalize_tool_arguments tool given"
proof -
  have ans: "same_memory h h'" if "answered h payload error = Inr (h', out, executed)" for payload error
    using answered_facts[OF that] by (simp add: same_memory_def)
  show ?thesis
  proof (cases raw)
    case (Inl msg)
    with assms show ?thesis by (auto simp: handle_function_call_def intro: ans unchanged)
  next
    case (Inr v)
    show ?thesis
    proof (cases "\<exists>given tool. v = PDict given \<and> map_of (registry env) name = Some tool")
      case True
      then obtain given tool where v: "v = PDict given" "map_of (registry env) name = Some tool" by blast
      with Inr assms have "tool_call env h name tool given mode = Inr (h', out, executed)"
        by (simp add: handle_function_call_def)
      from tool_call_effect[OF this] v Inr called show ?thesis by blast
    next
      case False
      with Inr assms show ?thesis
        by (cases v; cases "map_of (registry env) name")
           (auto simp: handle_function_call_def Let_def intro: ans unchanged)
    qed
  qed
qed

end
