(* ===== verification/HostProps.thy ===== *)
theory HostProps
  imports HostCalls
begin

text \<open>
  Properties of the host over every run: approvals, refusals and the bound on test runs, the
  phases of a repair, and the order of the steps.
\<close>

section \<open>Approvals\<close>

text \<open>Every prompted call of a sensitive tool in the history directly follows a granted question
  about the same tool and the same arguments.\<close>

definition send_ok :: "host_event option \<Rightarrow> host_event \<Rightarrow> bool" where
  "send_ok prev e =
    (case e of Sent t a Prompt \<Rightarrow> requires_approval t \<longrightarrow> prev = Some (Asked t a True) | _ \<Rightarrow> True)"

fun approved_from :: "host_event option \<Rightarrow> host_event list \<Rightarrow> bool" where
  "approved_from prev [] = True"
| "approved_from prev (e # es) = (send_ok prev e \<and> approved_from (Some e) es)"

definition approved_sends :: "host_event list \<Rightarrow> bool" where
  "approved_sends hist \<longleftrightarrow> approved_from None hist"

lemma approved_sends_Nil: "approved_sends []"
  by (simp add: approved_sends_def)

lemma approved_from_snoc:
  "approved_from prev (es @ [e]) \<longleftrightarrow>
    approved_from prev es \<and> send_ok (if es = [] then prev else Some (last es)) e"
  by (induction es arbitrary: prev) auto

lemma approved_sends_snoc:
  "approved_sends (hist @ [e]) \<longleftrightarrow>
    approved_sends hist \<and> send_ok (if hist = [] then None else Some (last hist)) e"
  by (simp add: approved_sends_def approved_from_snoc)

lemma send_ok_simps [simp]:
  "send_ok prev (Asked t a b)" "send_ok prev (Sent t a AlreadyApproved)"
  "send_ok prev (Sent t a Prompt) \<longleftrightarrow> (requires_approval t \<longrightarrow> prev = Some (Asked t a True))"
  by (simp_all add: send_ok_def)

lemma approved_asked: "approved_sends (hist @ [Asked t a b]) = approved_sends hist"
  by (simp add: approved_sends_snoc)

lemma effect_approved:
  assumes "call_effect env h h' name tool args mode" "approved_sends (history h)"
  shows "approved_sends (history h')"
  using assms
proof cases
  case (sent_free h1)
  with assms(2) show ?thesis
    by (cases mode) (auto simp: counts_run_def approved_sends_snoc)
next
  case (sent_approved h1 h2)
  with assms(2) show ?thesis
    by (cases mode) (auto simp: counts_run_def asks_def approved_sends_snoc simp del: append_assoc)
qed (auto simp: same_memory_def counts_run_def asks_def approved_asked)

lemma run_approved: "host_run env h h' \<Longrightarrow> approved_sends (history h) \<Longrightarrow> approved_sends (history h')"
proof (induction rule: host_run.induct)
  case (one_call h h1 name raw mode h2 out executed)
  from one_call.hyps(2) show ?case
    using one_call by (cases rule: handle_call_effect) (auto simp: same_memory_def effect_approved)
qed simp_all

text \<open>(C2) In every run of a host, whatever calls the model requests and whatever the servers
  reply, a sensitive tool that was called with prompting was sent to its server directly after a
  person approved that very tool with those very arguments.\<close>

theorem sensitive_calls_were_approved:
  "host_run env new_host h \<Longrightarrow> approved_sends (history h)"
  using run_approved by (fastforce simp: new_host_def approved_sends_Nil)

section \<open>Refusals\<close>

definition event_key :: "host_event \<Rightarrow> string \<times> pyval" where
  "event_key e = (case e of Asked t a b \<Rightarrow> call_key (public_name t) a | Sent t a m \<Rightarrow> call_key (public_name t) a)"

definition is_refusal :: "host_event \<Rightarrow> bool" where
  "is_refusal e = (case e of Asked t a b \<Rightarrow> \<not> b | Sent t a m \<Rightarrow> False)"

definition is_send :: "host_event \<Rightarrow> bool" where
  "is_send e = (case e of Sent t a m \<Rightarrow> True | Asked t a b \<Rightarrow> False)"

text \<open>No call is sent after a person refused the same call.\<close>

fun refusals_final :: "host_event list \<Rightarrow> bool" where
  "refusals_final [] = True"
| "refusals_final (e # es) =
     ((is_refusal e \<longrightarrow> list_all (\<lambda>f. is_send f \<longrightarrow> event_key f \<noteq> event_key e) es) \<and> refusals_final es)"

lemma refusals_final_snoc:
  "refusals_final (es @ [f]) \<longleftrightarrow> refusals_final es
     \<and> (is_send f \<longrightarrow> (\<forall>e \<in> set es. is_refusal e \<longrightarrow> event_key f \<noteq> event_key e))"
  by (induction es) auto

definition refusals_known :: "Host \<Rightarrow> bool" where
  "refusals_known h \<longleftrightarrow> refusals_final (history h)
     \<and> (\<forall>e \<in> set (history h). is_refusal e \<longrightarrow> event_key e \<in> set (rejected_calls h))"

lemma event_simps [simp]:
  "is_refusal (Asked t a b) \<longleftrightarrow> \<not> b" "\<not> is_refusal (Sent t a m)" "is_send (Sent t a m)"
  "\<not> is_send (Asked t a b)" "event_key (Asked t a b) = call_key (public_name t) a"
  "event_key (Sent t a m) = call_key (public_name t) a"
  by (simp_all add: is_refusal_def is_send_def event_key_def)

lemma effect_refusals:
  assumes "call_effect env h h' name tool args mode" "refusals_known h" "public_name tool = name"
  shows "refusals_known h'"
  using assms
proof cases
  case (sent_free h1)
  with assms show ?thesis
    by (auto simp: refusals_known_def admitted_def counts_run_def refusals_final_snoc)
next
  case (sent_approved h1 h2)
  with assms show ?thesis
    by (auto simp: refusals_known_def admitted_def counts_run_def asks_def refusals_final_snoc
        simp del: append_assoc)
qed (auto simp: refusals_known_def same_memory_def counts_run_def asks_def refusals_final_snoc)

lemma run_refusals: "host_run env h h' \<Longrightarrow> refusals_known h \<Longrightarrow> refusals_known h'"
proof (induction rule: host_run.induct)
  case (new_state h h1 st)
  then show ?case by (simp add: refusals_known_def)
next
  case (one_call h h1 name raw mode h2 out executed)
  from one_call.hyps(2) show ?case
  proof (cases rule: handle_call_effect)
    case unchanged
    with one_call show ?thesis by (simp add: refusals_known_def same_memory_def)
  next
    case (called tool args given)
    with one_call effect_refusals registered_facts[OF called(1)] show ?thesis by blast
  qed
qed simp

text \<open>(C5) A refusal is final: as long as the host is not reset, a call that a person refused is
  never sent to its server again, however often it is requested and in whichever mode.\<close>

theorem refused_call_is_never_sent:
  assumes "host_run env new_host h"
  shows "refusals_final (history h)"
  using run_refusals[OF assms] by (simp add: refusals_known_def new_host_def)

section \<open>Test runs\<close>

definition is_run_of :: "string \<Rightarrow> host_event \<Rightarrow> bool" where
  "is_run_of project e =
    (case e of Sent t a m \<Rightarrow> is_run_tests t \<and> py_str (getd a ''project_name'' (PStr [])) = Inr project
     | Asked t a b \<Rightarrow> False)"

definition runs_of :: "string \<Rightarrow> host_event list \<Rightarrow> int" where
  "runs_of project hist = int (length (filter (is_run_of project) hist))"

definition runs_counted :: "Host \<Rightarrow> bool" where
  "runs_counted h \<longleftrightarrow> (\<forall>p. runs_of p (history h) \<le> attempts_of h p \<and> attempts_of h p \<le> MAX_TEST_ATTEMPTS)"

lemma runs_of_snoc:
  "runs_of p (hist @ [Asked t a b]) = runs_of p hist"
  "runs_of p (hist @ [Sent t a m]) = runs_of p hist +
     (if is_run_tests t \<and> py_str (getd a ''project_name'' (PStr [])) = Inr p then 1 else 0)"
  by (simp_all add: runs_of_def is_run_of_def)

lemma attempts_update:
  "test_attempts h' = AList.update q n (test_attempts h) \<Longrightarrow>
    attempts_of h' p = (if p = q then n else attempts_of h p)"
  by (simp add: attempts_of_def update_conv')

lemma attempts_of_same:
  assumes "test_attempts h' = test_attempts h"
  shows "attempts_of h' p = attempts_of h p"
  using assms by (simp add: attempts_of_def)

lemma runs_counted_same:
  assumes "runs_counted h" "history h' = history h" "test_attempts h' = test_attempts h"
  shows "runs_counted h'"
  using assms by (simp add: runs_counted_def attempts_of_def)

text \<open>A counted call leaves room for one more run of its project.\<close>

lemma counted_room:
  assumes "counts_run h h1 tool args" "runs_counted h"
  shows "runs_of p (history h1) + (if is_run_tests tool
           \<and> py_str (getd args ''project_name'' (PStr [])) = Inr p then 1 else 0) \<le> attempts_of h1 p"
    and "attempts_of h1 p \<le> MAX_TEST_ATTEMPTS"
proof -
  have r: "runs_of p (history h) \<le> attempts_of h p" "attempts_of h p \<le> MAX_TEST_ATTEMPTS"
    using assms(2) by (simp_all add: runs_counted_def)
  have "history h1 = history h" using assms(1) by (simp add: counts_run_def)
  moreover have "attempts_of h1 p = attempts_of h p + (if is_run_tests tool
        \<and> py_str (getd args ''project_name'' (PStr [])) = Inr p then 1 else 0)
      \<and> attempts_of h1 p \<le> MAX_TEST_ATTEMPTS"
  proof (cases "is_run_tests tool")
    case True
    then obtain q where q: "py_str (getd args ''project_name'' (PStr [])) = Inr q"
      "attempts_of h q < MAX_TEST_ATTEMPTS"
      "test_attempts h1 = AList.update q (attempts_of h q + 1) (test_attempts h)"
      using assms(1) by (auto simp: counts_run_def)
    with True r(2) attempts_update[OF q(3), of p] show ?thesis by auto
  next
    case False
    then have "test_attempts h1 = test_attempts h" using assms(1) by (simp add: counts_run_def)
    from attempts_of_same[OF this, of p] False r(2) show ?thesis by simp
  qed
  ultimately show "runs_of p (history h1) + (if is_run_tests tool
           \<and> py_str (getd args ''project_name'' (PStr [])) = Inr p then 1 else 0) \<le> attempts_of h1 p"
    "attempts_of h1 p \<le> MAX_TEST_ATTEMPTS"
    using r(1) by auto
qed

lemma effect_runs:
  assumes "call_effect env h h' name tool args mode" "runs_counted h"
  shows "runs_counted h'"
  using assms(1)
proof cases
  case quiet
  with assms(2) runs_counted_same show ?thesis by (simp add: same_memory_def)
next
  case counted_only
  have "runs_of p (history h') \<le> attempts_of h' p" for p
    using counted_room(1)[OF counted_only assms(2), of p] by (simp split: if_splits)
  with counted_room(2)[OF counted_only assms(2)] show ?thesis by (simp add: runs_counted_def)
next
  case (refused h1)
  have "runs_of p (history h1) \<le> attempts_of h1 p" for p
    using counted_room(1)[OF refused(1) assms(2), of p] by (simp split: if_splits)
  with refused(2) counted_room(2)[OF refused(1) assms(2)] show ?thesis
    by (simp add: runs_counted_def asks_def runs_of_snoc attempts_of_def)
next
  case (sent_free h1)
  have "attempts_of h' p = attempts_of h1 p" for p using sent_free(6) by (rule attempts_of_same)
  with counted_room[OF sent_free(1) assms(2)] sent_free(4) show ?thesis
    by (simp add: runs_counted_def runs_of_snoc)
next
  case (sent_approved h1 h2)
  have "attempts_of h' p = attempts_of h1 p" for p
    using sent_approved(3,6) by (intro attempts_of_same) (simp add: asks_def)
  moreover have "runs_of p (history h') = runs_of p (history h1) + (if is_run_tests tool
      \<and> py_str (getd args ''project_name'' (PStr [])) = Inr p then 1 else 0)" for p
    using sent_approved(3,4) by (simp add: asks_def runs_of_snoc del: append_assoc)
  ultimately show ?thesis
    using counted_room[OF sent_approved(1) assms(2)] by (simp add: runs_counted_def)
qed

lemma run_runs: "host_run env h h' \<Longrightarrow> runs_counted h \<Longrightarrow> runs_counted h'"
proof (induction rule: host_run.induct)
  case (new_state h h1 st)
  then show ?case by (simp add: runs_counted_def attempts_of_def)
next
  case (one_call h h1 name raw mode h2 out executed)
  from one_call.hyps(2) show ?case
  proof (cases rule: handle_call_effect)
    case unchanged
    with one_call show ?thesis by (auto simp: same_memory_def intro: runs_counted_same)
  next
    case (called tool args given)
    with one_call show ?thesis by (blast intro: effect_runs)
  qed
qed simp

text \<open>(C23) The tests of a project are sent to the testing server at most three times in the life of
  a host that is not reset, also when its execution state is replaced in between, as happens
  when one host serves several workflows.\<close>

theorem test_runs_are_bounded:
  assumes "host_run env new_host h"
  shows "runs_of project (history h) \<le> 3"
proof -
  have "runs_counted new_host"
    by (simp add: runs_counted_def new_host_def attempts_of_def runs_of_def MAX_TEST_ATTEMPTS_def)
  from run_runs[OF assms this] show ?thesis
    by (auto simp: runs_counted_def MAX_TEST_ATTEMPTS_def intro: order_trans)
qed

section \<open>Examples of runs\<close>

text \<open>A sequence of calls, served one after the other.\<close>

fun serve :: "HostEnv \<Rightarrow> Host \<Rightarrow> (string \<times> pydict \<times> approval_mode) list \<Rightarrow> exn + Host" where
  "serve env h [] = Inr h"
| "serve env h ((name, args, mode) # calls) =
     bind (handle_function_call env h name (Inr (PDict args)) mode) (\<lambda>(h', out, executed). serve env h' calls)"

lemma serve_run: "serve env h calls = Inr h' \<Longrightarrow> host_run env h0 h \<Longrightarrow> host_run env h0 h'"
  by (induction env h calls rule: serve.induct) (auto simp: bind_eq_Inr_iff dest: one_call)

definition run_tests_tool :: RegisteredTool where
  "run_tests_tool = \<lparr>public_name = ''testing__run_tests'', original_name = ''run_tests'',
     server_name = ''testing'', description = [],
     input_schema = [(''type'', PStr ''object''), (''properties'', PDict [])], requires_approval = True\<rparr>"

definition passing_env :: "string \<Rightarrow> HostEnv" where
  "passing_env answer =
    \<lparr>declarations = [\<lparr>decl_server = ''testing'', decl_name = ''run_tests'', decl_description = [],
       decl_schema = []\<rparr>], schema_messages = (\<lambda>_ _. []),
     call_tool = (\<lambda>_ _ _. Replied (McpDict [(''success'', PBool True), (''stdout'', PStr ''1 passed'')])),
     answers = (\<lambda>_ _ _. [''what?'', answer]), py_imports = (\<lambda>_. None)\<rparr>"

abbreviation run_demo :: "string \<times> pydict \<times> approval_mode" where
  "run_demo \<equiv> (''testing__run_tests'', [(''project_name'', PStr ''demo'')], Prompt)"

lemma served_histories:
  "(case serve (passing_env ''s'') new_host [run_demo] of
      Inr h \<Rightarrow> history h = [Asked run_tests_tool [(''project_name'', PStr ''demo'')] True,
                        Sent run_tests_tool [(''project_name'', PStr ''demo'')] Prompt] | Inl e \<Rightarrow> False)"
  "(case serve (passing_env ''n'') new_host [run_demo, run_demo] of
      Inr h \<Rightarrow> history h = [Asked run_tests_tool [(''project_name'', PStr ''demo'')] False] | Inl e \<Rightarrow> False)"
  "(case serve (passing_env ''s'') new_host [run_demo, run_demo, run_demo, run_demo] of
      Inr h \<Rightarrow> runs_of ''demo'' (history h) = 3 | Inl e \<Rightarrow> False)"
  by code_simp+

theorem sensitive_calls_were_approved_witness:
  "\<exists>h. host_run (passing_env ''s'') new_host h \<and> approved_sends (history h)
     \<and> history h = [Asked run_tests_tool [(''project_name'', PStr ''demo'')] True,
                    Sent run_tests_tool [(''project_name'', PStr ''demo'')] Prompt]"
proof -
  obtain h where s: "serve (passing_env ''s'') new_host [run_demo] = Inr h"
    and h: "history h = [Asked run_tests_tool [(''project_name'', PStr ''demo'')] True,
                        Sent run_tests_tool [(''project_name'', PStr ''demo'')] Prompt]"
    using served_histories(1) by (auto split: sum.splits)
  from serve_run[OF s begin_run] have "host_run (passing_env ''s'') new_host h" .
  with sensitive_calls_were_approved[OF this] h show ?thesis by blast
qed

theorem refused_call_is_never_sent_witness:
  "\<exists>h. host_run (passing_env ''n'') new_host h \<and> refusals_final (history h)
     \<and> history h = [Asked run_tests_tool [(''project_name'', PStr ''demo'')] False]"
proof -
  obtain h where s: "serve (passing_env ''n'') new_host [run_demo, run_demo] = Inr h"
    and h: "history h = [Asked run_tests_tool [(''project_name'', PStr ''demo'')] False]"
    using served_histories(2) by (auto split: sum.splits)
  from serve_run[OF s begin_run] have "host_run (passing_env ''n'') new_host h" .
  with refused_call_is_never_sent[OF this] h show ?thesis by blast
qed

theorem test_runs_are_bounded_witness:
  "\<exists>h. host_run (passing_env ''s'') new_host h \<and> runs_of ''demo'' (history h) \<le> 3
     \<and> runs_of ''demo'' (history h) = 3"
proof -
  obtain h where s: "serve (passing_env ''s'') new_host [run_demo, run_demo, run_demo, run_demo] = Inr h"
    and h: "runs_of ''demo'' (history h) = 3"
    using served_histories(3) by (auto split: sum.splits)
  from serve_run[OF s begin_run] have "host_run (passing_env ''s'') new_host h" .
  with test_runs_are_bounded[OF this] h show ?thesis by blast
qed

section \<open>Repairs\<close>

definition confined_file :: "string list \<Rightarrow> pyval \<Rightarrow> bool" where
  "confined_file allowed file \<longleftrightarrow>
    (case update_path file of
       Inr path \<Rightarrow> path \<noteq> [] \<and> \<not> is_absolute path \<and> ''..'' \<notin> set (path_parts path)
                  \<and> (allowed \<noteq> [] \<longrightarrow> path \<in> set allowed)
     | Inl e \<Rightarrow> False)"

definition confined_update :: "ExecutionState \<Rightarrow> pydict \<Rightarrow> bool" where
  "confined_update st args \<longleftrightarrow>
    \<not> project_conflict st args \<and>
    (case get args ''files'' of
       PList files \<Rightarrow> files \<noteq> [] \<and> list_all (confined_file (es_failing_test_files st)) files
     | _ \<Rightarrow> False)"

lemma update_files_confined:
  "update_files_refusal allowed files = Inr None \<Longrightarrow> list_all (confined_file allowed) files"
proof (induction files)
  case (Cons f fs)
  then obtain path where "update_path f = Inr path" by (auto elim!: bind_InrE)
  with Cons show ?case by (auto simp: confined_file_def split: if_splits)
qed simp

lemma nonempty_list_Some: "nonempty_list v = Some xs \<longleftrightarrow> v = PList xs \<and> xs \<noteq> []"
  by (cases v rule: nonempty_list.cases) auto

lemma update_refusal_confined: "update_refusal st args = Inr None \<Longrightarrow> confined_update st args"
  by (auto simp: update_refusal_def confined_update_def nonempty_list_Some update_files_confined
      split: if_splits option.splits)

lemma or_else_None: "or_else a b = Inr None \<longleftrightarrow> a = Inr None \<and> b = Inr None"
  by (auto simp: or_else_def bind_eq_Inr_iff split: option.splits)

lemma last_of_effect:
  assumes "call_effect env h h' name tool args mode" "history h' \<noteq> history h" "last (history h') = Sent t a m"
  shows "t = tool \<and> a = args \<and> admitted env h name tool args"
  using assms by cases (auto simp: same_memory_def counts_run_def asks_def)

text \<open>What the phase of a repair lets through: the next tool, and the file it may read.\<close>

definition confined_read :: "(string \<Rightarrow> string list option) \<Rightarrow> ExecutionState \<Rightarrow> pydict \<Rightarrow> bool" where
  "confined_read imports st args \<longleftrightarrow>
    (let test_phase = (es_repair_phase st \<in> {''not_started'', ''read_failing_test''});
         wanted = (if test_phase then Some (hd (es_failing_test_files st)) else infer_related_source_file imports st) in
     (test_phase \<longrightarrow> es_failing_test_files st \<noteq> [])
     \<and> (case wanted of
          Some (c # s) \<Rightarrow> (\<exists>path given. normalize_project_relative_path (project_of st) (c # s) = Inr path
            \<and> py_str (getd args ''relative_path'' (PStr [])) = Inr given \<and> normalize_pytest_path given = path)
        | _ \<Rightarrow> True))"

lemma read_refusal_confined:
  "read_refusal imports st args = Inr None \<Longrightarrow> confined_read imports st args"
  by (auto simp: read_refusal_def confined_read_def reads_failing_test_def expected_project_relative_path_def
      refuse_when_def Let_def bind_eq_Inr_iff split: if_splits option.splits list.splits)

text \<open>A tool that was sent is registered under a name with two underscores.\<close>

lemma sent_is_registered:
  assumes "handle_function_call env h name raw mode = Inr (h', out, executed)"
    and "history h' \<noteq> history h" "last (history h') = Sent t a m"
  shows "public_name t \<noteq> []"
  using assms(1)
proof (cases rule: handle_call_effect)
  case unchanged
  with assms(2) show ?thesis by (simp add: same_memory_def)
next
  case (called tool args given)
  with last_of_effect[OF called(3) assms(2,3)] registered_facts[OF called(1)] show ?thesis by auto
qed

text \<open>(C24) While the state of the host asks for the repair of failed tests, a call reaches a server
  only if it is the tool of the current repair phase: a read of files, then their update, then a
  test run. A read is of the first failing test, which must be known, or, in the next phase, of the
  related source, when one can be inferred. An update names the project under repair and at
  least one file, and touches only relative paths without \<open>..\<close>; when failing tests are known,
  only these. A test run is of the project under repair. (The state the host loads inside the
  testing subgraph never asks for a repair, see \<open>repair_guard_is_inactive\<close>.)\<close>

theorem repair_calls_are_confined:
  assumes "handle_function_call env h name raw mode = Inr (h', out, executed)"
    and "host_state h = Some st" "determine_next_action st = ''fix_failed_tests''"
    and "history h' \<noteq> history h" "last (history h') = Sent t a m"
  shows "if es_repair_phase st \<in> {''not_started'', ''read_failing_test'', ''read_related_source''}
    then public_name t = ''filesystem__read_file'' \<and> confined_read (py_imports env) st a
    else if es_repair_phase st = ''apply_fix''
    then public_name t = ''filesystem__update_project_files'' \<and> confined_update st a
    else es_repair_phase st = ''rerun_tests''
      \<and> public_name t = ''testing__run_tests'' \<and> \<not> project_conflict st a"
proof -
  from assms(1) obtain tool args where "call_effect env h h' name tool args mode"
    using assms(4) by (cases rule: handle_call_effect) (auto simp: same_memory_def)
  from last_of_effect[OF this assms(4,5)] have adm: "admitted env h name t a" by simp
  then have rep: "repair_refusal (py_imports env) st (public_name t) a = Inr None"
    using assms(2) by (simp add: admitted_def validate_call_against_state_def or_else_None)
  then have p: "public_name t = repair_phase_allowed_tool_name st"
    using assms(3) by (auto simp: repair_refusal_def Let_def split: if_splits)
  have "public_name t \<noteq> []" using sent_is_registered[OF assms(1,4,5)] .
  have r: "public_name t = ''filesystem__read_file'' \<Longrightarrow> read_refusal (py_imports env) st a = Inr None"
    "public_name t = ''filesystem__update_project_files'' \<Longrightarrow> update_refusal st a = Inr None"
    "public_name t = ''testing__run_tests'' \<Longrightarrow> run_refusal st a = Inr None"
    using rep assms(3) p[symmetric] by (simp_all add: repair_refusal_def Let_def)
  show ?thesis
    using p r \<open>public_name t \<noteq> []\<close> read_refusal_confined update_refusal_confined
    by (auto simp: repair_phase_allowed_tool_name_def run_refusal_def refuse_when_def split: if_splits)
qed

definition failing_state :: ExecutionState where
  "failing_state =
    (new_execution_state ''fix'' (Some ''demo'') ''create_project'')
      \<lparr>es_analysis_completed := True, es_tasks_created := True, es_workspace_inspected := True,
       es_project_created := True, es_created_project_name := Some ''demo'',
       es_detected_test_framework := Some ''pytest'', es_environment_prepared := True,
       es_tests_executed := True, es_repair_phase := ''apply_fix'',
       es_failing_test_files := [''tests/test_main.py'']\<rparr>"

definition update_files_tool :: RegisteredTool where
  "update_files_tool = \<lparr>public_name = ''filesystem__update_project_files'', original_name = ''update_project_files'',
     server_name = ''filesystem'', description = [],
     input_schema = [(''type'', PStr ''object''), (''properties'', PDict [])], requires_approval = True\<rparr>"

definition repair_env :: HostEnv where
  "repair_env = passing_env ''s''\<lparr>declarations := [\<lparr>decl_server = ''filesystem'',
     decl_name = ''update_project_files'', decl_description = [], decl_schema = []\<rparr>]\<rparr>"

definition repair_arguments :: pydict where
  "repair_arguments = [(''project_name'', PStr ''demo''),
     (''files'', PList [PDict [(''path'', PStr ''tests/test_main.py''), (''content'', PStr ''x'')]])]"

definition repair_host :: Host where
  "repair_host = new_host\<lparr>host_state := Some failing_state\<rparr>"

lemma repair_call_evaluated:
  "(case handle_function_call repair_env repair_host ''filesystem__update_project_files''
      (Inr (PDict repair_arguments)) AlreadyApproved of
      Inr (h, out, executed) \<Rightarrow> history h = [Sent update_files_tool repair_arguments AlreadyApproved]
    | Inl e \<Rightarrow> False)"
  "determine_next_action failing_state = ''fix_failed_tests''"
  by code_simp+

theorem repair_calls_are_confined_witness:
  "public_name update_files_tool = ''filesystem__update_project_files''
   \<and> confined_update failing_state repair_arguments"
proof -
  obtain h out executed where c: "handle_function_call repair_env repair_host
      ''filesystem__update_project_files'' (Inr (PDict repair_arguments)) AlreadyApproved = Inr (h, out, executed)"
    and hist: "history h = [Sent update_files_tool repair_arguments AlreadyApproved]"
    using repair_call_evaluated(1) by (auto split: sum.splits prod.splits)
  have st: "host_state repair_host = Some failing_state" "history repair_host = []"
    by (simp_all add: repair_host_def new_host_def)
  have "es_repair_phase failing_state = ''apply_fix''" by (simp add: failing_state_def)
  with repair_calls_are_confined[OF c st(1) repair_call_evaluated(2), of update_files_tool repair_arguments
      AlreadyApproved] hist st(2)
  show ?thesis by simp
qed

text \<open>A read that fails is taken for a read: when the server raises an error while the related
  source is read, the host still records the file as read and moves the repair on to the phase
  that changes files.\<close>

theorem failed_read_advances_repair:
  assumes "is_tool tool ''filesystem'' ''read_file''" "call_tool env (history h) tool args = Raised msg"
    and "host_state h = Some st" "es_repair_phase st = ''read_related_source''"
    and "getd args ''relative_path'' (PStr []) = PStr path"
  shows "\<exists>h' out st'. send_call env h tool args mode = Inr (h', out, requires_approval tool)
    \<and> get out ''transport_success'' = PBool False \<and> host_state h' = Some st'
    \<and> es_repair_phase st' = ''apply_fix'' \<and> normalize_pytest_path path \<in> set (es_files_read_during_repair st')"
proof -
  let ?p = "[(''success'', PBool False), (''status'', PStr ''mcp_error''), (''error'', PStr msg)]"
  let ?r = "local_execution_result ?p True"
  have tool: "server_name tool = ''filesystem''" "original_name tool = ''read_file''"
    using assms(1) by (simp_all add: is_tool_def)
  have rec: "reconcile_execution_result (host_state h) tool args ?r = Inr ?r"
    using tool by (simp add: reconcile_execution_result_def Let_def local_execution_result_def)
  have pay: "unwrap_business_payload (r_payload ?r) = Some ?p" "is_error ?r"
    by (simp_all add: local_execution_result_def unwrap_business_payload_def)
  define st0 where "st0 = mark_called tool True st"
  have ph0: "es_repair_phase st0 = ''read_related_source''"
    using assms(4) by (simp add: st0_def mark_called_def Let_def)
  obtain st1 where n: "note_failure tool ?p st0 = Inr st1" and ph1: "es_repair_phase st1 = ''read_related_source''"
    using ph0 by (cases "msg = []") (simp_all add: note_failure_def first_text_def Let_def)
  have "update_read_file (py_imports env) ?p args st1 = Inr (st1\<lparr>es_files_read_during_repair :=
      set_add (normalize_pytest_path path) (es_files_read_during_repair st1), es_repair_phase := ''apply_fix''\<rparr>)"
    using ph1 assms(5) by (simp add: update_read_file_def text_or_argument_def por_def Let_def)
  then have up: "update_execution_state (py_imports env) tool ?r args st = Inr (st1\<lparr>es_files_read_during_repair :=
      set_add (normalize_pytest_path path) (es_files_read_during_repair st1), es_repair_phase := ''apply_fix''\<rparr>)"
    using n tool by (simp add: update_execution_state_def pay st0_def[symmetric] when_tool_def is_tool_def)
  show ?thesis
    using assms(2,3) rec up
    by (simp add: send_call_settles settle_reply_def set_add_def) (simp add: local_execution_result_def)
qed

definition read_file_tool :: RegisteredTool where
  "read_file_tool = \<lparr>public_name = ''filesystem__read_file'', original_name = ''read_file'',
     server_name = ''filesystem'', description = [],
     input_schema = [(''type'', PStr ''object''), (''properties'', PDict [])], requires_approval = False\<rparr>"

theorem failed_read_advances_repair_witness:
  "\<exists>h' out st'. send_call (repair_env\<lparr>call_tool := \<lambda>_ _ _. Raised ''no such file''\<rparr>)
       (new_host\<lparr>host_state := Some (failing_state\<lparr>es_repair_phase := ''read_related_source''\<rparr>)\<rparr>)
       read_file_tool [(''relative_path'', PStr ''demo/main.py'')] Prompt
     = Inr (h', out, requires_approval read_file_tool)
     \<and> get out ''transport_success'' = PBool False \<and> host_state h' = Some st'
     \<and> es_repair_phase st' = ''apply_fix''
     \<and> normalize_pytest_path ''demo/main.py'' \<in> set (es_files_read_during_repair st')"
proof -
  have "is_tool read_file_tool ''filesystem'' ''read_file''" by code_simp
  from failed_read_advances_repair[OF this, of "repair_env\<lparr>call_tool := \<lambda>_ _ _. Raised ''no such file''\<rparr>"
      "new_host\<lparr>host_state := Some (failing_state\<lparr>es_repair_phase := ''read_related_source''\<rparr>)\<rparr>"
      "[(''relative_path'', PStr ''demo/main.py'')]" "''no such file''"
      "failing_state\<lparr>es_repair_phase := ''read_related_source''\<rparr>" "''demo/main.py''" Prompt]
  show ?thesis by simp
qed

section \<open>The order of the steps and the name of a package\<close>

text \<open>The host's next step, without a claim about what it is asked: tests are run only in a prepared
  environment with a known framework, and repaired only after they were run and failed.\<close>

lemma test_steps_are_ordered:
  assumes "determine_next_action st \<in> {''testing__run_tests'', ''fix_failed_tests''}"
  shows "(es_project_exists st \<or> es_project_created st) \<and> es_detected_test_framework st \<noteq> None
    \<and> es_environment_prepared st \<and> \<not> is_terminal_state st
    \<and> (determine_next_action st = ''fix_failed_tests'' \<longrightarrow> es_tests_executed st \<and> \<not> es_tests_passed st)"
  using assms by (auto simp: determine_next_action_def is_terminal_state_def split: if_splits)










lemma collapse_words: "list_all is_word s \<Longrightarrow> list_all is_word (collapse_underscores s)"
  by (induction s rule: collapse_underscores.induct) auto

lemma strip_by_words: "list_all q s \<Longrightarrow> list_all q (strip_by p s)"
  unfolding strip_by_def list_all_iff by (metis set_dropWhileD set_rev)

lemma keyword_suffix: "k \<in> set python_keywords \<Longrightarrow> k @ ''_'' \<notin> set python_keywords"
proof -
  have "list_all (\<lambda>k. k @ ''_'' \<notin> set python_keywords) python_keywords" by code_simp
  then show "k \<in> set python_keywords \<Longrightarrow> ?thesis" by (simp add: list_all_iff)
qed

lemma kept_by_dropWhile: "c \<in> set s \<Longrightarrow> \<not> p c \<Longrightarrow> c \<in> set (dropWhile p s)"
  by (induction s) auto

lemma kept_by_strip: "\<not> p c \<Longrightarrow> c \<in> set (strip_by p s) \<longleftrightarrow> c \<in> set s"
  unfolding strip_by_def by (metis kept_by_dropWhile set_dropWhileD set_rev)

lemma set_collapse: "set (collapse_underscores s) = set s"
  by (induction s rule: collapse_underscores.induct) auto

lemma strip_by_Nil: "strip_by p s = [] \<longleftrightarrow> list_all p s"
proof (cases "dropWhile p s")
  case Nil
  then have "strip_by p s = []" by (simp only: strip_by_def dropWhile.simps rev.simps)
  with Nil show ?thesis by (simp add: dropWhile_eq_Nil_conv list_all_iff)
next
  case (Cons a t)
  then have "\<not> p a" using hd_dropWhile[of p s] by simp
  moreover have "a \<in> set s" using Cons set_dropWhileD[of a p s] by simp
  ultimately show ?thesis using Cons by (auto simp: strip_by_def dropWhile_eq_Nil_conv list_all_iff)
qed

lemma underscore_class:
  "is_word (CHR ''_'')" "\<not> is_digit (CHR ''_'')" "\<not> is_alpha (CHR ''_'')" "\<not> is_space (CHR ''_'')"
  "\<not> is_alpha (CHR ''-'')" "\<not> is_digit (CHR ''-'')"
  by code_simp+

text \<open>What the two replacements make of a character.\<close>

definition package_char :: "char \<Rightarrow> char" where
  "package_char c =
    (let d = (if c = CHR ''-'' then CHR ''_'' else c) in if is_word d then d else CHR ''_'')"

lemma package_char_kept: "package_char c = CHR ''_'' \<longleftrightarrow> \<not> (is_alpha c \<or> is_digit c)"
proof (cases "c = CHR ''-'' \<or> c = CHR ''_''")
  case True
  then show ?thesis using underscore_class by (elim disjE) (simp_all add: package_char_def)
next
  case False
  then have "is_word c = (is_alpha c \<or> is_digit c)" by (simp add: is_word_def)
  with False show ?thesis by (cases "is_word c") (simp_all add: package_char_def)
qed

lemma package_chars:
  "map (\<lambda>c. if is_word c then c else CHR ''_'') (replace_char (CHR ''-'') (CHR ''_'') s) = map package_char s"
  by (induction s) (simp_all add: package_char_def Let_def)

text \<open>Every project name with a letter or a digit has a Python package, which is an identifier
  and not a keyword; a name without any has none, and the last check of the function, that the
  result is an identifier, never fails.\<close>

theorem package_name_is_importable:
  "if \<exists>c \<in> set name. is_alpha c \<or> is_digit c
   then \<exists>r. project_name_to_python_package name = Inr r \<and> is_identifier r \<and> r \<notin> set python_keywords
   else project_name_to_python_package name =
     Inl (ValueError ((''El nombre del proyecto no puede estar vac'' @ [CHR 0xED] @ ''o ni carecer de caracteres v'' @ [CHR 0xE1] @ ''lidos.'')))"
proof -
  define s where "s = map package_char (strip name)"
  define n where "n = strip_by (\<lambda>c. c = CHR ''_'') (collapse_underscores s)"
  define m where "m = (if is_digit (hd n) then CHR ''_'' # n else n)"
  define r where "r = (if m \<in> set python_keywords then m @ ''_'' else m)"
  have s_word: "is_word c" if "c \<in> set s" for c
    using that underscore_class(1) by (auto simp: s_def package_char_def Let_def)
  have w: "list_all is_word n"
    unfolding n_def using s_word by (intro strip_by_words collapse_words) (simp add: list_all_iff)
  have id: "is_identifier r" if "n \<noteq> []"
    using that w underscore_class by (auto simp: is_identifier_def m_def r_def hd_append)
  have kw: "r \<notin> set python_keywords" using keyword_suffix by (simp add: r_def)
  have ne: "n \<noteq> [] \<longleftrightarrow> (\<exists>c \<in> set name. is_alpha c \<or> is_digit c)"
  proof -
    have "n \<noteq> [] \<longleftrightarrow> (\<exists>c \<in> set s. c \<noteq> CHR ''_'')"
      by (auto simp: n_def strip_by_Nil list_all_iff set_collapse)
    also have "\<dots> \<longleftrightarrow> (\<exists>c \<in> set (strip name). is_alpha c \<or> is_digit c)"
      unfolding s_def set_map by (simp add: package_char_kept)
    also have "\<dots> \<longleftrightarrow> (\<exists>c \<in> set name. is_alpha c \<or> is_digit c)"
    proof -
      have "\<not> is_space c" if "is_alpha c \<or> is_digit c" for c
        using word_plain(1)[of c] that by (auto simp: is_word_def)
      then show ?thesis using kept_by_strip[of is_space] unfolding strip_def by blast
    qed
    finally show ?thesis .
  qed
  have "project_name_to_python_package name = (if n = []
      then Inl (ValueError ((''El nombre del proyecto no puede estar vac'' @ [CHR 0xED] @ ''o ni carecer de caracteres v'' @ [CHR 0xE1] @ ''lidos.'')))
      else Inr r)"
    unfolding project_name_to_python_package_def Let_def package_chars s_def[symmetric] n_def[symmetric]
      m_def[symmetric] r_def[symmetric]
    using id by simp
  with id kw ne show ?thesis by auto
qed

end
