(* ===== verification/ToolExecutor.thy ===== *)
theory ToolExecutor
  imports HostProps StateSchema
begin

text \<open>
  The executor of tools that the graph uses (tool_executor.py): it loads the host's execution
  state from the graph's state, lets the host handle the call, and returns the fields that
  changed. The interface a node relies on is the locale \<open>tool_executor\<close>; the host's executor
  is its instance.
\<close>

section \<open>Between the two states\<close>

fun to_str :: "pyval \<Rightarrow> exn + string" where
  "to_str (PStr s) = Inr s"
| "to_str _ = Inl Unmodelled"

fun to_bool :: "pyval \<Rightarrow> exn + bool" where
  "to_bool (PBool b) = Inr b"
| "to_bool _ = Inl Unmodelled"

fun to_int :: "pyval \<Rightarrow> exn + int" where
  "to_int (PInt i) = Inr i"
| "to_int _ = Inl Unmodelled"

fun to_strs :: "pyval \<Rightarrow> exn + string list" where
  "to_strs (PList xs) = mapm to_str xs"
| "to_strs _ = Inl Unmodelled"

definition to_str_set :: "pyval \<Rightarrow> exn + string list" where
  "to_str_set v = bind (to_strs v) (\<lambda>xs. Inr (dedupe xs))"

fun to_opt :: "(pyval \<Rightarrow> exn + 'a) \<Rightarrow> pyval \<Rightarrow> exn + 'a option" where
  "to_opt decode PNone = Inr None"
| "to_opt decode v = bind (decode v) (\<lambda>x. Inr (Some x))"

definition load ::
  "(pyval \<Rightarrow> exn + 'a) \<Rightarrow> string \<Rightarrow> ('a \<Rightarrow> ExecutionState \<Rightarrow> ExecutionState) \<Rightarrow> pydict \<Rightarrow>
   ExecutionState \<Rightarrow> exn + ExecutionState" where
  "load decode key put d st =
    (case map_of d key of None \<Rightarrow> Inr st | Some v \<Rightarrow> bind (decode v) (\<lambda>x. Inr (put x st)))"

fun run_loads ::
  "(pydict \<Rightarrow> ExecutionState \<Rightarrow> exn + ExecutionState) list \<Rightarrow> pydict \<Rightarrow> ExecutionState \<Rightarrow>
   exn + ExecutionState" where
  "run_loads [] d st = Inr st"
| "run_loads (l # ls) d st = bind (l d st) (run_loads ls d)"

text \<open>The fields that both states have; a value of another type than the declared one is not
  modelled.\<close>

definition loads_1 :: "(pydict \<Rightarrow> ExecutionState \<Rightarrow> exn + ExecutionState) list" where
  "loads_1 =
    [load to_str ''workflow_intent'' (\<lambda>x st. st\<lparr>es_workflow_intent := x\<rparr>),
     load to_bool ''analysis_completed'' (\<lambda>x st. st\<lparr>es_analysis_completed := x\<rparr>),
     load to_bool ''tasks_created'' (\<lambda>x st. st\<lparr>es_tasks_created := x\<rparr>),
     load to_bool ''workspace_inspected'' (\<lambda>x st. st\<lparr>es_workspace_inspected := x\<rparr>),
     load to_bool ''project_created'' (\<lambda>x st. st\<lparr>es_project_created := x\<rparr>),
     load to_bool ''project_exists'' (\<lambda>x st. st\<lparr>es_project_exists := x\<rparr>),
     load (to_opt to_str) ''created_project_name'' (\<lambda>x st. st\<lparr>es_created_project_name := x\<rparr>),
     load (to_opt to_str) ''detected_test_framework'' (\<lambda>x st. st\<lparr>es_detected_test_framework := x\<rparr>),
     load (to_opt to_strs) ''expected_test_command'' (\<lambda>x st. st\<lparr>es_expected_test_command := x\<rparr>),
     load to_bool ''environment_prepared'' (\<lambda>x st. st\<lparr>es_environment_prepared := x\<rparr>),
     load to_bool ''dependencies_installed'' (\<lambda>x st. st\<lparr>es_dependencies_installed := x\<rparr>),
     load (to_opt to_str) ''environment_python'' (\<lambda>x st. st\<lparr>es_environment_python := x\<rparr>),
     load (to_opt to_str) ''installed_fastapi_version'' (\<lambda>x st. st\<lparr>es_installed_fastapi_version := x\<rparr>),
     load (to_opt to_str) ''installed_starlette_version'' (\<lambda>x st. st\<lparr>es_installed_starlette_version := x\<rparr>),
     load to_bool ''tests_executed'' (\<lambda>x st. st\<lparr>es_tests_executed := x\<rparr>)]"

definition loads_2 :: "(pydict \<Rightarrow> ExecutionState \<Rightarrow> exn + ExecutionState) list" where
  "loads_2 =
    [load to_bool ''tests_passed'' (\<lambda>x st. st\<lparr>es_tests_passed := x\<rparr>),
     load to_bool ''test_infrastructure_failed'' (\<lambda>x st. st\<lparr>es_test_infrastructure_failed := x\<rparr>),
     load to_bool ''retry_limit_reached'' (\<lambda>x st. st\<lparr>es_retry_limit_reached := x\<rparr>),
     load to_bool ''user_cancelled'' (\<lambda>x st. st\<lparr>es_user_cancelled := x\<rparr>),
     load (to_opt to_str) ''terminal_status'' (\<lambda>x st. st\<lparr>es_terminal_status := x\<rparr>),
     load (to_opt to_int) ''test_warning_count'' (\<lambda>x st. st\<lparr>es_test_warning_count := x\<rparr>),
     load (to_opt to_strs) ''actual_test_command'' (\<lambda>x st. st\<lparr>es_actual_test_command := x\<rparr>),
     load (to_opt to_str) ''failure_type'' (\<lambda>x st. st\<lparr>es_failure_type := x\<rparr>),
     load (to_opt to_str) ''failure_stage'' (\<lambda>x st. st\<lparr>es_failure_stage := x\<rparr>),
     load (to_opt to_str) ''failure_message'' (\<lambda>x st. st\<lparr>es_failure_message := x\<rparr>),
     load (to_opt to_str) ''test_stdout'' (\<lambda>x st. st\<lparr>es_test_stdout := x\<rparr>),
     load (to_opt to_str) ''test_stderr'' (\<lambda>x st. st\<lparr>es_test_stderr := x\<rparr>),
     load (to_opt to_str) ''test_failure_summary'' (\<lambda>x st. st\<lparr>es_test_failure_summary := x\<rparr>),
     load to_str ''repair_phase'' (\<lambda>x st. st\<lparr>es_repair_phase := x\<rparr>),
     load to_int ''repair_attempts'' (\<lambda>x st. st\<lparr>es_repair_attempts := x\<rparr>)]"

definition loads_3 :: "(pydict \<Rightarrow> ExecutionState \<Rightarrow> exn + ExecutionState) list" where
  "loads_3 =
    [load (to_opt to_str) ''repair_decision'' (\<lambda>x st. st\<lparr>es_repair_decision := x\<rparr>),
     load (to_opt to_str) ''repair_before'' (\<lambda>x st. st\<lparr>es_repair_before := x\<rparr>),
     load (to_opt to_str) ''repair_after'' (\<lambda>x st. st\<lparr>es_repair_after := x\<rparr>),
     load to_strs ''failing_test_files'' (\<lambda>x st. st\<lparr>es_failing_test_files := x\<rparr>),
     load to_str_set ''files_read_during_repair'' (\<lambda>x st. st\<lparr>es_files_read_during_repair := x\<rparr>),
     load to_str_set ''files_updated_during_repair'' (\<lambda>x st. st\<lparr>es_files_updated_during_repair := x\<rparr>),
     load (to_opt to_str) ''first_test_result_summary'' (\<lambda>x st. st\<lparr>es_first_test_result_summary := x\<rparr>),
     load (to_opt to_str) ''final_test_result_summary'' (\<lambda>x st. st\<lparr>es_final_test_result_summary := x\<rparr>),
     load (to_opt to_str) ''failing_test_content'' (\<lambda>x st. st\<lparr>es_failing_test_content := x\<rparr>),
     load (to_opt to_str) ''related_source_content'' (\<lambda>x st. st\<lparr>es_related_source_content := x\<rparr>),
     load (to_opt to_str) ''related_source_file'' (\<lambda>x st. st\<lparr>es_related_source_file := x\<rparr>),
     load to_strs ''related_source_candidates'' (\<lambda>x st. st\<lparr>es_related_source_candidates := x\<rparr>),
     load to_int ''related_source_read_attempts'' (\<lambda>x st. st\<lparr>es_related_source_read_attempts := x\<rparr>)]"

definition execution_state_from_graph :: "pydict \<Rightarrow> exn + ExecutionState" where
  "execution_state_from_graph state =
    (if \<not> has_key state ''original_user_message'' then Inl TypeError
     else bind (to_str (get state ''original_user_message'')) (\<lambda>message.
       bind (to_opt to_str (get state ''project_name'')) (\<lambda>project.
       run_loads (loads_1 @ loads_2 @ loads_3) state (new_execution_state message project ''create_project''))))"

fun opt_int :: "int option \<Rightarrow> pyval" where
  "opt_int None = PNone"
| "opt_int (Some i) = PInt i"

fun opt_strs :: "string list option \<Rightarrow> pyval" where
  "opt_strs None = PNone"
| "opt_strs (Some xs) = pstrs xs"

definition values_1 :: "ExecutionState \<Rightarrow> pydict" where
  "values_1 st =
    [(''original_user_message'', PStr (es_original_user_message st)),
     (''workflow_intent'', PStr (es_workflow_intent st)),
     (''analysis_completed'', PBool (es_analysis_completed st)),
     (''tasks_created'', PBool (es_tasks_created st)),
     (''workspace_inspected'', PBool (es_workspace_inspected st)),
     (''project_created'', PBool (es_project_created st)),
     (''project_exists'', PBool (es_project_exists st)),
     (''created_project_name'', opt_str (es_created_project_name st)),
     (''detected_test_framework'', opt_str (es_detected_test_framework st)),
     (''expected_test_command'', opt_strs (es_expected_test_command st)),
     (''environment_prepared'', PBool (es_environment_prepared st)),
     (''dependencies_installed'', PBool (es_dependencies_installed st)),
     (''environment_python'', opt_str (es_environment_python st)),
     (''installed_fastapi_version'', opt_str (es_installed_fastapi_version st)),
     (''installed_starlette_version'', opt_str (es_installed_starlette_version st))]"

definition values_2 :: "ExecutionState \<Rightarrow> pydict" where
  "values_2 st =
    [(''tests_executed'', PBool (es_tests_executed st)),
     (''tests_passed'', PBool (es_tests_passed st)),
     (''test_infrastructure_failed'', PBool (es_test_infrastructure_failed st)),
     (''retry_limit_reached'', PBool (es_retry_limit_reached st)),
     (''user_cancelled'', PBool (es_user_cancelled st)),
     (''terminal_status'', opt_str (es_terminal_status st)),
     (''test_warning_count'', opt_int (es_test_warning_count st)),
     (''actual_test_command'', opt_strs (es_actual_test_command st)),
     (''failure_type'', opt_str (es_failure_type st)),
     (''failure_stage'', opt_str (es_failure_stage st)),
     (''failure_message'', opt_str (es_failure_message st)),
     (''test_stdout'', opt_str (es_test_stdout st)),
     (''test_stderr'', opt_str (es_test_stderr st)),
     (''test_failure_summary'', opt_str (es_test_failure_summary st)),
     (''repair_phase'', PStr (es_repair_phase st))]"

definition values_3 :: "ExecutionState \<Rightarrow> pydict" where
  "values_3 st =
    [(''repair_attempts'', PInt (es_repair_attempts st)),
     (''repair_decision'', opt_str (es_repair_decision st)),
     (''repair_before'', opt_str (es_repair_before st)),
     (''repair_after'', opt_str (es_repair_after st)),
     (''failing_test_files'', pstrs (es_failing_test_files st)),
     (''files_read_during_repair'', pstrs (sort (es_files_read_during_repair st))),
     (''files_updated_during_repair'', pstrs (sort (es_files_updated_during_repair st))),
     (''first_test_result_summary'', opt_str (es_first_test_result_summary st)),
     (''final_test_result_summary'', opt_str (es_final_test_result_summary st)),
     (''failing_test_content'', opt_str (es_failing_test_content st)),
     (''related_source_content'', opt_str (es_related_source_content st)),
     (''related_source_file'', opt_str (es_related_source_file st)),
     (''related_source_candidates'', pstrs (es_related_source_candidates st)),
     (''related_source_read_attempts'', PInt (es_related_source_read_attempts st))]"

definition graph_values_from_execution :: "ExecutionState \<Rightarrow> pydict" where
  "graph_values_from_execution st =
    (let values = AList.update ''project_name'' (opt_str (es_requested_project_name st))
           (values_1 st @ values_2 st @ values_3 st) in
     if es_user_cancelled st then AList.update ''terminal_status'' (PStr ''user_cancelled'') values
     else values)"

text \<open>The keys an execution can change.\<close>

definition EXECUTION_KEYS :: "string list" where
  "EXECUTION_KEYS =
    [''original_user_message'', ''workflow_intent'', ''analysis_completed'',
     ''tasks_created'', ''workspace_inspected'', ''project_created'', ''project_exists'',
     ''created_project_name'', ''detected_test_framework'', ''expected_test_command'',
     ''environment_prepared'', ''dependencies_installed'', ''environment_python'',
     ''installed_fastapi_version'', ''installed_starlette_version'', ''tests_executed'',
     ''tests_passed'', ''test_infrastructure_failed'', ''retry_limit_reached'',
     ''user_cancelled'', ''terminal_status'', ''test_warning_count'', ''actual_test_command'',
     ''failure_type'', ''failure_stage'', ''failure_message'', ''test_stdout'',
     ''test_stderr'', ''test_failure_summary'', ''repair_phase'', ''repair_attempts'',
     ''repair_decision'', ''repair_before'', ''repair_after'', ''failing_test_files'',
     ''files_read_during_repair'', ''files_updated_during_repair'',
     ''first_test_result_summary'', ''final_test_result_summary'', ''failing_test_content'',
     ''related_source_content'', ''related_source_file'', ''related_source_candidates'',
     ''related_source_read_attempts'', ''project_name'']"

section \<open>The executor\<close>

record ToolExecutionOutcome =
  o_public_tool_name :: string
  o_arguments :: pydict
  o_payload :: "pydict option"
  o_state_updates :: pydict
  o_executed_sensitive :: bool
  o_is_error :: bool

text \<open>The correlation of the current observability context.\<close>

record ObsContext =
  ctx_workflow_id :: "string option"
  ctx_branch_id :: "string option"
  ctx_agent :: "string option"
  ctx_trace_id :: "string option"
  ctx_span_id :: "string option"

definition with_knowledge_correlation :: "string \<Rightarrow> pydict \<Rightarrow> ObsContext \<Rightarrow> pydict" where
  "with_knowledge_correlation name arguments context =
    (if name \<noteq> ''knowledge__get_relevant_context'' then arguments
     else dmerge arguments (filter (\<lambda>(k, v). truthy v)
       [(''workflow_id'', opt_str (ctx_workflow_id context)),
        (''branch_id'', opt_str (ctx_branch_id context)),
        (''agent_name'', por (opt_str (ctx_agent context)) (PStr ''Developer'')),
        (''trace_id'', opt_str (ctx_trace_id context)),
        (''parent_span_id'', opt_str (ctx_span_id context))]))"

definition decode_payload :: "pydict \<Rightarrow> pydict option" where
  "decode_payload decoded = (case get decoded ''data'' of PDict d \<Rightarrow> Some d | _ \<Rightarrow> Some decoded)"

definition transport_failed :: "pydict \<Rightarrow> bool" where
  "transport_failed decoded \<longleftrightarrow> get decoded ''transport_success'' = PBool False"

definition changed_values :: "pydict \<Rightarrow> pydict \<Rightarrow> pydict" where
  "changed_values before_state after_values =
    filter (\<lambda>(key, v). \<not> py_eq (get before_state key) v) after_values"

text \<open>With observability there are two contexts: the current one and that of the tool's span.\<close>

definition host_execute ::
  "HostEnv \<Rightarrow> ObsContext list \<Rightarrow> Host \<Rightarrow> string \<Rightarrow> pydict \<Rightarrow> pydict \<Rightarrow> approval_mode \<Rightarrow>
   exn + (ToolExecutionOutcome \<times> Host)" where
  "host_execute env contexts h name arguments state mode =
    bind (execution_state_from_graph state) (\<lambda>st.
      let effective = foldl (with_knowledge_correlation name) arguments contexts in
    bind (handle_function_call env (h\<lparr>host_state := Some st\<rparr>) name (Inr (PDict effective)) mode)
      (\<lambda>(h', output, executed_sensitive).
    case host_state h' of
      None \<Rightarrow> Inl AttributeError
    | Some st' \<Rightarrow>
        Inr (\<lparr>o_public_tool_name = name, o_arguments = effective, o_payload = decode_payload output,
              o_state_updates = changed_values state (graph_values_from_execution st'),
              o_executed_sensitive = executed_sensitive, o_is_error = transport_failed output\<rparr>, h')))"

section \<open>The interface of the nodes\<close>

text \<open>The tools whose arguments the host rewrites before it sends them.\<close>

definition rewritten_tools :: "string list" where
  "rewritten_tools = [''knowledge__get_relevant_context'', ''filesystem__list_files'', ''filesystem__read_file'']"

text \<open>
  What a node relies on: an execution changes only fields of the execution state, and the calls
  it sends are of the named tool with the given arguments, a sensitive one only after a granted
  question or when the node vouches for the approval.
\<close>

type_synonym 'x executor =
  "'x \<Rightarrow> string \<Rightarrow> pydict \<Rightarrow> pydict \<Rightarrow> approval_mode \<Rightarrow> exn + (ToolExecutionOutcome \<times> 'x)"

definition sends_for ::
  "string \<Rightarrow> pydict \<Rightarrow> approval_mode \<Rightarrow> host_event list \<Rightarrow> bool" where
  "sends_for name args mode evs \<longleftrightarrow>
    evs = [] \<or> (\<exists>t a. public_name t = name \<and> (name \<notin> set rewritten_tools \<longrightarrow> a = args) \<and>
      (evs = [Asked t a False] \<or> evs = [Asked t a True, Sent t a mode]
       \<or> evs = [Sent t a mode] \<and> (requires_approval t \<longrightarrow> mode = AlreadyApproved)))"

locale tool_executor =
  fixes execute :: "'x executor"
    and events :: "'x \<Rightarrow> host_event list"
  assumes updates_in_keys:
      "execute x name args s mode = Inr (out, x') \<Longrightarrow> has_key (o_state_updates out) k
       \<Longrightarrow> k \<in> set EXECUTION_KEYS"
    and updates_ok: "execute x name args s mode = Inr (out, x') \<Longrightarrow> dict_ok (o_state_updates out)"
    and sends: "execute x name args s mode = Inr (out, x')
       \<Longrightarrow> \<exists>evs. events x' = events x @ evs \<and> sends_for name args mode evs"
begin

lemma keeps_key:
  "execute x name args s mode = Inr (out, x') \<Longrightarrow> k \<notin> set EXECUTION_KEYS
    \<Longrightarrow> get (dmerge s' (o_state_updates out)) k = get s' k"
  using updates_in_keys updates_ok by (simp add: get_dmerge) blast

lemma approved_sends_kept:
  assumes "execute x name args s Prompt = Inr (out, x')" "approved_sends (events x)"
  shows "approved_sends (events x')"
proof -
  obtain evs where x': "events x' = events x @ evs" and evs: "sends_for name args Prompt evs"
    using sends[OF assms(1)] by blast
  have two: "approved_sends (events x @ [Asked t a True, Sent t a Prompt])" for t a
    using assms(2) approved_sends_snoc[of "events x @ [Asked t a True]" "Sent t a Prompt"]
    by (simp add: approved_asked)
  from evs show ?thesis
    unfolding sends_for_def x' using assms(2) two
    by (auto simp: approved_asked approved_sends_snoc)
qed

end

section \<open>The host's executor is one\<close>

lemma keys_of_values:
  "map fst (values_1 st @ values_2 st @ values_3 st) = butlast EXECUTION_KEYS"
  by (simp add: values_1_def values_2_def values_3_def EXECUTION_KEYS_def)

lemma keys_of_graph_values:
  assumes "has_key (graph_values_from_execution st) k"
  shows "k \<in> set EXECUTION_KEYS"
proof -
  have "k \<in> set EXECUTION_KEYS" if "has_key (values_1 st @ values_2 st @ values_3 st) k"
    using that keys_of_values[of st] by (metis has_key_fst_set in_set_butlastD list.set_map)
  moreover have "''project_name'' \<in> set EXECUTION_KEYS" "''terminal_status'' \<in> set EXECUTION_KEYS"
    by code_simp+
  ultimately show ?thesis
    using assms by (auto simp: graph_values_from_execution_def Let_def split: if_splits)
qed

lemma graph_values_ok: "dict_ok (graph_values_from_execution st)"
proof -
  have "distinct (butlast EXECUTION_KEYS)" by code_simp
  then have "dict_ok (values_1 st @ values_2 st @ values_3 st)"
    by (simp add: dict_ok_def flip: keys_of_values[of st])
  then show ?thesis
    by (simp add: graph_values_from_execution_def Let_def dict_ok_update)
qed

lemma changed_keys: "has_key (changed_values s d) k \<Longrightarrow> has_key d k"
  by (auto simp: changed_values_def has_key_fst_set)

lemma changed_ok: "dict_ok d \<Longrightarrow> dict_ok (changed_values s d)"
  by (simp add: dict_ok_def changed_values_def distinct_map_filter)

lemma effect_sends:
  assumes "call_effect env h h' name tool args mode"
  shows "\<exists>evs. history h' = history h @ evs \<and>
    (evs = [] \<or> evs = [Asked tool args False] \<or> evs = [Asked tool args True, Sent tool args mode]
     \<or> evs = [Sent tool args mode] \<and> (requires_approval tool \<longrightarrow> mode = AlreadyApproved))"
  using assms by cases (auto simp: same_memory_def counts_run_def asks_def)

lemma handle_sends:
  assumes "handle_function_call env h name (Inr (PDict given)) mode = Inr (h', out, executed)"
    and "name \<noteq> ''filesystem__read_file''" "name \<noteq> ''filesystem__list_files''"
  shows "\<exists>evs. history h' = history h @ evs \<and> (evs = [] \<or> (\<exists>t. public_name t = name \<and>
      (evs = [Asked t given False] \<or> evs = [Asked t given True, Sent t given mode]
       \<or> evs = [Sent t given mode] \<and> (requires_approval t \<longrightarrow> mode = AlreadyApproved))))"
  using assms(1)
proof (cases rule: handle_call_effect)
  case unchanged
  then show ?thesis by (simp add: same_memory_def)
next
  case (called tool args given')
  note reg = registered_facts[OF called(1)]
  have "normalize_tool_arguments tool given = given"
    using assms(3) reg by (auto simp: normalize_tool_arguments_def)
  with called(2,4) assms(2) reg have "args = given" by simp
  with effect_sends[OF called(3)] reg show ?thesis by blast
qed

lemma handle_sends_any:
  assumes "handle_function_call env h name raw mode = Inr (h', out, executed)"
  shows "\<exists>evs. history h' = history h @ evs \<and> (evs = [] \<or> (\<exists>t a. public_name t = name \<and>
      (evs = [Asked t a False] \<or> evs = [Asked t a True, Sent t a mode]
       \<or> evs = [Sent t a mode] \<and> (requires_approval t \<longrightarrow> mode = AlreadyApproved))))"
  using assms(1)
proof (cases rule: handle_call_effect)
  case unchanged
  then show ?thesis by (simp add: same_memory_def)
next
  case (called tool args given)
  with effect_sends[OF called(3)] registered_facts[OF called(1)] show ?thesis by blast
qed

lemma uncorrelated: "name \<noteq> ''knowledge__get_relevant_context'' \<Longrightarrow>
    foldl (with_knowledge_correlation name) arguments contexts = arguments"
  by (induction contexts arbitrary: arguments) (auto simp: with_knowledge_correlation_def)

lemma host_execute_shape:
  assumes "host_execute env contexts h name args s mode = Inr (out, h')"
  obtains st st' res executed where
    "handle_function_call env (h\<lparr>host_state := Some st\<rparr>) name
       (Inr (PDict (foldl (with_knowledge_correlation name) args contexts))) mode = Inr (h', res, executed)"
    "execution_state_from_graph s = Inr st" "host_state h' = Some st'"
    "o_state_updates out = changed_values s (graph_values_from_execution st')"
    "o_payload out = decode_payload res" "o_is_error out = transport_failed res"
  using assms unfolding host_execute_def Let_def
  by (elim bind_InrE) (auto split: option.splits prod.splits)

interpretation host_executor: tool_executor "host_execute env contexts" history for env contexts
proof
  fix x x' :: Host and name :: string and args s :: pydict and mode and out and k
  assume e: "host_execute env contexts x name args s mode = Inr (out, x')"
  from e obtain st' where u: "o_state_updates out = changed_values s (graph_values_from_execution st')"
    by (rule host_execute_shape)
  show "k \<in> set EXECUTION_KEYS" if "has_key (o_state_updates out) k"
    using that u changed_keys keys_of_graph_values by metis
  show "dict_ok (o_state_updates out)" using u changed_ok graph_values_ok by simp
  obtain st res executed where
    c: "handle_function_call env (x\<lparr>host_state := Some st\<rparr>) name
       (Inr (PDict (foldl (with_knowledge_correlation name) args contexts))) mode = Inr (x', res, executed)"
    using e by (rule host_execute_shape)
  show "\<exists>evs. history x' = history x @ evs \<and> sends_for name args mode evs"
  proof (cases "name \<in> set rewritten_tools")
    case True
    with handle_sends_any[OF c] show ?thesis by (simp add: sends_for_def)
  next
    case False
    then have n: "name \<noteq> ''knowledge__get_relevant_context''" "name \<noteq> ''filesystem__read_file''"
      "name \<noteq> ''filesystem__list_files''" by (auto simp: rewritten_tools_def)
    have "handle_function_call env (x\<lparr>host_state := Some st\<rparr>) name (Inr (PDict args)) mode = Inr (x', res, executed)"
      using c uncorrelated[OF n(1)] by simp
    note handle_sends[OF this n(2,3)]
    then show ?thesis unfolding sends_for_def by auto
  qed
qed

end
