(* ===== verification/GraphNodes.thy ===== *)
theory GraphNodes
  imports ToolExecutor
begin

text \<open>
  The nodes of the graph (graph/nodes.py): every node reads the workflow state and returns the
  updates LangGraph merges into it. The executor of tools, the arguments the model produces, the
  answers of a person to an interrupt and the Python parser are the fields of
  \<open>GraphDependencies\<close>; the emission of events is left out. The last section models the summary
  and the terminal status of a workflow.
\<close>

section \<open>Dependencies\<close>

record 'x GraphDependencies =
  execute_tool :: "'x executor"
  argument_resolver :: "(string \<Rightarrow> pydict \<Rightarrow> exn + pydict) option"
  model_items :: "string \<Rightarrow> pydict \<Rightarrow> exn + (string \<times> (exn + pyval)) list"
  interrupt :: "pydict \<Rightarrow> pyval"
  imports_of :: "string \<Rightarrow> string list option"

definition state_for_model :: "pydict \<Rightarrow> pydict" where
  "state_for_model state = filter (\<lambda>(key, v). key \<notin> {''test_stdout'', ''test_stderr''}) state"

text \<open>The first function call of the response whose arguments are an object.\<close>

fun first_arguments :: "string \<Rightarrow> (string \<times> (exn + pyval)) list \<Rightarrow> exn + pydict" where
  "first_arguments name [] =
     Inl (RuntimeError (''OpenAI did not return arguments for '' @ name))"
| "first_arguments name ((kind, decoded) # items) =
     (if kind \<noteq> ''function_call'' then first_arguments name items
      else bind decoded (\<lambda>v. case v of PDict d \<Rightarrow> Inr d | _ \<Rightarrow> first_arguments name items))"

definition model_arguments :: "'x GraphDependencies \<Rightarrow> string \<Rightarrow> pydict \<Rightarrow> exn + pydict" where
  "model_arguments deps name state =
    (case argument_resolver deps of
       Some resolve \<Rightarrow> resolve name state
     | None \<Rightarrow> bind (model_items deps name (state_for_model state)) (first_arguments name))"

definition project_name_of :: "pydict \<Rightarrow> exn + string" where
  "project_name_of state =
    py_str (por (get state ''created_project_name'') (por (get state ''project_name'') (PStr [])))"

definition payload_of :: "ToolExecutionOutcome \<Rightarrow> pydict" where
  "payload_of out = (case o_payload out of Some p \<Rightarrow> p | None \<Rightarrow> [])"

section \<open>The stage of a tool\<close>

definition NODE_TOOL_STAGES :: "(string \<times> string) list" where
  "NODE_TOOL_STAGES =
    [(''analyze_requirement'', ''planning''), (''prepare_planner_knowledge'', ''planning''),
     (''create_tasks'', ''planning''), (''inspect_workspace'', ''inspect_workspace''),
     (''prepare_developer_knowledge'', ''implementation''), (''create_project'', ''implementation''),
     (''execute_create_project'', ''implementation''), (''detect_test_framework'', ''implementation''),
     (''prepare_environment'', ''implementation''), (''execute_prepare_environment'', ''implementation''),
     (''prepare_qa_knowledge'', ''testing_repair''), (''prepare_repair_knowledge'', ''testing_repair''),
     (''run_tests'', ''testing_repair''), (''execute_tests'', ''testing_repair''),
     (''read_failing_test'', ''testing_repair''), (''read_related_source'', ''testing_repair''),
     (''apply_fix'', ''testing_repair''), (''execute_fix'', ''testing_repair'')]"

definition OPERATION_TOOL_STAGES :: "(string \<times> string) list" where
  "OPERATION_TOOL_STAGES =
    [(''create_project'', ''implementation''), (''prepare_environment'', ''implementation''),
     (''run_tests'', ''testing_repair''), (''apply_fix'', ''testing_repair'')]"

definition TOOL_STAGES :: "(string \<times> string) list" where
  "TOOL_STAGES =
    [(''software_factory__analyze_requirement'', ''planning''), (''software_factory__create_tasks'', ''planning''),
     (''filesystem__list_files'', ''inspect_workspace''), (''knowledge__get_relevant_context'', ''implementation''),
     (''filesystem__create_project_structure'', ''implementation''),
     (''testing__detect_test_framework'', ''implementation''),
     (''testing__prepare_test_environment'', ''implementation''), (''testing__run_tests'', ''testing_repair''),
     (''filesystem__read_file'', ''testing_repair''), (''filesystem__update_project_files'', ''testing_repair'')]"

definition resolve_tool_stage ::
  "string option \<Rightarrow> string option \<Rightarrow> string \<Rightarrow> pydict \<Rightarrow> string option" where
  "resolve_tool_stage node_name operation tool_name state =
    (case Option.bind node_name (map_of NODE_TOOL_STAGES) of
       Some stage \<Rightarrow> Some stage
     | None \<Rightarrow>
         let by_operation =
               (case por (case operation of Some op \<Rightarrow> PStr op | None \<Rightarrow> PNone) (get state ''pending_operation'') of
                  PStr op \<Rightarrow> (case map_of OPERATION_TOOL_STAGES op of
                                Some stage \<Rightarrow> Some stage | None \<Rightarrow> map_of TOOL_STAGES tool_name)
                | _ \<Rightarrow> map_of TOOL_STAGES tool_name) in
         (case por (get state ''active_subgraph'') (get state ''checkpoint_namespace'') of
            PStr namespace \<Rightarrow>
              let root = hd (split_on (CHR '':'') namespace) in
              if root \<in> {''planning'', ''implementation'', ''testing_repair''} then Some root
              else by_operation
          | _ \<Rightarrow> by_operation))"

section \<open>Approval of an operation\<close>

fun preview_files :: "pyval list \<Rightarrow> exn + pyval list" where
  "preview_files [] = Inr []"
| "preview_files (PDict f # files) =
     bind (py_str (getd f ''content'' (PStr []))) (\<lambda>content.
     bind (py_str (getd f ''path'' (PStr []))) (\<lambda>path.
     bind (preview_files files) (\<lambda>rest.
     Inr (PDict [(''path'', PStr path), (''size_bytes'', PInt (utf8_size content))] # rest))))"
| "preview_files (f # files) = preview_files files"

definition file_preview :: "pydict \<Rightarrow> exn + pydict" where
  "file_preview arguments =
    (case get arguments ''files'' of
       PList files \<Rightarrow> bind (preview_files files) (\<lambda>previews.
         Inr [(''files'', PList previews), (''total_files'', PInt (int (length previews)))])
     | _ \<Rightarrow> Inr [])"

definition quote_re :: re where
  "quote_re = Cls (\<lambda>c. c = CHR 0x22 \<or> c = CHR 0x27)"

definition status_change_re :: re where
  "status_change_re =
    seq [quote_re, lit ''status'', quote_re, Star (Cls is_space), lit '':'', Star (Cls is_space),
         quote_re, plus (Cls (\<lambda>c. c \<noteq> CHR 0x22 \<and> c \<noteq> CHR 0x27)), quote_re]"

fun status_change :: "pyval list \<Rightarrow> string option" where
  "status_change [] = None"
| "status_change (PDict f # files) =
     (case get f ''content'' of
        PStr content \<Rightarrow> (case re_search status_change_re content of
                           Some m \<Rightarrow> Some (m_text m) | None \<Rightarrow> status_change files)
      | _ \<Rightarrow> status_change files)"
| "status_change (f # files) = status_change files"

definition prepared_status_change :: "pydict \<Rightarrow> string option" where
  "prepared_status_change arguments =
    (case get arguments ''files'' of PList files \<Rightarrow> status_change files | _ \<Rightarrow> None)"

definition pending_approval :: "string \<Rightarrow> string \<Rightarrow> pydict \<Rightarrow> pydict \<Rightarrow> pydict" where
  "pending_approval operation tool_name arguments preview =
    [(''pending_operation'', PStr operation), (''pending_tool_name'', PStr tool_name),
     (''pending_tool_arguments'', PDict arguments), (''pending_approval_preview'', PDict preview),
     (''pending_approval_status'', PStr ''waiting''), (''approval_reason'', PNone)]"

definition cleared_approval :: pydict where
  "cleared_approval =
    [(''pending_operation'', PNone), (''pending_tool_name'', PNone), (''pending_tool_arguments'', PNone),
     (''pending_approval_preview'', PNone), (''pending_approval_status'', PStr ''none'')]"

definition approved_pending_tool :: "pydict \<Rightarrow> exn + (string \<times> pydict)" where
  "approved_pending_tool state =
    (let not_ready = Inl (RuntimeError (''No existe una operaci'' @ [CHR 0xF3] @ ''n aprobada lista para ejecutar.'')) in
     if get state ''pending_approval_status'' \<noteq> PStr ''approved''
        \<or> \<not> truthy (get state ''pending_tool_name'')
     then not_ready
     else (case get state ''pending_tool_arguments'' of
             PDict arguments \<Rightarrow> (case get state ''pending_tool_name'' of
                                   PStr name \<Rightarrow> Inr (name, arguments) | _ \<Rightarrow> Inl Unmodelled)
           | _ \<Rightarrow> not_ready))"

section \<open>Nodes that call a tool\<close>

type_synonym 'x node = "'x GraphDependencies \<Rightarrow> 'x \<Rightarrow> pydict \<Rightarrow> exn + (pydict \<times> 'x)"

text \<open>The nodes that return the updates of one prompted call.\<close>

definition call_node :: "'x GraphDependencies \<Rightarrow> 'x \<Rightarrow> string \<Rightarrow> pydict \<Rightarrow> pydict \<Rightarrow> exn + (pydict \<times> 'x)" where
  "call_node deps x name arguments state =
    bind (execute_tool deps x name arguments state Prompt) (\<lambda>(out, x'). Inr (o_state_updates out, x'))"

definition detect_intent_node :: "'x node" where
  "detect_intent_node deps x state =
    (case getd state ''original_user_message'' (PStr []) of
       PStr message \<Rightarrow>
         let project = extract_requested_project_name message in
         Inr ([(''project_name'', opt_str project),
               (''workflow_intent'', PStr (extract_workflow_intent message project))], x)
     | _ \<Rightarrow> Inl TypeError)"

definition analyze_requirement_node :: "'x node" where
  "analyze_requirement_node deps x state =
    call_node deps x ''software_factory__analyze_requirement''
      [(''requirement'', getd state ''original_user_message'' (PStr []))] state"

definition create_tasks_node :: "'x node" where
  "create_tasks_node deps x state =
    (case getd state ''original_user_message'' (PStr []) of
       PStr message \<Rightarrow>
         let backend = (if contains (casefold message) ''dotnet'' then ''dotnet''
                        else if contains (casefold message) ''node'' then ''node'' else ''fastapi'') in
         call_node deps x ''software_factory__create_tasks''
           [(''project_type'', PStr message), (''backend'', PStr backend)] state
     | _ \<Rightarrow> Inl AttributeError)"

definition inspect_workspace_node :: "'x node" where
  "inspect_workspace_node deps x state =
    call_node deps x ''filesystem__list_files'' [(''relative_path'', PStr ''.'')] state"

definition create_project_node :: "'x node" where
  "create_project_node deps x state =
    bind (model_arguments deps ''filesystem__create_project_structure'' state) (\<lambda>arguments.
    call_node deps x ''filesystem__create_project_structure'' arguments state)"

definition project_call_node :: "string \<Rightarrow> 'x node" where
  "project_call_node name deps x state =
    bind (project_name_of state) (\<lambda>project.
    call_node deps x name [(''project_name'', PStr project)] state)"

definition detect_test_framework_node :: "'x node" where
  "detect_test_framework_node = project_call_node ''testing__detect_test_framework''"

definition prepare_environment_node :: "'x node" where
  "prepare_environment_node = project_call_node ''testing__prepare_test_environment''"

definition run_tests_node :: "'x node" where
  "run_tests_node = project_call_node ''testing__run_tests''"

definition apply_fix_node :: "'x node" where
  "apply_fix_node deps x state =
    bind (model_arguments deps ''filesystem__update_project_files'' state) (\<lambda>arguments.
    call_node deps x ''filesystem__update_project_files'' arguments state)"

section \<open>Nodes that prepare an approval\<close>

definition prepare_create_project_node :: "'x node" where
  "prepare_create_project_node deps x state =
    bind (model_arguments deps ''filesystem__create_project_structure'' state) (\<lambda>arguments.
    bind (file_preview arguments) (\<lambda>files.
    Inr (pending_approval ''create_project'' ''filesystem__create_project_structure'' arguments
           (dmerge [(''project_name'', get arguments ''project_name'')] files), x)))"

definition prepare_environment_request_node :: "'x node" where
  "prepare_environment_request_node deps x state =
    bind (project_name_of state) (\<lambda>project.
    Inr (pending_approval ''prepare_environment'' ''testing__prepare_test_environment''
           [(''project_name'', PStr project)] [(''project_name'', PStr project)], x))"

definition prepare_test_request_node :: "'x node" where
  "prepare_test_request_node deps x state =
    bind (project_name_of state) (\<lambda>project.
    Inr (pending_approval ''run_tests'' ''testing__run_tests'' [(''project_name'', PStr project)]
           [(''project_name'', PStr project), (''expected_command'', get state ''expected_test_command'')], x))"

definition missing_fix_context :: "pydict \<Rightarrow> string list" where
  "missing_fix_context state =
    map fst (filter (\<lambda>(name, v). \<not> truthy v)
      [(''failing test'', get state ''failing_test_content''),
       (''related source'', get state ''related_source_content''),
       (''failure message'', por (get state ''failure_message'') (get state ''test_failure_summary'')),
       (''original requirement'', get state ''original_user_message'')])
    @ (if get state ''repair_phase'' = PStr ''apply_fix'' then [] else [''repair_phase=apply_fix''])"

text \<open>\<open>x or ""\<close> for a text.\<close>

definition text_or_empty :: "pyval \<Rightarrow> exn + string" where
  "text_or_empty v =
    (if \<not> truthy v then Inr [] else case v of PStr s \<Rightarrow> Inr s | _ \<Rightarrow> Inl Unmodelled)"

definition prepare_fix_node :: "'x node" where
  "prepare_fix_node deps x state =
    (let missing = missing_fix_context state in
     if missing \<noteq> []
     then Inr ([(''failure_type'', PStr ''repair_context_incomplete''), (''failure_stage'', PStr ''prepare_fix''),
                (''failure_message'', PStr ((''Contexto de reparaci'' @ [CHR 0xF3] @ ''n incompleto: '') @ join '', '' missing @ ''.''))], x)
     else bind (model_arguments deps ''filesystem__update_project_files'' state) (\<lambda>arguments.
       bind (file_preview arguments) (\<lambda>files.
       bind (if truthy (get state ''repair_before'') then Inr []
             else text_or_empty (get state ''test_failure_summary'')) (\<lambda>summary.
       Inr (pending_approval ''apply_fix'' ''filesystem__update_project_files'' arguments
         (dmerge (dmerge [(''project_name'', get arguments ''project_name'')] files)
           [(''before'', por (get state ''repair_before'')
               (if contains summary ''healthy'' then PStr (status_pair (CHR 0x22) ''healthy'') else PNone)),
            (''after'', por (get state ''repair_after'') (opt_str (prepared_status_change arguments)))]), x)))))"

section \<open>The approval\<close>

definition approval_request :: "pydict \<Rightarrow> string \<Rightarrow> pydict" where
  "approval_request state project =
    [(''type'', PStr ''tool_approval''), (''operation'', get state ''pending_operation''),
     (''public_tool_name'', get state ''pending_tool_name''), (''arguments'', get state ''pending_tool_arguments''),
     (''preview'', get state ''pending_approval_preview''), (''project_name'', PStr project),
     (''message'', PStr (''Aprueba o rechaza la operaci'' @ [CHR 0xF3] @ ''n sensible para continuar el workflow.''))]"

fun approved_flag :: "pyval \<Rightarrow> bool option" where
  "approved_flag (PDict d) = (case get d ''approved'' of PBool b \<Rightarrow> Some b | _ \<Rightarrow> None)"
| "approved_flag _ = None"

definition reason_of :: "pyval \<Rightarrow> pyval" where
  "reason_of decision = get (mapping_of decision) ''reason''"

definition first_decision_ok :: "pyval \<Rightarrow> bool" where
  "first_decision_ok decision \<longleftrightarrow>
    approved_flag decision \<noteq> None \<and> (reason_of decision = PNone \<or> is_str (reason_of decision))"

definition approval_updates :: "pydict \<Rightarrow> pyval \<Rightarrow> pydict" where
  "approval_updates state decision =
    (let reason = (if is_str (reason_of decision) then reason_of decision else PNone) in
     case approved_flag decision of
       None \<Rightarrow>
         [(''pending_approval_status'', PStr ''rejected''), (''user_cancelled'', PBool True),
          (''terminal_status'', PStr ''user_cancelled''), (''failure_type'', PStr ''invalid_approval_response''),
          (''failure_message'', PStr (''La respuesta de aprobaci'' @ [CHR 0xF3] @ ''n no fue v'' @ [CHR 0xE1] @ ''lida.''))]
     | Some True \<Rightarrow>
         [(''pending_approval_status'', PStr ''approved''), (''approval_reason'', reason),
          (''last_approved_tool'', get state ''pending_tool_name'')]
     | Some False \<Rightarrow>
         [(''pending_operation'', PNone), (''pending_tool_name'', PNone), (''pending_tool_arguments'', PNone),
          (''pending_approval_preview'', PNone), (''pending_approval_status'', PStr ''rejected''),
          (''approval_reason'', reason), (''last_rejected_tool'', get state ''pending_tool_name''),
          (''user_cancelled'', PBool True), (''terminal_status'', PStr ''user_cancelled''),
          (''failure_type'', PStr ''user_rejected''),
          (''failure_message'', por reason (PStr (''El usuario rechaz'' @ [CHR 0xF3] @ '' la operaci'' @ [CHR 0xF3] @ ''n sensible.'')))])"

text \<open>The request as it is shown a second time, after an answer of another shape.\<close>

abbreviation asked_again :: "pydict \<Rightarrow> pydict" where
  "asked_again request \<equiv> request @ [(''validation_error'',
     PStr (''Responde con {'' @ [CHR 0x27] @ ''approved'' @ [CHR 0x27] @ '': bool, '' @ [CHR 0x27]
       @ ''reason'' @ [CHR 0x27] @ '': str | null}.''))]"

definition approval_node :: "'x node" where
  "approval_node deps x state =
    bind (project_name_of state) (\<lambda>project.
      let request = approval_request state project;
          first = interrupt deps request;
          decision = (if first_decision_ok first then first else interrupt deps (asked_again request)) in
      Inr (approval_updates state decision, x))"

section \<open>Nodes that execute an approved operation\<close>

text \<open>The approved call, with the node vouching for the approval.\<close>

definition execute_approved_call ::
  "'x GraphDependencies \<Rightarrow> 'x \<Rightarrow> pydict \<Rightarrow> exn + (pydict \<times> ToolExecutionOutcome \<times> 'x)" where
  "execute_approved_call deps x state =
    bind (approved_pending_tool state) (\<lambda>(name, arguments).
    bind (execute_tool deps x name arguments state AlreadyApproved) (\<lambda>(out, x').
    Inr (arguments, out, x')))"

definition generated_paths :: "pyval list \<Rightarrow> exn + string list" where
  "generated_paths files =
    mapm (\<lambda>f. py_str (get (mapping_of f) ''path''))
      (filter (\<lambda>f. is_dict f \<and> truthy (get (mapping_of f) ''path'')) files)"

definition create_project_updates :: "pydict \<Rightarrow> ToolExecutionOutcome \<Rightarrow> exn + pydict" where
  "create_project_updates arguments out =
    (let payload = payload_of out in
     if o_is_error out \<or> get payload ''success'' \<noteq> PBool True
     then bind (first_text payload [''message'', ''error'', ''status''] ''create_project_failed'') (\<lambda>message.
          bind (first_text payload [''status''] ''create_project_failed'') (\<lambda>failure_type.
          Inr (dmerge cleared_approval
            [(''terminal_status'', PStr ''implementation_failed''), (''failure_type'', PStr failure_type),
             (''failure_stage'', PStr ''execute_create_project''), (''failure_message'', PStr message),
             (''implementation_failure_reason'', PStr message)])))
     else bind (as_list (getd arguments ''files'' (PList []))) (\<lambda>files.
          bind (generated_paths files) (\<lambda>paths.
          bind (py_str (por (get payload ''project_name'') (por (get arguments ''project_name'') (PStr []))))
            (\<lambda>created.
          Inr (dmerge (dmerge (o_state_updates out) cleared_approval)
            [(''project_created'', PBool True), (''created_project_name'', PStr created),
             (''generated_files'', pstrs paths)])))))"

definition execute_create_project_node :: "'x node" where
  "execute_create_project_node deps x state =
    bind (execute_approved_call deps x state) (\<lambda>(arguments, out, x').
    bind (create_project_updates arguments out) (\<lambda>updates. Inr (updates, x')))"

definition prepare_environment_updates :: "ToolExecutionOutcome \<Rightarrow> exn + pydict" where
  "prepare_environment_updates out =
    (let payload = payload_of out;
         updates = dmerge (o_state_updates out) cleared_approval in
     if \<not> (o_is_error out \<or> get payload ''success'' = PBool False) then Inr updates
     else bind (first_text payload [''failure_type'', ''status''] ''prepare_environment_failed'') (\<lambda>failure_type.
          bind (first_text payload [''message'', ''error'', ''status''] (''La preparaci'' @ [CHR 0xF3] @ ''n del entorno fall'' @ [CHR 0xF3] @ ''.'')) (\<lambda>message.
          bind (first_text payload [''failure_stage''] ''prepare_test_environment'') (\<lambda>stage.
          Inr (dmerge updates
            [(''test_infrastructure_failed'', PBool True), (''terminal_status'', PStr ''infrastructure_failed''),
             (''failure_type'', PStr failure_type), (''failure_stage'', PStr stage),
             (''failure_message'', PStr message), (''implementation_failure_reason'', PStr message)])))))"

definition execute_prepare_environment_node :: "'x node" where
  "execute_prepare_environment_node deps x state =
    bind (execute_approved_call deps x state) (\<lambda>(arguments, out, x').
    bind (prepare_environment_updates out) (\<lambda>updates. Inr (updates, x')))"

definition execute_approved :: "'x node" where
  "execute_approved deps x state =
    bind (execute_approved_call deps x state) (\<lambda>(arguments, out, x').
    Inr (dmerge (o_state_updates out) cleared_approval, x'))"

definition reset_related_source :: "pydict \<Rightarrow> pydict" where
  "reset_related_source updates =
    (if get updates ''tests_passed'' = PBool False \<and> get updates ''repair_phase'' = PStr ''read_failing_test''
     then dmerge updates
       [(''related_source_content'', PNone), (''related_source_file'', PNone),
        (''related_source_candidates'', PList []), (''related_source_read_attempts'', PInt 0)]
     else updates)"

definition execute_tests_node :: "'x node" where
  "execute_tests_node deps x state =
    bind (execute_approved deps x state) (\<lambda>(updates, x'). Inr (reset_related_source updates, x'))"

definition fix_updates :: "ToolExecutionOutcome \<Rightarrow> exn + pydict" where
  "fix_updates out =
    (let payload = payload_of out in
     if o_is_error out \<or> get payload ''success'' \<noteq> PBool True
     then bind (first_text payload [''status'', ''failure_type''] ''update_project_files_failed'') (\<lambda>status.
          bind (first_text payload [''message'', ''error''] status) (\<lambda>message.
          Inr (dmerge cleared_approval
            [(''failure_type'', PStr (if status = ''repair_step_not_allowed''
                then ''repair_state_guard_rejected'' else status)),
             (''failure_stage'', PStr ''execute_fix''), (''failure_message'', PStr message)])))
     else Inr (dmerge (o_state_updates out) cleared_approval))"

definition execute_fix_node :: "'x node" where
  "execute_fix_node deps x state =
    bind (execute_approved_call deps x state) (\<lambda>(arguments, out, x').
    bind (fix_updates out) (\<lambda>updates. Inr (updates, x')))"

section \<open>Nodes that read files for a repair\<close>

definition reading_failed :: "ToolExecutionOutcome \<Rightarrow> bool" where
  "reading_failed out \<longleftrightarrow> o_is_error out \<or> get (payload_of out) ''success'' = PBool False
     \<or> \<not> is_str (get (payload_of out) ''content'')"

definition as_path :: "pyval \<Rightarrow> exn + string" where
  "as_path v = (case v of PStr s \<Rightarrow> Inr s | _ \<Rightarrow> Inl AttributeError)"

definition read_failing_test_node :: "'x node" where
  "read_failing_test_node deps x state =
    (let files = getd state ''failing_test_files'' (PList []) in
     if \<not> truthy files
     then Inr ([(''retry_limit_reached'', PBool True), (''failure_type'', PStr ''missing_failing_test_file''),
                (''failure_stage'', PStr ''read_failing_test''),
                (''failure_message'', PStr ''No se pudo identificar el test fallido.'')], x)
     else
       bind (case files of PList (f # _) \<Rightarrow> as_path f | _ \<Rightarrow> Inl Unmodelled) (\<lambda>file_path.
       bind (project_name_of state) (\<lambda>project.
       bind (normalize_project_relative_path project file_path) (\<lambda>relative_path.
       bind (execute_tool deps x ''filesystem__read_file'' [(''relative_path'', PStr relative_path)] state Prompt)
         (\<lambda>(out, x').
       if reading_failed out
       then bind (first_text (payload_of out) [''message'', ''error''] ''No se pudo leer el test fallido.'') (\<lambda>message.
         Inr ([(''failure_type'', PStr ''failing_test_read_failed''), (''failure_stage'', PStr ''read_failing_test''),
               (''failure_message'', PStr message), (''repair_phase'', PStr ''read_failing_test'')], x'))
       else Inr (dmerge (o_state_updates out)
              [(''failing_test_content'', get (payload_of out) ''content''),
               (''repair_phase'', PStr ''read_related_source'')], x'))))))"

definition related_source_candidates :: "(string \<Rightarrow> string list option) \<Rightarrow> pydict \<Rightarrow> exn + pyval list" where
  "related_source_candidates imports state =
    (if truthy (get state ''related_source_candidates'') then as_list (get state ''related_source_candidates'')
     else bind (project_name_of state) (\<lambda>project.
          bind (project_name_to_python_package project) (\<lambda>package.
          bind (text_or_empty (get state ''failing_test_content'')) (\<lambda>content.
          let fallback = package @ ''/main.py'' in
          Inr (map PStr (dedupe
            (case extract_related_source_path_from_test imports content of
               Some (c # path) \<Rightarrow> [c # path, fallback] | _ \<Rightarrow> [fallback])))))))"

definition source_failure :: "string \<Rightarrow> string \<Rightarrow> pydict" where
  "source_failure failure_type message =
    [(''failure_type'', PStr failure_type), (''failure_stage'', PStr ''read_related_source''),
     (''failure_message'', PStr message), (''repair_phase'', PStr ''read_related_source'')]"

text \<open>An integer attribute that is compared and counted.\<close>

fun as_count :: "pyval \<Rightarrow> exn + int" where
  "as_count (PInt i) = Inr i"
| "as_count (PBool b) = Inr (if b then 1 else 0)"
| "as_count (PFloat r) = Inl Unmodelled"
| "as_count _ = Inl TypeError"

text \<open>\<open>candidates[attempt]\<close>: a negative index counts from the end.\<close>

definition index_list :: "'a list \<Rightarrow> int \<Rightarrow> exn + 'a" where
  "index_list xs i =
    (let j = (if i < 0 then i + int (length xs) else i) in
     if 0 \<le> j \<and> j < int (length xs) then Inr (xs ! nat j) else Inl (KeyError ''index''))"

definition read_source ::
  "'x GraphDependencies \<Rightarrow> 'x \<Rightarrow> pydict \<Rightarrow> pyval list \<Rightarrow> int \<Rightarrow> exn + (pydict \<times> 'x)" where
  "read_source deps x state candidates attempt =
    bind (index_list candidates attempt) (\<lambda>candidate.
    bind (as_path candidate) (\<lambda>source.
    bind (project_name_of state) (\<lambda>project.
    bind (normalize_project_relative_path project source) (\<lambda>relative_path.
    bind (execute_tool deps x ''filesystem__read_file'' [(''relative_path'', PStr relative_path)] state Prompt)
      (\<lambda>(out, x').
    let common = [(''related_source_file'', PStr relative_path),
                  (''related_source_candidates'', PList candidates),
                  (''related_source_read_attempts'', PInt (attempt + 1))] in
    if reading_failed out
    then bind (first_text (payload_of out) [''message'', ''error''] ''No se pudo leer la fuente relacionada.'') (\<lambda>message.
      Inr (common @ source_failure ''related_source_read_failed'' message, x'))
    else Inr (dmerge (dmerge (o_state_updates out) common)
           [(''related_source_content'', get (payload_of out) ''content''), (''repair_phase'', PStr ''apply_fix''),
            (''failure_type'', PNone), (''failure_stage'', PNone),
            (''failure_message'', get state ''test_failure_summary'')], x'))))))"

definition read_related_source_node :: "'x node" where
  "read_related_source_node deps x state =
    (case related_source_candidates (imports_of deps) state of
       Inl (ValueError message) \<Rightarrow> Inr (source_failure ''related_source_resolution_failed'' message, x)
     | Inl e \<Rightarrow> Inl e
     | Inr candidates \<Rightarrow>
         bind (as_count (getd state ''related_source_read_attempts'' (PInt 0))) (\<lambda>attempt.
         if attempt \<ge> int (length candidates)
         then Inr (source_failure ''related_source_read_failed''
                     ''No queda una ruta segura para leer la fuente relacionada.''
                   @ [(''related_source_candidates'', PList candidates)], x)
         else read_source deps x state candidates attempt))"

section \<open>The end of a workflow\<close>

text \<open>\<open>bool(d.get(key)) if key in d else bool(state.get(key))\<close>, as a value.\<close>

definition own_or_state :: "pydict \<Rightarrow> pydict \<Rightarrow> string \<Rightarrow> pyval" where
  "own_or_state d state key = (if has_key d key then get d key else get state key)"

definition actual_implementation_failure :: "pydict \<Rightarrow> pydict \<Rightarrow> bool" where
  "actual_implementation_failure implementation state \<longleftrightarrow>
    get state ''failure_type'' = PStr ''implementation_validation_failed''
    \<or> get state ''terminal_status'' = PStr ''implementation_failed''
      \<and> truthy (por (get state ''failure_type'') (por (get state ''failure_message'')
           (por (get implementation ''validation_errors'') (por (get implementation ''errors'')
             (por (get state ''implementation_errors'') (get state ''remaining_validation_errors''))))))"

definition terminal_status_from_state :: "pydict \<Rightarrow> exn + string" where
  "terminal_status_from_state state =
    (let status = get state ''terminal_status'' in
     if status = PStr ''supervisor_loop_detected'' then Inr ''supervisor_loop_detected''
     else if status = PStr ''infrastructure_failed'' then Inr ''infrastructure_failed''
     else if status = PStr ''ci_failed'' then Inr ''ci_failed''
     else bind (dict_or_empty (get state ''implementation_result'')) (\<lambda>implementation.
       if actual_implementation_failure implementation state then Inr ''implementation_failed''
       else if status = PStr ''planning_failed''
               \<or> get state ''failure_type'' = PStr ''planning_validation_failed''
       then Inr ''planning_failed''
       else bind (dict_or_empty (get state ''testing_result'')) (\<lambda>testing.
         if truthy (own_or_state testing state ''tests_passed'') then Inr ''completed''
         else if truthy (get state ''test_infrastructure_failed'') then Inr ''infrastructure_failed''
         else if truthy (get state ''retry_limit_reached'') then Inr ''repair_limit_reached''
         else bind (as_count (getd state ''repair_attempts'' (PInt 0))) (\<lambda>attempts.
           if attempts \<ge> 2 then Inr ''repair_limit_reached''
           else if truthy (get state ''user_cancelled'') then Inr ''user_cancelled''
           else Inr ''tests_failed''))))"

definition test_result :: "pydict \<Rightarrow> exn + string" where
  "test_result state =
    bind (dict_or_empty (get state ''testing_result'')) (\<lambda>testing.
      let found = por (get testing ''summary'') (por (get state ''final_test_result_summary'')
            (get state ''first_test_result_summary''));
          result = (if truthy found then found
                    else PStr (if truthy (own_or_state testing state ''tests_passed'')
                               then ''pruebas aprobadas'' else ''pruebas no aprobadas''));
          warnings = get state ''test_warning_count'' in
      if \<not> truthy warnings then py_str result
      else case result of
        PStr r \<Rightarrow>
          if contains (casefold r) ''warning'' then Inr r
          else bind (py_str warnings) (\<lambda>n.
            Inr (r @ '', '' @ n @ '' '' @ (if py_eq warnings (PInt 1) then ''warning'' else ''warnings'')))
      | _ \<Rightarrow> Inl AttributeError)"

text \<open>A line of the summary that appears only when its condition holds.\<close>

definition line_when :: "bool \<Rightarrow> string \<Rightarrow> (unit \<Rightarrow> exn + string) \<Rightarrow> exn + string list" where
  "line_when b label content = (if b then bind (content ()) (\<lambda>t. Inr [label @ t]) else Inr [])"

definition project_status :: "pyval \<Rightarrow> pydict \<Rightarrow> string" where
  "project_status project_created state =
    (if truthy project_created then ''creado correctamente''
     else if truthy (get state ''project_exists'') then ''existente revisado''
     else if truthy (get state ''user_cancelled'') then (''operaci'' @ [CHR 0xF3] @ ''n cancelada'')
     else ''no creado'')"

definition ci_lines :: "pydict \<Rightarrow> exn + string list" where
  "ci_lines state =
    (if \<not> truthy (por (get state ''ci_run_id'') (get state ''ci_decision'')) then Inr []
     else bind (py_str (por (get state ''ci_decision'') (por (get state ''ci_status'') (PStr ''n/a'')))) (\<lambda>status.
       bind (line_when (truthy (get state ''ci_validated_commit'')) ''CI commit: ''
         (\<lambda>_. bind (py_str (get state ''ci_validated_commit'')) (\<lambda>c. Inr (take 12 c)))) (\<lambda>commit.
       Inr ((''CI: '' @ status) # commit))))"

definition repair_lines :: "pyval \<Rightarrow> pydict \<Rightarrow> exn + string list" where
  "repair_lines repair_phase state =
    (if repair_phase \<noteq> PStr ''completed'' then Inr []
     else bind (line_when (truthy (getd state ''files_updated_during_repair'' (PList []))) ''Archivo corregido: ''
         (\<lambda>_. bind (as_list (get state ''files_updated_during_repair'')) (\<lambda>files.
              bind (mapm as_path files) (\<lambda>paths. Inr (join '', '' paths))))) (\<lambda>l1.
       bind (line_when (truthy (get state ''repair_decision'')) (''Reparaci'' @ [CHR 0xF3] @ ''n: '')
         (\<lambda>_. py_str (get state ''repair_decision''))) (\<lambda>l2.
       bind (line_when (truthy (get state ''repair_before'')) ''Antes: ''
         (\<lambda>_. py_str (get state ''repair_before''))) (\<lambda>l3.
       bind (line_when (truthy (get state ''repair_after'')) (''Despu'' @ [CHR 0xE9] @ ''s: '')
         (\<lambda>_. py_str (get state ''repair_after''))) (\<lambda>l4.
       Inr (l1 @ l2 @ l3 @ l4))))))"

definition cancelled_lines :: "pydict \<Rightarrow> exn + string list" where
  "cancelled_lines state =
    (if \<not> truthy (get state ''user_cancelled'') then Inr []
     else bind (line_when (truthy (get state ''last_rejected_tool'')) ''Tool: ''
         (\<lambda>_. py_str (get state ''last_rejected_tool''))) (\<lambda>tool.
       bind (py_str (por (get state ''approval_reason'') (por (get state ''failure_message'')
              (PStr ''Sin motivo indicado'')))) (\<lambda>reason.
       Inr ((''Operaci'' @ [CHR 0xF3] @ ''n rechazada'') # tool @ [''Motivo: '' @ reason, ''Proyecto no modificado'']))))"

definition result_lines :: "pyval \<Rightarrow> pydict \<Rightarrow> exn + string list" where
  "result_lines tests_executed state =
    (if truthy tests_executed then line_when True ''Resultado: '' (\<lambda>_. test_result state)
     else line_when (truthy (get state ''failure_message'')) ''Resultado: ''
            (\<lambda>_. py_str (get state ''failure_message'')))"

definition build_final_summary :: "pydict \<Rightarrow> exn + string" where
  "build_final_summary state =
    bind (dict_or_empty (get state ''implementation_result'')) (\<lambda>implementation.
    bind (dict_or_empty (get state ''testing_result'')) (\<lambda>testing.
    bind (project_name_of state) (\<lambda>project.
      let framework = por (get implementation ''framework'') (get state ''detected_test_framework'') in
    bind (line_when (truthy framework) ''Framework de pruebas: '' (\<lambda>_. py_str framework)) (\<lambda>framework_line.
    bind (line_when (truthy (get state ''environment_python'')) ''Python usado: ''
            (\<lambda>_. py_str (get state ''environment_python''))) (\<lambda>python_line.
    bind (result_lines (own_or_state testing state ''tests_executed'') state) (\<lambda>result_line.
    bind (ci_lines state) (\<lambda>ci.
    bind (repair_lines (own_or_state testing state ''repair_phase'') state) (\<lambda>repair.
    bind (cancelled_lines state) (\<lambda>cancelled.
    Inr (join [CHR 0x0A]
      ([''Proyecto: '' @ (if project = [] then ''desconocido'' else project),
        ''Estado: '' @ project_status (own_or_state implementation state ''project_created'') state,
        ''Entorno: '' @ (if truthy (own_or_state implementation state ''environment_prepared'')
                         then ''preparado'' else ''no preparado''),
        ''Dependencias: '' @ (if truthy (get state ''dependencies_installed'')
                              then ''instaladas'' else ''no instaladas'')]
       @ framework_line @ python_line @ result_line @ ci @ repair @ cancelled)))))))))))"

definition finalize_node :: "'x node" where
  "finalize_node deps x state =
    bind (build_final_summary state) (\<lambda>summary.
    bind (terminal_status_from_state state) (\<lambda>status.
    Inr ([(''final_response'', PStr summary), (''terminal_status'', PStr status)], x)))"

section \<open>What the nodes do to an approval\<close>

text \<open>The keys of a pending approval, which no tool execution changes.\<close>

definition APPROVAL_KEYS :: "string list" where
  "APPROVAL_KEYS =
    [''pending_operation'', ''pending_tool_name'', ''pending_tool_arguments'', ''pending_approval_preview'',
     ''pending_approval_status'']"

lemma approval_keys_disjoint: "k \<in> set APPROVAL_KEYS \<Longrightarrow> k \<notin> set EXECUTION_KEYS"
proof -
  have "list_all (\<lambda>k. k \<notin> set EXECUTION_KEYS) APPROVAL_KEYS" by code_simp
  then show "k \<in> set APPROVAL_KEYS \<Longrightarrow> ?thesis" by (simp add: list_all_iff)
qed

end
