(* ===== verification/TestingRepair.thy ===== *)
theory TestingRepair
  imports GraphNodes Knowledge
begin

text \<open>
  The testing and repair subgraph (graph/subgraphs/testing_repair/): the fields of its state, its
  routers, the retrieval of knowledge, the wrapper of every node with the injection of failures
  (graph/failure_injection.py), and the graph itself as a step function over configurations.
  LangGraph is a parameter: \<open>merge\<close> is its update of the state by a node's result, about which
  \<open>overwrites\<close> states the documented behaviour of fields without a reducer.
\<close>

section \<open>The state\<close>

definition TESTING_REPAIR_STATE_FIELDS :: "string list" where
  "TESTING_REPAIR_STATE_FIELDS =
    [''original_user_message'', ''project_name'', ''created_project_name'', ''workflow_intent'',
     ''requirement_analysis'', ''acceptance_criteria'', ''implementation_result'', ''generated_files'',
     ''implementation_errors'', ''remaining_validation_errors'', ''detected_test_framework'',
     ''expected_test_command'', ''environment_python'', ''environment_prepared'', ''tests_executed'',
     ''tests_passed'', ''qa_knowledge_query'', ''qa_knowledge_retrieval_id'', ''qa_knowledge_context'',
     ''qa_knowledge_sources'', ''qa_knowledge_state'', ''qa_knowledge_retrieval_used'',
     ''qa_retrieved_context_count'', ''qa_knowledge_context_tokens'', ''repair_knowledge_query'',
     ''repair_knowledge_retrieval_id'', ''repair_knowledge_context'', ''repair_knowledge_sources'',
     ''repair_knowledge_state'', ''repair_knowledge_retrieval_used'',
     ''repair_retrieved_context_count'', ''repair_knowledge_context_tokens'', ''actual_test_command'',
     ''test_warning_count'', ''test_stdout'', ''test_stderr'', ''test_failure_summary'',
     ''first_test_result_summary'', ''final_test_result_summary'', ''test_infrastructure_failed'',
     ''retry_limit_reached'', ''repair_phase'', ''repair_attempts'', ''repair_decision'',
     ''repair_before'', ''repair_after'', ''failing_test_files'', ''failing_test_content'',
     ''files_read_during_repair'', ''files_updated_during_repair'', ''related_source_file'',
     ''related_source_content'', ''related_source_candidates'', ''related_source_read_attempts'',
     ''pending_operation'', ''pending_tool_name'', ''pending_tool_arguments'',
     ''pending_approval_preview'', ''pending_approval_status'', ''approval_reason'',
     ''last_approved_tool'', ''last_rejected_tool'', ''user_cancelled'', ''terminal_status'',
     ''failure_type'', ''failure_stage'', ''failure_message'', ''fork_origin_checkpoint_id'',
     ''fork_reason'', ''fork_updated_fields'', ''fork_lineage'', ''last_completed_node'']"

definition TESTING_REPAIR_INPUT_KEYS :: "string list" where
  "TESTING_REPAIR_INPUT_KEYS =
    [''project_name'', ''created_project_name'', ''workflow_intent'', ''original_user_message'',
     ''requirement_analysis'', ''acceptance_criteria'', ''implementation_result'', ''generated_files'',
     ''implementation_errors'', ''remaining_validation_errors'', ''detected_test_framework'',
     ''expected_test_command'', ''environment_python'', ''tests_executed'', ''tests_passed'',
     ''qa_knowledge_query'', ''qa_knowledge_retrieval_id'', ''qa_knowledge_context'',
     ''qa_knowledge_sources'', ''qa_knowledge_state'', ''qa_knowledge_retrieval_used'',
     ''qa_retrieved_context_count'', ''qa_knowledge_context_tokens'', ''repair_knowledge_query'',
     ''repair_knowledge_retrieval_id'', ''repair_knowledge_context'', ''repair_knowledge_sources'',
     ''repair_knowledge_state'', ''repair_knowledge_retrieval_used'',
     ''repair_retrieved_context_count'', ''repair_knowledge_context_tokens'', ''actual_test_command'',
     ''test_warning_count'', ''test_stdout'', ''test_stderr'', ''test_failure_summary'',
     ''first_test_result_summary'', ''final_test_result_summary'', ''test_infrastructure_failed'',
     ''retry_limit_reached'', ''repair_phase'', ''repair_attempts'', ''repair_decision'',
     ''repair_before'', ''repair_after'', ''failing_test_files'', ''failing_test_content'',
     ''files_read_during_repair'', ''files_updated_during_repair'', ''related_source_file'',
     ''related_source_content'', ''related_source_candidates'', ''related_source_read_attempts'',
     ''pending_operation'', ''pending_tool_name'', ''pending_tool_arguments'',
     ''pending_approval_preview'', ''pending_approval_status'', ''approval_reason'',
     ''last_approved_tool'', ''last_rejected_tool'', ''user_cancelled'', ''terminal_status'',
     ''failure_type'', ''failure_stage'', ''failure_message'', ''fork_origin_checkpoint_id'',
     ''fork_reason'', ''fork_updated_fields'', ''fork_lineage'', ''last_completed_node'']"

definition TESTING_REPAIR_OUTPUT_KEYS :: "string list" where
  "TESTING_REPAIR_OUTPUT_KEYS =
    [''tests_executed'', ''tests_passed'', ''qa_knowledge_query'', ''qa_knowledge_retrieval_id'',
     ''qa_knowledge_context'', ''qa_knowledge_sources'', ''qa_knowledge_state'',
     ''qa_knowledge_retrieval_used'', ''qa_retrieved_context_count'', ''qa_knowledge_context_tokens'',
     ''repair_knowledge_query'', ''repair_knowledge_retrieval_id'', ''repair_knowledge_context'',
     ''repair_knowledge_sources'', ''repair_knowledge_state'', ''repair_knowledge_retrieval_used'',
     ''repair_retrieved_context_count'', ''repair_knowledge_context_tokens'', ''actual_test_command'',
     ''test_warning_count'', ''first_test_result_summary'', ''final_test_result_summary'',
     ''test_failure_summary'', ''test_infrastructure_failed'', ''retry_limit_reached'',
     ''repair_phase'', ''repair_attempts'', ''repair_decision'', ''repair_before'', ''repair_after'',
     ''failing_test_files'', ''files_read_during_repair'', ''files_updated_during_repair'',
     ''related_source_file'', ''failure_type'', ''failure_stage'', ''failure_message'',
     ''terminal_status'', ''pending_operation'', ''pending_tool_name'', ''pending_tool_arguments'',
     ''pending_approval_preview'', ''pending_approval_status'', ''approval_reason'',
     ''last_approved_tool'', ''last_rejected_tool'', ''user_cancelled'', ''fork_origin_checkpoint_id'',
     ''fork_reason'', ''fork_updated_fields'', ''fork_lineage'']"

section \<open>Routers\<close>

definition route_testing_entry :: "pydict \<Rightarrow> string" where
  "route_testing_entry state =
    (if \<not> truthy (get state ''fork_origin_checkpoint_id'') then ''tests''
     else let phase = get state ''repair_phase'' in
       if phase = PStr ''read_failing_test'' then ''read_failing_test''
       else if phase = PStr ''read_related_source'' then ''read_related_source''
       else if phase = PStr ''apply_fix'' then ''prepare_fix''
       else ''tests'')"

definition route_testing_approval :: "pydict \<Rightarrow> exn + string" where
  "route_testing_approval state =
    (let status = get state ''pending_approval_status''; operation = get state ''pending_operation'' in
     if status = PStr ''rejected'' \<or> truthy (get state ''user_cancelled'') then Inr ''rejected''
     else if status \<noteq> PStr ''approved''
     then Inl (ValueError (''La aprobaci'' @ [CHR 0xF3] @ ''n interna debe estar resuelta antes de enrutar.''))
     else if operation = PStr ''run_tests'' then Inr ''execute_tests''
     else if operation = PStr ''apply_fix'' then Inr ''execute_fix''
     else bind (py_str operation) (\<lambda>op.
       Inl (ValueError (''Operaci'' @ [CHR 0xF3] @ ''n de testing/reparaci'' @ [CHR 0xF3] @ ''n desconocida: '' @ op))))"

definition ROUTER_REPAIR_ATTEMPTS :: int where
  "ROUTER_REPAIR_ATTEMPTS = 2"

definition route_after_tests :: "pydict \<Rightarrow> exn + string" where
  "route_after_tests state =
    (if truthy (get state ''tests_passed'') then Inr ''passed''
     else if get state ''failure_type'' = PStr ''no_tests_collected'' then Inr ''no_tests_collected''
     else if truthy (get state ''test_infrastructure_failed'') then Inr ''infrastructure_failed''
     else if truthy (get state ''retry_limit_reached'') then Inr ''repair_limit_reached''
     else bind (as_count (getd state ''repair_attempts'' (PInt 0))) (\<lambda>attempts.
       Inr (if attempts \<ge> ROUTER_REPAIR_ATTEMPTS then ''repair_limit_reached'' else ''repair'')))"

definition route_after_read_failing_test :: "pydict \<Rightarrow> string" where
  "route_after_read_failing_test state =
    (if truthy (get state ''failing_test_content'') \<and> get state ''repair_phase'' = PStr ''read_related_source''
     then ''continue'' else ''failed'')"

definition route_after_fix :: "pydict \<Rightarrow> string" where
  "route_after_fix state =
    (if get state ''repair_phase'' = PStr ''rerun_tests'' \<and> \<not> truthy (get state ''user_cancelled'')
     then ''tests'' else ''finished'')"

text \<open>\<open>len(x)\<close>.\<close>

fun py_len :: "pyval \<Rightarrow> exn + int" where
  "py_len (PList xs) = Inr (int (length xs))"
| "py_len (PStr s) = Inr (int (length s))"
| "py_len (PDict d) = Inr (int (length d))"
| "py_len _ = Inl TypeError"

definition route_after_related_source :: "pydict \<Rightarrow> exn + string" where
  "route_after_related_source state =
    (if get state ''repair_phase'' = PStr ''apply_fix'' \<and> truthy (get state ''related_source_content'')
     then Inr ''prepare_fix''
     else bind (py_len (getd state ''related_source_candidates'' (PList []))) (\<lambda>candidates.
       bind (as_count (getd state ''related_source_read_attempts'' (PInt 0))) (\<lambda>attempts.
       Inr (if attempts < min candidates ROUTER_REPAIR_ATTEMPTS then ''retry_read'' else ''finalize''))))"

definition route_after_prepare_fix :: "pydict \<Rightarrow> string" where
  "route_after_prepare_fix state =
    (if get state ''pending_operation'' = PStr ''apply_fix'' \<and> get state ''pending_approval_status'' = PStr ''waiting''
     then ''approval'' else ''failed'')"

definition route_after_execute_fix :: "pydict \<Rightarrow> string" where
  "route_after_execute_fix state =
    (if truthy (get state ''user_cancelled'') then ''cancelled''
     else if get state ''repair_phase'' = PStr ''rerun_tests'' \<and> \<not> truthy (get state ''failure_type'')
     then ''rerun_tests'' else ''failed'')"

section \<open>Injected failures\<close>

definition FAILURE_INJECTION_NODES :: "string list" where
  "FAILURE_INJECTION_NODES =
    [''analyze_requirement'', ''apply_fix'', ''create_project'', ''create_tasks'', ''detect_intent'',
     ''detect_test_framework'', ''inspect_workspace'', ''prepare_environment'', ''run_tests'']"

definition raise_if_failure_injected :: "(string \<Rightarrow> string option) \<Rightarrow> string \<Rightarrow> exn + unit" where
  "raise_if_failure_injected env node_name =
    (let setting = (\<lambda>name dflt. case env name of Some v \<Rightarrow> v | None \<Rightarrow> dflt);
         configured = strip (setting ''LANGGRAPH_FAIL_AFTER_NODE'' []) in
     if configured = [] then Inr ()
     else if configured \<notin> set FAILURE_INJECTION_NODES
     then Inl (ValueError (''LANGGRAPH_FAIL_AFTER_NODE inv'' @ [CHR 0xE1] @ ''lido. Valores permitidos: ''
            @ join '', '' FAILURE_INJECTION_NODES))
     else if casefold (strip (setting ''LANGGRAPH_DEVELOPMENT'' ''false'')) \<notin> {''1'', ''true'', ''yes'', ''on''}
     then Inl (RuntimeError (''LANGGRAPH_FAIL_AFTER_NODE solo est'' @ [CHR 0xE1] @ '' permitido con LANGGRAPH_DEVELOPMENT=true.''))
     else if configured = node_name
     then Inl (RuntimeError (''Fallo de desarrollo inyectado despu'' @ [CHR 0xE9] @ ''s de '' @ node_name @ ''.''))
     else Inr ())"

definition FAILURE_NODE_ALIASES :: "(string \<times> string) list" where
  "FAILURE_NODE_ALIASES = [(''execute_tests'', ''run_tests''), (''execute_fix'', ''apply_fix'')]"

definition alias_of :: "string \<Rightarrow> string" where
  "alias_of name = (case map_of FAILURE_NODE_ALIASES name of Some n \<Rightarrow> n | None \<Rightarrow> name)"

definition logged_node :: "(string \<Rightarrow> string option) \<Rightarrow> string \<Rightarrow> 'x node \<Rightarrow> 'x node" where
  "logged_node env name node_fn deps x state =
    bind (case get state ''last_completed_node'' of
            PStr (c # previous) \<Rightarrow> raise_if_failure_injected env (c # previous) | _ \<Rightarrow> Inr ()) (\<lambda>_.
    bind (node_fn deps x state) (\<lambda>(updates, x').
    Inr (AList.update ''last_completed_node'' (PStr (alias_of name)) updates, x')))"

section \<open>Knowledge\<close>

text \<open>The settings of the process and the observability context of the call.\<close>

record Settings =
  env_var :: "string \<Rightarrow> string option"
  obs_context :: ObsContext

definition base_knowledge :: "string \<Rightarrow> string \<Rightarrow> pydict" where
  "base_knowledge role query =
    [(role @ ''_knowledge_query'', PStr query), (role @ ''_knowledge_retrieval_id'', PNone),
     (role @ ''_knowledge_context'', PNone), (role @ ''_knowledge_sources'', PList []),
     (role @ ''_knowledge_retrieval_used'', PBool False), (role @ ''_retrieved_context_count'', PInt 0),
     (role @ ''_knowledge_context_tokens'', PInt 0)]"

definition unavailable :: "string \<Rightarrow> string \<Rightarrow> pydict" where
  "unavailable role query = base_knowledge role query @ [(role @ ''_knowledge_state'', PStr ''unavailable'')]"

definition knowledge_arguments :: "ObsContext \<Rightarrow> KnowledgeQuery \<Rightarrow> string \<Rightarrow> string \<Rightarrow> pydict" where
  "knowledge_arguments context request project agent =
    [(''query'', PStr (kq_query request)), (''project_id'', PStr project),
     (''knowledge_types'', pstrs (kq_types request)), (''limit'', PInt (kq_top_k request)),
     (''agent_name'', PStr agent), (''branch_id'', opt_str (ctx_branch_id context))]
    @ filter (\<lambda>(k, v). truthy v)
        [(''workflow_id'', opt_str (ctx_workflow_id context)), (''trace_id'', opt_str (ctx_trace_id context)),
         (''parent_span_id'', opt_str (ctx_span_id context))]"

definition knowledge_results :: "pydict \<Rightarrow> pyval list" where
  "knowledge_results payload =
    (case get payload ''results'' of PList items \<Rightarrow> filter is_dict items | _ \<Rightarrow> [])"

definition knowledge_found :: "string \<Rightarrow> string \<Rightarrow> pyval \<Rightarrow> KnowledgeContext \<Rightarrow> pydict" where
  "knowledge_found role query retrieval_id built =
    (if kc_sources built = []
     then dmerge (base_knowledge role query)
       [(role @ ''_knowledge_retrieval_id'', retrieval_id), (role @ ''_knowledge_state'', PStr ''empty'')]
     else dmerge (base_knowledge role query)
       [(role @ ''_knowledge_retrieval_id'', retrieval_id),
        (role @ ''_knowledge_context'', PStr (kc_context built)),
        (role @ ''_knowledge_sources'', PList (map PDict (kc_sources built))),
        (role @ ''_knowledge_state'', PStr ''available''), (role @ ''_knowledge_retrieval_used'', PBool True),
        (role @ ''_retrieved_context_count'', PInt (int (length (kc_sources built)))),
        (role @ ''_knowledge_context_tokens'', PInt (kc_tokens built))])"

text \<open>The updates of an answered retrieval.\<close>

definition knowledge_updates ::
  "string \<Rightarrow> KnowledgeQuery \<Rightarrow> (pyval list \<Rightarrow> int \<Rightarrow> exn + KnowledgeContext) \<Rightarrow> ToolExecutionOutcome \<Rightarrow>
   exn + pydict" where
  "knowledge_updates role request build out =
    (case o_payload out of
       Some payload \<Rightarrow>
         if o_is_error out \<or> truthy (get payload ''degraded'') then Inr (unavailable role (kq_query request))
         else bind (build (knowledge_results payload) (kq_top_k request)) (\<lambda>built.
           bind (optional_text (get payload ''retrieval_id'')) (\<lambda>retrieval_id.
           Inr (knowledge_found role (kq_query request) (opt_str retrieval_id) built)))
     | None \<Rightarrow> Inr (unavailable role (kq_query request)))"

text \<open>Every exception of the retrieval is caught; what is not modelled is not an exception.\<close>

definition caught :: "exn + 'a \<Rightarrow> 'a \<Rightarrow> exn + 'a" where
  "caught m fallback = (case m of Inl Unmodelled \<Rightarrow> Inl Unmodelled | Inl e \<Rightarrow> Inr fallback | Inr v \<Rightarrow> Inr v)"

definition retrieve_knowledge ::
  "Settings \<Rightarrow> string \<Rightarrow> string \<Rightarrow> string \<Rightarrow> KnowledgeQuery \<Rightarrow>
   (pyval list \<Rightarrow> int \<Rightarrow> exn + KnowledgeContext) \<Rightarrow> 'x node" where
  "retrieve_knowledge settings agent role project request build deps x state =
    (let failed = unavailable role (kq_query request) in
     if project = [] then Inr (failed, x)
     else caught
       (bind (execute_tool deps x ''knowledge__get_relevant_context''
               (knowledge_arguments (obs_context settings) request project agent) state Prompt) (\<lambda>(out, x').
        bind (caught (knowledge_updates role request build out) failed) (\<lambda>updates. Inr (updates, x'))))
       (failed, x))"

definition testing_project_id :: "pydict \<Rightarrow> exn + string" where
  "testing_project_id state =
    bind (py_str (por (get state ''project_name'')
      (por (get (mapping_of (get state ''requirement_analysis'')) ''project_name'')
        (por (get state ''created_project_name'') (PStr []))))) (\<lambda>p. Inr (strip p))"

definition retrieved_before :: "string \<Rightarrow> pydict \<Rightarrow> KnowledgeQuery \<Rightarrow> bool" where
  "retrieved_before role state request \<longleftrightarrow>
    get state (role @ ''_knowledge_query'') = PStr (kq_query request)
    \<and> getd state (role @ ''_knowledge_state'') (PStr ''not_started'')
        \<in> {PStr ''available'', PStr ''empty'', PStr ''unavailable''}"

definition prepare_qa_knowledge :: "Settings \<Rightarrow> 'x node" where
  "prepare_qa_knowledge settings deps x state =
    bind (qa_query (positive_environment_int (env_var settings) ''QA_KNOWLEDGE_TOP_K'' 5 20) state) (\<lambda>request.
    if retrieved_before ''qa'' state request then Inr ([], x)
    else bind (testing_project_id state) (\<lambda>project.
      retrieve_knowledge settings ''QA'' ''qa'' project request
        (\<lambda>results top_k. Inr (build_qa_context
           (positive_environment_int (env_var settings) ''QA_KNOWLEDGE_MAX_TOKENS'' 3000 32000) results top_k))
        deps x state))"

definition prepare_repair_knowledge :: "Settings \<Rightarrow> 'x node" where
  "prepare_repair_knowledge settings deps x state =
    (if \<not> repair_should_retrieve state then Inr ([], x)
     else bind (repair_query (positive_environment_int (env_var settings) ''REPAIR_KNOWLEDGE_TOP_K'' 5 20) state)
       (\<lambda>request.
       if retrieved_before ''repair'' state request then Inr ([], x)
       else bind (testing_project_id state) (\<lambda>project.
         retrieve_knowledge settings ''Repair'' ''repair'' project request
           (build_repair_context
             (positive_environment_int (env_var settings) ''REPAIR_KNOWLEDGE_MAX_TOKENS'' 3000 32000))
           deps x state)))"

section \<open>The graph\<close>

datatype testing_node =
    Entry | PrepareQA | PrepareRepair | PrepareTest | Approval | ExecuteTests | ReadTest | ReadSource
  | PrepareFix | ExecuteFix | Exit | Done

definition silent_node :: "'x node" where
  "silent_node deps x state = Inr ([], x)"

fun run_node :: "Settings \<Rightarrow> testing_node \<Rightarrow> 'x node" where
  "run_node settings Entry = silent_node"
| "run_node settings PrepareQA = logged_node (env_var settings) ''prepare_qa_knowledge'' (prepare_qa_knowledge settings)"
| "run_node settings PrepareRepair =
     logged_node (env_var settings) ''prepare_repair_knowledge'' (prepare_repair_knowledge settings)"
| "run_node settings PrepareTest = logged_node (env_var settings) ''prepare_test_request'' prepare_test_request_node"
| "run_node settings Approval = logged_node (env_var settings) ''approval'' approval_node"
| "run_node settings ExecuteTests = logged_node (env_var settings) ''execute_tests'' execute_tests_node"
| "run_node settings ReadTest = logged_node (env_var settings) ''read_failing_test'' read_failing_test_node"
| "run_node settings ReadSource = logged_node (env_var settings) ''read_related_source'' read_related_source_node"
| "run_node settings PrepareFix = logged_node (env_var settings) ''prepare_fix'' prepare_fix_node"
| "run_node settings ExecuteFix = logged_node (env_var settings) ''execute_fix'' execute_fix_node"
| "run_node settings Exit = silent_node"
| "run_node settings Done = silent_node"

text \<open>The edges: a router's answer and the node it leads to.\<close>

fun testing_edges :: "testing_node \<Rightarrow> (string \<times> testing_node) list" where
  "testing_edges Entry = [(''tests'', PrepareQA), (''read_failing_test'', ReadTest),
     (''read_related_source'', ReadSource), (''prepare_fix'', PrepareRepair)]"
| "testing_edges Approval = [(''execute_tests'', ExecuteTests), (''execute_fix'', ExecuteFix), (''rejected'', Exit)]"
| "testing_edges ExecuteTests = [(''passed'', Exit), (''repair'', ReadTest), (''no_tests_collected'', Exit),
     (''infrastructure_failed'', Exit), (''repair_limit_reached'', Exit)]"
| "testing_edges ReadTest = [(''continue'', ReadSource), (''failed'', Exit)]"
| "testing_edges ReadSource = [(''prepare_fix'', PrepareRepair), (''retry_read'', ReadSource), (''finalize'', Exit)]"
| "testing_edges PrepareFix = [(''approval'', Approval), (''failed'', Exit)]"
| "testing_edges ExecuteFix = [(''rerun_tests'', PrepareQA), (''cancelled'', Exit), (''failed'', Exit)]"
| "testing_edges _ = []"

definition follow :: "testing_node \<Rightarrow> string \<Rightarrow> exn + testing_node" where
  "follow n answer = (case map_of (testing_edges n) answer of Some n' \<Rightarrow> Inr n' | None \<Rightarrow> Inl (KeyError answer))"

fun next_node :: "testing_node \<Rightarrow> pydict \<Rightarrow> exn + testing_node" where
  "next_node Entry state = follow Entry (route_testing_entry state)"
| "next_node PrepareQA state = Inr PrepareTest"
| "next_node PrepareRepair state = Inr PrepareFix"
| "next_node PrepareTest state = Inr Approval"
| "next_node Approval state = bind (route_testing_approval state) (follow Approval)"
| "next_node ExecuteTests state = bind (route_after_tests state) (follow ExecuteTests)"
| "next_node ReadTest state = follow ReadTest (route_after_read_failing_test state)"
| "next_node ReadSource state = bind (route_after_related_source state) (follow ReadSource)"
| "next_node PrepareFix state = follow PrepareFix (route_after_prepare_fix state)"
| "next_node ExecuteFix state = follow ExecuteFix (route_after_execute_fix state)"
| "next_node Exit state = Inr Done"
| "next_node Done state = Inr Done"

type_synonym 'x testing_config = "testing_node \<times> 'x \<times> pydict"

fun testing_step ::
  "Settings \<Rightarrow> (pydict \<Rightarrow> pydict \<Rightarrow> pydict) \<Rightarrow> 'x GraphDependencies \<Rightarrow> 'x testing_config \<Rightarrow>
   exn + 'x testing_config" where
  "testing_step settings merge deps (n, x, state) =
    bind (run_node settings n deps x state) (\<lambda>(updates, x').
    let state' = merge state updates in
    bind (next_node n state') (\<lambda>n'. Inr (n', x', state')))"

text \<open>
  A run of the subgraph, with the number of its steps and the operations a person approved on the
  way, as the name of the tool and its arguments. The answers of the model and of the person may
  differ from step to step; the executor is the same throughout.
\<close>

fun proper_answer :: "pyval \<Rightarrow> bool" where
  "proper_answer (PDict d) \<longleftrightarrow> (get d ''approved'' = PBool True \<or> get d ''approved'' = PBool False)
     \<and> (get d ''reason'' = PNone \<or> is_str (get d ''reason''))"
| "proper_answer _ \<longleftrightarrow> False"

fun said_yes :: "pyval \<Rightarrow> bool" where
  "said_yes (PDict d) \<longleftrightarrow> get d ''approved'' = PBool True"
| "said_yes _ \<longleftrightarrow> False"

definition last_answer :: "'x GraphDependencies \<Rightarrow> pydict \<Rightarrow> pyval" where
  "last_answer deps request =
    (if proper_answer (interrupt deps request) then interrupt deps request
     else interrupt deps (asked_again request))"

text \<open>
  What a person approves at a node: nothing, except at the node that asks, where it is the tool and
  the arguments that the question showed, when the last answer to it was yes. This is read off
  the answers alone, not off what the node makes of them.
\<close>

definition grants :: "testing_node \<Rightarrow> 'x GraphDependencies \<Rightarrow> pydict \<Rightarrow> (pyval \<times> pyval) list" where
  "grants n deps state =
    (case project_name_of state of
       Inl e \<Rightarrow> []
     | Inr project \<Rightarrow>
         let request = approval_request state project in
         if n = Approval \<and> said_yes (last_answer deps request)
         then [(get request ''public_tool_name'', get request ''arguments'')] else [])"

inductive testing_run ::
  "Settings \<Rightarrow> (pydict \<Rightarrow> pydict \<Rightarrow> pydict) \<Rightarrow> 'x executor \<Rightarrow> 'x testing_config \<Rightarrow> nat \<Rightarrow>
   (pyval \<times> pyval) list \<Rightarrow> 'x testing_config \<Rightarrow> bool"
  for settings :: Settings and merge :: "pydict \<Rightarrow> pydict \<Rightarrow> pydict" and execute :: "'x executor"
    and start :: "'x testing_config" where
  begin_run: "testing_run settings merge execute start 0 [] start"
| one_step: "testing_run settings merge execute start k gs (n, x, state) \<Longrightarrow> n \<noteq> Done
    \<Longrightarrow> execute_tool deps = execute \<Longrightarrow> testing_step settings merge deps (n, x, state) = Inr (n', x', state')
    \<Longrightarrow> testing_run settings merge execute start (Suc k) (gs @ grants n deps state) (n', x', state')"

text \<open>What LangGraph documents of a field without a reducer: the node's value overwrites it.\<close>

definition overwrites :: "(pydict \<Rightarrow> pydict \<Rightarrow> pydict) \<Rightarrow> bool" where
  "overwrites merge \<longleftrightarrow> (\<forall>state updates k v. k \<in> set TESTING_REPAIR_STATE_FIELDS \<longrightarrow>
    getd (merge state updates) k v = getd updates k (getd state k v))"

definition overlay :: "pydict \<Rightarrow> pydict \<Rightarrow> pydict" where
  "overlay state updates = updates @ state"

end
