(* ===== verification/ExecutorProps.thy ===== *)
theory ExecutorProps
  imports ToolExecutor
begin

text \<open>
  What an execution of the host's executor does to single fields of the graph's state: which of
  them it keeps, how it counts repairs, and the round trip between the two states.
\<close>

section \<open>Loading a field\<close>

definition keeps :: "(ExecutionState \<Rightarrow> 'a) \<Rightarrow> (pydict \<Rightarrow> ExecutionState \<Rightarrow> exn + ExecutionState) \<Rightarrow> bool" where
  "keeps field l \<longleftrightarrow> (\<forall>d st st'. l d st = Inr st' \<longrightarrow> field st' = field st)"

lemma keeps_load [simp]: "(\<And>x st. field (put x st) = field st) \<Longrightarrow> keeps field (load decode key put)"
  by (auto simp: keeps_def load_def bind_eq_Inr_iff split: option.splits)

lemma run_loads_keeps: "list_all (keeps field) ls \<Longrightarrow> run_loads ls d st = Inr st' \<Longrightarrow> field st' = field st"
  by (induction ls arbitrary: st) (auto simp: keeps_def bind_eq_Inr_iff)

lemma run_loads_append: "run_loads (as @ bs) d st = bind (run_loads as d st) (run_loads bs d)"
proof (induction as arbitrary: st)
  case (Cons a as)
  then show ?case by (cases "a d st") auto
qed simp

lemma loaded:
  assumes "run_loads (as @ load decode key put # bs) d st = Inr st'" "list_all (keeps field) (as @ bs)"
    and "\<And>x st. field (put x st) = x"
  shows "case map_of d key of None \<Rightarrow> field st' = field st | Some v \<Rightarrow> decode v = Inr (field st')"
proof -
  obtain st1 st2 where r: "run_loads as d st = Inr st1" "load decode key put d st1 = Inr st2"
    "run_loads bs d st2 = Inr st'"
    using assms(1) by (auto simp: run_loads_append bind_eq_Inr_iff)
  with assms(2) run_loads_keeps[of field] have "field st1 = field st" "field st' = field st2" by auto
  with r(2) assms(3) show ?thesis
    by (auto simp: load_def bind_eq_Inr_iff split: option.splits)
qed

lemma graph_loads:
  assumes "execution_state_from_graph s = Inr st"
  obtains message project where
    "run_loads (loads_1 @ loads_2 @ loads_3) s (new_execution_state message project ''create_project'') = Inr st"
  using assms unfolding execution_state_from_graph_def
  by (auto split: if_splits elim!: bind_InrE)

lemma loaded_repair_attempts:
  assumes "execution_state_from_graph s = Inr st"
  shows "getd s ''repair_attempts'' (PInt 0) = PInt (es_repair_attempts st)"
proof -
  obtain message project where
    r: "run_loads (loads_1 @ loads_2 @ loads_3) s (new_execution_state message project ''create_project'') = Inr st"
    using assms by (rule graph_loads)
  have eq: "loads_1 @ loads_2 @ loads_3 = (loads_1 @ butlast loads_2)
      @ load to_int ''repair_attempts'' (\<lambda>x st. st\<lparr>es_repair_attempts := x\<rparr>) # loads_3"
    by (simp add: loads_2_def)
  have kept: "list_all (keeps es_repair_attempts) ((loads_1 @ butlast loads_2) @ loads_3)"
    by (simp add: loads_1_def loads_2_def loads_3_def)
  show ?thesis
    using loaded[OF r[unfolded eq] kept]
    by (auto simp: getd_def new_execution_state_def split: option.splits elim: to_int.elims)
qed

lemma loaded_read_attempts:
  assumes "execution_state_from_graph s = Inr st"
  shows "getd s ''related_source_read_attempts'' (PInt 0) = PInt (es_related_source_read_attempts st)"
proof -
  obtain message project where
    r: "run_loads (loads_1 @ loads_2 @ loads_3) s (new_execution_state message project ''create_project'') = Inr st"
    using assms by (rule graph_loads)
  have eq: "loads_1 @ loads_2 @ loads_3 = (loads_1 @ loads_2 @ butlast loads_3)
      @ load to_int ''related_source_read_attempts'' (\<lambda>x st. st\<lparr>es_related_source_read_attempts := x\<rparr>) # []"
    by (simp add: loads_3_def)
  have kept: "list_all (keeps es_related_source_read_attempts) ((loads_1 @ loads_2 @ butlast loads_3) @ [])"
    by (simp add: loads_1_def loads_2_def loads_3_def)
  show ?thesis
    using loaded[OF r[unfolded eq] kept]
    by (auto simp: getd_def new_execution_state_def split: option.splits elim: to_int.elims)
qed

lemma loaded_repair_phase:
  assumes "execution_state_from_graph s = Inr st" "get s ''repair_phase'' = PStr phase"
  shows "es_repair_phase st = phase"
proof -
  obtain message project where
    r: "run_loads (loads_1 @ loads_2 @ loads_3) s (new_execution_state message project ''create_project'') = Inr st"
    using assms(1) by (rule graph_loads)
  have eq: "loads_1 @ loads_2 @ loads_3 = (loads_1 @ butlast (butlast loads_2))
      @ load to_str ''repair_phase'' (\<lambda>x st. st\<lparr>es_repair_phase := x\<rparr>) # last loads_2 # loads_3"
    by (simp add: loads_2_def)
  have kept: "list_all (keeps es_repair_phase) ((loads_1 @ butlast (butlast loads_2)) @ last loads_2 # loads_3)"
    by (simp add: loads_1_def loads_2_def loads_3_def)
  show ?thesis
    using loaded[OF r[unfolded eq] kept] assms(2)
    by (auto simp: get_def split: option.splits)
qed

section \<open>The fields that change\<close>

lemma map_of_filter_value:
  assumes "dict_ok d" "map_of d k = Some v"
  shows "map_of (filter p d) k = (if p (k, v) then Some v else None)"
  using assms by (induction d) (auto simp: dict_ok_def map_of_eq_None_iff image_iff)

lemma getd_changed:
  assumes "dict_ok d" "map_of d k = Some v"
  shows "getd (changed_values s d) k w = (if py_eq (get s k) v then w else v)"
proof -
  have "map_of (changed_values s d) k = (if py_eq (get s k) v then None else Some v)"
    using map_of_filter_value[OF assms, of "\<lambda>(key, v). \<not> py_eq (get s key) v"] by (simp add: changed_values_def)
  then show ?thesis by (simp add: getd_def)
qed

lemma graph_value_simps:
  "map_of (graph_values_from_execution st) ''repair_attempts'' = Some (PInt (es_repair_attempts st))"
  "map_of (graph_values_from_execution st) ''repair_phase'' = Some (PStr (es_repair_phase st))"
  "map_of (graph_values_from_execution st) ''tests_passed'' = Some (PBool (es_tests_passed st))"
  "map_of (graph_values_from_execution st) ''related_source_read_attempts''
    = Some (PInt (es_related_source_read_attempts st))"
  by (simp_all add: graph_values_from_execution_def Let_def update_conv values_1_def values_2_def values_3_def)

section \<open>The fields that an update of the execution state keeps\<close>

text \<open>The counters no tool but an update of files touches, and the phase no tool but three.\<close>

definition same_counts :: "ExecutionState \<Rightarrow> ExecutionState \<Rightarrow> bool" where
  "same_counts st st' \<longleftrightarrow> es_repair_attempts st' = es_repair_attempts st
     \<and> es_related_source_read_attempts st' = es_related_source_read_attempts st"

definition same_phase :: "ExecutionState \<Rightarrow> ExecutionState \<Rightarrow> bool" where
  "same_phase st st' \<longleftrightarrow> same_counts st st' \<and> es_repair_phase st' = es_repair_phase st"

lemma same_phase_refl [simp]: "same_phase st st" "same_counts st st"
  by (simp_all add: same_phase_def same_counts_def)

lemma same_trans:
  "same_counts a b \<Longrightarrow> same_counts b c \<Longrightarrow> same_counts a c"
  "same_phase a b \<Longrightarrow> same_phase b c \<Longrightarrow> same_phase a c"
  by (simp_all add: same_phase_def same_counts_def)

lemma same_phase_counts: "same_phase a b \<Longrightarrow> same_counts a b"
  by (simp add: same_phase_def)

text \<open>A partial operation whose result, if it returns one, has a property.\<close>

definition yields :: "('a \<Rightarrow> bool) \<Rightarrow> 'e + 'a \<Rightarrow> bool" where
  "yields P m \<longleftrightarrow> (\<forall>y. m = Inr y \<longrightarrow> P y)"

lemma yields_simps [simp]: "yields P (Inl e)" "yields P (Inr y) \<longleftrightarrow> P y"
  by (auto simp: yields_def)

lemma yields_bind: "(\<And>x. m = Inr x \<Longrightarrow> yields P (f x)) \<Longrightarrow> yields P (bind m f)"
  by (cases m) (auto simp: yields_def)

lemma yields_bind_if:
  "yields Q m \<Longrightarrow> (\<And>x. Q x \<Longrightarrow> yields P (f x)) \<Longrightarrow> yields P (bind m f)"
  by (cases m) (auto simp: yields_def)

lemma yields_if: "(b \<Longrightarrow> yields P m) \<Longrightarrow> (\<not> b \<Longrightarrow> yields P n) \<Longrightarrow> yields P (if b then m else n)"
  by simp

lemmas yields_intros = yields_bind yields_if

lemma same_mark: "same_phase st (mark_called tool error st)"
  by (simp add: mark_called_def same_phase_def same_counts_def Let_def)

lemma same_note: "yields (same_phase st) (note_failure tool p st)"
  unfolding note_failure_def Let_def
  by (intro yields_intros) (simp_all add: same_phase_def same_counts_def)

lemma same_list: "yields (same_phase st) (update_list_files p st)"
  unfolding update_list_files_def
  by (auto split: option.split list.split pyval.split intro!: yields_intros)
     (simp_all add: same_phase_def same_counts_def)

lemma same_create: "yields (same_phase st) (update_create_project e payload arguments ok st)"
  unfolding update_create_project_def
  by (cases payload) (auto intro!: yields_intros, simp_all add: same_phase_def same_counts_def)

lemma same_read: "yields (same_counts st) (update_read_file imports p arguments st)"
  unfolding update_read_file_def Let_def
  by (intro yields_intros) (simp_all add: same_counts_def)

lemma same_detect: "yields (same_phase st) (update_detect_framework p st)"
  unfolding update_detect_framework_def
  by (rule yields_bind_if[where Q = "same_phase st"])
     (auto split: pyval.split intro!: yields_intros, simp_all add: same_phase_def same_counts_def)

lemma same_payload: "yields (same_counts st) (update_test_payload p st)"
  unfolding update_test_payload_def Let_def
  by (intro yields_intros)
     (simp add: same_counts_def record_test_output_def update_no_tests_def update_failed_tests_def Let_def)

lemma same_details: "yields (same_counts st) (update_test_details p st)"
  unfolding update_test_details_def Let_def
  by (rule yields_bind_if[where Q = "same_counts st"])
     (auto split: pyval.split intro!: yields_intros, simp_all add: same_counts_def)

lemma same_run: "yields (same_counts st) (update_run_tests payload st)"
proof -
  have "yields (same_counts st) (bind (update_test_payload p st1) (update_test_details p))"
    if "same_counts st st1" for p st1
    by (rule yields_bind_if[OF same_payload]) (metis same_details same_trans(1) that yields_def)
  then show ?thesis
    unfolding update_run_tests_def Let_def by (intro yields_if) (simp_all add: same_counts_def)
qed

lemma same_prepare: "yields (same_phase st) (update_prepare_environment payload ok st)"
  unfolding update_prepare_environment_def Let_def
  by (intro yields_intros) (simp_all add: same_phase_def same_counts_def)

text \<open>A repair is counted when its files are written in the phase that changes files.\<close>

definition counts_fix :: "ExecutionState \<Rightarrow> ExecutionState \<Rightarrow> bool" where
  "counts_fix st st' \<longleftrightarrow> es_related_source_read_attempts st' = es_related_source_read_attempts st
    \<and> (if es_repair_phase st = ''apply_fix''
       then es_repair_attempts st' = es_repair_attempts st + 1 \<and> es_repair_phase st' = ''rerun_tests''
       else es_repair_attempts st' = es_repair_attempts st \<and> es_repair_phase st' = es_repair_phase st)"

lemma update_files_counts: "yields (counts_fix st) (update_project_files arguments st)"
  unfolding update_project_files_def
proof (rule yields_bind_if[where Q = "same_phase st"])
  show "yields (same_phase st) (case get arguments ''files'' of
          PList files \<Rightarrow>
            bind (updated_paths files) (\<lambda>paths.
            bind (extract_repair_evidence files) (\<lambda>evidence.
              let st1 = st\<lparr>es_files_updated_during_repair :=
                          fold set_add paths (es_files_updated_during_repair st)\<rparr> in
              Inr (case evidence of None \<Rightarrow> st1
                   | Some (before_fix, after_fix, decision) \<Rightarrow>
                       st1\<lparr>es_repair_before := Some before_fix, es_repair_after := Some after_fix,
                           es_repair_decision := Some decision\<rparr>)))
        | _ \<Rightarrow> Inr st)"
    by (auto split: pyval.split option.split intro!: yields_bind simp: Let_def)
       (simp_all add: same_phase_def same_counts_def)
qed (simp add: counts_fix_def same_phase_def same_counts_def)

lemma yields_when_tool:
  assumes "is_tool tool server name \<Longrightarrow> yields P (act st)" "\<not> is_tool tool server name \<Longrightarrow> P st"
  shows "yields P (when_tool tool server name act st)"
  using assms by (simp add: when_tool_def)

definition updates_files :: "RegisteredTool \<Rightarrow> bool" where
  "updates_files tool \<longleftrightarrow> is_tool tool ''filesystem'' ''update_project_files''"

text \<open>A preorder on states that every step of the update respects is respected by the update.\<close>

lemma update_respects:
  assumes refl: "\<And>s. R s s" and trans: "\<And>a b c. R a b \<Longrightarrow> R b c \<Longrightarrow> R a c"
    and mark: "\<And>s e. R s (mark_called tool e s)" and note_f: "\<And>s p. yields (R s) (note_failure tool p s)"
    and "\<And>s p. is_tool tool ''filesystem'' ''list_files'' \<Longrightarrow> yields (R s) (update_list_files p s)"
    and "\<And>s e p a ok. is_tool tool ''filesystem'' ''create_project_structure''
      \<Longrightarrow> yields (R s) (update_create_project e p a ok s)"
    and "\<And>s p a. is_tool tool ''filesystem'' ''read_file'' \<Longrightarrow> yields (R s) (update_read_file imports p a s)"
    and "\<And>s a. is_tool tool ''filesystem'' ''update_project_files'' \<Longrightarrow> yields (R s) (update_project_files a s)"
    and "\<And>s p. is_tool tool ''testing'' ''detect_test_framework'' \<Longrightarrow> yields (R s) (update_detect_framework p s)"
    and "\<And>s p. is_tool tool ''testing'' ''run_tests'' \<Longrightarrow> yields (R s) (update_run_tests p s)"
    and "\<And>s p ok. is_tool tool ''testing'' ''prepare_test_environment'' \<Longrightarrow> yields (R s) (update_prepare_environment p ok s)"
  shows "yields (R st) (update_execution_state imports tool result arguments st)"
proof -
  have chain: "yields (R s0) (bind m f)" if "yields (R s0) m" "\<And>s. R s0 s \<Longrightarrow> yields (R s0) (f s)"
    for s0 m and f :: "ExecutionState \<Rightarrow> exn + ExecutionState"
    using that by (rule yields_bind_if)
  have from_step: "yields (R s0) m" if "R s0 s" "yields (R s) m" for s0 s and m :: "exn + ExecutionState"
    using that trans by (auto simp: yields_def)
  have tool: "yields (R s0) (when_tool tool server name act s)"
    if "R s0 s" "is_tool tool server name \<Longrightarrow> yields (R s) (act s)" for s0 s server name act
    using that from_step by (auto simp: when_tool_def)
  have given: "yields (R s) (if b then Inr s else m)" if "yields (R s) m" for b s and m :: "exn + ExecutionState"
    using that refl by simp
  show ?thesis
    unfolding update_execution_state_def Let_def
    apply (rule chain, rule from_step[OF mark], rule given, rule note_f)
    apply (rule chain, erule tool, rule given, erule assms(5))
    apply (rule chain, erule tool, erule assms(6))
    apply (rule chain, erule tool, rule given, erule assms(7))
    apply (rule chain, erule tool, rule yields_if, erule assms(8), simp add: refl)
    apply (rule chain, erule tool, rule given, erule assms(9))
    apply (rule chain, erule tool, erule assms(10))
    apply (erule tool, erule assms(11))
    done
qed

lemma other_tool_counts:
  assumes "\<not> updates_files tool"
  shows "yields (same_counts st) (update_execution_state imports tool result arguments st)"
proof -
  have weak: "yields (same_counts s) m" if "yields (same_phase s) m" for s and m :: "exn + ExecutionState"
    using that same_phase_counts by (auto simp: yields_def)
  show ?thesis
    by (rule update_respects)
      (use assms in \<open>auto simp: updates_files_def intro: same_trans(1) weak same_phase_counts[OF same_mark]
         same_note same_list same_create same_read same_detect same_run same_prepare\<close>)
qed

text \<open>An update of files in the phase that changes files either does nothing to it or counts a repair.\<close>

definition repair_step :: "ExecutionState \<Rightarrow> ExecutionState \<Rightarrow> bool" where
  "repair_step st st' \<longleftrightarrow> es_related_source_read_attempts st' = es_related_source_read_attempts st
    \<and> (es_repair_phase st' = es_repair_phase st \<and> es_repair_attempts st' = es_repair_attempts st
       \<or> es_repair_phase st = ''apply_fix'' \<and> es_repair_phase st' = ''rerun_tests''
         \<and> es_repair_attempts st' = es_repair_attempts st + 1)"

lemma repair_step_same: "same_phase st st' \<Longrightarrow> repair_step st st'"
  by (simp add: repair_step_def same_phase_def same_counts_def)

lemma repair_step_trans: "repair_step a b \<Longrightarrow> repair_step b c \<Longrightarrow> repair_step a c"
  by (auto simp: repair_step_def)

lemma update_files_step:
  assumes "server_name tool @ ''__'' @ original_name tool = ''filesystem__update_project_files''"
  shows "yields (repair_step st) (update_execution_state imports tool result arguments st)"
proof -
  have weak: "yields (repair_step s) m" if "yields (same_phase s) m" for s and m :: "exn + ExecutionState"
    using that repair_step_same by (auto simp: yields_def)
  have written: "yields (repair_step s) (update_project_files a s)" for a s
    using update_files_counts[of s a] by (auto simp: yields_def counts_fix_def repair_step_def split: if_splits)
  show ?thesis
    by (rule update_respects)
      (use assms in \<open>auto simp: is_tool_def intro: repair_step_trans weak
         repair_step_same[OF same_mark] repair_step_same[OF same_phase_refl(1)] same_note written\<close>)
qed

section \<open>The fields that a call keeps\<close>

text \<open>What a call does to the execution state, by what the update of the named tool does to it.\<close>

lemma quiet_states:
  "same_phase st (limit_reached_state st)" "same_phase st (invalid_arguments_state e st)"
  "same_phase st (rejected_state t st)"
  by (simp_all add: limit_reached_state_def invalid_arguments_state_def rejected_state_def same_phase_def
      same_counts_def)

text \<open>The host's state after a call: as before it but for notes, or the update of the named tool.\<close>

definition call_state :: "HostEnv \<Rightarrow> string \<Rightarrow> ExecutionState \<Rightarrow> Host \<Rightarrow> bool" where
  "call_state env name st h' \<longleftrightarrow> (\<exists>st'. host_state h' = Some st' \<and> (same_phase st st'
     \<or> (\<exists>tool result args. map_of (registry env) name = Some tool
        \<and> update_execution_state (py_imports env) tool result args st = Inr st')))"

lemma answered_state:
  "answered h payload error = Inr (h', out, executed) \<Longrightarrow> host_state h = Some st1 \<Longrightarrow> same_phase st st1
    \<Longrightarrow> call_state env name st h'"
  by (auto simp: answered_def call_state_def)

lemma send_state:
  "send_call env h tool args mode = Inr (h', out, executed) \<Longrightarrow> host_state h = Some st
    \<Longrightarrow> map_of (registry env) name = Some tool \<Longrightarrow> call_state env name st h'"
  by (auto simp: send_call_settles settle_reply_def call_state_def elim!: bind_InrE)

lemma enforce_state:
  assumes "enforce_test_retry_limit h tool args = Inr (h1, limit)" "host_state h = Some st"
  shows "\<exists>st1. host_state h1 = Some st1 \<and> same_phase st st1 \<and> (limit = None \<longrightarrow> st1 = st)"
  using assms quiet_states
  by (auto simp: enforce_test_retry_limit_def Let_def bind_eq_Inr_iff split: if_splits)

lemma approval_state:
  assumes "approval_step env h tool args key mode = Inr (h1, rejection)" "host_state h = Some st"
  shows "\<exists>st1. host_state h1 = Some st1 \<and> same_phase st st1 \<and> (rejection = None \<longrightarrow> st1 = st)"
  using assms quiet_states unfolding approval_step_def
  by (auto simp: Let_def bind_eq_Inr_iff split: if_splits)

lemma guarded_state:
  assumes "guarded_call env h tool args key mode = Inr (h', out, executed)" "host_state h = Some st"
    and "map_of (registry env) name = Some tool"
  shows "call_state env name st h'"
proof (cases "key \<in> set (rejected_calls h)")
  case True
  with assms show ?thesis by (auto simp: guarded_call_def intro: answered_state)
next
  case False
  with assms(1) obtain refusal where g: "(case refusal of Some payload \<Rightarrow> answered h payload False
      | None \<Rightarrow> bind (enforce_test_retry_limit h tool args) (\<lambda>(h1, limit).
          case limit of Some payload \<Rightarrow> answered h1 payload False
          | None \<Rightarrow> bind (approval_step env h1 tool args key mode) (\<lambda>(h2, rejection).
              case rejection of Some payload \<Rightarrow> answered h2 payload False
              | None \<Rightarrow> send_call env h2 tool args mode))) = Inr (h', out, executed)"
    by (auto simp: guarded_call_def elim!: bind_InrE)
  show ?thesis
  proof (cases refusal)
    case (Some payload)
    with g assms(2) show ?thesis by (auto intro: answered_state)
  next
    case None
    with g obtain h1 limit where e: "enforce_test_retry_limit h tool args = Inr (h1, limit)"
      and g1: "(case limit of Some payload \<Rightarrow> answered h1 payload False
        | None \<Rightarrow> bind (approval_step env h1 tool args key mode) (\<lambda>(h2, rejection).
            case rejection of Some payload \<Rightarrow> answered h2 payload False
            | None \<Rightarrow> send_call env h2 tool args mode)) = Inr (h', out, executed)"
      by (auto elim!: bind_InrE)
    note st1 = enforce_state[OF e assms(2)]
    show ?thesis
    proof (cases limit)
      case (Some payload)
      with st1 g1 show ?thesis by (auto intro: answered_state)
    next
      case None
      with g1 obtain h2 rejection where a: "approval_step env h1 tool args key mode = Inr (h2, rejection)"
        and g2: "(case rejection of Some payload \<Rightarrow> answered h2 payload False
            | None \<Rightarrow> send_call env h2 tool args mode) = Inr (h', out, executed)"
        by (auto elim!: bind_InrE)
      from st1 None have "host_state h1 = Some st" by auto
      from approval_state[OF a this] g2 assms(3) show ?thesis
        by (cases rejection) (auto intro: answered_state send_state)
    qed
  qed
qed

lemma handle_state:
  assumes "handle_function_call env h name raw mode = Inr (h', out, executed)" "host_state h = Some st"
  shows "call_state env name st h'"
proof (cases "\<exists>given tool. raw = Inr (PDict given) \<and> map_of (registry env) name = Some tool")
  case False
  with assms show ?thesis
    by (auto simp: handle_function_call_def Let_def intro: answered_state
        split: sum.splits pyval.splits option.splits)
next
  case True
  then obtain given tool where reg: "map_of (registry env) name = Some tool"
    and c: "tool_call env h name tool given mode = Inr (h', out, executed)"
    using assms(1) by (auto simp: handle_function_call_def)
  show ?thesis
  proof (cases "validate_tool_arguments env tool (normalize_tool_arguments tool given) = []")
    case False
    with c assms(2) show ?thesis by (auto simp: tool_call_def Let_def intro: answered_state quiet_states)
  next
    case True
    with c obtain fixed where c2: "(case fixed of Inl payload \<Rightarrow> answered h payload False
        | Inr effective \<Rightarrow> guarded_call env h tool effective (call_key name effective) mode)
        = Inr (h', out, executed)"
      by (auto simp: tool_call_def Let_def elim!: bind_InrE)
    with assms(2) reg show ?thesis
      by (cases fixed) (auto intro: answered_state guarded_state)
  qed
qed

section \<open>An executor that counts repairs\<close>

definition repair_count :: "pydict \<Rightarrow> int" where
  "repair_count s = (case getd s ''repair_attempts'' (PInt 0) of PInt i \<Rightarrow> i | _ \<Rightarrow> 0)"

definition read_count :: "pydict \<Rightarrow> int" where
  "read_count s = (case getd s ''related_source_read_attempts'' (PInt 0) of PInt i \<Rightarrow> i | _ \<Rightarrow> 0)"

text \<open>
  What the repair loop relies on: the two counters are integers, no execution touches the number of
  reads, only an update of files touches the number of repairs, and one that is run in the phase
  that changes files leaves this phase or the count goes up.
\<close>

locale repair_executor = tool_executor execute events
  for execute :: "'x executor" and events :: "'x \<Rightarrow> host_event list" +
  assumes counters: "execute x name args s mode = Inr (out, x')
      \<Longrightarrow> getd s ''repair_attempts'' (PInt 0) = PInt (repair_count s)
        \<and> getd s ''related_source_read_attempts'' (PInt 0) = PInt (read_count s)"
    and keeps_reads: "execute x name args s mode = Inr (out, x')
      \<Longrightarrow> getd (o_state_updates out) ''related_source_read_attempts''
            (getd s ''related_source_read_attempts'' (PInt 0)) = PInt (read_count s)"
    and keeps_repairs: "execute x name args s mode = Inr (out, x') \<Longrightarrow> name \<noteq> ''filesystem__update_project_files''
      \<Longrightarrow> getd (o_state_updates out) ''repair_attempts'' (getd s ''repair_attempts'' (PInt 0))
        = PInt (repair_count s)"
    and counts_repair: "execute x ''filesystem__update_project_files'' args s mode = Inr (out, x')
      \<Longrightarrow> get s ''repair_phase'' = PStr ''apply_fix''
      \<Longrightarrow> getd (o_state_updates out) ''repair_phase'' (get s ''repair_phase'') = PStr ''apply_fix''
        \<or> getd (o_state_updates out) ''repair_attempts'' (getd s ''repair_attempts'' (PInt 0))
          = PInt (repair_count s + 1)"

text \<open>The host's executor, with what it does to the three fields.\<close>

lemma none_not_number: "\<not> py_eq PNone (PInt i)" "\<not> py_eq PNone (PBool b)"
  by (subst py_eq.simps; simp)+

lemma changed_int:
  assumes "getd s k (PInt 0) = PInt i" "dict_ok d" "map_of d k = Some (PInt j)"
  shows "getd (changed_values s d) k (getd s k (PInt 0)) = PInt j"
proof -
  have "py_eq (get s k) (PInt j) \<Longrightarrow> get s k = PInt i"
    using assms(1) by (cases "map_of s k") (auto simp: get_def getd_def none_not_number)
  with getd_changed[OF assms(2,3)] assms(1) show ?thesis by auto
qed

lemma changed_str:
  assumes "get s k = PStr a" "dict_ok d" "map_of d k = Some (PStr b)"
  shows "getd (changed_values s d) k (get s k) = PStr b"
  using getd_changed[OF assms(2,3), of s "PStr a"] assms(1) by auto

lemma host_execute_states:
  assumes "host_execute env contexts h name args s mode = Inr (out, h')"
  obtains st st' where "execution_state_from_graph s = Inr st"
    "o_state_updates out = changed_values s (graph_values_from_execution st')"
    "same_phase st st' \<or> (\<exists>tool result args'. map_of (registry env) name = Some tool
        \<and> update_execution_state (py_imports env) tool result args' st = Inr st')"
proof -
  obtain st st' res executed where
    c: "handle_function_call env (h\<lparr>host_state := Some st\<rparr>) name
       (Inr (PDict (foldl (with_knowledge_correlation name) args contexts))) mode = Inr (h', res, executed)"
    and "execution_state_from_graph s = Inr st" "host_state h' = Some st'"
    "o_state_updates out = changed_values s (graph_values_from_execution st')"
    using assms by (rule host_execute_shape)
  with handle_state[OF c, of st] that show ?thesis by (auto simp: call_state_def)
qed

lemma host_execute_counts:
  assumes "host_execute env contexts h name args s mode = Inr (out, h')"
  obtains st st' where "execution_state_from_graph s = Inr st"
    "o_state_updates out = changed_values s (graph_values_from_execution st')"
    "name \<noteq> ''filesystem__update_project_files'' \<Longrightarrow> same_counts st st'"
    "name = ''filesystem__update_project_files'' \<Longrightarrow> repair_step st st'"
proof -
  obtain st st' where e: "execution_state_from_graph s = Inr st"
    "o_state_updates out = changed_values s (graph_values_from_execution st')"
    and u: "same_phase st st' \<or> (\<exists>tool result args'. map_of (registry env) name = Some tool
        \<and> update_execution_state (py_imports env) tool result args' st = Inr st')"
    using assms by (rule host_execute_states)
  have "same_counts st st'" if n: "name \<noteq> ''filesystem__update_project_files''"
    using u
  proof (elim disjE exE conjE)
    fix tool result args'
    assume reg: "map_of (registry env) name = Some tool"
      and up: "update_execution_state (py_imports env) tool result args' st = Inr st'"
    have "\<not> updates_files tool"
      using n registered_facts[OF reg] unfolding updates_files_def is_tool_def by auto
    from other_tool_counts[OF this] up show ?thesis by (auto simp: yields_def)
  qed (rule same_phase_counts)
  moreover have "repair_step st st'" if n: "name = ''filesystem__update_project_files''"
    using u
  proof (elim disjE exE conjE)
    fix tool result args'
    assume reg: "map_of (registry env) name = Some tool"
      and up: "update_execution_state (py_imports env) tool result args' st = Inr st'"
    have "server_name tool @ ''__'' @ original_name tool = ''filesystem__update_project_files''"
      using registered_facts[OF reg] unfolding n by metis
    from update_files_step[OF this] up show ?thesis by (auto simp: yields_def)
  qed (rule repair_step_same)
  ultimately show ?thesis using e that by blast
qed

lemma repair_step_reads: "repair_step st st' \<or> same_counts st st'
    \<Longrightarrow> es_related_source_read_attempts st' = es_related_source_read_attempts st"
  by (auto simp: repair_step_def same_counts_def)

interpretation host_repairs: repair_executor "host_execute env contexts" history for env contexts
proof
  fix x x' :: Host and name and args s :: pydict and mode and out
  assume e: "host_execute env contexts x name args s mode = Inr (out, x')"
  obtain st st' where st: "execution_state_from_graph s = Inr st"
    and u: "o_state_updates out = changed_values s (graph_values_from_execution st')"
    and steps: "name \<noteq> ''filesystem__update_project_files'' \<Longrightarrow> same_counts st st'"
      "name = ''filesystem__update_project_files'' \<Longrightarrow> repair_step st st'"
    using e by (rule host_execute_counts) blast
  note loads = loaded_repair_attempts[OF st] loaded_read_attempts[OF st]
  show "getd s ''repair_attempts'' (PInt 0) = PInt (repair_count s)
        \<and> getd s ''related_source_read_attempts'' (PInt 0) = PInt (read_count s)"
    by (simp add: repair_count_def read_count_def loads)
  have "es_related_source_read_attempts st' = es_related_source_read_attempts st"
    using steps repair_step_reads by blast
  then show "getd (o_state_updates out) ''related_source_read_attempts''
      (getd s ''related_source_read_attempts'' (PInt 0)) = PInt (read_count s)"
    unfolding u changed_int[OF loads(2) graph_values_ok graph_value_simps(4)] by (simp add: read_count_def loads)
  show "getd (o_state_updates out) ''repair_attempts'' (getd s ''repair_attempts'' (PInt 0)) = PInt (repair_count s)"
    if "name \<noteq> ''filesystem__update_project_files''"
    unfolding u changed_int[OF loads(1) graph_values_ok graph_value_simps(1)]
    using steps(1)[OF that] by (simp add: repair_count_def loads same_counts_def)
next
  fix x x' :: Host and args s :: pydict and mode and out
  assume e: "host_execute env contexts x ''filesystem__update_project_files'' args s mode = Inr (out, x')"
    and phase: "get s ''repair_phase'' = PStr ''apply_fix''"
  obtain st st' where st: "execution_state_from_graph s = Inr st"
    and u: "o_state_updates out = changed_values s (graph_values_from_execution st')" and "repair_step st st'"
    using e by (rule host_execute_counts) blast
  then have "es_repair_phase st' = ''apply_fix'' \<or> es_repair_attempts st' = es_repair_attempts st + 1"
    using loaded_repair_phase[OF st phase] by (auto simp: repair_step_def)
  then show "getd (o_state_updates out) ''repair_phase'' (get s ''repair_phase'') = PStr ''apply_fix''
      \<or> getd (o_state_updates out) ''repair_attempts'' (getd s ''repair_attempts'' (PInt 0)) = PInt (repair_count s + 1)"
    unfolding u changed_int[OF loaded_repair_attempts[OF st] graph_values_ok graph_value_simps(1)]
      changed_str[OF phase graph_values_ok graph_value_simps(2)]
    by (auto simp: repair_count_def loaded_repair_attempts[OF st])
qed

end
