(* ===== verification/TestingNodes.thy ===== *)
theory TestingNodes
  imports TestingRepair ExecutorProps
begin

text \<open>
  What each node of the testing and repair subgraph does to the fields its loop depends on
  (graph/nodes.py and graph/subgraphs/testing_repair/), for any executor that counts repairs: the
  counters of repairs and of reads, and the operation that waits for an approval.
\<close>

section \<open>The updates of the nodes\<close>

lemma get_getd: "get d k = getd d k PNone"
  by (simp add: get_def getd_def)

lemma getd_dmerge_other: "\<not> has_key b k \<Longrightarrow> getd (dmerge a b) k w = getd a k w"
  by (induction a b rule: dmerge.induct) auto

lemma getd_own: "getd u k w = (if has_key u k then get u k else w)"
  by (simp add: getd_has_key getd_no_key)

definition LOOP_KEYS :: "string list" where
  "LOOP_KEYS =
    [''repair_attempts'', ''related_source_read_attempts'', ''repair_phase'', ''pending_operation'',
     ''pending_tool_name'', ''pending_tool_arguments'', ''pending_approval_status'',
     ''related_source_candidates'']"

lemma loop_keys_are_fields: "k \<in> set LOOP_KEYS \<Longrightarrow> k \<in> set TESTING_REPAIR_STATE_FIELDS"
proof -
  have "list_all (\<lambda>k. k \<in> set TESTING_REPAIR_STATE_FIELDS) LOOP_KEYS" by code_simp
  then show "k \<in> set LOOP_KEYS \<Longrightarrow> ?thesis" by (simp add: list_all_iff)
qed

text \<open>The nodes that look up knowledge write none of the fields the loop depends on.\<close>

definition other_key :: "string \<Rightarrow> string \<Rightarrow> bool" where
  "other_key role k \<longleftrightarrow> \<not> prefix (role @ ''_knowledge'') k \<and> \<not> prefix (role @ ''_retrieved'') k"

lemma loop_keys_other: "role \<in> {''qa'', ''repair''} \<Longrightarrow> k \<in> set LOOP_KEYS \<Longrightarrow> other_key role k"
  by (auto simp: other_key_def LOOP_KEYS_def)

lemma knowledge_keys:
  assumes "other_key role k"
  shows "\<not> has_key (unavailable role q) k" "\<not> has_key (knowledge_found role q r built) k"
  using assms
  by (auto simp: unavailable_def knowledge_found_def base_knowledge_def other_key_def prefix_def)

lemma caught_Inr: "caught m f = Inr v \<Longrightarrow> m = Inr v \<or> v = f"
  by (cases m) (auto simp: caught_def split: exn.splits)

lemma retrieve_knowledge_keys:
  assumes "retrieve_knowledge settings agent role project request build deps x s = Inr (u, x')"
    and role: "other_key role k"
  shows "\<not> has_key u k"
proof -
  note keys = knowledge_keys[OF role]
  have upd: "\<not> has_key v k" if "knowledge_updates role request build out = Inr v" for out v
    using that keys
    by (auto simp: knowledge_updates_def elim!: bind_InrE split: option.splits if_splits)
  have caught_upd: "\<not> has_key v k"
    if "caught (knowledge_updates role request build out) (unavailable role q) = Inr v" for out v q
    using caught_Inr[OF that] upd keys by auto
  show ?thesis
  proof (cases "project = []")
    case True
    with assms(1) keys show ?thesis by (auto simp: retrieve_knowledge_def Let_def)
  next
    case False
    with assms(1) have "caught
       (bind (execute_tool deps x ''knowledge__get_relevant_context''
               (knowledge_arguments (obs_context settings) request project agent) s Prompt) (\<lambda>(out, x').
        bind (caught (knowledge_updates role request build out) (unavailable role (kq_query request)))
          (\<lambda>updates. Inr (updates, x')))) (unavailable role (kq_query request), x) = Inr (u, x')"
      by (simp add: retrieve_knowledge_def Let_def)
    from caught_Inr[OF this] show ?thesis
      using caught_upd keys by (auto elim!: bind_InrE)
  qed
qed

lemma qa_keys: "prepare_qa_knowledge settings deps x s = Inr (u, x') \<Longrightarrow> k \<in> set LOOP_KEYS \<Longrightarrow> \<not> has_key u k"
  by (auto simp: prepare_qa_knowledge_def elim!: bind_InrE split: if_splits dest: retrieve_knowledge_keys[OF _ loop_keys_other])

lemma repair_keys:
  "prepare_repair_knowledge settings deps x s = Inr (u, x') \<Longrightarrow> k \<in> set LOOP_KEYS \<Longrightarrow> \<not> has_key u k"
  by (auto simp: prepare_repair_knowledge_def elim!: bind_InrE split: if_splits dest: retrieve_knowledge_keys[OF _ loop_keys_other])

lemma logged_nodeE:
  assumes "logged_node env name f deps x s = Inr (u, x')" "k \<noteq> ''last_completed_node''"
  obtains v where "f deps x s = Inr (v, x')" "\<And>w. getd u k w = getd v k w"
  using assms by (auto simp: logged_node_def elim!: bind_InrE)

lemma loop_key_not_last: "k \<in> set LOOP_KEYS \<Longrightarrow> k \<noteq> ''last_completed_node''"
  by (auto simp: LOOP_KEYS_def)

section \<open>States before and after a node\<close>

text \<open>\<open>s'\<close> is \<open>s\<close> overwritten with \<open>u\<close>, as far as the loop can see.\<close>

definition merged :: "pydict \<Rightarrow> pydict \<Rightarrow> pydict \<Rightarrow> bool" where
  "merged s u s' \<longleftrightarrow> (\<forall>k \<in> set LOOP_KEYS. \<forall>v. getd s' k v = getd u k (getd s k v))"

definition PENDING_KEYS :: "string list" where
  "PENDING_KEYS = [''pending_operation'', ''pending_tool_name'', ''pending_tool_arguments'', ''pending_approval_status'']"

definition kept_keys :: "string list \<Rightarrow> pydict \<Rightarrow> pydict \<Rightarrow> bool" where
  "kept_keys ks s s' \<longleftrightarrow> (\<forall>k \<in> set ks. \<forall>v. getd s' k v = getd s k v)"

lemma overwritten: "overwrites merge \<Longrightarrow> merged s u (merge s u)"
  by (simp add: merged_def overwrites_def loop_keys_are_fields)

lemma merged_logged:
  assumes "logged_node env name f deps x s = Inr (u, x')" "merged s u s'"
  obtains v where "f deps x s = Inr (v, x')" "merged s v s'"
proof -
  obtain v where f: "f deps x s = Inr (v, x')" and u: "u = AList.update ''last_completed_node'' (PStr (alias_of name)) v"
    using assms(1) by (auto simp: logged_node_def elim!: bind_InrE)
  have "merged s v s'"
    using assms(2) loop_key_not_last unfolding merged_def u by simp metis
  with f show ?thesis using that by blast
qed

lemma merged_kept:
  "merged s u s' \<Longrightarrow> set ks \<subseteq> set LOOP_KEYS \<Longrightarrow> (\<And>k. k \<in> set ks \<Longrightarrow> \<not> has_key u k) \<Longrightarrow> kept_keys ks s s'"
  unfolding merged_def kept_keys_def by (metis getd_no_key subsetD)

lemma merged_get: "merged s u s' \<Longrightarrow> k \<in> set LOOP_KEYS \<Longrightarrow> get s' k = getd u k (get s k)"
  unfolding merged_def get_getd by blast

lemma merged_value: "merged s u s' \<Longrightarrow> k \<in> set LOOP_KEYS \<Longrightarrow> has_key u k \<Longrightarrow> getd s' k v = get u k"
  unfolding merged_def by (simp add: getd_own)

lemma kept_keys_get: "kept_keys ks s s' \<Longrightarrow> k \<in> set ks \<Longrightarrow> get s' k = get s k"
  unfolding kept_keys_def get_getd by blast

text \<open>No fix waits for an approval.\<close>

definition no_fix_waits :: "pydict \<Rightarrow> bool" where
  "no_fix_waits s \<longleftrightarrow> \<not> (get s ''pending_operation'' = PStr ''apply_fix''
     \<and> get s ''pending_approval_status'' = PStr ''waiting'')"

lemma pending_keys: "k \<in> set PENDING_KEYS \<Longrightarrow> k \<in> set LOOP_KEYS \<and> k \<in> set APPROVAL_KEYS"
  by (auto simp: PENDING_KEYS_def LOOP_KEYS_def APPROVAL_KEYS_def)

lemma loop_key_list:
  "''repair_attempts'' \<in> set LOOP_KEYS" "''related_source_read_attempts'' \<in> set LOOP_KEYS"
  "''repair_phase'' \<in> set LOOP_KEYS" "''pending_operation'' \<in> set LOOP_KEYS"
  "''pending_tool_name'' \<in> set LOOP_KEYS" "''pending_tool_arguments'' \<in> set LOOP_KEYS"
  "''pending_approval_status'' \<in> set LOOP_KEYS" "''related_source_candidates'' \<in> set LOOP_KEYS"
  by (simp_all add: LOOP_KEYS_def)

lemma pending_key_list:
  "''pending_operation'' \<in> set PENDING_KEYS" "''pending_tool_name'' \<in> set PENDING_KEYS"
  "''pending_tool_arguments'' \<in> set PENDING_KEYS" "''pending_approval_status'' \<in> set PENDING_KEYS"
  by (simp_all add: PENDING_KEYS_def)

lemma kept_no_fix_waits: "kept_keys PENDING_KEYS s s' \<Longrightarrow> no_fix_waits s' = no_fix_waits s"
  by (simp add: no_fix_waits_def kept_keys_get pending_key_list)

lemma kept_counts:
  "kept_keys [''repair_attempts''] s s' \<Longrightarrow> repair_count s' = repair_count s"
  "kept_keys [''related_source_read_attempts''] s s' \<Longrightarrow> read_count s' = read_count s"
  by (simp_all add: repair_count_def read_count_def kept_keys_def)

lemma counted:
  "getd s' ''repair_attempts'' (PInt 0) = PInt i \<Longrightarrow> repair_count s' = i"
  "getd s' ''related_source_read_attempts'' (PInt 0) = PInt i \<Longrightarrow> read_count s' = i"
  by (simp_all add: repair_count_def read_count_def)

text \<open>A dictionary that is written over a tool's updates.\<close>

lemma cleared_ok: "dict_ok cleared_approval"
  by (simp add: dict_ok_def cleared_approval_def)

lemma cleared_waits: "get u ''pending_approval_status'' = PStr ''none'' \<Longrightarrow> has_key u ''pending_approval_status''
    \<Longrightarrow> merged s u s' \<Longrightarrow> no_fix_waits s'"
  by (simp add: no_fix_waits_def merged_get getd_own loop_key_list)

section \<open>The nodes that execute\<close>

lemma approved_callE:
  assumes "execute_approved_call deps x s = Inr (arguments, out, x')"
  obtains name where "get s ''pending_tool_name'' = PStr name" "get s ''pending_tool_arguments'' = PDict arguments"
    "get s ''pending_approval_status'' = PStr ''approved''"
    "execute_tool deps x name arguments s AlreadyApproved = Inr (out, x')"
  using assms
  by (auto simp: execute_approved_call_def approved_pending_tool_def Let_def elim!: bind_InrE
      split: if_splits pyval.splits)

lemma cleared_keys:
  "has_key cleared_approval k \<longleftrightarrow> k \<in> set APPROVAL_KEYS"
  "get cleared_approval ''pending_approval_status'' = PStr ''none''"
  by (auto simp: cleared_approval_def APPROVAL_KEYS_def)

lemma cleared_last:
  "get (dmerge v cleared_approval) ''pending_approval_status'' = PStr ''none''"
  "k \<notin> set APPROVAL_KEYS \<Longrightarrow> getd (dmerge v cleared_approval) k d = getd v k d"
  by (simp_all add: get_dmerge cleared_ok cleared_keys getd_dmerge_other) (simp add: APPROVAL_KEYS_def)

lemma not_approval_keys:
  "''repair_attempts'' \<notin> set APPROVAL_KEYS" "''related_source_read_attempts'' \<notin> set APPROVAL_KEYS"
  "''repair_phase'' \<notin> set APPROVAL_KEYS" "''related_source_candidates'' \<notin> set APPROVAL_KEYS"
  by (simp_all add: APPROVAL_KEYS_def)

lemma reset_keeps:
  "k \<notin> {''related_source_content'', ''related_source_file'', ''related_source_candidates'',
     ''related_source_read_attempts''} \<Longrightarrow> getd (reset_related_source u) k d = getd u k d"
  by (auto simp: reset_related_source_def)

lemma reset_reads:
  "getd (reset_related_source u) ''related_source_read_attempts'' d
     \<in> {getd u ''related_source_read_attempts'' d, PInt 0}"
  by (simp add: reset_related_source_def)

lemma read_test_shape:
  assumes "read_failing_test_node deps x s = Inr (u, x')"
  shows "(\<forall>k \<in> set (PENDING_KEYS @ [''repair_attempts'', ''related_source_read_attempts'']). \<not> has_key u k)
    \<or> (\<exists>args out. execute_tool deps x ''filesystem__read_file'' args s Prompt = Inr (out, x')
        \<and> u = dmerge (o_state_updates out) [(''failing_test_content'', get (payload_of out) ''content''),
             (''repair_phase'', PStr ''read_related_source'')])"
  using assms
  by (auto simp: read_failing_test_node_def Let_def PENDING_KEYS_def elim!: bind_InrE split: if_splits, blast+)

lemma kept_by_silence:
  assumes "merged s u s'" "\<forall>k \<in> set (PENDING_KEYS @ [''repair_attempts'', ''related_source_read_attempts'']). \<not> has_key u k"
  shows "kept_keys PENDING_KEYS s s' \<and> repair_count s' = repair_count s \<and> read_count s' = read_count s"
  using merged_kept[OF assms(1), of PENDING_KEYS] merged_kept[OF assms(1), of "[''repair_attempts'']"]
    merged_kept[OF assms(1), of "[''related_source_read_attempts'']"] pending_keys assms(2)
  by (auto simp: kept_counts loop_key_list)

text \<open>A read of a source: nothing was read, or one candidate was and the reads are counted.\<close>

definition SILENT_KEYS :: "string list" where
  "SILENT_KEYS = PENDING_KEYS @ [''repair_attempts'', ''related_source_read_attempts'']"

lemma source_shape:
  assumes "read_related_source_node deps x s = Inr (u, x')"
  shows "(\<forall>k \<in> set SILENT_KEYS. \<not> has_key u k) \<and> \<not> has_key u ''related_source_candidates''
      \<and> \<not> truthy (get s ''related_source_candidates'')
    \<or> (\<forall>k \<in> set SILENT_KEYS. \<not> has_key u k) \<and> (\<exists>candidates attempt. get u ''related_source_candidates'' = PList candidates
      \<and> has_key u ''related_source_candidates'' \<and> as_count (getd s ''related_source_read_attempts'' (PInt 0)) = Inr attempt
      \<and> int (length candidates) \<le> attempt)
    \<or> (\<exists>candidates attempt. as_count (getd s ''related_source_read_attempts'' (PInt 0)) = Inr attempt
      \<and> read_source deps x s candidates attempt = Inr (u, x'))"
proof (cases "related_source_candidates (imports_of deps) s")
  case (Inl e)
  with assms obtain m where "related_source_candidates (imports_of deps) s = Inl (ValueError m)"
    by (cases e) (auto simp: read_related_source_node_def)
  then have "\<not> truthy (get s ''related_source_candidates'')"
    by (cases "get s ''related_source_candidates''") (auto simp: related_source_candidates_def split: if_splits)
  with Inl assms show ?thesis
    by (cases e) (auto simp: read_related_source_node_def source_failure_def SILENT_KEYS_def PENDING_KEYS_def)
next
  case (Inr candidates)
  with assms obtain attempt where a: "as_count (getd s ''related_source_read_attempts'' (PInt 0)) = Inr attempt"
    by (auto simp: read_related_source_node_def elim!: bind_InrE)
  show ?thesis
  proof (cases "int (length candidates) \<le> attempt")
    case True
    with assms Inr a show ?thesis
      by (auto simp: read_related_source_node_def source_failure_def SILENT_KEYS_def PENDING_KEYS_def)
  next
    case False
    with assms Inr a show ?thesis by (auto simp: read_related_source_node_def)
  qed
qed

lemma read_source_shape:
  assumes "read_source deps x s candidates attempt = Inr (u, x')"
  obtains args out where "execute_tool deps x ''filesystem__read_file'' args s Prompt = Inr (out, x')"
    "get u ''related_source_read_attempts'' = PInt (attempt + 1)" "has_key u ''related_source_read_attempts''"
    "(\<forall>k \<in> set (''repair_attempts'' # PENDING_KEYS). \<not> has_key u k)
     \<or> (\<forall>k \<in> set (''repair_attempts'' # PENDING_KEYS). \<forall>d. getd u k d = getd (o_state_updates out) k d)"
proof -
  obtain path out where e: "execute_tool deps x ''filesystem__read_file'' [(''relative_path'', PStr path)] s Prompt = Inr (out, x')"
    and u: "(let common = [(''related_source_file'', PStr path),
                  (''related_source_candidates'', PList candidates),
                  (''related_source_read_attempts'', PInt (attempt + 1))] in
    if reading_failed out
    then bind (first_text (payload_of out) [''message'', ''error''] ''No se pudo leer la fuente relacionada.'') (\<lambda>message.
      Inr (common @ source_failure ''related_source_read_failed'' message, x'))
    else Inr (dmerge (dmerge (o_state_updates out) common)
           [(''related_source_content'', get (payload_of out) ''content''), (''repair_phase'', PStr ''apply_fix''),
            (''failure_type'', PNone), (''failure_stage'', PNone),
            (''failure_message'', get s ''test_failure_summary'')], x')) = Inr (u, x')"
    using assms by (auto simp: read_source_def Let_def elim!: bind_InrE split: if_splits)
  show ?thesis
  proof (cases "reading_failed out")
    case True
    with u have "get u ''related_source_read_attempts'' = PInt (attempt + 1)" "has_key u ''related_source_read_attempts''"
      "\<forall>k \<in> set (''repair_attempts'' # PENDING_KEYS). \<not> has_key u k"
      by (auto simp: source_failure_def PENDING_KEYS_def Let_def elim!: bind_InrE)
    with e that show ?thesis by blast
  next
    case False
    with u have "get u ''related_source_read_attempts'' = PInt (attempt + 1)" "has_key u ''related_source_read_attempts''"
      "\<forall>k \<in> set (''repair_attempts'' # PENDING_KEYS). \<forall>d. getd u k d = getd (o_state_updates out) k d"
      by (auto simp: PENDING_KEYS_def Let_def)
    with e that show ?thesis by blast
  qed
qed

lemma retry_bound:
  assumes "route_after_related_source s = Inr ''retry_read''"
  obtains n a where "py_len (getd s ''related_source_candidates'' (PList [])) = Inr n"
    "as_count (getd s ''related_source_read_attempts'' (PInt 0)) = Inr a" "a < n" "a < 2"
  using assms by (auto simp: route_after_related_source_def ROUTER_REPAIR_ATTEMPTS_def elim!: bind_InrE split: if_splits)

lemma no_length: "\<not> truthy v \<Longrightarrow> py_len v = Inr n \<Longrightarrow> n = 0"
  by (cases v) auto

lemma as_count_natural: "as_count v = Inr a \<Longrightarrow> (case v of PInt i \<Rightarrow> i | _ \<Rightarrow> 0) \<ge> 0 \<Longrightarrow> 0 \<le> a"
  by (cases v) (auto split: if_splits)

context repair_executor
begin

lemma tests_node:
  assumes "execute_tool deps = execute" "execute_tests_node deps x s = Inr (u, x')" "merged s u s'"
    and "get s ''pending_tool_name'' = PStr ''testing__run_tests''" "0 \<le> read_count s"
  shows "no_fix_waits s' \<and> repair_count s' = repair_count s \<and> 0 \<le> read_count s'"
proof -
  obtain arguments out where
    e: "execute x ''testing__run_tests'' arguments s AlreadyApproved = Inr (out, x')"
    and u: "u = reset_related_source (dmerge (o_state_updates out) cleared_approval)"
    using assms(1,2,4) by (auto simp: execute_tests_node_def execute_approved_def elim!: bind_InrE approved_callE)
  have "getd s' ''repair_attempts'' (PInt 0) = getd (o_state_updates out) ''repair_attempts'' (getd s ''repair_attempts'' (PInt 0))"
    using assms(3) by (simp add: merged_def loop_key_list u reset_keeps cleared_last not_approval_keys)
  then have "repair_count s' = repair_count s"
    using keeps_repairs[OF e] by (simp add: counted)
  moreover have "getd s' ''related_source_read_attempts'' (PInt 0) \<in> {PInt (read_count s), PInt 0}"
    using assms(3) reset_reads keeps_reads[OF e]
    by (simp add: merged_def loop_key_list u cleared_last not_approval_keys) (metis cleared_last(2) insert_iff not_approval_keys(2) singletonD)
  then have "0 \<le> read_count s'" using counted(2) assms(5) by auto
  moreover have "get u ''pending_approval_status'' = PStr ''none''" "has_key u ''pending_approval_status''"
    using cleared_last(1) by (simp_all add: u reset_related_source_def cleared_keys APPROVAL_KEYS_def)
  then have "no_fix_waits s'" using cleared_waits assms(3) by blast
  ultimately show ?thesis by simp
qed

lemma fix_node:
  assumes "execute_tool deps = execute" "execute_fix_node deps x s = Inr (u, x')" "merged s u s'"
    and "get s ''pending_tool_name'' = PStr ''filesystem__update_project_files''"
    and "get s ''repair_phase'' = PStr ''apply_fix''"
  shows "no_fix_waits s' \<and> read_count s' = read_count s
    \<and> (get s' ''repair_phase'' = PStr ''apply_fix'' \<or> repair_count s' = repair_count s + 1)"
proof -
  obtain arguments out where
    e: "execute x ''filesystem__update_project_files'' arguments s AlreadyApproved = Inr (out, x')"
    and u: "fix_updates out = Inr u"
    using assms(1,2,4) by (auto simp: execute_fix_node_def elim!: bind_InrE approved_callE)
  show ?thesis
  proof (cases "o_is_error out \<or> get (payload_of out) ''success'' \<noteq> PBool True")
    case True
    then obtain a b where "u = dmerge cleared_approval [(''failure_type'', PStr a),
        (''failure_stage'', PStr ''execute_fix''), (''failure_message'', PStr b)]"
      using u by (auto simp: fix_updates_def Let_def elim!: bind_InrE)
    then have "has_key u k \<Longrightarrow> k \<notin> {''repair_phase'', ''repair_attempts'', ''related_source_read_attempts''}"
      "get u ''pending_approval_status'' = PStr ''none''" "has_key u ''pending_approval_status''" for k
      by (auto simp: cleared_keys APPROVAL_KEYS_def)
    then show ?thesis
      using assms(3,5) merged_kept[OF assms(3), of "[''related_source_read_attempts'']"] cleared_waits[OF _ _ assms(3)]
      by (auto simp: merged_get loop_key_list getd_own intro!: kept_counts(2))
  next
    case False
    with u have u: "u = dmerge (o_state_updates out) cleared_approval" by (simp add: fix_updates_def Let_def)
    have m: "getd s' k v = getd (o_state_updates out) k (getd s k v)"
      if "k \<in> {''repair_phase'', ''repair_attempts'', ''related_source_read_attempts''}" for k v
      using that assms(3) by (auto simp: merged_def loop_key_list u cleared_last not_approval_keys)
    have "read_count s' = read_count s"
      using m[of "''related_source_read_attempts''"] keeps_reads[OF e] by (simp add: counted)
    moreover have "get s' ''repair_phase'' = PStr ''apply_fix'' \<or> repair_count s' = repair_count s + 1"
      using m[of "''repair_phase''"] m[of "''repair_attempts''"] counts_repair[OF e assms(5)]
      by (auto simp: get_getd counted)
    moreover have "no_fix_waits s'"
      using assms(3) by (intro cleared_waits[where u = u]) (simp_all add: u cleared_last cleared_keys APPROVAL_KEYS_def)
    ultimately show ?thesis by simp
  qed
qed

lemma approval_of_updates:
  assumes "execute_tool deps = execute" "execute_tool deps x name args s mode = Inr (out, x')"
    and "k \<in> set PENDING_KEYS"
  shows "\<not> has_key (o_state_updates out) k"
  using updates_in_keys assms pending_keys approval_keys_disjoint by metis

lemma read_test_node:
  assumes "execute_tool deps = execute" "read_failing_test_node deps x s = Inr (u, x')" "merged s u s'"
  shows "kept_keys PENDING_KEYS s s' \<and> repair_count s' = repair_count s \<and> read_count s' = read_count s"
  using read_test_shape[OF assms(2)]
proof (elim disjE exE conjE)
  fix args out
  assume e: "execute_tool deps x ''filesystem__read_file'' args s Prompt = Inr (out, x')"
    and u: "u = dmerge (o_state_updates out) [(''failing_test_content'', get (payload_of out) ''content''),
             (''repair_phase'', PStr ''read_related_source'')]"
  have "\<not> has_key u k" if "k \<in> set PENDING_KEYS" for k
    using that approval_of_updates[OF assms(1) e that] by (auto simp: u PENDING_KEYS_def)
  then have "kept_keys PENDING_KEYS s s'"
    using merged_kept[OF assms(3), of PENDING_KEYS] pending_keys by auto
  moreover have "getd s' k v = getd (o_state_updates out) k (getd s k v)"
    if "k \<in> {''repair_attempts'', ''related_source_read_attempts''}" for k v
    using that assms(3) by (auto simp: merged_def loop_key_list u)
  ultimately show ?thesis
    using keeps_reads keeps_repairs e assms(1) by (simp add: counted)
qed (use kept_by_silence[OF assms(3)] in blast)

lemma source_keeps:
  assumes "execute_tool deps = execute" "read_related_source_node deps x s = Inr (u, x')" "merged s u s'"
  shows "kept_keys PENDING_KEYS s s' \<and> repair_count s' = repair_count s"
proof (cases "\<forall>k \<in> set SILENT_KEYS. \<not> has_key u k")
  case True
  with kept_by_silence[OF assms(3)] show ?thesis by (simp add: SILENT_KEYS_def)
next
  case False
  then obtain candidates attempt where "read_source deps x s candidates attempt = Inr (u, x')"
    using source_shape[OF assms(2)] by blast
  then obtain args out where e: "execute_tool deps x ''filesystem__read_file'' args s Prompt = Inr (out, x')"
    and k: "(\<forall>k \<in> set (''repair_attempts'' # PENDING_KEYS). \<not> has_key u k)
     \<or> (\<forall>k \<in> set (''repair_attempts'' # PENDING_KEYS). \<forall>d. getd u k d = getd (o_state_updates out) k d)"
    by (rule read_source_shape)
  have "kept_keys PENDING_KEYS s s'"
    using k merged_kept[OF assms(3), of PENDING_KEYS] pending_keys approval_of_updates[OF assms(1) e] assms(3)
    by (auto simp: kept_keys_def merged_def getd_no_key)
  moreover have "repair_count s' = repair_count s"
    using k merged_kept[OF assms(3), of "[''repair_attempts'']"] keeps_repairs e assms(1,3)
    by (auto simp: kept_counts loop_key_list merged_def counted)
  ultimately show ?thesis by simp
qed

lemma source_node:
  assumes "execute_tool deps = execute" "read_related_source_node deps x s = Inr (u, x')" "merged s u s'"
    and "0 \<le> read_count s"
  shows "kept_keys PENDING_KEYS s s' \<and> repair_count s' = repair_count s \<and> 0 \<le> read_count s'
    \<and> (route_after_related_source s' = Inr ''retry_read'' \<longrightarrow> read_count s = 0 \<and> read_count s' = 1)"
  using source_shape[OF assms(2)]
proof (elim disjE exE conjE)
  let ?c = "''related_source_candidates''" and ?r = "''related_source_read_attempts''"
  assume silent: "\<forall>k \<in> set SILENT_KEYS. \<not> has_key u k" "\<not> has_key u ?c" "\<not> truthy (get s ?c)"
  have "\<not> truthy (getd s' ?c (PList []))"
    using silent assms(3) by (cases "has_key s ?c") (auto simp: merged_def loop_key_list getd_own getd_has_key getd_no_key)
  moreover have "getd s' ?r (PInt 0) = getd s ?r (PInt 0)"
    using silent(1) assms(3) by (simp add: merged_def loop_key_list getd_own SILENT_KEYS_def)
  ultimately have "route_after_related_source s' \<noteq> Inr ''retry_read''"
    using no_length as_count_natural assms(4)[unfolded read_count_def] by (auto elim!: retry_bound) fastforce
  with kept_by_silence[OF assms(3)] silent(1) assms(4) show ?thesis by (auto simp: SILENT_KEYS_def)
next
  let ?c = "''related_source_candidates''" and ?r = "''related_source_read_attempts''"
  fix candidates attempt
  assume u: "\<forall>k \<in> set SILENT_KEYS. \<not> has_key u k" "get u ?c = PList candidates" "has_key u ?c"
    "as_count (getd s ?r (PInt 0)) = Inr attempt" "int (length candidates) \<le> attempt"
  have "getd s' ?c (PList []) = PList candidates" "getd s' ?r (PInt 0) = getd s ?r (PInt 0)"
    using u assms(3) by (simp_all add: merged_def loop_key_list getd_own SILENT_KEYS_def)
  then have "route_after_related_source s' \<noteq> Inr ''retry_read''"
    using u(4,5) by (auto elim!: retry_bound)
  with kept_by_silence[OF assms(3)] u(1) assms(4) show ?thesis by (auto simp: SILENT_KEYS_def)
next
  let ?r = "''related_source_read_attempts''"
  fix candidates attempt
  assume a: "as_count (getd s ?r (PInt 0)) = Inr attempt" and r: "read_source deps x s candidates attempt = Inr (u, x')"
  obtain args out where e: "execute_tool deps x ''filesystem__read_file'' args s Prompt = Inr (out, x')"
    and n: "get u ?r = PInt (attempt + 1)" "has_key u ?r"
    using r by (rule read_source_shape)
  note e' = e[unfolded assms(1)]
  have "attempt = read_count s" using a counters[OF e'] by auto
  moreover have r': "getd s' ?r (PInt 0) = PInt (attempt + 1)"
    using n assms(3) by (simp add: merged_value loop_key_list)
  ultimately have reads: "read_count s' = read_count s + 1" by (simp add: counted)
  have "route_after_related_source s' = Inr ''retry_read'' \<longrightarrow> read_count s' < 2"
    using r' reads \<open>attempt = read_count s\<close> by (auto elim!: retry_bound)
  then show ?thesis using reads assms(4) source_keeps[OF assms(1-3)] by auto
qed

end

end
