(* ===== verification/TestingRepairProps.thy ===== *)
theory TestingRepairProps
  imports TestingNodes "HOL-Library.Multiset"
begin

text \<open>
  The testing and repair subgraph as a whole: its runs are bounded, and every operation it sends as
  approved was approved by a person, once for each time. The last sections show what the host's own
  guards and the bookkeeping of reads do inside the subgraph.
\<close>

section \<open>The nodes that prepare and approve\<close>

lemma prepare_fix_shape:
  assumes "prepare_fix_node deps x s = Inr (u, x')"
  shows "(\<forall>k \<in> set (''repair_phase'' # SILENT_KEYS). \<not> has_key u k)
    \<or> get s ''repair_phase'' = PStr ''apply_fix''
      \<and> (\<exists>arguments preview. u = pending_approval ''apply_fix'' ''filesystem__update_project_files'' arguments preview)"
proof (cases "missing_fix_context s = []")
  case False
  with assms show ?thesis
    by (auto simp: prepare_fix_node_def Let_def SILENT_KEYS_def PENDING_KEYS_def)
next
  case True
  then have "get s ''repair_phase'' = PStr ''apply_fix''"
    by (auto simp: missing_fix_context_def split: if_splits)
  with True assms show ?thesis by (auto simp: prepare_fix_node_def elim!: bind_InrE split: if_splits)
qed

lemma prepare_test_shape:
  assumes "prepare_test_request_node deps x s = Inr (u, x')"
  obtains arguments preview where "u = pending_approval ''run_tests'' ''testing__run_tests'' arguments preview"
  using assms by (auto simp: prepare_test_request_node_def elim!: bind_InrE)

lemma merged_pending:
  assumes "merged s (pending_approval op tool arguments preview) s'"
  shows "get s' ''pending_operation'' = PStr op" "get s' ''pending_tool_name'' = PStr tool"
    "get s' ''repair_phase'' = get s ''repair_phase''" "repair_count s' = repair_count s" "read_count s' = read_count s"
  using assms merged_kept[OF assms, of "[''repair_attempts'']"]
    merged_kept[OF assms, of "[''related_source_read_attempts'']"]
  by (auto simp: pending_approval_def merged_get loop_key_list kept_counts)

lemma approval_shape:
  assumes "approval_node deps x s = Inr (u, x')"
  obtains decision where "u = approval_updates s decision" "x' = x"
  using assms by (auto simp: approval_node_def Let_def elim!: bind_InrE)

lemma approval_leaves:
  "k \<in> {''repair_attempts'', ''related_source_read_attempts'', ''repair_phase''}
    \<Longrightarrow> \<not> has_key (approval_updates s decision) k"
  by (auto simp: approval_updates_def Let_def split: option.splits bool.splits)

lemma approval_keeps:
  assumes "merged s (approval_updates s decision) s'"
  shows "repair_count s' = repair_count s" "read_count s' = read_count s"
    "get s' ''repair_phase'' = get s ''repair_phase''"
  using merged_kept[OF assms, of "[''repair_attempts'']"] merged_kept[OF assms, of "[''repair_phase'']"]
    merged_kept[OF assms, of "[''related_source_read_attempts'']"]
  by (simp_all add: approval_leaves loop_key_list kept_counts kept_keys_get)

lemma approved_updates:
  assumes "merged s (approval_updates s decision) s'" "get s' ''pending_approval_status'' = PStr ''approved''"
  shows "get s' ''pending_operation'' = get s ''pending_operation''"
    "get s' ''pending_tool_name'' = get s ''pending_tool_name''"
    "get s' ''pending_tool_arguments'' = get s ''pending_tool_arguments''"
    "approved_flag decision = Some True"
  using assms
  by (auto simp: approval_updates_def merged_get loop_key_list Let_def split: option.splits bool.splits)

lemma routed_approval:
  assumes "bind (route_testing_approval s) (follow Approval) = Inr n"
  shows "n = Exit \<or> get s ''pending_approval_status'' = PStr ''approved''
    \<and> (n = ExecuteTests \<and> get s ''pending_operation'' = PStr ''run_tests''
       \<or> n = ExecuteFix \<and> get s ''pending_operation'' = PStr ''apply_fix'')"
  using assms
  by (auto simp: route_testing_approval_def Let_def follow_def elim!: bind_InrE split: if_splits)

lemma count_le: "as_count v = Inr a \<Longrightarrow> (case v of PInt i \<Rightarrow> i | _ \<Rightarrow> 0) \<le> a"
  by (cases v) (auto split: if_splits)

lemma routed_tests:
  assumes "bind (route_after_tests s) (follow ExecuteTests) = Inr n"
  shows "n = Exit \<or> n = ReadTest \<and> repair_count s < 2"
  using assms count_le[of "getd s ''repair_attempts'' (PInt 0)"]
  by (auto simp: route_after_tests_def follow_def ROUTER_REPAIR_ATTEMPTS_def repair_count_def elim!: bind_InrE
      split: if_splits)

lemma routed_source:
  assumes "bind (route_after_related_source s) (follow ReadSource) = Inr n"
  shows "n = Exit \<or> n = PrepareRepair \<or> n = ReadSource \<and> route_after_related_source s = Inr ''retry_read''"
  using assms
  by (auto simp: route_after_related_source_def follow_def elim!: bind_InrE split: if_splits)

lemmas plain_routes = route_testing_entry_def route_after_read_failing_test_def route_after_prepare_fix_def
  route_after_execute_fix_def follow_def Let_def

section \<open>The rank of a configuration\<close>

definition repairs_ahead :: "int \<Rightarrow> int" where
  "repairs_ahead r = 11 * max 0 (2 - r)"

definition rounds_ahead :: "int \<Rightarrow> int" where
  "rounds_ahead r = 11 * max 1 (2 - r)"

fun rank :: "testing_node \<Rightarrow> pydict \<Rightarrow> int" where
  "rank Entry s = rounds_ahead (repair_count s) + 6"
| "rank PrepareQA s = repairs_ahead (repair_count s) + 5"
| "rank PrepareTest s = repairs_ahead (repair_count s) + 4"
| "rank Approval s = (if get s ''pending_operation'' = PStr ''apply_fix'' then rounds_ahead (repair_count s) - 4
     else repairs_ahead (repair_count s) + 3)"
| "rank ExecuteTests s = repairs_ahead (repair_count s) + 2"
| "rank ReadTest s = rounds_ahead (repair_count s) + 1"
| "rank ReadSource s = rounds_ahead (repair_count s) - (if read_count s \<le> 0 then 0 else 1)"
| "rank PrepareRepair s = rounds_ahead (repair_count s) - 2"
| "rank PrepareFix s = rounds_ahead (repair_count s) - 3"
| "rank ExecuteFix s = rounds_ahead (repair_count s) - 5"
| "rank Exit s = 1"
| "rank Done s = 0"

fun loop_ok :: "testing_node \<Rightarrow> pydict \<Rightarrow> bool" where
  "loop_ok Approval s \<longleftrightarrow> 0 \<le> read_count s \<and>
     (get s ''pending_operation'' = PStr ''run_tests'' \<and> get s ''pending_tool_name'' = PStr ''testing__run_tests''
      \<or> get s ''pending_operation'' = PStr ''apply_fix''
        \<and> get s ''pending_tool_name'' = PStr ''filesystem__update_project_files''
        \<and> get s ''repair_phase'' = PStr ''apply_fix'')"
| "loop_ok ExecuteTests s \<longleftrightarrow> 0 \<le> read_count s \<and> get s ''pending_tool_name'' = PStr ''testing__run_tests''"
| "loop_ok ExecuteFix s \<longleftrightarrow> 0 \<le> read_count s \<and> get s ''pending_tool_name'' = PStr ''filesystem__update_project_files''
     \<and> get s ''repair_phase'' = PStr ''apply_fix''"
| "loop_ok Exit s \<longleftrightarrow> True"
| "loop_ok Done s \<longleftrightarrow> True"
| "loop_ok n s \<longleftrightarrow> 0 \<le> read_count s \<and> no_fix_waits s"

lemma ahead_bounds:
  "11 \<le> rounds_ahead r" "0 \<le> repairs_ahead r" "repairs_ahead r \<le> rounds_ahead r"
  "r < 2 \<Longrightarrow> repairs_ahead r = rounds_ahead r" "repairs_ahead (r + 1) \<le> rounds_ahead r - 11"
  by (auto simp: rounds_ahead_def repairs_ahead_def max_def)

lemma rank_nonneg: "0 \<le> rank n s"
  using ahead_bounds(1,2)[of "repair_count s"] by (cases n) auto

text \<open>The nodes that neither change the counters nor touch what waits for an approval.\<close>

lemma quiet_step:
  assumes "kept_keys PENDING_KEYS s s' \<and> repair_count s' = repair_count s \<and> read_count s' = read_count s"
    and "0 \<le> read_count s" "no_fix_waits s"
  shows "0 \<le> read_count s'" "no_fix_waits s'" "repair_count s' = repair_count s" "read_count s' = read_count s"
  using assms kept_no_fix_waits by auto

lemma silent_keys: "k \<in> set SILENT_KEYS \<Longrightarrow> k \<in> set LOOP_KEYS"
  by (auto simp: SILENT_KEYS_def PENDING_KEYS_def LOOP_KEYS_def)

lemma silent_step:
  assumes "merged s u s'" "\<And>k. k \<in> set SILENT_KEYS \<Longrightarrow> \<not> has_key u k" "0 \<le> read_count s" "no_fix_waits s"
  shows "0 \<le> read_count s'" "no_fix_waits s'" "repair_count s' = repair_count s" "read_count s' = read_count s"
  using quiet_step[OF kept_by_silence[OF assms(1)]] assms(2-4) by (simp_all add: SILENT_KEYS_def)

text \<open>Every step keeps \<open>loop_ok\<close> and goes down in rank.\<close>

lemma step_parts:
  assumes "testing_step settings merge deps (n, x, s) = Inr (n', x', s')" "overwrites merge"
  obtains u where "run_node settings n deps x s = Inr (u, x')" "merged s u s'" "next_node n s' = Inr n'"
  using assms by (auto simp: Let_def overwritten elim!: bind_InrE)

definition goes_down :: "testing_node \<Rightarrow> pydict \<Rightarrow> testing_node \<Rightarrow> pydict \<Rightarrow> bool" where
  "goes_down n s n' s' \<longleftrightarrow> loop_ok n' s' \<and> rank n' s' < rank n s"

lemma entry_goes_down:
  assumes "merged s [] s'" "next_node Entry s' = Inr n'" "loop_ok Entry s"
  shows "goes_down Entry s n' s'"
  using silent_step[OF assms(1)] assms(2,3) ahead_bounds[of "repair_count s"]
  by (auto simp: plain_routes goes_down_def split: if_splits)

lemma knowledge_goes_down:
  assumes "merged s u s'" "\<And>k. k \<in> set LOOP_KEYS \<Longrightarrow> \<not> has_key u k" "loop_ok n s"
    and "(n, n') \<in> {(PrepareQA, PrepareTest), (PrepareRepair, PrepareFix)}"
  shows "goes_down n s n' s'"
  using silent_step[OF assms(1)] assms(2-4) silent_keys by (auto simp: goes_down_def)

lemma prepare_test_goes_down:
  assumes "merged s u s'" "prepare_test_request_node deps x s = Inr (u, x')" "loop_ok PrepareTest s"
  shows "goes_down PrepareTest s Approval s'"
proof -
  obtain arguments preview where "merged s (pending_approval ''run_tests'' ''testing__run_tests'' arguments preview) s'"
    using assms(1,2) prepare_test_shape by metis
  with merged_pending[OF this] assms(3) show ?thesis by (simp add: goes_down_def)
qed

lemma approval_goes_down:
  assumes "merged s u s'" "approval_node deps x s = Inr (u, x')" "next_node Approval s' = Inr n'" "loop_ok Approval s"
  shows "goes_down Approval s n' s'"
proof -
  obtain decision where m: "merged s (approval_updates s decision) s'"
    using assms(1,2) approval_shape by metis
  show ?thesis
    using routed_approval[of s' n'] approval_keeps[OF m] approved_updates[OF m] assms(3,4)
      ahead_bounds[of "repair_count s"]
    by (auto simp: goes_down_def)
qed

lemma prepare_fix_goes_down:
  assumes "merged s u s'" "prepare_fix_node deps x s = Inr (u, x')" "next_node PrepareFix s' = Inr n'" "loop_ok PrepareFix s"
  shows "goes_down PrepareFix s n' s'"
  using prepare_fix_shape[OF assms(2)]
proof
  assume "\<forall>k \<in> set (''repair_phase'' # SILENT_KEYS). \<not> has_key u k"
  then have "no_fix_waits s'" using silent_step(2)[OF assms(1)] assms(4) by auto
  with assms(3) have "n' = Exit" by (auto simp: plain_routes no_fix_waits_def split: if_splits)
  then show ?thesis using ahead_bounds(1)[of "repair_count s"] by (simp add: goes_down_def)
next
  assume "get s ''repair_phase'' = PStr ''apply_fix''
      \<and> (\<exists>arguments preview. u = pending_approval ''apply_fix'' ''filesystem__update_project_files'' arguments preview)"
  then obtain arguments preview where ph: "get s ''repair_phase'' = PStr ''apply_fix''"
    and m: "merged s (pending_approval ''apply_fix'' ''filesystem__update_project_files'' arguments preview) s'"
    using assms(1) by blast
  show ?thesis
    using merged_pending[OF m] ph assms(3,4) ahead_bounds(1)[of "repair_count s"]
    by (auto simp: plain_routes goes_down_def split: if_splits)
qed

context repair_executor
begin

lemma tests_goes_down:
  assumes "execute_tool deps = execute" "merged s u s'" "execute_tests_node deps x s = Inr (u, x')"
    and "next_node ExecuteTests s' = Inr n'" "loop_ok ExecuteTests s"
  shows "goes_down ExecuteTests s n' s'"
  using tests_node[OF assms(1,3,2)] routed_tests[of s' n'] assms(4,5) ahead_bounds[of "repair_count s"]
  by (auto simp: goes_down_def)

lemma read_test_goes_down:
  assumes "execute_tool deps = execute" "merged s u s'" "read_failing_test_node deps x s = Inr (u, x')"
    and "next_node ReadTest s' = Inr n'" "loop_ok ReadTest s"
  shows "goes_down ReadTest s n' s'"
  using quiet_step[OF read_test_node[OF assms(1,3,2)]] assms(4,5) ahead_bounds[of "repair_count s"]
  by (auto simp: goes_down_def plain_routes split: if_splits)

lemma source_goes_down:
  assumes "execute_tool deps = execute" "merged s u s'" "read_related_source_node deps x s = Inr (u, x')"
    and "next_node ReadSource s' = Inr n'" "loop_ok ReadSource s"
  shows "goes_down ReadSource s n' s'"
  using source_node[OF assms(1,3,2)] kept_no_fix_waits[of s s'] routed_source[of s' n'] assms(4,5)
    ahead_bounds[of "repair_count s"]
  by (auto simp: goes_down_def)

lemma fix_goes_down:
  assumes "execute_tool deps = execute" "merged s u s'" "execute_fix_node deps x s = Inr (u, x')"
    and "next_node ExecuteFix s' = Inr n'" "loop_ok ExecuteFix s"
  shows "goes_down ExecuteFix s n' s'"
  using fix_node[OF assms(1,3,2)] assms(4,5) ahead_bounds[of "repair_count s"]
  by (auto simp: goes_down_def plain_routes split: if_splits)

lemma step_goes_down:
  assumes "testing_step settings merge deps (n, x, s) = Inr (n', x', s')" "overwrites merge"
    and "execute_tool deps = execute" "n \<noteq> Done" "loop_ok n s"
  shows "goes_down n s n' s'"
proof -
  obtain u where r: "run_node settings n deps x s = Inr (u, x')" and m: "merged s u s'" and n': "next_node n s' = Inr n'"
    using assms(1,2) by (rule step_parts)
  show ?thesis
  proof (cases n)
    case Entry
    with r m n' assms(5) entry_goes_down show ?thesis by (simp add: silent_node_def)
  next
    case Exit
    with n' show ?thesis by (simp add: goes_down_def)
  next
    case PrepareQA
    with r merged_logged[OF _ m] obtain v where "prepare_qa_knowledge settings deps x s = Inr (v, x')" "merged s v s'"
      by (metis run_node.simps(2))
    with PrepareQA n' assms(5) show ?thesis by (intro knowledge_goes_down[where u = v]) (auto dest: qa_keys)
  next
    case PrepareRepair
    with r merged_logged[OF _ m] obtain v where "prepare_repair_knowledge settings deps x s = Inr (v, x')" "merged s v s'"
      by (metis run_node.simps(3))
    with PrepareRepair n' assms(5) show ?thesis by (intro knowledge_goes_down[where u = v]) (auto dest: repair_keys)
  next
    case PrepareTest
    with r merged_logged[OF _ m] obtain v where "prepare_test_request_node deps x s = Inr (v, x')" "merged s v s'"
      by (metis run_node.simps(4))
    with PrepareTest n' assms(5) show ?thesis by (auto intro: prepare_test_goes_down simp del: loop_ok.simps)
  next
    case Approval
    with r merged_logged[OF _ m] obtain v where "approval_node deps x s = Inr (v, x')" "merged s v s'"
      by (metis run_node.simps(5))
    with approval_goes_down Approval n' assms(5) show ?thesis by metis
  next
    case ExecuteTests
    with r merged_logged[OF _ m] obtain v where "execute_tests_node deps x s = Inr (v, x')" "merged s v s'"
      by (metis run_node.simps(6))
    with tests_goes_down[OF assms(3)] ExecuteTests n' assms(5) show ?thesis by metis
  next
    case ReadTest
    with r merged_logged[OF _ m] obtain v where "read_failing_test_node deps x s = Inr (v, x')" "merged s v s'"
      by (metis run_node.simps(7))
    with read_test_goes_down[OF assms(3)] ReadTest n' assms(5) show ?thesis by metis
  next
    case ReadSource
    with r merged_logged[OF _ m] obtain v where "read_related_source_node deps x s = Inr (v, x')" "merged s v s'"
      by (metis run_node.simps(8))
    with source_goes_down[OF assms(3)] ReadSource n' assms(5) show ?thesis by metis
  next
    case PrepareFix
    with r merged_logged[OF _ m] obtain v where "prepare_fix_node deps x s = Inr (v, x')" "merged s v s'"
      by (metis run_node.simps(9))
    with prepare_fix_goes_down PrepareFix n' assms(5) show ?thesis by metis
  next
    case ExecuteFix
    with r merged_logged[OF _ m] obtain v where "execute_fix_node deps x s = Inr (v, x')" "merged s v s'"
      by (metis run_node.simps(10))
    with fix_goes_down[OF assms(3)] ExecuteFix n' assms(5) show ?thesis by metis
  qed (use assms(4) in simp)
qed

lemma run_goes_down:
  assumes "testing_run settings merge execute (n0, x0, s0) k gs config" "overwrites merge" "loop_ok n0 s0"
  shows "loop_ok (fst config) (snd (snd config))
    \<and> int k + rank (fst config) (snd (snd config)) \<le> rank n0 s0"
  using assms(1)
proof induction
  case (one_step k gs n x state deps n' x' state')
  then have "goes_down n state n' state'" using assms(2) by (intro step_goes_down) auto
  with one_step show ?case by (auto simp: goes_down_def)
qed (simp add: assms(3))

end

section \<open>Approvals are used once\<close>

text \<open>The calls that were sent because a node vouched for their approval.\<close>

fun vouched :: "host_event list \<Rightarrow> (pyval \<times> pyval) list" where
  "vouched (Sent tool args AlreadyApproved # hist) =
     (if public_name tool \<in> set rewritten_tools then [] else [(PStr (public_name tool), PDict args)]) @ vouched hist"
| "vouched (_ # hist) = vouched hist"
| "vouched [] = []"

lemma vouched_append: "vouched (a @ b) = vouched a @ vouched b"
  by (induction a rule: vouched.induct) auto

lemma vouched_prompt: "sends_for name args Prompt evs \<Longrightarrow> vouched evs = []"
  by (auto simp: sends_for_def)

lemma vouched_approved: "sends_for name args AlreadyApproved evs \<Longrightarrow> mset (vouched evs) \<subseteq># {#(PStr name, PDict args)#}"
  by (auto simp: sends_for_def)

text \<open>The approval a state holds that was not used yet.\<close>

definition credit :: "pydict \<Rightarrow> (pyval \<times> pyval) list" where
  "credit s = (if get s ''pending_approval_status'' = PStr ''approved''
     then [(get s ''pending_tool_name'', get s ''pending_tool_arguments'')] else [])"

lemma credit_kept: "kept_keys PENDING_KEYS s s' \<Longrightarrow> credit s' = credit s"
  by (simp add: credit_def kept_keys_get pending_key_list)

lemma credit_silent: "merged s u s' \<Longrightarrow> (\<And>k. k \<in> set PENDING_KEYS \<Longrightarrow> \<not> has_key u k) \<Longrightarrow> credit s' = credit s"
  by (intro credit_kept merged_kept) (use pending_keys in auto)

lemma credit_pending: "merged s (pending_approval op tool arguments preview) s' \<Longrightarrow> credit s' = []"
  by (simp add: credit_def merged_get loop_key_list pending_approval_def)

lemma said_yes_flag: "approved_flag v = Some True \<longleftrightarrow> said_yes v"
  by (cases v) (auto split: pyval.splits)

lemma proper_answer_ok: "first_decision_ok v \<longleftrightarrow> proper_answer v"
  by (cases v) (auto simp: first_decision_ok_def reason_of_def split: pyval.splits)

lemma shown_operation:
  "get (approval_request s project) ''public_tool_name'' = get s ''pending_tool_name''"
  "get (approval_request s project) ''arguments'' = get s ''pending_tool_arguments''"
  by (simp_all add: approval_request_def)

lemma credit_approval:
  assumes "approval_node deps x s = Inr (u, x')" "merged s u s'"
  shows "mset (credit s') \<subseteq># mset (grants Approval deps s)"
proof (cases "get s' ''pending_approval_status'' = PStr ''approved''")
  case True
  from assms(1) obtain project where p: "project_name_of s = Inr project"
    and u: "u = approval_updates s (last_answer deps (approval_request s project))"
    by (auto simp: approval_node_def last_answer_def proper_answer_ok Let_def elim!: bind_InrE)
  note a = approved_updates[OF assms(2)[unfolded u] True]
  have "said_yes (last_answer deps (approval_request s project))" using a(4) by (simp add: said_yes_flag)
  with True a p show ?thesis by (simp add: credit_def grants_def shown_operation)
qed (simp add: credit_def)

lemma credit_cleared:
  "merged s u s' \<Longrightarrow> has_key u ''pending_approval_status'' \<Longrightarrow> get u ''pending_approval_status'' = PStr ''none'' \<Longrightarrow> credit s' = []"
  by (simp add: credit_def merged_get loop_key_list getd_own)

lemma retrieval_calls:
  assumes "retrieve_knowledge settings agent role project request build deps x s = Inr (u, x')"
  shows "x' = x \<or> (\<exists>name args out. execute_tool deps x name args s Prompt = Inr (out, x'))"
proof (cases "project = []")
  case False
  with assms have "caught
       (bind (execute_tool deps x ''knowledge__get_relevant_context''
               (knowledge_arguments (obs_context settings) request project agent) s Prompt) (\<lambda>(out, x').
        bind (caught (knowledge_updates role request build out) (unavailable role (kq_query request)))
          (\<lambda>updates. Inr (updates, x')))) (unavailable role (kq_query request), x) = Inr (u, x')"
    by (simp add: retrieve_knowledge_def Let_def)
  from caught_Inr[OF this] show ?thesis by (auto elim!: bind_InrE)
qed (use assms in \<open>auto simp: retrieve_knowledge_def Let_def\<close>)

lemma knowledge_calls:
  "prepare_qa_knowledge settings deps x s = Inr (u, x') \<Longrightarrow>
    x' = x \<or> (\<exists>name args out. execute_tool deps x name args s Prompt = Inr (out, x'))"
  "prepare_repair_knowledge settings deps x s = Inr (u, x') \<Longrightarrow>
    x' = x \<or> (\<exists>name args out. execute_tool deps x name args s Prompt = Inr (out, x'))"
  by (auto simp: prepare_qa_knowledge_def prepare_repair_knowledge_def elim!: bind_InrE
      split: if_splits dest!: retrieval_calls)

lemma reading_calls:
  "read_failing_test_node deps x s = Inr (u, x') \<Longrightarrow>
    x' = x \<or> (\<exists>name args out. execute_tool deps x name args s Prompt = Inr (out, x'))"
  by (auto simp: read_failing_test_node_def Let_def elim!: bind_InrE split: if_splits)

lemma source_calls:
  assumes "read_related_source_node deps x s = Inr (u, x')"
  shows "x' = x \<or> (\<exists>name args out. execute_tool deps x name args s Prompt = Inr (out, x'))"
proof (cases "related_source_candidates (imports_of deps) s")
  case (Inl e)
  with assms show ?thesis by (cases e) (auto simp: read_related_source_node_def)
next
  case (Inr candidates)
  with assms show ?thesis
    by (auto simp: read_related_source_node_def elim!: bind_InrE read_source_shape split: if_splits)
qed

lemma quiet_nodes:
  "prepare_test_request_node deps x s = Inr (u, x') \<Longrightarrow> x' = x"
  "prepare_fix_node deps x s = Inr (u, x') \<Longrightarrow> x' = x"
  "approval_node deps x s = Inr (u, x') \<Longrightarrow> x' = x"
  by (auto simp: prepare_test_request_node_def prepare_fix_node_def approval_node_def Let_def elim!: bind_InrE
      split: if_splits)

lemma executing_shape:
  assumes "execute_tests_node deps x s = Inr (u, x') \<or> execute_fix_node deps x s = Inr (u, x')"
  obtains arguments out where "execute_approved_call deps x s = Inr (arguments, out, x')"
    "has_key u ''pending_approval_status''" "get u ''pending_approval_status'' = PStr ''none''"
proof -
  obtain arguments out where c: "execute_approved_call deps x s = Inr (arguments, out, x')"
    and u: "u = reset_related_source (dmerge (o_state_updates out) cleared_approval) \<or> fix_updates out = Inr u"
    using assms by (auto simp: execute_tests_node_def execute_approved_def execute_fix_node_def elim!: bind_InrE)
  from u have "has_key u ''pending_approval_status''" "get u ''pending_approval_status'' = PStr ''none''"
    using cleared_last(1)
    by (auto simp: fix_updates_def reset_related_source_def cleared_keys APPROVAL_KEYS_def Let_def elim!: bind_InrE
        split: if_splits)
  with c that show ?thesis by blast
qed

context repair_executor
begin

lemma prompted_vouches:
  "execute_tool deps = execute \<Longrightarrow> x' = x \<or> (\<exists>name args out. execute_tool deps x name args s Prompt = Inr (out, x'))
    \<Longrightarrow> vouched (events x') = vouched (events x)"
  using sends vouched_prompt by (metis append_Nil2 vouched_append)

lemma executing_vouches:
  assumes "execute_tool deps = execute" "execute_approved_call deps x s = Inr (arguments, out, x')"
  shows "mset (vouched (events x')) \<subseteq># mset (vouched (events x)) + mset (credit s)"
proof -
  obtain name where n: "get s ''pending_tool_name'' = PStr name" "get s ''pending_tool_arguments'' = PDict arguments"
    "get s ''pending_approval_status'' = PStr ''approved''" and "execute x name arguments s AlreadyApproved = Inr (out, x')"
    using assms by (auto elim: approved_callE)
  with sends obtain evs where "events x' = events x @ evs" "sends_for name arguments AlreadyApproved evs" by metis
  with vouched_approved n show ?thesis by (simp add: vouched_append credit_def)
qed

text \<open>What a step adds to the vouched calls is paid for by the approval of before or of this step.\<close>

definition paid :: "testing_node \<Rightarrow> 'x GraphDependencies \<Rightarrow> 'x \<Rightarrow> pydict \<Rightarrow> 'x \<Rightarrow> pydict \<Rightarrow> bool" where
  "paid n deps x s x' s' \<longleftrightarrow> mset (vouched (events x')) + mset (credit s')
     \<subseteq># mset (vouched (events x)) + mset (credit s) + mset (grants n deps s)"

lemma paid_quiet: "vouched (events x') = vouched (events x) \<Longrightarrow> credit s' = credit s \<or> credit s' = [] \<Longrightarrow> paid n deps x s x' s'"
  by (auto simp: paid_def intro: subset_mset.add_increasing2)

lemma paid_executing:
  assumes "execute_tool deps = execute" "merged s u s'"
    and "execute_tests_node deps x s = Inr (u, x') \<or> execute_fix_node deps x s = Inr (u, x')"
  shows "paid n deps x s x' s'"
proof -
  obtain arguments out where c: "execute_approved_call deps x s = Inr (arguments, out, x')"
    and u: "has_key u ''pending_approval_status''" "get u ''pending_approval_status'' = PStr ''none''"
    using assms(3) by (rule executing_shape)
  have "mset (vouched (events x')) \<subseteq># mset (vouched (events x)) + mset (credit s)"
    using executing_vouches[OF assms(1) c] .
  then show ?thesis
    using credit_cleared[OF assms(2) u] by (simp add: paid_def subset_mset.add_increasing2)
qed

lemma paid_approval:
  assumes "approval_node deps x s = Inr (u, x')" "merged s u s'"
  shows "paid Approval deps x s x' s'"
proof -
  have "x' = x" using quiet_nodes(3)[OF assms(1)] .
  then show ?thesis
    using credit_approval[OF assms] by (simp add: paid_def subset_mset.add_increasing)
qed

lemma paid_preparing:
  assumes "merged s u s'"
    and "prepare_test_request_node deps x s = Inr (u, x') \<or> prepare_fix_node deps x s = Inr (u, x')"
  shows "paid n deps x s x' s'"
proof -
  have "x' = x" using assms(2) by (auto dest: quiet_nodes)
  moreover have "credit s' = credit s \<or> credit s' = []"
    using assms(2)
  proof
    assume "prepare_test_request_node deps x s = Inr (u, x')"
    then obtain arguments preview where "u = pending_approval ''run_tests'' ''testing__run_tests'' arguments preview"
      by (rule prepare_test_shape)
    with credit_pending assms(1) show ?thesis by auto
  next
    assume "prepare_fix_node deps x s = Inr (u, x')"
    from prepare_fix_shape[OF this] show ?thesis
      using credit_silent[OF assms(1)] credit_pending assms(1) by (auto simp: SILENT_KEYS_def)
  qed
  ultimately show ?thesis by (simp add: paid_quiet)
qed

lemma paid_reading:
  assumes "execute_tool deps = execute" "merged s u s'"
    and "read_failing_test_node deps x s = Inr (u, x') \<or> read_related_source_node deps x s = Inr (u, x')"
  shows "paid n deps x s x' s'"
  using assms(3)
proof
  assume r: "read_failing_test_node deps x s = Inr (u, x')"
  show ?thesis
    using prompted_vouches[OF assms(1) reading_calls[OF r]] credit_kept read_test_node[OF assms(1) r assms(2)]
    by (intro paid_quiet) auto
next
  assume r: "read_related_source_node deps x s = Inr (u, x')"
  show ?thesis
    using prompted_vouches[OF assms(1) source_calls[OF r]] credit_kept source_keeps[OF assms(1) r assms(2)]
    by (intro paid_quiet) auto
qed

lemma paid_knowledge:
  assumes "execute_tool deps = execute" "merged s u s'"
    and "prepare_qa_knowledge settings deps x s = Inr (u, x') \<or> prepare_repair_knowledge settings deps x s = Inr (u, x')"
  shows "paid n deps x s x' s'"
proof -
  have "\<not> has_key u k" if "k \<in> set PENDING_KEYS" for k
    using assms(3) that qa_keys repair_keys pending_keys by metis
  then have "credit s' = credit s" using credit_silent[OF assms(2)] by blast
  moreover have "vouched (events x') = vouched (events x)"
    using assms(3) prompted_vouches[OF assms(1)] knowledge_calls by metis
  ultimately show ?thesis by (simp add: paid_quiet)
qed

lemma step_paid:
  assumes "testing_step settings merge deps (n, x, s) = Inr (n', x', s')" "overwrites merge" "execute_tool deps = execute"
  shows "paid n deps x s x' s'"
proof -
  obtain u where r: "run_node settings n deps x s = Inr (u, x')" and m: "merged s u s'"
    using assms(1,2) by (rule step_parts)
  consider (silent) "n \<in> {Entry, Exit, Done}" "x' = x" "u = []"
    | (logged) v name and f :: "'x node" where "run_node settings n = logged_node (env_var settings) name f"
        "f deps x s = Inr (v, x')" "merged s v s'"
        "(n, f) \<in> {(PrepareQA, prepare_qa_knowledge settings), (PrepareRepair, prepare_repair_knowledge settings),
          (PrepareTest, prepare_test_request_node), (Approval, approval_node), (ExecuteTests, execute_tests_node),
          (ReadTest, read_failing_test_node), (ReadSource, read_related_source_node),
          (PrepareFix, prepare_fix_node), (ExecuteFix, execute_fix_node)}"
  proof (cases "n \<in> {Entry, Exit, Done}")
    case True
    with r that(1) show ?thesis by (auto simp: silent_node_def)
  next
    case False
    then obtain name and f :: "'x node" where f: "run_node settings n = logged_node (env_var settings) name f"
      "(n, f) \<in> {(PrepareQA, prepare_qa_knowledge settings), (PrepareRepair, prepare_repair_knowledge settings),
          (PrepareTest, prepare_test_request_node), (Approval, approval_node), (ExecuteTests, execute_tests_node),
          (ReadTest, read_failing_test_node), (ReadSource, read_related_source_node),
          (PrepareFix, prepare_fix_node), (ExecuteFix, execute_fix_node)}"
      by (cases n) auto
    from r have "logged_node (env_var settings) name f deps x s = Inr (u, x')" by (simp add: f(1))
    then obtain v where "f deps x s = Inr (v, x')" "merged s v s'"
      using m by (rule merged_logged)
    with f that(2) show ?thesis by blast
  qed
  then show ?thesis
  proof cases
    case silent
    with m credit_silent[of s "[]" s'] show ?thesis by (simp add: paid_quiet)
  next
    case logged
    then show ?thesis
      using paid_knowledge[OF assms(3) logged(3)] paid_reading[OF assms(3) logged(3)] paid_preparing[OF logged(3), of deps x x' n]
        paid_approval[OF _ logged(3)] paid_executing[OF assms(3) logged(3)]
      by auto
  qed
qed

lemma run_paid:
  assumes "testing_run settings merge execute (n0, x0, s0) k gs config" "overwrites merge"
  shows "mset (vouched (events (fst (snd config)))) + mset (credit (snd (snd config)))
    \<subseteq># mset (vouched (events x0)) + mset (credit s0) + mset gs"
  using assms(1)
proof induction
  case (one_step k gs n x state deps n' x' state')
  then have "paid n deps x state x' state'" using assms(2) step_paid by metis
  then have "mset (vouched (events x')) + mset (credit state')
      \<subseteq># mset (vouched (events x)) + mset (credit state) + mset (grants n deps state)"
    by (simp add: paid_def)
  also have "\<dots> \<subseteq># mset (vouched (events x0)) + mset (credit s0) + mset gs + mset (grants n deps state)"
    using one_step.IH by (intro subset_mset.add_right_mono) simp
  finally show ?case by (simp add: ac_simps)
qed simp

end

section \<open>The subgraph with the host\<close>

text \<open>(C16) The testing and repair subgraph ends: whatever the model, the person and the servers answer,
  a run that enters with no fix waiting for an approval and a count of reads that is not negative takes at most 28 steps when no repair was
  made before, 17 after one repair, and never more than the repairs that are left allow.\<close>

theorem testing_runs_end:
  assumes "testing_run settings merge (host_execute env contexts) (Entry, h, s) k approvals config"
    and "overwrites merge" "0 \<le> read_count s" "no_fix_waits s"
  shows "int k \<le> 11 * max 1 (2 - repair_count s) + 6"
  using host_repairs.run_goes_down[OF assms(1,2)] assms(3,4) rank_nonneg[of "fst config" "snd (snd config)"]
  by (simp add: rounds_ahead_def)

text \<open>(C6) Each approval is used once. The approvals of a run are read off the answers of the person:
  the tool and the arguments shown in a question whose last answer was yes. Along a run of the
  subgraph, the calls that reach a server because a node vouches for their approval are, with
  their tool and arguments, among these approvals and the one the state held, not yet used, at
  the start; what the state holds at the end is not used yet. So no approval is used twice, for
  another tool or for other arguments, and no answer but yes is an approval.\<close>

theorem approvals_are_used_once:
  assumes "testing_run settings merge (host_execute env contexts) (n, h, s) k approvals (n', h', s')"
    and "overwrites merge"
  shows "mset (vouched (history h')) + mset (credit s')
    \<subseteq># mset (vouched (history h)) + mset (credit s) + mset approvals"
  using host_repairs.run_paid[OF assms] by simp

section \<open>Examples of runs\<close>

fun testing_steps ::
  "Settings \<Rightarrow> (pydict \<Rightarrow> pydict \<Rightarrow> pydict) \<Rightarrow> 'x GraphDependencies \<Rightarrow> nat \<Rightarrow> 'x testing_config \<Rightarrow>
   nat \<times> (pyval \<times> pyval) list \<Rightarrow> exn + (nat \<times> (pyval \<times> pyval) list) \<times> 'x testing_config" where
  "testing_steps settings merge deps 0 (n, x, s) (k, gs) = Inr ((k, gs), (n, x, s))"
| "testing_steps settings merge deps (Suc fuel) (n, x, s) (k, gs) =
     (if n = Done then Inr ((k, gs), (n, x, s))
      else bind (testing_step settings merge deps (n, x, s)) (\<lambda>(n', x', s').
        testing_steps settings merge deps fuel (n', x', s') (Suc k, gs @ grants n deps s)))"

lemma testing_steps_run:
  "testing_steps settings merge deps fuel config (k, gs) = Inr ((k', gs'), config') \<Longrightarrow>
    testing_run settings merge (execute_tool deps) start k gs config \<Longrightarrow>
    testing_run settings merge (execute_tool deps) start k' gs' config'"
proof (induction settings merge deps fuel config "(k, gs)" arbitrary: k gs rule: testing_steps.induct)
  case (2 settings merge deps fuel n x s k gs)
  show ?case
  proof (cases "n = Done")
    case False
    with 2(2) obtain n' x' s' where step: "testing_step settings merge deps (n, x, s) = Inr (n', x', s')"
      and rest: "testing_steps settings merge deps fuel (n', x', s') (Suc k, gs @ grants n deps s) = Inr ((k', gs'), config')"
      by (auto simp del: testing_step.simps elim!: bind_InrE)
    from one_step[OF 2(3) False refl step] 2(1)[OF False step refl refl rest] show ?thesis by simp
  qed (use 2 in simp)
qed simp

definition quiet_settings :: Settings where
  "quiet_settings = \<lparr>env_var = (\<lambda>_. None),
     obs_context = \<lparr>ctx_workflow_id = None, ctx_branch_id = None, ctx_agent = None, ctx_trace_id = None, ctx_span_id = None\<rparr>\<rparr>"

definition approving :: "Host GraphDependencies" where
  "approving = \<lparr>execute_tool = host_execute (passing_env ''n'') [], argument_resolver = None,
     model_items = (\<lambda>_ _. Inr []), interrupt = (\<lambda>_. PDict [(''approved'', PBool True)]), imports_of = (\<lambda>_. None)\<rparr>"

definition demo_state :: pydict where
  "demo_state = [(''original_user_message'', PStr ''m''), (''project_name'', PStr ''demo'')]"

definition fork_state :: pydict where
  "fork_state = demo_state @ [(''fork_origin_checkpoint_id'', PStr ''c''), (''repair_phase'', PStr ''read_failing_test'')]"

lemma overlay_overwrites: "overwrites overlay"
  by (simp add: overwrites_def overlay_def getd_append)

abbreviation demo_run :: "pyval \<times> pyval" where
  "demo_run \<equiv> (PStr ''testing__run_tests'', PDict [(''project_name'', PStr ''demo'')])"

lemma evaluated_runs:
  "(case testing_steps quiet_settings overlay approving 10 (Entry, new_host, fork_state) (0, []) of
     Inr ((k, gs), (n, x, s)) \<Rightarrow> k = 3 \<and> gs = [] \<and> n = Done | Inl e \<Rightarrow> False)"
  "(case testing_steps quiet_settings overlay approving 10 (PrepareTest, new_host, demo_state) (0, []) of
     Inr ((k, gs), (n, x, s)) \<Rightarrow> n = Done \<and> gs = [demo_run] \<and> vouched (history x) = [demo_run] | Inl e \<Rightarrow> False)"
  by code_simp+

theorem testing_runs_end_witness:
  "\<exists>h s. testing_run quiet_settings overlay (host_execute (passing_env ''n'') []) (Entry, new_host, fork_state) 3 [] (Done, h, s)
     \<and> int 3 \<le> 11 * max 1 (2 - repair_count fork_state) + 6"
proof -
  have d: "execute_tool approving = host_execute (passing_env ''n'') []" by (simp add: approving_def)
  obtain h s where "testing_steps quiet_settings overlay approving 10 (Entry, new_host, fork_state) (0, []) = Inr ((3, []), (Done, h, s))"
    using evaluated_runs(1) by (auto split: sum.splits prod.splits)
  from testing_steps_run[OF this begin_run] have r: "testing_run quiet_settings overlay (host_execute (passing_env ''n'') [])
      (Entry, new_host, fork_state) 3 [] (Done, h, s)" by (simp add: d)
  have "0 \<le> read_count fork_state" "no_fix_waits fork_state"
    by (simp_all add: read_count_def fork_state_def demo_state_def no_fix_waits_def get_def getd_def)
  from testing_runs_end[OF r overlay_overwrites this] r show ?thesis by auto
qed

theorem approvals_are_used_once_witness:
  "\<exists>k h s. testing_run quiet_settings overlay (host_execute (passing_env ''n'') []) (PrepareTest, new_host, demo_state) k [demo_run] (Done, h, s)
     \<and> vouched (history h) = [demo_run] \<and> mset (vouched (history h)) \<subseteq># mset [demo_run]"
proof -
  have d: "execute_tool approving = host_execute (passing_env ''n'') []" by (simp add: approving_def)
  obtain k h s where e: "testing_steps quiet_settings overlay approving 10 (PrepareTest, new_host, demo_state) (0, []) = Inr ((k, [demo_run]), (Done, h, s))"
    and v: "vouched (history h) = [demo_run]"
    using evaluated_runs(2) by (auto split: sum.splits prod.splits)
  from testing_steps_run[OF e begin_run] have r: "testing_run quiet_settings overlay (host_execute (passing_env ''n'') [])
      (PrepareTest, new_host, demo_state) k [demo_run] (Done, h, s)" by (simp add: d)
  have z: "vouched (history new_host) = []" "credit demo_state = []"
    by (simp_all add: new_host_def credit_def demo_state_def)
  have "mset (vouched (history h)) \<subseteq># mset (vouched (history h)) + mset (credit s)" by simp
  also have "\<dots> \<subseteq># mset [demo_run]" using approvals_are_used_once[OF r overlay_overwrites] z by simp
  finally show ?thesis using r v by blast
qed

section \<open>What the host's guards see inside the subgraph\<close>

definition only_fields :: "string list \<Rightarrow> pydict \<Rightarrow> bool" where
  "only_fields ks s \<longleftrightarrow> list_all (\<lambda>(k, v). k \<in> set ks) s"

lemma missing_field:
  assumes "only_fields ks s" "k \<notin> set ks"
  shows "map_of s k = None"
  using assms by (auto simp: only_fields_def list_all_iff map_of_eq_None_iff)

lemma loaded_progress:
  assumes "execution_state_from_graph s = Inr st"
    and "map_of s ''analysis_completed'' = None" "map_of s ''workspace_inspected'' = None"
  shows "\<not> es_analysis_completed st" "\<not> es_workspace_inspected st"
proof -
  obtain message project where
    r: "run_loads (loads_1 @ loads_2 @ loads_3) s (new_execution_state message project ''create_project'') = Inr st"
    using assms(1) by (rule graph_loads)
  have first: "loads_1 @ loads_2 @ loads_3 = take 1 loads_1
      @ load to_bool ''analysis_completed'' (\<lambda>x st. st\<lparr>es_analysis_completed := x\<rparr>) # (drop 2 loads_1 @ loads_2 @ loads_3)"
    and third: "loads_1 @ loads_2 @ loads_3 = take 3 loads_1
      @ load to_bool ''workspace_inspected'' (\<lambda>x st. st\<lparr>es_workspace_inspected := x\<rparr>) # (drop 4 loads_1 @ loads_2 @ loads_3)"
    by (simp_all add: loads_1_def)
  have "list_all (keeps es_analysis_completed) (take 1 loads_1 @ drop 2 loads_1 @ loads_2 @ loads_3)"
    "list_all (keeps es_workspace_inspected) (take 3 loads_1 @ drop 4 loads_1 @ loads_2 @ loads_3)"
    by (simp_all add: loads_1_def loads_2_def loads_3_def)
  from loaded[OF r[unfolded first] this(1)] loaded[OF r[unfolded third] this(2)] assms(2,3)
  show "\<not> es_analysis_completed st" "\<not> es_workspace_inspected st"
    by (simp_all add: new_execution_state_def)
qed

text \<open>Inside the subgraph the host's guards of a repair are never active: its state has none of the
  fields that record the progress before the tests, so the execution state the host loads from it
  is always at its first steps, the next action is never the repair, and no call of a repair is
  checked against its phase, the failing tests or the paths it may change.\<close>

theorem repair_guard_is_inactive:
  assumes "only_fields TESTING_REPAIR_STATE_FIELDS s" "execution_state_from_graph s = Inr st"
  shows "determine_next_action st \<noteq> ''fix_failed_tests'' \<and> repair_refusal imports st tool arguments = Inr None"
proof -
  have "''analysis_completed'' \<notin> set TESTING_REPAIR_STATE_FIELDS" "''workspace_inspected'' \<notin> set TESTING_REPAIR_STATE_FIELDS"
    by code_simp+
  then have "\<not> es_analysis_completed st" "\<not> es_workspace_inspected st"
    using loaded_progress[OF assms(2) missing_field[OF assms(1)] missing_field[OF assms(1)]] by simp_all
  then have "determine_next_action st \<noteq> ''fix_failed_tests''" by (simp add: determine_next_action_def)
  then show ?thesis by (simp add: repair_refusal_def)
qed

definition repairing_state :: pydict where
  "repairing_state = demo_state @ [(''detected_test_framework'', PStr ''pytest''), (''environment_prepared'', PBool True),
     (''tests_executed'', PBool True), (''tests_passed'', PBool False), (''repair_phase'', PStr ''apply_fix''),
     (''failing_test_files'', PList [PStr ''tests/test_main.py''])]"

theorem repair_guard_is_inactive_witness:
  "\<exists>st. execution_state_from_graph repairing_state = Inr st \<and> es_repair_phase st = ''apply_fix''
     \<and> repair_refusal (\<lambda>_. None) st ''filesystem__update_project_files''
         [(''project_name'', PStr ''other''), (''files'', PList [PDict [(''path'', PStr ''../secret''), (''content'', PStr [])]])]
       = Inr None"
proof -
  have "only_fields TESTING_REPAIR_STATE_FIELDS repairing_state" by code_simp
  moreover have "case execution_state_from_graph repairing_state of Inr st \<Rightarrow> es_repair_phase st = ''apply_fix'' | Inl e \<Rightarrow> False"
    by code_simp
  then obtain st where "execution_state_from_graph repairing_state = Inr st" "es_repair_phase st = ''apply_fix''"
    by (auto split: sum.splits)
  ultimately show ?thesis using repair_guard_is_inactive by blast
qed

section \<open>The reset of the reads\<close>

lemma initially_not_passed: "get (create_initial_state message) ''tests_passed'' = PBool False"
  by code_simp

text \<open>The reset of the related source after a failed run, which gives every repair its own reads,
  never happens with the host's executor: it looks for the failed result among the fields that
  changed, and a workflow starts with the result of its tests already false, so a run that fails
  changes nothing there and the node returns what it would return without the reset.\<close>

theorem reads_are_never_reset:
  assumes "execute_tool deps = host_execute env contexts" "execute_tests_node deps h s = Inr (updates, h')"
    and "get s ''tests_passed'' = get (create_initial_state message) ''tests_passed''"
  shows "execute_approved deps h s = Inr (updates, h')"
proof -
  have start: "get s ''tests_passed'' = PBool False"
    unfolding assms(3) by (rule initially_not_passed)
  obtain arguments out u where c: "execute_approved_call deps h s = Inr (arguments, out, h')"
    and u: "u = dmerge (o_state_updates out) cleared_approval" and r: "updates = reset_related_source u"
    using assms(2) by (auto simp: execute_tests_node_def execute_approved_def elim!: bind_InrE)
  from c obtain name where "host_execute env contexts h name arguments s AlreadyApproved = Inr (out, h')"
    using assms(1) by (auto elim: approved_callE)
  then obtain st st' where out: "o_state_updates out = changed_values s (graph_values_from_execution st')"
    by (rule host_execute_states)
  have "getd (o_state_updates out) ''tests_passed'' PNone \<noteq> PBool False"
    unfolding out getd_changed[OF graph_values_ok graph_value_simps(3)] using start by auto
  then have "get u ''tests_passed'' \<noteq> PBool False"
    unfolding u get_getd by (simp add: cleared_last APPROVAL_KEYS_def)
  then have "updates = u" unfolding r by (simp add: reset_related_source_def)
  then show ?thesis using c u by (simp add: execute_approved_def)
qed

definition failing_tests :: "Host GraphDependencies" where
  "failing_tests = approving\<lparr>execute_tool := host_execute ((passing_env ''n'')\<lparr>call_tool :=
     \<lambda>_ _ _. Replied (McpDict [(''success'', PBool False), (''failure_type'', PStr ''test_failure''),
       (''stdout'', PStr ''FAILED tests/test_main.py::test_a'')])\<rparr>) []\<rparr>"

definition second_run_state :: pydict where
  "second_run_state = demo_state @ [(''tests_executed'', PBool True), (''tests_passed'', PBool False),
     (''repair_phase'', PStr ''rerun_tests''), (''repair_attempts'', PInt 1), (''related_source_read_attempts'', PInt 2),
     (''pending_tool_name'', PStr ''testing__run_tests''), (''pending_approval_status'', PStr ''approved''),
     (''pending_tool_arguments'', PDict [(''project_name'', PStr ''demo'')])]"

lemma failing_run_evaluated:
  "(case execute_tests_node failing_tests new_host second_run_state of
     Inr (updates, h) \<Rightarrow> get (dmerge second_run_state updates) ''repair_phase'' = PStr ''read_failing_test''
       \<and> get (dmerge second_run_state updates) ''tests_passed'' = PBool False
       \<and> get (dmerge second_run_state updates) ''related_source_read_attempts'' = PInt 2
   | Inl e \<Rightarrow> False)"
  by code_simp

theorem reads_are_never_reset_witness:
  "\<exists>updates h. execute_approved failing_tests new_host second_run_state = Inr (updates, h)
     \<and> get (dmerge second_run_state updates) ''repair_phase'' = PStr ''read_failing_test''
     \<and> get (dmerge second_run_state updates) ''related_source_read_attempts'' = PInt 2"
proof -
  obtain updates h where e: "execute_tests_node failing_tests new_host second_run_state = Inr (updates, h)"
    and v: "get (dmerge second_run_state updates) ''repair_phase'' = PStr ''read_failing_test''"
      "get (dmerge second_run_state updates) ''related_source_read_attempts'' = PInt 2"
    using failing_run_evaluated by (auto split: sum.splits)
  have d: "execute_tool failing_tests = host_execute ((passing_env ''n'')\<lparr>call_tool :=
     \<lambda>_ _ _. Replied (McpDict [(''success'', PBool False), (''failure_type'', PStr ''test_failure''),
       (''stdout'', PStr ''FAILED tests/test_main.py::test_a'')])\<rparr>) []"
    by (simp add: failing_tests_def)
  have "get second_run_state ''tests_passed'' = get (create_initial_state ''m'') ''tests_passed''"
    unfolding initially_not_passed by (simp add: second_run_state_def demo_state_def)
  from reads_are_never_reset[OF d e this] v show ?thesis by blast
qed

end
