(* ===== verification/ExecutorRoundTrip.thy ===== *)
theory ExecutorRoundTrip
  imports ExecutorProps
begin

text \<open>
  The round trip between the host's execution state and the graph's state (tool_executor.py): what
  the executor writes into the graph it can load again.
\<close>

lemma decode_encode [simp]:
  "mapm to_str (map PStr xs) = Inr xs" "to_opt to_str (opt_str x) = Inr x" "to_opt to_int (opt_int i) = Inr i"
  "to_opt to_strs (opt_strs ys) = Inr ys" "to_str_set (PList (map PStr xs)) = Inr (dedupe xs)"
proof -
  show strs: "mapm to_str (map PStr xs) = Inr xs" for xs
    by (induction xs) auto
  show "to_str_set (PList (map PStr xs)) = Inr (dedupe xs)" using strs by (simp add: to_str_set_def)
  show "to_opt to_str (opt_str x) = Inr x" by (cases x) simp_all
  show "to_opt to_int (opt_int i) = Inr i" by (cases i) simp_all
  show "to_opt to_strs (opt_strs ys) = Inr ys" using strs by (cases ys) simp_all
qed

lemma load_known: "map_of d key = Some v \<Longrightarrow> decode v = Inr x \<Longrightarrow> load decode key put d st = Inr (put x st)"
  by (simp add: load_def)

lemma graph_value:
  "map_of (graph_values_from_execution st) k =
    (if k = ''project_name'' then Some (opt_str (es_requested_project_name st))
     else if k = ''terminal_status'' \<and> es_user_cancelled st then Some (PStr ''user_cancelled'')
     else map_of (values_1 st @ values_2 st @ values_3 st) k)"
  by (simp add: graph_values_from_execution_def Let_def update_conv)

lemma reload_1:
  "run_loads loads_1 (graph_values_from_execution st) st0 = Inr (st0
      \<lparr>es_workflow_intent := es_workflow_intent st,
       es_analysis_completed := es_analysis_completed st, es_tasks_created := es_tasks_created st,
       es_workspace_inspected := es_workspace_inspected st,
       es_project_created := es_project_created st, es_project_exists := es_project_exists st,
       es_created_project_name := es_created_project_name st,
       es_detected_test_framework := es_detected_test_framework st,
       es_expected_test_command := es_expected_test_command st,
       es_environment_prepared := es_environment_prepared st,
       es_dependencies_installed := es_dependencies_installed st,
       es_environment_python := es_environment_python st,
       es_installed_fastapi_version := es_installed_fastapi_version st,
       es_installed_starlette_version := es_installed_starlette_version st,
       es_tests_executed := es_tests_executed st\<rparr>)"
  by (simp add: loads_1_def load_known graph_value values_1_def values_2_def values_3_def)

lemma reload_2:
  "run_loads loads_2 (graph_values_from_execution st) st0 = Inr (st0
      \<lparr>es_tests_passed := es_tests_passed st,
       es_test_infrastructure_failed := es_test_infrastructure_failed st,
       es_retry_limit_reached := es_retry_limit_reached st, es_user_cancelled := es_user_cancelled st,
       es_terminal_status := if es_user_cancelled st then Some ''user_cancelled'' else es_terminal_status st,
       es_test_warning_count := es_test_warning_count st,
       es_actual_test_command := es_actual_test_command st, es_failure_type := es_failure_type st,
       es_failure_stage := es_failure_stage st, es_failure_message := es_failure_message st,
       es_test_stdout := es_test_stdout st, es_test_stderr := es_test_stderr st,
       es_test_failure_summary := es_test_failure_summary st, es_repair_phase := es_repair_phase st,
       es_repair_attempts := es_repair_attempts st\<rparr>)"
  by (simp add: loads_2_def load_known graph_value values_1_def values_2_def values_3_def)

lemma reload_3:
  "run_loads loads_3 (graph_values_from_execution st) st0 = Inr (st0
      \<lparr>es_repair_decision := es_repair_decision st, es_repair_before := es_repair_before st,
       es_repair_after := es_repair_after st, es_failing_test_files := es_failing_test_files st,
       es_files_read_during_repair := dedupe (sort (es_files_read_during_repair st)),
       es_files_updated_during_repair := dedupe (sort (es_files_updated_during_repair st)),
       es_first_test_result_summary := es_first_test_result_summary st,
       es_final_test_result_summary := es_final_test_result_summary st,
       es_failing_test_content := es_failing_test_content st,
       es_related_source_content := es_related_source_content st,
       es_related_source_file := es_related_source_file st,
       es_related_source_candidates := es_related_source_candidates st,
       es_related_source_read_attempts := es_related_source_read_attempts st\<rparr>)"
  by (simp add: loads_3_def load_known graph_value values_1_def values_2_def values_3_def)

text \<open>(C32) The graph's state loses nothing of an execution state but the three records of the tools
  that were called: written to the graph and loaded again it is the same, with its two sets in
  order, and the end of a cancelled run is the cancellation.\<close>

theorem execution_state_roundtrip:
  "execution_state_from_graph (graph_values_from_execution st) =
    Inr (st\<lparr>es_terminal_status := if es_user_cancelled st then Some ''user_cancelled'' else es_terminal_status st,
      es_files_read_during_repair := dedupe (sort (es_files_read_during_repair st)),
      es_files_updated_during_repair := dedupe (sort (es_files_updated_during_repair st)),
      es_sensitive_tools_executed := [], es_rejected_tools := [], es_last_tool_executed := None\<rparr>)"
proof -
  define d where "d = graph_values_from_execution st"
  have "has_key d ''original_user_message''" "get d ''original_user_message'' = PStr (es_original_user_message st)"
    "get d ''project_name'' = opt_str (es_requested_project_name st)"
    by (simp_all add: d_def has_key_def get_def graph_value values_1_def)
  then have "execution_state_from_graph d = run_loads (loads_1 @ loads_2 @ loads_3) d
      (new_execution_state (es_original_user_message st) (es_requested_project_name st) ''create_project'')"
    by (simp add: execution_state_from_graph_def)
  then show ?thesis
    unfolding d_def run_loads_append reload_1 reload_2 reload_3 bind.simps Inr_inject
    by (cases st) (simp add: new_execution_state_def)
qed

end
