(* ===== verification/WorkspaceFiles.thy ===== *)
theory WorkspaceFiles
  imports HostPaths "HOL-Library.List_Lexorder" "HOL-Library.Char_ord"
begin

text \<open>
  The filesystem server (servers/filesystem_server.py), which every tool call on files ends in. The
  disk below the workspace is a tree without symbolic links: \<open>fs_nodes\<close> gives the node at an
  absolute path, a list of components. A text file holds the decoded text; \<open>Binary\<close> is a file
  that is not UTF-8. What the operating system decides is in \<open>FsEnv\<close>: the workspace root, the
  suffix of a temporary directory, which writes fail and what they leave behind, which calls of
  mkdir fail, and whether mkdtemp and the final move do; a call that fails to make directories or to
  move changes nothing. Every operation returns its result or error together with the tree it leaves.
\<close>

section \<open>The tree\<close>

type_synonym fpath = "string list"

datatype fs_node = File string | Binary int | Directory

datatype fs_error =
    FsValueError string
  | FileNotFound string
  | FileExists string
  | NotADirectory string
  | IsADirectory string
  | DecodeError
  | OSFailure

datatype write_fault = Written | Failed "string option"

record FsEnv =
  env_root :: fpath
  env_suffix :: string
  env_fault :: "nat \<Rightarrow> write_fault"
  env_mkdir_fails :: "nat \<Rightarrow> bool"
  env_mkdtemp_fails :: bool
  env_move_fails :: bool

record Workspace =
  fs_nodes :: "(fpath \<times> fs_node) list"
  fs_writes :: nat

type_synonym 'a fs_op = "Workspace \<Rightarrow> (fs_error + 'a) \<times> Workspace"

definition op_bind :: "'a fs_op \<Rightarrow> ('a \<Rightarrow> 'b fs_op) \<Rightarrow> 'b fs_op" where
  "op_bind m f w = (case m w of (Inl e, w') \<Rightarrow> (Inl e, w') | (Inr x, w') \<Rightarrow> f x w')"

definition op_pure :: "fs_error + 'a \<Rightarrow> 'a fs_op" where
  "op_pure m w = (m, w)"

definition lookup :: "Workspace \<Rightarrow> fpath \<Rightarrow> fs_node option" where
  "lookup w p = (if p = [] then Some Directory else map_of (fs_nodes w) p)"

definition put :: "fpath \<Rightarrow> fs_node \<Rightarrow> Workspace \<Rightarrow> Workspace" where
  "put p n w = w\<lparr>fs_nodes := AList.update p n (fs_nodes w)\<rparr>"

definition is_file :: "Workspace \<Rightarrow> fpath \<Rightarrow> bool" where
  "is_file w p \<longleftrightarrow> (case lookup w p of Some (File s) \<Rightarrow> True | Some (Binary n) \<Rightarrow> True | _ \<Rightarrow> False)"

text \<open>\<open>read_text\<close> translates the line ends to line feeds; \<open>write_text\<close> writes what it is given.\<close>

fun universal_newlines :: "string \<Rightarrow> string" where
  "universal_newlines [] = []"
| "universal_newlines [c] = [if c = CHR 0x0D then CHR 0x0A else c]"
| "universal_newlines (c # d # s) =
     (if c = CHR 0x0D \<and> d = CHR 0x0A then CHR 0x0A # universal_newlines s
      else (if c = CHR 0x0D then CHR 0x0A else c) # universal_newlines (d # s))"

definition read_text :: "fpath \<Rightarrow> string fs_op" where
  "read_text p w =
    (case lookup w p of
       Some (File s) \<Rightarrow> (Inr (universal_newlines s), w)
     | Some (Binary n) \<Rightarrow> (Inl DecodeError, w)
     | Some Directory \<Rightarrow> (Inl (IsADirectory []), w)
     | None \<Rightarrow> (Inl (FileNotFound []), w))"

definition write_text :: "FsEnv \<Rightarrow> fpath \<Rightarrow> string \<Rightarrow> unit fs_op" where
  "write_text env p content w =
    (if lookup w p = Some Directory then (Inl (IsADirectory []), w)
     else (case lookup w (butlast p) of
       Some Directory \<Rightarrow>
         let w' = w\<lparr>fs_writes := fs_writes w + 1\<rparr> in
         (case env_fault env (fs_writes w) of
            Written \<Rightarrow> (Inr (), put p (File content) w')
          | Failed None \<Rightarrow> (Inl OSFailure, w')
          | Failed (Some left) \<Rightarrow> (Inl OSFailure, put p (File left) w'))
     | Some n \<Rightarrow> (Inl (NotADirectory []), w)
     | None \<Rightarrow> (Inl (FileNotFound []), w)))"

text \<open>\<open>mkdir(parents=True, exist_ok=True)\<close>.\<close>

fun make_dirs :: "fpath \<Rightarrow> string list \<Rightarrow> unit fs_op" where
  "make_dirs base [] w = (Inr (), w)"
| "make_dirs base (c # cs) w =
     (let p = base @ [c] in
      case lookup w p of
        Some Directory \<Rightarrow> make_dirs p cs w
      | Some n \<Rightarrow> (Inl (if cs = [] then FileExists [] else NotADirectory []), w)
      | None \<Rightarrow> make_dirs p cs (put p Directory w))"

definition remove_tree :: "fpath \<Rightarrow> Workspace \<Rightarrow> Workspace" where
  "remove_tree p w = w\<lparr>fs_nodes := filter (\<lambda>(q, n). \<not> prefix p q) (fs_nodes w)\<rparr>"

definition rename :: "fpath \<Rightarrow> fpath \<Rightarrow> Workspace \<Rightarrow> Workspace" where
  "rename src dst w =
    w\<lparr>fs_nodes := map (\<lambda>(q, n). if prefix src q then (dst @ drop (length src) q, n) else (q, n)) (fs_nodes w)\<rparr>"

section \<open>Paths\<close>

text \<open>\<open>resolve()\<close> without symbolic links.\<close>

definition resolve :: "fpath \<Rightarrow> string list \<Rightarrow> fpath" where
  "resolve base comps = foldl (\<lambda>p c. if c = ''..'' then butlast p else p @ [c]) base comps"

definition resolve_workspace_path :: "FsEnv \<Rightarrow> string \<Rightarrow> fs_error + fpath" where
  "resolve_workspace_path env relative_path =
    (if strip relative_path = [] then Inl (FsValueError ''relative_path must not be empty'')
     else if is_absolute relative_path then Inl (FsValueError ''absolute paths are not allowed'')
     else let resolved = resolve (env_root env) (path_tail relative_path) in
       if prefix (env_root env) resolved then Inr resolved
       else Inl (FsValueError ''path escapes the workspace''))"

definition relative_to_workspace :: "FsEnv \<Rightarrow> fpath \<Rightarrow> string" where
  "relative_to_workspace env p =
    (let t = join ''/'' (drop (length (env_root env)) p) in if t = [] then ''.'' else t)"

definition resolve_project_file :: "fpath \<Rightarrow> string \<Rightarrow> fs_error + fpath" where
  "resolve_project_file project_root file_path =
    (if strip file_path = [] then Inl (FsValueError ''file path must not be empty'')
     else if is_absolute file_path then Inl (FsValueError ''absolute file paths are not allowed'')
     else let resolved = resolve project_root (path_tail file_path) in
       if prefix project_root resolved then Inr resolved
       else Inl (FsValueError (''file path escapes project: '' @ file_path)))"

section \<open>Validation\<close>

definition MAX_FILE_BYTES :: int where "MAX_FILE_BYTES = 1 * 1024 * 1024"
definition MAX_PROJECT_BYTES :: int where "MAX_PROJECT_BYTES = 5 * 1024 * 1024"
definition MAX_FILES_PER_OPERATION :: nat where "MAX_FILES_PER_OPERATION = 50"

definition IGNORED_DIRECTORIES :: "string list" where
  "IGNORED_DIRECTORIES =
    [''.venv'', ''__pycache__'', ''.pytest_cache'', ''.git'', ''node_modules'', ''bin'', ''obj'']"

record ProjectFile =
  pf_path :: string
  pf_content :: string

definition validate_project_name :: "string \<Rightarrow> fs_error + string" where
  "validate_project_name project_name =
    (if project_name \<noteq> [] \<and> length project_name \<le> 64
        \<and> list_all (\<lambda>c. is_word c \<or> c = CHR ''-'') project_name
     then Inr project_name
     else Inl (FsValueError ''project_name may contain only letters, numbers, hyphens and underscores, max 64 chars''))"

fun check_files :: "ProjectFile list \<Rightarrow> string list \<Rightarrow> int \<Rightarrow> fs_error + int" where
  "check_files [] seen bytes = Inr bytes"
| "check_files (f # fs) seen bytes =
     (let normalized = casefold (as_posix (pf_path f)); size = utf8_size (pf_content f) in
      if normalized \<in> set seen then Inl (FsValueError (''duplicate file path: '' @ pf_path f))
      else if size > MAX_FILE_BYTES then Inl (FsValueError (''file too large: '' @ pf_path f))
      else check_files fs (normalized # seen) (bytes + size))"

definition validate_file_batch :: "ProjectFile list \<Rightarrow> fs_error + int" where
  "validate_file_batch files =
    (if files = [] then Inl (FsValueError ''files must not be empty'')
     else if length files > MAX_FILES_PER_OPERATION
     then Inl (FsValueError ''too many files; maximum is 50'')
     else bind (check_files files [] 0) (\<lambda>bytes.
       if bytes > MAX_PROJECT_BYTES then Inl (FsValueError ''project is too large'') else Inr bytes))"

definition first_segment :: "string \<Rightarrow> string" where
  "first_segment path = (case path_parts path of [] \<Rightarrow> [] | c # cs \<Rightarrow> c)"

definition validate_paths_exclude_project :: "string \<Rightarrow> ProjectFile list \<Rightarrow> fs_error + unit" where
  "validate_paths_exclude_project project_name files =
    (if list_ex (\<lambda>f. casefold (first_segment (pf_path f)) = casefold project_name) files
     then Inl (FsValueError (''Las rutas deben ser relativas a la ra'' @ [CHR 0xED] @
       ''z del proyecto y no deben incluir project_name.''))
     else Inr ())"

section \<open>Reading\<close>

record FileEntry =
  fe_path :: string
  fe_type :: string
  fe_size :: int

fun node_size :: "fs_node \<Rightarrow> int" where
  "node_size (File s) = utf8_size s"
| "node_size (Binary n) = n"
| "node_size Directory = 0"

definition below :: "bool \<Rightarrow> fpath \<Rightarrow> fpath \<Rightarrow> bool" where
  "below recursive target p \<longleftrightarrow> strict_prefix target p \<and> (recursive \<or> length p = length target + 1)"

definition list_files_impl :: "FsEnv \<Rightarrow> string \<Rightarrow> bool \<Rightarrow> bool \<Rightarrow> FileEntry list fs_op" where
  "list_files_impl env relative_path recursive include_ignored =
    op_bind (op_pure (resolve_workspace_path env relative_path)) (\<lambda>target w.
      case lookup w target of
        None \<Rightarrow> (Inl (FileNotFound (''path does not exist: '' @ relative_path)), w)
      | Some Directory \<Rightarrow>
          let found = filter (\<lambda>(p, n). below recursive target p) (fs_nodes w);
              ordered = sort_key (\<lambda>(p, n). casefold (CHR ''/'' # join ''/'' p)) found;
              shown = filter (\<lambda>(p, n). include_ignored
                \<or> \<not> list_ex (\<lambda>c. c \<in> set IGNORED_DIRECTORIES) (drop (length target) p)) ordered in
          (Inr (map (\<lambda>(p, n). \<lparr>fe_path = relative_to_workspace env p,
              fe_type = (if n = Directory then ''directory'' else ''file''), fe_size = node_size n\<rparr>) shown), w)
      | Some n \<Rightarrow> (Inl (NotADirectory (''path is not a directory: '' @ relative_path)), w))"

definition read_file_impl :: "FsEnv \<Rightarrow> string \<Rightarrow> (string \<times> int \<times> string) fs_op" where
  "read_file_impl env relative_path =
    op_bind (op_pure (resolve_workspace_path env relative_path)) (\<lambda>target w.
      case lookup w target of
        None \<Rightarrow> (Inl (FileNotFound (''file does not exist: '' @ relative_path)), w)
      | Some Directory \<Rightarrow> (Inl (IsADirectory (''path is not a file: '' @ relative_path)), w)
      | Some n \<Rightarrow>
          if node_size n > MAX_FILE_BYTES then (Inl (FsValueError ''file is too large''), w)
          else op_bind (read_text target) (\<lambda>content.
            op_pure (Inr (relative_to_workspace env target, node_size n, content))) w)"

section \<open>Writing\<close>

text \<open>\<open>mkdir(parents=True, exist_ok=True)\<close>; the faults are counted by the writes made so far.\<close>

definition make_directories :: "FsEnv \<Rightarrow> fpath \<Rightarrow> unit fs_op" where
  "make_directories env p w = (if env_mkdir_fails env (fs_writes w) then (Inl OSFailure, w) else make_dirs [] p w)"

definition create_directory_impl :: "FsEnv \<Rightarrow> string \<Rightarrow> (string \<times> bool) fs_op" where
  "create_directory_impl env relative_path =
    op_bind (op_pure (resolve_workspace_path env relative_path)) (\<lambda>target w.
      let existed = (lookup w target \<noteq> None) in
      if existed \<and> lookup w target \<noteq> Some Directory
      then (Inl (FileExists ''path exists and is not a directory''), w)
      else op_bind (make_directories env target) (\<lambda>_.
        op_pure (Inr (relative_to_workspace env target, existed))) w)"

definition write_file_impl :: "FsEnv \<Rightarrow> string \<Rightarrow> string \<Rightarrow> bool \<Rightarrow> (string \<times> int \<times> bool) fs_op" where
  "write_file_impl env relative_path content overwrite =
    op_bind (op_pure (resolve_workspace_path env relative_path)) (\<lambda>target w.
      let size = utf8_size content; existed = (lookup w target \<noteq> None) in
      if size > MAX_FILE_BYTES then (Inl (FsValueError ''file is too large''), w)
      else if existed \<and> \<not> overwrite
      then (Inl (FileExists ''file already exists; pass overwrite=true to replace it''), w)
      else op_bind (make_directories env (butlast target)) (\<lambda>_.
        op_bind (write_text env target content) (\<lambda>_.
        op_pure (Inr (relative_to_workspace env target, size, existed)))) w)"

record ProjectReport =
  pr_project :: string
  pr_path :: "string option"
  pr_files :: "string list"
  pr_total :: nat
  pr_bytes :: int

text \<open>Write the files of a new project below a directory.\<close>

fun write_files :: "FsEnv \<Rightarrow> fpath \<Rightarrow> ProjectFile list \<Rightarrow> unit fs_op" where
  "write_files env dir [] w = (Inr (), w)"
| "write_files env dir (f # fs) w =
     op_bind (op_pure (resolve_project_file dir (pf_path f))) (\<lambda>target.
     op_bind (make_directories env (butlast target)) (\<lambda>_.
     op_bind (write_text env target (pf_content f)) (\<lambda>_.
     write_files env dir fs))) w"

definition temp_dir :: "FsEnv \<Rightarrow> string \<Rightarrow> fpath" where
  "temp_dir env project_name = env_root env @ [''.'' @ project_name @ ''.'' @ env_suffix env]"

definition build_project :: "FsEnv \<Rightarrow> string \<Rightarrow> fpath \<Rightarrow> ProjectFile list \<Rightarrow> unit fs_op" where
  "build_project env project_name destination files w =
    (let temp = temp_dir env project_name in
     if env_mkdtemp_fails env then (Inl OSFailure, w)
     else case write_files env temp files (put temp Directory w) of
       (Inl e, w') \<Rightarrow> (Inl e, remove_tree temp w')
     | (Inr u, w') \<Rightarrow>
         if env_move_fails env then (Inl OSFailure, remove_tree temp w') else (Inr (), rename temp destination w'))"

definition create_project_structure_impl :: "FsEnv \<Rightarrow> string \<Rightarrow> ProjectFile list \<Rightarrow> ProjectReport fs_op" where
  "create_project_structure_impl env project_name files =
    op_bind (op_pure (validate_project_name project_name)) (\<lambda>_.
    op_bind (op_pure (validate_file_batch files)) (\<lambda>total_size.
    op_bind (op_pure (validate_paths_exclude_project project_name files)) (\<lambda>_.
    op_bind (op_pure (resolve_workspace_path env project_name)) (\<lambda>destination w.
      if lookup w destination \<noteq> None
      then (Inl (FileExists (''project already exists: '' @ project_name)), w)
      else op_bind (build_project env project_name destination files) (\<lambda>_.
        op_pure (Inr \<lparr>pr_project = project_name, pr_path = Some (relative_to_workspace env destination),
          pr_files = map pf_path files, pr_total = length files, pr_bytes = total_size\<rparr>)) w))))"

text \<open>The targets of an update with their old texts, before anything is written.\<close>

fun read_targets :: "fpath \<Rightarrow> ProjectFile list \<Rightarrow> (fpath \<times> string \<times> string) list fs_op" where
  "read_targets project_root [] w = (Inr [], w)"
| "read_targets project_root (f # fs) w =
     op_bind (op_pure (resolve_project_file project_root (pf_path f))) (\<lambda>target w.
       if \<not> is_file w target
       then (Inl (FileNotFound (''file does not exist: '' @ pf_path f)), w)
       else op_bind (read_text target) (\<lambda>old.
         op_bind (read_targets project_root fs) (\<lambda>rest.
         op_pure (Inr ((target, pf_content f, old) # rest)))) w) w"

fun write_all :: "FsEnv \<Rightarrow> (fpath \<times> string) list \<Rightarrow> unit fs_op" where
  "write_all env [] w = (Inr (), w)"
| "write_all env ((p, content) # rest) w = op_bind (write_text env p content) (\<lambda>_. write_all env rest) w"

text \<open>The old texts by path, in the order of a Python dictionary.\<close>

definition previous_texts :: "(fpath \<times> string \<times> string) list \<Rightarrow> (fpath \<times> string) list" where
  "previous_texts targets = foldl (\<lambda>d (p, new, old). AList.update p old d) [] targets"

definition write_or_restore :: "FsEnv \<Rightarrow> (fpath \<times> string \<times> string) list \<Rightarrow> unit fs_op" where
  "write_or_restore env targets w =
    (case write_all env (map (\<lambda>(p, new, old). (p, new)) targets) w of
       (Inr u, w') \<Rightarrow> (Inr (), w')
     | (Inl e, w') \<Rightarrow> op_bind (write_all env (previous_texts targets)) (\<lambda>_. op_pure (Inl e)) w')"

definition update_project_files_impl :: "FsEnv \<Rightarrow> string \<Rightarrow> ProjectFile list \<Rightarrow> ProjectReport fs_op" where
  "update_project_files_impl env project_name files =
    op_bind (op_pure (validate_project_name project_name)) (\<lambda>_.
    op_bind (op_pure (validate_file_batch files)) (\<lambda>total_size.
    op_bind (op_pure (resolve_workspace_path env project_name)) (\<lambda>project_root w.
      if lookup w project_root \<noteq> Some Directory
      then (Inl (FileNotFound (''project does not exist: '' @ project_name)), w)
      else op_bind (read_targets project_root files) (\<lambda>targets.
        op_bind (write_or_restore env targets) (\<lambda>_.
        op_pure (Inr \<lparr>pr_project = project_name, pr_path = None,
          pr_files = map pf_path files, pr_total = length files, pr_bytes = total_size\<rparr>))) w)))"

section \<open>Requests\<close>

text \<open>The tools of the server, and the tree one of them leaves.\<close>

datatype fs_request =
    ListFiles string bool bool
  | ReadFile string
  | CreateDirectory string
  | WriteFile string string bool
  | CreateProject string "ProjectFile list"
  | UpdateFiles string "ProjectFile list"

fun serve_files :: "FsEnv \<Rightarrow> fs_request \<Rightarrow> Workspace \<Rightarrow> Workspace" where
  "serve_files env (ListFiles path recursive ignored) w = snd (list_files_impl env path recursive ignored w)"
| "serve_files env (ReadFile path) w = snd (read_file_impl env path w)"
| "serve_files env (CreateDirectory path) w = snd (create_directory_impl env path w)"
| "serve_files env (WriteFile path content overwrite) w = snd (write_file_impl env path content overwrite w)"
| "serve_files env (CreateProject name files) w = snd (create_project_structure_impl env name files w)"
| "serve_files env (UpdateFiles name files) w = snd (update_project_files_impl env name files w)"

end
