(* ===== verification/WorkspaceProps.thy ===== *)
theory WorkspaceProps
  imports WorkspaceFiles
begin

text \<open>
  What the filesystem server guarantees: every request leaves a tree, changes nothing outside the
  workspace, and the two operations on whole projects are done completely or not at all. All
  changes are sequences of elementary steps below a directory (\<open>fs_steps\<close>), and the guarantees
  are proved of those.
\<close>

section \<open>Looking up\<close>

lemma lookup_put [simp]: "lookup (put p n w) q = (if q = [] then Some Directory else if q = p then Some n else lookup w q)"
  by (simp add: lookup_def put_def update_conv)

lemma lookup_Nil [simp]: "lookup w [] = Some Directory"
  by (simp add: lookup_def)

lemma lookup_writes [simp]: "lookup (w\<lparr>fs_writes := k\<rparr>) q = lookup w q"
  by (simp add: lookup_def)

lemma writes_put [simp]: "fs_writes (put p n w) = fs_writes w"
  by (simp add: put_def)

lemma op_bind_Inr: "op_bind m f w = (Inr y, w') \<longleftrightarrow> (\<exists>x w1. m w = (Inr x, w1) \<and> f x w1 = (Inr y, w'))"
  by (auto simp: op_bind_def split: sum.splits prod.splits)

lemma op_bind_Inl:
  "op_bind m f w = (Inl e, w') \<longleftrightarrow> m w = (Inl e, w') \<or> (\<exists>x w1. m w = (Inr x, w1) \<and> f x w1 = (Inl e, w'))"
  by (auto simp: op_bind_def split: sum.splits prod.splits)

lemma op_pure_eq [simp]: "op_pure m w = (r, w') \<longleftrightarrow> m = r \<and> w = w'"
  by (auto simp: op_pure_def)

lemma op_bind_pure: "op_bind (op_pure m) f w = (case m of Inl e \<Rightarrow> (Inl e, w) | Inr x \<Rightarrow> f x w)"
  by (simp add: op_bind_def op_pure_def split: sum.splits)

section \<open>Steps below a directory\<close>

definition tree_ok :: "Workspace \<Rightarrow> bool" where
  "tree_ok w \<longleftrightarrow> (\<forall>p. p \<noteq> [] \<longrightarrow> lookup w p \<noteq> None \<longrightarrow> lookup w (butlast p) = Some Directory)"

definition workspace_ok :: "FsEnv \<Rightarrow> Workspace \<Rightarrow> bool" where
  "workspace_ok env w \<longleftrightarrow> tree_ok w \<and> lookup w (env_root env) = Some Directory"

inductive fs_steps :: "fpath \<Rightarrow> Workspace \<Rightarrow> Workspace \<Rightarrow> bool" for dir :: fpath and w :: Workspace where
  no_step: "fs_steps dir w w"
| tick: "fs_steps dir w w1 \<Longrightarrow> fs_steps dir w (w1\<lparr>fs_writes := k\<rparr>)"
| new_directory: "fs_steps dir w w1 \<Longrightarrow> strict_prefix dir p \<Longrightarrow> lookup w1 p = None
    \<Longrightarrow> lookup w1 (butlast p) = Some Directory \<Longrightarrow> fs_steps dir w (put p Directory w1)"
| new_text: "fs_steps dir w w1 \<Longrightarrow> strict_prefix dir p \<Longrightarrow> lookup w1 p \<noteq> Some Directory
    \<Longrightarrow> lookup w1 (butlast p) = Some Directory \<Longrightarrow> fs_steps dir w (put p (File s) w1)"

lemma fs_steps_trans: "fs_steps dir w1 w2 \<Longrightarrow> fs_steps dir w w1 \<Longrightarrow> fs_steps dir w w2"
  by (induction rule: fs_steps.induct) (auto intro: fs_steps.intros)

lemma fs_steps_mono: "fs_steps dir w w' \<Longrightarrow> prefix base dir \<Longrightarrow> fs_steps base w w'"
  by (induction rule: fs_steps.induct) (auto intro: fs_steps.intros prefix_order.le_less_trans)

lemma fs_steps_outside: "fs_steps dir w w' \<Longrightarrow> \<not> strict_prefix dir p \<Longrightarrow> lookup w' p = lookup w p"
  by (induction rule: fs_steps.induct) auto

lemma fs_steps_directory: "fs_steps dir w w' \<Longrightarrow> lookup w p = Some Directory \<Longrightarrow> lookup w' p = Some Directory"
  by (induction rule: fs_steps.induct) auto

lemma fs_steps_tree: "fs_steps dir w w' \<Longrightarrow> tree_ok w \<Longrightarrow> tree_ok w'"
proof (induction rule: fs_steps.induct)
  case (new_directory w1 p)
  then have "p \<noteq> butlast p" by (cases p rule: rev_cases) auto
  with new_directory show ?case by (auto simp: tree_ok_def)
next
  case (new_text w1 p s)
  then have "p \<noteq> butlast p" by (cases p rule: rev_cases) auto
  with new_text show ?case by (auto simp: tree_ok_def)
qed (auto simp: tree_ok_def)

lemma ancestors: "tree_ok w \<Longrightarrow> lookup w (p @ q) = Some Directory \<Longrightarrow> lookup w p = Some Directory"
proof (induction q rule: rev_induct)
  case (snoc c q)
  then have "lookup w (butlast (p @ q @ [c])) = Some Directory"
    unfolding tree_ok_def by (metis append_is_Nil_conv not_Cons_self2 option.distinct(1))
  with snoc show ?case by (simp add: butlast_append)
qed simp

lemma make_dirs_steps:
  assumes "make_dirs base cs w = (r, w')" "tree_ok w" "lookup w dir = Some Directory"
    and "lookup w base = Some Directory" "prefix dir (base @ cs)"
  shows "fs_steps dir w w' \<and> (isl r \<or> lookup w' (base @ cs) = Some Directory)"
  using assms
proof (induction base cs w arbitrary: rule: make_dirs.induct)
  case (1 base w)
  then show ?case by (auto intro: no_step)
next
  case (2 base c cs w)
  let ?p = "base @ [c]"
  consider "lookup w ?p = Some Directory" | n where "lookup w ?p = Some n" "n \<noteq> Directory" | "lookup w ?p = None"
    by (cases "lookup w ?p") auto
  then show ?case
  proof cases
    case 1
    with 2 show ?thesis by (simp add: Let_def)
  next
    case 2
    with \<open>make_dirs base (c # cs) w = (r, w')\<close> show ?thesis
      by (cases n) (auto simp: Let_def intro: no_step)
  next
    case 3
    have "\<not> prefix ?p dir"
    proof
      assume "prefix ?p dir"
      then obtain q where "dir = ?p @ q" by (auto simp: prefix_def)
      with ancestors[OF 2(4), of ?p q] 2(5) 3 show False by simp
    qed
    moreover have "prefix ?p (base @ c # cs)" by simp
    ultimately have below: "strict_prefix dir ?p"
      using 2(7) by (metis prefix_order.le_less prefix_same_cases)
    have step: "fs_steps dir w (put ?p Directory w)"
      using new_directory[OF no_step below 3] 2(6) by simp
    have m: "make_dirs ?p cs (put ?p Directory w) = (r, w')" using 2(3) 3 by (simp add: Let_def)
    have "fs_steps dir (put ?p Directory w) w' \<and> (isl r \<or> lookup w' (?p @ cs) = Some Directory)"
      using 3 m fs_steps_tree[OF step 2(4)] fs_steps_directory[OF step 2(5)] 2(7)
      by (intro 2(1)[OF refl 3]) auto
    with step show ?thesis by (auto intro: fs_steps_trans)
  qed
qed

lemma make_dirs_exist:
  "tree_ok w \<Longrightarrow> lookup w (base @ cs) = Some Directory \<Longrightarrow> make_dirs base cs w = (Inr (), w)"
proof (induction cs arbitrary: base)
  case (Cons c cs)
  then have "lookup w (base @ [c]) = Some Directory" using ancestors[of w "base @ [c]" cs] by simp
  with Cons show ?case by (simp add: Let_def)
qed simp

lemma write_text_steps:
  assumes "write_text env p c w = (r, w')" "prefix dir p" "lookup w dir = Some Directory"
  shows "fs_steps dir w w' \<and> (isl r \<or> lookup w' p = Some (File c))"
proof (cases "lookup w p = Some Directory")
  case True
  with assms show ?thesis by (auto simp: write_text_def intro: no_step)
next
  case False
  with assms(2,3) have d: "strict_prefix dir p" "p \<noteq> []" by (auto simp: prefix_order.le_less)
  let ?w = "w\<lparr>fs_writes := fs_writes w + 1\<rparr>"
  have step: "fs_steps dir w ?w" by (rule tick[OF no_step])
  show ?thesis
  proof (cases "lookup w (butlast p) = Some Directory")
    case True
    with new_text[OF step d(1)] False step show ?thesis
      using assms(1) d by (auto simp: write_text_def Let_def split: write_fault.splits option.splits)
  next
    case no_parent: False
    with False assms(1) show ?thesis
      by (auto simp: write_text_def Let_def intro: no_step split: option.splits fs_node.splits)
  qed
qed

lemma make_directories_cases:
  assumes "make_directories env p w = (r, w')"
  obtains (fails) "r = Inl OSFailure" "w' = w" | (made) "make_dirs [] p w = (r, w')"
proof (cases "env_mkdir_fails env (fs_writes w)")
  case True
  then show thesis using assms fails by (simp add: make_directories_def)
next
  case False
  then show thesis using assms made by (simp add: make_directories_def)
qed

definition write_at :: "FsEnv \<Rightarrow> fpath \<Rightarrow> string \<Rightarrow> unit fs_op" where
  "write_at env target content = op_bind (make_directories env (butlast target)) (\<lambda>_. write_text env target content)"

lemma write_at_steps:
  assumes "write_at env t c w = (r, w')" "tree_ok w" "prefix dir t" "lookup w dir = Some Directory"
  shows "fs_steps dir w w' \<and> (isl r \<or> lookup w' t = Some (File c))"
proof -
  obtain r1 w1 where m: "make_directories env (butlast t) w = (r1, w1)" by fastforce
  have s1: "fs_steps dir w w1"
    using m
  proof (cases rule: make_directories_cases)
    case made: made
    show ?thesis
  proof (cases "t = dir")
    case True
    with assms(2,4) have "lookup w (butlast t) = Some Directory"
      by (cases "dir = []") (auto simp: tree_ok_def)
    with make_dirs_exist[OF assms(2), of "[]" "butlast t"] made show ?thesis by (auto intro: no_step)
  next
    case False
    then have "prefix dir (butlast t)" using assms(3) by (metis prefix_order.le_less prefix_snoc append_butlast_last_id prefix_Nil)
    with make_dirs_steps[OF made assms(2,4)] show ?thesis by simp
  qed
  qed (simp add: no_step)
  show ?thesis
  proof (cases r1)
    case (Inl e)
    with assms(1) m s1 show ?thesis by (auto simp: write_at_def op_bind_def)
  next
    case (Inr u)
    with assms(1) m have "write_text env t c w1 = (r, w')" by (simp add: write_at_def op_bind_def)
    from write_text_steps[OF this assms(3) fs_steps_directory[OF s1 assms(4)]] s1 show ?thesis
      by (auto intro: fs_steps_trans)
  qed
qed

lemma resolved_inside:
  "resolve_project_file dir path = Inr t \<Longrightarrow> prefix dir t \<and> t = resolve dir (path_tail path)"
  "resolve_workspace_path env path = Inr t \<Longrightarrow> prefix (env_root env) t"
  by (auto simp: resolve_project_file_def resolve_workspace_path_def Let_def split: if_splits)

lemma write_files_at:
  "write_files env dir (f # fs) = op_bind (op_pure (resolve_project_file dir (pf_path f)))
     (\<lambda>t. op_bind (write_at env t (pf_content f)) (\<lambda>_. write_files env dir fs))"
  by (rule ext) (auto simp: op_bind_def write_at_def op_pure_def split: sum.splits prod.splits)

lemma write_files_steps:
  assumes "write_files env dir fs w = (r, w')" "tree_ok w" "lookup w dir = Some Directory"
  shows "fs_steps dir w w'"
  using assms
proof (induction fs arbitrary: w)
  case (Cons f fs)
  show ?case
  proof (cases "resolve_project_file dir (pf_path f)")
    case (Inl e)
    with Cons(2) show ?thesis by (auto simp: write_files_at op_bind_pure intro: no_step simp del: write_files.simps(2))
  next
    case (Inr t)
    obtain r1 w1 where a: "write_at env t (pf_content f) w = (r1, w1)" by fastforce
    have s1: "fs_steps dir w w1"
      using write_at_steps[OF a Cons(3) conjunct1[OF resolved_inside(1)[OF Inr]] Cons(4)] by simp
    show ?thesis
    proof (cases r1)
      case (Inl e)
      with Cons(2) Inr a s1 show ?thesis by (auto simp: write_files_at op_bind_def op_pure_def simp del: write_files.simps(2))
    next
      case (Inr u)
      with Cons(2) \<open>resolve_project_file dir (pf_path f) = Inr t\<close> a have "write_files env dir fs w1 = (r, w')"
        by (auto simp: write_files_at op_bind_def op_pure_def simp del: write_files.simps(2))
      from Cons(1)[OF this fs_steps_tree[OF s1 Cons(3)] fs_steps_directory[OF s1 Cons(4)]] s1 show ?thesis
        by (rule fs_steps_trans)
    qed
  qed
qed (auto intro: no_step)

section \<open>Moving and removing a directory\<close>

lemma fs_steps_nothing_below:
  "fs_steps dir w w' \<Longrightarrow> (\<And>p. strict_prefix dir p \<Longrightarrow> lookup w p = None) \<Longrightarrow> \<not> prefix dir p \<Longrightarrow> lookup w' p = lookup w p"
  using fs_steps_outside by (metis prefix_order.less_imp_le)

lemma absent_below: "tree_ok w \<Longrightarrow> lookup w p = None \<or> (\<exists>n. lookup w p = Some n \<and> n \<noteq> Directory)
    \<Longrightarrow> strict_prefix p q \<Longrightarrow> lookup w q = None"
proof (induction q rule: rev_induct)
  case (snoc c q)
  then have "prefix p q" by (metis prefix_order.le_less prefix_snoc prefix_order.less_irrefl)
  with snoc have "lookup w q \<noteq> Some Directory" by (cases "p = q") (auto simp: prefix_order.le_less)
  with snoc(2) show ?case unfolding tree_ok_def by (metis butlast_snoc not_None_eq snoc_eq_iff_butlast)
qed simp

lemma map_of_remove: "map_of (filter (\<lambda>(q, n). \<not> prefix p q) xs) q = (if prefix p q then None else map_of xs q)"
  by (induction xs) auto

lemma lookup_remove: "p \<noteq> [] \<Longrightarrow> lookup (remove_tree p w) q = (if prefix p q then None else lookup w q)"
  by (auto simp: lookup_def remove_tree_def map_of_remove)

lemma map_of_rename:
  assumes "\<And>q. prefix dst q \<Longrightarrow> map_of xs q = None" "\<not> prefix src dst" "\<not> prefix dst src"
  shows "map_of (map (\<lambda>(q, n). if prefix src q then (dst @ drop (length src) q, n) else (q, n)) xs) p =
    (if prefix dst p then map_of xs (src @ drop (length dst) p) else if prefix src p then None else map_of xs p)"
  using assms(1)
proof (induction xs)
  case (Cons x xs)
  obtain q n where x: "x = (q, n)" by (cases x)
  have none: "map_of xs t = None" if "prefix dst t" for t
    using Cons(2)[OF that] by (simp add: x split: if_splits)
  have q: "\<not> prefix dst q" using Cons(2)[of q] by (auto simp: x)
  note IH = Cons(1)[OF none]
  show ?case
  proof (cases "prefix src q")
    case True
    then obtain t where t: "q = src @ t" by (auto simp: prefix_def)
    have "p = dst @ t \<longleftrightarrow> prefix dst p \<and> src @ drop (length dst) p = q" by (auto simp: t prefix_def)
    with True IH t show ?thesis by (auto simp: x)
  next
    case False
    have "q \<noteq> src @ drop (length dst) p" using False by auto
    with False IH q show ?thesis by (auto simp: x)
  qed
qed simp

lemma lookup_rename:
  assumes "\<And>q. prefix dst q \<Longrightarrow> lookup w q = None" "\<not> prefix src dst" "\<not> prefix dst src" "src \<noteq> []" "dst \<noteq> []"
  shows "lookup (rename src dst w) p =
    (if prefix dst p then lookup w (src @ drop (length dst) p) else if prefix src p then None else lookup w p)"
proof -
  have "map_of (fs_nodes w) q = None" if "prefix dst q" for q
    using assms(1)[OF that] by (simp add: lookup_def split: if_splits)
  from map_of_rename[OF this assms(2,3)] assms(4,5) show ?thesis
    by (auto simp: lookup_def rename_def)
qed

section \<open>The texts of a tree\<close>

text \<open>The abstract view of a tree: its text files.\<close>

definition texts :: "Workspace \<Rightarrow> fpath \<Rightarrow> string option" where
  "texts w p = (case lookup w p of Some (File s) \<Rightarrow> Some s | _ \<Rightarrow> None)"

lemma texts_put: "p \<noteq> [] \<Longrightarrow> texts (put p (File s) w) = (texts w)(p \<mapsto> s)"
  by (rule ext) (simp add: texts_def)

lemma texts_new_directory: "lookup w p = None \<Longrightarrow> texts (put p Directory w) = texts w"
  by (rule ext) (auto simp: texts_def)

lemma texts_make_dirs: "make_dirs base cs w = (r, w') \<Longrightarrow> texts w' = texts w"
proof (induction base cs w rule: make_dirs.induct)
  case (2 base c cs w)
  show ?case
  proof (cases "lookup w (base @ [c])")
    case None
    with 2(1)[OF refl None] 2(3) texts_new_directory[OF None] show ?thesis by (simp add: Let_def)
  next
    case (Some n)
    with 2(2)[OF refl] 2(3) show ?thesis by (cases n) (auto simp: Let_def)
  qed
qed simp

lemma texts_write: "write_text env p c w = (Inr u, w') \<Longrightarrow> texts w' = (texts w)(p \<mapsto> c)"
proof -
  assume w: "write_text env p c w = (Inr u, w')"
  then have "p \<noteq> []" by (auto simp: write_text_def)
  moreover have "texts (w\<lparr>fs_writes := k\<rparr>) = texts w" for k by (rule ext) (simp add: texts_def)
  ultimately show ?thesis
    using w by (auto simp: write_text_def Let_def texts_put split: if_splits option.splits fs_node.splits write_fault.splits)
qed

lemma texts_make_directories: "make_directories env p w = (r, w') \<Longrightarrow> texts w' = texts w"
  by (elim make_directories_cases) (simp_all add: texts_make_dirs)

lemma texts_write_at: "write_at env p c w = (Inr u, w') \<Longrightarrow> texts w' = (texts w)(p \<mapsto> c)"
  unfolding write_at_def op_bind_Inr using texts_make_directories texts_write by metis

definition targets :: "fpath \<Rightarrow> ProjectFile list \<Rightarrow> (fpath \<times> string) list" where
  "targets dir = map (\<lambda>f. (resolve dir (path_tail (pf_path f)), pf_content f))"

lemma targets_Cons: "targets dir (f # fs) = (resolve dir (path_tail (pf_path f)), pf_content f) # targets dir fs"
  by (simp add: targets_def)

lemma map_of_rev_Cons: "m ++ map_of (rev ((p, c) # xs)) = m(p \<mapsto> c) ++ map_of (rev xs)"
  by (rule ext) (simp add: map_add_def split: option.splits)

lemma texts_write_files:
  "write_files env dir fs w = (Inr u, w') \<Longrightarrow> texts w' = texts w ++ map_of (rev (targets dir fs))"
proof (induction fs arbitrary: w)
  case (Cons f fs)
  then obtain t w1 u1 where t: "resolve_project_file dir (pf_path f) = Inr t"
    and a: "write_at env t (pf_content f) w = (Inr u1, w1)" and rest: "write_files env dir fs w1 = (Inr u, w')"
    by (auto simp: write_files_at op_bind_Inr simp del: write_files.simps(2))
  have "t = resolve dir (path_tail (pf_path f))" using resolved_inside(1)[OF t] by simp
  with texts_write_at[OF a] Cons(1)[OF rest] show ?case by (simp only: targets_Cons map_of_rev_Cons)
qed (simp add: targets_def)

section \<open>Creating a project\<close>

lemma name_component:
  assumes "validate_project_name name = Inr n"
  shows "path_tail name = [name] \<and> name \<noteq> [] \<and> name \<noteq> ''..'' \<and> name \<noteq> ''.''  \<and> \<not> is_absolute name \<and> hd name \<noteq> CHR ''.''"
proof -
  have ok: "name \<noteq> []" "list_all (\<lambda>c. is_word c \<or> c = CHR ''-'') name"
    using assms by (auto simp: validate_project_name_def split: if_splits)
  have bad: "\<not> (is_word (CHR ''/'') \<or> CHR ''/'' = CHR ''-'')" "\<not> (is_word (CHR ''.'') \<or> CHR ''.'' = CHR ''-'')"
    by code_simp+
  with ok have n: "CHR ''/'' \<notin> set name" "CHR ''.'' \<notin> set name" by (auto simp: list_all_iff)
  then have "path_tail name = [name]" using ok(1) by (auto simp: path_tail_def split_on_no)
  moreover have "path_root name = []" using n ok(1) by (cases name) (auto simp: path_root_def starts_with_def)
  ultimately show ?thesis using n ok(1) by (cases name) (auto simp: is_absolute_def)
qed

lemma project_directory:
  assumes "validate_project_name name = Inr n" "resolve_workspace_path env name = Inr d"
  shows "d = env_root env @ [name]"
  using assms name_component[OF assms(1)] by (auto simp: resolve_workspace_path_def resolve_def Let_def split: if_splits)

text \<open>The files of a new project, by their paths below its directory.\<close>

definition project_texts :: "FsEnv \<Rightarrow> string \<Rightarrow> ProjectFile list \<Rightarrow> (fpath \<times> string) list" where
  "project_texts env name files =
    map (\<lambda>(p, c). (drop (length (temp_dir env name)) p, c)) (targets (temp_dir env name) files)"

lemma confined_targets:
  "write_files env dir fs w = (Inr u, w') \<Longrightarrow> (p, c) \<in> set (targets dir fs) \<Longrightarrow> prefix dir p"
proof (induction fs arbitrary: w)
  case (Cons f fs)
  from Cons(2) obtain t w1 where "resolve_project_file dir (pf_path f) = Inr t" "write_files env dir fs w1 = (Inr u, w')"
    by (auto simp: write_files_at op_bind_Inr simp del: write_files.simps(2))
  with Cons(1,3) resolved_inside(1) show ?case by (auto simp: targets_Cons)
qed (simp add: targets_def)

lemma map_of_below:
  "(\<And>p c. (p, c) \<in> set xs \<Longrightarrow> prefix dir p) \<Longrightarrow>
    map_of (map (\<lambda>(p, c). (drop (length dir) p, c)) xs) q = map_of xs (dir @ q)"
proof (induction xs)
  case (Cons x xs)
  obtain p c where x: "x = (p, c)" by (cases x)
  with Cons(2)[of p c] obtain t where "p = dir @ t" by (auto simp: prefix_def)
  with Cons x show ?case by auto
qed simp

lemma create_project_cases:
  assumes "create_project_structure_impl env name files w = (r, w')"
  obtains (refused) e where "r = Inl e" "w' = w"
    | (built) report where "validate_project_name name = Inr name" "lookup w (env_root env @ [name]) = None"
      "(\<exists>e. r = Inl e \<and> build_project env name (env_root env @ [name]) files w = (Inl e, w'))
       \<or> (r = Inr report \<and> build_project env name (env_root env @ [name]) files w = (Inr (), w'))"
proof (cases "validate_project_name name")
  case (Inl e)
  with assms refused show ?thesis by (auto simp: create_project_structure_impl_def op_bind_pure)
next
  case (Inr n)
  then have n: "validate_project_name name = Inr name" by (auto simp: validate_project_name_def split: if_splits)
  show ?thesis
  proof (cases "validate_file_batch files")
    case (Inl e)
    with n assms refused show ?thesis by (auto simp: create_project_structure_impl_def op_bind_pure)
  next
    case bytes: (Inr bytes)
    show ?thesis
    proof (cases "validate_paths_exclude_project name files")
      case (Inl e)
      with n bytes assms refused show ?thesis by (auto simp: create_project_structure_impl_def op_bind_pure)
    next
      case paths: (Inr v)
      show ?thesis
      proof (cases "resolve_workspace_path env name")
        case (Inl e)
        with n bytes paths assms refused show ?thesis by (auto simp: create_project_structure_impl_def op_bind_pure)
      next
        case (Inr d)
        note d = project_directory[OF n Inr]
        show ?thesis
          using assms refused built n bytes paths Inr
          by (cases "lookup w d"; cases "build_project env name d files w")
            (auto simp: create_project_structure_impl_def op_bind_pure op_bind_def d op_pure_def split: sum.splits)
      qed
    qed
  qed
qed

lemma build_project_result:
  assumes ok: "workspace_ok env w" and fresh: "lookup w (temp_dir env name) = None"
    and name: "validate_project_name name = Inr name" and dest: "lookup w (env_root env @ [name]) = None"
    and b: "build_project env name (env_root env @ [name]) files w = (r, w')"
  shows "case r of Inl e \<Rightarrow> \<forall>p. lookup w' p = lookup w p
    | Inr u \<Rightarrow> tree_ok w' \<and> (\<forall>p. \<not> prefix (env_root env @ [name]) p \<longrightarrow> lookup w' p = lookup w p)
        \<and> (\<forall>q. texts w' (env_root env @ name # q) = map_of (rev (project_texts env name files)) q)"
proof -
  let ?temp = "temp_dir env name" and ?dest = "env_root env @ [name]" and ?root = "env_root env"
  let ?w0 = "put ?temp Directory w"
  have tree: "tree_ok w" "lookup w ?root = Some Directory" using ok by (auto simp: workspace_ok_def)
  have apart: "\<not> prefix ?temp ?dest" "\<not> prefix ?dest ?temp" "?temp \<noteq> []" "strict_prefix ?root ?temp"
    using name_component[OF name] by (auto simp: temp_dir_def strict_prefix_def)
  have "fs_steps ?root w ?w0"
    using new_directory[OF no_step apart(4) fresh] tree(2) by (simp add: temp_dir_def)
  then have t0: "tree_ok ?w0" using fs_steps_tree tree(1) by blast
  obtain r1 w1 where f: "write_files env ?temp files ?w0 = (r1, w1)" by fastforce
  have steps: "fs_steps ?temp ?w0 w1" using write_files_steps[OF f t0] apart(3) by simp
  have same: "lookup w1 p = lookup w p" if "\<not> prefix ?temp p" for p
    using fs_steps_outside[OF steps, of p] that by (auto simp: prefix_order.le_less)
  have absent_temp: "\<And>p. prefix ?temp p \<Longrightarrow> lookup w p = None" and absent_dest: "\<And>p. prefix ?dest p \<Longrightarrow> lookup w p = None"
    using absent_below[OF tree(1)] fresh dest by (metis prefix_order.le_less)+
  show ?thesis
  proof (cases "env_mkdtemp_fails env")
    case True
    then show ?thesis using b by (auto simp: build_project_def Let_def)
  next
    case made: False
    note b = b[unfolded build_project_def Let_def if_not_P[OF made]]
    show ?thesis
  proof (cases r1)
    case (Inl e)
    with b f have "w' = remove_tree ?temp w1" "r = Inl e" by simp_all
    then show ?thesis using same absent_temp lookup_remove[OF apart(3)] by simp
  next
    case (Inr u)
    show ?thesis
  proof (cases "env_move_fails env")
    case True
    with b f Inr have "w' = remove_tree ?temp w1" "r = Inl OSFailure" by simp_all
    then show ?thesis using same absent_temp lookup_remove[OF apart(3)] by simp
  next
    case False
    with b f Inr have w': "w' = rename ?temp ?dest w1" "r = Inr ()" by simp_all
    have absent: "lookup w1 q = None" if "prefix ?dest q" for q
      using same[of q] absent_dest[of q] that apart(1,2) by (metis prefix_same_cases)
    have l: "lookup w' p = (if prefix ?dest p then lookup w1 (?temp @ drop (length ?dest) p)
        else if prefix ?temp p then None else lookup w1 p)" for p
      unfolding w'(1) using lookup_rename[OF absent apart(1,2,3)] by simp
    have outside: "lookup w' p = lookup w p" if "\<not> prefix ?dest p" for p
      using that l[of p] same[of p] absent_temp[of p] by auto
    have inside: "lookup w' (?dest @ t) = lookup w1 (?temp @ t)" for t
      using l[of "?dest @ t"] by simp
    have "tree_ok w'"
      unfolding tree_ok_def
    proof (intro allI impI)
      fix p assume p: "p \<noteq> []" "lookup w' p \<noteq> None"
      show "lookup w' (butlast p) = Some Directory"
      proof (cases "prefix ?dest p")
        case False
        then have "\<not> prefix ?dest (butlast p)"
          by (metis append_butlast_last_id p(1) prefix_snoc)
        with outside False p tree(1) show ?thesis by (metis tree_ok_def)
      next
        case True
        then obtain t where t: "p = ?dest @ t" by (auto simp: prefix_def)
        show ?thesis
        proof (cases "t = []")
          case True
          with t tree(2) outside[of ?root] show ?thesis by simp
        next
          case False
          have "lookup w1 (?temp @ t) \<noteq> None" using p(2) t inside by simp
          then have "lookup w1 (butlast (?temp @ t)) = Some Directory"
            using fs_steps_tree[OF steps t0] False unfolding tree_ok_def by blast
          with False inside[of "butlast t"] t show ?thesis by (simp add: butlast_append)
        qed
      qed
    qed
    moreover have "texts w' (?root @ name # q) = map_of (rev (project_texts env name files)) q" for q
    proof -
      have "texts w' (?dest @ q) = texts w1 (?temp @ q)" using inside by (simp add: texts_def)
      also have "\<dots> = (texts ?w0 ++ map_of (rev (targets ?temp files))) (?temp @ q)"
        using texts_write_files f Inr by metis
      also have "texts ?w0 (?temp @ q) = None"
        using absent_temp[of "?temp @ q"] apart(3) by (simp add: texts_def)
      then have "(texts ?w0 ++ map_of (rev (targets ?temp files))) (?temp @ q) = map_of (rev (targets ?temp files)) (?temp @ q)"
        by (simp add: map_add_def split: option.splits)
      also have "\<dots> = map_of (rev (project_texts env name files)) q"
        unfolding project_texts_def rev_map
        using confined_targets f Inr by (intro map_of_below[symmetric]) fastforce
      finally show ?thesis by simp
    qed
    ultimately show ?thesis using outside by (auto simp: w'(2))
  qed
  qed
  qed
qed

text \<open>(C7) A project is created completely or not at all: when any of its files is refused or any write,
  a call of mkdir, mkdtemp or the final move fails, the tree is as it was, without the temporary directory; otherwise the new directory holds
  exactly the texts of the request, the last one where two files name the same path, and nothing
  else has changed.\<close>

theorem create_project_is_atomic:
  assumes "workspace_ok env w" "lookup w (temp_dir env name) = None"
    and "create_project_structure_impl env name files w = (result, w')"
  shows "case result of Inl e \<Rightarrow> (\<forall>p. lookup w' p = lookup w p)
    | Inr report \<Rightarrow> (\<forall>p. \<not> prefix (env_root env @ [name]) p \<longrightarrow> lookup w' p = lookup w p)
        \<and> (\<forall>q. texts w' (env_root env @ name # q) = map_of (rev (project_texts env name files)) q)"
  using assms(3)
proof (cases rule: create_project_cases)
  case (built report)
  with build_project_result[OF assms(1,2) built(1,2)] show ?thesis by fastforce
qed simp

section \<open>Updating a project\<close>

lemma read_targets_result:
  assumes "read_targets dir files w = (r, w')"
  shows "w' = w \<and> (case r of Inl e \<Rightarrow> True | Inr ts \<Rightarrow>
    map (\<lambda>(p, new, old). (p, new)) ts = targets dir files
    \<and> (\<forall>(p, new, old) \<in> set ts. \<exists>s. lookup w p = Some (File s) \<and> old = universal_newlines s))"
  using assms
proof (induction files arbitrary: r w')
  case (Cons f fs)
  show ?case
  proof (cases "resolve_project_file dir (pf_path f)")
    case (Inl e)
    with Cons(2) show ?thesis by (auto simp: op_bind_pure)
  next
    case (Inr t)
    have t: "t = resolve dir (path_tail (pf_path f))" using resolved_inside(1)[OF Inr] by simp
    obtain r1 w1 where rest: "read_targets dir fs w = (r1, w1)" by fastforce
    note IH = Cons(1)[OF rest]
    show ?thesis
    proof (cases "lookup w t")
      case None
      with Cons(2) Inr show ?thesis by (auto simp: op_bind_pure is_file_def)
    next
      case (Some n)
      then show ?thesis
        using Cons(2) \<open>resolve_project_file dir (pf_path f) = Inr t\<close> rest IH t
        by (cases n; cases r1) (auto simp: op_bind_pure is_file_def op_bind_def read_text_def op_pure_def targets_Cons)
    qed
  qed
qed (auto simp: targets_def)

definition text_files :: "Workspace \<Rightarrow> fpath set \<Rightarrow> bool" where
  "text_files w ps \<longleftrightarrow> (\<forall>p \<in> ps. \<exists>s. lookup w p = Some (File s))"

lemma write_text_file:
  assumes "tree_ok w" "lookup w p = Some (File s)"
  shows "write_text env p c w = (let w' = w\<lparr>fs_writes := fs_writes w + 1\<rparr> in
    case env_fault env (fs_writes w) of Written \<Rightarrow> (Inr (), put p (File c) w')
    | Failed None \<Rightarrow> (Inl OSFailure, w') | Failed (Some left) \<Rightarrow> (Inl OSFailure, put p (File left) w'))"
proof -
  have "p \<noteq> []" using assms(2) by auto
  with assms have "lookup w (butlast p) = Some Directory" by (simp add: tree_ok_def)
  with assms(2) show ?thesis by (simp add: write_text_def)
qed

lemma tree_put_file: "tree_ok w \<Longrightarrow> lookup w p = Some (File s) \<Longrightarrow> tree_ok (put p (File c) (w\<lparr>fs_writes := k\<rparr>))"
  by (auto simp: tree_ok_def)

definition write_all_spec :: "FsEnv \<Rightarrow> (fpath \<times> string) list \<Rightarrow> Workspace \<Rightarrow> (fs_error + unit) \<Rightarrow> Workspace \<Rightarrow> bool" where
  "write_all_spec env ws w r w' \<longleftrightarrow> fs_writes w \<le> fs_writes w' \<and> text_files w' (fst ` set ws)
    \<and> (\<forall>p. p \<notin> fst ` set ws \<longrightarrow> lookup w' p = lookup w p) \<and> tree_ok w'
    \<and> (case r of Inl e \<Rightarrow> \<exists>i < fs_writes w'. fs_writes w \<le> i \<and> env_fault env i \<noteq> Written
        | Inr u \<Rightarrow> texts w' = texts w ++ map_of (rev ws))"

lemma write_all_result:
  "write_all env ws w = (r, w') \<Longrightarrow> tree_ok w \<Longrightarrow> text_files w (fst ` set ws) \<Longrightarrow> write_all_spec env ws w r w'"
proof (induction ws arbitrary: w)
  case (Cons x ws)
  obtain p c where x: "x = (p, c)" by (cases x)
  from Cons(4) obtain s where s: "lookup w p = Some (File s)" by (auto simp: text_files_def x)
  have p: "p \<noteq> []" using s by auto
  note wt = write_text_file[OF Cons(3) s, of env c]
  let ?w = "w\<lparr>fs_writes := fs_writes w + 1\<rparr>"
  have same: "texts ?w = texts w" by (rule ext) (simp add: texts_def)
  have files: "text_files (put p (File d) ?w) (fst ` set (x # ws))" "text_files ?w (fst ` set (x # ws))" for d
    using Cons(4) p by (auto simp: text_files_def x)
  show ?case
  proof (cases "env_fault env (fs_writes w)")
    case Written
    let ?w1 = "put p (File c) ?w"
    have rest: "write_all env ws ?w1 = (r, w')"
      using Cons(2) wt Written by (simp add: x op_bind_def Let_def)
    have "write_all_spec env ws ?w1 r w'"
      using files(1)[of c] by (intro Cons(1)[OF rest tree_put_file[OF Cons(3) s]]) (auto simp: text_files_def)
    moreover have "p \<in> fst ` set ws \<or> lookup w' p = Some (File c)"
      using calculation p by (auto simp: write_all_spec_def)
    moreover have "texts ?w1 = (texts w)(p \<mapsto> c)" using p same by (simp add: texts_put)
    ultimately show ?thesis
      by (auto simp: write_all_spec_def x text_files_def map_of_rev_Cons simp del: rev.simps split: sum.splits)
  next
    case (Failed d)
    then have "r = Inl OSFailure" "w' = (case d of None \<Rightarrow> ?w | Some left \<Rightarrow> put p (File left) ?w)"
      using Cons(2) wt by (auto simp: x op_bind_def Let_def split: option.splits)
    then show ?thesis
      using Failed files Cons(3) tree_put_file[OF Cons(3) s]
      by (cases d) (auto simp: write_all_spec_def x tree_ok_def intro!: exI[of _ "fs_writes w"])
  qed
qed (auto simp: write_all_spec_def text_files_def)

lemma previous_texts_keys:
  "fst ` set (previous_texts ts) = fst ` set ts" "(p, old) \<in> set (previous_texts ts) \<Longrightarrow> \<exists>new. (p, new, old) \<in> set ts"
proof -
  show "fst ` set (previous_texts ts) = fst ` set ts"
  proof (induction ts rule: rev_induct)
    case (snoc x ts)
    then show ?case by (cases x) (simp add: previous_texts_def keys_update)
  qed (simp add: previous_texts_def)
  show "(p, old) \<in> set (previous_texts ts) \<Longrightarrow> \<exists>new. (p, new, old) \<in> set ts"
  proof (induction ts rule: rev_induct)
    case (snoc x ts)
    obtain q new t where x: "x = (q, new, t)" by (cases x)
    have "set (AList.update q t d) \<subseteq> insert (q, t) (set d)" for d :: "(fpath \<times> string) list"
      by (induction d) auto
    with snoc show ?case by (auto simp: previous_texts_def x)
  qed (simp add: previous_texts_def)
qed

text \<open>A disk on which at most one write fails.\<close>

definition one_fault :: "FsEnv \<Rightarrow> bool" where
  "one_fault env \<longleftrightarrow> (\<forall>i j. env_fault env i \<noteq> Written \<and> env_fault env j \<noteq> Written \<longrightarrow> i = j)"

text \<open>A file that is as it was, but for its line ends.\<close>

definition restored :: "Workspace \<Rightarrow> Workspace \<Rightarrow> fpath \<Rightarrow> bool" where
  "restored w w' p \<longleftrightarrow> lookup w' p = lookup w p
    \<or> (\<exists>s. lookup w p = Some (File s) \<and> lookup w' p = Some (File (universal_newlines s)))"

lemma write_or_restore_result:
  assumes w: "write_or_restore env ts w = (r, w')" "tree_ok w" "one_fault env"
    and ts: "\<forall>(p, new, old) \<in> set ts. \<exists>s. lookup w p = Some (File s) \<and> old = universal_newlines s"
  shows "tree_ok w' \<and> (case r of Inl e \<Rightarrow> \<forall>p. restored w w' p
    | Inr u \<Rightarrow> texts w' = texts w ++ map_of (rev (map (\<lambda>(p, new, old). (p, new)) ts)))"
proof -
  let ?new = "map (\<lambda>(p, new, old). (p, new)) ts"
  have keys: "fst ` set ?new = fst ` set ts" by force
  have files: "text_files w (fst ` set ts)" using ts by (auto simp: text_files_def)
  obtain r1 w1 where a: "write_all env ?new w = (r1, w1)" by fastforce
  have s1: "write_all_spec env ?new w r1 w1" using write_all_result[OF a w(2)] files keys by simp
  show ?thesis
  proof (cases r1)
    case (Inr u)
    with w(1) a s1 show ?thesis by (auto simp: write_or_restore_def write_all_spec_def)
  next
    case (Inl e)
    obtain r2 where b: "write_all env (previous_texts ts) w1 = (r2, w')" and r: "isl r"
      using w(1) a Inl by (auto simp: write_or_restore_def op_bind_def op_pure_def split: sum.splits prod.splits)
    have s2: "write_all_spec env (previous_texts ts) w1 r2 w'"
      using write_all_result[OF b] s1 keys by (simp add: write_all_spec_def previous_texts_keys(1))
    obtain i where "i < fs_writes w1" "env_fault env i \<noteq> Written" using s1 Inl by (auto simp: write_all_spec_def)
    then have "env_fault env j = Written" if "fs_writes w1 \<le> j" for j
      using w(3) that unfolding one_fault_def by (metis leD)
    with s2 have t: "texts w' = texts w1 ++ map_of (rev (previous_texts ts))"
      by (cases r2) (auto simp: write_all_spec_def)
    have "restored w w' p" for p
    proof (cases "p \<in> fst ` set ts")
      case False
      with s1 s2 keys show ?thesis by (simp add: write_all_spec_def previous_texts_keys(1) restored_def)
    next
      case True
      then obtain old where o: "map_of (rev (previous_texts ts)) p = Some old"
        using previous_texts_keys(1)[of ts] by (metis map_of_eq_None_iff not_Some_eq set_rev image_set list.set_map)
      then have "(p, old) \<in> set (previous_texts ts)" by (metis map_of_SomeD set_rev)
      with previous_texts_keys(2) ts obtain s where s: "lookup w p = Some (File s)" "old = universal_newlines s" by fastforce
      have "texts w' p = Some old" using t o by (simp add: map_add_def)
      then have "lookup w' p = Some (File old)" by (auto simp: texts_def split: option.splits fs_node.splits)
      with s show ?thesis by (simp add: restored_def)
    qed
    with r s2 show ?thesis by (auto simp: write_all_spec_def isl_def)
  qed
qed

lemma restored_refl [simp]: "restored w w p"
  by (simp add: restored_def)

lemma update_unfold:
  assumes "validate_project_name name = Inr n" "validate_file_batch files = Inr bytes"
    and "resolve_workspace_path env name = Inr d"
  shows "update_project_files_impl env name files w =
    (if lookup w d \<noteq> Some Directory then (Inl (FileNotFound (''project does not exist: '' @ name)), w)
     else op_bind (read_targets d files) (\<lambda>targets. op_bind (write_or_restore env targets) (\<lambda>_.
       op_pure (Inr \<lparr>pr_project = name, pr_path = None, pr_files = map pf_path files,
         pr_total = length files, pr_bytes = bytes\<rparr>))) w)"
  using assms by (simp add: update_project_files_impl_def op_bind_pure)

text \<open>(C30) An update of a project is done completely or taken back, when at most one write fails: after a
  success the texts of the project are the old ones overwritten with those of the request; after an
  error every file has its old text again, though with its carriage returns turned into line feeds,
  and nothing else has changed.\<close>

theorem update_is_atomic:
  assumes "workspace_ok env w" "one_fault env"
    and "update_project_files_impl env name files w = (result, w')"
  shows "case result of Inl e \<Rightarrow> \<forall>p. restored w w' p
    | Inr report \<Rightarrow> texts w' = texts w ++ map_of (rev (targets (env_root env @ [name]) files))"
proof (cases "validate_project_name name")
  case (Inl e)
  with assms(3) show ?thesis by (auto simp: update_project_files_impl_def op_bind_pure)
next
  case name: (Inr n)
  show ?thesis
  proof (cases "validate_file_batch files")
    case (Inl e)
    with name assms(3) show ?thesis by (auto simp: update_project_files_impl_def op_bind_pure)
  next
    case batch: (Inr bytes)
    show ?thesis
    proof (cases "resolve_workspace_path env name")
      case (Inl e)
      with name batch assms(3) show ?thesis by (auto simp: update_project_files_impl_def op_bind_pure)
    next
      case (Inr d)
      note d = project_directory[OF name Inr]
      note u = update_unfold[OF name batch Inr]
      obtain r1 w1 where t: "read_targets d files w = (r1, w1)" by fastforce
      note read = read_targets_result[OF t]
      show ?thesis
      proof (cases "lookup w d = Some Directory \<and> \<not> isl r1")
        case False
        with u assms(3) t read show ?thesis by (cases r1) (auto simp: op_bind_def split: if_splits)
      next
        case True
        then obtain ts where ts: "r1 = Inr ts" by (cases r1) auto
        obtain r2 w2 where wr: "write_or_restore env ts w = (r2, w2)" by fastforce
        have "tree_ok w" using assms(1) by (simp add: workspace_ok_def)
        note result = write_or_restore_result[OF wr this assms(2)]
        have old: "\<forall>(p, new, old) \<in> set ts. \<exists>s. lookup w p = Some (File s) \<and> old = universal_newlines s"
          and new: "map (\<lambda>(p, new, old). (p, new)) ts = targets d files"
          using read ts by simp_all
        have res: "case r2 of Inl e \<Rightarrow> \<forall>p. restored w w2 p | Inr u \<Rightarrow> texts w2 = texts w ++ map_of (rev (targets d files))"
          using result[OF old] unfolding new by (rule conjunct2)
        have "read_targets d files w = (Inr ts, w)" using t read ts by simp
        then have "case r2 of Inl e \<Rightarrow> result = Inl e \<and> w' = w2 | Inr u \<Rightarrow> \<not> isl result \<and> w' = w2"
          using wr True u assms(3) by (cases r2) (auto simp: op_bind_def op_pure_def)
        with res d show ?thesis by (cases r2; cases result) auto
      qed
    qed
  qed
qed

section \<open>Every request\<close>

lemma write_file_steps:
  assumes "write_file_impl env path c overwrite w = (r, w')" "workspace_ok env w"
  shows "fs_steps (env_root env) w w'"
proof (cases "resolve_workspace_path env path")
  case (Inl e)
  with assms(1) show ?thesis by (auto simp: write_file_impl_def op_bind_pure intro: no_step)
next
  case (Inr t)
  have ok: "tree_ok w" "lookup w (env_root env) = Some Directory" using assms(2) by (auto simp: workspace_ok_def)
  obtain r1 w1 where a: "write_at env t c w = (r1, w1)" by fastforce
  have "w' = w \<or> w' = w1"
    using assms(1) Inr a
    by (auto simp: write_file_impl_def op_bind_pure write_at_def op_bind_def op_pure_def Let_def
        split: if_splits sum.splits prod.splits)
  with write_at_steps[OF a ok(1) resolved_inside(2)[OF Inr] ok(2)] show ?thesis by (auto intro: no_step)
qed

lemma create_directory_steps:
  assumes "create_directory_impl env path w = (r, w')" "workspace_ok env w"
  shows "fs_steps (env_root env) w w'"
proof (cases "resolve_workspace_path env path")
  case (Inl e)
  with assms(1) show ?thesis by (auto simp: create_directory_impl_def op_bind_pure intro: no_step)
next
  case (Inr t)
  have ok: "tree_ok w" "lookup w (env_root env) = Some Directory" using assms(2) by (auto simp: workspace_ok_def)
  obtain r1 w1 where a: "make_directories env t w = (r1, w1)" by fastforce
  have "w' = w \<or> w' = w1"
    using assms(1) Inr a
    by (auto simp: create_directory_impl_def op_bind_pure op_bind_def op_pure_def Let_def
        split: if_splits sum.splits prod.splits)
  moreover have "fs_steps (env_root env) w w1"
    using a
  proof (cases rule: make_directories_cases)
    case made
    from make_dirs_steps[OF made ok] resolved_inside(2)[OF Inr] show ?thesis by simp
  qed (simp add: no_step)
  ultimately show ?thesis by (auto intro: no_step)
qed

lemma write_all_steps:
  assumes "write_all env ws w = (r, w')" "\<forall>(p, c) \<in> set ws. prefix dir p" "lookup w dir = Some Directory"
  shows "fs_steps dir w w'"
  using assms
proof (induction ws arbitrary: w)
  case (Cons x ws)
  obtain p c where x: "x = (p, c)" by (cases x)
  obtain r1 w1 where a: "write_text env p c w = (r1, w1)" by fastforce
  have s1: "fs_steps dir w w1" using write_text_steps[OF a _ Cons(4)] Cons(3) x by auto
  show ?case
  proof (cases r1)
    case (Inl e)
    with Cons(2) a s1 x show ?thesis by (auto simp: op_bind_def)
  next
    case (Inr u)
    with Cons(2) a x have "write_all env ws w1 = (r, w')" by (simp add: op_bind_def)
    from Cons(1)[OF this _ fs_steps_directory[OF s1 Cons(4)]] Cons(3) s1 show ?thesis
      by (auto intro: fs_steps_trans)
  qed
qed (auto intro: no_step)

lemma write_or_restore_steps:
  assumes "write_or_restore env ts w = (r, w')" "\<forall>(p, new, old) \<in> set ts. prefix dir p" "lookup w dir = Some Directory"
  shows "fs_steps dir w w'"
proof -
  let ?new = "map (\<lambda>(p, new, old). (p, new)) ts"
  obtain r1 w1 where a: "write_all env ?new w = (r1, w1)" by fastforce
  have s1: "fs_steps dir w w1" using write_all_steps[OF a _ assms(3)] assms(2) by fastforce
  obtain r2 w2 where b: "write_all env (previous_texts ts) w1 = (r2, w2)" by fastforce
  have "\<forall>(p, c) \<in> set (previous_texts ts). prefix dir p"
    using previous_texts_keys(2) assms(2) by fastforce
  with write_all_steps[OF b _ fs_steps_directory[OF s1 assms(3)]] have s2: "fs_steps dir w1 w2" by simp
  have "w' = w1 \<or> w' = w2"
    using assms(1) a b by (auto simp: write_or_restore_def op_bind_def op_pure_def split: sum.splits prod.splits)
  with s1 s2 show ?thesis by (auto intro: fs_steps_trans)
qed

lemma read_targets_inside:
  "read_targets dir files w = (Inr ts, w') \<Longrightarrow> \<forall>(p, new, old) \<in> set ts. prefix dir p"
proof (induction files arbitrary: ts w')
  case (Cons f fs)
  from Cons(2) obtain t where t: "resolve_project_file dir (pf_path f) = Inr t"
    by (cases "resolve_project_file dir (pf_path f)") (simp_all add: op_bind_pure)
  from Cons(2) have "op_bind (read_text t) (\<lambda>old. op_bind (read_targets dir fs) (\<lambda>rest.
      op_pure (Inr ((t, pf_content f, old) # rest)))) w = (Inr ts, w')"
    by (simp add: op_bind_pure t split: if_splits)
  then obtain old w1 rest w2 where "read_targets dir fs w1 = (Inr rest, w2)" "ts = (t, pf_content f, old) # rest"
      "read_text t w = (Inr old, w1)"
    unfolding op_bind_Inr op_pure_eq by auto
  moreover have "w1 = w" using calculation(3) by (auto simp: read_text_def split: option.splits fs_node.splits)
  ultimately show ?case using Cons(1) conjunct1[OF resolved_inside(1)[OF t]] by simp
qed simp

lemma update_steps:
  assumes "update_project_files_impl env name files w = (r, w')"
  shows "fs_steps (env_root env) w w'"
proof (cases "validate_project_name name"; cases "validate_file_batch files"; cases "resolve_workspace_path env name")
  fix n bytes d
  assume inr: "validate_project_name name = Inr n" "validate_file_batch files = Inr bytes"
    "resolve_workspace_path env name = Inr d"
  note d = resolved_inside(2)[OF inr(3)] and u = update_unfold[OF inr]
  obtain r1 w1 where t: "read_targets d files w = (r1, w1)" by fastforce
  have w1: "w1 = w" using read_targets_result[OF t] by simp
  show ?thesis
  proof (cases "lookup w d = Some Directory \<and> \<not> isl r1")
    case False
    with u assms t w1 show ?thesis
      by (cases r1) (auto simp: op_bind_def intro: no_step split: if_splits)
  next
    case True
    then obtain ts where ts: "r1 = Inr ts" by (cases r1) auto
    obtain r2 w2 where wr: "write_or_restore env ts w = (r2, w2)" by fastforce
    have "fs_steps d w w2"
      using write_or_restore_steps[OF wr read_targets_inside] t ts True by simp
    moreover have "w' = w2"
      using u assms t w1 ts wr True by (cases r2) (auto simp: op_bind_def op_pure_def)
    ultimately show ?thesis using d fs_steps_mono by simp
  qed
qed (use assms in \<open>auto simp: update_project_files_impl_def op_bind_pure intro: no_step\<close>)

lemma steps_keep_workspace:
  "fs_steps (env_root env) w w' \<Longrightarrow> workspace_ok env w \<Longrightarrow>
    workspace_ok env w' \<and> (\<forall>p. strict_prefix (env_root env) p \<or> lookup w' p = lookup w p)"
  using fs_steps_tree fs_steps_directory fs_steps_outside unfolding workspace_ok_def by blast

lemma reading_changes_nothing:
  "snd (list_files_impl env path recursive ignored w) = w" "snd (read_file_impl env path w) = w"
  by (auto simp: list_files_impl_def read_file_impl_def op_bind_def op_pure_def read_text_def Let_def
      split: sum.splits option.splits fs_node.splits)

text \<open>(C10) Whatever a client asks of the filesystem server, with whatever paths and whatever writes fail, the
  tree stays a tree that has the workspace, and nothing at the workspace's root or outside it is
  created, changed or removed.\<close>

theorem requests_keep_workspace:
  assumes "workspace_ok env w"
    and "case request of CreateProject name files \<Rightarrow> lookup w (temp_dir env name) = None | _ \<Rightarrow> True"
  shows "workspace_ok env (serve_files env request w)
    \<and> (\<forall>p. strict_prefix (env_root env) p \<or> lookup (serve_files env request w) p = lookup w p)"
proof (cases request)
  case (CreateProject name files)
  obtain r w' where c: "create_project_structure_impl env name files w = (r, w')" by fastforce
  have keep: "workspace_ok env w' \<and> (\<forall>p. strict_prefix (env_root env) p \<or> lookup w' p = lookup w p)"
    if same: "\<And>p. \<not> prefix (env_root env @ [name]) p \<Longrightarrow> lookup w' p = lookup w p" and tree: "tree_ok w'"
  proof -
    have "\<not> prefix (env_root env @ [name]) p" if "\<not> strict_prefix (env_root env) p" for p
      using that by (auto simp: strict_prefix_def prefix_def)
    then show ?thesis using same tree assms(1) by (metis prefix_order.less_irrefl workspace_ok_def)
  qed
  from c show ?thesis
  proof (cases rule: create_project_cases)
    case (refused e)
    with c CreateProject assms(1) show ?thesis by simp
  next
    case (built report)
    have fresh: "lookup w (temp_dir env name) = None" using assms(2) CreateProject by simp
    note b = build_project_result[OF assms(1) fresh built(1,2)]
    have same: "tree_ok w'" if "\<forall>p. lookup w' p = lookup w p"
      using assms(1) that by (simp add: workspace_ok_def tree_ok_def)
    from built(3) have "tree_ok w' \<and> (\<forall>p. \<not> prefix (env_root env @ [name]) p \<longrightarrow> lookup w' p = lookup w p)"
      using b same by fastforce
    with keep c CreateProject show ?thesis by simp
  qed
next
  case (CreateDirectory path)
  with create_directory_steps[of env path w] steps_keep_workspace assms(1) show ?thesis
    by (metis prod.collapse serve_files.simps(3))
next
  case (WriteFile path c overwrite)
  with write_file_steps[of env path c overwrite w] steps_keep_workspace assms(1) show ?thesis
    by (metis prod.collapse serve_files.simps(4))
next
  case (UpdateFiles name files)
  with update_steps[of env name files w] steps_keep_workspace assms(1) show ?thesis
    by (metis prod.collapse serve_files.simps(6))
qed (use assms(1) reading_changes_nothing in simp_all)

text \<open>(C37) What a write stored is what a read of the same path returns, of the same size, with its line ends
  turned into line feeds; a text without carriage returns comes back as it was written.\<close>

theorem written_text_is_read_back:
  assumes "write_file_impl env path content overwrite w = (Inr (shown, bytes, existed), w')"
  shows "read_file_impl env path w' = (Inr (shown, bytes, universal_newlines content), w')
    \<and> (CHR 0x0D \<in> set content \<or> universal_newlines content = content)"
proof -
  obtain t where t: "resolve_workspace_path env path = Inr t"
    using assms by (auto simp: write_file_impl_def op_bind_pure split: sum.splits)
  have w: "write_at env t content w = (Inr (), w')" "shown = relative_to_workspace env t"
    "bytes = utf8_size content" "utf8_size content \<le> MAX_FILE_BYTES"
    using assms t by (auto simp: write_file_impl_def op_bind_pure write_at_def op_bind_Inr Let_def split: if_splits)
  from texts_write_at[OF w(1)] have "lookup w' t = Some (File content)"
    by (auto simp: texts_def dest!: fun_cong[where x = t] split: option.splits fs_node.splits)
  moreover have "CHR 0x0D \<notin> set s \<Longrightarrow> universal_newlines s = s" for s
    by (induction s rule: universal_newlines.induct) auto
  ultimately show ?thesis using w(2-4) t
    by (auto simp: read_file_impl_def op_bind_pure op_bind_def read_text_def op_pure_def)
qed

section \<open>Examples\<close>

text \<open>A workspace with one project, on a disk whose second write leaves half a file.\<close>

definition example_env :: FsEnv where
  "example_env = \<lparr>env_root = [''w''], env_suffix = ''t'',
    env_fault = (\<lambda>i. if i = 1 then Failed (Some ''new'') else Written),
    env_mkdir_fails = (\<lambda>i. False), env_mkdtemp_fails = False, env_move_fails = False\<rparr>"

definition example_tree :: Workspace where
  "example_tree = \<lparr>fs_nodes = [([''w''], Directory), ([''w'', ''p''], Directory),
     ([''w'', ''p'', ''a''], File [CHR ''x'', CHR 0x0D]), ([''w'', ''p'', ''b''], File ''y'')], fs_writes = 0\<rparr>"

definition example_files :: "ProjectFile list" where
  "example_files = [\<lparr>pf_path = ''a'', pf_content = ''new a''\<rparr>, \<lparr>pf_path = ''b'', pf_content = ''new b''\<rparr>]"

lemma example_ok: "workspace_ok example_env example_tree" "one_fault example_env"
  by (auto simp: workspace_ok_def tree_ok_def lookup_def example_env_def example_tree_def one_fault_def split: if_splits)

lemma example_runs:
  "create_project_structure_impl example_env ''q'' example_files example_tree =
    (Inl OSFailure, example_tree\<lparr>fs_writes := 2\<rparr>)"
  "update_project_files_impl example_env ''p'' example_files example_tree =
    (Inl OSFailure, put [''w'', ''p'', ''a''] (File [CHR ''x'', CHR 0x0A]) (example_tree\<lparr>fs_writes := 4\<rparr>))"
  "lookup example_tree (temp_dir example_env ''q'') = None"
  "write_file_impl example_env ''d/c'' [CHR ''x'', CHR 0x0D] False example_tree =
    (Inr (''d/c'', 2, False), put [''w'', ''d'', ''c''] (File [CHR ''x'', CHR 0x0D])
      (put [''w'', ''d''] Directory (example_tree\<lparr>fs_writes := 1\<rparr>)))"
  by code_simp+

theorem create_project_is_atomic_witness:
  "\<forall>p. lookup (snd (create_project_structure_impl example_env ''q'' example_files example_tree)) p = lookup example_tree p"
  using create_project_is_atomic[OF example_ok(1) example_runs(3,1)] example_runs(1) by simp

theorem update_is_atomic_witness:
  "\<forall>p. restored example_tree (snd (update_project_files_impl example_env ''p'' example_files example_tree)) p"
  using update_is_atomic[OF example_ok example_runs(2)] example_runs(2) by simp

theorem requests_keep_workspace_witness:
  "workspace_ok example_env (serve_files example_env (CreateProject ''q'' example_files) example_tree)"
  using requests_keep_workspace[OF example_ok(1), of "CreateProject ''q'' example_files"] example_runs(3) by simp

theorem written_text_is_read_back_witness:
  "fst (read_file_impl example_env ''d/c'' (snd (write_file_impl example_env ''d/c'' [CHR ''x'', CHR 0x0D] False example_tree)))
    = Inr (''d/c'', 2, universal_newlines [CHR ''x'', CHR 0x0D])"
  using written_text_is_read_back[OF example_runs(4)] example_runs(4) by simp

end
