(* ===== verification/Planning.thy ===== *)
theory Planning
  imports PyRegex PyJson
begin

text \<open>
  The plan of a workflow and its contract (graph/subgraphs/planning/models.py, normalization.py and
  the validation in service.py): the structured plan with the field checks pydantic makes, which are
  a parameter (\<open>PlanReader\<close>), the canonical project types, and every check of
  \<open>validate_planning_output\<close> in its order. A check that finds something adds a text
  \<open>code: message\<close>; none stops the others.
\<close>

section \<open>The plan\<close>

record RequirementAnalysis =
  ra_objective :: string
  ra_project_name :: string
  ra_project_type :: string
  ra_framework :: "string option"
  ra_functional :: "string list"
  ra_non_functional :: "string list"
  ra_constraints :: "string list"
  ra_assumptions :: "string list"

record AcceptanceCriterion =
  ac_id :: string
  ac_description :: string
  ac_method :: string

record ImplementationTask =
  task_order :: int
  task_role :: string
  task_title :: string
  task_description :: string
  task_depends_on :: "int list"

record PlanningOutput =
  plan_analysis :: RequirementAnalysis
  plan_criteria :: "AcceptanceCriterion list"
  plan_tasks :: "ImplementationTask list"

text \<open>The bounds the models declare, which a plan that pydantic accepted keeps.\<close>

definition text_within :: "nat \<Rightarrow> string \<Rightarrow> bool" where
  "text_within n s \<longleftrightarrow> 1 \<le> length s \<and> length s \<le> n"

definition task_ok :: "ImplementationTask \<Rightarrow> bool" where
  "task_ok t \<longleftrightarrow> 1 \<le> task_order t \<and> task_order t \<le> 100 \<and> text_within 100 (task_role t)
    \<and> text_within 300 (task_title t) \<and> text_within 2000 (task_description t) \<and> length (task_depends_on t) \<le> 20"

definition criterion_ok :: "AcceptanceCriterion \<Rightarrow> bool" where
  "criterion_ok c \<longleftrightarrow> text_within 50 (ac_id c) \<and> text_within 1000 (ac_description c) \<and> text_within 1000 (ac_method c)"

definition analysis_ok :: "RequirementAnalysis \<Rightarrow> bool" where
  "analysis_ok a \<longleftrightarrow> text_within 2000 (ra_objective a) \<and> text_within 120 (ra_project_name a)
    \<and> text_within 50 (ra_project_type a) \<and> (case ra_framework a of None \<Rightarrow> True | Some f \<Rightarrow> text_within 50 f)
    \<and> 1 \<le> length (ra_functional a) \<and> length (ra_functional a) \<le> 30 \<and> length (ra_non_functional a) \<le> 20
    \<and> length (ra_constraints a) \<le> 20 \<and> length (ra_assumptions a) \<le> 20"

definition plan_ok :: "PlanningOutput \<Rightarrow> bool" where
  "plan_ok p \<longleftrightarrow> analysis_ok (plan_analysis p) \<and> list_all criterion_ok (plan_criteria p)
    \<and> 1 \<le> length (plan_criteria p) \<and> length (plan_criteria p) \<le> 50
    \<and> list_all task_ok (plan_tasks p) \<and> 1 \<le> length (plan_tasks p) \<and> length (plan_tasks p) \<le> 100"

text \<open>\<open>model_dump\<close>.\<close>

definition dump_analysis :: "RequirementAnalysis \<Rightarrow> pyval" where
  "dump_analysis a = PDict
    [(''objective'', PStr (ra_objective a)), (''project_name'', PStr (ra_project_name a)),
     (''project_type'', PStr (ra_project_type a)),
     (''framework'', case ra_framework a of None \<Rightarrow> PNone | Some f \<Rightarrow> PStr f),
     (''functional_requirements'', pstrs (ra_functional a)),
     (''non_functional_requirements'', pstrs (ra_non_functional a)),
     (''constraints'', pstrs (ra_constraints a)), (''assumptions'', pstrs (ra_assumptions a))]"

definition dump_criterion :: "AcceptanceCriterion \<Rightarrow> pyval" where
  "dump_criterion c = PDict [(''id'', PStr (ac_id c)), (''description'', PStr (ac_description c)),
     (''verification_method'', PStr (ac_method c))]"

definition dump_task :: "ImplementationTask \<Rightarrow> pyval" where
  "dump_task t = PDict [(''order'', PInt (task_order t)), (''role'', PStr (task_role t)),
     (''title'', PStr (task_title t)), (''description'', PStr (task_description t)),
     (''depends_on'', PList (map PInt (task_depends_on t)))]"

definition dump_plan :: "PlanningOutput \<Rightarrow> pyval" where
  "dump_plan p = PDict [(''analysis'', dump_analysis (plan_analysis p)),
     (''acceptance_criteria'', PList (map dump_criterion (plan_criteria p))),
     (''tasks'', PList (map dump_task (plan_tasks p)))]"

section \<open>Project types\<close>

definition SUPPORTED_PROJECT_TYPES :: "string list" where
  "SUPPORTED_PROJECT_TYPES = [''fastapi'', ''dotnet'', ''node'']"

text \<open>The ASCII characters that the compatibility decomposition of a Latin-1 character leaves.\<close>

definition ascii_char :: "char \<Rightarrow> string" where
  "ascii_char c =
    (let n = (of_char c :: nat) in
     if n < 128 then [c]
     else if n = 160 \<or> n = 168 \<or> n = 175 \<or> n = 180 \<or> n = 184 then '' ''
     else if n = 170 then ''a'' else if n = 186 then ''o''
     else if n = 178 then ''2'' else if n = 179 then ''3'' else if n = 185 then ''1''
     else if n = 188 then ''14'' else if n = 189 then ''12'' else if n = 190 then ''34''
     else if n < 192 then []
     else (let b = ''AAAAAA-CEEEEIIII-NOOOOO--UUUUY--aaaaaa-ceeeeiiii-nooooo--uuuuy-y'' ! (n - 192) in
           if b = CHR ''-'' then [] else [b]))"

definition searchable_char :: "char \<Rightarrow> bool" where
  "searchable_char c \<longleftrightarrow> (let n = (of_char c :: nat) in 97 \<le> n \<and> n \<le> 122) \<or> is_digit c \<or> c = CHR ''.'' \<or> c = CHR ''+''"

definition searchable :: "string \<Rightarrow> string" where
  "searchable value =
    strip (re_sub (plus (Cls (\<lambda>c. \<not> searchable_char c))) '' '' (casefold (concat (map ascii_char value))))"

definition normalize_project_type :: "string option \<Rightarrow> string option" where
  "normalize_project_type value =
    (case value of
       None \<Rightarrow> None
     | Some v \<Rightarrow>
         if strip v = [] then None
         else let normalized = searchable v; compact = filter (\<lambda>c. c \<noteq> CHR '' '') normalized in
           if contains compact ''fastapi'' then Some ''fastapi''
           else if any_in [''dotnet'', ''.net'', ''aspnet''] compact then Some ''dotnet''
           else if any_in [''nodejs'', ''node.js'', ''expressjs''] compact
             \<or> re_found (seq [Bound, Or (lit ''node'') (lit ''express''), Bound]) normalized then Some ''node''
           else if normalized \<in> set SUPPORTED_PROJECT_TYPES then Some normalized else None)"

definition normalize_framework :: "string option \<Rightarrow> string option \<Rightarrow> string option" where
  "normalize_framework value project_type =
    (case value of
       Some v \<Rightarrow> if strip v \<noteq> [] then normalize_project_type value else normalize_project_type project_type
     | None \<Rightarrow> normalize_project_type project_type)"

text \<open>The validator that runs after the field checks of an analysis.\<close>

definition normalize_analysis :: "RequirementAnalysis \<Rightarrow> RequirementAnalysis" where
  "normalize_analysis a =
    (let kind = (case normalize_project_type (Some (ra_project_type a)) of Some t \<Rightarrow> t | None \<Rightarrow> ra_project_type a);
         framework = (case normalize_framework (ra_framework a) (Some kind) of Some f \<Rightarrow> Some f | None \<Rightarrow> ra_framework a) in
     a\<lparr>ra_project_type := kind, ra_framework := framework\<rparr>)"

text \<open>
  pydantic's field checks of a raw value: the structured value, or the text of the first complaint
  with its place and the text of the whole error. \<open>reader_ok\<close> is what its documentation
  promises of the declared bounds.
\<close>

type_synonym complaint = "string \<times> string"

record PlanReader =
  read_analysis :: "pyval \<Rightarrow> complaint + RequirementAnalysis"
  read_criterion :: "pyval \<Rightarrow> complaint + AcceptanceCriterion"
  read_task :: "pyval \<Rightarrow> complaint + ImplementationTask"
  read_plan :: "pyval \<Rightarrow> complaint + PlanningOutput"

definition reader_ok :: "PlanReader \<Rightarrow> bool" where
  "reader_ok reader \<longleftrightarrow> (\<forall>v p. read_plan reader v = Inr p \<longrightarrow> plan_ok p)
    \<and> (\<forall>v a. read_analysis reader v = Inr a \<longrightarrow> analysis_ok a)
    \<and> (\<forall>v c. read_criterion reader v = Inr c \<longrightarrow> criterion_ok c)
    \<and> (\<forall>v t. read_task reader v = Inr t \<longrightarrow> task_ok t)"

definition validate_plan_model :: "PlanReader \<Rightarrow> pyval \<Rightarrow> complaint + PlanningOutput" where
  "validate_plan_model reader raw =
    bind (read_plan reader raw) (\<lambda>p. Inr (p\<lparr>plan_analysis := normalize_analysis (plan_analysis p)\<rparr>))"

definition validate_analysis_model :: "PlanReader \<Rightarrow> pyval \<Rightarrow> complaint + RequirementAnalysis" where
  "validate_analysis_model reader raw = bind (read_analysis reader raw) (\<lambda>a. Inr (normalize_analysis a))"

section \<open>Mentions and literals in texts\<close>

text \<open>The iteration order of a Python set of strings varies; that of the lists here is one of them.\<close>

definition SCOPE_EXPANSIONS :: "string list" where
  "SCOPE_EXPANSIONS = [''authentication'', ''database'', ''docker'', ''kubernetes'', ''redis'', ''terraform'']"

definition ENDPOINT_PATTERN :: re where
  "ENDPOINT_PATTERN =
    seq [Bound, alts (map ci_lit [''GET'', ''POST'', ''PUT'', ''PATCH'', ''DELETE'']), plus (Cls is_space),
         chr_re (CHR ''/''), plus (Cls (\<lambda>c. \<not> is_space c \<and> c \<notin> {CHR '','', CHR ''.'', CHR '';''}))]"

definition JSON_PATTERN :: re where
  "JSON_PATTERN =
    seq [chr_re (CHR ''{''), Star (Cls is_space), Cls (\<lambda>c. c = CHR 0x22 \<or> c = CHR 0x27),
         plus_lazy (Cls (\<lambda>c. c \<notin> {CHR ''{'', CHR ''}'', CHR 0x0D, CHR 0x0A})), chr_re (CHR ''}'')]"

definition literal_contracts :: "string \<Rightarrow> string list \<times> string list" where
  "literal_contracts message =
    (dedupe (re_findall ENDPOINT_PATTERN message), dedupe (re_findall JSON_PATTERN message))"

definition word_re :: "string \<Rightarrow> re" where
  "word_re w = seq [Bound, ci_lit w, Bound]"

definition clause_char :: "char \<Rightarrow> bool" where
  "clause_char c \<longleftrightarrow> c \<notin> {CHR ''.'', CHR '';'', CHR 0x0A, CHR ''!'', CHR ''?''}"

text \<open>The letters of the words before a mention: the source's accented ones are encoded twice.\<close>

definition mention_char :: "char \<Rightarrow> bool" where
  "mention_char c \<longleftrightarrow> (let n = (of_char c :: nat) in 97 \<le> n \<and> n \<le> 122)
    \<or> c \<in> {CHR 0xC3, CHR 0xA1, CHR 0xA9, CHR 0xAD, CHR 0xB3, CHR 0xBA, CHR 0xB1}"

definition NEGATION :: re where
  "NEGATION =
    seq [Bound, alts [ci_lit ''no'', ci_lit ''sin'', ci_lit ''not'', ci_lit ''without'', ci_lit ''never'',
           seq [ci_lit ''prohibid'', Or (ci_char (CHR ''o'')) (ci_char (CHR ''a'')), opt (ci_char (CHR ''s''))],
           ci_lit ''evitar'', ci_lit ''excluir''], Bound]"

definition negated_mention :: "match \<Rightarrow> bool" where
  "negated_mention m =
    (let passed_before = drop (length (m_text m)) (before (m_end m));
         clause = casefold (rev (takeWhile clause_char passed_before));
         found = re_findall (plus (Cls mention_char)) clause in
     re_found NEGATION (join '' '' (drop (length found - 10) found)))"

definition feature_polarity :: "string \<Rightarrow> string \<Rightarrow> bool \<times> bool" where
  "feature_polarity text_of feature =
    (let ms = re_finditer (word_re feature) text_of in
     (list_ex (\<lambda>m. \<not> negated_mention m) ms, list_ex negated_mention ms))"

text \<open>All texts of a dumped plan, one to a line.\<close>

fun texts_of :: "pyval \<Rightarrow> string list" where
  "texts_of (PStr s) = [s]"
| "texts_of (PDict d) = concat (map (\<lambda>(k, v). texts_of v) d)"
| "texts_of (PList xs) = concat (map texts_of xs)"
| "texts_of _ = []"

definition plan_text :: "PlanningOutput \<Rightarrow> string" where
  "plan_text p = join [CHR 0x0A] (texts_of (dump_plan p))"

end
