(* ===== verification/PlanContract.thy ===== *)
theory PlanContract
  imports Planning
begin

text \<open>
  The contract of a plan (\<open>validate_planning_output\<close> and \<open>validate_planning_contract\<close> of
  graph/subgraphs/planning/service.py), with the depth-first search for cycles among the tasks'
  dependencies. The service defines \<open>validate_planning_output\<close> twice; the second is the one
  that is called.
\<close>

section \<open>Dependencies\<close>

type_synonym depgraph = "(int \<times> int list) list"

definition depends :: "depgraph \<Rightarrow> int \<Rightarrow> int list" where
  "depends g k = (case map_of g k of Some ds \<Rightarrow> ds | None \<Rightarrow> [])"

definition dependency_graph :: "ImplementationTask list \<Rightarrow> depgraph" where
  "dependency_graph tasks = foldl (\<lambda>g t. AList.update (task_order t) (task_depends_on t) g) [] tasks"

lemma searching_fewer:
  "depends g k \<noteq> [] \<Longrightarrow> k \<notin> set visiting \<Longrightarrow>
    card (fst ` set g - insert k (set visiting)) < card (fst ` set g - set visiting)"
  by (rule psubset_card_mono) (force simp: depends_def dest: map_of_SomeD split: option.splits)+

text \<open>
  \<open>has_cycle\<close>: the orders on the way down are \<open>visiting\<close>; those whose dependencies were all
  searched are added to \<open>visited\<close>, which the search hands on.
\<close>

function cyclic_from :: "depgraph \<Rightarrow> int list \<Rightarrow> int \<Rightarrow> int list \<Rightarrow> bool \<times> int list"
  and cyclic_any :: "depgraph \<Rightarrow> int list \<Rightarrow> int list \<Rightarrow> int list \<Rightarrow> bool \<times> int list" where
  "cyclic_from g visiting order visited =
     (if order \<in> set visiting then (True, visited)
      else if order \<in> set visited then (False, visited)
      else (case cyclic_any g (order # visiting) (depends g order) visited of
              (True, v) \<Rightarrow> (True, v)
            | (False, v) \<Rightarrow> (False, v @ [order])))"
| "cyclic_any g visiting [] visited = (False, visited)"
| "cyclic_any g visiting (d # ds) visited =
     (if map_of g d = None then cyclic_any g visiting ds visited
      else (case cyclic_from g visiting d visited of
              (True, v) \<Rightarrow> (True, v)
            | (False, v) \<Rightarrow> cyclic_any g visiting ds v))"
  by pat_completeness auto

termination
proof (relation "measures [\<lambda>x. case x of Inl (g, vs, k, v) \<Rightarrow> card (fst ` set g - set vs) | Inr (g, vs, ds, v) \<Rightarrow> card (fst ` set g - set vs),
    \<lambda>x. case x of Inl (g, vs, k, v) \<Rightarrow> 1 | Inr (g, vs, ds, v) \<Rightarrow> 2 * length ds]", goal_cases)
  case (2 g vs k v)
  have "card (fst ` set g - insert k (set vs)) \<le> card (fst ` set g - set vs)"
    by (rule card_mono) auto
  with searching_fewer[of g k vs] 2 show ?case by (cases "depends g k = []") auto
qed auto

declare cyclic_from.simps [simp del] cyclic_any.simps [simp del]

definition has_cycle :: "ImplementationTask list \<Rightarrow> bool" where
  "has_cycle tasks = (let g = dependency_graph tasks in fst (cyclic_any g [] (map fst g) []))"

section \<open>The checks\<close>

definition plan_error :: "string \<Rightarrow> string \<Rightarrow> string" where
  "plan_error code message = code @ '': '' @ message"

definition error_if :: "bool \<Rightarrow> string \<Rightarrow> string \<Rightarrow> string list" where
  "error_if bad code message = (if bad then [plan_error code message] else [])"

definition shown :: "string option \<Rightarrow> string" where
  "shown x = (case x of None \<Rightarrow> ''None'' | Some s \<Rightarrow> s)"

definition basic_normalize :: "string \<Rightarrow> string" where
  "basic_normalize s = join '' '' (words (casefold s))"

definition task_identity :: "ImplementationTask \<Rightarrow> string \<times> string \<times> string \<times> int list" where
  "task_identity t = (basic_normalize (task_role t), basic_normalize (task_title t),
     basic_normalize (task_description t), sort (task_depends_on t))"

definition task_text :: "ImplementationTask \<Rightarrow> string" where
  "task_text t = casefold (task_role t @ '' '' @ task_title t @ '' '' @ task_description t)"

definition project_errors :: "string \<Rightarrow> RequirementAnalysis \<Rightarrow> RequirementAnalysis \<Rightarrow> string list" where
  "project_errors detected_name expected analysis =
    (let expected_name = (if detected_name \<noteq> [] then detected_name else ra_project_name expected) in
     error_if (strip (ra_objective analysis) = []) ''planning_schema_invalid'' ''objective no puede estar vacio.''
     @ error_if (expected_name \<noteq> [] \<and> ra_project_name analysis \<noteq> expected_name)
         ''planning_project_name_mismatch'' (''project_name debe coincidir con '' @ expected_name @ ''.''))"

definition framework_errors :: "RequirementAnalysis \<Rightarrow> RequirementAnalysis \<Rightarrow> string list" where
  "framework_errors expected analysis =
    (let canonical = normalize_project_type (Some (ra_project_type analysis));
         wanted = normalize_project_type (Some (ra_project_type expected));
         framework = normalize_framework (ra_framework analysis) canonical;
         wanted_framework = normalize_framework (ra_framework expected) wanted;
         mismatch = ''planning_framework_mismatch'' in
     (if canonical \<notin> Some ` set SUPPORTED_PROJECT_TYPES
      then [plan_error mismatch (''project_type no soportado: '' @ ra_project_type analysis @ ''.'')]
      else error_if (wanted \<noteq> None \<and> canonical \<noteq> wanted) mismatch
        (''project_type debe ser '' @ shown wanted @ '', no '' @ ra_project_type analysis @ ''.''))
     @ (if canonical \<noteq> None \<and> framework = None
        then [plan_error mismatch (''framework no soportado: '' @ shown (ra_framework analysis) @ ''.'')]
        else if canonical \<noteq> None \<and> framework \<noteq> canonical
        then [plan_error mismatch (''framework debe ser compatible con '' @ shown canonical @ '', no '' @ shown (ra_framework analysis) @ ''.'')]
        else error_if (wanted_framework \<noteq> None \<and> framework \<noteq> wanted_framework) mismatch
          (''framework debe ser '' @ shown wanted_framework @ '', no '' @ shown (ra_framework analysis) @ ''.'')))"

definition int_list_text :: "int list \<Rightarrow> string" where
  "int_list_text xs = ''['' @ join '', '' (map int_str xs) @ '']''"

definition dependency_errors :: "ImplementationTask list \<Rightarrow> string list" where
  "dependency_errors tasks =
    concat (map (\<lambda>t.
      let missing = sort (dedupe (filter (\<lambda>d. d \<notin> set (map task_order tasks)) (task_depends_on t))) in
      error_if (missing \<noteq> []) ''planning_schema_invalid''
        (''La tarea '' @ int_str (task_order t) @ '' depende de ordenes inexistentes: '' @ int_list_text missing @ ''.'')
      @ error_if (task_order t \<in> set (task_depends_on t)) ''planning_schema_invalid''
          (''La tarea '' @ int_str (task_order t) @ '' no puede depender de si misma.'')) tasks)"

definition task_errors :: "PlanningOutput \<Rightarrow> string list" where
  "task_errors plan =
    (let tasks = plan_tasks plan; orders = map task_order tasks in
     error_if (ra_functional (plan_analysis plan) = []) ''planning_schema_invalid''
       ''Debe existir al menos un requerimiento funcional.''
     @ error_if (plan_criteria plan = []) ''planning_schema_invalid'' ''Debe existir al menos un criterio de aceptacion.''
     @ error_if (\<not> distinct (map ac_id (plan_criteria plan))) ''planning_duplicate_task''
         ''Los IDs de criterios de aceptacion deben ser unicos.''
     @ error_if (tasks = []) ''planning_tasks_empty'' ''Debe existir al menos una tarea de implementacion.''
     @ error_if (\<not> distinct orders) ''planning_duplicate_task'' ''Los ordenes de tareas deben ser unicos.''
     @ error_if (sort orders \<noteq> map int [1..<length orders + 1]) ''planning_schema_invalid''
         ''Los ordenes de tareas deben ser consecutivos desde 1.''
     @ error_if (\<not> distinct (map task_identity tasks)) ''planning_duplicate_task''
         ''Existen tareas duplicadas con el mismo rol, titulo y descripcion.''
     @ dependency_errors tasks
     @ error_if (has_cycle tasks) ''planning_schema_invalid'' ''Las dependencias de tareas contienen un ciclo.''
     @ error_if (\<not> list_ex (\<lambda>t. any_in [''developer'', ''implement'', ''desarroll''] (task_text t)) tasks)
         ''planning_required_constraint_missing'' ''Debe existir una tarea de implementacion.''
     @ error_if (\<not> list_ex (\<lambda>t. any_in [''test'', ''qa'', ''valid''] (task_text t)) tasks)
         ''planning_required_constraint_missing'' ''Debe existir una tarea de pruebas o validacion.'')"

definition without_space :: "string \<Rightarrow> string" where
  "without_space = filter (\<lambda>c. \<not> is_space c)"

definition endpoint_errors :: "string \<Rightarrow> string \<Rightarrow> string list" where
  "endpoint_errors original serialized =
    concat (map (\<lambda>e. error_if (\<not> contains (casefold serialized) (casefold e)) ''planning_required_constraint_missing''
      (''El endpoint literal '' @ e @ '' no fue preservado.'')) (fst (literal_contracts original)))"

definition literal_error :: "string \<Rightarrow> string \<Rightarrow> exn + string list" where
  "literal_error normalized_plan literal =
    (case json_loads (replace_char (CHR 0x27) (CHR 0x22) literal) of
       Inl e \<Rightarrow> if e = json_error then Inr [] else Inl e
     | Inr v \<Rightarrow> Inr (error_if (\<not> contains normalized_plan (without_space (json_text v)))
         ''planning_required_constraint_missing'' (''El literal JSON '' @ literal @ '' no fue preservado.'')))"

definition scope_errors :: "string \<Rightarrow> string \<Rightarrow> string list" where
  "scope_errors wanted serialized =
    concat (map (\<lambda>feature.
      let (requested, prohibited) = feature_polarity wanted feature;
          added = fst (feature_polarity serialized feature) in
      if prohibited \<and> added
      then [plan_error ''planning_constraint_violation'' (''El plan agrego una capacidad prohibida: '' @ feature @ ''.'')]
      else error_if (\<not> requested \<and> added) ''planning_scope_violation''
        (''El plan agrego un requisito no solicitado: '' @ feature @ ''.'')) SCOPE_EXPANSIONS)"

definition expected_analysis :: "PlanReader \<Rightarrow> pydict \<Rightarrow> PlanningOutput \<Rightarrow> RequirementAnalysis" where
  "expected_analysis reader state plan =
    (if get state ''requirement_analysis'' = PNone then plan_analysis plan
     else (case validate_analysis_model reader (get state ''requirement_analysis'') of
             Inl e \<Rightarrow> plan_analysis plan | Inr a \<Rightarrow> a))"

definition text_of :: "pyval \<Rightarrow> exn + string" where
  "text_of v = (case v of PStr s \<Rightarrow> Inr s | _ \<Rightarrow> Inl TypeError)"

definition validate_planning_output :: "PlanReader \<Rightarrow> PlanningOutput \<Rightarrow> pydict \<Rightarrow> exn + string list" where
  "validate_planning_output reader plan state =
    bind (py_str (por (get state ''project_name'') (PStr []))) (\<lambda>detected_name.
    let expected = expected_analysis reader state plan; serialized = plan_text plan in
    bind (text_of (getd state ''original_user_message'' (PStr []))) (\<lambda>original.
    bind (mapm (literal_error (without_space serialized)) (snd (literal_contracts original))) (\<lambda>literals.
    Inr (dedupe (project_errors detected_name expected (plan_analysis plan)
      @ framework_errors expected (plan_analysis plan) @ task_errors plan
      @ endpoint_errors original serialized @ concat literals
      @ scope_errors (original @ CHR 0x0A # join [CHR 0x0A] (ra_constraints expected)) serialized)))))"

section \<open>The contract\<close>

definition task_ids :: "pyval list \<Rightarrow> exn + string list" where
  "task_ids tasks = mapm py_str (filter (\<lambda>v. v \<noteq> PNone) (map (\<lambda>t. get (mapping_of t) ''id'') (filter is_dict tasks)))"

fun duplicate_ids :: "pyval \<Rightarrow> exn + bool" where
  "duplicate_ids (PList tasks) = bind (task_ids tasks) (\<lambda>ids. Inr (\<not> distinct ids))"
| "duplicate_ids _ = Inr False"

definition validate_planning_contract ::
  "PlanReader \<Rightarrow> pyval \<Rightarrow> pydict \<Rightarrow> exn + PlanningOutput option \<times> string list" where
  "validate_planning_contract reader raw state =
    (case raw of
       PDict d \<Rightarrow>
         if get d ''tasks'' = PList []
         then Inr (None, [plan_error ''planning_tasks_empty'' ''Debe existir al menos una tarea de implementacion.''])
         else bind (duplicate_ids (get d ''tasks'')) (\<lambda>duplicate.
           if duplicate then Inr (None, [plan_error ''planning_duplicate_task'' ''Los IDs de tareas deben ser unicos.''])
           else (case validate_plan_model reader raw of
               Inl complaint \<Rightarrow> Inr (None, [plan_error ''planning_schema_invalid''
                 (''Schema de planificacion invalido: '' @ fst complaint)])
             | Inr plan \<Rightarrow> bind (validate_planning_output reader plan state) (\<lambda>errors. Inr (Some plan, errors))))
     | _ \<Rightarrow> Inr (None, [plan_error ''planning_schema_invalid'' ''ProjectPlan debe ser un objeto estructurado.'']))"

end
