(* ===== verification/PlanChecks.thy ===== *)
theory PlanChecks
  imports PlanContract
begin

text \<open>
  Whether a plan can be executed (graph/subgraphs/planning/executability.py): its dependencies, the
  order of its tasks by a topological sort that always takes the smallest ready task, the order of
  implementation and tests, the files that a task needs, and the structure its framework asks for.
\<close>

section \<open>Tasks and their texts\<close>

definition CREATE_WORDS :: "string list" where
  "CREATE_WORDS = [''add'', ''agregar'', ''create'', ''crear'', ''generate'', ''generar'', ''implement'', ''implementar'']"

definition CONSUME_WORDS :: "string list" where
  "CONSUME_WORDS = [''edit'', ''modificar'', ''modify'', ''update'', ''actualizar'']"

definition TEST_WORDS :: "string list" where
  "TEST_WORDS = [''pytest'', ''qa'', ''test'', ''tests'', ''prueba'', ''pruebas'', ''validar'', ''validacion'']"

definition IMPLEMENT_WORDS :: "string list" where
  "IMPLEMENT_WORDS = [''api'', ''app'', ''backend'', ''developer'', ''endpoint'', ''fastapi'', ''health'',
     ''implement'', ''implementar'', ''main.py'']"

definition path_piece :: re where
  "path_piece = plus (Cls (\<lambda>c. regex_word c \<or> c = CHR ''.'' \<or> c = CHR ''-''))"

definition TASK_PATH_PATTERN :: re where
  "TASK_PATH_PATTERN = seq [Bound, path_piece, plus (Cat (chr_re (CHR ''/'')) path_piece), Bound]"

definition contains_word :: "string list \<Rightarrow> string \<Rightarrow> bool" where
  "contains_word ws s = list_ex (\<lambda>w. re_found (seq [Bound, lit w, Bound]) s) ws"

definition is_test_task :: "ImplementationTask \<Rightarrow> bool" where
  "is_test_task t = any_in TEST_WORDS (task_text t)"

definition is_implementation_task :: "ImplementationTask \<Rightarrow> bool" where
  "is_implementation_task t =
    (if is_test_task t \<and> \<not> any_in [''backend'', ''developer'', ''desarrollador''] (casefold (task_role t)) then False
     else any_in IMPLEMENT_WORDS (task_text t)
       \<and> \<not> (is_test_task t \<and> \<not> any_in [''implement'', ''implementar'', ''developer''] (task_text t)))"

definition extract_paths :: "ImplementationTask \<Rightarrow> string list" where
  "extract_paths t = dedupe (map (replace_char (CHR 0x5C) (CHR ''/'')) (re_findall TASK_PATH_PATTERN (task_text t)))"

definition is_created :: "ImplementationTask \<Rightarrow> string \<Rightarrow> bool" where
  "is_created t path =
    (if \<not> contains (task_text t) (casefold path) then False
     else if contains_word CONSUME_WORDS (task_text t)
       \<and> \<not> contains_word [''create'', ''crear'', ''generate'', ''generar''] (task_text t) then False
     else contains_word CREATE_WORDS (task_text t))"

definition is_consumed_without_create :: "ImplementationTask \<Rightarrow> string \<Rightarrow> bool" where
  "is_consumed_without_create t path =
    (contains (task_text t) (casefold path) \<and> contains_word CONSUME_WORDS (task_text t) \<and> \<not> is_created t path)"

section \<open>Topological sort\<close>

text \<open>
  The graph holds for each task the dependencies that are not done; the sets of the source are lists
  without duplicates. \<open>release\<close> is the body of the loop over the tasks that wait for \<open>order\<close>.
\<close>

definition waiting_graph :: "ImplementationTask list \<Rightarrow> depgraph" where
  "waiting_graph tasks = foldl (\<lambda>g t. AList.update (task_order t) (dedupe (task_depends_on t)) g) [] tasks"

definition release :: "int \<Rightarrow> int list \<Rightarrow> depgraph \<times> int list \<Rightarrow> int \<Rightarrow> depgraph \<times> int list" where
  "release order result gr other =
    (let (g, ready) = gr in
     if order \<in> set (depends g other)
     then (let left = removeAll order (depends g other) in
       (AList.update other left g,
        if left = [] \<and> other \<notin> set result \<and> other \<notin> set ready then ready @ [other] else ready))
     else (g, ready))"

definition release_all :: "int \<Rightarrow> int list \<Rightarrow> depgraph \<Rightarrow> int list \<Rightarrow> depgraph \<times> int list" where
  "release_all order result g ready = foldl (release order result) (g, ready) (sort (map fst g))"

definition waiting :: "depgraph \<Rightarrow> nat" where
  "waiting g = (\<Sum>k \<in> fst ` set g. length (depends g k))"

lemma depends_update: "depends (AList.update k ds g) j = (if j = k then ds else depends g j)"
  by (simp add: depends_def update_conv)

lemma depends_key: "depends g k \<noteq> [] \<Longrightarrow> k \<in> fst ` set g"
  by (force simp: depends_def dest: map_of_SomeD split: option.splits)

lemma waiting_update:
  assumes "order \<in> set (depends g k)"
  shows "waiting (AList.update k (removeAll order (depends g k)) g) < waiting g"
proof -
  have k: "k \<in> fst ` set g" using assms depends_key[of g k] by (cases "depends g k") auto
  then have keys: "fst ` set (AList.update k (removeAll order (depends g k)) g) = fst ` set g"
    by (auto simp: keys_update)
  show ?thesis
    unfolding waiting_def keys
    by (rule sum_strict_mono_ex1) (use assms k in \<open>auto simp: depends_update intro: length_removeAll_less_eq length_removeAll_less\<close>)
qed

lemma release_waits:
  "release order result (g, ready) other = (g', ready') \<Longrightarrow> waiting g' + length ready' \<le> waiting g + length ready"
  using waiting_update[of order g other] by (auto simp: release_def Let_def split: if_splits)

lemma release_all_waits:
  "foldl (release order result) (g, ready) ks = (g', ready') \<Longrightarrow> waiting g' + length ready' \<le> waiting g + length ready"
proof (induction ks arbitrary: g ready)
  case (Cons k ks)
  obtain g1 r1 where r: "release order result (g, ready) k = (g1, r1)" by fastforce
  with Cons.prems have "foldl (release order result) (g1, r1) ks = (g', ready')" by simp
  from Cons.IH[OF this] release_waits[OF r] show ?case by simp
qed simp

function topological_loop :: "depgraph \<Rightarrow> int list \<Rightarrow> int list \<Rightarrow> int list" where
  "topological_loop g [] result = result"
| "topological_loop g (order # ready) result =
     (let (g', ready') = release_all order (result @ [order]) g ready in
      topological_loop g' (sort ready') (result @ [order]))"
  by pat_completeness auto
termination
proof (relation "measure (\<lambda>(g, ready, result). waiting g + length ready)", goal_cases)
  case (2 g order ready result x g' ready')
  then have "foldl (release order (result @ [order])) (g, ready) (sort (map fst g)) = (g', ready')"
    by (simp add: release_all_def)
  from release_all_waits[OF this] show ?case by simp
qed simp

declare topological_loop.simps [simp del]

definition topological_sort :: "ImplementationTask list \<Rightarrow> int list \<times> bool" where
  "topological_sort tasks =
    (let g = waiting_graph tasks;
         result = topological_loop g (sort (filter (\<lambda>k. depends g k = []) (map fst g))) [] in
     (result, length result = length tasks))"

section \<open>The checks\<close>

record ExecutabilityResult =
  er_errors :: "string list"
  er_order :: "int list"
  er_edges :: "(int \<times> int) list"

definition missing_dependencies :: "ImplementationTask list \<Rightarrow> string list" where
  "missing_dependencies tasks =
    concat (map (\<lambda>t.
      error_if (task_order t \<in> set (task_depends_on t)) ''planning_dependency_cycle''
        (''task '' @ [CHR 0x27] @ int_str (task_order t) @ [CHR 0x27] @ '' depends on itself'')
      @ concat (map (\<lambda>d. error_if (d \<notin> set (map task_order tasks)) ''planning_dependency_missing''
          (''task '' @ [CHR 0x27] @ int_str (task_order t) @ [CHR 0x27] @ '' depends on unknown task '' @
            [CHR 0x27] @ int_str d @ [CHR 0x27])) (task_depends_on t))) tasks)"

definition test_order_errors :: "pydict \<Rightarrow> ImplementationTask list \<Rightarrow> string list" where
  "test_order_errors state tasks =
    (let implementation = map task_order (filter is_implementation_task tasks);
         test = map task_order (filter is_test_task tasks) in
     if getd state ''workflow_intent'' (PStr ''create_project'') = PStr ''create_project'' \<and> test \<noteq> []
     then (if implementation = []
           then [plan_error ''planning_framework_structure_invalid''
                   ''testing tasks require at least one executable implementation task'']
           else error_if (Min (set test) < Min (set implementation)) ''planning_task_order_invalid''
             ''testing tasks cannot run before the implementation they validate'')
     else [])"

fun artifact_errors :: "string list \<Rightarrow> string list \<Rightarrow> ImplementationTask list \<Rightarrow> string list" where
  "artifact_errors existing produced [] = []"
| "artifact_errors existing produced (t # ts) =
     map (\<lambda>path. plan_error ''planning_artifact_missing''
        (''task '' @ [CHR 0x27] @ int_str (task_order t) @ [CHR 0x27] @ '' consumes missing artifact '' @
          [CHR 0x27] @ path @ [CHR 0x27]))
       (filter (\<lambda>path. is_consumed_without_create t path \<and> path \<notin> set produced \<and> path \<notin> set existing) (extract_paths t))
     @ artifact_errors existing (produced @ filter (is_created t) (extract_paths t)) ts"

definition existing_paths :: "pydict \<Rightarrow> exn + string list" where
  "existing_paths state =
    (if get state ''workflow_intent'' = PStr ''review_existing_project''
     then bind (as_list (getd state ''generated_files'' (PList []))) (mapm (\<lambda>v. case v of
       PStr s \<Rightarrow> Inr (replace_char (CHR 0x5C) (CHR ''/'') s) | _ \<Rightarrow> Inl AttributeError))
     else Inr [])"

definition entrypoint_targets :: "ImplementationTask list \<Rightarrow> string list" where
  "entrypoint_targets tasks =
    dedupe (concat (map (\<lambda>t. if is_test_task t then []
      else filter (\<lambda>path. ends_with path ''/main.py'' \<and> \<not> contains path ''test'') (extract_paths t)) tasks))"

definition entrypoint_errors :: "ImplementationTask list \<Rightarrow> string list" where
  "entrypoint_errors tasks =
    (let entrypoints = entrypoint_targets tasks;
         roots = map (\<lambda>path. take (length path - length ''/main.py'') path) entrypoints in
     error_if (length entrypoints > 1 \<and> length (dedupe roots) > 1) ''planning_target_inconsistent''
       (''inconsistent executable entrypoints: '' @ join '', '' entrypoints))"

definition has_fastapi_executable :: "PlanningOutput \<Rightarrow> bool" where
  "has_fastapi_executable plan =
    (let requirement_text = casefold (join '' '' (ra_functional (plan_analysis plan))) in
     list_ex (\<lambda>t. is_implementation_task t
       \<and> (any_in [''fastapi'', ''endpoint'', ''main.py'', ''/health'', ''api''] (task_text t)
         \<or> any_in [''requisito'', ''funcional'', ''proyecto'', ''ejecutable''] (task_text t)
         \<or> any_in [''get '', ''post '', ''endpoint'', ''/health'', ''api''] requirement_text)) (plan_tasks plan))"

definition structure_errors :: "PlanningOutput \<Rightarrow> ImplementationTask list \<Rightarrow> string list" where
  "structure_errors plan tasks =
    (let project_type = normalize_project_type (Some (ra_project_type (plan_analysis plan)));
         framework = normalize_framework (ra_framework (plan_analysis plan)) project_type;
         invalid = ''planning_framework_structure_invalid''; either = (\<lambda>t. project_type = Some t \<or> framework = Some t) in
     if either ''fastapi'' then error_if (\<not> has_fastapi_executable plan) invalid
       ''FastAPI projects require an executable app or endpoint implementation task''
     else if either ''node'' then error_if (\<not> list_ex (\<lambda>t. any_in [''package.json'', ''server''] (task_text t)) tasks) invalid
       ''Node projects require a package manifest or server entrypoint task''
     else if either ''dotnet'' then error_if (\<not> list_ex (\<lambda>t. any_in [''.csproj'', ''program.cs''] (task_text t)) tasks) invalid
       ''.NET projects require a project or Program.cs entrypoint task''
     else [])"

definition unreachable_errors :: "ImplementationTask list \<Rightarrow> string list" where
  "unreachable_errors tasks =
    concat (map (\<lambda>t. error_if (contains (task_text t) ''deploy'' \<and> contains (task_text t) ''package''
        \<and> \<not> list_ex (\<lambda>u. task_order u \<noteq> task_order t \<and> any_in [''package'', ''build''] (task_text u)) tasks)
      ''planning_unreachable_task''
      (''task '' @ [CHR 0x27] @ int_str (task_order t) @ [CHR 0x27] @ '' requires an impossible package prerequisite'')) tasks)"

definition validate_plan_executability :: "PlanningOutput \<Rightarrow> pydict \<Rightarrow> exn + ExecutabilityResult" where
  "validate_plan_executability plan state =
    (let tasks = sort_key task_order (plan_tasks plan);
         edges = concat (map (\<lambda>t. map (\<lambda>d. (d, task_order t)) (task_depends_on t)) tasks);
         missing = missing_dependencies tasks;
         (order, acyclic) = topological_sort tasks in
     if missing \<noteq> [] then Inr \<lparr>er_errors = dedupe missing, er_order = [], er_edges = edges\<rparr>
     else if \<not> acyclic
     then Inr \<lparr>er_errors = [plan_error ''planning_dependency_cycle'' ''task dependency graph contains a cycle''],
       er_order = order, er_edges = edges\<rparr>
     else bind (existing_paths state) (\<lambda>existing.
       Inr \<lparr>er_errors = dedupe (test_order_errors state tasks @ artifact_errors existing [] tasks
           @ entrypoint_errors tasks @ structure_errors plan tasks @ unreachable_errors tasks),
         er_order = order, er_edges = edges\<rparr>))"

end
