(* ===== verification/PlanRisk.thy ===== *)
theory PlanRisk
  imports PlanChecks
begin

text \<open>
  The risk of a plan (graph/subgraphs/planning/risk.py) and the policy that decides from it whether a
  person must approve the plan (graph/planning_approval_policy.py). The score of a task starts from
  what it touches; each sensitive area lifts it to a floor. The policy looks at the level, at the
  sensitive tasks and, for a medium level, at the areas; \<open>approval_is_for_sensitive_plans\<close> says
  what that comes to.
\<close>

section \<open>Tasks\<close>

definition DEPENDENCY_TARGETS :: "string list" where
  "DEPENDENCY_TARGETS = [''directory.packages.props'', ''package-lock.json'', ''package.json'', ''pyproject.toml'',
     ''requirements.txt'']"

definition CONFIG_TERMS :: "string list" where
  "CONFIG_TERMS = [''config'', ''configuration'', ''settings'', ''env'', ''runtime'', ''appsettings'', ''yaml'', ''yml'', ''toml'']"

definition INFRA_TERMS :: "string list" where
  "INFRA_TERMS = [''docker'', ''kubernetes'', ''terraform'', ''helm'', ''compose'']"

definition SECURITY_TERMS :: "string list" where
  "SECURITY_TERMS = [''auth'', ''authentication'', ''authorization'', ''credential'', ''credentials'', ''permission'',
     ''permissions'', ''secret'', ''secrets'', ''token'', ''tokens'']"

definition DATABASE_TERMS :: "string list" where
  "DATABASE_TERMS = [''database'', ''db'', ''migration'', ''migrations'', ''schema'', ''sql'']"

definition DESTRUCTIVE_TERMS :: "string list" where
  "DESTRUCTIVE_TERMS = [''delete'', ''drop'', ''remove'', ''reset'', ''truncate'', ''wipe'', ''borrar'', ''eliminar'',
     ''sobrescribir'', ''overwrite'', ''irreversible'']"

definition CREATE_TERMS :: "string list" where
  "CREATE_TERMS = [''add'', ''create'', ''crear'', ''agregar'', ''generate'', ''generar'', ''implement'', ''implementar'']"

definition MODIFY_TERMS :: "string list" where
  "MODIFY_TERMS = [''edit'', ''modify'', ''modificar'', ''update'', ''actualizar'', ''change'', ''cambiar'']"

definition FILE_PATTERN :: re where
  "FILE_PATTERN = seq [Bound, path_piece, Star (Cat (chr_re (CHR ''/'')) path_piece), chr_re (CHR ''.''),
     plus (Cls (\<lambda>c. is_alpha c \<or> is_digit c)), Bound]"

definition risk_paths :: "string \<Rightarrow> string list" where
  "risk_paths t = dedupe (map (replace_char (CHR 0x5C) (CHR ''/'')) (re_findall FILE_PATTERN t))"

definition risk_level :: "int \<Rightarrow> string" where
  "risk_level score =
    (if score \<ge> 75 then ''critical'' else if score \<ge> 50 then ''high''
     else if score \<ge> 25 then ''medium'' else ''low'')"

text \<open>The areas a task touches; the set of the source is a list.\<close>

definition named_impacts :: "string \<Rightarrow> string list \<Rightarrow> string list" where
  "named_impacts t paths = map fst (filter snd
    [(''tests'', any_in [''test'', ''pytest''] t \<or> list_ex (\<lambda>p. contains p ''/test'' \<or> starts_with p ''test'') paths),
     (''documentation'', any_in [''readme'', ''documentation'', ''documentacion''] t),
     (''dependencies'', list_ex (\<lambda>p. casefold p \<in> set DEPENDENCY_TARGETS \<or> ends_with (casefold p) ''.csproj'') paths),
     (''configuration'', contains_word CONFIG_TERMS t),
     (''database'', contains_word DATABASE_TERMS t),
     (''security'', contains_word SECURITY_TERMS t),
     (''infrastructure'', contains_word INFRA_TERMS t),
     (''runtime'', any_in [''runtime'', ''entrypoint'', ''main.py''] t),
     (''filesystem'', paths \<noteq> [])])"

definition impact_for_task :: "string \<Rightarrow> string list \<Rightarrow> string list" where
  "impact_for_task t paths =
    (let impacts = named_impacts t paths in
     if impacts = [] \<or> any_in [''api'', ''app'', ''endpoint'', ''fastapi'', ''main.py''] t
     then impacts @ [''application''] else impacts)"

text \<open>The score before the floors, and the reasons for it.\<close>

definition base_risk :: "string list \<Rightarrow> int \<times> string list" where
  "base_risk impacts =
    (let only = (\<lambda>area. area \<in> set impacts \<and> set impacts \<subseteq> {area, ''filesystem''}) in
     if only ''documentation'' then (2, [''documentation_change''])
     else if only ''tests'' then (3, [''test_change''])
     else if ''application'' \<in> set impacts then (8, [''application_change''])
     else (4, []))"

definition change_risk :: "string \<Rightarrow> int \<times> string list" where
  "change_risk t =
    (if contains_word MODIFY_TERMS t then (10, [''modifies_existing_files''])
     else if contains_word CREATE_TERMS t then (2, [''creates_files'']) else (0, []))"

text \<open>The floors in their order: when it applies, the least score and the reason.\<close>

definition risk_floors :: "string \<Rightarrow> string list \<Rightarrow> (bool \<times> int \<times> string) list" where
  "risk_floors t impacts =
    [(''dependencies'' \<in> set impacts, 28, ''dependency_change''),
     (''configuration'' \<in> set impacts, 30, ''configuration_change''),
     (''runtime'' \<in> set impacts, 25, ''runtime_change''),
     (''infrastructure'' \<in> set impacts, 55, ''infrastructure_change''),
     (''database'' \<in> set impacts, if contains t ''migration'' then 58 else 45, ''database_change''),
     (''security'' \<in> set impacts, 60, ''security_change''),
     (contains_word DESTRUCTIVE_TERMS t, if any_in [''data'', ''schema'', ''secret'', ''credential''] t then 80 else 65,
       ''destructive_operation''),
     (any_in [''secret'', ''credential''] t, 80, ''sensitive_credential_change'')]"

definition task_risk :: "ImplementationTask \<Rightarrow> int \<times> string list \<times> string list" where
  "task_risk task =
    (let t = task_text task; impacts = impact_for_task t (risk_paths t);
         (base, because) = base_risk impacts; (change, how) = change_risk t;
         floors = filter fst (risk_floors t impacts);
         score = foldl (\<lambda>s (b, least, reason). max s least) (base + change) floors in
     (min score 100, dedupe (because @ how @ map (snd \<circ> snd) floors), impacts))"

section \<open>Plans\<close>

record RiskAnalysis =
  ar_score :: int
  ar_level :: string
  ar_reasons :: "string list"
  ar_sensitive :: "pydict list"
  ar_areas :: "string list"

definition sensitive_task :: "ImplementationTask \<Rightarrow> pydict" where
  "sensitive_task t = (let (score, reasons, impacts) = task_risk t in
    [(''task_id'', PStr (int_str (task_order t))), (''risk_level'', PStr (risk_level score)), (''reasons'', pstrs reasons)])"

text \<open>What the number of files and of areas adds.\<close>

definition breadth_risk :: "nat \<Rightarrow> nat \<Rightarrow> int \<times> string list" where
  "breadth_risk targets areas =
    (if targets \<ge> 5 \<or> areas \<ge> 5 then (10, [''broad_multi_area_impact''])
     else if targets \<ge> 2 \<or> areas \<ge> 3 then (6, [''multi_area_impact'']) else (0, []))"

definition analyze_plan_risk :: "PlanningOutput \<Rightarrow> RiskAnalysis" where
  "analyze_plan_risk plan =
    (let risks = map task_risk (plan_tasks plan); scores = map fst risks;
         areas = sort (remdups (concat (map (snd \<circ> snd) risks)));
         reasons = concat (map (fst \<circ> snd) risks);
         targets = sum_list (map (\<lambda>t. length (risk_paths (task_text t))) (plan_tasks plan));
         sensitive = map sensitive_task (filter (\<lambda>t. fst (task_risk t) \<ge> 50) (plan_tasks plan));
         base = foldr max scores 0;
         wide = breadth_risk targets (length areas);
         destructive = (if ''destructive_operation'' \<in> set reasons then 10 else 0);
         volume = (if length sensitive \<ge> 5 then 10 else 0);
         score = max 0 (min 100 (base + fst wide + destructive + volume)) in
     \<lparr>ar_score = score, ar_level = risk_level score, ar_reasons = dedupe (reasons @ snd wide),
      ar_sensitive = sensitive, ar_areas = areas\<rparr>)"

section \<open>The policy\<close>

definition MEDIUM_SENSITIVE_AREAS :: "string list" where
  "MEDIUM_SENSITIVE_AREAS = [''configuration'', ''database'', ''dependencies'', ''infrastructure'', ''runtime'', ''security'']"

record ApprovalDecision =
  ad_required :: bool
  ad_reason :: string

definition ad_decision :: "ApprovalDecision \<Rightarrow> string" where
  "ad_decision d = (if ad_required d then ''require_approval'' else ''allow'')"

fun has_high_task :: "pyval list \<Rightarrow> exn + bool" where
  "has_high_task [] = Inr False"
| "has_high_task (t # ts) =
     bind (as_dict t) (\<lambda>d. bind (py_str (por (get d ''risk_level'') (PStr []))) (\<lambda>l.
       if casefold l \<in> {''high'', ''critical''} then Inr True else has_high_task ts))"

definition evaluate_planning_approval_policy :: "pyval \<Rightarrow> pyval list \<Rightarrow> pyval list \<Rightarrow> exn + ApprovalDecision" where
  "evaluate_planning_approval_policy level impact_areas sensitive_tasks =
    bind (py_str (por level (PStr ''low''))) (\<lambda>l. let lv = casefold l in
    bind (mapm py_str impact_areas) (\<lambda>areas.
    bind (has_high_task sensitive_tasks) (\<lambda>high.
    if lv \<in> {''high'', ''critical''}
    then Inr \<lparr>ad_required = True, ad_reason = ''planning risk level is '' @ lv\<rparr>
    else if high then Inr \<lparr>ad_required = True, ad_reason = ''planning contains high-risk sensitive tasks''\<rparr>
    else if lv = ''medium'' \<and> list_ex (\<lambda>a. casefold a \<in> set MEDIUM_SENSITIVE_AREAS) areas
    then Inr \<lparr>ad_required = True, ad_reason = ''medium planning risk touches sensitive impact areas''\<rparr>
    else Inr \<lparr>ad_required = False,
      ad_reason = ''planning risk level '' @ lv @ '' does not require additional approval''\<rparr>)))"

section \<open>What the score says\<close>

lemma folded_floor:
  fixes s :: int
  shows "s \<le> foldl (\<lambda>s (b, least, reason). max s least) s fs"
    and "(b, least, reason) \<in> set fs \<Longrightarrow> least \<le> foldl (\<lambda>s (b, least, reason). max s least) s fs"
proof (induction fs arbitrary: s)
  case (Cons x fs)
  obtain c l r where x: "x = (c, l, r)" by (cases x)
  {
    case 1
    show ?case using Cons(1)[of "max s l"] by (simp add: x)
  next
    case 2
    then show ?case using Cons(1,2)[of "max s l"] by (auto simp: x)
  }
qed simp_all

definition risky_task :: "ImplementationTask \<Rightarrow> bool" where
  "risky_task t \<longleftrightarrow> list_ex (\<lambda>a. a \<in> set MEDIUM_SENSITIVE_AREAS) (impact_for_task (task_text t) (risk_paths (task_text t)))
    \<or> contains_word DESTRUCTIVE_TERMS (task_text t) \<or> any_in [''secret'', ''credential''] (task_text t)"

lemma base_and_change: "0 \<le> fst (base_risk impacts)" "fst (base_risk impacts) \<le> 8" "0 \<le> fst (change_risk t)" "fst (change_risk t) \<le> 10"
  by (auto simp: base_risk_def change_risk_def Let_def)

lemma floors_of_task:
  "list_ex fst (risk_floors (task_text t) (impact_for_task (task_text t) (risk_paths (task_text t)))) \<longleftrightarrow> risky_task t"
  by (auto simp: risk_floors_def risky_task_def MEDIUM_SENSITIVE_AREAS_def list_ex_iff)

lemma task_risk_score:
  "0 \<le> fst (task_risk t)" "fst (task_risk t) \<le> 100"
  "\<not> risky_task t \<Longrightarrow> fst (task_risk t) \<le> 18"
  "risky_task t \<Longrightarrow> 25 \<le> fst (task_risk t)"
proof -
  let ?t = "task_text t" and ?i = "impact_for_task (task_text t) (risk_paths (task_text t))"
  let ?f = "risk_floors ?t ?i"
  let ?base = "fst (base_risk ?i) + fst (change_risk ?t)"
  have s: "fst (task_risk t) = min (foldl (\<lambda>s (b, least, reason). max s least) ?base (filter fst ?f)) 100"
    by (simp add: task_risk_def Let_def split: prod.splits)
  show "fst (task_risk t) \<le> 100" using s by simp
  show "0 \<le> fst (task_risk t)" using s folded_floor(1)[of ?base "filter fst ?f"] base_and_change(1,2)[of ?i] base_and_change(3,4)[of ?t] by simp
  show "fst (task_risk t) \<le> 18" if "\<not> risky_task t"
  proof -
    have "filter fst ?f = []" using that floors_of_task[of t] by (auto simp: filter_empty_conv list_ex_iff)
    then show ?thesis using s base_and_change(1,2)[of ?i] base_and_change(3,4)[of ?t] by simp
  qed
  show "25 \<le> fst (task_risk t)" if risky: "risky_task t"
  proof -
    obtain b least reason where f: "(b, least, reason) \<in> set ?f" "b"
      using risky floors_of_task[of t] by (auto simp: list_ex_iff)
    have "25 \<le> least" using f(1) by (auto simp: risk_floors_def split: if_splits)
    with folded_floor(2)[of b least reason "filter fst ?f" ?base] f s show ?thesis by auto
  qed
qed

lemma destructive_score:
  assumes "contains_word DESTRUCTIVE_TERMS (task_text t) \<or> any_in [''secret'', ''credential''] (task_text t)"
  shows "50 \<le> fst (task_risk t)"
proof -
  let ?t = "task_text t" and ?i = "impact_for_task (task_text t) (risk_paths (task_text t))"
  let ?f = "risk_floors ?t ?i"
  let ?base = "fst (base_risk ?i) + fst (change_risk ?t)"
  have s: "fst (task_risk t) = min (foldl (\<lambda>s (b, least, reason). max s least) ?base (filter fst ?f)) 100"
    by (simp add: task_risk_def Let_def split: prod.splits)
  obtain least reason where f: "(True, least, reason) \<in> set ?f" "50 \<le> least"
  proof (cases "contains_word DESTRUCTIVE_TERMS ?t")
    case True
    then show ?thesis
      by (intro that[of "if any_in [''data'', ''schema'', ''secret'', ''credential''] ?t then 80 else 65" "''destructive_operation''"])
        (auto simp: risk_floors_def)
  next
    case False
    with assms show ?thesis by (intro that[of 80 "''sensitive_credential_change''"]) (auto simp: risk_floors_def)
  qed
  then show ?thesis using folded_floor(2)[of True least reason "filter fst ?f" ?base] s by auto
qed

lemma foldr_max:
  fixes b :: "'a :: linorder"
  shows "(x \<in> set xs \<Longrightarrow> x \<le> foldr max xs b)" "(\<And>x. x \<in> set xs \<Longrightarrow> x \<le> c) \<Longrightarrow> b \<le> c \<Longrightarrow> foldr max xs b \<le> c"
    "b \<le> foldr max xs b"
  by (induction xs) (auto simp: le_max_iff_disj)

lemma areas_of_task:
  "snd (snd (task_risk t)) = impact_for_task (task_text t) (risk_paths (task_text t))"
  by (simp add: task_risk_def Let_def split: prod.splits)

lemma quiet_reasons: "\<not> risky_task t \<Longrightarrow> ''destructive_operation'' \<notin> set (fst (snd (task_risk t)))"
proof -
  let ?t = "task_text t" and ?i = "impact_for_task (task_text t) (risk_paths (task_text t))"
  assume "\<not> risky_task t"
  then have "filter fst (risk_floors ?t ?i) = []"
    using floors_of_task[of t] by (auto simp: filter_empty_conv list_ex_iff)
  then have "fst (snd (task_risk t)) = dedupe (snd (base_risk ?i) @ snd (change_risk ?t))"
    by (simp add: task_risk_def Let_def split: prod.splits)
  then show ?thesis by (auto simp: base_risk_def change_risk_def Let_def split: if_splits)
qed

lemma fst_filter: "a \<in> set (map fst (filter P xs)) \<Longrightarrow> a \<in> set (map fst xs)"
  by auto

definition AREAS :: "string list" where
  "AREAS = [''tests'', ''documentation'', ''dependencies'', ''configuration'', ''database'', ''security'',
     ''infrastructure'', ''runtime'', ''filesystem'', ''application'']"

lemma area_names: "a \<in> set (impact_for_task t paths) \<Longrightarrow> casefold a = a"
proof -
  assume "a \<in> set (impact_for_task t paths)"
  then have "a = ''application'' \<or> a \<in> set (named_impacts t paths)"
    by (auto simp: impact_for_task_def Let_def split: if_splits)
  then have "a \<in> set AREAS"
  proof
    assume "a \<in> set (named_impacts t paths)"
    from fst_filter[OF this[unfolded named_impacts_def]] show ?thesis by (auto simp: AREAS_def)
  qed (simp add: AREAS_def)
  moreover have "list_all (\<lambda>a. casefold a = a) AREAS" by code_simp
  ultimately show ?thesis by (simp add: list_all_iff)
qed

lemma analyzed:
  fixes plan
  defines "a \<equiv> analyze_plan_risk plan"
  shows "ar_level a = risk_level (ar_score a)" "0 \<le> ar_score a" "ar_score a \<le> 100"
    "t \<in> set (plan_tasks plan) \<Longrightarrow> fst (task_risk t) \<le> ar_score a"
    "\<not> list_ex risky_task (plan_tasks plan) \<Longrightarrow> ar_score a \<le> 28 \<and> ar_sensitive a = []"
    "set (ar_areas a) = (\<Union>t \<in> set (plan_tasks plan). set (impact_for_task (task_text t) (risk_paths (task_text t))))"
    "ar_sensitive a = map sensitive_task (filter (\<lambda>t. fst (task_risk t) \<ge> 50) (plan_tasks plan))"
proof -
  let ?base = "foldr max (map fst (map task_risk (plan_tasks plan))) 0"
  define breadth where "breadth = fst (breadth_risk
    (sum_list (map (\<lambda>t. length (risk_paths (task_text t))) (plan_tasks plan))) (length (ar_areas a)))"
  define destructive where d: "destructive = (if ''destructive_operation'' \<in>
        set (concat (map (fst \<circ> snd) (map task_risk (plan_tasks plan)))) then 10 else (0::int))"
  define volume where v: "volume = (if length (ar_sensitive a) \<ge> 5 then 10 else (0::int))"
  have score: "ar_score a = max 0 (min 100 (?base + breadth + destructive + volume))"
    unfolding breadth_def d v a_def analyze_plan_risk_def Let_def RiskAnalysis.select_convs by (rule refl)
  have b: "0 \<le> breadth" "breadth \<le> 10" by (auto simp: breadth_def breadth_risk_def)
  show "ar_level a = risk_level (ar_score a)"
    unfolding a_def analyze_plan_risk_def Let_def RiskAnalysis.select_convs by (rule refl)
  show "0 \<le> ar_score a" "ar_score a \<le> 100" using score by simp_all
  show "fst (task_risk t) \<le> ar_score a" if "t \<in> set (plan_tasks plan)"
  proof -
    have "fst (task_risk t) \<le> ?base" using that by (intro foldr_max(1)) auto
    moreover have "0 \<le> breadth" "0 \<le> destructive" "0 \<le> volume" using b d v by auto
    ultimately show ?thesis using task_risk_score(2)[of t] by (simp add: score)
  qed
  show sens: "ar_sensitive a = map sensitive_task (filter (\<lambda>t. fst (task_risk t) \<ge> 50) (plan_tasks plan))"
    unfolding a_def analyze_plan_risk_def Let_def RiskAnalysis.select_convs by (rule refl)
  show "set (ar_areas a) = (\<Union>t \<in> set (plan_tasks plan). set (impact_for_task (task_text t) (risk_paths (task_text t))))"
    unfolding a_def analyze_plan_risk_def Let_def RiskAnalysis.select_convs by (simp add: areas_of_task)
  assume "\<not> list_ex risky_task (plan_tasks plan)"
  then have quiet: "\<not> risky_task t" if "t \<in> set (plan_tasks plan)" for t using that by (auto simp: list_ex_iff)
  have "?base \<le> 18" using task_risk_score(3) quiet by (intro foldr_max(2)) auto
  moreover have none: "ar_sensitive a = []" using sens task_risk_score(3) quiet by (force simp: filter_empty_conv)
  moreover have "destructive = 0" using d quiet_reasons quiet by auto
  ultimately show "ar_score a \<le> 28 \<and> ar_sensitive a = []" using b v by (auto simp: score)
qed

text \<open>(C15) A plan must be approved by a person exactly when one of its tasks touches a sensitive area
  (configuration, database, dependencies, infrastructure, runtime or security), is destructive or
  mentions a secret or a credential; the policy decides on every analysis, and the score is within
  0 and 100.\<close>

theorem approval_is_for_sensitive_plans:
  "\<exists>d. evaluate_planning_approval_policy (PStr (ar_level (analyze_plan_risk plan)))
      (map PStr (ar_areas (analyze_plan_risk plan))) (map PDict (ar_sensitive (analyze_plan_risk plan))) = Inr d
    \<and> ad_required d = list_ex risky_task (plan_tasks plan)
    \<and> ar_score (analyze_plan_risk plan) \<in> {0..100}"
proof -
  let ?a = "analyze_plan_risk plan"
  note a = analyzed[where plan = plan]
  have fold: "casefold ''critical'' = ''critical''" "casefold ''high'' = ''high''" "casefold ''medium'' = ''medium''"
    "casefold ''low'' = ''low''" by code_simp+
  have level: "casefold (ar_level ?a) = ar_level ?a" "ar_level ?a \<noteq> []"
    unfolding a(1) by (auto simp: risk_level_def fold)
  have areas: "mapm py_str (map PStr xs) = Inr xs" for xs by (induction xs) auto
  have sens: "has_high_task (map PDict (map sensitive_task ts)) = Inr (ts \<noteq> [])"
    if "\<forall>t \<in> set ts. 50 \<le> fst (task_risk t)" for ts
    using that by (cases ts) (auto simp: sensitive_task_def get_def por_def risk_level_def fold split: prod.splits)
  have high: "has_high_task (map PDict (ar_sensitive ?a)) = Inr (ar_sensitive ?a \<noteq> [])"
    unfolding a(7) by (subst sens) auto
  have fold_area: "list_ex (\<lambda>x. casefold x \<in> set MEDIUM_SENSITIVE_AREAS) (ar_areas ?a)
      \<longleftrightarrow> (\<exists>x \<in> set (ar_areas ?a). x \<in> set MEDIUM_SENSITIVE_AREAS)"
    using a(6) area_names by (auto simp: list_ex_iff)
  let ?required = "ar_level ?a \<in> {''high'', ''critical''} \<or> ar_sensitive ?a \<noteq> []
    \<or> ar_level ?a = ''medium'' \<and> (\<exists>x \<in> set (ar_areas ?a). x \<in> set MEDIUM_SENSITIVE_AREAS)"
  have policy: "\<exists>d. evaluate_planning_approval_policy (PStr (ar_level ?a)) (map PStr (ar_areas ?a)) (map PDict (ar_sensitive ?a)) = Inr d
      \<and> ad_required d = ?required"
    using level by (auto simp: evaluate_planning_approval_policy_def por_def areas high Let_def fold_area)
  have "?required \<longleftrightarrow> list_ex risky_task (plan_tasks plan)"
  proof (cases "list_ex risky_task (plan_tasks plan)")
    case False
    with a(5) have "ar_score ?a \<le> 28" "ar_sensitive ?a = []" by auto
    moreover have "x \<notin> set MEDIUM_SENSITIVE_AREAS" if "x \<in> set (ar_areas ?a)" for x
      using that False a(6) by (auto simp: risky_task_def list_ex_iff)
    ultimately show ?thesis using False a(1) by (auto simp: risk_level_def split: if_splits)
  next
    case True
    then obtain t where t: "t \<in> set (plan_tasks plan)" "risky_task t" by (auto simp: list_ex_iff)
    have score: "fst (task_risk t) \<le> ar_score ?a" by (rule a(4)[OF t(1)])
    show ?thesis
    proof (cases "50 \<le> ar_score ?a")
      case True
      then have "ar_level ?a \<in> {''high'', ''critical''}" using a(1) by (auto simp: risk_level_def)
      with \<open>list_ex risky_task (plan_tasks plan)\<close> show ?thesis by simp
    next
      case False
      then have "ar_level ?a = ''medium''" using a(1) score task_risk_score(4)[OF t(2)] by (auto simp: risk_level_def)
      moreover have "\<exists>x \<in> set (ar_areas ?a). x \<in> set MEDIUM_SENSITIVE_AREAS"
        using t False score destructive_score[of t] a(6) by (auto simp: risky_task_def list_ex_iff)
      ultimately show ?thesis using True by simp
    qed
  qed
  with policy a(2,3) show ?thesis by auto
qed

end
