(* ===== verification/PlanQuality.thy ===== *)
theory PlanQuality
  imports PlanChecks
begin

text \<open>
  The quality of a plan (graph/subgraphs/planning/quality.py): five dimensions from 0 to 100, their
  weighted sum in double precision, the confidence in the decision, the gate that continues, asks
  for a refinement or fails, and the guidance for the planner.
\<close>

section \<open>Signals\<close>

definition QUALITY_WEIGHTS :: "(string \<times> rat) list" where
  "QUALITY_WEIGHTS = map (\<lambda>(name, w). (name, round_double w))
    [(''requirement_coverage'', 30 / 100), (''dependency_coherence'', 20 / 100), (''task_clarity'', 15 / 100),
     (''plan_completeness'', 25 / 100), (''risk_residual'', 10 / 100)]"

definition GENERIC_TASK_PHRASES :: "string list" where
  "GENERIC_TASK_PHRASES = [''hacer backend'', ''implementar'', ''configurar cosas'', ''cosas de tests'', ''do backend'', ''implement'']"

definition QUALITY_TEST_TERMS :: "string list" where
  "QUALITY_TEST_TERMS = [''pytest'', ''qa'', ''test'', ''tests'', ''prueba'', ''pruebas'', ''validar'']"

definition QUALITY_IMPLEMENT_TERMS :: "string list" where
  "QUALITY_IMPLEMENT_TERMS = [''api'', ''app'', ''backend'', ''endpoint'', ''fastapi'', ''health'', ''implement'', ''implementar'']"

definition MANIFEST_TARGETS :: "string list" where
  "MANIFEST_TARGETS = [''requirements.txt'', ''pyproject.toml'', ''package.json'', ''package-lock.json'']"

definition CREATE_ACTION_TERMS :: "string list" where
  "CREATE_ACTION_TERMS = [''actualizar'', ''agregar'', ''cambiar'', ''crear'', ''create'', ''generate'', ''generar'',
     ''implement'', ''implementar'', ''modificar'', ''update'', ''validar'', ''verificar'']"

definition dumped_text :: "PlanningOutput \<Rightarrow> string" where
  "dumped_text plan = casefold (json_text (dump_plan plan))"

definition quality_test_task :: "ImplementationTask \<Rightarrow> bool" where
  "quality_test_task t = any_in QUALITY_TEST_TERMS (task_text t)"

definition quality_implementation_task :: "ImplementationTask \<Rightarrow> bool" where
  "quality_implementation_task t =
    (any_in QUALITY_IMPLEMENT_TERMS (task_text t) \<and> \<not> (quality_test_task t \<and> \<not> contains (task_text t) ''developer''))"

definition has_dependency_manifest :: "PlanningOutput \<Rightarrow> bool" where
  "has_dependency_manifest plan = any_in MANIFEST_TARGETS (dumped_text plan)"

section \<open>Dimensions\<close>

text \<open>\<open>round(100 * n / m)\<close>.\<close>

definition percent :: "nat \<Rightarrow> nat \<Rightarrow> int" where
  "percent n m = round_half_even (float_div (of_nat (100 * n)) (of_nat m))"

text \<open>Whether a literal of the request is in the plan, as a whole or by its keys and values.\<close>

fun members_in :: "string \<Rightarrow> (string \<times> pyval) list \<Rightarrow> exn + bool" where
  "members_in t [] = Inr True"
| "members_in t ((k, v) # d) =
     (if \<not> contains t (casefold k) then Inr False
      else bind (py_str v) (\<lambda>s. if contains t (casefold s) then members_in t d else Inr False))"

definition literal_covered :: "string \<Rightarrow> string \<Rightarrow> exn + bool" where
  "literal_covered t literal =
    (let whole = (\<lambda>s. contains (without_space t) (casefold (without_space s))) in
     case json_loads (replace_char (CHR 0x27) (CHR 0x22) literal) of
       Inl e \<Rightarrow> if e = json_error then Inr (whole literal) else Inl e
     | Inr (PDict d) \<Rightarrow> if whole (json_text (PDict d)) then Inr True else members_in t d
     | Inr v \<Rightarrow> Inr (whole (json_text v)))"

definition requirement_coverage :: "PlanningOutput \<Rightarrow> pydict \<Rightarrow> exn + int \<times> string list" where
  "requirement_coverage plan state =
    bind (py_str (por (get state ''original_user_message'') (PStr []))) (\<lambda>original.
    let t = dumped_text plan; (endpoints, literals) = literal_contracts original in
    bind (mapm (literal_covered t) literals) (\<lambda>covered_literals.
    let signals = (if contains (casefold original) ''fastapi'' then [contains t ''fastapi''] else [])
          @ map (\<lambda>e. contains t (casefold e)) endpoints @ covered_literals
          @ (if any_in QUALITY_TEST_TERMS (casefold original) then [list_ex quality_test_task (plan_tasks plan)] else []);
        score = percent (length (filter id signals)) (length signals) in
    if signals = [] then Inr (80, [])
    else Inr (score, if score \<ge> 80 then [] else [''planning_quality_low_requirement_coverage''])))"

definition dependency_coherence :: "PlanningOutput \<Rightarrow> pydict \<Rightarrow> int \<times> string list" where
  "dependency_coherence plan state =
    (let tasks = length (plan_tasks plan);
         edges = (case getd state ''planning_dependency_edges'' (PList []) of
           PList xs \<Rightarrow> length xs | _ \<Rightarrow> sum_list (map (length \<circ> task_depends_on) (plan_tasks plan)));
         density = float_div (of_nat edges) (of_nat (max (tasks - 1) 1));
         dense = (if density > 2 then 25 else if density > round_double (13 / 10) then 12 else 0);
         unordered = (if truthy (get state ''planning_execution_order'') then 0 else 5);
         score = 100 - dense - unordered :: int in
     if tasks \<le> 1 then (95, [])
     else (max score 0, if score < 80 then [''planning_quality_high_coupling''] else []))"

fun clarity_penalties :: "(string \<times> string \<times> string) list \<Rightarrow> ImplementationTask list \<Rightarrow> int" where
  "clarity_penalties seen [] = 0"
| "clarity_penalties seen (t # ts) =
     (let identity = (casefold (task_role t), casefold (task_title t), casefold (task_description t)) in
      (if identity \<in> set seen then 20 else 0)
      + (if length (strip (task_description t)) < 20 then 15 else 0)
      + (if casefold (strip (task_description t)) \<in> set GENERIC_TASK_PHRASES
           \<or> casefold (strip (task_title t)) \<in> set GENERIC_TASK_PHRASES then 25 else 0)
      + (if any_in CREATE_ACTION_TERMS (task_text t) then 0 else 6)
      + clarity_penalties (identity # seen) ts)"

definition task_clarity :: "PlanningOutput \<Rightarrow> int \<times> string list" where
  "task_clarity plan =
    (let score = max 0 (min 100 (100 - clarity_penalties [] (plan_tasks plan))) in
     (score, if score < 70 then [''planning_quality_low_task_clarity''] else []))"

definition plan_completeness :: "PlanningOutput \<Rightarrow> pydict \<Rightarrow> exn + int \<times> string list" where
  "plan_completeness plan state =
    bind (py_str (por (get state ''original_user_message'') (PStr []))) (\<lambda>message.
    let original = casefold message;
        checks = [list_ex quality_implementation_task (plan_tasks plan)]
          @ (if any_in QUALITY_TEST_TERMS original then [list_ex quality_test_task (plan_tasks plan)] else [])
          @ (if contains original ''fastapi'' \<or> ra_framework (plan_analysis plan) = Some ''fastapi''
             then [list_ex (\<lambda>t. any_in [''fastapi'', ''endpoint'', ''api''] (task_text t)) (plan_tasks plan)] else [])
          @ (if has_dependency_manifest plan then [True] else []);
        score = percent (length (filter id checks)) (length checks) in
    Inr (score, if score < 80 then [''planning_quality_incomplete_plan''] else []))"

definition risk_level_of :: "pydict \<Rightarrow> exn + string" where
  "risk_level_of state = bind (py_str (por (get state ''planning_risk_level'') (PStr ''low''))) (\<lambda>l. Inr (casefold l))"

definition risk_residual :: "pydict \<Rightarrow> exn + int \<times> string list" where
  "risk_residual state =
    bind (risk_level_of state) (\<lambda>level.
    let score = (if level = ''low'' then 100 else if level = ''medium'' then 80 else if level = ''high'' then 55
                 else if level = ''critical'' then 25 else 80) in
    Inr (score, if score < 60 then [''planning_quality_high_residual_risk''] else []))"

section \<open>Score and confidence\<close>

definition quality_level :: "int \<Rightarrow> string" where
  "quality_level score =
    (if score \<ge> 90 then ''excellent'' else if score \<ge> 75 then ''good'' else if score \<ge> 60 then ''acceptable''
     else if score \<ge> 40 then ''weak'' else ''poor'')"

definition clamp :: "rat \<Rightarrow> rat \<Rightarrow> rat \<Rightarrow> rat" where
  "clamp v low high = max low (min high v)"

definition decision_confidence :: "int \<Rightarrow> string list \<Rightarrow> pydict \<Rightarrow> exn + rat" where
  "decision_confidence score issues state =
    bind (risk_level_of state) (\<lambda>level.
    bind (py_int (por (getd state ''planning_attempts'' (PInt 0)) (PInt 0))) (\<lambda>attempts.
    bind (py_str (por (get state ''planning_approval_status'') (PStr ''not_required''))) (\<lambda>status.
    let dec = (\<lambda>q. round_double (q / 100));
        required = truthy (get state ''planning_approval_required'');
        c0 = float_div (of_int score) 100;
        c1 = (if level = ''high'' then float_sub c0 (dec 12) else if level = ''critical'' then float_sub c0 (dec 25) else c0);
        c2 = (if attempts \<le> 0 then c1 else if attempts = 1 then float_sub c1 (dec 3)
              else if attempts = 2 then float_sub c1 (dec 7) else float_sub c1 (dec 12));
        c3 = float_sub c2 (min (float_mul (of_nat (length issues)) (dec 3)) (dec 15));
        c4 = (if required \<and> status = ''approved'' then float_add c3 (dec 5) else c3);
        c5 = (if attempts = 0 \<and> issues = [] then float_add c4 (dec 2) else c4);
        c6 = (if required \<and> status = ''awaiting_approval'' then min c5 (dec 60) else c5) in
    Inr (round_double (of_int (round_half_even (1000 * clamp c6 0 1)) / 1000)))))"

record PlanQualityResult =
  pq_score :: int
  pq_level :: string
  pq_dimensions :: "(string \<times> int) list"
  pq_issues :: "string list"
  pq_confidence :: rat

definition weighted_score :: "(string \<times> int) list \<Rightarrow> int" where
  "weighted_score dimensions =
    round_half_even (foldl (\<lambda>s (name, w).
      float_add s (float_mul (of_int (case map_of dimensions name of Some v \<Rightarrow> v | None \<Rightarrow> 0)) w)) 0 QUALITY_WEIGHTS)"

definition score_plan_quality :: "PlanningOutput \<Rightarrow> pydict \<Rightarrow> exn + PlanQualityResult" where
  "score_plan_quality plan state =
    bind (requirement_coverage plan state) (\<lambda>coverage.
    bind (plan_completeness plan state) (\<lambda>completeness.
    bind (risk_residual state) (\<lambda>residual.
    let found = [(''requirement_coverage'', coverage), (''dependency_coherence'', dependency_coherence plan state),
          (''task_clarity'', task_clarity plan), (''plan_completeness'', completeness), (''risk_residual'', residual)];
        dimensions = map (\<lambda>(name, v, issues). (name, max 0 (min 100 v))) found;
        issues = dedupe (concat (map (snd \<circ> snd) found));
        score = weighted_score dimensions in
    bind (decision_confidence score issues state) (\<lambda>confidence.
    Inr \<lparr>pq_score = max 0 (min 100 score), pq_level = quality_level score, pq_dimensions = dimensions,
      pq_issues = issues, pq_confidence = confidence\<rparr>))))"

section \<open>The gate\<close>

definition STRUCTURAL_QUALITY_ISSUES :: "string list" where
  "STRUCTURAL_QUALITY_ISSUES = [''planning_quality_low_requirement_coverage'', ''planning_quality_incomplete_plan'',
     ''planning_quality_low_task_clarity'', ''planning_quality_high_coupling'']"

record QualityGateDecision =
  qg_decision :: string
  qg_reason :: string
  qg_codes :: "string list"
  qg_refine :: bool

definition dimension :: "(string \<times> int) list \<Rightarrow> string \<Rightarrow> int" where
  "dimension dimensions name = (case map_of dimensions name of Some v \<Rightarrow> v | None \<Rightarrow> 100)"

definition gate_codes :: "PlanQualityResult \<Rightarrow> string list" where
  "gate_codes q =
    (let level = casefold (pq_level q); low = (\<lambda>name bound. dimension (pq_dimensions q) name < bound);
         some = (\<lambda>issues. list_ex (\<lambda>i. i \<in> set (pq_issues q)) issues) in
     dedupe (map fst (filter snd
       [(''planning_quality_below_threshold'', level = ''weak'' \<or> level = ''poor''),
        (''planning_quality_low_requirement_coverage'', low ''requirement_coverage'' 70),
        (''planning_quality_incomplete_plan'', low ''plan_completeness'' 70),
        (''planning_quality_low_task_clarity'', low ''task_clarity'' 50),
        (''planning_quality_high_coupling'', low ''dependency_coherence'' 60),
        (''planning_quality_acceptable_with_structural_issue'', level = ''acceptable'' \<and>
           some [''planning_quality_low_requirement_coverage'', ''planning_quality_incomplete_plan'']),
        (''planning_quality_low_confidence'', pq_confidence q < round_double (55 / 100) \<and> some STRUCTURAL_QUALITY_ISSUES)])))"

definition evaluate_quality_gate :: "PlanQualityResult \<Rightarrow> int \<Rightarrow> int \<Rightarrow> QualityGateDecision" where
  "evaluate_quality_gate q attempts max_attempts =
    (let codes = gate_codes q in
     if codes = [] then \<lparr>qg_decision = ''continue'', qg_reason = ''quality_gate_passed'', qg_codes = [], qg_refine = False\<rparr>
     else if attempts \<ge> max_attempts
     then \<lparr>qg_decision = ''fail'', qg_reason = ''planning_quality_below_threshold'', qg_codes = codes, qg_refine = False\<rparr>
     else \<lparr>qg_decision = ''refine'', qg_reason = hd codes, qg_codes = codes, qg_refine = True\<rparr>)"

definition refinement_guidance :: "PlanQualityResult \<Rightarrow> string \<Rightarrow> string list" where
  "refinement_guidance q gate_reason =
    (let low = (\<lambda>name bound issue. dimension (pq_dimensions q) name < bound \<or> issue \<in> set (pq_issues q)) in
     dedupe (map fst (filter snd
       [(''Increase explicit coverage of required behavior, endpoints, response literals, and tests.'',
         low ''requirement_coverage'' 70 ''planning_quality_low_requirement_coverage''),
        (''Replace vague tasks with concrete actions, targets, and verification steps.'',
         low ''task_clarity'' 50 ''planning_quality_low_task_clarity''),
        (''Add missing implementation, testing, or dependency tasks required by the request.'',
         low ''plan_completeness'' 70 ''planning_quality_incomplete_plan''),
        (''Simplify dependencies between tasks and keep the execution DAG understandable.'',
         low ''dependency_coherence'' 60 ''planning_quality_high_coupling'')])
      @ [''Improve the deterministic plan quality score above the gate threshold; current score is '' @ int_str (pq_score q) @ ''.'']
      @ (if gate_reason = [] then [] else [''Resolve quality gate reason: '' @ gate_reason @ ''.''])))"

end
