(* ===== verification/PlanningFlow.thy ===== *)
theory PlanningFlow
  imports PlanRisk PlanQuality TestingRepair
begin

text \<open>
  The planning subgraph (graph/subgraphs/planning: service.py, builder.py, routers.py, state.py): the
  planner's service with its tools, the nodes, the loop of validation and refinement. The tool
  executor, the model's answer to a refinement and pydantic's checks are parameters; events and
  logs are left out. The module defines \<open>validate_plan\<close> and \<open>refine_plan\<close> twice; the
  second of each is the one the graph has.
\<close>

section \<open>The service\<close>

text \<open>What an operation of the service raises: its own errors, a failed field check, anything else.\<close>

datatype plan_failure = DomainError string string | SchemaError string | OtherError exn

type_synonym ('x, 'a) service = "'x \<Rightarrow> (plan_failure + 'a) \<times> 'x"

definition svc_bind :: "('x, 'a) service \<Rightarrow> ('a \<Rightarrow> ('x, 'b) service) \<Rightarrow> ('x, 'b) service" where
  "svc_bind m f x = (case m x of (Inl e, x') \<Rightarrow> (Inl e, x') | (Inr a, x') \<Rightarrow> f a x')"

definition svc_exn :: "exn + 'a \<Rightarrow> ('x, 'a) service" where
  "svc_exn m x = ((case m of Inl e \<Rightarrow> Inl (OtherError e) | Inr a \<Rightarrow> Inr a), x)"

definition svc_read :: "complaint + 'a \<Rightarrow> ('x, 'a) service" where
  "svc_read m x = ((case m of Inl e \<Rightarrow> Inl (SchemaError (snd e)) | Inr a \<Rightarrow> Inr a), x)"

definition ALLOWED_PLANNING_TOOLS :: "string list" where
  "ALLOWED_PLANNING_TOOLS = [''software_factory__analyze_requirement'', ''software_factory__create_tasks'']"

definition planning_tool :: "'x executor \<Rightarrow> string \<Rightarrow> pydict \<Rightarrow> pydict \<Rightarrow> ('x, pydict) service" where
  "planning_tool execute name arguments state x =
    (if name \<notin> set ALLOWED_PLANNING_TOOLS
     then (Inl (DomainError ''planning_tool_not_allowed'' (''Tool no permitida para Planner: '' @ name)), x)
     else (case execute x name arguments state Prompt of
         Inl e \<Rightarrow> (Inl (OtherError e), x)
       | Inr (out, x') \<Rightarrow>
           if o_is_error out \<or> get (payload_of out) ''success'' = PBool False
           then svc_bind (svc_exn (py_str (por (get (payload_of out) ''message'')
                  (PStr (''Fall'' @ [CHR 0xC3, CHR 0xB3] @ '' '' @ name @ ''.'')))))
                (\<lambda>message x. (Inl (DomainError ''planning_tool_failed'' message), x)) x'
           else (Inr (payload_of out), x')))"

definition project_type_of :: "string \<Rightarrow> string" where
  "project_type_of message =
    (if any_in [''dotnet'', ''.net''] (casefold message) then ''dotnet''
     else if any_in [''node'', ''express''] (casefold message) then ''node'' else ''fastapi'')"

definition message_of :: "pydict \<Rightarrow> exn + string" where
  "message_of state = (case getd state ''original_user_message'' (PStr []) of PStr s \<Rightarrow> Inr s | _ \<Rightarrow> Inl AttributeError)"

text \<open>The analysis the planner writes down, before its fields are checked.\<close>

definition functional_scope :: "pydict \<Rightarrow> string list \<Rightarrow> exn + string list" where
  "functional_scope payload contracts =
    bind (as_list (getd payload ''functional_scope'' (PList []))) (\<lambda>items.
    bind (mapm py_str items) (\<lambda>texts.
    let scope = (if contracts \<noteq> [] then map (\<lambda>c. ''Implementar el contrato literal: '' @ c) contracts
                 else filter (\<lambda>s. strip s \<noteq> []) texts) in
    Inr (if scope = [] then [''Implementar el comportamiento solicitado por el usuario.''] else scope)))"

definition draft_analysis :: "pydict \<Rightarrow> string \<Rightarrow> pydict \<Rightarrow> exn + RequirementAnalysis" where
  "draft_analysis state message payload =
    bind (py_str (por (get state ''project_name'') (PStr []))) (\<lambda>name.
    let project = strip name; contracts = fst (literal_contracts message) @ snd (literal_contracts message) in
    bind (functional_scope payload contracts) (\<lambda>functional.
    bind (py_str (por (get payload ''objective'') (PStr (''Implementar '' @ project @ '' seg'' @ [CHR 0xC3, CHR 0xBA]
      @ ''n la solicitud original.'')))) (\<lambda>objective.
    Inr \<lparr>ra_objective = objective, ra_project_name = project, ra_project_type = project_type_of message,
      ra_framework = Some (project_type_of message), ra_functional = functional,
      ra_non_functional = [''Mantener una implementaci'' @ [CHR 0xC3, CHR 0xB3] @ ''n m'' @ [CHR 0xC3, CHR 0xAD] @ ''nima y verificable.''],
      ra_constraints = map (\<lambda>c. ''Preservar literalmente: '' @ c) contracts,
      ra_assumptions = [''Se implementar'' @ [CHR 0xC3, CHR 0xA1] @ '' '' @ [CHR 0xC3, CHR 0xBA] @ ''nicamente el alcance solicitado.'']\<rparr>)))"

definition draft_criterion :: "nat \<Rightarrow> string \<Rightarrow> AcceptanceCriterion" where
  "draft_criterion index requirement =
    \<lparr>ac_id = ''AC-'' @ nat_str index, ac_description = ''El proyecto satisface '' @ requirement,
     ac_method = ''Prueba automatizada con pytest.''\<rparr>"

fun svc_map :: "('a \<Rightarrow> ('x, 'b) service) \<Rightarrow> 'a list \<Rightarrow> ('x, 'b list) service" where
  "svc_map f [] x = (Inr [], x)"
| "svc_map f (a # as) x = svc_bind (f a) (\<lambda>b. svc_bind (svc_map f as) (\<lambda>bs x. (Inr (b # bs), x))) x"

definition service_analyze ::
  "PlanReader \<Rightarrow> 'x executor \<Rightarrow> pydict \<Rightarrow> ('x, RequirementAnalysis \<times> AcceptanceCriterion list) service" where
  "service_analyze reader execute state =
    svc_bind (svc_exn (message_of state)) (\<lambda>raw. let message = strip raw in
    if message = [] then (\<lambda>x. (Inl (DomainError ''empty_requirement''
      (''La solicitud original est'' @ [CHR 0xC3, CHR 0xA1] @ '' vac'' @ [CHR 0xC3, CHR 0xAD] @ ''a.'')), x))
    else svc_bind (planning_tool execute ''software_factory__analyze_requirement'' [(''requirement'', PStr message)] state) (\<lambda>payload.
      svc_bind (svc_exn (draft_analysis state message payload)) (\<lambda>draft.
      svc_bind (svc_read (validate_analysis_model reader (dump_analysis draft))) (\<lambda>analysis.
      svc_bind (svc_map (\<lambda>(i, r). svc_read (read_criterion reader (dump_criterion (draft_criterion i r))))
        (enumerate 1 (ra_functional draft))) (\<lambda>criteria x. (Inr (analysis, criteria), x))))))"

definition criteria_text :: "pyval \<Rightarrow> exn + string" where
  "criteria_text criteria =
    bind (list_or_empty criteria) (\<lambda>items.
    bind (filterm (\<lambda>item. case item of PDict d \<Rightarrow> Inr True | v \<Rightarrow> bind (py_str v) (\<lambda>s. Inr (strip s \<noteq> []))) items) (\<lambda>kept.
    bind (mapm (\<lambda>item. py_str (case item of PDict d \<Rightarrow> get d ''description'' | v \<Rightarrow> v)) kept) (\<lambda>texts.
    Inr (join ''; '' texts))))"

definition draft_tasks :: "string \<Rightarrow> string \<Rightarrow> ImplementationTask list" where
  "draft_tasks requirements criteria =
    (let given = (\<lambda>s dflt. if s = [] then dflt else s) in
     [\<lparr>task_order = 1, task_role = ''backend developer'', task_title = ''Implementar API FastAPI y contrato literal'',
       task_description = ''Crear el servicio FastAPI y cubrir estos requisitos: ''
         @ given requirements ''comportamiento solicitado'' @ ''.'', task_depends_on = []\<rparr>,
      \<lparr>task_order = 2, task_role = ''QA reviewer'', task_title = ''Crear pruebas pytest del contrato'',
       task_description = ''Crear tests/test_health.py y validar con pytest los criterios de aceptacion: ''
         @ given criteria (given requirements ''contrato solicitado'') @ ''.'', task_depends_on = [1]\<rparr>])"

definition service_create_tasks ::
  "PlanReader \<Rightarrow> 'x executor \<Rightarrow> pydict \<Rightarrow> ('x, ImplementationTask list) service" where
  "service_create_tasks reader execute state =
    svc_bind (svc_read (validate_analysis_model reader (get state ''requirement_analysis''))) (\<lambda>analysis.
    svc_bind (planning_tool execute ''software_factory__create_tasks''
      [(''project_type'', getd state ''original_user_message'' (PStr [])), (''backend'', PStr (ra_project_type analysis))] state) (\<lambda>_.
    svc_bind (svc_exn (criteria_text (get state ''acceptance_criteria''))) (\<lambda>criteria.
    svc_map (\<lambda>t. svc_read (read_task reader (dump_task t)))
      (draft_tasks (join ''; '' (ra_functional analysis)) criteria))))"

text \<open>What the model answers to a refinement, and what the service makes of it.\<close>

datatype refine_reply =
    NoReply
  | BadSchema string
  | Refusal
  | CallFailed string
  | Reply bool "PlanningOutput option" bool

fun service_refine :: "refine_reply \<Rightarrow> string \<times> string + PlanningOutput" where
  "service_refine NoReply = Inl (''planning_timeout'', ''El refinamiento del plan excedi'' @ [CHR 0xC3, CHR 0xB3] @ '' el timeout.'')"
| "service_refine (BadSchema complaint_text) = Inl (''planning_schema_invalid'', complaint_text)"
| "service_refine Refusal = Inl (''planning_refused'', ''El modelo rechaz'' @ [CHR 0xC3, CHR 0xB3] @ '' refinar el plan.'')"
| "service_refine (CallFailed message) = Inl (''planning_openai_error'', message)"
| "service_refine (Reply incomplete parsed refused) =
     (if incomplete then Inl (''planning_output_incomplete'', ''La salida estructurada qued'' @ [CHR 0xC3, CHR 0xB3] @ '' incompleta.'')
      else (case parsed of
          Some plan \<Rightarrow> Inr plan
        | None \<Rightarrow> if refused then Inl (''planning_refused'', ''El modelo rechaz'' @ [CHR 0xC3, CHR 0xB3] @ '' refinar el plan.'')
            else Inl (''planning_output_empty'', ''El modelo no devolvi'' @ [CHR 0xC3, CHR 0xB3] @ '' un plan estructurado.'')))"

end
