(* ===== verification/PlanningGraph.thy ===== *)
theory PlanningGraph
  imports PlanningFlow
begin

text \<open>
  The planning subgraph as a step function on a node and a state: analysis, knowledge, tasks,
  validation and refinement (graph/subgraphs/planning/builder.py). LangGraph's merge of a node's
  updates into the state is a parameter.
\<close>

section \<open>Parameters\<close>

record 'x PlanningDeps =
  pd_graph :: "'x GraphDependencies"
  pd_settings :: Settings
  pd_reader :: PlanReader
  pd_refine :: "pydict \<Rightarrow> refine_reply"

type_synonym 'x planning_node = "'x PlanningDeps \<Rightarrow> 'x \<Rightarrow> pydict \<Rightarrow> exn + pydict \<times> 'x"

text \<open>\<open>state.get(key, dflt)\<close> where the code computes with a whole number.\<close>

fun number :: "pyval \<Rightarrow> exn + int" where
  "number (PInt i) = Inr i"
| "number (PBool b) = Inr (if b then 1 else 0)"
| "number (PFloat r) = Inl Unmodelled"
| "number _ = Inl TypeError"

definition plan_attempts_of :: "pydict \<Rightarrow> exn + int" where
  "plan_attempts_of state = number (getd state ''planning_attempts'' (PInt 0))"

definition plan_limit_of :: "pydict \<Rightarrow> exn + int" where
  "plan_limit_of state = number (getd state ''max_planning_attempts'' (PInt 2))"

section \<open>Nodes\<close>

text \<open>\<open>str(exc)\<close> and the code of a failure of the service.\<close>

fun failure_text :: "plan_failure \<Rightarrow> exn + string \<times> string" where
  "failure_text (DomainError code message) = Inr (code, message)"
| "failure_text (SchemaError message) = Inr (''planning_schema_invalid'', message)"
| "failure_text (OtherError (ValueError message)) = Inr (''planning_schema_invalid'', message)"
| "failure_text (OtherError (RuntimeError message)) = Inr (''planning_schema_invalid'', message)"
| "failure_text (OtherError e) = Inl Unmodelled"

definition failed_updates :: "plan_failure \<Rightarrow> exn + pydict" where
  "failed_updates e = bind (failure_text e) (\<lambda>(code, message).
    Inr [(''planning_errors'', pstrs [message]), (''planning_failure_reason'', PStr code)])"

definition development_force_invalid :: "(string \<Rightarrow> string option) \<Rightarrow> bool" where
  "development_force_invalid env =
    (let setting = (\<lambda>name. casefold (case env name of Some v \<Rightarrow> v | None \<Rightarrow> ''false'')) in
     setting ''LANGGRAPH_DEVELOPMENT'' = ''true'' \<and> setting ''PLANNING_FORCE_INVALID_FIRST_ATTEMPT'' = ''true'')"

definition analyze_requirement :: "'x planning_node" where
  "analyze_requirement deps x state =
    (case service_analyze (pd_reader deps) (execute_tool (pd_graph deps)) state x of
       (Inl e, x') \<Rightarrow> bind (failed_updates e) (\<lambda>u. Inr (u, x'))
     | (Inr (analysis, criteria), x') \<Rightarrow>
         (let forced = (development_force_invalid (env_var (pd_settings deps))
                \<and> py_eq (getd state ''planning_attempts'' (PInt 0)) (PInt 0));
              shown_analysis = (if forced then analysis\<lparr>ra_project_name := ''forced-invalid-project''\<rparr> else analysis) in
          Inr ([(''requirement_analysis'', dump_analysis shown_analysis),
            (''acceptance_criteria'', PList (map dump_criterion criteria))], x')))"

definition create_plan_tasks :: "'x planning_node" where
  "create_plan_tasks deps x state =
    (if \<not> truthy (get state ''requirement_analysis'')
     then Inr ([(''planning_errors'', pstrs [''No existe an'' @ [CHR 0xE1] @ ''lisis estructurado.''])], x)
     else (case service_create_tasks (pd_reader deps) (execute_tool (pd_graph deps)) state x of
       (Inl e, x') \<Rightarrow> bind (failed_updates e) (\<lambda>u. Inr (u, x'))
     | (Inr tasks, x') \<Rightarrow> Inr ([(''implementation_tasks'', PList (map dump_task tasks))], x')))"

definition prepare_planner_knowledge :: "'x planning_node" where
  "prepare_planner_knowledge deps x state =
    (let env = env_var (pd_settings deps) in
     bind (planner_query (positive_environment_int env ''PLANNER_KNOWLEDGE_TOP_K'' 5 20) state) (\<lambda>request.
     if retrieved_before ''planner'' state request then Inr ([], x)
     else bind (testing_project_id state) (\<lambda>project.
       retrieve_knowledge (pd_settings deps) ''Planner'' ''planner'' project request
         (\<lambda>results top_k. Inr (build_planner_context
            (positive_environment_int env ''PLANNER_KNOWLEDGE_MAX_TOKENS'' 3000 32000) results top_k))
         (pd_graph deps) x state)))"

section \<open>Validation\<close>

definition raw_plan :: "pydict \<Rightarrow> pyval" where
  "raw_plan state = PDict [(''analysis'', get state ''requirement_analysis''),
     (''acceptance_criteria'', getd state ''acceptance_criteria'' (PList [])),
     (''tasks'', getd state ''implementation_tasks'' (PList []))]"

definition error_codes :: "string list \<Rightarrow> string list" where
  "error_codes errors = dedupe (map (takeWhile (\<lambda>c. c \<noteq> CHR '':'')) errors)"

definition no_risk :: pydict where
  "no_risk = [(''planning_risk_score'', PNone), (''planning_risk_level'', PNone), (''planning_risk_reasons'', PList []),
     (''planning_sensitive_tasks'', PList []), (''planning_impact_areas'', PList [])]"

definition risk_updates :: "RiskAnalysis \<Rightarrow> pydict" where
  "risk_updates a = [(''planning_risk_score'', PInt (ar_score a)), (''planning_risk_level'', PStr (ar_level a)),
     (''planning_risk_reasons'', pstrs (ar_reasons a)), (''planning_sensitive_tasks'', PList (map PDict (ar_sensitive a))),
     (''planning_impact_areas'', pstrs (ar_areas a))]"

definition QUALITY_VERSION :: string where
  "QUALITY_VERSION = ''planning-quality-v1''"

definition no_quality :: "pydict \<Rightarrow> pydict" where
  "no_quality state = [(''planning_quality_score'', PNone), (''planning_quality_level'', PNone),
     (''planning_quality_dimensions'', PDict []), (''planning_quality_issues'', PList []),
     (''planning_decision_confidence'', PNone), (''planning_quality_version'', PNone),
     (''planning_quality_gate_decision'', PNone), (''planning_quality_gate_reason'', PNone),
     (''planning_quality_refinement_required'', PBool False),
     (''planning_quality_refinement_attempts'', getd state ''planning_quality_refinement_attempts'' (PInt 0)),
     (''planning_quality_previous_score'', PNone), (''planning_quality_score_delta'', PNone),
     (''planning_quality_refinement_guidance'', PList [])]"

definition score_updates :: "PlanQualityResult \<Rightarrow> pydict" where
  "score_updates q = [(''planning_quality_score'', PInt (pq_score q)), (''planning_quality_level'', PStr (pq_level q)),
     (''planning_quality_dimensions'', PDict (map (\<lambda>(k, v). (k, PInt v)) (pq_dimensions q))),
     (''planning_quality_issues'', pstrs (pq_issues q)),
     (''planning_decision_confidence'', PFloat (pq_confidence q)), (''planning_quality_version'', PStr QUALITY_VERSION)]"

definition score_delta :: "int \<Rightarrow> pyval \<Rightarrow> pyval" where
  "score_delta score previous = (case number previous of Inr p \<Rightarrow> PInt (score - p) | Inl e \<Rightarrow> PNone)"

definition gate_updates :: "pydict \<Rightarrow> PlanQualityResult \<Rightarrow> QualityGateDecision \<Rightarrow> exn + pydict" where
  "gate_updates state q gate =
    bind (number (getd state ''planning_quality_refinement_attempts'' (PInt 0))) (\<lambda>refinements.
    Inr (score_updates q @
      [(''planning_quality_gate_decision'', PStr (qg_decision gate)), (''planning_quality_gate_reason'', PStr (qg_reason gate)),
       (''planning_quality_refinement_required'', PBool (qg_refine gate)),
       (''planning_quality_refinement_attempts'', PInt (refinements + (if qg_decision gate = ''refine'' then 1 else 0))),
       (''planning_quality_previous_score'', get state ''planning_quality_score''),
       (''planning_quality_score_delta'', score_delta (pq_score q) (get state ''planning_quality_score'')),
       (''planning_quality_refinement_guidance'',
         pstrs (if qg_refine gate then refinement_guidance q (qg_reason gate) else []))]))"

definition edge_values :: "(int \<times> int) list \<Rightarrow> pyval" where
  "edge_values edges = PList (map (\<lambda>(a, b). PDict [(''from'', PInt a), (''to'', PInt b)]) edges)"

text \<open>What the checks of a structured plan find: the errors, the order, the edges, risk and quality.\<close>

record Validation =
  v_errors :: "string list"
  v_order :: "int list"
  v_edges :: "(int \<times> int) list"
  v_risk :: pydict
  v_quality :: pydict

definition check_quality :: "PlanningOutput \<Rightarrow> pydict \<Rightarrow> ExecutabilityResult \<Rightarrow> exn + Validation" where
  "check_quality plan state executable =
    (let risk = risk_updates (analyze_plan_risk plan);
         seen = [(''planning_execution_order'', PList (map PInt (er_order executable))),
           (''planning_dependency_edges'', edge_values (er_edges executable))] @ risk @ state in
     bind (score_plan_quality plan seen) (\<lambda>q.
     bind (if gate_codes q = [] then Inr 0 else plan_attempts_of state) (\<lambda>attempts.
     bind (if gate_codes q = [] then Inr 0 else plan_limit_of state) (\<lambda>max_attempts.
     let gate = evaluate_quality_gate q attempts max_attempts in
     bind (gate_updates state q gate) (\<lambda>quality.
     Inr \<lparr>v_errors = (if qg_decision gate \<in> {''refine'', ''fail''} then [qg_reason gate] else []),
       v_order = er_order executable, v_edges = er_edges executable, v_risk = risk, v_quality = quality\<rparr>)))))"

definition check_plan :: "PlanReader \<Rightarrow> pydict \<Rightarrow> exn + PlanningOutput option \<times> Validation" where
  "check_plan reader state =
    (let unchecked = (\<lambda>errors order edges. \<lparr>v_errors = errors, v_order = order, v_edges = edges, v_risk = no_risk, v_quality = no_quality state\<rparr>) in
     bind (validate_planning_contract reader (raw_plan state) state) (\<lambda>(plan, errors).
     case plan of
       None \<Rightarrow> Inr (None, unchecked errors [] [])
     | Some p \<Rightarrow>
         if errors \<noteq> [] then Inr (Some p, unchecked errors [] [])
         else bind (validate_plan_executability p state) (\<lambda>executable.
           if er_errors executable \<noteq> []
           then Inr (Some p, unchecked (er_errors executable) (er_order executable) (er_edges executable))
           else bind (check_quality p state executable) (\<lambda>v. Inr (Some p, v)))))"

definition plan_updates :: "PlanningOutput option \<Rightarrow> pydict" where
  "plan_updates plan = (case plan of None \<Rightarrow> [] | Some p \<Rightarrow>
     [(''requirement_analysis'', dump_analysis (plan_analysis p)),
      (''acceptance_criteria'', PList (map dump_criterion (plan_criteria p))),
      (''implementation_tasks'', PList (map dump_task (plan_tasks p)))])"

definition exhausted_updates :: "string list \<Rightarrow> pydict" where
  "exhausted_updates errors =
    [(''terminal_status'', PStr ''planning_failed''), (''failure_type'', PStr ''planning_validation_failed''),
     (''failure_stage'', PStr ''planning''), (''failure_message'', PStr (join ''; '' errors))]"

definition validate_plan :: "'x planning_node" where
  "validate_plan deps x state =
    bind (check_plan (pd_reader deps) state) (\<lambda>(plan, v).
    let errors = v_errors v;
        updates = [(''planning_valid'', PBool (errors = [])), (''planning_errors'', pstrs errors),
            (''planning_failure_reason'', if errors = [] then PNone else PStr (hd (error_codes errors))),
            (''planning_execution_order'', PList (map PInt (v_order v))), (''planning_dependency_edges'', edge_values (v_edges v))]
          @ v_risk v @ v_quality v @ plan_updates plan in
    if errors = [] then Inr (updates, x)
    else bind (plan_attempts_of state) (\<lambda>attempts. bind (plan_limit_of state) (\<lambda>max_attempts.
      Inr (updates @ (if attempts \<ge> max_attempts then exhausted_updates errors else []), x))))"

section \<open>Refinement\<close>

definition reset_approval :: pydict where
  "reset_approval = [(''planning_approval_required'', PBool False), (''planning_approval_reason'', PNone),
     (''planning_approval_status'', PStr ''not_required''), (''planning_approval_id'', PNone),
     (''planning_policy_decision'', PNone), (''planning_approval_fingerprint'', PNone)]"

definition refined_plan :: "int \<Rightarrow> PlanningOutput \<Rightarrow> pydict" where
  "refined_plan attempts plan =
    plan_updates (Some plan) @ [(''planning_attempts'', PInt attempts), (''planning_failure_reason'', PNone)] @ reset_approval"

definition refine_plan :: "'x planning_node" where
  "refine_plan deps x state =
    bind (plan_attempts_of state) (\<lambda>before_attempts. let attempts = before_attempts + 1 in
    bind (prepare_planner_knowledge deps x state) (\<lambda>(knowledge, x').
    case service_refine (pd_refine deps (knowledge @ state)) of
      Inr plan \<Rightarrow> Inr (knowledge @ refined_plan attempts plan, x')
    | Inl (code, message) \<Rightarrow> Inr (knowledge @
        [(''planning_attempts'', PInt attempts), (''planning_errors'', pstrs [code @ '': '' @ message]),
         (''planning_failure_reason'', PStr code)], x')))"

section \<open>The graph\<close>

definition route_after_plan_validation :: "pydict \<Rightarrow> exn + string" where
  "route_after_plan_validation state =
    (if truthy (get state ''planning_valid'') then Inr ''valid''
     else bind (plan_attempts_of state) (\<lambda>attempts. bind (plan_limit_of state) (\<lambda>max_attempts.
       Inr (if attempts < max_attempts then ''refine'' else ''failed''))))"

datatype planning_place = PEnter | PAnalyze | PKnowledge | PTasks | PValidate | PRefine | PLeave | PDone

fun run_planning_node :: "planning_place \<Rightarrow> 'x planning_node" where
  "run_planning_node PAnalyze deps x state = analyze_requirement deps x state"
| "run_planning_node PKnowledge deps x state = prepare_planner_knowledge deps x state"
| "run_planning_node PTasks deps x state = create_plan_tasks deps x state"
| "run_planning_node PValidate deps x state = validate_plan deps x state"
| "run_planning_node PRefine deps x state = refine_plan deps x state"
| "run_planning_node _ deps x state = Inr ([], x)"

fun planning_next :: "planning_place \<Rightarrow> pydict \<Rightarrow> exn + planning_place" where
  "planning_next PEnter state = Inr PAnalyze"
| "planning_next PAnalyze state = Inr PKnowledge"
| "planning_next PKnowledge state = Inr PTasks"
| "planning_next PTasks state = Inr PValidate"
| "planning_next PValidate state =
     bind (route_after_plan_validation state) (\<lambda>answer. Inr (if answer = ''refine'' then PRefine else PLeave))"
| "planning_next PRefine state = Inr PValidate"
| "planning_next _ state = Inr PDone"

type_synonym 'x planning_config = "planning_place \<times> 'x \<times> pydict"

fun planning_step ::
  "(pydict \<Rightarrow> pydict \<Rightarrow> pydict) \<Rightarrow> 'x PlanningDeps \<Rightarrow> 'x planning_config \<Rightarrow> exn + 'x planning_config" where
  "planning_step merge deps (n, x, state) =
    bind (run_planning_node n deps x state) (\<lambda>(updates, x').
    let state' = merge state updates in
    bind (planning_next n state') (\<lambda>n'. Inr (n', x', state')))"

inductive planning_run ::
  "(pydict \<Rightarrow> pydict \<Rightarrow> pydict) \<Rightarrow> 'x PlanningDeps \<Rightarrow> 'x planning_config \<Rightarrow> nat \<Rightarrow> 'x planning_config \<Rightarrow> bool"
  for merge :: "pydict \<Rightarrow> pydict \<Rightarrow> pydict" and deps :: "'x PlanningDeps" and start :: "'x planning_config" where
  planning_begins: "planning_run merge deps start 0 start"
| planning_steps: "planning_run merge deps start k (n, x, state) \<Longrightarrow> n \<noteq> PDone
    \<Longrightarrow> planning_step merge deps (n, x, state) = Inr c \<Longrightarrow> planning_run merge deps start (Suc k) c"

definition PLANNING_STATE_FIELDS :: "string list" where
  "PLANNING_STATE_FIELDS =
    [''original_user_message'', ''project_name'', ''created_project_name'', ''detected_test_framework'', ''workflow_intent'',
     ''requirement_analysis'', ''acceptance_criteria'', ''implementation_tasks'', ''planning_valid'', ''planning_errors'',
     ''planning_attempts'', ''max_planning_attempts'', ''planning_failure_reason'', ''planning_execution_order'',
     ''planning_dependency_edges'', ''planning_risk_score'', ''planning_risk_level'', ''planning_risk_reasons'',
     ''planning_sensitive_tasks'', ''planning_impact_areas'', ''planning_approval_required'', ''planning_approval_reason'',
     ''planning_approval_status'', ''planning_approval_id'', ''planning_policy_decision'', ''planning_approval_fingerprint'',
     ''planning_quality_score'', ''planning_quality_level'', ''planning_quality_dimensions'', ''planning_quality_issues'',
     ''planning_decision_confidence'', ''planning_quality_version'', ''planning_quality_gate_decision'',
     ''planning_quality_gate_reason'', ''planning_quality_refinement_required'', ''planning_quality_refinement_attempts'',
     ''planning_quality_previous_score'', ''planning_quality_score_delta'', ''planning_quality_refinement_guidance'',
     ''planner_knowledge_query'', ''planner_knowledge_retrieval_id'', ''planner_knowledge_context'',
     ''planner_knowledge_sources'', ''planner_knowledge_state'', ''planner_knowledge_retrieval_used'',
     ''planner_retrieved_context_count'', ''planner_knowledge_context_tokens'', ''terminal_status'', ''failure_type'',
     ''failure_stage'', ''failure_message'']"

text \<open>What LangGraph documents of a field without a reducer: the node's last value overwrites it.\<close>

definition planning_overwrites :: "(pydict \<Rightarrow> pydict \<Rightarrow> pydict) \<Rightarrow> bool" where
  "planning_overwrites merge \<longleftrightarrow> (\<forall>state updates k v. k \<in> set PLANNING_STATE_FIELDS \<longrightarrow>
    getd (merge state updates) k v = getd updates k (getd state k v))"

end
