(* ===== verification/PlanApproval.thy ===== *)
theory PlanApproval
  imports PlanningGraph PlanRisk
begin

text \<open>
  The approval of a risky plan in the parent graph (the planning nodes of graph/builder.py and the
  fingerprint of graph/planning_approval_policy.py): the policy node, the accepting and the rejecting
  node, and the way from the end of planning to the judge, the supervisor or the end. SHA-256 of a
  text (\<open>digest\<close>), LangGraph's merge, pydantic's checks of a plan and the person are parameters;
  events are left out.
\<close>

section \<open>The fingerprint of a plan\<close>

definition sorted_texts :: "pyval list \<Rightarrow> exn + string list" where
  "sorted_texts xs = bind (mapm py_str xs) (\<lambda>ts. Inr (sort ts))"

text \<open>The payload whose JSON is digested.\<close>

definition approval_payload :: "pydict \<Rightarrow> exn + pydict" where
  "approval_payload state =
    bind (dict_or_empty (get state ''planning_result'')) (\<lambda>planning.
    bind (as_list (getd state ''planning_impact_areas'' (PList []))) (\<lambda>areas.
    bind (sorted_texts areas) (\<lambda>sorted_areas.
    Inr [(''project_name'', por (get state ''project_name'') (get state ''created_project_name'')),
      (''risk_score'', get state ''planning_risk_score''), (''risk_level'', get state ''planning_risk_level''),
      (''impact_areas'', pstrs sorted_areas), (''sensitive_tasks'', getd state ''planning_sensitive_tasks'' (PList [])),
      (''analysis'', por (get planning ''analysis'') (get state ''requirement_analysis'')),
      (''acceptance_criteria'', por (get planning ''acceptance_criteria'') (getd state ''acceptance_criteria'' (PList []))),
      (''tasks'', por (get planning ''tasks'') (getd state ''implementation_tasks'' (PList [])))])))"

text \<open>\<open>json.dumps(v, ensure_ascii=False, sort_keys=True, separators=(",", ":"))\<close>.\<close>

fun compact_json :: "pyval \<Rightarrow> string" where
  "compact_json (PList xs) = ''['' @ join '','' (map compact_json xs) @ '']''"
| "compact_json (PDict d) =
     ''{'' @ join '','' (map (\<lambda>(k, t). json_string k @ '':'' @ t)
       (sort_key fst (map (\<lambda>(k, v). (k, compact_json v)) d))) @ ''}''"
| "compact_json v = json_text v"

definition planning_approval_fingerprint :: "(string \<Rightarrow> string) \<Rightarrow> pydict \<Rightarrow> exn + string" where
  "planning_approval_fingerprint digest state =
    bind (approval_payload state) (\<lambda>payload. Inr (digest (compact_json (PDict payload))))"

section \<open>What a node adds to its updates\<close>

definition approval_entries :: "pydict \<Rightarrow> pydict \<Rightarrow> pydict" where
  "approval_entries state updates =
    [(''required'', getd updates ''planning_approval_required'' (getd state ''planning_approval_required'' (PBool False))),
     (''status'', getd updates ''planning_approval_status'' (get state ''planning_approval_status'')),
     (''approval_id'', getd updates ''planning_approval_id'' (get state ''planning_approval_id'')),
     (''fingerprint'', getd updates ''planning_approval_fingerprint'' (get state ''planning_approval_fingerprint'')),
     (''reason'', getd updates ''planning_approval_reason'' (get state ''planning_approval_reason'')),
     (''policy_decision'', getd updates ''planning_policy_decision'' (get state ''planning_policy_decision''))]"

definition quality_entries :: "pydict \<Rightarrow> pydict \<Rightarrow> pydict" where
  "quality_entries state updates =
    [(''score'', getd updates ''planning_quality_score'' (get state ''planning_quality_score'')),
     (''level'', getd updates ''planning_quality_level'' (get state ''planning_quality_level'')),
     (''dimensions'', getd updates ''planning_quality_dimensions'' (getd state ''planning_quality_dimensions'' (PDict []))),
     (''issues'', getd updates ''planning_quality_issues'' (getd state ''planning_quality_issues'' (PList []))),
     (''decision_confidence'', getd updates ''planning_decision_confidence'' (get state ''planning_decision_confidence'')),
     (''version'', getd updates ''planning_quality_version'' (get state ''planning_quality_version''))]"

definition planning_result_with_approval :: "pydict \<Rightarrow> pydict \<Rightarrow> exn + pydict" where
  "planning_result_with_approval state updates =
    bind (dict_or_empty (get state ''planning_result'')) (\<lambda>planning.
    bind (dict_or_empty (get planning ''approval'')) (\<lambda>approval.
    let planning1 = AList.update ''approval'' (PDict (dmerge approval (approval_entries state updates))) planning in
    bind (dict_or_empty (get planning1 ''quality'')) (\<lambda>quality.
    Inr (if has_key updates ''planning_quality_score'' \<or> has_key updates ''planning_decision_confidence''
         then AList.update ''quality'' (PDict (dmerge quality (quality_entries state updates))) planning1
         else planning1))))"

definition planning_quality_updates :: "PlanReader \<Rightarrow> pydict \<Rightarrow> pydict \<Rightarrow> exn + pydict" where
  "planning_quality_updates reader state updates =
    bind (dict_or_empty (get state ''planning_result'')) (\<lambda>planning.
    let raw_plan = PDict [(''analysis'', por (get planning ''analysis'') (get state ''requirement_analysis'')),
      (''acceptance_criteria'', por (get planning ''acceptance_criteria'') (getd state ''acceptance_criteria'' (PList []))),
      (''tasks'', por (get planning ''tasks'') (getd state ''implementation_tasks'' (PList [])))] in
    case validate_plan_model reader raw_plan of
      Inl e \<Rightarrow> Inr []
    | Inr plan \<Rightarrow> bind (score_plan_quality plan (dmerge state updates)) (\<lambda>q. Inr (score_updates q)))"

definition with_planning_result :: "PlanReader \<Rightarrow> pydict \<Rightarrow> pydict \<Rightarrow> exn + pydict" where
  "with_planning_result reader state updates =
    bind (planning_quality_updates reader state updates) (\<lambda>quality.
    let updates' = dmerge updates quality in
    bind (planning_result_with_approval state updates') (\<lambda>planning.
    Inr (updates' @ [(''planning_result'', PDict planning)])))"

section \<open>The nodes\<close>

definition approval_id_of :: "string \<Rightarrow> string" where
  "approval_id_of fingerprint = ''planning-risk-'' @ take 16 fingerprint"

definition risk_preview :: "pydict \<Rightarrow> string \<Rightarrow> exn + pydict" where
  "risk_preview state fingerprint =
    bind (as_list (getd state ''implementation_tasks'' (PList []))) (\<lambda>tasks.
    Inr [(''project_name'', por (get state ''project_name'') (get state ''created_project_name'')),
      (''risk_level'', get state ''planning_risk_level''), (''risk_score'', get state ''planning_risk_score''),
      (''risk_reasons'', getd state ''planning_risk_reasons'' (PList [])),
      (''impact_areas'', getd state ''planning_impact_areas'' (PList [])),
      (''sensitive_tasks'', getd state ''planning_sensitive_tasks'' (PList [])),
      (''task_count'', PInt (int (length tasks))), (''approval_id'', PStr (approval_id_of fingerprint)),
      (''fingerprint'', PStr fingerprint)])"

definition no_approval_needed :: "pydict \<Rightarrow> string \<Rightarrow> string \<Rightarrow> pydict" where
  "no_approval_needed state reason fingerprint =
    [(''planning_approval_required'', PBool False), (''planning_approval_reason'', PStr reason),
     (''planning_approval_status'', PStr ''not_required''), (''planning_approval_id'', PNone),
     (''planning_policy_decision'', PStr ''allow''), (''planning_approval_fingerprint'', PStr fingerprint),
     (''terminal_status'', if get state ''terminal_status'' = PStr ''pending'' then PNone else get state ''terminal_status'')]"

definition approved_before :: "pydict \<Rightarrow> string \<Rightarrow> string \<Rightarrow> pydict" where
  "approved_before state reason fingerprint =
    [(''planning_approval_required'', PBool True), (''planning_approval_reason'', PStr reason),
     (''planning_approval_status'', PStr ''approved''),
     (''planning_approval_id'', por (get state ''planning_approval_id'') (PStr (approval_id_of fingerprint))),
     (''planning_policy_decision'', PStr ''require_approval''), (''planning_approval_fingerprint'', PStr fingerprint),
     (''terminal_status'', PNone)]"

definition approval_needed :: "string \<Rightarrow> string \<Rightarrow> pydict \<Rightarrow> pydict" where
  "approval_needed reason fingerprint preview =
    [(''planning_approval_required'', PBool True), (''planning_approval_reason'', PStr reason),
     (''planning_approval_status'', PStr ''awaiting_approval''), (''planning_approval_id'', PStr (approval_id_of fingerprint)),
     (''planning_policy_decision'', PStr ''require_approval''), (''planning_approval_fingerprint'', PStr fingerprint)]
    @ pending_approval ''planning_risk_approval'' ''planning__approve_risk''
        [(''approval_id'', PStr (approval_id_of fingerprint)), (''fingerprint'', PStr fingerprint)] preview
    @ [(''terminal_status'', PStr ''pending'')]"

definition risk_decision :: "pydict \<Rightarrow> exn + ApprovalDecision" where
  "risk_decision state =
    bind (as_list (getd state ''planning_impact_areas'' (PList []))) (\<lambda>areas.
    bind (as_list (getd state ''planning_sensitive_tasks'' (PList []))) (\<lambda>sensitive.
    evaluate_planning_approval_policy (get state ''planning_risk_level'') areas sensitive))"

definition planning_risk_policy_node :: "(string \<Rightarrow> string) \<Rightarrow> PlanReader \<Rightarrow> pydict \<Rightarrow> exn + pydict" where
  "planning_risk_policy_node digest reader state =
    (if \<not> truthy (get state ''planning_valid'') then Inr []
     else bind (planning_approval_fingerprint digest state) (\<lambda>fingerprint.
       bind (risk_decision state) (\<lambda>decision.
       if \<not> ad_required decision then with_planning_result reader state (no_approval_needed state (ad_reason decision) fingerprint)
       else if get state ''planning_approval_status'' = PStr ''approved''
         \<and> get state ''planning_approval_fingerprint'' = PStr fingerprint
       then with_planning_result reader state (approved_before state (ad_reason decision) fingerprint)
       else bind (risk_preview state fingerprint) (\<lambda>preview.
         with_planning_result reader state (approval_needed (ad_reason decision) fingerprint preview)))))"

definition stale_approval :: pydict where
  "stale_approval =
    [(''planning_approval_status'', PStr ''awaiting_approval''), (''failure_type'', PStr ''planning_approval_stale''),
     (''failure_stage'', PStr ''planning_risk_approval''),
     (''failure_message'', PStr ''Planning risk approval is stale for the current plan.''),
     (''pending_approval_status'', PStr ''waiting'')]"

definition accepted_risk :: pydict where
  "accepted_risk =
    [(''planning_approval_status'', PStr ''approved''), (''planning_approval_required'', PBool True),
     (''planning_policy_decision'', PStr ''require_approval'')] @ cleared_approval @ [(''terminal_status'', PNone)]"

definition accept_planning_risk_node :: "(string \<Rightarrow> string) \<Rightarrow> PlanReader \<Rightarrow> pydict \<Rightarrow> exn + pydict" where
  "accept_planning_risk_node digest reader state =
    bind (dict_or_empty (get state ''pending_tool_arguments'')) (\<lambda>arguments.
    bind (planning_approval_fingerprint digest state) (\<lambda>current.
    if get arguments ''fingerprint'' \<noteq> PStr current
    then bind (planning_result_with_approval state stale_approval) (\<lambda>planning.
      Inr (stale_approval @ [(''planning_result'', PDict planning)]))
    else with_planning_result reader state accepted_risk))"

definition reject_planning_risk_node :: "PlanReader \<Rightarrow> pydict \<Rightarrow> exn + pydict" where
  "reject_planning_risk_node reader state =
    with_planning_result reader state
      [(''planning_approval_status'', PStr ''rejected''), (''planning_approval_required'', PBool True),
       (''planning_policy_decision'', PStr ''require_approval''), (''failure_type'', PStr ''user_rejected''),
       (''failure_stage'', PStr ''planning_risk_approval''),
       (''failure_message'', por (get state ''approval_reason'') (PStr ''El usuario rechazo el riesgo del plan.'')),
       (''terminal_status'', PStr ''user_cancelled''), (''user_cancelled'', PBool True)]"

section \<open>From the plan to the judge\<close>

text \<open>The edges from planning_risk_policy up to the first node behind the approval.\<close>

definition waits_for_risk_approval :: "pydict \<Rightarrow> bool" where
  "waits_for_risk_approval state \<longleftrightarrow>
    get state ''pending_operation'' = PStr ''planning_risk_approval'' \<and> get state ''pending_approval_status'' = PStr ''waiting''"

definition risk_gate ::
  "(pydict \<Rightarrow> pydict \<Rightarrow> pydict) \<Rightarrow> (string \<Rightarrow> string) \<Rightarrow> PlanReader \<Rightarrow> 'x GraphDependencies \<Rightarrow> 'x \<Rightarrow> pydict \<Rightarrow> exn + string \<times> pydict" where
  "risk_gate merge digest reader deps x state =
    bind (planning_risk_policy_node digest reader state) (\<lambda>updates.
    let state1 = merge state updates in
    if \<not> waits_for_risk_approval state1
    then Inr (if truthy (get state1 ''planning_valid'') then ''planning_judge'' else ''supervisor'', state1)
    else bind (approval_node deps x state1) (\<lambda>(answer, x').
      let state2 = merge state1 answer in
      if get state2 ''pending_approval_status'' = PStr ''approved''
      then bind (accept_planning_risk_node digest reader state2) (\<lambda>u. Inr (''planning_judge'', merge state2 u))
      else bind (reject_planning_risk_node reader state2) (\<lambda>u. Inr (''finalize'', merge state2 u))))"

end
