(* ===== verification/PlanApprovalProps.thy ===== *)
theory PlanApprovalProps
  imports PlanApproval TestingRepair
begin

text \<open>
  The way from a risky plan to its implementation leads past a person: what the judge is reached with was
  not in need of an approval, or is approved with the fingerprint of the very plan.
\<close>

section \<open>Fields\<close>

definition PAYLOAD_FIELDS :: "string list" where
  "PAYLOAD_FIELDS = [''project_name'', ''created_project_name'', ''planning_risk_score'', ''planning_risk_level'',
    ''planning_impact_areas'', ''planning_sensitive_tasks'', ''requirement_analysis'', ''acceptance_criteria'', ''implementation_tasks'']"

definition RISK_FIELDS :: "string list" where
  "RISK_FIELDS = PAYLOAD_FIELDS @ [''planning_result'', ''planning_approval_status'', ''planning_approval_fingerprint'', ''planning_valid'',
    ''pending_operation'', ''pending_tool_arguments'', ''pending_approval_status'']"

text \<open>What LangGraph documents of a field without a reducer: the node's value overwrites it.\<close>

definition risk_overwrites :: "(pydict \<Rightarrow> pydict \<Rightarrow> pydict) \<Rightarrow> bool" where
  "risk_overwrites merge \<longleftrightarrow> (\<forall>state updates k v. k \<in> set RISK_FIELDS \<longrightarrow>
    getd (merge state updates) k v = getd updates k (getd state k v))"

lemma get_as_getd: "get d k = getd d k PNone"
  by (simp add: getd_def get_def)

lemma get_append: "get (a @ b) k = (if has_key a k then get a k else get b k)"
  by (auto simp: get_def has_key_def map_add_def split: option.splits)

lemma merge_other:
  assumes "risk_overwrites merge" and "k \<in> set RISK_FIELDS" and "\<not> has_key u k"
  shows "getd (merge s u) k v = getd s k v" and "get (merge s u) k = get s k"
proof -
  have "getd (merge s u) k w = getd s k w" for w
    using assms by (simp add: risk_overwrites_def getd_no_key)
  then show "getd (merge s u) k v = getd s k v" and "get (merge s u) k = get s k"
    unfolding get_as_getd by blast+
qed

lemma merge_given:
  assumes "risk_overwrites merge" and "k \<in> set RISK_FIELDS" and "has_key u k"
  shows "get (merge s u) k = get u k"
proof -
  have "getd (merge s u) k PNone = getd u k (getd s k PNone)" using assms(1,2) by (simp add: risk_overwrites_def)
  then show ?thesis unfolding getd_has_key[OF assms(3)] get_as_getd[symmetric] .
qed

section \<open>The payload is kept\<close>

definition leaves_payload :: "pydict \<Rightarrow> bool" where
  "leaves_payload u \<longleftrightarrow> (\<forall>k \<in> set PAYLOAD_FIELDS. \<not> has_key u k)"

lemma dict_or_empty_PDict [simp]: "dict_or_empty (PDict d) = Inr d"
  by (cases d) (simp_all add: dict_or_empty_def por_def)

lemma payload_kept:
  assumes merge: "risk_overwrites merge" and u: "leaves_payload u"
    and pr: "dict_or_empty (get s ''planning_result'') = Inr p" "dict_or_empty (get (merge s u) ''planning_result'') = Inr p'"
    and same: "get p' ''analysis'' = get p ''analysis''" "get p' ''acceptance_criteria'' = get p ''acceptance_criteria''"
      "get p' ''tasks'' = get p ''tasks''"
  shows "approval_payload (merge s u) = approval_payload s"
proof -
  have "getd (merge s u) k v = getd s k v \<and> get (merge s u) k = get s k" if "k \<in> set PAYLOAD_FIELDS" for k v
    using merge_other[OF merge, of k u] u that by (simp add: leaves_payload_def RISK_FIELDS_def)
  then show ?thesis by (simp add: approval_payload_def pr same PAYLOAD_FIELDS_def)
qed

lemma result_keeps_plan:
  assumes "planning_result_with_approval s b = Inr p'"
  shows "\<exists>p. dict_or_empty (get s ''planning_result'') = Inr p \<and> get p' ''analysis'' = get p ''analysis''
    \<and> get p' ''acceptance_criteria'' = get p ''acceptance_criteria'' \<and> get p' ''tasks'' = get p ''tasks''"
  using assms by (auto simp: planning_result_with_approval_def bind_eq_Inr_iff Let_def)

lemma payload_kept_by_result:
  assumes merge: "risk_overwrites merge" and b: "leaves_payload b" "\<not> has_key b ''planning_result''"
    and p': "planning_result_with_approval s b' = Inr p'"
  shows "approval_payload (merge s (b @ [(''planning_result'', PDict p')])) = approval_payload s"
proof -
  let ?u = "b @ [(''planning_result'', PDict p')]"
  obtain p where p: "dict_or_empty (get s ''planning_result'') = Inr p" "get p' ''analysis'' = get p ''analysis''"
      "get p' ''acceptance_criteria'' = get p ''acceptance_criteria''" "get p' ''tasks'' = get p ''tasks''"
    using result_keeps_plan[OF p'] by blast
  have "get (merge s ?u) ''planning_result'' = PDict p'"
    using b(2) by (subst merge_given[OF merge]) (simp_all add: RISK_FIELDS_def has_key_append get_append)
  then have "dict_or_empty (get (merge s ?u) ''planning_result'') = Inr p'" by simp
  moreover have "leaves_payload ?u" using b(1) by (auto simp: leaves_payload_def has_key_append PAYLOAD_FIELDS_def)
  ultimately show ?thesis using payload_kept[OF merge _ p(1)] p by blast
qed

lemma score_keys: "has_key (score_updates q) k \<Longrightarrow> k \<in> {''planning_quality_score'', ''planning_quality_level'',
    ''planning_quality_dimensions'', ''planning_quality_issues'', ''planning_decision_confidence'', ''planning_quality_version''}"
  by (auto simp: score_updates_def)

lemma quality_updates_form:
  assumes "planning_quality_updates reader s b = Inr q"
  shows "q = [] \<or> (\<exists>r. q = score_updates r)"
proof -
  obtain p where "dict_or_empty (get s ''planning_result'') = Inr p"
    using assms by (auto simp: planning_quality_updates_def bind_eq_Inr_iff)
  then show ?thesis using assms unfolding planning_quality_updates_def Let_def
    by (cases "validate_plan_model reader (PDict [(''analysis'', por (get p ''analysis'') (get s ''requirement_analysis'')),
      (''acceptance_criteria'', por (get p ''acceptance_criteria'') (getd s ''acceptance_criteria'' (PList []))),
      (''tasks'', por (get p ''tasks'') (getd s ''implementation_tasks'' (PList [])))])") (auto simp: bind_eq_Inr_iff)
qed

lemma with_planning_resultD:
  assumes "with_planning_result reader s b = Inr u"
  shows "\<exists>q p'. u = dmerge b q @ [(''planning_result'', PDict p')] \<and> planning_result_with_approval s (dmerge b q) = Inr p'
    \<and> (\<forall>k \<in> set RISK_FIELDS. \<not> has_key q k)"
proof -
  obtain q p' where q: "planning_quality_updates reader s b = Inr q" "planning_result_with_approval s (dmerge b q) = Inr p'"
      "u = dmerge b q @ [(''planning_result'', PDict p')]"
    using assms by (auto simp: with_planning_result_def bind_eq_Inr_iff Let_def)
  have "q = [] \<or> (\<exists>r. q = score_updates r)"
    using quality_updates_form[OF q(1)] .
  then have "\<forall>k \<in> set RISK_FIELDS. \<not> has_key q k"
    by (auto dest!: score_keys simp: RISK_FIELDS_def PAYLOAD_FIELDS_def)
  then show ?thesis using q by blast
qed

text \<open>What a node leaves in the state: the fields it names, and the payload.\<close>

lemma with_planning_result_merged:
  assumes "with_planning_result reader s b = Inr u" and merge: "risk_overwrites merge"
    and b: "leaves_payload b" "\<not> has_key b ''planning_result''"
  shows "approval_payload (merge s u) = approval_payload s"
    and "k \<in> set RISK_FIELDS \<Longrightarrow> k \<noteq> ''planning_result'' \<Longrightarrow> get (merge s u) k = (if has_key b k then get b k else get s k)"
proof -
  obtain q p' where u: "u = dmerge b q @ [(''planning_result'', PDict p')]" "planning_result_with_approval s (dmerge b q) = Inr p'"
      "\<forall>k \<in> set RISK_FIELDS. \<not> has_key q k"
    using with_planning_resultD[OF assms(1)] by blast
  have "leaves_payload (dmerge b q)" "\<not> has_key (dmerge b q) ''planning_result''"
    using b u(3) by (auto simp: leaves_payload_def RISK_FIELDS_def)
  then show "approval_payload (merge s u) = approval_payload s"
    unfolding u(1) using payload_kept_by_result[OF merge _ _ u(2)] by blast
  show "get (merge s u) k = (if has_key b k then get b k else get s k)" if k: "k \<in> set RISK_FIELDS" "k \<noteq> ''planning_result''"
  proof (cases "has_key b k")
    case True
    then have "get (merge s u) k = get u k" using k u(1) by (subst merge_given[OF merge]) (auto simp: has_key_append)
    then show ?thesis using True u k by (simp add: get_append get_dmerge_other)
  next
    case False
    then have "\<not> has_key u k" using u k by (simp add: has_key_append)
    then show ?thesis using merge_other(2)[OF merge k(1)] False by simp
  qed
qed

section \<open>The policy node\<close>

lemma fingerprint_of_payload:
  "approval_payload s' = approval_payload s \<Longrightarrow> planning_approval_fingerprint digest s' = planning_approval_fingerprint digest s"
  by (simp add: planning_approval_fingerprint_def)

lemma policy_nodeD:
  assumes "planning_risk_policy_node digest reader s = Inr u" and "truthy (get s ''planning_valid'')"
  shows "\<exists>fp dec b. planning_approval_fingerprint digest s = Inr fp \<and> risk_decision s = Inr dec \<and> with_planning_result reader s b = Inr u
    \<and> (\<not> ad_required dec \<and> b = no_approval_needed s (ad_reason dec) fp
      \<or> get s ''planning_approval_status'' = PStr ''approved'' \<and> get s ''planning_approval_fingerprint'' = PStr fp
          \<and> b = approved_before s (ad_reason dec) fp
      \<or> (\<exists>preview. b = approval_needed (ad_reason dec) fp preview))"
  using assms unfolding planning_risk_policy_node_def
  by (auto simp: bind_eq_Inr_iff split: if_splits)

lemmas node_updates = no_approval_needed_def approved_before_def approval_needed_def pending_approval_def

lemma node_updates_leave:
  assumes "b \<in> {no_approval_needed s r fp, approved_before s r fp, approval_needed r fp preview}"
  shows "leaves_payload b" and "\<not> has_key b ''planning_result''"
  using assms by (auto simp: node_updates leaves_payload_def PAYLOAD_FIELDS_def)

lemma RISK_FIELDS_mem:
  "k \<in> {''planning_approval_status'', ''planning_approval_fingerprint'', ''planning_valid'', ''pending_operation'',
     ''pending_tool_arguments'', ''pending_approval_status''} \<Longrightarrow> k \<in> set RISK_FIELDS \<and> k \<noteq> ''planning_result''"
  by (auto simp: RISK_FIELDS_def)

text \<open>The three ways out of the policy node, in the state behind it.\<close>

lemma after_policy:
  assumes node: "planning_risk_policy_node digest reader s = Inr u" and valid: "truthy (get s ''planning_valid'')"
    and merge: "risk_overwrites merge"
  shows "\<exists>fp dec. planning_approval_fingerprint digest s = Inr fp \<and> planning_approval_fingerprint digest (merge s u) = Inr fp
    \<and> risk_decision s = Inr dec \<and> get (merge s u) ''planning_approval_fingerprint'' = PStr fp
    \<and> (\<not> ad_required dec \<and> get (merge s u) ''planning_approval_status'' = PStr ''not_required''
          \<and> (waits_for_risk_approval (merge s u) \<longrightarrow> waits_for_risk_approval s)
      \<or> get s ''planning_approval_status'' = PStr ''approved'' \<and> get s ''planning_approval_fingerprint'' = PStr fp
          \<and> get (merge s u) ''planning_approval_status'' = PStr ''approved''
          \<and> (waits_for_risk_approval (merge s u) \<longrightarrow> waits_for_risk_approval s)
      \<or> waits_for_risk_approval (merge s u)
          \<and> get (merge s u) ''pending_tool_arguments'' = PDict [(''approval_id'', PStr (approval_id_of fp)), (''fingerprint'', PStr fp)])"
proof -
  obtain fp dec b where fp: "planning_approval_fingerprint digest s = Inr fp" and dec: "risk_decision s = Inr dec"
    and u: "with_planning_result reader s b = Inr u"
    and b: "\<not> ad_required dec \<and> b = no_approval_needed s (ad_reason dec) fp
      \<or> get s ''planning_approval_status'' = PStr ''approved'' \<and> get s ''planning_approval_fingerprint'' = PStr fp
          \<and> b = approved_before s (ad_reason dec) fp
      \<or> (\<exists>preview. b = approval_needed (ad_reason dec) fp preview)"
    using policy_nodeD[OF node valid] by blast
  have leave: "leaves_payload b" "\<not> has_key b ''planning_result''"
    using b node_updates_leave by blast+
  note kept = with_planning_result_merged[OF u merge leave]
  have field: "get (merge s u) k = (if has_key b k then get b k else get s k)"
    if "k \<in> {''planning_approval_status'', ''planning_approval_fingerprint'', ''planning_valid'', ''pending_operation'',
     ''pending_tool_arguments'', ''pending_approval_status''}" for k
    using RISK_FIELDS_mem[OF that] kept(2) by blast
  have "planning_approval_fingerprint digest (merge s u) = Inr fp"
    using fingerprint_of_payload[OF kept(1)] fp by simp
  moreover have "get (merge s u) ''planning_approval_fingerprint'' = PStr fp"
    using b by (elim disjE exE conjE; simp add: field node_updates)
  moreover have "get (merge s u) ''planning_approval_status'' = PStr ''not_required'' \<and> (waits_for_risk_approval (merge s u) \<longrightarrow> waits_for_risk_approval s)"
    if "b = no_approval_needed s (ad_reason dec) fp"
    by (simp add: field that no_approval_needed_def waits_for_risk_approval_def)
  moreover have "get (merge s u) ''planning_approval_status'' = PStr ''approved'' \<and> (waits_for_risk_approval (merge s u) \<longrightarrow> waits_for_risk_approval s)"
    if "b = approved_before s (ad_reason dec) fp"
    by (simp add: field that approved_before_def waits_for_risk_approval_def)
  moreover have "waits_for_risk_approval (merge s u)
      \<and> get (merge s u) ''pending_tool_arguments'' = PDict [(''approval_id'', PStr (approval_id_of fp)), (''fingerprint'', PStr fp)]"
    if "\<exists>preview. b = approval_needed (ad_reason dec) fp preview"
    using that by (elim exE; simp add: field approval_needed_def pending_approval_def waits_for_risk_approval_def)
  ultimately show ?thesis using fp dec b by blast
qed

section \<open>The person's answer\<close>

definition approved_by_person :: "'x GraphDependencies \<Rightarrow> string \<Rightarrow> bool" where
  "approved_by_person deps fp \<longleftrightarrow> (\<exists>request arguments. approved_flag (interrupt deps request) = Some True
    \<and> dict_or_empty (get request ''arguments'') = Inr arguments \<and> get arguments ''fingerprint'' = PStr fp)"

lemma approval_nodeD:
  assumes "approval_node deps x s = Inr (u, x')"
  shows "\<exists>request. u = approval_updates s (interrupt deps request) \<and> get request ''arguments'' = get s ''pending_tool_arguments''"
  using assms by (auto simp: approval_node_def bind_eq_Inr_iff Let_def approval_request_def get_append split: if_splits)

lemma yes_updates:
  assumes "get (merge s (approval_updates s decision)) ''pending_approval_status'' = PStr ''approved''" and merge: "risk_overwrites merge"
  shows "approved_flag decision = Some True"
    and "\<forall>k \<in> set RISK_FIELDS. k = ''pending_approval_status'' \<or> \<not> has_key (approval_updates s decision) k"
proof -
  have field: "get (merge s (approval_updates s decision)) ''pending_approval_status'' = get (approval_updates s decision) ''pending_approval_status''"
    by (rule merge_given[OF merge]) (auto simp: RISK_FIELDS_def approval_updates_def Let_def split: option.splits bool.splits)
  then have "get (approval_updates s decision) ''pending_approval_status'' = PStr ''approved''" using assms(1) by simp
  then show flag: "approved_flag decision = Some True"
    by (auto simp: approval_updates_def Let_def split: option.splits bool.splits)
  show "\<forall>k \<in> set RISK_FIELDS. k = ''pending_approval_status'' \<or> \<not> has_key (approval_updates s decision) k"
    by (auto simp: approval_updates_def flag Let_def RISK_FIELDS_def PAYLOAD_FIELDS_def)
qed

lemma payload_kept_without_plan:
  assumes merge: "risk_overwrites merge" and u: "\<forall>k \<in> set RISK_FIELDS. k = ''pending_approval_status'' \<or> \<not> has_key u k"
  shows "approval_payload (merge s u) = approval_payload s"
proof -
  have "getd (merge s u) k v = getd s k v \<and> get (merge s u) k = get s k" if "k \<in> set PAYLOAD_FIELDS \<or> k = ''planning_result''" for k v
  proof -
    have "k \<in> set RISK_FIELDS" "k \<noteq> ''pending_approval_status''" using that by (auto simp: RISK_FIELDS_def PAYLOAD_FIELDS_def)
    then show ?thesis using merge_other[OF merge] u by blast
  qed
  then show ?thesis by (simp add: approval_payload_def PAYLOAD_FIELDS_def)
qed

section \<open>The accepting node\<close>

lemma accept_nodeD:
  assumes "accept_planning_risk_node digest reader s = Inr u" and "planning_approval_fingerprint digest s = Inr fp"
  shows "(\<exists>arguments. dict_or_empty (get s ''pending_tool_arguments'') = Inr arguments \<and> get arguments ''fingerprint'' = PStr fp)
      \<and> with_planning_result reader s accepted_risk = Inr u
    \<or> (\<exists>arguments. dict_or_empty (get s ''pending_tool_arguments'') = Inr arguments \<and> get arguments ''fingerprint'' \<noteq> PStr fp)
      \<and> (\<exists>p. planning_result_with_approval s stale_approval = Inr p \<and> u = stale_approval @ [(''planning_result'', PDict p)])"
  using assms unfolding accept_planning_risk_node_def by (auto simp: bind_eq_Inr_iff split: if_splits)

lemma accepted_leave: "leaves_payload accepted_risk" "\<not> has_key accepted_risk ''planning_result''"
  "leaves_payload stale_approval" "\<not> has_key stale_approval ''planning_result''"
  by (simp_all add: leaves_payload_def PAYLOAD_FIELDS_def accepted_risk_def cleared_approval_def stale_approval_def)

lemma after_accept:
  assumes node: "accept_planning_risk_node digest reader s = Inr u" and fp: "planning_approval_fingerprint digest s = Inr fp"
    and merge: "risk_overwrites merge"
  shows "planning_approval_fingerprint digest (merge s u) = Inr fp
    \<and> ((\<exists>arguments. dict_or_empty (get s ''pending_tool_arguments'') = Inr arguments \<and> get arguments ''fingerprint'' = PStr fp)
        \<and> get (merge s u) ''planning_approval_status'' = PStr ''approved''
        \<and> get (merge s u) ''planning_approval_fingerprint'' = get s ''planning_approval_fingerprint''
      \<or> (\<forall>arguments. dict_or_empty (get s ''pending_tool_arguments'') = Inr arguments \<longrightarrow> get arguments ''fingerprint'' \<noteq> PStr fp)
        \<and> get (merge s u) ''pending_approval_status'' = PStr ''waiting'')"
proof -
  from accept_nodeD[OF node fp] show ?thesis
  proof (elim disjE conjE exE)
    fix arguments
    assume current: "dict_or_empty (get s ''pending_tool_arguments'') = Inr arguments" "get arguments ''fingerprint'' = PStr fp"
      and u: "with_planning_result reader s accepted_risk = Inr u"
    note kept = with_planning_result_merged[OF u merge accepted_leave(1,2)]
    have field: "get (merge s u) k = (if has_key accepted_risk k then get accepted_risk k else get s k)"
      if "k \<in> {''planning_approval_status'', ''planning_approval_fingerprint'', ''planning_valid'', ''pending_operation'',
       ''pending_tool_arguments'', ''pending_approval_status''}" for k
      using RISK_FIELDS_mem[OF that] kept(2) by blast
    have "get (merge s u) ''planning_approval_status'' = PStr ''approved''"
      "get (merge s u) ''planning_approval_fingerprint'' = get s ''planning_approval_fingerprint''"
      by (simp_all add: field accepted_risk_def cleared_approval_def)
    then show ?thesis using current fp fingerprint_of_payload[OF kept(1)] by metis
  next
    fix arguments p
    assume stale: "dict_or_empty (get s ''pending_tool_arguments'') = Inr arguments" "get arguments ''fingerprint'' \<noteq> PStr fp"
      and p: "planning_result_with_approval s stale_approval = Inr p" "u = stale_approval @ [(''planning_result'', PDict p)]"
    have "get (merge s u) ''pending_approval_status'' = PStr ''waiting''"
      unfolding p(2) by (subst merge_given[OF merge]) (simp_all add: RISK_FIELDS_mem stale_approval_def has_key_append)
    moreover have "approval_payload (merge s u) = approval_payload s"
      unfolding p(2) by (rule payload_kept_by_result[OF merge accepted_leave(3,4) p(1)])
    moreover have "\<forall>arguments'. dict_or_empty (get s ''pending_tool_arguments'') = Inr arguments' \<longrightarrow> get arguments' ''fingerprint'' \<noteq> PStr fp"
      using stale by simp
    ultimately show ?thesis using fp fingerprint_of_payload[of "merge s u" s digest] by metis
  qed
qed

section \<open>The gate\<close>

text \<open>The approving branch of the gate, from the state behind the policy node.\<close>

lemma after_yes:
  assumes ask: "approval_node deps x s1 = Inr (answer, x')" and merge: "risk_overwrites merge"
    and yes: "get (merge s1 answer) ''pending_approval_status'' = PStr ''approved''"
    and node: "accept_planning_risk_node digest reader (merge s1 answer) = Inr u"
    and fp: "planning_approval_fingerprint digest s1 = Inr fp" "get s1 ''planning_approval_fingerprint'' = PStr fp"
  shows "planning_approval_fingerprint digest (merge (merge s1 answer) u) = Inr fp
    \<and> (get (merge (merge s1 answer) u) ''planning_approval_status'' = PStr ''approved''
        \<and> get (merge (merge s1 answer) u) ''planning_approval_fingerprint'' = PStr fp \<and> approved_by_person deps fp
      \<or> (\<forall>arguments. dict_or_empty (get s1 ''pending_tool_arguments'') = Inr arguments \<longrightarrow> get arguments ''fingerprint'' \<noteq> PStr fp)
        \<and> get (merge (merge s1 answer) u) ''pending_approval_status'' = PStr ''waiting'')"
proof -
  obtain request where request: "answer = approval_updates s1 (interrupt deps request)"
      "get request ''arguments'' = get s1 ''pending_tool_arguments''"
    using approval_nodeD[OF ask] by blast
  note yes' = yes_updates[OF yes[unfolded request(1)] merge, folded request(1)]
  have "get (merge s1 answer) k = get s1 k" if "k \<in> set RISK_FIELDS" "k \<noteq> ''pending_approval_status''" for k
    using merge_other(2)[OF merge that(1)] yes'(2) that by blast
  then have field: "get (merge s1 answer) ''pending_tool_arguments'' = get s1 ''pending_tool_arguments''"
      "get (merge s1 answer) ''planning_approval_fingerprint'' = PStr fp"
    using fp(2) by (simp_all add: RISK_FIELDS_mem)
  have "planning_approval_fingerprint digest (merge s1 answer) = Inr fp"
    using fingerprint_of_payload[OF payload_kept_without_plan[OF merge yes'(2)]] fp(1) by simp
  from after_accept[OF node this merge] show ?thesis
    unfolding field using yes'(1) request(2) by (auto simp: approved_by_person_def)
qed

text \<open>(C14) A plan does not get past the judge without the approval its risk asks for: when a valid plan reaches the
  planning judge, either the policy asks for no approval of it, or it is marked approved with the fingerprint
  of this very plan, which was approved in an earlier round or by a person who was shown this fingerprint; the
  one other way, a prompt left over from a different plan, leaves the approval waiting.\<close>

theorem risky_plan_needs_current_approval:
  assumes merge: "risk_overwrites merge" and valid: "truthy (get s0 ''planning_valid'')"
    and gate: "risk_gate merge digest reader deps x s0 = Inr (''planning_judge'', s)"
  shows "\<exists>fp dec. planning_approval_fingerprint digest s = Inr fp \<and> planning_approval_fingerprint digest s0 = Inr fp
    \<and> risk_decision s0 = Inr dec
    \<and> (\<not> ad_required dec \<and> get s ''planning_approval_status'' = PStr ''not_required''
      \<or> get s ''planning_approval_status'' = PStr ''approved'' \<and> get s ''planning_approval_fingerprint'' = PStr fp
          \<and> (get s0 ''planning_approval_status'' = PStr ''approved'' \<and> get s0 ''planning_approval_fingerprint'' = PStr fp
            \<or> approved_by_person deps fp)
      \<or> waits_for_risk_approval s0 \<and> get s ''pending_approval_status'' = PStr ''waiting'')"
proof -
  obtain u where u: "planning_risk_policy_node digest reader s0 = Inr u"
    using gate by (auto simp: risk_gate_def bind_eq_Inr_iff)
  obtain fp dec where fp: "planning_approval_fingerprint digest s0 = Inr fp" "planning_approval_fingerprint digest (merge s0 u) = Inr fp"
      "risk_decision s0 = Inr dec" "get (merge s0 u) ''planning_approval_fingerprint'' = PStr fp"
    and ways: "\<not> ad_required dec \<and> get (merge s0 u) ''planning_approval_status'' = PStr ''not_required''
          \<and> (waits_for_risk_approval (merge s0 u) \<longrightarrow> waits_for_risk_approval s0)
      \<or> get s0 ''planning_approval_status'' = PStr ''approved'' \<and> get s0 ''planning_approval_fingerprint'' = PStr fp
          \<and> get (merge s0 u) ''planning_approval_status'' = PStr ''approved''
          \<and> (waits_for_risk_approval (merge s0 u) \<longrightarrow> waits_for_risk_approval s0)
      \<or> waits_for_risk_approval (merge s0 u)
          \<and> get (merge s0 u) ''pending_tool_arguments'' = PDict [(''approval_id'', PStr (approval_id_of fp)), (''fingerprint'', PStr fp)]"
    using after_policy[OF u valid merge] by blast
  show ?thesis
  proof (cases "waits_for_risk_approval (merge s0 u)")
    case False
    then have "s = merge s0 u" using gate u by (auto simp: risk_gate_def Let_def)
    then show ?thesis using fp ways False by blast
  next
    case True
    then obtain answer x' v where v: "approval_node deps x (merge s0 u) = Inr (answer, x')"
        "get (merge (merge s0 u) answer) ''pending_approval_status'' = PStr ''approved''"
        "accept_planning_risk_node digest reader (merge (merge s0 u) answer) = Inr v" "s = merge (merge (merge s0 u) answer) v"
      using gate u by (auto simp: risk_gate_def Let_def bind_eq_Inr_iff split: if_splits)
    have "\<exists>arguments. dict_or_empty (PDict [(''approval_id'', PStr (approval_id_of fp)), (''fingerprint'', PStr fp)]) = Inr arguments
        \<and> get arguments ''fingerprint'' = PStr fp"
      by simp
    then have "waits_for_risk_approval s0 \<or> (\<exists>arguments. dict_or_empty (get (merge s0 u) ''pending_tool_arguments'') = Inr arguments
        \<and> get arguments ''fingerprint'' = PStr fp)"
      using ways True by (elim disjE conjE) (blast, blast, metis)
    with after_yes[OF v(1) merge v(2,3) fp(2,4)] show ?thesis
      using fp(1,3) unfolding v(4)[symmetric] by blast
  qed
qed

section \<open>A run\<close>

definition plain_digest :: "string \<Rightarrow> string" where
  "plain_digest payload = int_str (int (length payload))"

definition no_reader :: PlanReader where
  "no_reader = \<lparr>read_analysis = (\<lambda>v. Inl ([], [])), read_criterion = (\<lambda>v. Inl ([], [])), read_task = (\<lambda>v. Inl ([], [])), read_plan = (\<lambda>v. Inl ([], []))\<rparr>"

definition consenting :: "unit GraphDependencies" where
  "consenting = \<lparr>execute_tool = (\<lambda>x name args s mode. Inl (RuntimeError ''no tool'')), argument_resolver = None, model_items = (\<lambda>name s. Inr []),
     interrupt = (\<lambda>request. PDict [(''approved'', PBool True)]), imports_of = (\<lambda>s. None)\<rparr>"

definition risky_start :: pydict where
  "risky_start = [(''planning_valid'', PBool True), (''project_name'', PStr ''billing''), (''planning_risk_level'', PStr ''high''),
     (''planning_risk_score'', PInt 60), (''planning_impact_areas'', PList [PStr ''database''])]"

lemma risky_run:
  "case risk_gate overlay plain_digest no_reader consenting () risky_start of Inl e \<Rightarrow> False
   | Inr (n, s) \<Rightarrow> n = ''planning_judge'' \<and> get s ''planning_approval_status'' = PStr ''approved''"
  by code_simp

lemma risky_before: "planning_approval_fingerprint plain_digest risky_start = Inr ''163''" "\<not> waits_for_risk_approval risky_start"
  "get risky_start ''planning_approval_status'' = PNone" "truthy (get risky_start ''planning_valid'')"
  by code_simp+

lemma overlay_risk: "risk_overwrites overlay"
  by (simp add: risk_overwrites_def overlay_def getd_append)

theorem risky_plan_needs_current_approval_witness:
  "\<exists>s. risk_gate overlay plain_digest no_reader consenting () risky_start = Inr (''planning_judge'', s) \<and> approved_by_person consenting ''163''"
proof -
  obtain s where s: "risk_gate overlay plain_digest no_reader consenting () risky_start = Inr (''planning_judge'', s)"
    "get s ''planning_approval_status'' = PStr ''approved''"
    using risky_run by (auto split: sum.splits)
  from risky_plan_needs_current_approval[OF overlay_risk risky_before(4) s(1)] s show ?thesis
    by (auto simp: risky_before)
qed

end
