(* ===== verification/PlanOrder.thy ===== *)
theory PlanOrder
  imports PlanChecks
begin

text \<open>
  The two searches through the dependencies of a plan: the topological sort finds an order of the
  tasks exactly when there is one, and the depth-first search of the contract finds a cycle exactly
  when there is none. Both are related to \<open>comes_after\<close>, an order in which every task comes after
  the tasks it depends on.
\<close>

section \<open>Orders\<close>

fun comes_after :: "(int \<Rightarrow> int set) \<Rightarrow> int set \<Rightarrow> int list \<Rightarrow> bool" where
  "comes_after deps D [] = True"
| "comes_after deps D (k # ks) = (deps k \<subseteq> D \<and> comes_after deps (insert k D) ks)"

lemma comes_after_append: "comes_after deps D (xs @ ys) \<longleftrightarrow> comes_after deps D xs \<and> comes_after deps (D \<union> set xs) ys"
  by (induction xs arbitrary: D) auto

lemma comes_after_split:
  "comes_after deps D xs \<longleftrightarrow> (\<forall>ys k zs. xs = ys @ k # zs \<longrightarrow> deps k \<subseteq> D \<union> set ys)"
proof
  assume "comes_after deps D xs"
  then show "\<forall>ys k zs. xs = ys @ k # zs \<longrightarrow> deps k \<subseteq> D \<union> set ys" by (auto simp: comes_after_append)
next
  assume "\<forall>ys k zs. xs = ys @ k # zs \<longrightarrow> deps k \<subseteq> D \<union> set ys"
  then show "comes_after deps D xs"
  proof (induction xs arbitrary: D)
    case (Cons x xs)
    have "deps k \<subseteq> insert x D \<union> set ys" if "xs = ys @ k # zs" for ys k zs
      using Cons(2)[rule_format, of "x # ys" k zs] that by simp
    then show ?case using Cons(1)[of "insert x D"] Cons(2)[rule_format, of "[]" x xs] by simp
  qed simp
qed

lemma comes_after_cong: "(\<And>k. k \<in> set xs \<Longrightarrow> deps k = deps' k) \<Longrightarrow> comes_after deps D xs = comes_after deps' D xs"
  by (induction xs arbitrary: D) auto

lemma comes_after_rank:
  assumes "distinct ys" "comes_after deps {} ys" "k \<in> set ys" "d \<in> deps k"
  shows "d \<in> set ys \<and> length (takeWhile (\<lambda>x. x \<noteq> d) ys) < length (takeWhile (\<lambda>x. x \<noteq> k) ys)"
proof -
  obtain as bs where ys: "ys = as @ k # bs" using assms(3) by (meson split_list)
  with assms have d: "d \<in> set as" "k \<notin> set as" by (auto simp: comes_after_append)
  then obtain us vs where as: "as = us @ d # vs" "d \<notin> set us" by (meson split_list_first)
  have "takeWhile (\<lambda>x. x \<noteq> k) ys = as" using ys d(2) by (auto simp: takeWhile_append takeWhile_eq_all_conv)
  moreover have "takeWhile (\<lambda>x. x \<noteq> d) ys = us" using ys as by (auto simp: takeWhile_append takeWhile_eq_all_conv)
  ultimately show ?thesis using ys as d by auto
qed

section \<open>The topological sort\<close>

lemma release_all_result:
  assumes "foldl (release order result) (g, ready) ks = (g', ready')"
  shows "depends g' k = (if k \<in> set ks then removeAll order (depends g k) else depends g k)"
    and "set ready' = set ready \<union> {k \<in> set ks. order \<in> set (depends g k) \<and> removeAll order (depends g k) = [] \<and> k \<notin> set result}"
    and "distinct ready \<Longrightarrow> distinct ready'" "fst ` set g' = fst ` set g"
proof -
  have "(\<forall>k. depends g' k = (if k \<in> set ks then removeAll order (depends g k) else depends g k))
    \<and> set ready' = set ready \<union> {k \<in> set ks. order \<in> set (depends g k) \<and> removeAll order (depends g k) = [] \<and> k \<notin> set result}
    \<and> (distinct ready \<longrightarrow> distinct ready') \<and> fst ` set g' = fst ` set g"
    using assms
  proof (induction ks arbitrary: g ready)
    case (Cons x ks)
    obtain g1 r1 where r: "release order result (g, ready) x = (g1, r1)" by fastforce
    with Cons.prems have "foldl (release order result) (g1, r1) ks = (g', ready')" by simp
    note IH = Cons.IH[OF this]
    show ?case
    proof (cases "order \<in> set (depends g x)")
      case False
      with r have "g1 = g" "r1 = ready" by (auto simp: release_def)
      with IH False show ?thesis by auto
    next
      case True
      then have x: "x \<in> fst ` set g" using depends_key[of g x] by (cases "depends g x") auto
      have g1: "depends g1 k = (if k = x then removeAll order (depends g x) else depends g k)" for k
        using r True by (auto simp: release_def Let_def depends_update)
      have keys: "fst ` set g1 = fst ` set g"
        using r True keys_update[of x "removeAll order (depends g x)" g] x
        by (simp add: release_def Let_def insert_absorb split: if_splits)
      have r1: "r1 = (if removeAll order (depends g x) = [] \<and> x \<notin> set result \<and> x \<notin> set ready then ready @ [x] else ready)"
        using r True by (auto simp: release_def Let_def)
      show ?thesis
        using IH True keys by (auto simp: g1 r1 split: if_splits)
    qed
  qed simp
  then show "depends g' k = (if k \<in> set ks then removeAll order (depends g k) else depends g k)"
    and "set ready' = set ready \<union> {k \<in> set ks. order \<in> set (depends g k) \<and> removeAll order (depends g k) = [] \<and> k \<notin> set result}"
    and "distinct ready \<Longrightarrow> distinct ready'" "fst ` set g' = fst ` set g"
    by blast+
qed

text \<open>What the loop keeps, of the graph it began with.\<close>

definition sorting :: "depgraph \<Rightarrow> depgraph \<Rightarrow> int list \<Rightarrow> int list \<Rightarrow> bool" where
  "sorting g0 g ready result \<longleftrightarrow> fst ` set g = fst ` set g0
    \<and> (\<forall>k. set (depends g k) = set (depends g0 k) - set result)
    \<and> distinct (result @ ready) \<and> set (result @ ready) \<subseteq> fst ` set g0
    \<and> (\<forall>k \<in> fst ` set g0. depends g k = [] \<longleftrightarrow> k \<in> set (result @ ready))
    \<and> comes_after (set \<circ> depends g0) {} result"

lemma sorting_step:
  assumes "sorting g0 g (order # ready) result" "release_all order (result @ [order]) g ready = (g', ready')"
  shows "sorting g0 g' (sort ready') (result @ [order])"
proof -
  note r = release_all_result[OF assms(2)[unfolded release_all_def]]
  from assms(1) have keys: "fst ` set g = fst ` set g0"
    and deps: "\<And>k. set (depends g k) = set (depends g0 k) - set result"
    and dist: "distinct (result @ order # ready)" and sub: "set (result @ order # ready) \<subseteq> fst ` set g0"
    and finished: "\<And>k. k \<in> fst ` set g0 \<Longrightarrow> depends g k = [] \<longleftrightarrow> k \<in> set (result @ order # ready)"
    and resp: "comes_after (set \<circ> depends g0) {} result"
    unfolding sorting_def by blast+
  have all: "depends g' k = removeAll order (depends g k)" for k
    using r(1)[of k] keys depends_key[of g k] by (cases "depends g k") auto
  have ready: "set ready' = set ready \<union> {k \<in> fst ` set g0. order \<in> set (depends g k) \<and> removeAll order (depends g k) = []}"
  proof -
    have "k \<notin> set (result @ [order])" if "order \<in> set (depends g k)" "k \<in> fst ` set g0" for k
      using that finished[of k] by (cases "depends g k") auto
    then show ?thesis using r(2) keys by auto
  qed
  have new: "k \<notin> set (result @ order # ready)" if "order \<in> set (depends g k)" "k \<in> fst ` set g0" for k
    using that finished[of k] by (cases "depends g k") auto
  have order: "order \<in> fst ` set g0" "depends g order = []" using sub finished[of order] by auto
  have "set (depends g0 order) \<subseteq> set result" using deps[of order] order(2) by auto
  then have "comes_after (set \<circ> depends g0) {} (result @ [order])" using resp by (simp add: comes_after_append)
  moreover have "distinct ready'" using r(3) dist by simp
  moreover have "set ready' \<inter> set (result @ [order]) = {}" using ready new dist by auto
  moreover have "removeAll order (depends g k) = [] \<longleftrightarrow> k \<in> set (result @ [order]) \<union> set ready'" if k: "k \<in> fst ` set g0" for k
  proof (cases "order \<in> set (depends g k)")
    case True
    with new[OF True k] k show ?thesis by (auto simp: ready)
  next
    case False
    then have "removeAll order (depends g k) = depends g k" by (simp add: removeAll_id)
    with finished[OF k] False show ?thesis by (auto simp: ready)
  qed
  moreover have "set ready' \<subseteq> fst ` set g0" using ready sub by auto
  ultimately show ?thesis
    using r(4) keys deps sub dist unfolding sorting_def by (auto simp: all)
qed

lemma topological_loop_sorts:
  "sorting g0 g ready result \<Longrightarrow> \<exists>g'. sorting g0 g' [] (topological_loop g ready result)"
proof (induction g ready result rule: topological_loop.induct)
  case (1 g result)
  then show ?case by (auto simp: topological_loop.simps)
next
  case (2 g order ready result)
  obtain g' ready' where r: "release_all order (result @ [order]) g ready = (g', ready')" by fastforce
  from 2(1)[OF refl r[symmetric]] sorting_step[OF 2(2) r] r show ?case by (simp add: topological_loop.simps)
qed

lemma sorted_all:
  assumes "sorting g0 g [] xs" "comes_after (set \<circ> depends g0) D ys" "D \<subseteq> set xs" "set ys \<subseteq> fst ` set g0"
  shows "set ys \<subseteq> set xs"
  using assms(2-4)
proof (induction ys arbitrary: D)
  case (Cons k ys)
  then have "set (depends g k) = {}" "k \<in> fst ` set g0" using assms(1) by (auto simp: sorting_def)
  then have "k \<in> set xs" using assms(1) by (auto simp: sorting_def)
  with Cons show ?case by auto
qed simp

section \<open>The graphs of a plan\<close>

lemma waiting_graph_snoc:
  "waiting_graph (ts @ [t]) = AList.update (task_order t) (dedupe (task_depends_on t)) (waiting_graph ts)"
  "dependency_graph (ts @ [t]) = AList.update (task_order t) (task_depends_on t) (dependency_graph ts)"
  by (simp_all add: waiting_graph_def dependency_graph_def)

lemma graph_keys:
  "fst ` set (waiting_graph ts) = task_order ` set ts" "fst ` set (dependency_graph ts) = task_order ` set ts"
  "set (depends (waiting_graph ts) k) = set (depends (dependency_graph ts) k)"
  by (induction ts rule: rev_induct)
    (auto simp: waiting_graph_snoc keys_update depends_update, simp_all add: waiting_graph_def dependency_graph_def depends_def)

lemma graph_depends:
  "distinct (map task_order ts) \<Longrightarrow> t \<in> set ts \<Longrightarrow> depends (dependency_graph ts) (task_order t) = task_depends_on t"
  by (induction ts rule: rev_induct) (auto simp: waiting_graph_snoc depends_update, metis imageI)

text \<open>An order of the tasks in which each comes after those it depends on.\<close>

definition execution_order :: "ImplementationTask list \<Rightarrow> int list \<Rightarrow> bool" where
  "execution_order tasks xs \<longleftrightarrow> distinct xs \<and> set xs = task_order ` set tasks
    \<and> (\<forall>t \<in> set tasks. \<forall>d \<in> set (task_depends_on t). \<exists>ys zs. xs = ys @ task_order t # zs \<and> d \<in> set ys)"

lemma execution_order_respects:
  assumes "distinct (map task_order tasks)"
  shows "execution_order tasks xs \<longleftrightarrow> distinct xs \<and> set xs = task_order ` set tasks
    \<and> comes_after (set \<circ> depends (waiting_graph tasks)) {} xs"
proof -
  have deps: "set (depends (waiting_graph tasks) (task_order t)) = set (task_depends_on t)" if "t \<in> set tasks" for t
    using graph_keys(3) graph_depends[OF assms that] by simp
  have all: "comes_after (set \<circ> depends (waiting_graph tasks)) {} xs \<longleftrightarrow>
      (\<forall>ys k zs. xs = ys @ k # zs \<longrightarrow> set (depends (waiting_graph tasks) k) \<subseteq> set ys)"
    by (simp add: comes_after_split)
  show ?thesis
  proof (intro iffI)
    assume e: "execution_order tasks xs"
    have "set (depends (waiting_graph tasks) k) \<subseteq> set ys" if "xs = ys @ k # zs" for ys k zs
    proof -
      have "k \<in> set xs" using that by simp
      then obtain t where t: "t \<in> set tasks" "k = task_order t" using e unfolding execution_order_def by blast
      have "d \<in> set ys" if "d \<in> set (task_depends_on t)" for d
      proof -
        obtain us vs where "xs = us @ k # vs" "d \<in> set us"
          using e t \<open>d \<in> set (task_depends_on t)\<close> unfolding execution_order_def by blast
        moreover have "distinct xs" using e by (simp add: execution_order_def)
        ultimately show ?thesis using \<open>xs = ys @ k # zs\<close> append_Cons_eq_iff[of k us vs ys zs] by auto
      qed
      with deps[OF t(1)] t(2) show ?thesis by auto
    qed
    with all e show "distinct xs \<and> set xs = task_order ` set tasks \<and> comes_after (set \<circ> depends (waiting_graph tasks)) {} xs"
      by (auto simp: execution_order_def)
  next
    assume r: "distinct xs \<and> set xs = task_order ` set tasks \<and> comes_after (set \<circ> depends (waiting_graph tasks)) {} xs"
    then show "execution_order tasks xs"
      unfolding execution_order_def
    proof (intro conjI ballI)
      fix t d assume t: "t \<in> set tasks" "d \<in> set (task_depends_on t)"
      with r obtain ys zs where "xs = ys @ task_order t # zs" by (metis imageI split_list)
      with r all deps t show "\<exists>ys zs. xs = ys @ task_order t # zs \<and> d \<in> set ys" by (metis subsetD sup_bot_left)
    qed simp_all
  qed
qed

lemma topological_sort_order:
  assumes "distinct (map task_order tasks)"
  shows "snd (topological_sort tasks) \<longleftrightarrow> (\<exists>xs. execution_order tasks xs)"
    and "snd (topological_sort tasks) \<Longrightarrow> execution_order tasks (fst (topological_sort tasks))"
proof -
  let ?g = "waiting_graph tasks"
  let ?ready = "sort (filter (\<lambda>k. depends ?g k = []) (map fst ?g))"
  let ?xs = "topological_loop ?g ?ready []"
  have dist: "distinct (map fst ?g)"
    by (induction tasks rule: rev_induct) (simp_all add: waiting_graph_snoc distinct_update, simp add: waiting_graph_def)
  have "sorting ?g ?g ?ready []"
    using dist by (auto simp: sorting_def)
  then obtain g' where s: "sorting ?g g' [] ?xs" using topological_loop_sorts by blast
  have card: "card (fst ` set ?g) = length tasks"
    using distinct_card[OF assms] by (simp add: graph_keys)
  have x: "distinct ?xs" "set ?xs \<subseteq> fst ` set ?g" "comes_after (set \<circ> depends ?g) {} ?xs"
    using s by (auto simp: sorting_def)
  have full: "length ?xs = length tasks \<longleftrightarrow> set ?xs = fst ` set ?g"
    using card_subset_eq[OF _ x(2)] card distinct_card[OF x(1)] by auto
  have snd: "snd (topological_sort tasks) \<longleftrightarrow> length ?xs = length tasks" "fst (topological_sort tasks) = ?xs"
    by (simp_all add: topological_sort_def Let_def)
  show e: "execution_order tasks (fst (topological_sort tasks))" if "snd (topological_sort tasks)"
    using that snd full x by (simp add: execution_order_respects[OF assms] graph_keys)
  have "set ?xs = fst ` set ?g" if "execution_order tasks ys" for ys
    using sorted_all[OF s, of "{}" ys] that x(2) by (auto simp: execution_order_respects[OF assms] graph_keys)
  with e snd full show "snd (topological_sort tasks) \<longleftrightarrow> (\<exists>xs. execution_order tasks xs)" by blast
qed

section \<open>The depth-first search\<close>

text \<open>The visited tasks are an order of their own: each comes after its dependencies in the graph.\<close>

definition closed :: "depgraph \<Rightarrow> int list \<Rightarrow> bool" where
  "closed g v \<longleftrightarrow> distinct v \<and> set v \<subseteq> fst ` set g \<and> comes_after (\<lambda>k. set (depends g k) \<inter> fst ` set g) {} v"

definition searched :: "depgraph \<Rightarrow> int list \<Rightarrow> int list \<Rightarrow> int list \<Rightarrow> int list \<Rightarrow> bool" where
  "searched g visiting ks v v' \<longleftrightarrow> closed g v' \<and> set v \<union> (set ks \<inter> fst ` set g) \<subseteq> set v' \<and> set v' \<inter> set visiting \<subseteq> set v"

lemma map_of_key: "map_of g d = None \<longleftrightarrow> d \<notin> fst ` set g"
  by (simp add: map_of_eq_None_iff)

lemma search_finds_order:
  "cyclic_from g visiting k v = (False, v') \<Longrightarrow> closed g v \<Longrightarrow> k \<in> fst ` set g \<Longrightarrow> searched g visiting [k] v v'"
  "cyclic_any g visiting ks v = (False, v') \<Longrightarrow> closed g v \<Longrightarrow> searched g visiting ks v v'"
proof (induction g visiting k v and g visiting ks v arbitrary: v' and v' rule: cyclic_from_cyclic_any.induct)
  case (1 g visiting k v)
  show ?case
  proof (cases "k \<in> set v")
    case True
    with 1(2,3) show ?thesis by (auto simp: cyclic_from.simps searched_def split: if_splits)
  next
    case False
    obtain w where k: "k \<notin> set visiting" and w: "cyclic_any g (k # visiting) (depends g k) v = (False, w)" "v' = w @ [k]"
      using 1(2) False by (auto simp: cyclic_from.simps split: if_splits prod.splits bool.splits)
    from 1(1)[OF k False w(1) 1(3)] have s: "searched g (k # visiting) (depends g k) v w" .
    then have "k \<notin> set w" using False by (auto simp: searched_def)
    with s k 1(4) w(2) show ?thesis by (auto simp: searched_def closed_def comes_after_append)
  qed
next
  case (2 g visiting v)
  then show ?case by (auto simp: cyclic_any.simps searched_def)
next
  case (3 g visiting d ds v)
  show ?case
  proof (cases "map_of g d = None")
    case True
    with 3 show ?thesis by (auto simp: cyclic_any.simps searched_def map_of_key)
  next
    case False
    obtain w where w: "cyclic_from g visiting d v = (False, w)" "cyclic_any g visiting ds w = (False, v')"
      using 3(4) False by (auto simp: cyclic_any.simps split: prod.splits bool.splits)
    have s: "searched g visiting [d] v w" using 3(2)[OF False w(1) 3(5)] False by (simp add: map_of_key)
    have "searched g visiting ds w v'"
      using 3(3)[OF False w(1)[symmetric] refl w(2)] s by (simp add: searched_def)
    with s show ?thesis by (auto simp: searched_def)
  qed
qed

lemma search_finds_no_cycle:
  fixes r :: "int \<Rightarrow> nat"
  shows "(\<And>k d. d \<in> set (depends g k) \<Longrightarrow> d \<in> fst ` set g \<Longrightarrow> r d < r k) \<Longrightarrow> \<forall>u \<in> set visiting. r k < r u
      \<Longrightarrow> \<not> fst (cyclic_from g visiting k v)"
    and "(\<And>k d. d \<in> set (depends g k) \<Longrightarrow> d \<in> fst ` set g \<Longrightarrow> r d < r k)
      \<Longrightarrow> \<forall>d \<in> set ks \<inter> fst ` set g. \<forall>u \<in> set visiting. r d < r u \<Longrightarrow> \<not> fst (cyclic_any g visiting ks v)"
proof (induction g visiting k v and g visiting ks v rule: cyclic_from_cyclic_any.induct)
  case (1 g visiting k v)
  have k: "k \<notin> set visiting" using 1(3) by auto
  have "\<forall>d \<in> set (depends g k) \<inter> fst ` set g. \<forall>u \<in> set (k # visiting). r d < r u"
    using 1(2,3) by (auto dest: less_trans)
  with 1(1)[OF k _ 1(2)] k show ?case
    by (auto simp: cyclic_from.simps split: prod.splits bool.splits)
next
  case (3 g visiting d ds v)
  have rest: "\<forall>d \<in> set ds \<inter> fst ` set g. \<forall>u \<in> set visiting. r d < r u" using 3(5) by auto
  show ?case
  proof (cases "map_of g d = None")
    case True
    with 3(1)[OF True 3(4) rest] show ?thesis by (simp add: cyclic_any.simps)
  next
    case False
    then have "\<not> fst (cyclic_from g visiting d v)" using 3(2)[OF False 3(4)] 3(5) by (auto simp: map_of_key)
    with 3(3)[OF False _ refl 3(4) rest] False show ?thesis
      by (auto simp: cyclic_any.simps split: prod.splits bool.splits)
  qed
qed (simp add: cyclic_any.simps)

lemma has_cycle_order:
  assumes "distinct (map task_order tasks)" "\<forall>t \<in> set tasks. set (task_depends_on t) \<subseteq> task_order ` set tasks"
  shows "has_cycle tasks \<longleftrightarrow> (\<nexists>xs. execution_order tasks xs)"
proof -
  let ?g = "dependency_graph tasks" and ?w = "waiting_graph tasks"
  have deps: "set (depends ?g k) \<inter> fst ` set ?g = set (depends ?w k)" for k
  proof (cases "k \<in> task_order ` set tasks")
    case True
    then obtain t where "t \<in> set tasks" "k = task_order t" by auto
    with assms graph_depends[OF assms(1)] show ?thesis by (auto simp: graph_keys)
  next
    case False
    then have "depends ?g k = []" using depends_key[of ?g k] graph_keys(2)[of tasks] by auto
    then show ?thesis by (simp add: graph_keys)
  qed
  obtain b v where b: "cyclic_any ?g [] (map fst ?g) [] = (b, v)" by fastforce
  then have cyc: "has_cycle tasks = b" by (simp add: has_cycle_def Let_def)
  show ?thesis
  proof (cases b)
    case False
    with b have s: "searched ?g [] (map fst ?g) [] v" by (intro search_finds_order) (auto simp: closed_def)
    have "(\<lambda>k. set (depends ?g k) \<inter> fst ` set ?g) = set \<circ> depends ?w" using deps by (simp add: fun_eq_iff)
    with s have "execution_order tasks v"
      by (auto simp: execution_order_respects[OF assms(1)] searched_def closed_def graph_keys(2))
    with False cyc show ?thesis by auto
  next
    case True
    have "False" if e: "execution_order tasks xs" for xs
    proof -
      have e: "distinct xs" "set xs = task_order ` set tasks" "comes_after (set \<circ> depends ?w) {} xs"
        using e by (simp_all add: execution_order_respects[OF assms(1)])
      have "length (takeWhile (\<lambda>x. x \<noteq> d) xs) < length (takeWhile (\<lambda>x. x \<noteq> k) xs)"
        if "d \<in> set (depends ?g k)" "d \<in> fst ` set ?g" for k d
      proof -
        have "k \<in> set xs" using that depends_key[of ?g k] e(2) graph_keys(2)[of tasks] by (cases "depends ?g k") auto
        moreover have "d \<in> (set \<circ> depends ?w) k" using that deps[of k] by auto
        ultimately show ?thesis using comes_after_rank[OF e(1,3)] by blast
      qed
      then have "\<not> fst (cyclic_any ?g [] (map fst ?g) [])" 
        by (intro search_finds_no_cycle(2)[where r = "\<lambda>k. length (takeWhile (\<lambda>x. x \<noteq> k) xs)"]) simp_all
      with b True show False by simp
    qed
    with True cyc show ?thesis by auto
  qed
qed

section \<open>Properties\<close>

text \<open>(C20) For tasks with different orders whose dependencies are known, the depth-first search of the
  contract, the topological sort and the existence of an order agree: a cycle is found exactly
  when the sort stops early, and exactly when no order has every task after the tasks it depends
  on; otherwise the sort finds such an order.\<close>

theorem cycle_checks_agree:
  assumes "distinct (map task_order tasks)" "\<forall>t \<in> set tasks. set (task_depends_on t) \<subseteq> task_order ` set tasks"
  shows "has_cycle tasks = (\<not> snd (topological_sort tasks))
    \<and> has_cycle tasks = (\<nexists>xs. execution_order tasks xs)
    \<and> (if has_cycle tasks then True else execution_order tasks (fst (topological_sort tasks)))"
  using has_cycle_order[OF assms] topological_sort_order[OF assms(1)] by auto

lemma error_if_Nil [simp]: "error_if bad code message = [] \<longleftrightarrow> \<not> bad"
  by (simp add: error_if_def)

lemma sort_Nil_iff: "sort xs = [] \<longleftrightarrow> xs = []"
  by (metis length_0_conv length_sort)

lemma contract_dependencies:
  assumes "validate_planning_output reader plan state = Inr []"
  shows "distinct (map task_order (plan_tasks plan))"
    and "task_order ` set (plan_tasks plan) = {1..int (length (plan_tasks plan))}"
    and "t \<in> set (plan_tasks plan) \<Longrightarrow> set (task_depends_on t) \<subseteq> task_order ` set (plan_tasks plan)
      \<and> task_order t \<notin> set (task_depends_on t)"
    and "\<not> has_cycle (plan_tasks plan)"
proof -
  have none: "task_errors plan = []"
    using assms by (auto simp: validate_planning_output_def Let_def bind_eq_Inr_iff)
  then have errors: "distinct (map task_order (plan_tasks plan))" "\<not> has_cycle (plan_tasks plan)"
    "sort (map task_order (plan_tasks plan)) = map int [1..<length (map task_order (plan_tasks plan)) + 1]"
    "dependency_errors (plan_tasks plan) = []"
    unfolding task_errors_def Let_def append_is_Nil_conv error_if_Nil not_not by blast+
  show "distinct (map task_order (plan_tasks plan))" "\<not> has_cycle (plan_tasks plan)" by (fact errors)+
  have "sort (map task_order (plan_tasks plan)) = map int [1..<length (plan_tasks plan) + 1]"
    using errors(3) by simp
  then have "set (map task_order (plan_tasks plan)) = int ` {1..<length (plan_tasks plan) + 1}"
    by (metis set_map set_sort set_upt)
  then show "task_order ` set (plan_tasks plan) = {1..int (length (plan_tasks plan))}"
    by (auto simp: image_int_atLeastLessThan)
  show "set (task_depends_on t) \<subseteq> task_order ` set (plan_tasks plan) \<and> task_order t \<notin> set (task_depends_on t)"
    if "t \<in> set (plan_tasks plan)"
    using errors(4) that
    by (auto simp: dependency_errors_def Let_def filter_empty_conv sort_Nil_iff split: if_splits)
qed

lemma execution_order_sorted: "execution_order (sort_key f tasks) = execution_order tasks"
  by (rule ext) (simp add: execution_order_def)

lemma contract_gives_order:
  assumes "validate_planning_output reader plan state = Inr []"
    and "validate_plan_executability plan state = Inr result"
  shows "execution_order (plan_tasks plan) (er_order result)
    \<and> set (er_order result) = {1..int (length (plan_tasks plan))}
    \<and> missing_dependencies (plan_tasks plan) = [] \<and> snd (topological_sort (plan_tasks plan))"
proof -
  note c = contract_dependencies[OF assms(1)]
  let ?tasks = "sort_key task_order (plan_tasks plan)"
  have known: "\<forall>t \<in> set ts. set (task_depends_on t) \<subseteq> task_order ` set ts"
    if "set ts = set (plan_tasks plan)" for ts using c(3) that by auto
  have missing: "missing_dependencies ts = []" if "set ts = set (plan_tasks plan)" for ts
    using c(3) that by (force simp: missing_dependencies_def)
  have dist: "distinct (map task_order ?tasks)"
    using c(1) by (simp add: distinct_map)
  have order: "\<exists>xs. execution_order (plan_tasks plan) xs"
    using has_cycle_order[OF c(1) known[OF refl]] c(4) by simp
  then have acyclic: "snd (topological_sort ?tasks)" "snd (topological_sort (plan_tasks plan))"
    using topological_sort_order(1)[OF dist] topological_sort_order(1)[OF c(1)] by (simp_all add: execution_order_sorted)
  have "er_order result = fst (topological_sort ?tasks)"
    using assms(2) missing[of ?tasks] acyclic
    by (auto simp: validate_plan_executability_def Let_def bind_eq_Inr_iff split: prod.splits)
  then have "execution_order (plan_tasks plan) (er_order result)"
    using topological_sort_order(2)[OF dist acyclic(1)] by (simp add: execution_order_sorted)
  moreover from this have "set (er_order result) = {1..int (length (plan_tasks plan))}"
    using c(2) by (simp add: execution_order_def)
  ultimately show ?thesis using missing[OF refl] acyclic(2) by simp
qed

text \<open>(C9) A plan that meets its contract has an execution order: whatever else the check of its
  executability complains of, it lists the orders 1 to n of the tasks, each once and each after all
  the tasks it depends on, and it never reports a missing or cyclic dependency.\<close>

theorem accepted_plan_has_order:
  assumes "validate_planning_output reader plan state = Inr []"
    and "validate_plan_executability plan state = Inr result"
  shows "execution_order (plan_tasks plan) (er_order result)
    \<and> set (er_order result) = {1..int (length (plan_tasks plan))}
    \<and> missing_dependencies (plan_tasks plan) = [] \<and> snd (topological_sort (plan_tasks plan))"
  using assms by (rule contract_gives_order)

section \<open>Examples\<close>

definition example_plan :: PlanningOutput where
  "example_plan = \<lparr>plan_analysis = \<lparr>ra_objective = ''Health'', ra_project_name = ''demo'', ra_project_type = ''node'',
      ra_framework = None, ra_functional = [''Health''], ra_non_functional = [], ra_constraints = [], ra_assumptions = []\<rparr>,
    plan_criteria = [\<lparr>ac_id = ''A'', ac_description = ''It answers'', ac_method = ''Run''\<rparr>],
    plan_tasks = [\<lparr>task_order = 2, task_role = ''qa'', task_title = ''Go'', task_description = ''Go'', task_depends_on = [1]\<rparr>,
      \<lparr>task_order = 1, task_role = ''developer'', task_title = ''Server'', task_description = ''app'', task_depends_on = []\<rparr>]\<rparr>"

definition example_reader :: PlanReader where
  "example_reader = \<lparr>read_analysis = (\<lambda>v. Inl ([], [])), read_criterion = (\<lambda>v. Inl ([], [])), read_task = (\<lambda>v. Inl ([], [])), read_plan = (\<lambda>v. Inr example_plan)\<rparr>"

lemma example_contract: "validate_planning_output example_reader example_plan [] = Inr []"
  by code_simp

lemma example_executable:
  "validate_plan_executability example_plan [] = Inr \<lparr>er_errors = [], er_order = [1, 2], er_edges = [(1, 2)]\<rparr>"
  by code_simp

theorem cycle_checks_agree_witness:
  "has_cycle (plan_tasks example_plan) = (\<not> snd (topological_sort (plan_tasks example_plan)))"
  using cycle_checks_agree[of "plan_tasks example_plan"] by (simp add: example_plan_def)

theorem accepted_plan_has_order_witness:
  "execution_order (plan_tasks example_plan) [1, 2]"
  using accepted_plan_has_order[OF example_contract example_executable] by simp

end
