(* ===== verification/PlanSpec.thy ===== *)
theory PlanSpec
  imports PlanningGraph PlanOrder
begin

text \<open>
  What it means for a plan to pass: the demands of the contract, of the request, of the execution
  and of the quality gate, each stated on the plan itself and not by the functions that check it,
  with the lemmas that a plan without complaints of these functions meets them. \<open>plan_ready\<close> is the
  demand as a whole.
\<close>

section \<open>The demands\<close>

text \<open>The project's name and objective, and a project type and framework that fit each other and
  those that were detected.\<close>

definition fits_project :: "string \<Rightarrow> RequirementAnalysis \<Rightarrow> RequirementAnalysis \<Rightarrow> bool" where
  "fits_project detected_name expected analysis \<longleftrightarrow>
    strip (ra_objective analysis) \<noteq> []
    \<and> (detected_name \<noteq> [] \<longrightarrow> ra_project_name analysis = detected_name)
    \<and> (detected_name = [] \<and> ra_project_name expected \<noteq> [] \<longrightarrow> ra_project_name analysis = ra_project_name expected)
    \<and> (\<exists>t \<in> set SUPPORTED_PROJECT_TYPES. normalize_project_type (Some (ra_project_type analysis)) = Some t
        \<and> normalize_framework (ra_framework analysis) (Some t) = Some t
        \<and> normalize_project_type (Some (ra_project_type expected)) \<in> {None, Some t}
        \<and> normalize_framework (ra_framework expected) (normalize_project_type (Some (ra_project_type expected)))
            \<in> {None, Some t})"

text \<open>A plan with requirements, criteria and tasks, numbered from one, no two of them the same; the
  tasks depend on other tasks of the plan, and one of them implements and one tests.\<close>

definition well_formed_plan :: "PlanningOutput \<Rightarrow> bool" where
  "well_formed_plan plan \<longleftrightarrow>
    ra_functional (plan_analysis plan) \<noteq> [] \<and> plan_criteria plan \<noteq> [] \<and> plan_tasks plan \<noteq> []
    \<and> distinct (map ac_id (plan_criteria plan)) \<and> distinct (map task_identity (plan_tasks plan))
    \<and> sort (map task_order (plan_tasks plan)) = map int [1..<length (plan_tasks plan) + 1]
    \<and> (\<forall>t \<in> set (plan_tasks plan). \<forall>d \<in> set (task_depends_on t).
        d \<noteq> task_order t \<and> d \<in> task_order ` set (plan_tasks plan))
    \<and> (\<exists>t \<in> set (plan_tasks plan). any_in [''developer'', ''implement'', ''desarroll''] (task_text t))
    \<and> (\<exists>t \<in> set (plan_tasks plan). any_in [''test'', ''qa'', ''valid''] (task_text t))"

text \<open>The plan keeps every endpoint and every JSON value the request spells out, and names none of
  the scope-expanding features unless the request or its constraints ask for it, and forbid it
  nowhere.\<close>

definition keeps_request :: "string \<Rightarrow> RequirementAnalysis \<Rightarrow> PlanningOutput \<Rightarrow> bool" where
  "keeps_request original expected plan \<longleftrightarrow>
    (\<forall>e \<in> set (fst (literal_contracts original)). contains (casefold (plan_text plan)) (casefold e))
    \<and> (\<forall>l \<in> set (snd (literal_contracts original)). \<forall>v.
        json_loads (replace_char (CHR 0x27) (CHR 0x22) l) = Inr v \<longrightarrow>
        contains (without_space (plan_text plan)) (without_space (json_text v)))
    \<and> (\<forall>f \<in> set SCOPE_EXPANSIONS. fst (feature_polarity (plan_text plan) f) \<longrightarrow>
        feature_polarity (original @ CHR 0x0A # join [CHR 0x0A] (ra_constraints expected)) f = (True, False))"

text \<open>The tasks can be executed in their order: the implementation begins before the tests, a file
  that is changed existed or was created by an earlier task, the entrypoints agree, the framework
  finds what it needs and what is deployed can be packaged.\<close>

definition root_of_entrypoint :: "string \<Rightarrow> string" where
  "root_of_entrypoint path = take (length path - length ''/main.py'') path"

definition can_execute :: "pydict \<Rightarrow> string list \<Rightarrow> PlanningOutput \<Rightarrow> bool" where
  "can_execute state existing plan \<longleftrightarrow>
    (let tasks = plan_tasks plan;
         kind = normalize_project_type (Some (ra_project_type (plan_analysis plan)));
         framework = normalize_framework (ra_framework (plan_analysis plan)) kind in
     (getd state ''workflow_intent'' (PStr ''create_project'') = PStr ''create_project''
        \<and> (\<exists>t \<in> set tasks. is_test_task t) \<longrightarrow>
        (\<exists>i \<in> set tasks. is_implementation_task i
          \<and> (\<forall>t \<in> set tasks. is_test_task t \<longrightarrow> task_order i \<le> task_order t)))
     \<and> (\<forall>earlier t later. sort_key task_order tasks = earlier @ t # later \<longrightarrow>
         (\<forall>path \<in> set (extract_paths t). is_consumed_without_create t path \<longrightarrow>
           path \<in> set existing \<or> (\<exists>c \<in> set earlier. path \<in> set (extract_paths c) \<and> is_created c path)))
     \<and> (\<forall>a \<in> set (entrypoint_targets (sort_key task_order tasks)).
          \<forall>b \<in> set (entrypoint_targets (sort_key task_order tasks)). root_of_entrypoint a = root_of_entrypoint b)
     \<and> (kind = Some ''fastapi'' \<or> framework = Some ''fastapi'' \<longrightarrow> has_fastapi_executable plan)
     \<and> (kind \<noteq> Some ''fastapi'' \<and> framework \<noteq> Some ''fastapi'' \<and> (kind = Some ''node'' \<or> framework = Some ''node'') \<longrightarrow>
          (\<exists>t \<in> set tasks. any_in [''package.json'', ''server''] (task_text t)))
     \<and> (kind \<notin> {Some ''fastapi'', Some ''node''} \<and> framework \<notin> {Some ''fastapi'', Some ''node''}
          \<and> (kind = Some ''dotnet'' \<or> framework = Some ''dotnet'') \<longrightarrow>
          (\<exists>t \<in> set tasks. any_in [''.csproj'', ''program.cs''] (task_text t)))
     \<and> (\<forall>t \<in> set tasks. contains (task_text t) ''deploy'' \<and> contains (task_text t) ''package'' \<longrightarrow>
          (\<exists>u \<in> set tasks. task_order u \<noteq> task_order t \<and> any_in [''package'', ''build''] (task_text u))))"

definition good_enough :: "PlanQualityResult \<Rightarrow> bool" where
  "good_enough q \<longleftrightarrow> casefold (pq_level q) \<notin> {''weak'', ''poor''}
    \<and> 70 \<le> dimension (pq_dimensions q) ''requirement_coverage''
    \<and> 70 \<le> dimension (pq_dimensions q) ''plan_completeness''
    \<and> 50 \<le> dimension (pq_dimensions q) ''task_clarity''
    \<and> 60 \<le> dimension (pq_dimensions q) ''dependency_coherence''
    \<and> (casefold (pq_level q) = ''acceptable'' \<longrightarrow>
        ''planning_quality_low_requirement_coverage'' \<notin> set (pq_issues q)
        \<and> ''planning_quality_incomplete_plan'' \<notin> set (pq_issues q))
    \<and> (pq_confidence q < round_double (55 / 100) \<longrightarrow> set STRUCTURAL_QUALITY_ISSUES \<inter> set (pq_issues q) = {})"

text \<open>The order of two tasks for each dependency, as the state records them.\<close>

definition dependency_pairs :: "ImplementationTask list \<Rightarrow> (int \<times> int) list" where
  "dependency_pairs tasks =
    concat (map (\<lambda>t. map (\<lambda>d. (d, task_order t)) (task_depends_on t)) (sort_key task_order tasks))"

definition plan_ready :: "PlanReader \<Rightarrow> pydict \<Rightarrow> PlanningOutput \<Rightarrow> bool" where
  "plan_ready reader state plan \<longleftrightarrow>
    (\<exists>detected_name original existing.
      py_str (por (get state ''project_name'') (PStr [])) = Inr detected_name
      \<and> getd state ''original_user_message'' (PStr []) = PStr original
      \<and> existing_paths state = Inr existing
      \<and> fits_project detected_name (expected_analysis reader state plan) (plan_analysis plan)
      \<and> well_formed_plan plan
      \<and> keeps_request original (expected_analysis reader state plan) plan
      \<and> can_execute state existing plan)"

section \<open>No complaints, no failed demand\<close>

lemma dedupe_empty [simp]: "dedupe xs = [] \<longleftrightarrow> xs = []"
  by (simp add: dedupe_def)

lemma project_errors_Nil:
  assumes "project_errors name expected analysis = []" "framework_errors expected analysis = []"
  shows "fits_project name expected analysis"
proof -
  let ?kind = "normalize_project_type (Some (ra_project_type analysis))"
  from assms(2) obtain t where t: "t \<in> set SUPPORTED_PROJECT_TYPES" "?kind = Some t"
    by (auto simp: framework_errors_def Let_def split: if_splits)
  with assms(2) have "normalize_framework (ra_framework analysis) (Some t) = Some t"
    "normalize_project_type (Some (ra_project_type expected)) \<in> {None, Some t}"
    "normalize_framework (ra_framework expected) (normalize_project_type (Some (ra_project_type expected)))
            \<in> {None, Some t}"
    by (auto simp: framework_errors_def Let_def split: if_splits)
  with t assms(1) show ?thesis
    unfolding fits_project_def by (auto simp: project_errors_def Let_def)
qed

lemma task_errors_Nil:
  assumes "task_errors plan = []"
  shows "well_formed_plan plan"
proof -
  have e: "dependency_errors (plan_tasks plan) = []" using assms by (simp add: task_errors_def Let_def)
  have "d \<noteq> task_order t \<and> d \<in> task_order ` set (plan_tasks plan)"
    if "t \<in> set (plan_tasks plan)" "d \<in> set (task_depends_on t)" for t d
  proof -
    from e that(1) have "task_order t \<notin> set (task_depends_on t)"
      "sort (dedupe (filter (\<lambda>d. d \<notin> set (map task_order (plan_tasks plan))) (task_depends_on t))) = []"
      unfolding dependency_errors_def by (simp_all add: Let_def)
    then have "task_order t \<notin> set (task_depends_on t)"
      "set (filter (\<lambda>d. d \<notin> set (map task_order (plan_tasks plan))) (task_depends_on t)) = {}"
      by (metis, metis empty_set set_dedupe set_sort)
    with that(2) show ?thesis by auto
  qed
  with assms show ?thesis
    by (simp add: well_formed_plan_def task_errors_def Let_def list_ex_iff)
qed

lemma literal_error_Nil:
  assumes "literal_error normalized literal = Inr []"
    and "json_loads (replace_char (CHR 0x27) (CHR 0x22) literal) = Inr v"
  shows "contains normalized (without_space (json_text v))"
  using assms by (simp add: literal_error_def)

lemma mapm_concat_Nil:
  assumes "mapm f xs = Inr yss" "concat yss = []" "x \<in> set xs"
  shows "f x = Inr []"
  using assms by (induction xs arbitrary: yss) (auto elim!: bind_InrE)

lemma output_Nil:
  assumes "validate_planning_output reader plan state = Inr []"
  obtains name original where "py_str (por (get state ''project_name'') (PStr [])) = Inr name"
    "getd state ''original_user_message'' (PStr []) = PStr original"
    "fits_project name (expected_analysis reader state plan) (plan_analysis plan)"
    "well_formed_plan plan" "keeps_request original (expected_analysis reader state plan) plan"
proof -
  let ?expected = "expected_analysis reader state plan" and ?text = "plan_text plan"
  from assms obtain name original literals where
    n: "py_str (por (get state ''project_name'') (PStr [])) = Inr name" and
    o: "text_of (getd state ''original_user_message'' (PStr [])) = Inr original" and
    l: "mapm (literal_error (without_space ?text)) (snd (literal_contracts original)) = Inr literals" and
    errors: "project_errors name ?expected (plan_analysis plan) @ framework_errors ?expected (plan_analysis plan)
      @ task_errors plan @ endpoint_errors original ?text @ concat literals
      @ scope_errors (original @ CHR 0x0A # join [CHR 0x0A] (ra_constraints ?expected)) ?text = []"
    unfolding validate_planning_output_def Let_def
    by (elim bind_InrE) (metis Inr_inject empty_set set_dedupe set_empty)
  have "contains (casefold ?text) (casefold e)" if "e \<in> set (fst (literal_contracts original))" for e
    using errors that by (simp add: endpoint_errors_def)
  moreover have "contains (without_space ?text) (without_space (json_text v))"
    if "x \<in> set (snd (literal_contracts original))"
      "json_loads (replace_char (CHR 0x27) (CHR 0x22) x) = Inr v" for x v
    using literal_error_Nil[OF mapm_concat_Nil[OF l _ that(1)] that(2)] errors by simp
  moreover have "feature_polarity (original @ CHR 0x0A # join [CHR 0x0A] (ra_constraints ?expected)) f = (True, False)"
    if "f \<in> set SCOPE_EXPANSIONS" "fst (feature_polarity ?text f)" for f
  proof (cases "feature_polarity (original @ CHR 0x0A # join [CHR 0x0A] (ra_constraints ?expected)) f")
    case (Pair requested prohibited)
    with errors that show ?thesis by (auto simp: scope_errors_def split: if_splits)
  qed
  ultimately have "keeps_request original ?expected plan" unfolding keeps_request_def by blast
  moreover have "getd state ''original_user_message'' (PStr []) = PStr original"
    using o by (cases "getd state ''original_user_message'' (PStr [])") (auto simp: text_of_def)
  ultimately show ?thesis
    using that n errors project_errors_Nil task_errors_Nil by auto
qed

lemma artifact_errors_Nil:
  assumes "artifact_errors existing produced ts = []" "ts = earlier @ t # later"
    and "path \<in> set (extract_paths t)" "is_consumed_without_create t path"
  shows "path \<in> set existing \<or> path \<in> set produced
    \<or> (\<exists>c \<in> set earlier. path \<in> set (extract_paths c) \<and> is_created c path)"
  using assms
proof (induction ts arbitrary: produced earlier)
  case (Cons u ts)
  show ?case
  proof (cases earlier)
    case Nil
    with Cons.prems show ?thesis by (auto simp: filter_empty_conv)
  next
    case (Cons c cs)
    with Cons.prems Cons.IH[of "produced @ filter (is_created u) (extract_paths u)" cs] show ?thesis by auto
  qed
qed simp

lemma entrypoint_errors_Nil:
  assumes "entrypoint_errors tasks = []" "a \<in> set (entrypoint_targets tasks)" "b \<in> set (entrypoint_targets tasks)"
  shows "root_of_entrypoint a = root_of_entrypoint b"
proof (rule ccontr)
  assume ne: "root_of_entrypoint a \<noteq> root_of_entrypoint b"
  let ?roots = "map root_of_entrypoint (entrypoint_targets tasks)"
  have two: "1 < length xs" if "x \<in> set xs" "y \<in> set xs" "x \<noteq> y" for x y :: string and xs
    using that by (cases xs; cases "tl xs") auto
  have "1 < length (entrypoint_targets tasks)" using two[OF assms(2,3)] ne by auto
  moreover have "1 < length (dedupe ?roots)"
    using two[of "root_of_entrypoint a" "dedupe ?roots" "root_of_entrypoint b"] assms(2,3) ne by simp
  ultimately show False
    using assms(1) unfolding entrypoint_errors_def Let_def root_of_entrypoint_def error_if_Nil by blast
qed

lemma test_order_errors_Nil:
  assumes "test_order_errors state tasks = []"
    and "getd state ''workflow_intent'' (PStr ''create_project'') = PStr ''create_project''"
    and "\<exists>t \<in> set tasks. is_test_task t"
  shows "\<exists>i \<in> set tasks. is_implementation_task i \<and> (\<forall>t \<in> set tasks. is_test_task t \<longrightarrow> task_order i \<le> task_order t)"
proof -
  let ?impl = "set (map task_order (filter is_implementation_task tasks))"
  let ?test = "set (map task_order (filter is_test_task tasks))"
  have "map task_order (filter is_test_task tasks) \<noteq> []" using assms(3) by (auto simp: filter_empty_conv)
  with assms(1,2) have ne: "map task_order (filter is_implementation_task tasks) \<noteq> []" and le: "\<not> Min ?test < Min ?impl"
    by (auto simp: test_order_errors_def Let_def split: if_splits)
  from ne have "Min ?impl \<in> ?impl" by (intro Min_in) (auto simp: filter_empty_conv)
  then obtain i where "i \<in> set tasks" "is_implementation_task i" "task_order i = Min ?impl" by auto
  moreover have "Min ?impl \<le> task_order t" if "t \<in> set tasks" "is_test_task t" for t
  proof -
    have "Min ?test \<le> task_order t" using that by (intro Min_le) auto
    with le show ?thesis by linarith
  qed
  ultimately show ?thesis by auto
qed

lemma executable_Nil:
  assumes "validate_plan_executability plan state = Inr e" "er_errors e = []"
  obtains existing where "existing_paths state = Inr existing" "can_execute state existing plan"
proof -
  let ?tasks = "sort_key task_order (plan_tasks plan)"
  from assms obtain existing where ex: "existing_paths state = Inr existing" and
    errors: "test_order_errors state ?tasks @ artifact_errors existing [] ?tasks @ entrypoint_errors ?tasks
      @ structure_errors plan ?tasks @ unreachable_errors ?tasks = []"
    unfolding validate_plan_executability_def Let_def
    by (auto elim!: bind_InrE split: prod.splits if_splits )
  have "can_execute state existing plan"
    unfolding can_execute_def Let_def
  proof (intro conjI impI allI ballI)
    assume "getd state ''workflow_intent'' (PStr ''create_project'') = PStr ''create_project'' \<and> (\<exists>t \<in> set (plan_tasks plan). is_test_task t)"
    then show "\<exists>i \<in> set (plan_tasks plan). is_implementation_task i
        \<and> (\<forall>t \<in> set (plan_tasks plan). is_test_task t \<longrightarrow> task_order i \<le> task_order t)"
      using test_order_errors_Nil[of state ?tasks] errors by simp
  next
    fix earlier t later path
    assume "?tasks = earlier @ t # later" "path \<in> set (extract_paths t)" "is_consumed_without_create t path"
    then show "path \<in> set existing \<or> (\<exists>c \<in> set earlier. path \<in> set (extract_paths c) \<and> is_created c path)"
      using artifact_errors_Nil[of existing "[]" ?tasks] errors by auto
  next
    fix a b assume "a \<in> set (entrypoint_targets ?tasks)" "b \<in> set (entrypoint_targets ?tasks)"
    then show "root_of_entrypoint a = root_of_entrypoint b"
      using entrypoint_errors_Nil errors by auto
  qed (use errors in \<open>auto simp: structure_errors_def unreachable_errors_def Let_def list_ex_iff split: if_splits\<close>)
  with ex show ?thesis using that by blast
qed

lemma executable_edges:
  "validate_plan_executability plan state = Inr e \<Longrightarrow> er_edges e = dependency_pairs (plan_tasks plan)"
  by (auto simp: validate_plan_executability_def dependency_pairs_def Let_def elim!: bind_InrE
      split: prod.splits if_splits)

lemma gate_codes_Nil:
  assumes "gate_codes q = []"
  shows "good_enough q"
proof -
  have "filter snd xs = [] \<Longrightarrow> (x, b) \<in> set xs \<Longrightarrow> \<not> b" for xs :: "(string \<times> bool) list" and x b
    by (auto simp: filter_empty_conv)
  with assms show ?thesis
    unfolding gate_codes_def Let_def good_enough_def
    by (auto simp: not_less list_ex_iff split: if_splits)
qed

end
