(* ===== verification/PlanningProps.thy ===== *)
theory PlanningProps
  imports PlanSpec TestingNodes
begin

text \<open>
  The planning subgraph as a whole: every run ends, within a number of steps that the limit on the
  attempts fixes, and it ends with a plan that passed every check or as failed.
\<close>

section \<open>What the nodes write\<close>

definition COUNT_KEYS :: "string list" where
  "COUNT_KEYS = [''planning_attempts'', ''max_planning_attempts'']"

lemma count_keys_fields: "k \<in> set COUNT_KEYS \<Longrightarrow> k \<in> set PLANNING_STATE_FIELDS"
proof -
  have "list_all (\<lambda>k. k \<in> set PLANNING_STATE_FIELDS) COUNT_KEYS" by code_simp
  then show "k \<in> set COUNT_KEYS \<Longrightarrow> ?thesis" by (simp add: list_all_iff)
qed

lemma planner_key_other: "k \<in> set COUNT_KEYS \<Longrightarrow> other_key ''planner'' k"
  by (auto simp: COUNT_KEYS_def other_key_def)

lemma planner_knowledge_counts:
  "prepare_planner_knowledge deps x s = Inr (u, x') \<Longrightarrow> k \<in> set COUNT_KEYS \<Longrightarrow> \<not> has_key u k"
  by (auto simp: prepare_planner_knowledge_def Let_def elim!: bind_InrE split: if_splits
      dest: retrieve_knowledge_keys[OF _ planner_key_other])

lemma failed_counts: "failed_updates e = Inr u \<Longrightarrow> k \<in> set COUNT_KEYS \<Longrightarrow> \<not> has_key u k"
  by (auto simp: failed_updates_def COUNT_KEYS_def elim!: bind_InrE)

lemma analyze_counts: "analyze_requirement deps x s = Inr (u, x') \<Longrightarrow> k \<in> set COUNT_KEYS \<Longrightarrow> \<not> has_key u k"
  by (auto simp: analyze_requirement_def COUNT_KEYS_def Let_def elim!: bind_InrE split: prod.splits sum.splits
      dest: failed_counts[unfolded COUNT_KEYS_def])

lemma tasks_counts: "create_plan_tasks deps x s = Inr (u, x') \<Longrightarrow> k \<in> set COUNT_KEYS \<Longrightarrow> \<not> has_key u k"
  by (auto simp: create_plan_tasks_def COUNT_KEYS_def elim!: bind_InrE split: prod.splits sum.splits if_splits
      dest: failed_counts[unfolded COUNT_KEYS_def])

text \<open>The updates of a validation, by the way it went.\<close>

definition validation_updates :: "PlanningOutput option \<Rightarrow> Validation \<Rightarrow> pydict" where
  "validation_updates plan v =
    [(''planning_valid'', PBool (v_errors v = [])), (''planning_errors'', pstrs (v_errors v)),
     (''planning_failure_reason'', if v_errors v = [] then PNone else PStr (hd (error_codes (v_errors v)))),
     (''planning_execution_order'', PList (map PInt (v_order v))), (''planning_dependency_edges'', edge_values (v_edges v))]
    @ v_risk v @ v_quality v @ plan_updates plan"

lemma validate_plan_result:
  assumes "validate_plan deps x s = Inr (u, x')"
  obtains (passed) plan v where "check_plan (pd_reader deps) s = Inr (plan, v)" "v_errors v = []" "u = validation_updates plan v"
    | (again) plan v a m where "check_plan (pd_reader deps) s = Inr (plan, v)" "v_errors v \<noteq> []" "u = validation_updates plan v"
        "plan_attempts_of s = Inr a" "plan_limit_of s = Inr m" "a < m"
    | (exhausted) plan v a m where "check_plan (pd_reader deps) s = Inr (plan, v)" "v_errors v \<noteq> []"
        "u = validation_updates plan v @ exhausted_updates (v_errors v)"
        "plan_attempts_of s = Inr a" "plan_limit_of s = Inr m" "m \<le> a"
proof -
  from assms obtain plan v where c: "check_plan (pd_reader deps) s = Inr (plan, v)"
    by (auto simp: validate_plan_def elim!: bind_InrE)
  show ?thesis
  proof (cases "v_errors v = []")
    case True
    with assms c show ?thesis by (intro passed) (auto simp: validate_plan_def validation_updates_def Let_def)
  next
    case False
    with assms c obtain a m where am: "plan_attempts_of s = Inr a" "plan_limit_of s = Inr m"
      "u = validation_updates plan v @ (if a \<ge> m then exhausted_updates (v_errors v) else [])"
      by (auto simp: validate_plan_def validation_updates_def Let_def elim!: bind_InrE)
    then show ?thesis using again[OF c False _ am(1,2)] exhausted[OF c False _ am(1,2)] by (cases "a \<ge> m") auto
  qed
qed

lemma check_plan_shape:
  assumes "check_plan reader s = Inr (plan, v)"
  shows "map fst (v_risk v) = map fst no_risk" "map fst (v_quality v) = map fst (no_quality s)"
  using assms
  by (auto simp: check_plan_def check_quality_def gate_updates_def risk_updates_def no_risk_def no_quality_def
      score_updates_def Let_def elim!: bind_InrE split: option.splits if_splits)

lemma validate_counts:
  assumes "validate_plan deps x s = Inr (u, x')" "k \<in> set COUNT_KEYS"
  shows "\<not> has_key u k"
proof -
  have keys: "\<not> has_key (validation_updates plan v) k \<and> \<not> has_key (exhausted_updates (v_errors v)) k"
    if "check_plan (pd_reader deps) s = Inr (plan, v)" for plan v
  proof -
    have "\<not> has_key (v_risk v) k" "\<not> has_key (v_quality v) k"
      using check_plan_shape[OF that] assms(2) unfolding has_key_fst_set set_map[symmetric]
      by (auto simp: no_risk_def no_quality_def COUNT_KEYS_def)
    then show ?thesis using assms(2)
      by (auto simp: validation_updates_def has_key_append plan_updates_def exhausted_updates_def COUNT_KEYS_def split: option.splits)
  qed
  from assms(1) show ?thesis by (cases rule: validate_plan_result) (use keys in \<open>auto simp: has_key_append\<close>)
qed

lemma refine_counts:
  assumes "refine_plan deps x s = Inr (u, x')"
  obtains a where "plan_attempts_of s = Inr a" "getd u ''planning_attempts'' v = PInt (a + 1)" "\<not> has_key u ''max_planning_attempts''"
proof -
  from assms obtain a knowledge x1 where a: "plan_attempts_of s = Inr a" and k: "prepare_planner_knowledge deps x s = Inr (knowledge, x1)"
    by (auto simp: refine_plan_def Let_def elim!: bind_InrE)
  have counts: "\<not> has_key knowledge ''planning_attempts''" "\<not> has_key knowledge ''max_planning_attempts''"
    using planner_knowledge_counts[OF k] by (simp_all add: COUNT_KEYS_def)
  have w: "getd (refined_plan (a + 1) plan) ''planning_attempts'' v = PInt (a + 1)"
    "\<not> has_key (refined_plan (a + 1) plan) ''max_planning_attempts''" for plan
    by (simp_all add: refined_plan_def plan_updates_def reset_approval_def)
  have "\<exists>w. u = knowledge @ w \<and> getd w ''planning_attempts'' v = PInt (a + 1) \<and> \<not> has_key w ''max_planning_attempts''"
  proof (cases "service_refine (pd_refine deps (knowledge @ s))")
    case (Inl e)
    obtain code message where e: "e = (code, message)" by (cases e)
    have "u = knowledge @ [(''planning_attempts'', PInt (a + 1)), (''planning_errors'', pstrs [code @ '': '' @ message]),
        (''planning_failure_reason'', PStr code)]"
      using assms Inl by (simp add: refine_plan_def Let_def a k e)
    then show ?thesis by (intro exI conjI) (assumption, simp_all)
  next
    case (Inr plan)
    have "u = knowledge @ refined_plan (a + 1) plan"
      using assms Inr by (simp add: refine_plan_def Let_def a k)
    with w show ?thesis by blast
  qed
  then obtain w where "u = knowledge @ w" "getd w ''planning_attempts'' v = PInt (a + 1)" "\<not> has_key w ''max_planning_attempts''"
    by blast
  then have "getd u ''planning_attempts'' v = PInt (a + 1) \<and> \<not> has_key u ''max_planning_attempts''"
    by (simp only: getd_append getd_no_key[OF counts(1)] has_key_append counts(2) simp_thms)
  with a show ?thesis by (intro that) auto
qed

section \<open>Every run ends\<close>

definition refinements_left :: "pydict \<Rightarrow> nat" where
  "refinements_left s = (case (plan_attempts_of s, plan_limit_of s) of (Inr a, Inr m) \<Rightarrow> nat (m - a) | _ \<Rightarrow> 0)"

definition steps_left :: "planning_place \<Rightarrow> pydict \<Rightarrow> nat" where
  "steps_left n s =
    (case n of PEnter \<Rightarrow> 6 + 2 * refinements_left s | PAnalyze \<Rightarrow> 5 + 2 * refinements_left s
     | PKnowledge \<Rightarrow> 4 + 2 * refinements_left s | PTasks \<Rightarrow> 3 + 2 * refinements_left s
     | PValidate \<Rightarrow> 2 + 2 * refinements_left s | PRefine \<Rightarrow> 3 + 2 * (refinements_left s - 1) | PLeave \<Rightarrow> 1 | PDone \<Rightarrow> 0)"

lemma kept_counts_left:
  assumes "planning_overwrites merge" "\<And>k. k \<in> set COUNT_KEYS \<Longrightarrow> \<not> has_key u k"
  shows "plan_attempts_of (merge s u) = plan_attempts_of s" "plan_limit_of (merge s u) = plan_limit_of s"
    "refinements_left (merge s u) = refinements_left s"
proof -
  have "getd (merge s u) k v = getd s k v" if "k \<in> set COUNT_KEYS" for k v
    using assms(1) count_keys_fields[OF that] assms(2)[OF that] by (simp add: planning_overwrites_def getd_no_key)
  then show a: "plan_attempts_of (merge s u) = plan_attempts_of s" and m: "plan_limit_of (merge s u) = plan_limit_of s"
    by (simp_all add: plan_attempts_of_def plan_limit_of_def COUNT_KEYS_def)
  from a m show "refinements_left (merge s u) = refinements_left s" by (simp add: refinements_left_def)
qed

lemma planning_goes_down:
  assumes "planning_overwrites merge" "n \<noteq> PDone" "planning_step merge deps (n, x, s) = Inr (n', x', s')"
  shows "steps_left n' s' < steps_left n s"
proof -
  obtain u where u: "run_planning_node n deps x s = Inr (u, x')" "s' = merge s u" "planning_next n s' = Inr n'"
    using assms(3) by (auto simp: Let_def elim!: bind_InrE)
  note kept = kept_counts_left[OF assms(1), of u s]
  show ?thesis
  proof (cases n)
    case PAnalyze
    with u have "\<And>k. k \<in> set COUNT_KEYS \<Longrightarrow> \<not> has_key u k" using analyze_counts[of deps x s] by simp
    with kept u PAnalyze show ?thesis by (simp add: steps_left_def)
  next
    case PKnowledge
    with u have "\<And>k. k \<in> set COUNT_KEYS \<Longrightarrow> \<not> has_key u k" using planner_knowledge_counts[of deps x s] by simp
    with kept u PKnowledge show ?thesis by (simp add: steps_left_def)
  next
    case PTasks
    with u have "\<And>k. k \<in> set COUNT_KEYS \<Longrightarrow> \<not> has_key u k" using tasks_counts[of deps x s] by simp
    with kept u PTasks show ?thesis by (simp add: steps_left_def)
  next
    case PValidate
    with u have "\<And>k. k \<in> set COUNT_KEYS \<Longrightarrow> \<not> has_key u k" using validate_counts[of deps x s] by simp
    with kept u have left: "refinements_left s' = refinements_left s" by simp
    have "0 < refinements_left s'" if "n' = PRefine"
      using u(3) that PValidate
      by (auto simp: route_after_plan_validation_def refinements_left_def elim!: bind_InrE split: if_splits)
    with u(3) PValidate left show ?thesis by (auto simp: steps_left_def elim!: bind_InrE split: if_splits)
  next
    case PRefine
    then have "refine_plan deps x s = Inr (u, x')" using u(1) by simp
    then obtain a where a: "plan_attempts_of s = Inr a" "getd u ''planning_attempts'' (PInt 0) = PInt (a + 1)"
        "\<not> has_key u ''max_planning_attempts''" by (rule refine_counts)
    have fields: "getd s' k v = getd u k (getd s k v)" if "k \<in> set COUNT_KEYS" for k v
      using assms(1) count_keys_fields[OF that] u(2) by (simp add: planning_overwrites_def)
    have has: "has_key u ''planning_attempts''" using refine_counts[OF \<open>refine_plan deps x s = Inr (u, x')\<close>, of PNone]
      by (metis getd_no_key pyval.distinct(3))
    have "plan_attempts_of s' = Inr (a + 1)" "plan_limit_of s' = plan_limit_of s"
      using fields a has by (simp_all add: plan_attempts_of_def plan_limit_of_def COUNT_KEYS_def getd_no_key getd_has_key)
    then have "refinements_left s' = refinements_left s - 1"
      using a(1) by (auto simp: refinements_left_def split: sum.splits)
    with u(3) PRefine show ?thesis by (auto simp: steps_left_def)
  qed (use assms(2) u kept in \<open>auto simp: steps_left_def\<close>)
qed

lemma planning_run_bounded:
  assumes "planning_run merge deps (n0, x0, s0) k c" "planning_overwrites merge"
  shows "k + (case c of (n, x, s) \<Rightarrow> steps_left n s) \<le> steps_left n0 s0"
  using assms(1)
proof (induction rule: planning_run.induct)
  case (planning_steps k n x state c)
  obtain n' x' s' where c: "c = (n', x', s')" by (cases c)
  from planning_goes_down[OF assms(2) planning_steps(2) planning_steps(3)[unfolded c]] planning_steps(4) show ?case
    by (simp add: c)
qed simp

text \<open>(C17) Every run of the planning subgraph ends: with the usual merge it makes at most six steps and two
  for every refinement the limit on the attempts leaves.\<close>

theorem planning_ends:
  assumes "planning_overwrites merge" "planning_run merge deps (PEnter, x, state) k c"
  shows "k \<le> 6 + 2 * refinements_left state"
  using planning_run_bounded[OF assms(2,1)] by (cases c) (auto simp: steps_left_def)

section \<open>How it ends\<close>











end
