(* ===== verification/PlanningExample.thy ===== *)
theory PlanningExample
  imports PlanningProps
begin

text \<open>A plan that meets every demand.\<close>

lemma example_plan_ready: "plan_ready example_reader [] example_plan"
  using output_Nil[OF example_contract] executable_Nil[OF example_executable] unfolding plan_ready_def
  by (metis ExecutabilityResult.select_convs(1))

text \<open>A run of the planning subgraph from its entry to its exit.\<close>

fun planning_iter ::
  "(pydict \<Rightarrow> pydict \<Rightarrow> pydict) \<Rightarrow> 'x PlanningDeps \<Rightarrow> nat \<Rightarrow> 'x planning_config \<Rightarrow> exn + 'x planning_config" where
  "planning_iter merge deps 0 c = Inr c"
| "planning_iter merge deps (Suc k) c =
     (if fst c = PDone then Inl Unmodelled else bind (planning_step merge deps c) (planning_iter merge deps k))"

lemma planning_iter_run:
  "planning_iter merge deps k c = Inr c' \<Longrightarrow> planning_run merge deps start j c \<Longrightarrow> planning_run merge deps start (j + k) c'"
proof (induction k arbitrary: j c)
  case (Suc k)
  obtain n x s where c: "c = (n, x, s)" by (cases c)
  from Suc(2) obtain c1 where "n \<noteq> PDone" "planning_step merge deps (n, x, s) = Inr c1" "planning_iter merge deps k c1 = Inr c'"
    by (auto simp: c elim!: bind_InrE split: if_splits simp del: planning_step.simps)
  with Suc(1)[OF this(3) planning_steps[OF Suc(3)[unfolded c] this(1,2)]] show ?case by simp
qed simp

text \<open>No text is read as a plan and no model answers; the limit on the attempts is zero.\<close>

definition silent_deps :: "unit PlanningDeps" where
  "silent_deps =
    \<lparr>pd_graph = \<lparr>execute_tool = (\<lambda>x name args s mode. Inr (\<lparr>o_public_tool_name = name, o_arguments = args, o_payload = Some [], o_state_updates = [], o_executed_sensitive = False, o_is_error = False\<rparr>, x)),
       argument_resolver = None, model_items = (\<lambda>name s. Inr []), interrupt = (\<lambda>d. PNone), imports_of = (\<lambda>s. None)\<rparr>,
     pd_settings = \<lparr>env_var = (\<lambda>name. None), obs_context = \<lparr>ctx_workflow_id = None, ctx_branch_id = None, ctx_agent = None, ctx_trace_id = None, ctx_span_id = None\<rparr>\<rparr>,
     pd_reader = \<lparr>read_analysis = (\<lambda>v. Inl ([], [])), read_criterion = (\<lambda>v. Inl ([], [])), read_task = (\<lambda>v. Inl ([], [])), read_plan = (\<lambda>v. Inl ([], []))\<rparr>,
     pd_refine = (\<lambda>s. NoReply)\<rparr>"

definition silent_start :: pydict where
  "silent_start = [(''original_user_message'', PStr ''Go''), (''max_planning_attempts'', PInt 0)]"

definition silent_parts :: "string list" where
  "silent_parts = [''Requirement: Go'',
     ''Find project architecture, decisions, conventions, documentation, ''
       @ ''workflow learnings, solutions, and code patterns relevant to planning.'']"

definition silent_request :: KnowledgeQuery where
  "silent_request = \<lparr>kq_query = join [CHR 0x0A] silent_parts, kq_types = PLANNER_KNOWLEDGE_TYPES, kq_top_k = 5\<rparr>"

lemma silent_texts: "words ''Go'' = [''Go'']" "words [] = []" "\<not> any_in PLANNER_TEST_TERMS (casefold (join '' '' [''Go'', [], []]))"
  "filter (\<lambda>p. \<not> ends_with p '': '') silent_parts = silent_parts"
  "length (join [CHR 0x0A] silent_parts) = 152"
  by code_simp+

lemma silent_squeeze: "squeeze 1800 ''Go'' = ''Go''" "squeeze n [] = []"
  using silent_texts by (simp_all add: squeeze_def)

lemma silent_query:
  assumes "\<And>k. k \<in> {''requirement_analysis'', ''workflow_intent'', ''detected_test_framework'', ''acceptance_criteria'',
      ''project_name'', ''created_project_name''} \<Longrightarrow> get s k = PNone" "get s ''original_user_message'' = PStr ''Go''"
  shows "planner_query 5 s = Inr silent_request"
proof -
  have "query_text 6000 silent_parts = join [CHR 0x0A] silent_parts" using silent_texts by (simp add: query_text_def)
  then show ?thesis
    by (simp add: planner_query_def assms project_of_state_def Let_def constraints_of_def labelled_def part_if_def silent_squeeze
        silent_texts por_def list_or_empty_def silent_request_def silent_parts_def del: join.simps)
qed
text \<open>The run, a node at a time.\<close>

definition silent_analyzed :: pydict where
  "silent_analyzed = [(''planning_errors'', PList [PStr []]), (''planning_failure_reason'', PStr ''planning_schema_invalid'')]
     @ silent_start"

definition silent_asked :: pydict where
  "silent_asked = unavailable ''planner'' (kq_query silent_request) @ silent_analyzed"

lemma silent_analysis: "planning_iter overlay silent_deps 2 (PEnter, (), silent_start) = Inr (PKnowledge, (), silent_analyzed)"
  by code_simp

lemma silent_knowledge: "planning_step overlay silent_deps (PKnowledge, (), silent_analyzed) = Inr (PTasks, (), silent_asked)"
proof -
  have top_k: "positive_environment_int (env_var (pd_settings silent_deps)) ''PLANNER_KNOWLEDGE_TOP_K'' 5 20 = 5"
    and before: "\<not> retrieved_before ''planner'' silent_analyzed silent_request" by code_simp+
  have query: "planner_query 5 silent_analyzed = Inr silent_request"
    by (rule silent_query) (auto simp: silent_analyzed_def silent_start_def)
  have project: "testing_project_id silent_analyzed = Inr []" by code_simp
  have "prepare_planner_knowledge silent_deps () silent_analyzed = Inr (unavailable ''planner'' (kq_query silent_request), ())"
    by (simp add: prepare_planner_knowledge_def Let_def top_k query before project retrieve_knowledge_def)
  then show ?thesis by (simp add: overlay_def silent_asked_def)
qed

lemma silent_end:
  "case planning_iter overlay silent_deps 3 (PTasks, (), silent_asked) of Inl e \<Rightarrow> False
   | Inr (n, x, s) \<Rightarrow> n = PDone \<and> get s ''planning_valid'' = PBool False"
  by code_simp

lemma silent_run: "\<exists>s. planning_run overlay silent_deps (PEnter, (), silent_start) 6 (PDone, (), s)
    \<and> get s ''planning_valid'' = PBool False"
proof -
  obtain s where s: "planning_iter overlay silent_deps 3 (PTasks, (), silent_asked) = Inr (PDone, (), s)"
    "get s ''planning_valid'' = PBool False"
    using silent_end by (auto split: sum.splits)
  have "planning_run overlay silent_deps (PEnter, (), silent_start) 2 (PKnowledge, (), silent_analyzed)"
    using planning_iter_run[OF silent_analysis planning_begins] by (simp add: numeral_2_eq_2)
  from planning_steps[OF this _ silent_knowledge]
  have "planning_run overlay silent_deps (PEnter, (), silent_start) 3 (PTasks, (), silent_asked)" by simp
  from planning_iter_run[OF s(1) this] s(2) show ?thesis by auto
qed

lemma overlay_planning: "planning_overwrites overlay"
  by (simp add: planning_overwrites_def overlay_def getd_append)

theorem planning_ends_witness:
  "\<exists>s. planning_run overlay silent_deps (PEnter, (), silent_start) 6 (PDone, (), s) \<and> 6 \<le> 6 + 2 * refinements_left silent_start"
proof -
  obtain s where s: "planning_run overlay silent_deps (PEnter, (), silent_start) 6 (PDone, (), s)" using silent_run by blast
  from planning_ends[OF overlay_planning s] s show ?thesis by blast
qed


end
