(* ===== verification/TestCode.thy ===== *)
theory TestCode
  imports PyJson
begin

text \<open>
  The checks of generated test code (graph/subgraphs/implementation/test_validation.py and
  policies/testing_patterns.py). They read the syntax tree that Python's \<open>ast.parse\<close> returns;
  the parser is a parameter, its trees are \<open>py_ast\<close>, a node with its named fields in the order of
  \<open>ast\<close>. Bytes, complex numbers, \<open>...\<close> and set displays are not evaluated.
\<close>

lemma mapm_cong [fundef_cong]: "xs = ys \<Longrightarrow> (\<And>x. x \<in> set ys \<Longrightarrow> f x = g x) \<Longrightarrow> mapm f xs = mapm g ys"
  by (induction ys arbitrary: xs) (auto cong: bind_cong)

section \<open>Syntax trees\<close>

datatype ast_kind =
    FunctionDef string
  | AsyncFunctionDef string
  | ClassDef string
  | Name string
  | Attribute string
  | Constant pyval
  | OtherConstant
  | Keyword "string option"
  | Alias string
  | Import
  | ImportFrom "string option"
  | Call
  | Compare
  | Eq
  | Assert
  | Assign
  | AnnAssign
  | Await
  | DictDisplay
  | ListDisplay
  | TupleDisplay
  | SetDisplay
  | UnaryOp
  | UAdd
  | USub
  | OtherNode

datatype py_ast = Node ast_kind "(string \<times> py_ast list) list"

fun kind_of :: "py_ast \<Rightarrow> ast_kind" where
  "kind_of (Node k fs) = k"

fun kids :: "py_ast \<Rightarrow> string \<Rightarrow> py_ast list" where
  "kids (Node k fs) f = (case map_of fs f of Some ns \<Rightarrow> ns | None \<Rightarrow> [])"

fun children :: "py_ast \<Rightarrow> py_ast list" where
  "children (Node k fs) = concat (map snd fs)"

definition kid :: "py_ast \<Rightarrow> string \<Rightarrow> py_ast option" where
  "kid n f = (case kids n f of m # _ \<Rightarrow> Some m | [] \<Rightarrow> None)"

text \<open>Whether the node of a field, when it is there, has a kind.\<close>

definition kid_is :: "py_ast \<Rightarrow> string \<Rightarrow> (ast_kind \<Rightarrow> bool) \<Rightarrow> bool" where
  "kid_is n f p = (case kid n f of Some m \<Rightarrow> p (kind_of m) | None \<Rightarrow> False)"

fun node_count :: "py_ast \<Rightarrow> nat" where
  "node_count (Node k fs) = Suc (sum_list (map (\<lambda>(f, ns). sum_list (map node_count ns)) fs))"

lemma children_count: "sum_list (map node_count (children n)) < node_count n"
proof (cases n)
  case (Node k fs)
  have "sum_list (map node_count (concat (map snd gs))) = sum_list (map (\<lambda>(f, ns). sum_list (map node_count ns)) gs)"
    for gs :: "(string \<times> py_ast list) list"
    by (induction gs) auto
  then show ?thesis by (simp add: Node)
qed

lemma child_count: "m \<in> set (children n) \<Longrightarrow> node_count m < node_count n"
  using children_count[of n] member_le_sum_list[of "node_count m" "map node_count (children n)"] by auto

lemma kids_children: "set (kids n f) \<subseteq> set (children n)"
proof (cases n)
  case (Node k fs)
  then show ?thesis by (cases "map_of fs f") (auto dest!: map_of_SomeD)
qed

lemma kids_count: "m \<in> set (kids n f) \<Longrightarrow> node_count m < node_count n"
  using kids_children child_count by blast

text \<open>\<open>ast.walk\<close>: breadth first.\<close>

function walk_from :: "py_ast list \<Rightarrow> py_ast list" where
  "walk_from [] = []"
| "walk_from (n # queue) = n # walk_from (queue @ children n)"
  by pat_completeness auto
termination
  by (relation "measure (\<lambda>q. sum_list (map node_count q))") (use children_count in auto)

definition walk :: "py_ast \<Rightarrow> py_ast list" where
  "walk tree = walk_from [tree]"

section \<open>The policy\<close>

definition ALLOWED_SYNC_IMPORTS :: "string list" where
  "ALLOWED_SYNC_IMPORTS = [''from fastapi.testclient import TestClient'']"

definition ALLOWED_ASYNC_IMPORTS :: "string list" where
  "ALLOWED_ASYNC_IMPORTS = [''from httpx import ASGITransport, AsyncClient'', ''from httpx import AsyncClient, ASGITransport'']"

definition FORBIDDEN_PATTERNS :: "string list" where
  "FORBIDDEN_PATTERNS = [''Client(app='', ''AsyncClient(app='']"

section \<open>Collection of tests\<close>

definition test_function :: "py_ast \<Rightarrow> string option" where
  "test_function n =
    (case kind_of n of
       FunctionDef f \<Rightarrow> if starts_with f ''test_'' then Some f else None
     | AsyncFunctionDef f \<Rightarrow> if starts_with f ''test_'' then Some f else None
     | _ \<Rightarrow> None)"

definition collected_from :: "py_ast \<Rightarrow> string list" where
  "collected_from n =
    (case kind_of n of
       ClassDef c \<Rightarrow>
         if starts_with c ''Test'' then map (\<lambda>f. c @ ''.'' @ f) (List.map_filter test_function (kids n ''body'')) else []
     | _ \<Rightarrow> (case test_function n of Some f \<Rightarrow> [f] | None \<Rightarrow> []))"

definition collect_pytest_test_functions :: "(string \<Rightarrow> py_ast option) \<Rightarrow> string \<Rightarrow> string list" where
  "collect_pytest_test_functions parse content =
    (case parse content of None \<Rightarrow> [] | Some tree \<Rightarrow> concat (map collected_from (kids tree ''body'')))"

section \<open>The deterministic test\<close>

text \<open>\<open>repr\<close> of a text.\<close>

definition repr_char :: "char \<Rightarrow> char \<Rightarrow> string" where
  "repr_char quote c =
    (let n = (of_char c :: nat) in
     if c = quote \<or> c = CHR 0x5C then [CHR 0x5C, c]
     else if n = 9 then [CHR 0x5C, CHR ''t''] else if n = 10 then [CHR 0x5C, CHR ''n'']
     else if n = 13 then [CHR 0x5C, CHR ''r'']
     else if n < 32 \<or> 127 \<le> n \<and> n \<le> 160 \<or> n = 173 then CHR 0x5C # ''x'' @ [hex_digit (n div 16), hex_digit (n mod 16)]
     else [c])"

definition repr_str :: "string \<Rightarrow> string" where
  "repr_str s =
    (let quote = (if CHR 0x27 \<in> set s \<and> CHR 0x22 \<notin> set s then CHR 0x22 else CHR 0x27) in
     quote # concat (map (repr_char quote) s) @ [quote])"

definition underscored :: "string \<Rightarrow> string" where
  "underscored = replace_char (CHR ''-'') (CHR ''_'')"

definition nl :: string where
  "nl = [CHR 0x0A]"

definition build_fastapi_health_test :: "string \<Rightarrow> string \<Rightarrow> int \<Rightarrow> pydict \<Rightarrow> string" where
  "build_fastapi_health_test package endpoint status expected =
    ''from fastapi.testclient import TestClient'' @ nl @ ''from '' @ underscored package @ ''.main import app'' @ nl @ nl
    @ ''client = TestClient(app)'' @ nl @ nl @ nl @ ''def test_health():'' @ nl
    @ ''    response = client.get('' @ repr_str endpoint @ '')'' @ nl @ nl
    @ ''    assert response.status_code == '' @ int_str status @ nl
    @ ''    assert response.json() == '' @ json_text (PDict expected) @ nl"

section \<open>Reading a tree\<close>

definition call_name :: "py_ast \<Rightarrow> string option" where
  "call_name call =
    (case kid call ''func'' of
       Some f \<Rightarrow> (case kind_of f of Name i \<Rightarrow> Some i | Attribute a \<Rightarrow> Some a | _ \<Rightarrow> None)
     | None \<Rightarrow> None)"

definition calls_named :: "string \<Rightarrow> py_ast list \<Rightarrow> py_ast list" where
  "calls_named name = filter (\<lambda>c. call_name c = Some name)"

text \<open>Whether a call has a keyword argument whose value is of some kind.\<close>

definition has_keyword :: "string \<Rightarrow> (ast_kind \<Rightarrow> bool) \<Rightarrow> py_ast \<Rightarrow> bool" where
  "has_keyword arg p call = list_ex (\<lambda>k. kind_of k = Keyword (Some arg) \<and> kid_is k ''value'' p) (kids call ''keywords'')"

definition has_app_argument :: "py_ast \<Rightarrow> bool" where
  "has_app_argument call = list_ex (\<lambda>k. kind_of k = Keyword (Some ''app'')) (kids call ''keywords'')"

function attribute_parts :: "py_ast \<Rightarrow> string list" where
  "attribute_parts n =
     (case kind_of n of
        Attribute a \<Rightarrow> a # (case kid n ''value'' of Some m \<Rightarrow> attribute_parts m | None \<Rightarrow> [])
      | Name i \<Rightarrow> [i] | _ \<Rightarrow> [])"
  by pat_completeness auto
termination
  by (relation "measure node_count") (auto simp: kid_def intro!: kids_count[of _ _ "''value''"] split: list.splits)

declare attribute_parts.simps [simp del]

definition attribute_path :: "py_ast \<Rightarrow> string" where
  "attribute_path n = join ''.'' (rev (attribute_parts n))"

definition alias_names :: "py_ast \<Rightarrow> string list" where
  "alias_names n = List.map_filter (\<lambda>a. case kind_of a of Alias name \<Rightarrow> Some name | _ \<Rightarrow> None) (kids n ''names'')"

text \<open>The module and the names of a \<open>from\<close> import.\<close>

definition from_imports :: "py_ast list \<Rightarrow> (string option \<times> string list) list" where
  "from_imports nodes =
    List.map_filter (\<lambda>n. case kind_of n of ImportFrom module_name \<Rightarrow> Some (module_name, alias_names n) | _ \<Rightarrow> None) nodes"

fun from_import_text :: "string option \<times> string list \<Rightarrow> string" where
  "from_import_text (module_name, names) =
     ''from '' @ (case module_name of Some m \<Rightarrow> m | None \<Rightarrow> ''None'') @ '' import '' @ join '', '' names"

definition imports_name :: "string \<Rightarrow> string \<Rightarrow> (string option \<times> string list) list \<Rightarrow> bool" where
  "imports_name m name = list_ex (\<lambda>(module_name, names). module_name = Some m \<and> name \<in> set names)"

section \<open>Assertions\<close>

definition equality_sides :: "py_ast \<Rightarrow> (py_ast \<times> py_ast) option" where
  "equality_sides n =
    (case kid n ''test'' of
       None \<Rightarrow> None
     | Some c \<Rightarrow>
         if kind_of c \<noteq> Compare then None
         else (case (map kind_of (kids c ''ops''), kids c ''comparators'', kid c ''left'') of
                 ([Eq], [right], Some left) \<Rightarrow> Some (left, right) | _ \<Rightarrow> None))"

definition status_side :: "int \<Rightarrow> py_ast \<Rightarrow> py_ast \<Rightarrow> bool" where
  "status_side expected a b \<longleftrightarrow> kind_of a = Attribute ''status_code''
     \<and> (case kind_of b of Constant v \<Rightarrow> py_eq v (PInt expected) | _ \<Rightarrow> False)"

definition is_status_assert :: "py_ast \<Rightarrow> bool" where
  "is_status_assert n =
    (case equality_sides n of None \<Rightarrow> False
     | Some (left, right) \<Rightarrow> status_side 200 left right \<or> status_side 200 right left)"

definition json_call :: "py_ast \<Rightarrow> bool" where
  "json_call n \<longleftrightarrow> kind_of n = Call \<and> kid_is n ''func'' (\<lambda>k. k = Attribute ''json'') \<and> kids n ''args'' = []"

text \<open>
  \<open>ast.literal_eval\<close>; \<open>None\<close> is a value that no JSON text has: a tuple, or a dictionary with a
  key that is not a text.
\<close>

definition malformed :: exn where
  "malformed = ValueError ''malformed node or string''"

fun signed :: "bool \<Rightarrow> pyval \<Rightarrow> exn + pyval option" where
  "signed negate (PInt i) = Inr (Some (PInt (if negate then - i else i)))"
| "signed negate (PFloat r) = Inr (Some (PFloat (if negate then - r else r)))"
| "signed negate _ = Inl malformed"

fun pair_up :: "pyval option list \<Rightarrow> pyval option list \<Rightarrow> (string \<times> pyval option) list option" where
  "pair_up (Some (PStr k) # ks) (v # vs) = map_option (Cons (k, v)) (pair_up ks vs)"
| "pair_up [] [] = Some []"
| "pair_up _ _ = None"

definition dict_of :: "(string \<times> pyval option) list \<Rightarrow> pyval option" where
  "dict_of members =
    (let d = foldl (\<lambda>d (k, v). AList.update k v d) [] members in
     if list_all (\<lambda>(k, v). v \<noteq> None) d then Some (PDict (map (\<lambda>(k, v). (k, the v)) d)) else None)"

definition hashable_literal :: "pyval option \<Rightarrow> bool" where
  "hashable_literal v = (case v of None \<Rightarrow> False | Some (PList _) \<Rightarrow> False | Some (PDict _) \<Rightarrow> False | _ \<Rightarrow> True)"

function literal_eval :: "py_ast \<Rightarrow> exn + pyval option" where
  "literal_eval n =
     (case kind_of n of
        Constant v \<Rightarrow> Inr (Some v)
      | OtherConstant \<Rightarrow> Inl Unmodelled
      | SetDisplay \<Rightarrow> Inl Unmodelled
      | TupleDisplay \<Rightarrow> bind (mapm literal_eval (kids n ''elts'')) (\<lambda>_. Inr None)
      | ListDisplay \<Rightarrow> bind (mapm literal_eval (kids n ''elts'')) (\<lambda>vs.
          Inr (if None \<in> set vs then None else Some (PList (map the vs))))
      | DictDisplay \<Rightarrow>
          if length (kids n ''keys'') \<noteq> length (kids n ''values'') then Inl malformed
          else bind (mapm literal_eval (kids n ''keys'')) (\<lambda>ks.
            bind (mapm literal_eval (kids n ''values'')) (\<lambda>vs.
            if \<not> list_all hashable_literal ks then Inl Unmodelled
            else (case pair_up ks vs of None \<Rightarrow> Inr None | Some members \<Rightarrow> Inr (dict_of members))))
      | UnaryOp \<Rightarrow>
          (case (kid n ''op'', kid n ''operand'') of
             (Some op, Some m) \<Rightarrow>
               (case kind_of m of
                  Constant v \<Rightarrow> if kind_of op = USub then signed True v
                    else if kind_of op = UAdd then signed False v else Inl malformed
                | OtherConstant \<Rightarrow> Inl Unmodelled
                | _ \<Rightarrow> Inl malformed)
           | _ \<Rightarrow> Inl malformed)
      | _ \<Rightarrow> Inl malformed)"
  by pat_completeness auto
termination
  by (relation "measure node_count") (auto intro: kids_count)

declare literal_eval.simps [simp del]

fun json_pair :: "pydict \<Rightarrow> (py_ast \<times> py_ast) list \<Rightarrow> exn + bool" where
  "json_pair expected [] = Inr False"
| "json_pair expected ((call, literal) # pairs) =
     (if \<not> json_call call then json_pair expected pairs
      else (case literal_eval literal of
          Inl Unmodelled \<Rightarrow> Inl Unmodelled
        | Inl e \<Rightarrow> json_pair expected pairs
        | Inr None \<Rightarrow> json_pair expected pairs
        | Inr (Some v) \<Rightarrow> if py_eq v (PDict expected) then Inr True else json_pair expected pairs))"

definition is_json_assert :: "pydict \<Rightarrow> py_ast \<Rightarrow> exn + bool" where
  "is_json_assert expected n =
    (case equality_sides n of None \<Rightarrow> Inr False
     | Some (left, right) \<Rightarrow> json_pair expected [(left, right), (right, left)])"

fun any_json_assert :: "pydict \<Rightarrow> py_ast list \<Rightarrow> exn + bool" where
  "any_json_assert expected [] = Inr False"
| "any_json_assert expected (n # ns) = orM (is_json_assert expected n) (any_json_assert expected ns)"

section \<open>The checks\<close>

definition transport_variables :: "py_ast list \<Rightarrow> string list" where
  "transport_variables nodes =
    concat (map (\<lambda>n.
      if kind_of n \<noteq> Assign \<and> kind_of n \<noteq> AnnAssign then []
      else (case kid n ''value'' of
          Some v \<Rightarrow>
            if kind_of v = Call \<and> call_name v = Some ''ASGITransport'' \<and> has_keyword ''app'' (\<lambda>k. k = Name ''app'') v
            then List.map_filter (\<lambda>t. case kind_of t of Name i \<Rightarrow> Some i | _ \<Rightarrow> None)
                   (kids n (if kind_of n = Assign then ''targets'' else ''target''))
            else []
        | None \<Rightarrow> [])) nodes)"

definition awaited_get :: "py_ast \<Rightarrow> bool" where
  "awaited_get n \<longleftrightarrow> kind_of n = Await
     \<and> (case kid n ''value'' of Some c \<Rightarrow> kind_of c = Call \<and> kid_is c ''func'' (\<lambda>k. k = Attribute ''get'') | None \<Rightarrow> False)"

definition is_attribute :: "ast_kind \<Rightarrow> bool" where
  "is_attribute k = (case k of Attribute _ \<Rightarrow> True | _ \<Rightarrow> False)"

definition async_transport_ok :: "py_ast list \<Rightarrow> bool" where
  "async_transport_ok nodes \<longleftrightarrow>
    (let imported = from_imports nodes; variables = transport_variables nodes;
         clients = calls_named ''AsyncClient'' (filter (\<lambda>n. kind_of n = Call) nodes) in
     imports_name ''httpx'' ''ASGITransport'' imported
     \<and> list_ex (\<lambda>i. from_import_text i \<in> set ALLOWED_ASYNC_IMPORTS) imported
     \<and> variables \<noteq> []
     \<and> list_ex (has_keyword ''transport'' (\<lambda>k. case k of Name i \<Rightarrow> i \<in> set variables | _ \<Rightarrow> False)) clients
     \<and> list_ex awaited_get nodes
     \<and> list_ex (\<lambda>n. is_attribute (kind_of n) \<and> attribute_path n \<in> {''pytest.mark.anyio'', ''pytest.mark.asyncio''}) nodes)"

text \<open>The client a test talks to the application with.\<close>

definition client_errors :: "bool \<Rightarrow> py_ast list \<Rightarrow> string list" where
  "client_errors allow_async nodes =
    (let imported = from_imports nodes; calls = filter (\<lambda>n. kind_of n = Call) nodes;
         async = imports_name ''httpx'' ''AsyncClient'' imported \<or> calls_named ''AsyncClient'' calls \<noteq> [] in
     (if imports_name ''httpx'' ''Client'' imported then [''unsupported_fastapi_sync_test_client''] else [])
     @ (if async
        then (if allow_async then [] else [''async_test_not_explicitly_requested''])
          @ (if async_transport_ok nodes then [] else [''invalid_fastapi_async_test_transport''])
        else (if list_ex (\<lambda>i. from_import_text i \<in> set ALLOWED_SYNC_IMPORTS) imported then []
              else [''missing_fastapi_testclient_import''])
          @ (if list_ex (\<lambda>c. kid_is c ''args'' (\<lambda>k. k = Name ''app'') \<or> has_keyword ''app'' (\<lambda>k. k = Name ''app'') c)
                  (calls_named ''TestClient'' calls) then []
             else [''invalid_fastapi_test_client_construction''])))"

definition get_endpoints :: "py_ast list \<Rightarrow> string list" where
  "get_endpoints nodes =
    List.map_filter (\<lambda>c.
      if kind_of c = Call \<and> kid_is c ''func'' (\<lambda>k. k = Attribute ''get'')
      then (case kid c ''args'' of
          Some a \<Rightarrow> (case kind_of a of Constant (PStr s) \<Rightarrow> Some s | _ \<Rightarrow> None) | None \<Rightarrow> None)
      else None) nodes"

definition endpoint_call_errors :: "string \<Rightarrow> py_ast list \<Rightarrow> string list" where
  "endpoint_call_errors expected nodes =
    (if expected \<noteq> [] \<and> expected \<notin> set (get_endpoints nodes) then [''missing_expected_endpoint_call''] else [])
    @ (if expected \<noteq> [] \<and> list_ex (\<lambda>e. e \<noteq> expected) (get_endpoints nodes) then [''unexpected_test_endpoint''] else [])"

definition pytest_errors :: "py_ast list \<Rightarrow> string list" where
  "pytest_errors nodes =
    (if list_ex (\<lambda>n. kind_of n = Import \<and> ''pytest'' \<in> set (alias_names n)) nodes
        \<and> \<not> list_ex (\<lambda>n. kind_of n = Name ''pytest'') nodes
     then [''unused_test_import: pytest''] else [])"

definition app_argument_errors :: "py_ast list \<Rightarrow> string list" where
  "app_argument_errors nodes =
    concat (map (\<lambda>c.
      if kind_of c = Call \<and> call_name c \<in> Some ` set (map (takeWhile (\<lambda>d. d \<noteq> CHR ''('')) FORBIDDEN_PATTERNS)
         \<and> has_app_argument c
      then (if call_name c = Some ''Client'' then [''httpx_client_app_argument_not_supported'']
            else if call_name c = Some ''AsyncClient'' then [''httpx_async_client_app_argument_not_supported''] else [])
      else []) nodes)"

definition validate_fastapi_test_code ::
  "(string \<Rightarrow> py_ast option) \<Rightarrow> bool \<Rightarrow> string \<Rightarrow> string \<Rightarrow> string \<Rightarrow> pydict \<Rightarrow> exn + string list" where
  "validate_fastapi_test_code parse allow_async content package endpoint expected =
    (case parse content of
       None \<Rightarrow> Inr [''invalid_python_syntax'']
     | Some tree \<Rightarrow>
         let nodes = walk tree; assertions = filter (\<lambda>n. kind_of n = Assert) nodes in
         bind (if expected = [] then Inr True else any_json_assert expected assertions) (\<lambda>json_asserted.
         Inr (dedupe
           ((if collect_pytest_test_functions parse content = [] then [''pytest_no_collectable_tests''] else [])
            @ (if imports_name (package @ ''.main'') ''app'' (from_imports nodes) then [] else [''incorrect_test_package_import''])
            @ client_errors allow_async nodes @ endpoint_call_errors endpoint nodes
            @ (if list_ex is_status_assert assertions then [] else [''missing_status_code_assertion''])
            @ (if json_asserted then [] else [''incorrect_json_assertion''])
            @ pytest_errors nodes @ app_argument_errors nodes))))"

end
