(* ===== verification/TestCodeProps.thy ===== *)
theory TestCodeProps
  imports TestCode
begin

text \<open>
  The test the service writes itself (\<open>build_fastapi_health_test\<close>) against the validator of test
  code. The expected JSON is written into the test as JSON, which Python reads as an expression only
  when it holds no \<open>true\<close>, \<open>false\<close> or \<open>null\<close>: for such a request the service's own test is
  rejected, whatever the model does.
\<close>

section \<open>JSON as a Python expression\<close>

text \<open>The tree that Python's parser gives for a JSON text.\<close>

definition leaf :: "ast_kind \<Rightarrow> py_ast" where
  "leaf k = Node k []"

definition load_ctx :: "string \<times> py_ast list" where
  "load_ctx = (''ctx'', [leaf OtherNode])"

definition name_node :: "string \<Rightarrow> py_ast" where
  "name_node i = Node (Name i) [load_ctx]"

definition negated_node :: "pyval \<Rightarrow> py_ast" where
  "negated_node v = Node UnaryOp [(''op'', [leaf USub]), (''operand'', [leaf (Constant v)])]"

fun json_ast :: "pyval \<Rightarrow> py_ast" where
  "json_ast PNone = name_node ''null''"
| "json_ast (PBool b) = name_node (if b then ''true'' else ''false'')"
| "json_ast (PInt i) = (if i < 0 then negated_node (PInt (- i)) else leaf (Constant (PInt i)))"
| "json_ast (PFloat r) = (if r < 0 then negated_node (PFloat (- r)) else leaf (Constant (PFloat r)))"
| "json_ast (PStr s) = leaf (Constant (PStr s))"
| "json_ast (PList xs) = Node ListDisplay [(''elts'', map json_ast xs), load_ctx]"
| "json_ast (PDict d) =
     (let members = sort_key fst (map (\<lambda>(k, v). (k, json_ast v)) d) in
      Node DictDisplay [(''keys'', map (\<lambda>(k, n). leaf (Constant (PStr k))) members), (''values'', map snd members)])"

text \<open>Without a constant that Python spells otherwise; objects have each key once.\<close>

fun python_readable :: "pyval \<Rightarrow> bool" where
  "python_readable PNone = False"
| "python_readable (PBool b) = False"
| "python_readable (PList xs) = list_all python_readable xs"
| "python_readable (PDict d) = list_all (\<lambda>(k, v). python_readable v) d"
| "python_readable _ = True"

fun json_ok :: "pyval \<Rightarrow> bool" where
  "json_ok (PList xs) = list_all json_ok xs"
| "json_ok (PDict d) = (distinct (map fst d) \<and> list_all (\<lambda>(k, v). json_ok v) d)"
| "json_ok _ = True"

fun sorted_json :: "pyval \<Rightarrow> pyval" where
  "sorted_json (PList xs) = PList (map sorted_json xs)"
| "sorted_json (PDict d) = PDict (sort_key fst (map (\<lambda>(k, v). (k, sorted_json v)) d))"
| "sorted_json v = v"

section \<open>What it evaluates to\<close>

lemma mapm_map: "mapm f (map g xs) = mapm (\<lambda>x. f (g x)) xs"
  by (induction xs) auto

lemma mapm_if:
  assumes "\<And>x. x \<in> set xs \<Longrightarrow> f x = (if p x then Inr (g x) else Inl e)"
  shows "mapm f xs = (if list_all p xs then Inr (map g xs) else Inl e)"
  using assms by (induction xs) auto

lemma update_new: "k \<notin> fst ` set d \<Longrightarrow> AList.update k v d = d @ [(k, v)]"
  by (induction d) auto

lemma update_all_new: "distinct (map fst (d @ e)) \<Longrightarrow> foldl (\<lambda>d (k, v). AList.update k v d) d e = d @ e"
proof (induction e arbitrary: d)
  case (Cons x e)
  obtain k v where x: "x = (k, v)" by (cases x)
  with Cons.prems have "k \<notin> fst ` set d" by auto
  with Cons.IH[of "d @ [(k, v)]"] Cons.prems show ?case by (simp add: x update_new)
qed simp

lemma pair_up_members:
  "pair_up (map (\<lambda>(k, n). Some (PStr k)) ms) (map (\<lambda>(k, n). Some (f n)) ms) = Some (map (\<lambda>(k, n). (k, Some (f n))) ms)"
  by (induction ms) auto

lemma dict_of_members:
  "distinct (map fst ms) \<Longrightarrow> dict_of (map (\<lambda>(k, n). (k, Some (f n))) ms) = Some (PDict (map (\<lambda>(k, n). (k, f n)) ms))"
proof -
  assume d: "distinct (map fst ms)"
  have "map fst (map (\<lambda>(k, n). (k, Some (f n))) ms) = map fst ms" by (induction ms) auto
  with d have "foldl (\<lambda>d (k, v). AList.update k v d) [] (map (\<lambda>(k, n). (k, Some (f n))) ms) = map (\<lambda>(k, n). (k, Some (f n))) ms"
    using update_all_new[of "[]" "map (\<lambda>(k, n). (k, Some (f n))) ms"] by (simp only: append_Nil)
  then show ?thesis by (auto simp: dict_of_def Let_def list_all_iff comp_def case_prod_unfold)
qed

lemma insort_fst_map:
  "insort_key fst (k, f v) (map (\<lambda>(k, v). (k, f v)) d) = map (\<lambda>(k, v). (k, f v)) (insort_key fst (k, v) d)"
  by (induction d) auto

lemma sort_key_fst_map: "sort_key fst (map (\<lambda>(k, v). (k, f v)) d) = map (\<lambda>(k, v). (k, f v)) (sort_key fst d)"
  by (induction d) (auto simp: insort_fst_map)

lemma literal_eval_json:
  "json_ok v \<Longrightarrow> literal_eval (json_ast v) = (if python_readable v then Inr (Some (sorted_json v)) else Inl malformed)"
proof (induction v rule: json_ast.induct)
  case (6 xs)
  then have "literal_eval (json_ast x) = (if python_readable x then Inr (Some (sorted_json x)) else Inl malformed)"
    if "x \<in> set xs" for x using that by (auto simp: list_all_iff)
  then have "mapm (\<lambda>x. literal_eval (json_ast x)) xs
      = (if list_all python_readable xs then Inr (map (Some \<circ> sorted_json) xs) else Inl malformed)"
    by (intro mapm_if) auto
  then show ?case
    by (auto simp: literal_eval.simps[of "Node ListDisplay _"] load_ctx_def mapm_map)
next
  case (7 d)
  let ?s = "sort_key fst d"
  have IH: "literal_eval (json_ast v) = (if python_readable v then Inr (Some (sorted_json v)) else Inl malformed)"
    if "(k, v) \<in> set ?s" for k v using that 7 by (auto simp: list_all_iff)
  have vals: "mapm (\<lambda>x. literal_eval (json_ast (snd x))) ?s
      = (if list_all (python_readable \<circ> snd) ?s then Inr (map (\<lambda>x. Some (sorted_json (snd x))) ?s) else Inl malformed)"
    using IH by (intro mapm_if) auto
  have keys: "mapm (\<lambda>x. literal_eval (leaf (Constant (PStr (fst x))))) ?s = Inr (map (\<lambda>x. Some (PStr (fst x))) ?s)"
    by (intro mapm_pure) (simp add: leaf_def literal_eval.simps)
  have dist: "distinct (map fst ?s)" using 7 by (simp add: distinct_map)
  have members: "pair_up (map (\<lambda>x. Some (PStr (fst x))) ?s) (map (\<lambda>x. Some (sorted_json (snd x))) ?s)
      = Some (map (\<lambda>(k, v). (k, Some (sorted_json v))) ?s)"
    using pair_up_members[of ?s sorted_json] by (simp add: case_prod_unfold)
  have eval: "literal_eval (json_ast (PDict d)) = bind (mapm (\<lambda>x. literal_eval (leaf (Constant (PStr (fst x))))) ?s) (\<lambda>ks.
      bind (mapm (\<lambda>x. literal_eval (json_ast (snd x))) ?s) (\<lambda>vs.
      if \<not> list_all hashable_literal ks then Inl Unmodelled
      else case pair_up ks vs of None \<Rightarrow> Inr None | Some ms \<Rightarrow> Inr (dict_of ms)))"
    by (simp add: sort_key_fst_map Let_def)
      (simp add: literal_eval.simps[of "Node DictDisplay _"] mapm_map comp_def case_prod_unfold)
  show ?case
    unfolding eval keys vals
    using dict_of_members[OF dist, of sorted_json] sort_key_fst_map[of sorted_json d]
    by (auto simp: members list_all_iff hashable_literal_def case_prod_unfold)
qed (auto simp: literal_eval.simps name_node_def negated_node_def leaf_def kid_def load_ctx_def)

lemma py_eq_float: "py_eq (PFloat x) (PFloat y) \<longleftrightarrow> x = y"
  by (subst py_eq.simps) simp

lemma py_eq_sorted: "json_ok v \<Longrightarrow> py_eq (sorted_json v) v"
proof (induction v rule: sorted_json.induct)
  case (1 xs)
  then show ?case by (auto simp: py_eq_list_iff list_all_iff list_all2_map1 intro: list_all2_all_nthI)
next
  case (2 d)
  have "\<exists>w. map_of d k = Some w \<and> py_eq (sorted_json v) w" if "(k, v) \<in> set d" for k v
    using 2 that by (auto simp: list_all_iff)
  then show ?case by (force simp: py_eq_dict_iff sort_key_fst_map list_all_iff split: option.splits)
qed (auto simp: py_eq_float)

section \<open>The tree of the service's test\<close>

definition call_node_of :: "py_ast \<Rightarrow> py_ast list \<Rightarrow> py_ast" where
  "call_node_of f args = Node Call [(''func'', [f]), (''args'', args), (''keywords'', [])]"

definition attribute_node :: "py_ast \<Rightarrow> string \<Rightarrow> py_ast" where
  "attribute_node n a = Node (Attribute a) [(''value'', [n]), load_ctx]"

definition import_node :: "string \<Rightarrow> string \<Rightarrow> py_ast" where
  "import_node m name = Node (ImportFrom (Some m)) [(''names'', [leaf (Alias name)])]"

definition assign_node :: "string \<Rightarrow> py_ast \<Rightarrow> py_ast" where
  "assign_node i v = Node Assign [(''targets'', [name_node i]), (''value'', [v])]"

definition assert_equal_node :: "py_ast \<Rightarrow> py_ast \<Rightarrow> py_ast" where
  "assert_equal_node a b =
    Node Assert [(''test'', [Node Compare [(''left'', [a]), (''ops'', [leaf Eq]), (''comparators'', [b])]])]"

definition health_tree :: "string \<Rightarrow> string \<Rightarrow> int \<Rightarrow> pydict \<Rightarrow> py_ast" where
  "health_tree package endpoint status expected =
    Node OtherNode [(''body'',
      [import_node ''fastapi.testclient'' ''TestClient'', import_node (underscored package @ ''.main'') ''app'',
       assign_node ''client'' (call_node_of (name_node ''TestClient'') [name_node ''app'']),
       Node (FunctionDef ''test_health'') [(''args'', [leaf OtherNode]), (''body'',
         [assign_node ''response'' (call_node_of (attribute_node (name_node ''client'') ''get'') [leaf (Constant (PStr endpoint))]),
          assert_equal_node (attribute_node (name_node ''response'') ''status_code'') (json_ast (PInt status)),
          assert_equal_node (call_node_of (attribute_node (name_node ''response'') ''json'') []) (json_ast (PDict expected))])]])]"

text \<open>The nodes of a JSON expression are of no interest to the checks.\<close>

definition inert :: "py_ast \<Rightarrow> bool" where
  "inert n \<longleftrightarrow> n \<in> range json_ast \<or> n = name_node ''response'' \<or> (\<exists>k. n = leaf k \<and> (k = USub \<or> k = OtherNode \<or> (\<exists>v. k = Constant v)))"

lemma inertI: "inert (json_ast v)" "inert (leaf (Constant v))" "inert (leaf USub)" "inert (leaf OtherNode)"
    "inert (name_node ''response'')"
  by (auto simp: inert_def)

lemma inertE:
  assumes "inert n"
  obtains (json) v where "n = json_ast v" | (response) "n = name_node ''response''" | (leaf) k where "n = leaf k" "k = USub \<or> k = OtherNode \<or> (\<exists>v. k = Constant v)"
  using assms unfolding inert_def by blast

lemma children_of: "children (leaf k) = []" "children (name_node i) = [leaf OtherNode]"
    "children (negated_node v) = [leaf USub, leaf (Constant v)]"
    "children (Node ListDisplay [(''elts'', xs), load_ctx]) = xs @ [leaf OtherNode]"
    "children (Node DictDisplay [(''keys'', xs), (''values'', ys)]) = xs @ ys"
  by (simp_all add: leaf_def name_node_def negated_node_def load_ctx_def)

lemma inert_children: "inert n \<Longrightarrow> m \<in> set (children n) \<Longrightarrow> inert m"
proof (erule inertE)
  fix v assume m: "m \<in> set (children n)" and n: "n = json_ast v"
  have "\<forall>m \<in> set (children (json_ast v)). inert m"
    by (cases v) (auto simp: children_of Let_def inertI case_prod_unfold simp del: children.simps)
  with m n show "inert m" by simp
qed (auto simp: children_of inertI simp del: children.simps)

lemma inert_walk: "\<forall>n \<in> set q. inert n \<Longrightarrow> \<forall>n \<in> set (walk_from q). inert n"
proof (induction q rule: walk_from.induct)
  case (2 n q)
  have "\<forall>m \<in> set (q @ children n). inert m" using inert_children[of n] 2(2) by (simp only: set_append list.set) blast
  from 2(1)[OF this] 2(2) show ?case by (simp only: walk_from.simps list.set) blast
qed simp

lemma inert_kind:
  "inert n \<Longrightarrow> kind_of n \<in> {DictDisplay, ListDisplay, UnaryOp, USub, OtherNode, Name ''null'', Name ''true'', Name ''false'', Name ''response''}
     \<or> (\<exists>v. kind_of n = Constant v)"
proof (erule inertE)
  fix v assume "n = json_ast v"
  then show ?thesis by (cases v) (simp_all add: name_node_def negated_node_def leaf_def Let_def)
qed (auto simp: leaf_def name_node_def)

lemma inert_rest:
  assumes "\<forall>n \<in> set rest. inert n"
  shows "from_imports rest = []" "filter (\<lambda>n. kind_of n = Call) rest = []" "filter (\<lambda>n. kind_of n = Assert) rest = []"
    "get_endpoints rest = []" "\<not> list_ex (\<lambda>n. kind_of n = Import \<and> ''pytest'' \<in> set (alias_names n)) rest"
    "app_argument_errors rest = []"
proof -
  have k: "kind_of n \<notin> {Call, Assert, Import} \<and> (\<nexists>m. kind_of n = ImportFrom m)" if "n \<in> set rest" for n
    using inert_kind[of n] assms that by auto
  show "from_imports rest = []" "get_endpoints rest = []"
    using k by (auto simp: from_imports_def get_endpoints_def map_filter_def filter_empty_conv split: ast_kind.splits)
  show "filter (\<lambda>n. kind_of n = Call) rest = []" "filter (\<lambda>n. kind_of n = Assert) rest = []"
      "\<not> list_ex (\<lambda>n. kind_of n = Import \<and> ''pytest'' \<in> set (alias_names n)) rest" "app_argument_errors rest = []"
    using k by (auto simp: filter_empty_conv list_ex_iff app_argument_errors_def)
qed

lemma nodes_Cons:
  "from_imports (n # ns) = (case kind_of n of ImportFrom m \<Rightarrow> (m, alias_names n) # from_imports ns | _ \<Rightarrow> from_imports ns)"
  "get_endpoints (n # ns) = get_endpoints [n] @ get_endpoints ns"
  "app_argument_errors (n # ns) = app_argument_errors [n] @ app_argument_errors ns"
  by (auto simp: from_imports_def get_endpoints_def app_argument_errors_def map_filter_def split: ast_kind.split)

lemmas node_defs = import_node_def assign_node_def call_node_of_def attribute_node_def assert_equal_node_def
  name_node_def leaf_def load_ctx_def

definition json_tail :: "pydict \<Rightarrow> py_ast list" where
  "json_tail expected = walk_from (children (json_ast (PDict expected)) @
     [leaf OtherNode, leaf OtherNode, name_node ''response'', leaf OtherNode])"

lemma json_tail_inert: "\<forall>n \<in> set (json_tail expected). inert n"
  unfolding json_tail_def
  by (rule inert_walk) (auto simp: inertI simp del: children.simps json_ast.simps dest: inert_children[OF inertI(1)])

lemmas tail_rest = inert_rest[OF json_tail_inert]

definition get_call :: "string \<Rightarrow> py_ast" where
  "get_call endpoint = call_node_of (attribute_node (name_node ''client'') ''get'') [leaf (Constant (PStr endpoint))]"

definition response_json :: py_ast where
  "response_json = call_node_of (attribute_node (name_node ''response'') ''json'') []"

definition status_assert :: py_ast where
  "status_assert = assert_equal_node (attribute_node (name_node ''response'') ''status_code'') (leaf (Constant (PInt 200)))"

definition json_assert :: "pydict \<Rightarrow> py_ast" where
  "json_assert expected = assert_equal_node response_json (json_ast (PDict expected))"

definition health_prefix :: "string \<Rightarrow> string \<Rightarrow> pydict \<Rightarrow> py_ast list" where
  "health_prefix package endpoint expected =
    [health_tree package endpoint 200 expected,
     import_node ''fastapi.testclient'' ''TestClient'', import_node (underscored package @ ''.main'') ''app'',
     assign_node ''client'' (call_node_of (name_node ''TestClient'') [name_node ''app'']),
     Node (FunctionDef ''test_health'') [(''args'', [leaf OtherNode]),
       (''body'', [assign_node ''response'' (get_call endpoint), status_assert, json_assert expected])],
     leaf (Alias ''TestClient''), leaf (Alias ''app''), name_node ''client'',
     call_node_of (name_node ''TestClient'') [name_node ''app''], leaf OtherNode,
     assign_node ''response'' (get_call endpoint), status_assert, json_assert expected,
     leaf OtherNode, name_node ''TestClient'', name_node ''app'', name_node ''response'', get_call endpoint]
    @ children status_assert @ children (json_assert expected)
    @ [leaf OtherNode, leaf OtherNode, leaf OtherNode, attribute_node (name_node ''client'') ''get'', leaf (Constant (PStr endpoint)),
       attribute_node (name_node ''response'') ''status_code'', leaf Eq, leaf (Constant (PInt 200)),
       response_json, leaf Eq, json_ast (PDict expected), name_node ''client'', leaf OtherNode,
       name_node ''response'', leaf OtherNode, attribute_node (name_node ''response'') ''json'']"

lemmas health_defs = health_tree_def node_defs get_call_def response_json_def status_assert_def json_assert_def

lemma health_walk: "walk (health_tree package endpoint 200 expected) = health_prefix package endpoint expected @ json_tail expected"
  by (simp add: walk_def health_prefix_def health_defs json_tail_def del: json_ast.simps add: json_ast.simps(3))

lemma json_kind: "kind_of (json_ast (PDict d)) = DictDisplay"
  by (simp add: Let_def)

lemma nodes_append:
  "from_imports (ms @ ns) = from_imports ms @ from_imports ns" "get_endpoints (ms @ ns) = get_endpoints ms @ get_endpoints ns"
  "app_argument_errors (ms @ ns) = app_argument_errors ms @ app_argument_errors ns"
  by (auto simp: from_imports_def get_endpoints_def app_argument_errors_def map_filter_def)

lemma prefix_nodes:
  "from_imports (health_prefix package endpoint expected) =
    [(Some ''fastapi.testclient'', [''TestClient'']), (Some (underscored package @ ''.main''), [''app''])]"
  "filter (\<lambda>n. kind_of n = Call) (health_prefix package endpoint expected) =
    [call_node_of (name_node ''TestClient'') [name_node ''app''], get_call endpoint, response_json]"
  "filter (\<lambda>n. kind_of n = Assert) (health_prefix package endpoint expected) = [status_assert, json_assert expected]"
  "get_endpoints (health_prefix package endpoint expected) = [endpoint]"
  "app_argument_errors (health_prefix package endpoint expected) = []"
  "\<not> list_ex (\<lambda>n. kind_of n = Import \<and> ''pytest'' \<in> set (alias_names n)) (health_prefix package endpoint expected)"
  by (simp_all add: health_prefix_def health_defs from_imports_def get_endpoints_def app_argument_errors_def alias_names_def
      kid_is_def kid_def call_name_def has_app_argument_def map_filter_def json_kind del: json_ast.simps)

lemma json_assertion:
  assumes "json_ok (PDict expected)"
  shows "any_json_assert expected [status_assert, json_assert expected] = Inr (python_readable (PDict expected))"
proof -
  have e: "literal_eval (json_ast (PDict expected)) =
      (if python_readable (PDict expected) then Inr (Some (sorted_json (PDict expected))) else Inl malformed)"
    by (rule literal_eval_json[OF assms])
  have sides: "equality_sides status_assert = Some (attribute_node (name_node ''response'') ''status_code'', leaf (Constant (PInt 200)))"
      "equality_sides (json_assert expected) = Some (response_json, json_ast (PDict expected))"
    by (simp_all add: equality_sides_def health_defs kid_def del: json_ast.simps)
  have calls: "json_call response_json" "\<not> json_call (json_ast (PDict expected))"
      "\<not> json_call (attribute_node m a)" "\<not> json_call (leaf (Constant v))" for m a v
    by (simp_all add: json_call_def health_defs kid_is_def kid_def json_kind del: json_ast.simps)
  show ?thesis
    using py_eq_sorted[OF assms]
    by (simp add: is_json_assert_def sides calls e malformed_def del: json_ast.simps sorted_json.simps python_readable.simps)
qed

section \<open>The verdict\<close>

text \<open>(C19) The test that the service writes for a health endpoint passes the validator of test code when the
  expected JSON has no \<open>true\<close>, \<open>false\<close> or \<open>null\<close>. When it has one, the validator rejects it, for
  exactly one reason (\<open>incorrect_json_assertion\<close>): Python reads these constants of JSON as names.\<close>

theorem health_test_verdict:
  assumes "parse (build_fastapi_health_test package endpoint 200 expected) = Some (health_tree package endpoint 200 expected)"
    and "underscored package = package" "endpoint \<noteq> []" "json_ok (PDict expected)"
  shows "validate_fastapi_test_code parse allow_async (build_fastapi_health_test package endpoint 200 expected) package endpoint expected
    = Inr (if python_readable (PDict expected) then [] else [''incorrect_json_assertion''])"
proof -
  let ?nodes = "health_prefix package endpoint expected @ json_tail expected"
  have collected: "collect_pytest_test_functions parse (build_fastapi_health_test package endpoint 200 expected) = [''test_health'']"
    by (simp add: collect_pytest_test_functions_def assms(1) health_defs collected_from_def test_function_def starts_with_def
        del: json_ast.simps)
  have imported: "imports_name (package @ ''.main'') ''app'' (from_imports ?nodes)"
    by (simp add: nodes_append prefix_nodes tail_rest imports_name_def assms(2))
  have client: "client_errors allow_async ?nodes = []"
    by (simp add: client_errors_def nodes_append prefix_nodes tail_rest imports_name_def calls_named_def call_name_def kid_def kid_is_def
        health_defs ALLOWED_SYNC_IMPORTS_def)
  have endpoints: "endpoint_call_errors endpoint ?nodes = []"
    by (simp add: endpoint_call_errors_def nodes_append prefix_nodes tail_rest)
  have empty: "python_readable (PDict [])" by simp
  have status: "is_status_assert status_assert"
    by (simp add: is_status_assert_def equality_sides_def status_side_def kid_def health_defs)
  have pytest: "pytest_errors ?nodes = []" "app_argument_errors ?nodes = []"
    using prefix_nodes(5,6) tail_rest(5,6) by (simp_all add: pytest_errors_def nodes_append list_ex_iff ball_Un bex_Un)
  show ?thesis
    using json_assertion[OF assms(4)] status empty dedupe_distinct[of "[''incorrect_json_assertion'']"]
    by (simp add: validate_fastapi_test_code_def assms(1) health_walk Let_def prefix_nodes tail_rest collected imported client endpoints
        pytest del: json_ast.simps python_readable.simps)
qed

text \<open>A request for \<open>{"ok": true}\<close>: the service's own test is rejected.\<close>

definition health_parser :: "string \<Rightarrow> py_ast option" where
  "health_parser s = (if s = build_fastapi_health_test ''demo'' ''/health'' 200 [(''ok'', PBool True)]
     then Some (health_tree ''demo'' ''/health'' 200 [(''ok'', PBool True)]) else None)"

theorem health_test_verdict_witness:
  "validate_fastapi_test_code health_parser False (build_fastapi_health_test ''demo'' ''/health'' 200 [(''ok'', PBool True)])
     ''demo'' ''/health'' [(''ok'', PBool True)] = Inr [''incorrect_json_assertion'']"
  using health_test_verdict[of health_parser "''demo''" "''/health''" "[(''ok'', PBool True)]" False]
  by (simp add: health_parser_def underscored_def)

end
