(* ===== verification/ImplementationChecks.thy ===== *)
theory ImplementationChecks
  imports TestCode ImplementationPlan PlanContract GraphNodes
begin

text \<open>
  The implementation subgraph's state, the routers and the checks of a proposed implementation
  (graph/subgraphs/implementation: state.py, routers.py, validators.py). The parser of test code is
  a parameter.
\<close>

section \<open>State\<close>

definition IMPLEMENTATION_STATE_FIELDS :: "string list" where
  "IMPLEMENTATION_STATE_FIELDS =
    [''original_user_message'', ''project_name'', ''workflow_intent'', ''project_exists'', ''requirement_analysis'',
     ''acceptance_criteria'', ''implementation_tasks'', ''generated_package_name'', ''generated_files'',
     ''collectable_test_count'', ''test_functions'', ''implementation_valid'', ''implementation_errors'',
     ''resolved_validation_errors'', ''remaining_validation_errors'', ''refinement_input_errors'',
     ''implementation_attempts'', ''max_implementation_attempts'', ''implementation_failure_reason'',
     ''project_implementation'', ''developer_knowledge_query'', ''developer_knowledge_retrieval_id'',
     ''developer_knowledge_context'', ''developer_knowledge_sources'', ''developer_knowledge_state'',
     ''knowledge_context_state'', ''knowledge_retrieval_used'', ''retrieved_context_count'',
     ''knowledge_context_tokens'', ''retrieval_id'', ''dependency_policy_applied'', ''normalized_dependency_file'',
     ''dependency_policy_errors'', ''dependency_normalization_attempts'', ''project_created'',
     ''created_project_name'', ''detected_test_framework'', ''expected_test_command'', ''environment_prepared'',
     ''dependencies_installed'', ''environment_python'', ''installed_fastapi_version'',
     ''installed_starlette_version'', ''test_infrastructure_failed'', ''pending_operation'', ''pending_tool_name'',
     ''pending_tool_arguments'', ''pending_approval_preview'', ''pending_approval_status'', ''approval_reason'',
     ''last_approved_tool'', ''last_rejected_tool'', ''user_cancelled'', ''terminal_status'', ''failure_type'',
     ''failure_stage'', ''failure_message'', ''last_completed_node'']"

definition IMPLEMENTATION_OUTPUT_KEYS :: "string list" where
  "IMPLEMENTATION_OUTPUT_KEYS =
    [''generated_package_name'', ''generated_files'', ''collectable_test_count'', ''test_functions'',
     ''implementation_valid'', ''implementation_errors'', ''resolved_validation_errors'',
     ''remaining_validation_errors'', ''implementation_attempts'', ''implementation_failure_reason'',
     ''project_implementation'', ''developer_knowledge_query'', ''developer_knowledge_retrieval_id'',
     ''developer_knowledge_context'', ''developer_knowledge_sources'', ''developer_knowledge_state'',
     ''knowledge_context_state'', ''knowledge_retrieval_used'', ''retrieved_context_count'',
     ''knowledge_context_tokens'', ''retrieval_id'', ''dependency_policy_applied'', ''normalized_dependency_file'',
     ''dependency_policy_errors'', ''dependency_normalization_attempts'', ''project_created'',
     ''created_project_name'', ''project_exists'', ''detected_test_framework'', ''expected_test_command'',
     ''environment_prepared'', ''dependencies_installed'', ''environment_python'', ''installed_fastapi_version'',
     ''installed_starlette_version'', ''test_infrastructure_failed'', ''pending_operation'', ''pending_tool_name'',
     ''pending_tool_arguments'', ''pending_approval_preview'', ''pending_approval_status'', ''approval_reason'',
     ''last_approved_tool'', ''last_rejected_tool'', ''user_cancelled'', ''failure_type'', ''failure_stage'',
     ''failure_message'', ''terminal_status'', ''last_completed_node'']"

section \<open>Routers\<close>

definition CORRECTABLE_DEPENDENCY_ERRORS :: "string list" where
  "CORRECTABLE_DEPENDENCY_ERRORS = [''incompatible_dependency_version'', ''missing_required_dependency'', ''duplicate_dependency'']"

definition MAX_DEPENDENCY_NORMALIZATION_ATTEMPTS :: int where
  "MAX_DEPENDENCY_NORMALIZATION_ATTEMPTS = 2"

fun all_correctable :: "pyval list \<Rightarrow> exn + bool" where
  "all_correctable [] = Inr True"
| "all_correctable (PStr e # es) =
     (if list_ex (starts_with e) CORRECTABLE_DEPENDENCY_ERRORS then all_correctable es else Inr False)"
| "all_correctable (v # es) = Inl AttributeError"

definition only_correctable_errors :: "pyval \<Rightarrow> exn + bool" where
  "only_correctable_errors errors =
    (if \<not> truthy errors then Inr False else bind (as_list errors) all_correctable)"

definition has_only_correctable_dependency_errors :: "pydict \<Rightarrow> exn + bool" where
  "has_only_correctable_dependency_errors state = only_correctable_errors (getd state ''implementation_errors'' (PList []))"

definition route_implementation_entry :: "pydict \<Rightarrow> string" where
  "route_implementation_entry state =
    (let exists = truthy (por (get state ''project_exists'') (get state ''project_created'')) in
     if get state ''workflow_intent'' = PStr ''review_existing_project'' then (if exists then ''existing'' else ''failed'')
     else if exists then ''existing'' else ''create'')"

definition normalizations_of :: "pydict \<Rightarrow> exn + int" where
  "normalizations_of state = as_count (getd state ''dependency_normalization_attempts'' (PInt 0))"

definition impl_attempts_of :: "pydict \<Rightarrow> exn + int" where
  "impl_attempts_of state = as_count (getd state ''implementation_attempts'' (PInt 0))"

definition impl_limit_of :: "pydict \<Rightarrow> exn + int" where
  "impl_limit_of state = as_count (getd state ''max_implementation_attempts'' (PInt 2))"

definition route_after_implementation_validation :: "pydict \<Rightarrow> exn + string" where
  "route_after_implementation_validation state =
    (if truthy (get state ''terminal_status'') then Inr ''failed''
     else if truthy (get state ''implementation_valid'') then Inr ''valid''
     else ifM (has_only_correctable_dependency_errors state)
       (bind (normalizations_of state) (\<lambda>n.
          Inr (if n < MAX_DEPENDENCY_NORMALIZATION_ATTEMPTS then ''normalize'' else ''failed'')))
       (bind (impl_attempts_of state) (\<lambda>a. bind (impl_limit_of state) (\<lambda>m.
          Inr (if a < m then ''refine'' else ''failed'')))))"

definition route_implementation_approval :: "pydict \<Rightarrow> exn + string" where
  "route_implementation_approval state =
    (let operation = get state ''pending_operation'' in
     if get state ''pending_approval_status'' = PStr ''rejected'' \<or> truthy (get state ''user_cancelled'') then Inr ''rejected''
     else if get state ''pending_approval_status'' \<noteq> PStr ''approved''
     then Inl (ValueError (''La aprobaci'' @ [CHR 0xF3] @ ''n de implementaci'' @ [CHR 0xF3] @ ''n debe estar resuelta antes de enrutar.''))
     else if operation = PStr ''create_project'' then Inr ''execute_create_project''
     else if operation = PStr ''prepare_environment'' then Inr ''execute_prepare_environment''
     else bind (py_str operation) (\<lambda>op.
       Inl (ValueError (''Operaci'' @ [CHR 0xF3] @ ''n no permitida dentro de ImplementationSubgraph: '' @ op))))"

definition route_after_create_execution :: "pydict \<Rightarrow> string" where
  "route_after_create_execution state =
    (if truthy (get state ''project_created'') \<or> truthy (get state ''project_exists'') then ''continue'' else ''failed'')"

section \<open>Literals of the request\<close>

definition MAX_FILES :: nat where
  "MAX_FILES = 50"

definition MAX_TOTAL_BYTES :: int where
  "MAX_TOTAL_BYTES = 5 * 1024 * 1024"

definition ENDPOINT_WITH_PATH :: re where
  "ENDPOINT_WITH_PATH =
    seq [Bound, alts (map ci_lit [''GET'', ''POST'', ''PUT'', ''PATCH'', ''DELETE'']), plus (Cls is_space),
         Grp ''1'' (Cat (chr_re (CHR ''/'')) (plus (Cls (\<lambda>c. \<not> is_space c \<and> c \<notin> {CHR '','', CHR ''.'', CHR '';''}))))]"

definition literal_json :: "string \<Rightarrow> string list" where
  "literal_json message = dedupe (re_findall JSON_PATTERN message)"

text \<open>What \<open>json.loads\<close> makes of a literal, or nothing at a decoding error.\<close>

definition decoded :: "string \<Rightarrow> exn + pyval option" where
  "decoded literal =
    (case json_loads (replace_char (CHR 0x27) (CHR 0x22) literal) of
       Inl e \<Rightarrow> if e = json_error then Inr None else Inl e
     | Inr v \<Rightarrow> Inr (Some v))"

definition normalized_json :: "string \<Rightarrow> exn + string option" where
  "normalized_json literal = bind (decoded literal) (\<lambda>v. Inr (map_option (without_space \<circ> json_text) v))"

fun first_object :: "string list \<Rightarrow> exn + pydict option" where
  "first_object [] = Inr None"
| "first_object (l # ls) =
     bind (decoded l) (\<lambda>v. case v of Some (PDict d) \<Rightarrow> Inr (Some d) | _ \<Rightarrow> first_object ls)"

definition extract_fastapi_test_contract :: "pydict \<Rightarrow> exn + (string \<times> pydict) option" where
  "extract_fastapi_test_contract state =
    bind (text_of (getd state ''original_user_message'' (PStr []))) (\<lambda>original.
    case dedupe (map (\<lambda>m. group m ''1'') (re_finditer ENDPOINT_WITH_PATH original)) of
      [endpoint] \<Rightarrow> bind (first_object (literal_json original)) (\<lambda>found. Inr (map_option (Pair endpoint) found))
    | _ \<Rightarrow> Inr None)"

section \<open>The checks\<close>

definition is_test_file :: "GeneratedFile \<Rightarrow> bool" where
  "is_test_file f \<longleftrightarrow> starts_with (f_path f) ''tests/'' \<and> ends_with (f_path f) ''.py''"

definition pytest_file_name :: "GeneratedFile \<Rightarrow> bool" where
  "pytest_file_name f \<longleftrightarrow> (let name = last (split_on (CHR ''/'') (f_path f)) in
     starts_with name ''test_'' \<or> ends_with name ''_test.py'')"

definition report :: "bool \<Rightarrow> string \<Rightarrow> string list" where
  "report bad message = (if bad then [message] else [])"

definition naming_errors :: "pydict \<Rightarrow> ProjectImplementationPlan \<Rightarrow> exn + string list" where
  "naming_errors state plan =
    bind (py_str (por (get state ''project_name'') (por (get state ''created_project_name'') (PStr [])))) (\<lambda>project_name.
    bind (dict_or_empty (get state ''requirement_analysis'')) (\<lambda>analysis.
    bind (py_str (por (get analysis ''project_type'') (PStr (ip_framework plan)))) (\<lambda>kind.
    Inr (report (ip_project_name plan \<noteq> project_name) (''project_name debe coincidir con '' @ project_name @ ''.'')
      @ report (ip_framework plan \<noteq> casefold kind) (''framework debe coincidir con '' @ casefold kind @ ''.'')
      @ report (ip_framework plan = ''fastapi'' \<and> \<not> is_identifier (ip_package_name plan))
          (''package_name debe ser un identificador Python v'' @ [CHR 0xE1] @ ''lido.'')))))"

definition file_errors :: "ProjectImplementationPlan \<Rightarrow> string list" where
  "file_errors plan =
    (let files = ip_files plan; paths = map f_path files; main_path = ip_package_name plan @ ''/main.py'';
         tests = filter is_test_file files in
     report (\<not> distinct (map casefold paths)) (''Los paths generados deben ser '' @ [CHR 0xFA] @ ''nicos.'')
     @ report (length paths > MAX_FILES) (''La implementaci'' @ [CHR 0xF3] @ ''n excede el m'' @ [CHR 0xE1] @ ''ximo de 50 archivos.'')
     @ report (sum_list (map (utf8_size \<circ> f_content) files) > MAX_TOTAL_BYTES)
         (''La implementaci'' @ [CHR 0xF3] @ ''n excede el tama'' @ [CHR 0xF1] @ ''o total permitido.'')
     @ report (ip_framework plan = ''fastapi'' \<and> main_path \<notin> set paths) (''Falta el archivo principal '' @ main_path @ ''.'')
     @ report (tests = []) ''Falta al menos un archivo de test.''
     @ map (\<lambda>f. ''invalid_pytest_test_file_name: '' @ f_path f) (filter (\<lambda>f. \<not> pytest_file_name f) tests)
     @ report (\<not> list_ex (\<lambda>p. p \<in> {''requirements.txt'', ''pyproject.toml'', ''package.json''}) paths)
         ''Falta un archivo de dependencias.''
     @ validate_dependency_file (ip_framework plan) files)"

definition source_content :: "ProjectImplementationPlan \<Rightarrow> string" where
  "source_content plan = join [CHR 0x0A] (map f_content (filter (\<lambda>f. \<not> starts_with (f_path f) ''tests/'') (ip_files plan)))"

definition tests_content :: "ProjectImplementationPlan \<Rightarrow> string" where
  "tests_content plan = join [CHR 0x0A] (map f_content (filter is_test_file (ip_files plan)))"

definition missing_literal :: "string \<Rightarrow> string \<Rightarrow> string \<Rightarrow> string \<Rightarrow> exn + string list" where
  "missing_literal content before_text after_text literal =
    bind (normalized_json literal) (\<lambda>n. Inr (case n of
      Some (c # s) \<Rightarrow> report (\<not> contains (without_space content) (c # s)) (before_text @ literal @ after_text) | _ \<Rightarrow> []))"

definition contract_errors :: "string \<Rightarrow> ProjectImplementationPlan \<Rightarrow> exn + string list" where
  "contract_errors original plan =
    bind (mapm (missing_literal (source_content plan) ''El literal JSON '' '' no fue preservado.'') (literal_json original)) (\<lambda>sources.
    bind (mapm (missing_literal (tests_content plan) ''Los tests no validan el literal JSON '' ''.'') (literal_json original)) (\<lambda>tests.
    Inr (concat (map (\<lambda>m. report (\<not> contains (source_content plan) (group m ''1''))
            (''El endpoint literal '' @ m_text m @ '' no fue preservado.'')) (re_finditer ENDPOINT_WITH_PATH original))
      @ concat sources @ concat tests)))"

text \<open>\<open>json.dumps(v, ensure_ascii=False)\<close>: the members in their order.\<close>

fun json_plain :: "pyval \<Rightarrow> string" where
  "json_plain (PList xs) = ''['' @ join '', '' (map json_plain xs) @ '']''"
| "json_plain (PDict d) = ''{'' @ join '', '' (map (\<lambda>(k, v). json_string k @ '': '' @ json_plain v) d) @ ''}''"
| "json_plain v = json_text v"

definition ASYNC_PATTERN :: re where
  "ASYNC_PATTERN = seq [Bound, alts [lit ''async'', lit ''asynchronous'',
     seq [lit ''as'', Cls (\<lambda>c. c = CHR ''i'' \<or> c = CHR 0xED), lit ''ncron'', Cls (\<lambda>c. c = CHR ''o'' \<or> c = CHR ''a'')]], Bound]"

definition async_requested :: "string \<Rightarrow> pydict \<Rightarrow> bool" where
  "async_requested original state =
    re_found ASYNC_PATTERN (casefold (json_plain (PDict
      [(''request'', PStr original), (''analysis'', get state ''requirement_analysis''),
       (''tasks'', getd state ''implementation_tasks'' (PList []))])))"

definition fastapi_test_errors ::
  "(string \<Rightarrow> py_ast option) \<Rightarrow> string \<Rightarrow> pydict \<Rightarrow> ProjectImplementationPlan \<Rightarrow> exn + string list" where
  "fastapi_test_errors parse original state plan =
    (let tests = filter is_test_file (ip_files plan); main = ip_package_name plan @ ''.main'' in
     if ip_framework plan \<noteq> ''fastapi'' \<or> tests = [] then Inr []
     else bind (extract_fastapi_test_contract state) (\<lambda>contract.
       let (endpoint, expected) = (case contract of Some c \<Rightarrow> c | None \<Rightarrow> ([], [])) in
       bind (mapm (\<lambda>f. validate_fastapi_test_code parse (async_requested original state) (f_content f)
              (ip_package_name plan) endpoint expected) tests) (\<lambda>found.
       Inr (report (\<not> contains (tests_content plan) (''from '' @ main @ '' import'')) (''El test debe importar desde '' @ main @ ''.'')
         @ concat found))))"

definition PROHIBITED :: "(string \<times> string list) list" where
  "PROHIBITED = [(''authentication'', [''auth'', ''oauth'', ''jwt'']),
     (''database'', [''database'', ''repository'', ''migration'', ''sqlalchemy'']),
     (''docker'', [''dockerfile'', ''docker-compose'']), (''ci/cd'', [''.github/workflows'', ''gitlab-ci''])]"

definition scope_violations :: "string \<Rightarrow> ProjectImplementationPlan \<Rightarrow> string list" where
  "scope_violations original plan =
    concat (map (\<lambda>(label, markers).
      report (\<not> any_in markers (casefold original) \<and> any_in markers (casefold (join [CHR 0x0A] (map f_path (ip_files plan)))))
        (''La implementaci'' @ [CHR 0xF3] @ ''n agreg'' @ [CHR 0xF3] @ '' un componente no solicitado: '' @ label @ ''.'')) PROHIBITED)"

definition validate_project_implementation ::
  "(string \<Rightarrow> py_ast option) \<Rightarrow> pydict \<Rightarrow> ProjectImplementationPlan \<Rightarrow> exn + string list" where
  "validate_project_implementation parse state plan =
    bind (naming_errors state plan) (\<lambda>naming.
    bind (text_of (getd state ''original_user_message'' (PStr []))) (\<lambda>original.
    bind (contract_errors original plan) (\<lambda>contract.
    bind (fastapi_test_errors parse original state plan) (\<lambda>tests.
    Inr (dedupe (naming @ file_errors plan @ contract @ tests @ scope_violations original plan))))))"

definition collectable_tests :: "(string \<Rightarrow> py_ast option) \<Rightarrow> ProjectImplementationPlan \<Rightarrow> string list" where
  "collectable_tests parse plan =
    concat (map (\<lambda>f. collect_pytest_test_functions parse (f_content f))
      (filter (\<lambda>f. is_test_file f \<and> pytest_file_name f) (ip_files plan)))"

end
