(* ===== verification/ImplementationGraph.thy ===== *)
theory ImplementationGraph
  imports ImplementationChecks TestingRepair
begin

text \<open>
  The implementation subgraph (graph/subgraphs/implementation: prompts.py, service.py, builder.py):
  the developer's service with its deterministic test, the nodes that propose, normalise, validate
  and refine an implementation, and the graph as a step function. The parser of test code, the
  texts of pydantic's complaints, the model's replies and LangGraph's merge are parameters; events
  and logs are left out.
\<close>

section \<open>Parameters\<close>

text \<open>What a call of the model gives: no reply in time, an answer the schema refuses, a refusal, any
  other failure, or a response with its completeness, its parsed plan and whether it holds a refusal.\<close>

datatype build_reply =
    NoAnswer
  | BadAnswer string
  | RefusedCall
  | FailedCall string
  | Answer bool "ProjectImplementationPlan option" bool

text \<open>
  \<open>im_complaint\<close> is the text of pydantic's error for a raw value that does not parse;
  \<open>im_problems\<close> its single errors as place and message, of which there is at least one.
\<close>

record 'x ImplementationDeps =
  im_graph :: "'x GraphDependencies"
  im_settings :: Settings
  im_parse :: "string \<Rightarrow> py_ast option"
  im_complaint :: "pydict \<Rightarrow> string"
  im_problems :: "pydict \<Rightarrow> (string \<times> string) \<times> (string \<times> string) list"
  im_reply :: "bool \<Rightarrow> pydict \<Rightarrow> build_reply"

section \<open>Plans as dictionaries\<close>

definition dump_file :: "GeneratedFile \<Rightarrow> pyval" where
  "dump_file f = PDict [(''path'', PStr (f_path f)), (''content'', PStr (f_content f))]"

definition dump_plan :: "ProjectImplementationPlan \<Rightarrow> pydict" where
  "dump_plan plan =
    [(''project_name'', PStr (ip_project_name plan)), (''framework'', PStr (ip_framework plan)),
     (''package_name'', PStr (ip_package_name plan)), (''files'', PList (map dump_file (ip_files plan)))]"

text \<open>\<open>model_validate\<close>: the plan, pydantic's error, or an exception of another kind.\<close>

datatype 'a validated = Valid 'a | Invalid | Raised exn

definition model_validate :: "pydict \<Rightarrow> ProjectImplementationPlan validated" where
  "model_validate raw =
    (case parse_implementation_plan raw of
       Inr plan \<Rightarrow> Valid plan | Inl (ValueError m) \<Rightarrow> Invalid | Inl e \<Rightarrow> Raised e)"

section \<open>The service\<close>

definition DEVELOPER_TOOL :: string where
  "DEVELOPER_TOOL = ''filesystem__create_project_structure''"

definition health_test_file :: "ProjectImplementationPlan \<Rightarrow> string \<Rightarrow> pydict \<Rightarrow> GeneratedFile" where
  "health_test_file plan endpoint expected =
    \<lparr>f_path = ''tests/test_health.py'',
     f_content = build_fastapi_health_test (ip_package_name plan) endpoint 200 expected\<rparr>"

text \<open>The deterministic test takes the place of the first test and the other tests are dropped; without
  a test it comes last.\<close>

fun put_test :: "GeneratedFile \<Rightarrow> bool \<Rightarrow> GeneratedFile list \<Rightarrow> GeneratedFile list" where
  "put_test t inserted [] = (if inserted then [] else [t])"
| "put_test t inserted (f # fs) =
     (if is_test_file f then (if inserted then put_test t True fs else t # put_test t True fs)
      else f # put_test t inserted fs)"

text \<open>A domain error of the service, as its code and its message, beside the exceptions.\<close>

type_synonym domain_error = "string \<times> string"

definition apply_deterministic_health_test ::
  "(pydict \<Rightarrow> string) \<Rightarrow> pydict \<Rightarrow> ProjectImplementationPlan \<Rightarrow> exn + domain_error + ProjectImplementationPlan" where
  "apply_deterministic_health_test complaint_text state plan =
    bind (extract_fastapi_test_contract state) (\<lambda>contract. Inr (
      case contract of
        None \<Rightarrow> Inr plan
      | Some (endpoint, expected) \<Rightarrow>
          if ip_framework plan \<noteq> ''fastapi'' \<or> endpoint \<noteq> ''/health'' then Inr plan
          else (let t = health_test_file plan endpoint expected in
            case parse_generated_file (dump_file t) of
              Inl e \<Rightarrow> Inl (''implementation_schema_invalid'', complaint_text (mapping_of (dump_file t)))
            | Inr t' \<Rightarrow> Inr (plan\<lparr>ip_files := put_test t' False (ip_files plan)\<rparr>))))"

text \<open>The proposal made of the arguments a resolver gives.\<close>

definition resolved_candidate :: "pydict \<Rightarrow> pydict \<Rightarrow> exn + pydict" where
  "resolved_candidate state arguments =
    bind (dict_or_empty (get state ''requirement_analysis'')) (\<lambda>analysis.
    bind (py_str (por (get analysis ''project_name'') (por (get arguments ''project_name'') (PStr [])))) (\<lambda>name.
    Inr [(''project_name'', get arguments ''project_name''),
      (''framework'', por (get analysis ''project_type'') (PStr ''fastapi'')),
      (''package_name'', PStr (replace_char (CHR ''-'') (CHR ''_'') name)),
      (''files'', getd arguments ''files'' (PList []))]))"

definition INCOMPATIBLE_CLIENT_ERRORS :: "string list" where
  "INCOMPATIBLE_CLIENT_ERRORS =
    [''unsupported_fastapi_sync_test_client'', ''httpx_client_app_argument_not_supported'',
     ''httpx_async_client_app_argument_not_supported'', ''invalid_fastapi_async_test_transport'']"

definition build_refinement_guidance :: "string list \<Rightarrow> string option" where
  "build_refinement_guidance errors =
    (if list_ex (\<lambda>e. hd (split_on (CHR '':'') e) \<in> set INCOMPATIBLE_CLIENT_ERRORS) errors
     then Some (''El test usa un cliente HTTP incompatible con FastAPI.'' @ [CHR 0x0A, CHR 0x0A]
       @ ''Para un test sincrono utiliza:'' @ [CHR 0x0A] @ hd ALLOWED_SYNC_IMPORTS @ [CHR 0x0A]
       @ ''client = TestClient(app)'' @ [CHR 0x0A, CHR 0x0A]
       @ ''No cambies el endpoint ni la respuesta esperada. Corrige unicamente el archivo de pruebas.'')
     else None)"

definition service_context :: "pydict \<Rightarrow> pydict" where
  "service_context state =
    [(''original_request'', getd state ''original_user_message'' (PStr [])),
     (''requirement_analysis'', get state ''requirement_analysis''),
     (''acceptance_criteria'', getd state ''acceptance_criteria'' (PList [])),
     (''implementation_tasks'', getd state ''implementation_tasks'' (PList []))]
    @ (if get state ''developer_knowledge_state'' = PStr ''available'' \<and> is_str (get state ''developer_knowledge_context'')
       then [(''relevant_project_knowledge'', get state ''developer_knowledge_context''),
         (''relevant_project_knowledge_sources'', getd state ''developer_knowledge_sources'' (PList []))] else [])"

text \<open>A list of texts in the state; what else it may hold is not modelled.\<close>

fun text_item :: "pyval \<Rightarrow> exn + string" where
  "text_item (PStr s) = Inr s"
| "text_item _ = Inl Unmodelled"

definition texts_at :: "pydict \<Rightarrow> string \<Rightarrow> exn + string list" where
  "texts_at state key = bind (as_list (getd state key (PList []))) (mapm text_item)"

definition model_context :: "bool \<Rightarrow> pydict \<Rightarrow> exn + pydict" where
  "model_context refinement state =
    (if \<not> refinement then Inr (service_context state)
     else bind (texts_at state ''implementation_errors'') (\<lambda>errors.
       Inr (service_context state @
         [(''current_proposal'', get state ''project_implementation''),
          (''deterministic_errors'', getd state ''implementation_errors'' (PList [])),
          (''refinement_guidance'', opt_str (build_refinement_guidance errors))])))"

definition REFUSED_MESSAGE :: string where
  "REFUSED_MESSAGE = ''El modelo rechaz'' @ [CHR 0xF3] @ '' generar la implementaci'' @ [CHR 0xF3] @ ''n.''"

fun answered_plan :: "build_reply \<Rightarrow> domain_error + ProjectImplementationPlan" where
  "answered_plan NoAnswer = Inl (''implementation_timeout'', ''La generaci'' @ [CHR 0xF3] @ ''n excedi'' @ [CHR 0xF3] @ '' el timeout.'')"
| "answered_plan (BadAnswer complaint_text) = Inl (''implementation_schema_invalid'', complaint_text)"
| "answered_plan RefusedCall = Inl (''implementation_refused'', REFUSED_MESSAGE)"
| "answered_plan (FailedCall message) = Inl (''implementation_openai_error'', message)"
| "answered_plan (Answer incomplete parsed refused) =
     (if incomplete then Inl (''implementation_output_incomplete'', ''La salida estructurada qued'' @ [CHR 0xF3] @ '' incompleta.'')
      else (case parsed of Some plan \<Rightarrow> Inr plan
        | None \<Rightarrow> Inl (if refused then ''implementation_refused'' else ''implementation_output_empty'',
            ''El modelo no devolvi'' @ [CHR 0xF3] @ '' una implementaci'' @ [CHR 0xF3] @ ''n estructurada.'')))"

definition structured ::
  "'x ImplementationDeps \<Rightarrow> bool \<Rightarrow> pydict \<Rightarrow> exn + domain_error + ProjectImplementationPlan" where
  "structured deps refinement state =
    (case argument_resolver (im_graph deps) of
       Some resolve \<Rightarrow>
         bind (resolve DEVELOPER_TOOL state) (\<lambda>arguments.
         bind (resolved_candidate state arguments) (\<lambda>candidate.
         case model_validate candidate of
           Valid plan \<Rightarrow> apply_deterministic_health_test (im_complaint deps) state plan
         | Invalid \<Rightarrow> Inr (Inl (''implementation_schema_invalid'', im_complaint deps candidate))
         | Raised e \<Rightarrow> Inl e))
     | None \<Rightarrow>
         bind (model_context refinement state) (\<lambda>context.
         case answered_plan (im_reply deps refinement context) of
           Inl e \<Rightarrow> Inr (Inl e)
         | Inr plan \<Rightarrow> apply_deterministic_health_test (im_complaint deps) state plan))"

section \<open>Nodes\<close>

type_synonym 'x implementation_node = "'x ImplementationDeps \<Rightarrow> 'x \<Rightarrow> pydict \<Rightarrow> exn + pydict \<times> 'x"

definition MISSING_PROJECT_IMPLEMENTATION :: string where
  "MISSING_PROJECT_IMPLEMENTATION = ''implementation_state_missing_project_implementation''"

definition terminal_failure :: "string \<Rightarrow> string \<Rightarrow> pydict" where
  "terminal_failure failure message =
    [(''terminal_status'', PStr ''implementation_failed''), (''failure_type'', PStr failure),
     (''failure_stage'', PStr ''implementation''), (''failure_message'', PStr message)]"

definition ended :: "string \<Rightarrow> string \<Rightarrow> pydict" where
  "ended failure message = terminal_failure failure message @ [(''implementation_failure_reason'', PStr message)]"

definition entry_failure :: "'x implementation_node" where
  "entry_failure deps x state =
    bind (py_str (get state ''project_name'')) (\<lambda>name.
    Inr (ended ''project_not_found'' (''No se encontr'' @ [CHR 0xF3] @ '' el proyecto existente solicitado: '' @ name @ ''.''), x))"

definition developer_base :: "string \<Rightarrow> pydict" where
  "developer_base query =
    [(''developer_knowledge_query'', PStr query), (''developer_knowledge_retrieval_id'', PNone),
     (''developer_knowledge_context'', PNone), (''developer_knowledge_sources'', PList []),
     (''knowledge_retrieval_used'', PBool False), (''retrieved_context_count'', PInt 0),
     (''knowledge_context_tokens'', PInt 0), (''retrieval_id'', PNone)]"

definition developer_unavailable :: "string \<Rightarrow> pydict" where
  "developer_unavailable query = developer_base query @
    [(''developer_knowledge_state'', PStr ''unavailable''), (''knowledge_context_state'', PStr ''unavailable'')]"

definition developer_found :: "string \<Rightarrow> pyval \<Rightarrow> KnowledgeContext \<Rightarrow> pydict" where
  "developer_found query retrieval_id built =
    (if kc_sources built = []
     then dmerge (developer_base query)
       [(''developer_knowledge_retrieval_id'', retrieval_id), (''retrieval_id'', retrieval_id),
        (''developer_knowledge_state'', PStr ''empty''), (''knowledge_context_state'', PStr ''empty'')]
     else dmerge (developer_base query)
       [(''developer_knowledge_retrieval_id'', retrieval_id), (''developer_knowledge_context'', PStr (kc_context built)),
        (''developer_knowledge_sources'', PList (map PDict (kc_sources built))),
        (''developer_knowledge_state'', PStr ''available''), (''knowledge_context_state'', PStr ''available''),
        (''knowledge_retrieval_used'', PBool True), (''retrieved_context_count'', PInt (int (length (kc_sources built)))),
        (''knowledge_context_tokens'', PInt (kc_tokens built)), (''retrieval_id'', retrieval_id)])"

definition developer_updates :: "int \<Rightarrow> KnowledgeQuery \<Rightarrow> ToolExecutionOutcome \<Rightarrow> exn + pydict" where
  "developer_updates max_tokens request out =
    (case o_payload out of
       Some payload \<Rightarrow>
         if o_is_error out \<or> truthy (get payload ''degraded'') then Inr (developer_unavailable (kq_query request))
         else bind (optional_text (get payload ''retrieval_id'')) (\<lambda>retrieval_id.
           Inr (developer_found (kq_query request) (opt_str retrieval_id)
             (build_developer_context max_tokens (knowledge_results payload) (kq_top_k request))))
     | None \<Rightarrow> Inr (developer_unavailable (kq_query request)))"

definition prepare_developer_knowledge :: "'x implementation_node" where
  "prepare_developer_knowledge deps x state =
    (let env = env_var (im_settings deps) in
     bind (developer_query (positive_environment_int env ''DEVELOPER_KNOWLEDGE_TOP_K'' 5 20) state) (\<lambda>request.
     if retrieved_before ''developer'' state request then Inr ([], x)
     else bind (testing_project_id state) (\<lambda>project.
       let failed = developer_unavailable (kq_query request) in
       if project = [] then Inr (failed, x)
       else caught
         (bind (execute_tool (im_graph deps) x ''knowledge__get_relevant_context''
                 (knowledge_arguments (obs_context (im_settings deps)) request project ''Developer'') state Prompt)
            (\<lambda>(out, x').
          bind (caught (developer_updates (positive_environment_int env ''DEVELOPER_KNOWLEDGE_MAX_TOKENS'' 4000 32000)
                  request out) failed) (\<lambda>updates. Inr (updates, x'))))
         (failed, x))))"

definition force_invalid :: "(string \<Rightarrow> string option) \<Rightarrow> bool" where
  "force_invalid env =
    (let setting = (\<lambda>name. casefold (case env name of Some v \<Rightarrow> v | None \<Rightarrow> ''false'')) in
     setting ''LANGGRAPH_DEVELOPMENT'' = ''true'' \<and> setting ''IMPLEMENTATION_FORCE_INVALID_FIRST_ATTEMPT'' = ''true'')"

text \<open>The second validation of a proposal is outside the handler's \<open>except\<close>: its error is raised.\<close>

definition canonicalize_project_implementation :: "ProjectImplementationPlan \<Rightarrow> exn + ProjectImplementationPlan" where
  "canonicalize_project_implementation plan = parse_implementation_plan (dump_plan plan)"

definition failed_generation :: "domain_error \<Rightarrow> pydict" where
  "failed_generation e =
    [(''implementation_errors'', pstrs [snd e]), (''implementation_failure_reason'', PStr (fst e)),
     (''implementation_valid'', PBool False)]"

definition shown_plan :: "bool \<Rightarrow> ProjectImplementationPlan \<Rightarrow> ProjectImplementationPlan" where
  "shown_plan forced plan =
    (if forced then plan\<lparr>ip_files := filter (\<lambda>f. \<not> starts_with (f_path f) ''tests/'') (ip_files plan)\<rparr> else plan)"

definition prepare_create_project :: "'x implementation_node" where
  "prepare_create_project deps x state =
    bind (structured deps False state) (\<lambda>proposed.
    case proposed of
      Inl e \<Rightarrow> Inr (failed_generation e, x)
    | Inr proposal \<Rightarrow>
        bind (canonicalize_project_implementation proposal) (\<lambda>plan.
        let forced = (force_invalid (env_var (im_settings deps))
              \<and> py_eq (getd state ''implementation_attempts'' (PInt 0)) (PInt 0)) in
        Inr ([(''project_implementation'', PDict (dump_plan (shown_plan forced plan))),
          (''generated_package_name'', PStr (ip_package_name plan)),
          (''implementation_valid'', PBool False), (''implementation_errors'', PList [])], x)))"

definition missing_implementation :: "int \<Rightarrow> pydict" where
  "missing_implementation attempts =
    [(''dependency_policy_applied'', PBool False), (''normalized_dependency_file'', PNone),
     (''dependency_policy_errors'', pstrs [MISSING_PROJECT_IMPLEMENTATION]),
     (''dependency_normalization_attempts'', PInt attempts),
     (''implementation_errors'', pstrs [MISSING_PROJECT_IMPLEMENTATION]),
     (''remaining_validation_errors'', pstrs [MISSING_PROJECT_IMPLEMENTATION]),
     (''implementation_failure_reason'', PStr MISSING_PROJECT_IMPLEMENTATION)]
    @ terminal_failure MISSING_PROJECT_IMPLEMENTATION MISSING_PROJECT_IMPLEMENTATION"

definition normalized_plan :: "ProjectImplementationPlan \<Rightarrow> ProjectImplementationPlan" where
  "normalized_plan plan = plan\<lparr>ip_files := normalize_dependency_file (ip_framework plan) (ip_files plan)\<rparr>"

definition normalization_updates :: "int \<Rightarrow> ProjectImplementationPlan \<Rightarrow> pydict" where
  "normalization_updates attempts plan =
    (let normalized = normalized_plan plan; requirements = requirements_file (ip_files normalized) in
     [(''project_implementation'', PDict (dump_plan normalized)),
      (''dependency_policy_applied'',
        PBool (dependency_policy_for (ip_framework plan) \<noteq> None \<and> requirements \<noteq> None)),
      (''normalized_dependency_file'', case requirements of Some r \<Rightarrow> PStr (f_content r) | None \<Rightarrow> PNone),
      (''dependency_policy_errors'', pstrs (dedupe (dependency_normalization_errors (ip_framework plan) (ip_files plan)
         @ validate_dependency_file (ip_framework plan) (ip_files normalized)))),
      (''dependency_normalization_attempts'', PInt attempts)])"

definition normalize_dependencies :: "'x implementation_node" where
  "normalize_dependencies deps x state =
    bind (normalizations_of state) (\<lambda>n. let attempts = n + 1 in
    case get state ''project_implementation'' of
      PDict raw \<Rightarrow>
        (case model_validate raw of
           Valid plan \<Rightarrow> Inr (normalization_updates attempts plan, x)
         | Invalid \<Rightarrow> Inr ([(''dependency_policy_applied'', PBool False), (''normalized_dependency_file'', PNone),
             (''dependency_policy_errors'', pstrs [''implementation_schema_invalid: '' @ im_complaint deps raw]),
             (''dependency_normalization_attempts'', PInt attempts)], x)
         | Raised e \<Rightarrow> Inl e)
    | _ \<Rightarrow> Inr (missing_implementation attempts, x))"

section \<open>Validation\<close>

text \<open>The errors of the implementation in the state, with the plan when there is one.\<close>

definition schema_errors :: "(string \<times> string) \<times> (string \<times> string) list \<Rightarrow> string list" where
  "schema_errors problems =
    map (\<lambda>(place, message). ''Schema de implementaci'' @ [CHR 0xF3] @ ''n inv'' @ [CHR 0xE1] @ ''lido: '' @ place @ '': '' @ message)
      (fst problems # snd problems)"

definition check_implementation ::
  "'x ImplementationDeps \<Rightarrow> pydict \<Rightarrow> exn + ProjectImplementationPlan option \<times> string list" where
  "check_implementation deps state =
    (case get state ''project_implementation'' of
       PDict raw \<Rightarrow>
         (case model_validate raw of
            Valid plan \<Rightarrow>
              bind (texts_at state ''dependency_policy_errors'') (\<lambda>policy_errors.
              bind (validate_project_implementation (im_parse deps) state plan) (\<lambda>errors.
              Inr (Some plan, dedupe (policy_errors @ errors))))
          | Invalid \<Rightarrow> Inr (None, schema_errors (im_problems deps raw))
          | Raised e \<Rightarrow> Inl e)
     | _ \<Rightarrow> Inr (None, [MISSING_PROJECT_IMPLEMENTATION]))"

definition creation_arguments :: "ProjectImplementationPlan \<Rightarrow> pydict" where
  "creation_arguments plan =
    [(''project_name'', PStr (ip_project_name plan)), (''files'', PList (map dump_file (ip_files plan)))]"

definition creation_preview :: "ProjectImplementationPlan \<Rightarrow> string \<Rightarrow> string list \<Rightarrow> pydict" where
  "creation_preview plan normalized collected =
    [(''project_name'', PStr (ip_project_name plan)),
     (''files'', PList (map (\<lambda>f. PDict [(''path'', PStr (f_path f)), (''size_bytes'', PInt (utf8_size (f_content f)))])
        (ip_files plan))),
     (''total_files'', PInt (int (length (ip_files plan)))),
     (''normalized_dependencies'', pstrs (requirement_lines normalized)), (''test_framework'', PStr ''pytest''),
     (''collectable_test_count'', PInt (int (length collected))), (''test_functions'', pstrs collected)]"

definition checked_updates ::
  "ProjectImplementationPlan option \<Rightarrow> string list \<Rightarrow> string list \<Rightarrow> string list \<Rightarrow> pydict" where
  "checked_updates proposal errors before_errors collected =
    [(''implementation_valid'', PBool (errors = [])), (''implementation_errors'', pstrs errors),
     (''resolved_validation_errors'', pstrs (filter (\<lambda>e. e \<notin> set errors) before_errors)),
     (''remaining_validation_errors'', pstrs errors)]
    @ (if proposal = None \<and> errors = [MISSING_PROJECT_IMPLEMENTATION]
       then ended MISSING_PROJECT_IMPLEMENTATION MISSING_PROJECT_IMPLEMENTATION else [])
    @ [(''collectable_test_count'', PInt (int (length collected))), (''test_functions'', pstrs collected)]"

text \<open>How a failed validation ends the subgraph, when it does.\<close>

definition NO_PROGRESS :: string where
  "NO_PROGRESS = ''El refinamiento no resolvio ningun error de validacion.''"

definition failed_validation :: "pydict \<Rightarrow> string list \<Rightarrow> string list \<Rightarrow> exn + pydict" where
  "failed_validation state errors before_errors =
    (if before_errors \<noteq> [] \<and> set errors = set before_errors
     then Inr (ended ''implementation_refinement_made_no_progress'' NO_PROGRESS)
     else ifM (andM (only_correctable_errors (pstrs errors))
                (bind (normalizations_of state) (\<lambda>n. Inr (n \<ge> MAX_DEPENDENCY_NORMALIZATION_ATTEMPTS))))
       (Inr (ended ''dependency_policy_normalization_failed'' (join ''; '' errors)))
       (bind (impl_attempts_of state) (\<lambda>a. bind (impl_limit_of state) (\<lambda>m.
          Inr (if a \<ge> m then ended ''implementation_validation_failed'' (join ''; '' errors) else [])))))"

definition request_approval :: "pydict \<Rightarrow> ProjectImplementationPlan \<Rightarrow> string list \<Rightarrow> exn + pydict" where
  "request_approval state plan collected =
    bind (text_or_empty (get state ''normalized_dependency_file'')) (\<lambda>normalized.
    Inr (pending_approval ''create_project'' DEVELOPER_TOOL (creation_arguments plan)
      (creation_preview plan normalized collected)))"

definition validate_implementation :: "'x implementation_node" where
  "validate_implementation deps x state =
    bind (check_implementation deps state) (\<lambda>(proposal, errors).
    bind (texts_at state ''refinement_input_errors'') (\<lambda>before_errors.
    let collected = (case proposal of Some plan \<Rightarrow> collectable_tests (im_parse deps) plan | None \<Rightarrow> []) in
    bind (case (errors, proposal) of
            ([], Some plan) \<Rightarrow> request_approval state plan collected
          | _ \<Rightarrow> failed_validation state errors before_errors) (\<lambda>outcome.
    Inr (dmerge (checked_updates proposal errors before_errors collected) outcome, x))))"

section \<open>Refinement\<close>

definition with_requirements :: "string \<Rightarrow> ProjectImplementationPlan \<Rightarrow> ProjectImplementationPlan" where
  "with_requirements content plan =
    (if content = [] then plan
     else plan\<lparr>ip_files := map (\<lambda>f. if is_requirements f then f\<lparr>f_content := content\<rparr> else f) (ip_files plan)\<rparr>)"

definition refinement_counts :: "int \<Rightarrow> pyval list \<Rightarrow> pydict" where
  "refinement_counts attempts errors =
    [(''implementation_attempts'', PInt attempts), (''refinement_input_errors'', PList errors),
     (''dependency_normalization_attempts'', PInt 0)]"

definition failed_refinement :: "int \<Rightarrow> pyval list \<Rightarrow> domain_error \<Rightarrow> pydict" where
  "failed_refinement attempts errors e =
    (if fst e = MISSING_PROJECT_IMPLEMENTATION then terminal_failure (fst e) (snd e) else [])
    @ refinement_counts attempts errors
    @ [(''implementation_errors'', pstrs [snd e]), (''implementation_failure_reason'', PStr (fst e))]"

definition refined_project :: "int \<Rightarrow> pyval list \<Rightarrow> ProjectImplementationPlan \<Rightarrow> pydict" where
  "refined_project attempts errors plan =
    [(''project_implementation'', PDict (dump_plan plan)), (''generated_package_name'', PStr (ip_package_name plan))]
    @ refinement_counts attempts errors @ [(''implementation_failure_reason'', PNone)]"

definition refine_implementation :: "'x implementation_node" where
  "refine_implementation deps x state =
    bind (impl_attempts_of state) (\<lambda>a. let attempts = a + 1 in
    bind (if is_dict (get state ''project_implementation'') then structured deps True state
          else Inr (Inl (MISSING_PROJECT_IMPLEMENTATION, MISSING_PROJECT_IMPLEMENTATION))) (\<lambda>proposed.
    case proposed of
      Inl e \<Rightarrow> bind (as_list (getd state ''implementation_errors'' (PList []))) (\<lambda>errors.
        Inr (failed_refinement attempts errors e, x))
    | Inr proposal \<Rightarrow>
        bind (canonicalize_project_implementation proposal) (\<lambda>plan.
        bind (text_or_empty (get state ''normalized_dependency_file'')) (\<lambda>normalized.
        bind (as_list (getd state ''implementation_errors'' (PList []))) (\<lambda>errors.
        Inr (refined_project attempts errors (with_requirements normalized plan), x))))))"

definition framework_failure :: "'x implementation_node" where
  "framework_failure deps x state =
    (let message = ''No se pudo detectar un framework de pruebas para preparar el entorno.'' in
     Inr ([(''test_infrastructure_failed'', PBool True), (''terminal_status'', PStr ''infrastructure_failed''),
       (''failure_type'', PStr ''framework_detection_failed''), (''failure_stage'', PStr ''implementation''),
       (''failure_message'', PStr message), (''implementation_failure_reason'', PStr message)], x))"

section \<open>The graph\<close>

datatype implementation_place =
    IEnter | IEntryFailure | IKnowledge | IPrepare | INormalize | IValidate | IRefine | IApproval
  | IExecuteCreate | IDetect | IFrameworkFailure | IPrepareEnv | IExecuteEnv | ILeave | IDone

definition IMPLEMENTATION_FAILURE_NODE_ALIASES :: "(string \<times> string) list" where
  "IMPLEMENTATION_FAILURE_NODE_ALIASES =
    [(''execute_create_project'', ''create_project''), (''execute_prepare_environment'', ''prepare_environment'')]"

definition logged_implementation :: "string \<Rightarrow> 'x implementation_node \<Rightarrow> 'x implementation_node" where
  "logged_implementation name node_fn deps x state =
    bind (node_fn deps x state) (\<lambda>(updates, x').
    Inr (AList.update ''last_completed_node''
      (PStr (case map_of IMPLEMENTATION_FAILURE_NODE_ALIASES name of Some n \<Rightarrow> n | None \<Rightarrow> name)) updates, x'))"

definition graph_node :: "'x node \<Rightarrow> 'x implementation_node" where
  "graph_node f deps = f (im_graph deps)"

fun run_implementation_node :: "implementation_place \<Rightarrow> 'x implementation_node" where
  "run_implementation_node IEntryFailure = logged_implementation ''entry_failure'' entry_failure"
| "run_implementation_node IKnowledge = logged_implementation ''prepare_developer_knowledge'' prepare_developer_knowledge"
| "run_implementation_node IPrepare = logged_implementation ''prepare_create_project'' prepare_create_project"
| "run_implementation_node INormalize = logged_implementation ''normalize_dependencies'' normalize_dependencies"
| "run_implementation_node IValidate = logged_implementation ''validate_implementation'' validate_implementation"
| "run_implementation_node IRefine = logged_implementation ''refine_implementation'' refine_implementation"
| "run_implementation_node IApproval = logged_implementation ''approval'' (graph_node approval_node)"
| "run_implementation_node IExecuteCreate =
     logged_implementation ''execute_create_project'' (graph_node execute_create_project_node)"
| "run_implementation_node IDetect = logged_implementation ''detect_test_framework'' (graph_node detect_test_framework_node)"
| "run_implementation_node IFrameworkFailure = logged_implementation ''framework_failure'' framework_failure"
| "run_implementation_node IPrepareEnv =
     logged_implementation ''prepare_environment_request'' (graph_node prepare_environment_request_node)"
| "run_implementation_node IExecuteEnv =
     logged_implementation ''execute_prepare_environment'' (graph_node execute_prepare_environment_node)"
| "run_implementation_node _ = (\<lambda>deps x state. Inr ([], x))"

text \<open>The edges: a router's answer and the node it leads to.\<close>

fun implementation_edges :: "implementation_place \<Rightarrow> (string \<times> implementation_place) list" where
  "implementation_edges IEnter = [(''create'', IKnowledge), (''existing'', IDetect), (''failed'', IEntryFailure)]"
| "implementation_edges IValidate =
     [(''valid'', IApproval), (''normalize'', INormalize), (''refine'', IRefine), (''failed'', ILeave)]"
| "implementation_edges IApproval =
     [(''execute_create_project'', IExecuteCreate), (''execute_prepare_environment'', IExecuteEnv), (''rejected'', ILeave)]"
| "implementation_edges IExecuteCreate = [(''continue'', IDetect), (''failed'', ILeave)]"
| "implementation_edges IDetect = [(''continue'', IPrepareEnv), (''failed'', IFrameworkFailure)]"
| "implementation_edges _ = []"

definition take_edge :: "implementation_place \<Rightarrow> string \<Rightarrow> exn + implementation_place" where
  "take_edge n answer =
    (case map_of (implementation_edges n) answer of Some n' \<Rightarrow> Inr n' | None \<Rightarrow> Inl (KeyError answer))"

definition route_after_detect :: "pydict \<Rightarrow> string" where
  "route_after_detect state = (if truthy (get state ''detected_test_framework'') then ''continue'' else ''failed'')"

fun implementation_next :: "implementation_place \<Rightarrow> pydict \<Rightarrow> exn + implementation_place" where
  "implementation_next IEnter state = take_edge IEnter (route_implementation_entry state)"
| "implementation_next IEntryFailure state = Inr ILeave"
| "implementation_next IKnowledge state = Inr IPrepare"
| "implementation_next IPrepare state = Inr INormalize"
| "implementation_next INormalize state = Inr IValidate"
| "implementation_next IValidate state = bind (route_after_implementation_validation state) (take_edge IValidate)"
| "implementation_next IRefine state = Inr INormalize"
| "implementation_next IApproval state = bind (route_implementation_approval state) (take_edge IApproval)"
| "implementation_next IExecuteCreate state = take_edge IExecuteCreate (route_after_create_execution state)"
| "implementation_next IDetect state = take_edge IDetect (route_after_detect state)"
| "implementation_next IFrameworkFailure state = Inr ILeave"
| "implementation_next IPrepareEnv state = Inr IApproval"
| "implementation_next IExecuteEnv state = Inr ILeave"
| "implementation_next ILeave state = Inr IDone"
| "implementation_next IDone state = Inr IDone"

type_synonym 'x implementation_config = "implementation_place \<times> 'x \<times> pydict"

fun implementation_step ::
  "(pydict \<Rightarrow> pydict \<Rightarrow> pydict) \<Rightarrow> 'x ImplementationDeps \<Rightarrow> 'x implementation_config \<Rightarrow> exn + 'x implementation_config" where
  "implementation_step merge deps (n, x, state) =
    bind (run_implementation_node n deps x state) (\<lambda>(updates, x').
    let state' = merge state updates in
    bind (implementation_next n state') (\<lambda>n'. Inr (n', x', state')))"

text \<open>A run with the number of its steps. The answers of the model, of the tools and of the person may
  differ from step to step; Python's parser is the same throughout.\<close>

inductive implementation_run ::
  "(pydict \<Rightarrow> pydict \<Rightarrow> pydict) \<Rightarrow> (string \<Rightarrow> py_ast option) \<Rightarrow> 'x implementation_config \<Rightarrow> nat \<Rightarrow>
   'x implementation_config \<Rightarrow> bool"
  for merge :: "pydict \<Rightarrow> pydict \<Rightarrow> pydict" and parse :: "string \<Rightarrow> py_ast option"
    and start :: "'x implementation_config" where
  implementation_begins: "implementation_run merge parse start 0 start"
| implementation_steps: "implementation_run merge parse start k (n, x, state) \<Longrightarrow> n \<noteq> IDone \<Longrightarrow> im_parse deps = parse
    \<Longrightarrow> implementation_step merge deps (n, x, state) = Inr c \<Longrightarrow> implementation_run merge parse start (Suc k) c"

text \<open>What LangGraph documents of a field without a reducer: the node's value overwrites it.\<close>

definition implementation_overwrites :: "(pydict \<Rightarrow> pydict \<Rightarrow> pydict) \<Rightarrow> bool" where
  "implementation_overwrites merge \<longleftrightarrow> (\<forall>state updates k v. k \<in> set IMPLEMENTATION_STATE_FIELDS \<longrightarrow>
    getd (merge state updates) k v = getd updates k (getd state k v))"

end
