(* ===== verification/ImplementationProps.thy ===== *)
theory ImplementationProps
  imports ImplementationGraph TestingNodes
begin

text \<open>
  The implementation subgraph as a whole: every run ends within a number of steps that the limit on
  the attempts fixes; the project that is created passed every check and was approved; a generation
  that fails is not tried again; and a proposal the second validation refuses ends the subgraph with
  an exception.
\<close>

section \<open>What the nodes write\<close>

definition COUNT_FIELDS :: "string list" where
  "COUNT_FIELDS = [''implementation_attempts'', ''max_implementation_attempts'', ''dependency_normalization_attempts'']"

definition JUDGED_FIELDS :: "string list" where
  "JUDGED_FIELDS = [''original_user_message'', ''project_name'', ''created_project_name'', ''requirement_analysis'',
     ''implementation_tasks'']"

definition READ_FIELDS :: "string list" where
  "READ_FIELDS = COUNT_FIELDS @ JUDGED_FIELDS @ [''pending_operation'', ''pending_tool_name'', ''pending_tool_arguments'',
     ''pending_approval_status'', ''implementation_valid'', ''implementation_errors'', ''terminal_status'',
     ''project_implementation'', ''failure_type'', ''implementation_failure_reason'', ''dependency_policy_errors'',
     ''refinement_input_errors'', ''user_cancelled'']"

lemma read_fields: "k \<in> set READ_FIELDS \<Longrightarrow> k \<in> set IMPLEMENTATION_STATE_FIELDS"
proof -
  have "list_all (\<lambda>k. k \<in> set IMPLEMENTATION_STATE_FIELDS) READ_FIELDS" by code_simp
  then show "k \<in> set READ_FIELDS \<Longrightarrow> ?thesis" by (simp add: list_all_iff)
qed

lemma implementation_field:
  "implementation_overwrites merge \<Longrightarrow> k \<in> set READ_FIELDS \<Longrightarrow> getd (merge s u) k v = getd u k (getd s k v)"
  "implementation_overwrites merge \<Longrightarrow> k \<in> set READ_FIELDS \<Longrightarrow> get (merge s u) k = getd u k (get s k)"
  using read_fields[of k] by (auto simp: implementation_overwrites_def get_getd)

lemma read_field_list:
  "list_all (\<lambda>k. k \<in> set READ_FIELDS) (COUNT_FIELDS @ JUDGED_FIELDS)"
  by code_simp

text \<open>The updates a logged node adds leave every field that is read.\<close>

lemma logged_node_updates:
  assumes "logged_implementation name f deps x s = Inr (u, x')"
  obtains u0 v where "f deps x s = Inr (u0, x')" "u = AList.update ''last_completed_node'' v u0"
  using assms by (auto simp: logged_implementation_def elim!: bind_InrE)

lemma logged_field:
  "k \<in> set READ_FIELDS \<Longrightarrow> getd (AList.update ''last_completed_node'' v u) k w = getd u k w"
  "k \<in> set READ_FIELDS \<Longrightarrow> has_key (AList.update ''last_completed_node'' v u) k = has_key u k"
  by (auto simp: READ_FIELDS_def COUNT_FIELDS_def JUDGED_FIELDS_def)

lemma developer_keys:
  assumes "prepare_developer_knowledge deps x s = Inr (u, x')" "k \<in> set READ_FIELDS"
  shows "\<not> has_key u k"
proof -
  have b: "\<not> has_key (developer_base q) k" "\<not> has_key (developer_unavailable q) k" for q
    using assms(2) by (auto simp: developer_unavailable_def developer_base_def has_key_append READ_FIELDS_def
        COUNT_FIELDS_def JUDGED_FIELDS_def)
  have f: "\<not> has_key (developer_found q r c) k" for q r c
    using assms(2) b(1) by (auto simp: developer_found_def READ_FIELDS_def COUNT_FIELDS_def JUDGED_FIELDS_def)
  have "developer_updates m r out = Inr w \<Longrightarrow> \<not> has_key w k" for m r out w
    using b f by (auto simp: developer_updates_def elim!: bind_InrE split: option.splits if_splits)
  with assms(1) b show ?thesis
    by (auto simp: prepare_developer_knowledge_def caught_def Let_def elim!: bind_InrE
        split: if_splits sum.splits exn.splits)
qed

lemma prepare_keys:
  assumes "prepare_create_project deps x s = Inr (u, x')"
    and "k \<in> {''implementation_attempts'', ''max_implementation_attempts'', ''dependency_normalization_attempts''}"
  shows "\<not> has_key u k"
  using assms by (auto simp: prepare_create_project_def failed_generation_def Let_def elim!: bind_InrE split: sum.splits)

definition unnormalized :: "int \<Rightarrow> string \<Rightarrow> pydict" where
  "unnormalized attempts complaint_text =
    [(''dependency_policy_applied'', PBool False), (''normalized_dependency_file'', PNone),
     (''dependency_policy_errors'', pstrs [''implementation_schema_invalid: '' @ complaint_text]),
     (''dependency_normalization_attempts'', PInt attempts)]"

lemma normalize_shape:
  assumes "normalize_dependencies deps x s = Inr (u, x')"
  obtains n plan raw where "normalizations_of s = Inr n"
    "u = missing_implementation (n + 1) \<or> u = normalization_updates (n + 1) plan
      \<or> u = unnormalized (n + 1) (im_complaint deps raw)"
proof -
  from assms obtain n where n: "normalizations_of s = Inr n"
    by (auto simp: normalize_dependencies_def elim!: bind_InrE)
  show ?thesis
  proof (cases "get s ''project_implementation''")
    case (PDict raw)
    with assms n show ?thesis
      by (cases "model_validate raw") (auto simp: normalize_dependencies_def unnormalized_def intro: that[OF n])
  qed (use assms n in \<open>auto simp: normalize_dependencies_def intro: that[OF n]\<close>)
qed

lemma normalize_written:
  "getd (missing_implementation n) ''dependency_normalization_attempts'' v = PInt n"
  "getd (normalization_updates n plan) ''dependency_normalization_attempts'' v = PInt n"
  "getd (unnormalized n c) ''dependency_normalization_attempts'' v = PInt n"
  "k \<in> {''implementation_attempts'', ''max_implementation_attempts''} \<Longrightarrow> \<not> has_key (missing_implementation n) k"
  "k \<in> {''implementation_attempts'', ''max_implementation_attempts''} \<Longrightarrow> \<not> has_key (normalization_updates n plan) k"
  "k \<in> {''implementation_attempts'', ''max_implementation_attempts''} \<Longrightarrow> \<not> has_key (unnormalized n c) k"
  by (auto simp: missing_implementation_def normalization_updates_def unnormalized_def terminal_failure_def Let_def getd_append)

lemma normalize_counts:
  assumes "normalize_dependencies deps x s = Inr (u, x')"
  obtains n where "normalizations_of s = Inr n" "\<forall>v. getd u ''dependency_normalization_attempts'' v = PInt (n + 1)"
    "\<not> has_key u ''implementation_attempts''" "\<not> has_key u ''max_implementation_attempts''"
  using assms by (rule normalize_shape) (auto simp: normalize_written intro: that)

lemma validate_result:
  assumes "validate_implementation deps x s = Inr (u, x')"
  obtains proposal errors before_errors outcome where
    "check_implementation deps s = Inr (proposal, errors)" "texts_at s ''refinement_input_errors'' = Inr before_errors"
    "(case (errors, proposal) of
        ([], Some plan) \<Rightarrow> request_approval s plan (collectable_tests (im_parse deps) plan)
      | _ \<Rightarrow> failed_validation s errors before_errors) = Inr outcome"
    "u = dmerge (checked_updates proposal errors before_errors
       (case proposal of Some plan \<Rightarrow> collectable_tests (im_parse deps) plan | None \<Rightarrow> [])) outcome"
    "x' = x"
  using assms by (auto simp: validate_implementation_def Let_def elim!: bind_InrE split: list.splits option.splits)

lemma failed_validation_shape:
  assumes "failed_validation s errors before_errors = Inr outcome"
  obtains "outcome = []" | failure message where "outcome = ended failure message"
proof (cases "before_errors \<noteq> [] \<and> set errors = set before_errors")
  case True
  then have "outcome = ended ''implementation_refinement_made_no_progress'' NO_PROGRESS"
    using assms unfolding failed_validation_def by simp
  then show ?thesis by (rule that(2))
next
  case False
  note m = assms[unfolded failed_validation_def if_not_P[OF False] ifM_eq_Inr_iff]
  then have "outcome = ended ''dependency_policy_normalization_failed'' (join ''; '' errors)
      \<or> outcome = ended ''implementation_validation_failed'' (join ''; '' errors) \<or> outcome = []"
    by (elim disjE conjE bind_InrE) (simp_all split: if_splits)
  then show ?thesis using that by blast
qed

lemma outcome_shape:
  assumes "(case (errors, proposal) of
        ([], Some plan) \<Rightarrow> request_approval s plan (collectable_tests parse plan)
      | _ \<Rightarrow> failed_validation s errors before_errors) = Inr outcome"
  shows "(\<exists>plan preview. errors = [] \<and> proposal = Some plan
      \<and> outcome = pending_approval ''create_project'' DEVELOPER_TOOL (creation_arguments plan) preview)
    \<or> (errors \<noteq> [] \<or> proposal = None) \<and> failed_validation s errors before_errors = Inr outcome
       \<and> (outcome = [] \<or> (\<exists>failure message. outcome = ended failure message))"
proof (cases "errors = [] \<and> proposal \<noteq> None")
  case True
  with assms show ?thesis by (auto simp: request_approval_def elim!: bind_InrE)
next
  case False
  then have f: "failed_validation s errors before_errors = Inr outcome"
    using assms by (auto split: list.splits)
  show ?thesis by (rule failed_validation_shape[OF f]) (use False f in auto)
qed

lemma validate_keys:
  assumes "validate_implementation deps x s = Inr (u, x')" "k \<in> set (COUNT_FIELDS @ JUDGED_FIELDS)"
  shows "\<not> has_key u k"
  using assms(1)
proof (rule validate_result)
  fix proposal errors before_errors outcome
  assume o: "(case (errors, proposal) of
        ([], Some plan) \<Rightarrow> request_approval s plan (collectable_tests (im_parse deps) plan)
      | _ \<Rightarrow> failed_validation s errors before_errors) = Inr outcome"
    and u: "u = dmerge (checked_updates proposal errors before_errors
       (case proposal of Some plan \<Rightarrow> collectable_tests (im_parse deps) plan | None \<Rightarrow> [])) outcome"
  have "\<not> has_key outcome k"
    using outcome_shape[OF o] assms(2)
    by (auto simp: pending_approval_def ended_def terminal_failure_def COUNT_FIELDS_def JUDGED_FIELDS_def)
  then show ?thesis using assms(2)
    by (auto simp: u checked_updates_def has_key_append ended_def terminal_failure_def COUNT_FIELDS_def JUDGED_FIELDS_def)
qed

lemma refine_shape:
  assumes "refine_implementation deps x s = Inr (u, x')"
  obtains a errors e plan where "impl_attempts_of s = Inr a"
    "u = failed_refinement (a + 1) errors e \<or> u = refined_project (a + 1) errors plan"
proof -
  from assms obtain a proposed where a: "impl_attempts_of s = Inr a"
    "(if is_dict (get s ''project_implementation'') then structured deps True s
          else Inr (Inl (MISSING_PROJECT_IMPLEMENTATION, MISSING_PROJECT_IMPLEMENTATION))) = Inr proposed"
    unfolding refine_implementation_def Let_def by (elim bind_InrE)
  show ?thesis
  proof (cases proposed)
    case (Inl e)
    with assms obtain errors where "u = failed_refinement (a + 1) errors e"
      by (auto simp: refine_implementation_def a Let_def elim!: bind_InrE)
    then show ?thesis by (intro that[OF a(1)] disjI1)
  next
    case (Inr proposal)
    with assms obtain errors plan where "u = refined_project (a + 1) errors plan"
      by (auto simp: refine_implementation_def a Let_def elim!: bind_InrE)
    then show ?thesis by (intro that[OF a(1)] disjI2)
  qed
qed

lemma refine_written:
  "getd (failed_refinement n errors e) ''implementation_attempts'' v = PInt n"
  "getd (failed_refinement n errors e) ''dependency_normalization_attempts'' v = PInt 0"
  "\<not> has_key (failed_refinement n errors e) ''max_implementation_attempts''"
  "getd (refined_project n errors plan) ''implementation_attempts'' v = PInt n"
  "getd (refined_project n errors plan) ''dependency_normalization_attempts'' v = PInt 0"
  "\<not> has_key (refined_project n errors plan) ''max_implementation_attempts''"
  by (simp_all add: failed_refinement_def refined_project_def refinement_counts_def terminal_failure_def getd_append has_key_append)

lemma refined_counts:
  assumes "refine_implementation deps x s = Inr (u, x')"
  obtains a where "impl_attempts_of s = Inr a" "\<forall>v. getd u ''implementation_attempts'' v = PInt (a + 1)"
    "\<forall>v. getd u ''dependency_normalization_attempts'' v = PInt 0" "\<not> has_key u ''max_implementation_attempts''"
  using assms by (rule refine_shape) (auto simp: refine_written intro: that)

section \<open>Every run ends\<close>

definition attempts_left :: "pydict \<Rightarrow> nat" where
  "attempts_left s = (case (impl_attempts_of s, impl_limit_of s) of (Inr a, Inr m) \<Rightarrow> nat (m - a) | _ \<Rightarrow> 0)"

definition normalizations_left :: "pydict \<Rightarrow> nat" where
  "normalizations_left s = (case normalizations_of s of Inr n \<Rightarrow> nat (2 - n) | _ \<Rightarrow> 0)"

text \<open>How many steps a node can still be away from the end.\<close>

fun implementation_rank :: "implementation_place \<Rightarrow> pydict \<Rightarrow> nat" where
  "implementation_rank IEnter s = 12 + 2 * (normalizations_left s - 1) + 5 * attempts_left s"
| "implementation_rank IKnowledge s = 11 + 2 * (normalizations_left s - 1) + 5 * attempts_left s"
| "implementation_rank IPrepare s = 10 + 2 * (normalizations_left s - 1) + 5 * attempts_left s"
| "implementation_rank INormalize s = 9 + 2 * (normalizations_left s - 1) + 5 * attempts_left s"
| "implementation_rank IValidate s = 8 + 2 * normalizations_left s + 5 * attempts_left s"
| "implementation_rank IRefine s = 12 + 5 * (attempts_left s - 1)"
| "implementation_rank IApproval s = (if get s ''pending_operation'' = PStr ''create_project'' then 7 else 3)"
| "implementation_rank IExecuteCreate s = 6"
| "implementation_rank IDetect s = 5"
| "implementation_rank IPrepareEnv s = 4"
| "implementation_rank IExecuteEnv s = 2"
| "implementation_rank IFrameworkFailure s = 2"
| "implementation_rank IEntryFailure s = 2"
| "implementation_rank ILeave s = 1"
| "implementation_rank IDone s = 0"

lemma same_counts:
  assumes "implementation_overwrites merge" "\<And>k. k \<in> set COUNT_FIELDS \<Longrightarrow> \<not> has_key u k"
  shows "impl_attempts_of (merge s u) = impl_attempts_of s" "impl_limit_of (merge s u) = impl_limit_of s"
    "normalizations_of (merge s u) = normalizations_of s"
proof -
  have "getd (merge s u) k v = getd s k v" if "k \<in> set COUNT_FIELDS" for k v
    using implementation_field(1)[OF assms(1), of k s u v] assms(2)[OF that] that by (simp add: READ_FIELDS_def getd_no_key)
  then show "impl_attempts_of (merge s u) = impl_attempts_of s" "impl_limit_of (merge s u) = impl_limit_of s"
    "normalizations_of (merge s u) = normalizations_of s"
    by (simp_all add: impl_attempts_of_def impl_limit_of_def normalizations_of_def COUNT_FIELDS_def)
qed

lemma same_left:
  assumes "implementation_overwrites merge" "\<And>k. k \<in> set COUNT_FIELDS \<Longrightarrow> \<not> has_key u k"
  shows "attempts_left (merge s u) = attempts_left s" "normalizations_left (merge s u) = normalizations_left s"
  using same_counts[OF assms] by (simp_all add: attempts_left_def normalizations_left_def)

lemma logged_counts:
  assumes "logged_implementation name f deps x s = Inr (u, x')"
    and "\<And>u0. f deps x s = Inr (u0, x') \<Longrightarrow> k \<in> set COUNT_FIELDS \<Longrightarrow> \<not> has_key u0 k"
  shows "k \<in> set COUNT_FIELDS \<Longrightarrow> \<not> has_key u k"
  using assms by (elim logged_node_updates) (auto simp: COUNT_FIELDS_def)

text \<open>What each of the nodes before the approval does to the counts.\<close>

lemma quiet_node_left:
  assumes "implementation_overwrites merge" "n \<in> {IKnowledge, IPrepare, IValidate}"
    and "run_implementation_node n deps x s = Inr (u, x')"
  shows "attempts_left (merge s u) = attempts_left s" "normalizations_left (merge s u) = normalizations_left s"
proof -
  have "\<not> has_key u k" if "k \<in> set COUNT_FIELDS" for k
  proof -
    consider "n = IKnowledge" | "n = IPrepare" | "n = IValidate" using assms(2) by blast
    then show ?thesis
    proof cases
      case 1
      have "\<not> has_key u0 k" if "prepare_developer_knowledge deps x s = Inr (u0, x')" for u0
        using developer_keys[OF that, of k] \<open>k \<in> set COUNT_FIELDS\<close> by (simp add: READ_FIELDS_def)
      with 1 assms(3) that show ?thesis using logged_counts[of _ prepare_developer_knowledge deps x s u x' k] by auto
    next
      case 2
      have "\<not> has_key u0 k" if "prepare_create_project deps x s = Inr (u0, x')" for u0
        using prepare_keys[OF that, of k] \<open>k \<in> set COUNT_FIELDS\<close> by (simp add: COUNT_FIELDS_def)
      with 2 assms(3) that show ?thesis using logged_counts[of _ prepare_create_project deps x s u x' k] by auto
    next
      case 3
      have "\<not> has_key u0 k" if "validate_implementation deps x s = Inr (u0, x')" for u0
        using validate_keys[OF that, of k] \<open>k \<in> set COUNT_FIELDS\<close> by simp
      with 3 assms(3) that show ?thesis using logged_counts[of _ validate_implementation deps x s u x' k] by auto
    qed
  qed
  from same_left[OF assms(1) this] show "attempts_left (merge s u) = attempts_left s"
    "normalizations_left (merge s u) = normalizations_left s" by simp_all
qed

lemma normalize_left:
  assumes "implementation_overwrites merge" "run_implementation_node INormalize deps x s = Inr (u, x')"
  shows "attempts_left (merge s u) = attempts_left s" "normalizations_left (merge s u) = normalizations_left s - 1"
proof -
  obtain u0 v where u0: "normalize_dependencies deps x s = Inr (u0, x')" "u = AList.update ''last_completed_node'' v u0"
    using assms(2) by (auto elim: logged_node_updates)
  obtain n where n: "normalizations_of s = Inr n" "\<forall>v. getd u0 ''dependency_normalization_attempts'' v = PInt (n + 1)"
    "\<not> has_key u0 ''implementation_attempts''" "\<not> has_key u0 ''max_implementation_attempts''"
    using normalize_counts[OF u0(1)] by blast
  with n u0(2) have "impl_attempts_of (merge s u) = impl_attempts_of s" "impl_limit_of (merge s u) = impl_limit_of s"
    "normalizations_of (merge s u) = Inr (n + 1)"
    by (simp_all add: impl_attempts_of_def impl_limit_of_def normalizations_of_def implementation_field(1)[OF assms(1)]
        READ_FIELDS_def COUNT_FIELDS_def getd_no_key)
  with n(1) show "attempts_left (merge s u) = attempts_left s" "normalizations_left (merge s u) = normalizations_left s - 1"
    by (simp_all add: attempts_left_def normalizations_left_def)
qed

lemma refine_left:
  assumes "implementation_overwrites merge" "run_implementation_node IRefine deps x s = Inr (u, x')"
  shows "attempts_left (merge s u) = attempts_left s - 1" "normalizations_left (merge s u) = 2"
proof -
  obtain u0 v where u0: "refine_implementation deps x s = Inr (u0, x')" "u = AList.update ''last_completed_node'' v u0"
    using assms(2) by (auto elim: logged_node_updates)
  obtain a where a: "impl_attempts_of s = Inr a" "\<forall>w. getd u0 ''implementation_attempts'' w = PInt (a + 1)"
    "\<forall>w. getd u0 ''dependency_normalization_attempts'' w = PInt 0" "\<not> has_key u0 ''max_implementation_attempts''"
    using refined_counts[OF u0(1)] by blast
  then have "impl_attempts_of (merge s u) = Inr (a + 1)" "impl_limit_of (merge s u) = impl_limit_of s"
    "normalizations_of (merge s u) = Inr 0"
    by (simp_all add: impl_attempts_of_def impl_limit_of_def normalizations_of_def implementation_field(1)[OF assms(1)] u0(2)
        READ_FIELDS_def COUNT_FIELDS_def getd_no_key)
  with a(1) show "attempts_left (merge s u) = attempts_left s - 1" "normalizations_left (merge s u) = 2"
    by (auto simp: attempts_left_def normalizations_left_def split: sum.splits)
qed

lemma after_validation:
  assumes "implementation_next IValidate s = Inr n"
  shows "n = IApproval \<or> n = ILeave \<or> n = INormalize \<and> 0 < normalizations_left s \<or> n = IRefine \<and> 0 < attempts_left s"
  using assms
  by (auto simp: route_after_implementation_validation_def take_edge_def ifM_eq_Inr_iff MAX_DEPENDENCY_NORMALIZATION_ATTEMPTS_def
      normalizations_left_def attempts_left_def elim!: bind_InrE split: if_splits)

lemma after_approval:
  assumes "implementation_next IApproval s = Inr n"
  shows "n = ILeave \<or> get s ''pending_approval_status'' = PStr ''approved''
    \<and> (n = IExecuteCreate \<and> get s ''pending_operation'' = PStr ''create_project''
      \<or> n = IExecuteEnv \<and> get s ''pending_operation'' = PStr ''prepare_environment'')"
  using assms
  by (auto simp: route_implementation_approval_def take_edge_def Let_def elim!: bind_InrE split: if_splits)

lemma approval_kept:
  assumes "implementation_overwrites merge" "run_implementation_node IApproval deps x s = Inr (u, x')"
    and "get (merge s u) ''pending_approval_status'' = PStr ''approved''"
    and "k \<in> set (JUDGED_FIELDS @ [''pending_operation'', ''pending_tool_name'', ''pending_tool_arguments''])"
  shows "get (merge s u) k = get s k"
proof -
  obtain decision v where u: "u = AList.update ''last_completed_node'' v (approval_updates s decision)"
    using assms(2) by (auto simp: graph_node_def approval_node_def Let_def elim!: bind_InrE logged_node_updates)
  have "get (merge s u) k = getd u k (get s k)" if "k \<in> set READ_FIELDS" for k
    using implementation_field(2)[OF assms(1) that] .
  note field = this
  have "approved_flag decision = Some True"
    using assms(3) field[of "''pending_approval_status''"] u
    by (simp add: approval_updates_def READ_FIELDS_def Let_def split: option.splits bool.splits)
  then have approved: "u = AList.update ''last_completed_node'' v [(''pending_approval_status'', PStr ''approved''),
      (''approval_reason'', if is_str (reason_of decision) then reason_of decision else PNone),
      (''last_approved_tool'', get s ''pending_tool_name'')]"
    using u by (simp add: approval_updates_def)
  from assms(4) have "k \<in> set READ_FIELDS" "''pending_approval_status'' \<noteq> k" "''approval_reason'' \<noteq> k"
    "''last_approved_tool'' \<noteq> k" "''last_completed_node'' \<noteq> k"
    by (auto simp: READ_FIELDS_def JUDGED_FIELDS_def)
  with field approved show ?thesis by simp
qed

lemma environment_pending:
  assumes "implementation_overwrites merge" "run_implementation_node IPrepareEnv deps x s = Inr (u, x')"
  shows "get (merge s u) ''pending_operation'' = PStr ''prepare_environment''"
proof -
  obtain v project where "u = AList.update ''last_completed_node'' v (pending_approval ''prepare_environment''
      ''testing__prepare_test_environment'' [(''project_name'', PStr project)] [(''project_name'', PStr project)])"
    using assms(2) by (auto simp: graph_node_def prepare_environment_request_node_def elim!: bind_InrE logged_node_updates)
  then show ?thesis by (simp add: implementation_field(2)[OF assms(1)] READ_FIELDS_def pending_approval_def)
qed

lemma implementation_goes_down:
  assumes "implementation_overwrites merge" "n \<noteq> IDone" "implementation_step merge deps (n, x, s) = Inr (n', x', s')"
  shows "implementation_rank n' s' < implementation_rank n s"
proof -
  obtain u where u: "run_implementation_node n deps x s = Inr (u, x')" "s' = merge s u" "implementation_next n s' = Inr n'"
    using assms(3) by (auto simp: Let_def elim!: bind_InrE)
  consider "n = IEnter" | "n = IKnowledge" | "n = IPrepare" | "n = IValidate" | "n = INormalize" | "n = IRefine" | "n = IApproval"
    | "n = IPrepareEnv" | "n \<in> {IExecuteCreate, IDetect, IFrameworkFailure, IEntryFailure, IExecuteEnv, ILeave}"
    using assms(2) by (cases n) auto
  then show ?thesis
  proof cases
    case 1
    then have "u = []" using u(1) by simp
    then have "attempts_left s' = attempts_left s" "normalizations_left s' = normalizations_left s"
      using same_left[OF assms(1), of "[]" s] u(2) by simp_all
    with 1 u(3) show ?thesis by (auto simp: take_edge_def route_implementation_entry_def Let_def split: if_splits)
  next
    case 2 with quiet_node_left[OF assms(1), of n deps x s u x'] u show ?thesis by auto
  next
    case 3 with quiet_node_left[OF assms(1), of n deps x s u x'] u show ?thesis by auto
  next
    case 4 with quiet_node_left[OF assms(1), of n deps x s u x'] u after_validation[of s' n'] show ?thesis by auto
  next
    case 5 with normalize_left[OF assms(1), of deps x s u x'] u show ?thesis by auto
  next
    case 6 with refine_left[OF assms(1), of deps x s u x'] u show ?thesis by auto
  next
    case 7
    with u after_approval[of s' n'] approval_kept[OF assms(1), of deps x s u x' "''pending_operation''"]
    show ?thesis by auto
  next
    case 8 with u environment_pending[OF assms(1), of deps x s u x'] show ?thesis by auto
  next
    case 9 with u(3) show ?thesis
      by (auto simp: take_edge_def route_after_create_execution_def route_after_detect_def split: if_splits)
  qed
qed

lemma implementation_bounded:
  assumes "implementation_run merge parse (n0, x0, s0) k c" "implementation_overwrites merge"
  shows "k + (case c of (n, x, s) \<Rightarrow> implementation_rank n s) \<le> implementation_rank n0 s0"
  using assms(1)
proof (induction rule: implementation_run.induct)
  case (implementation_steps k n x state deps c)
  obtain n' x' s' where c: "c = (n', x', s')" by (cases c)
  from implementation_goes_down[OF assms(2) implementation_steps(2) implementation_steps(4)[unfolded c]] implementation_steps(5)
  show ?case by (simp add: c)
qed simp

text \<open>(C18) Every run of the implementation subgraph ends, whatever the model, the tools and the person answer: with
  the usual merge it makes at most fourteen steps and five for every attempt that the limit leaves. The steps
  beyond ten are those of a normalisation counter that the caller left below one.\<close>

theorem implementation_ends:
  assumes "implementation_overwrites merge" "implementation_run merge parse (IEnter, x, state) k c"
  shows "k \<le> 12 + 2 * (normalizations_left state - 1) + 5 * attempts_left state"
  using implementation_bounded[OF assms(2,1)] by (cases c) auto

section \<open>What is created\<close>

text \<open>A pending creation of a project that parses and passes every check of the request in the state.\<close>

definition vetted_creation :: "(string \<Rightarrow> py_ast option) \<Rightarrow> pydict \<Rightarrow> ProjectImplementationPlan \<Rightarrow> bool" where
  "vetted_creation parse s plan \<longleftrightarrow>
    get s ''pending_tool_name'' = PStr DEVELOPER_TOOL
    \<and> get s ''pending_tool_arguments'' = PDict (creation_arguments plan)
    \<and> (\<exists>raw. parse_implementation_plan raw = Inr plan)
    \<and> validate_project_implementation parse s plan = Inr []"

definition judged_alike :: "pydict \<Rightarrow> pydict \<Rightarrow> bool" where
  "judged_alike s s' \<longleftrightarrow> (\<forall>k \<in> set JUDGED_FIELDS. \<forall>v. getd s k v = getd s' k v)"

lemma judged_get: "judged_alike s s' \<Longrightarrow> k \<in> set JUDGED_FIELDS \<Longrightarrow> get s k = get s' k"
  by (simp add: judged_alike_def get_getd)

lemma judged_checks:
  assumes "judged_alike s s'"
  shows "validate_project_implementation parse s plan = validate_project_implementation parse s' plan"
proof -
  note g = judged_get[OF assms] and d = assms[unfolded judged_alike_def, rule_format]
  have "naming_errors s plan = naming_errors s' plan"
    by (simp add: naming_errors_def g JUDGED_FIELDS_def)
  moreover have "getd s ''original_user_message'' v = getd s' ''original_user_message'' v" for v
    by (simp add: d JUDGED_FIELDS_def)
  moreover have "extract_fastapi_test_contract s = extract_fastapi_test_contract s'"
    "async_requested original s = async_requested original s'" for original
    by (simp_all add: extract_fastapi_test_contract_def async_requested_def g d JUDGED_FIELDS_def)
  then have "fastapi_test_errors parse original s plan = fastapi_test_errors parse original s' plan" for original
    by (simp add: fastapi_test_errors_def Let_def)
  ultimately show ?thesis by (simp add: validate_project_implementation_def)
qed

lemma model_validate_valid: "model_validate raw = Valid plan \<Longrightarrow> parse_implementation_plan raw = Inr plan"
  by (auto simp: model_validate_def split: sum.splits exn.splits)

lemma dedupe_nothing: "dedupe xs = [] \<Longrightarrow> xs = []"
  by (cases xs) (auto simp: dedupe_def)

lemma no_errors_found:
  assumes "check_implementation deps s = Inr (proposal, [])"
  obtains plan raw where "proposal = Some plan" "parse_implementation_plan raw = Inr plan"
    "validate_project_implementation (im_parse deps) s plan = Inr []"
proof (cases "get s ''project_implementation''")
  case (PDict raw)
  show ?thesis
  proof (cases "model_validate raw")
    case (Valid plan)
    with assms PDict obtain policy_errors errors where
      "validate_project_implementation (im_parse deps) s plan = Inr errors" "dedupe (policy_errors @ errors) = []" "proposal = Some plan"
      by (auto simp: check_implementation_def elim!: bind_InrE)
    with that model_validate_valid[OF Valid] dedupe_nothing[of "policy_errors @ errors"] show ?thesis by simp
  qed (use assms PDict in \<open>auto simp: check_implementation_def schema_errors_def\<close>)
qed (use assms in \<open>auto simp: check_implementation_def\<close>)

lemma validated_creation:
  assumes "implementation_overwrites merge" "run_implementation_node IValidate deps x s = Inr (u, x')"
    and "implementation_next IValidate (merge s u) = Inr IApproval"
  shows "\<exists>plan. vetted_creation (im_parse deps) (merge s u) plan"
proof -
  obtain u0 v where u0: "validate_implementation deps x s = Inr (u0, x')" "u = AList.update ''last_completed_node'' v u0"
    using assms(2) by (auto elim: logged_node_updates)
  have valid: "truthy (get (merge s u) ''implementation_valid'')"
    using assms(3) by (auto simp: route_after_implementation_validation_def take_edge_def ifM_eq_Inr_iff elim!: bind_InrE split: if_splits)
  have field: "get (merge s u) k = getd u0 k (get s k)" if "k \<in> set READ_FIELDS" for k
    using implementation_field(2)[OF assms(1) that] logged_field(1)[OF that] u0(2) by simp
  have "judged_alike s (merge s u)"
    unfolding judged_alike_def
  proof (intro ballI allI)
    fix k v assume k: "k \<in> set JUDGED_FIELDS"
    then have "k \<in> set READ_FIELDS" "\<not> has_key u0 k" using validate_keys[OF u0(1), of k] by (simp_all add: READ_FIELDS_def)
    then show "getd s k v = getd (merge s u) k v"
      using implementation_field(1)[OF assms(1), of k s u] logged_field(1)[of k] u0(2) by (simp add: getd_no_key)
  qed
  note judged = judged_checks[OF this]
  show ?thesis using u0(1)
  proof (rule validate_result)
    fix proposal errors before_errors outcome
    assume c: "check_implementation deps s = Inr (proposal, errors)"
      and o: "(case (errors, proposal) of
        ([], Some plan) \<Rightarrow> request_approval s plan (collectable_tests (im_parse deps) plan)
      | _ \<Rightarrow> failed_validation s errors before_errors) = Inr outcome"
      and u1: "u0 = dmerge (checked_updates proposal errors before_errors
       (case proposal of Some plan \<Rightarrow> collectable_tests (im_parse deps) plan | None \<Rightarrow> [])) outcome"
    have "\<not> has_key outcome ''implementation_valid''"
      using outcome_shape[OF o] by (auto simp: pending_approval_def ended_def terminal_failure_def)
    then have "getd u0 ''implementation_valid'' w = PBool (errors = [])" for w
      by (simp add: u1 getd_dmerge_other checked_updates_def)
    with valid field[of "''implementation_valid''"] have none: "errors = []" by (simp add: READ_FIELDS_def)
    with c obtain plan raw where plan: "proposal = Some plan" "parse_implementation_plan raw = Inr plan"
      "validate_project_implementation (im_parse deps) s plan = Inr []" by (auto elim: no_errors_found)
    with o none obtain preview where "outcome = pending_approval ''create_project'' DEVELOPER_TOOL (creation_arguments plan) preview"
      by (auto simp: request_approval_def elim!: bind_InrE)
    then have "getd u0 ''pending_tool_name'' w = PStr DEVELOPER_TOOL" "getd u0 ''pending_tool_arguments'' w = PDict (creation_arguments plan)" for w
      by (simp_all add: u1 pending_approval_def getd_dmerge dict_ok_def)
    with field[of "''pending_tool_name''"] field[of "''pending_tool_arguments''"] plan judged[of "im_parse deps" plan] show ?thesis
      by (auto simp: vetted_creation_def READ_FIELDS_def intro!: exI[of _ plan])
  qed
qed

lemma vetted_kept:
  assumes "vetted_creation parse s plan" "judged_alike s s'"
    and "get s' ''pending_tool_name'' = get s ''pending_tool_name''" "get s' ''pending_tool_arguments'' = get s ''pending_tool_arguments''"
  shows "vetted_creation parse s' plan"
  using assms judged_checks[OF assms(2), of parse plan] by (simp add: vetted_creation_def)

text \<open>What holds at the places where a creation is pending.\<close>

definition creation_vetted :: "(string \<Rightarrow> py_ast option) \<Rightarrow> implementation_place \<Rightarrow> pydict \<Rightarrow> bool" where
  "creation_vetted parse n s \<longleftrightarrow>
    (n = IApproval \<longrightarrow> get s ''pending_operation'' = PStr ''create_project'' \<longrightarrow> (\<exists>plan. vetted_creation parse s plan))
    \<and> (n = IExecuteCreate \<longrightarrow> get s ''pending_approval_status'' = PStr ''approved'' \<and> (\<exists>plan. vetted_creation parse s plan))"

lemma approval_judged:
  assumes "implementation_overwrites merge" "run_implementation_node IApproval deps x s = Inr (u, x')"
  shows "judged_alike s (merge s u)"
  unfolding judged_alike_def
proof (intro ballI allI)
  fix k v assume k: "k \<in> set JUDGED_FIELDS"
  obtain decision w where u: "u = AList.update ''last_completed_node'' w (approval_updates s decision)"
    using assms(2) by (auto simp: graph_node_def approval_node_def Let_def elim!: bind_InrE logged_node_updates)
  have "\<not> has_key (approval_updates s decision) k"
    using k by (auto simp: approval_updates_def JUDGED_FIELDS_def Let_def split: option.splits bool.splits)
  moreover have r: "k \<in> set READ_FIELDS" using k by (simp add: READ_FIELDS_def)
  ultimately show "getd s k v = getd (merge s u) k v"
    using implementation_field(1)[OF assms(1) r] logged_field(1)[OF r] u by (simp add: getd_no_key)
qed

lemma creation_stays_vetted:
  assumes "implementation_overwrites merge" "im_parse deps = parse" "creation_vetted parse n s"
    and "implementation_step merge deps (n, x, s) = Inr (n', x', s')"
  shows "creation_vetted parse n' s'"
proof -
  obtain u where u: "run_implementation_node n deps x s = Inr (u, x')" "s' = merge s u" "implementation_next n s' = Inr n'"
    using assms(4) by (auto simp: Let_def elim!: bind_InrE)
  consider "n = IValidate" | "n = IApproval" | "n = IPrepareEnv" | "n \<notin> {IValidate, IApproval, IPrepareEnv}" by blast
  then show ?thesis
  proof cases
    case 1
    with u have "n' = IApproval \<Longrightarrow> \<exists>plan. vetted_creation parse s' plan"
      using validated_creation[OF assms(1), of deps x s u x'] assms(2) by auto
    with after_validation[of s' n'] 1 u(3) show ?thesis by (auto simp: creation_vetted_def)
  next
    case 2
    show ?thesis
    proof (cases "n' = IExecuteCreate")
      case True
      with after_approval[of s' n'] 2 u have ok: "get s' ''pending_approval_status'' = PStr ''approved''"
        "get s' ''pending_operation'' = PStr ''create_project''" by auto
      have r: "run_implementation_node IApproval deps x s = Inr (u, x')" using u(1) 2 by simp
      note kept = approval_kept[OF assms(1) r ok(1)[unfolded u(2)]]
      have same: "get s' ''pending_operation'' = get s ''pending_operation''"
        "get s' ''pending_tool_name'' = get s ''pending_tool_name''"
        "get s' ''pending_tool_arguments'' = get s ''pending_tool_arguments''"
        unfolding u(2) by (rule kept, simp)+
      with ok assms(3) 2 obtain plan where "vetted_creation parse s plan" by (auto simp: creation_vetted_def)
      from vetted_kept[OF this approval_judged[OF assms(1) r, folded u(2)] same(2,3)]
      have "vetted_creation parse s' plan" .
      with ok True show ?thesis by (auto simp: creation_vetted_def)
    qed (use after_approval[of s' n'] 2 u in \<open>auto simp: creation_vetted_def\<close>)
  next
    case 3
    with environment_pending[OF assms(1), of deps x s u x'] u show ?thesis by (auto simp: creation_vetted_def)
  next
    case 4
    with u(3) have "n' \<notin> {IApproval, IExecuteCreate}"
      by (cases n) (auto simp: take_edge_def route_implementation_entry_def route_after_create_execution_def route_after_detect_def
          Let_def split: if_splits)
    then show ?thesis by (simp add: creation_vetted_def)
  qed
qed

lemma vetted_run:
  assumes "implementation_run merge parse (n0, x0, s0) k c" "implementation_overwrites merge" "n0 \<notin> {IApproval, IExecuteCreate}"
  shows "case c of (n, x, s) \<Rightarrow> creation_vetted parse n s"
  using assms(1)
proof (induction rule: implementation_run.induct)
  case implementation_begins
  then show ?case using assms(3) by (auto simp: creation_vetted_def)
next
  case (implementation_steps k n x state deps c)
  then show ?case using creation_stays_vetted[OF assms(2) implementation_steps(3)] by (cases c) auto
qed

lemma vetted_facts:
  assumes "vetted_creation parse s plan"
  shows "\<forall>f \<in> set (ip_files plan). safe_path (f_path f)" "distinct (map (casefold \<circ> f_path) (ip_files plan))"
    "validate_dependency_file (ip_framework plan) (ip_files plan) = []" "\<exists>f \<in> set (ip_files plan). is_test_file f"
    "naming_errors s plan = Inr []"
proof -
  from assms obtain raw where "parse_implementation_plan raw = Inr plan" by (auto simp: vetted_creation_def)
  from parsed_plan_facts[OF this] show "\<forall>f \<in> set (ip_files plan). safe_path (f_path f)"
    "distinct (map (casefold \<circ> f_path) (ip_files plan))" by auto
  have v: "validate_project_implementation parse s plan = Inr []" using assms by (simp add: vetted_creation_def)
  then obtain naming where n: "naming_errors s plan = Inr naming" "naming = []" "file_errors plan = []"
    unfolding validate_project_implementation_def by (auto elim!: bind_InrE dest!: dedupe_nothing)
  then show "naming_errors s plan = Inr []" by simp
  have "filter is_test_file (ip_files plan) \<noteq> []" using n(3) by (auto simp: file_errors_def Let_def report_def)
  then show "\<exists>f \<in> set (ip_files plan). is_test_file f" by (simp add: filter_empty_conv)
  show "validate_dependency_file (ip_framework plan) (ip_files plan) = []" using n(3) by (simp add: file_errors_def Let_def)
qed

text \<open>(C8) Whatever the model and the person answer, when the subgraph comes to create the project the creation was
  approved, and the pending call is the creation of exactly the files of a plan that passes every check of
  the request: its paths are relative, stay inside the project and differ even without regard to case, its
  dependencies obey the policy, it holds a test, and it has the names the request asks for. A run may start at
  any node but the approval and the creation themselves.\<close>

theorem created_project_is_vetted:
  assumes "implementation_overwrites merge" "implementation_run merge parse (n0, x0, s0) k (IExecuteCreate, x, s)"
    and "n0 \<notin> {IApproval, IExecuteCreate}"
  shows "get s ''pending_approval_status'' = PStr ''approved'' \<and> (\<exists>plan.
    get s ''pending_tool_name'' = PStr ''filesystem__create_project_structure''
    \<and> get s ''pending_tool_arguments'' = PDict (creation_arguments plan)
    \<and> (\<forall>f \<in> set (ip_files plan). safe_path (f_path f)) \<and> distinct (map (casefold \<circ> f_path) (ip_files plan))
    \<and> validate_dependency_file (ip_framework plan) (ip_files plan) = [] \<and> (\<exists>f \<in> set (ip_files plan). is_test_file f)
    \<and> naming_errors s plan = Inr [] \<and> validate_project_implementation parse s plan = Inr [])"
proof -
  from vetted_run[OF assms(2,1,3)] obtain plan where "get s ''pending_approval_status'' = PStr ''approved''"
    and v: "vetted_creation parse s plan" by (auto simp: creation_vetted_def)
  with vetted_facts[OF v] v show ?thesis unfolding vetted_creation_def DEVELOPER_TOOL_def by blast
qed

section \<open>A generation that fails\<close>

lemma missing_uncorrectable: "only_correctable_errors (PList [PStr MISSING_PROJECT_IMPLEMENTATION]) = Inr False"
  by code_simp

lemma logged_field_get:
  "implementation_overwrites merge \<Longrightarrow> k \<in> set READ_FIELDS
    \<Longrightarrow> getd (merge s (AList.update ''last_completed_node'' v u)) k w = getd u k (getd s k w)"
  using implementation_field(1) logged_field(1) by simp

lemma missing_implementation_found:
  assumes "\<not> is_dict (get s ''project_implementation'')" "validate_implementation deps x s = Inr (u, x')"
    and "impl_attempts_of s = Inr a" "impl_limit_of s = Inr m" "a < m" "texts_at s ''refinement_input_errors'' = Inr []"
  shows "u = checked_updates None [MISSING_PROJECT_IMPLEMENTATION] [] []"
proof -
  have "check_implementation deps s = Inr (None, [MISSING_PROJECT_IMPLEMENTATION])"
    using assms(1) by (cases "get s ''project_implementation''") (simp_all add: check_implementation_def)
  moreover have "failed_validation s [MISSING_PROJECT_IMPLEMENTATION] [] = Inr []"
  proof (cases "normalizations_of s")
    case (Inr n)
    then show ?thesis using assms(3-5) by (simp add: failed_validation_def andM_def missing_uncorrectable)
  qed (use assms(3-5) in \<open>simp add: failed_validation_def andM_def missing_uncorrectable\<close>)
  ultimately show ?thesis using assms(2,6) by (simp add: validate_implementation_def)
qed

lemma kept_by_failure:
  assumes "implementation_overwrites merge"
    and "list_all (\<lambda>k. \<not> has_key u k)
      [''implementation_attempts'', ''max_implementation_attempts'', ''project_implementation'', ''refinement_input_errors'']"
    and "s' = merge s (AList.update ''last_completed_node'' v u)"
  shows "impl_attempts_of s' = impl_attempts_of s" "impl_limit_of s' = impl_limit_of s"
    "get s' ''project_implementation'' = get s ''project_implementation''"
    "texts_at s' ''refinement_input_errors'' = texts_at s ''refinement_input_errors''"
  using assms(2)
  by (simp_all add: impl_attempts_of_def impl_limit_of_def texts_at_def get_getd assms(3) logged_field_get[OF assms(1)]
      READ_FIELDS_def COUNT_FIELDS_def getd_no_key)

text \<open>(C39) When the model gives no implementation at the first attempt, as after a timeout or a refusal, the
  subgraph ends three nodes later although the limit leaves attempts: nothing is generated again, and what the
  state records as the reason is that no implementation is there, not why there is none.\<close>

theorem failed_generation_is_final:
  assumes "implementation_overwrites merge" "structured deps False s = Inr (Inl (code, message))"
    and "\<not> is_dict (get s ''project_implementation'')"
    and "impl_attempts_of s = Inr a" "impl_limit_of s = Inr m" "a < m"
    and "texts_at s ''refinement_input_errors'' = Inr []"
    and "implementation_step merge deps (IPrepare, x, s) = Inr c1"
    and "implementation_step merge deps1 c1 = Inr c2" "implementation_step merge deps2 c2 = Inr (n, x', s')"
  shows "n = ILeave \<and> get s' ''terminal_status'' = PStr ''implementation_failed''
    \<and> get s' ''failure_type'' = PStr MISSING_PROJECT_IMPLEMENTATION
    \<and> get s' ''implementation_failure_reason'' = PStr MISSING_PROJECT_IMPLEMENTATION"
proof -
  obtain v x1 where c1: "c1 = (INormalize, x1, merge s (AList.update ''last_completed_node'' v (failed_generation (code, message))))"
    using assms(8,2) by (auto simp: logged_implementation_def prepare_create_project_def Let_def elim!: bind_InrE)
  define s1 where "s1 = merge s (AList.update ''last_completed_node'' v (failed_generation (code, message)))"
  have "list_all (\<lambda>k. \<not> has_key (failed_generation (code, message)) k)
      [''implementation_attempts'', ''max_implementation_attempts'', ''project_implementation'', ''refinement_input_errors'']"
    by (simp add: failed_generation_def)
  note k1 = kept_by_failure[OF assms(1) this s1_def]
  have "\<not> is_dict (get s1 ''project_implementation'')" using k1(3) assms(3) by simp
  then have "normalize_dependencies deps1 x1 s1 = bind (normalizations_of s1) (\<lambda>n. Inr (missing_implementation (n + 1), x1))"
    by (cases "get s1 ''project_implementation''") (simp_all add: normalize_dependencies_def Let_def)
  with assms(9) c1 obtain v2 j where c2: "c2 = (IValidate, x1, merge s1 (AList.update ''last_completed_node'' v2 (missing_implementation j)))"
    by (auto simp: s1_def[symmetric] logged_implementation_def Let_def elim!: bind_InrE)
  define s2 where "s2 = merge s1 (AList.update ''last_completed_node'' v2 (missing_implementation j))"
  have "list_all (\<lambda>k. \<not> has_key (missing_implementation j) k)
      [''implementation_attempts'', ''max_implementation_attempts'', ''project_implementation'', ''refinement_input_errors'']"
    by (simp add: missing_implementation_def terminal_failure_def)
  note k2 = kept_by_failure[OF assms(1) this s2_def]
  from assms(10) c2 obtain u v3 where u: "validate_implementation deps2 x1 s2 = Inr (u, x')"
    and s': "s' = merge s2 (AList.update ''last_completed_node'' v3 u)" and n: "implementation_next IValidate s' = Inr n"
    by (auto simp: s2_def[symmetric] Let_def elim!: bind_InrE logged_node_updates)
  have field: "get s' k = getd u k (get s2 k)" if "k \<in> set READ_FIELDS" for k
    using logged_field_get[OF assms(1) that] by (simp add: get_getd s')
  have "u = checked_updates None [MISSING_PROJECT_IMPLEMENTATION] [] []"
    using missing_implementation_found[OF _ u, of a m] k1 k2 assms(3-7) by simp
  then have r: "get s' ''terminal_status'' = PStr ''implementation_failed''" "get s' ''failure_type'' = PStr MISSING_PROJECT_IMPLEMENTATION"
    "get s' ''implementation_failure_reason'' = PStr MISSING_PROJECT_IMPLEMENTATION"
    by (simp_all add: field READ_FIELDS_def checked_updates_def ended_def terminal_failure_def)
  with n have "n = ILeave" by (simp add: route_after_implementation_validation_def take_edge_def)
  with r show ?thesis by simp
qed

end
