(* ===== verification/ImplementationExample.thy ===== *)
theory ImplementationExample
  imports ImplementationProps
begin

text \<open>Runs of the implementation subgraph: a project comes to be created, an existing one is not found, a
  model does not answer, and a proposal is refused by the second validation.\<close>

fun implementation_iter ::
  "(pydict \<Rightarrow> pydict \<Rightarrow> pydict) \<Rightarrow> 'x ImplementationDeps \<Rightarrow> nat \<Rightarrow> 'x implementation_config \<Rightarrow> exn + 'x implementation_config" where
  "implementation_iter merge deps 0 c = Inr c"
| "implementation_iter merge deps (Suc k) c =
     (if fst c = IDone then Inl Unmodelled else bind (implementation_step merge deps c) (implementation_iter merge deps k))"

lemma implementation_iter_run:
  assumes "implementation_iter merge deps k c = Inr c'" "implementation_run merge (im_parse deps) start j c"
  shows "implementation_run merge (im_parse deps) start (j + k) c'"
  using assms
proof (induction k arbitrary: j c)
  case (Suc k)
  obtain n x s where c: "c = (n, x, s)" by (cases c)
  from Suc(2) obtain c1 where "n \<noteq> IDone" "implementation_step merge deps (n, x, s) = Inr c1" "implementation_iter merge deps k c1 = Inr c'"
    by (auto simp: c elim!: bind_InrE split: if_splits simp del: implementation_step.simps)
  with Suc(1)[OF this(3) implementation_steps[OF Suc(3)[unfolded c] this(1) refl this(2)]] show ?case by simp
qed simp

lemma overlay_implementation: "implementation_overwrites overlay"
  by (simp add: implementation_overwrites_def overlay_def getd_append)

definition developer_with :: "(string \<Rightarrow> pydict \<Rightarrow> exn + pydict) option \<Rightarrow> unit ImplementationDeps" where
  "developer_with resolver =
    \<lparr>im_graph = \<lparr>execute_tool = (\<lambda>x name args s mode. Inl TimeoutError), argument_resolver = resolver,
       model_items = (\<lambda>name s. Inr []), interrupt = (\<lambda>d. PDict [(''approved'', PBool True)]), imports_of = (\<lambda>s. None)\<rparr>,
     im_settings = \<lparr>env_var = (\<lambda>name. None), obs_context = \<lparr>ctx_workflow_id = None, ctx_branch_id = None, ctx_agent = None, ctx_trace_id = None, ctx_span_id = None\<rparr>\<rparr>, im_parse = (\<lambda>code. None), im_complaint = (\<lambda>raw. ''invalid''),
     im_problems = (\<lambda>raw. ((''files'', ''invalid''), [])), im_reply = (\<lambda>refinement context. NoAnswer)\<rparr>"

section \<open>A project is created\<close>

definition given_file :: "string \<Rightarrow> string \<Rightarrow> pyval" where
  "given_file path content = PDict [(''path'', PStr path), (''content'', PStr content)]"

definition node_developer :: "unit ImplementationDeps" where
  "node_developer = developer_with (Some (\<lambda>name s. Inr [(''project_name'', PStr ''demo''),
     (''files'', PList [given_file ''package.json'' ''{}'', given_file ''demo/tests/test_app.py'' ''x''])]))"

definition node_request :: pydict where
  "node_request = [(''original_user_message'', PStr ''Crea demo''), (''project_name'', PStr ''demo''),
     (''requirement_analysis'', PDict [(''project_name'', PStr ''demo''), (''project_type'', PStr ''node'')])]"

lemma node_evaluated:
  "case implementation_iter overlay node_developer 4 (IPrepare, (), node_request) of Inl e \<Rightarrow> False
   | Inr (n, x, s) \<Rightarrow> n = IExecuteCreate \<and> get s ''pending_tool_arguments'' = PDict [(''project_name'', PStr ''demo''),
       (''files'', PList [given_file ''package.json'' ''{}'', given_file ''tests/test_app.py'' ''x''])]"
  by code_simp

theorem created_project_is_vetted_witness:
  "\<exists>s plan. get s ''pending_approval_status'' = PStr ''approved''
    \<and> creation_arguments plan = [(''project_name'', PStr ''demo''),
       (''files'', PList [given_file ''package.json'' ''{}'', given_file ''tests/test_app.py'' ''x''])]
    \<and> (\<forall>f \<in> set (ip_files plan). safe_path (f_path f)) \<and> naming_errors s plan = Inr []"
proof -
  obtain s where s: "implementation_iter overlay node_developer 4 (IPrepare, (), node_request) = Inr (IExecuteCreate, (), s)"
    "get s ''pending_tool_arguments'' = PDict [(''project_name'', PStr ''demo''),
       (''files'', PList [given_file ''package.json'' ''{}'', given_file ''tests/test_app.py'' ''x''])]"
    using node_evaluated by (auto split: sum.splits)
  from implementation_iter_run[OF s(1) implementation_begins]
  have "implementation_run overlay (im_parse node_developer) (IPrepare, (), node_request) (0 + 4) (IExecuteCreate, (), s)" .
  from created_project_is_vetted[OF overlay_implementation this] obtain plan
    where p: "get s ''pending_approval_status'' = PStr ''approved''" "get s ''pending_tool_arguments'' = PDict (creation_arguments plan)"
      "\<forall>f \<in> set (ip_files plan). safe_path (f_path f)" "naming_errors s plan = Inr []" by auto
  from p(2) s(2) have "creation_arguments plan = [(''project_name'', PStr ''demo''),
       (''files'', PList [given_file ''package.json'' ''{}'', given_file ''tests/test_app.py'' ''x''])]" by simp
  with p show ?thesis by blast
qed

section \<open>A run ends\<close>

definition review_request :: pydict where
  "review_request = [(''project_name'', PStr ''demo''), (''workflow_intent'', PStr ''review_existing_project''),
     (''max_implementation_attempts'', PInt 0), (''dependency_normalization_attempts'', PInt 2)]"

lemma review_evaluated:
  "case implementation_iter overlay (developer_with None) 3 (IEnter, (), review_request) of Inl e \<Rightarrow> False
   | Inr (n, x, s) \<Rightarrow> n = IDone \<and> get s ''failure_type'' = PStr ''project_not_found''"
  by code_simp

theorem implementation_ends_witness:
  "\<exists>s. implementation_run overlay (im_parse (developer_with None)) (IEnter, (), review_request) 3 (IDone, (), s)
     \<and> get s ''failure_type'' = PStr ''project_not_found'' \<and> 3 \<le> 12 + 2 * (normalizations_left review_request - 1) + 5 * attempts_left review_request"
proof -
  obtain s where s: "implementation_iter overlay (developer_with None) 3 (IEnter, (), review_request) = Inr (IDone, (), s)"
    "get s ''failure_type'' = PStr ''project_not_found''"
    using review_evaluated by (auto split: sum.splits)
  from implementation_iter_run[OF s(1) implementation_begins]
  have r: "implementation_run overlay (im_parse (developer_with None)) (IEnter, (), review_request) 3 (IDone, (), s)" by simp
  from implementation_ends[OF overlay_implementation r] r s(2) show ?thesis by blast
qed

section \<open>No implementation is generated\<close>

definition first_request :: pydict where
  "first_request = [(''original_user_message'', PStr ''Crea demo'')]"

lemma unanswered:
  "case structured (developer_with None) False first_request of Inr (Inl (code, message)) \<Rightarrow> code = ''implementation_timeout'' | _ \<Rightarrow> False"
  "impl_attempts_of first_request = Inr 0" "impl_limit_of first_request = Inr 2"
  "texts_at first_request ''refinement_input_errors'' = Inr []" "\<not> is_dict (get first_request ''project_implementation'')"
  "case implementation_iter overlay (developer_with None) 3 (IPrepare, (), first_request) of Inl e \<Rightarrow> False | Inr c \<Rightarrow> True"
  by code_simp+

theorem failed_generation_is_final_witness:
  "\<exists>s. implementation_iter overlay (developer_with None) 3 (IPrepare, (), first_request) = Inr (ILeave, (), s)
    \<and> get s ''implementation_failure_reason'' = PStr MISSING_PROJECT_IMPLEMENTATION"
proof -
  obtain code message where m: "structured (developer_with None) False first_request = Inr (Inl (code, message))"
    using unanswered(1) by (auto split: sum.splits prod.splits)
  obtain n x s where i: "implementation_iter overlay (developer_with None) (Suc (Suc (Suc 0))) (IPrepare, (), first_request) = Inr (n, x, s)"
    using unanswered(6) by (auto simp: numeral_3_eq_3 split: sum.splits)
  then obtain c1 c2 where c: "implementation_step overlay (developer_with None) (IPrepare, (), first_request) = Inr c1"
    "implementation_step overlay (developer_with None) c1 = Inr c2" "implementation_step overlay (developer_with None) c2 = Inr (n, x, s)"
    by (auto elim!: bind_InrE split: if_splits simp del: implementation_step.simps)
  from failed_generation_is_final[OF overlay_implementation m unanswered(5,2,3) _ unanswered(4) c]
  have "n = ILeave" "get s ''implementation_failure_reason'' = PStr MISSING_PROJECT_IMPLEMENTATION" by simp_all
  with i show ?thesis by (auto simp: numeral_3_eq_3)
qed

section \<open>A proposal the second validation refuses\<close>

definition clashing_developer :: "unit ImplementationDeps" where
  "clashing_developer = developer_with (Some (\<lambda>name s. Inr [(''project_name'', PStr ''demo''),
     (''files'', PList [given_file ''Tests/test_health.py'' ''x''])]))"

definition health_request :: pydict where
  "health_request = [(''original_user_message'', PStr (''GET /health {'' @ [CHR 0x22] @ ''n'' @ [CHR 0x22] @ '': 1}'')),
     (''project_name'', PStr ''demo'')]"

text \<open>The proposal itself is valid; the test the service adds to it clashes with one of its files, and the
  error of the second validation leaves the node, and with it the subgraph, as an exception.\<close>

theorem second_validation_raises:
  "case structured clashing_developer False health_request of Inr (Inr plan) \<Rightarrow>
     map f_path (ip_files plan) = [''Tests/test_health.py'', ''tests/test_health.py'']
     \<and> implementation_step overlay clashing_developer (IPrepare, (), health_request)
        = Inl (ValueError ''implementation_path_conflict: tests/test_health.py'')
   | _ \<Rightarrow> False"
  by code_simp

end
