(* ===== verification/CIGates.thy ===== *)
theory CIGates
  imports HostTools PyJson
begin

text \<open>
  The rules of continuous integration (api/ci_models.py, and the functions of
  api/services/ci_service.py outside its class): which commands a pipeline may run, the gates of a
  pipeline and what the results of its steps make of them, when a commit may be promoted, and which
  failures a repair is tried for. Times and durations are left out; the SHA-256 digest is a
  parameter.
\<close>

section \<open>Models\<close>

record CIPipelineStep =
  st_id :: string
  st_name :: string
  st_type :: string
  st_command :: "string list"
  st_directory :: "string option"
  st_timeout :: "rat option"
  st_required :: bool
  st_continue_on_error :: bool

record CIPipelineDefinition =
  pl_id :: string
  pl_name :: string
  pl_version :: string
  pl_framework :: string
  pl_steps :: "CIPipelineStep list"
  pl_fail_fast :: bool
  pl_timeout :: rat

record CISourceRevision =
  so_mode :: string
  so_commit :: "string option"
  so_branch :: "string option"
  so_workflow_branch :: "string option"
  so_root :: "string option"
  so_dirty :: "bool option"
  so_clean :: "bool option"

record CIStepRun =
  sr_id :: string
  sr_name :: string
  sr_type :: string
  sr_status :: string
  sr_exit_code :: "int option"
  sr_stdout :: "string option"
  sr_stderr :: "string option"
  sr_truncated :: bool
  sr_failure_type :: "string option"
  sr_failure_message :: "string option"

record CIGateDefinition =
  gd_id :: string
  gd_type :: string
  gd_required :: bool
  gd_blocking :: bool
  gd_sources :: "string list"
  gd_minimum :: "nat option"
  gd_allow_skipped :: bool
  gd_version :: string

record CIGateResult =
  gr_id :: string
  gr_type :: string
  gr_status :: string
  gr_required :: bool
  gr_blocking :: bool
  gr_reason :: string
  gr_steps :: "string list"
  gr_failure_type :: "string option"

record CIGateEvaluation =
  ge_version :: string
  ge_gates :: "CIGateResult list"
  ge_decision :: string
  ge_failed :: "string list"
  ge_warning :: "string list"
  ge_blocking :: "string option"
  ge_failure_type :: "string option"
  ge_summary :: "(string \<times> nat) list"

record CIRepairability =
  rp_repairable :: bool
  rp_category :: string
  rp_confidence :: rat
  rp_reasons :: "string list"
  rp_gate :: "string option"
  rp_step :: "string option"
  rp_failure_type :: "string option"
  rp_summary :: "string option"

record CIPipelineRun =
  rn_id :: string
  rn_workflow :: string
  rn_project :: string
  rn_pipeline :: CIPipelineDefinition
  rn_fingerprint :: string
  rn_status :: string
  rn_source :: CISourceRevision
  rn_steps :: "CIStepRun list"
  rn_failed_step :: "string option"
  rn_failure_type :: "string option"
  rn_failure_message :: "string option"
  rn_warnings :: "string list"
  rn_gate_version :: "string option"
  rn_gates :: "CIGateResult list"
  rn_decision :: "string option"
  rn_failed_gates :: "string list"
  rn_warning_gates :: "string list"
  rn_blocking_gate :: "string option"
  rn_gate_summary :: "(string \<times> nat) list"
  rn_validated_commit :: "string option"
  rn_repairability :: "CIRepairability option"

record CIPromotionEligibility =
  el_required :: bool
  el_eligible :: bool
  el_reason :: string
  el_commit_match :: bool
  el_source_commit :: "string option"
  el_target_commit :: "string option"
  el_run_id :: "string option"
  el_status :: "string option"
  el_decision :: "string option"
  el_blocking_gates :: "string list"
  el_warnings :: "string list"
  el_gate_version :: "string option"
  el_pipeline_version :: "string option"
  el_fingerprint :: "string option"
  el_metadata :: pydict

section \<open>Policies\<close>

definition environment_flag :: "(string \<Rightarrow> string option) \<Rightarrow> string \<Rightarrow> string \<Rightarrow> bool" where
  "environment_flag env name dflt =
    (casefold (strip (case env name of Some v \<Rightarrow> v | None \<Rightarrow> dflt)) \<in> {''1'', ''true'', ''yes'', ''on''})"

definition environment_text :: "(string \<Rightarrow> string option) \<Rightarrow> string \<Rightarrow> string \<Rightarrow> string" where
  "environment_text env name dflt = (case env name of Some v \<Rightarrow> v | None \<Rightarrow> dflt)"

record CIGatePolicy =
  gp_version :: string
  gp_build :: bool
  gp_test :: bool
  gp_lint :: bool
  gp_package :: bool

definition gate_policy_from :: "(string \<Rightarrow> string option) \<Rightarrow> CIGatePolicy" where
  "gate_policy_from env =
    \<lparr>gp_version = environment_text env ''CI_GATE_POLICY_VERSION'' ''6.21.2-v1'',
     gp_build = environment_flag env ''CI_BUILD_GATE_BLOCKING'' ''true'',
     gp_test = environment_flag env ''CI_TEST_GATE_BLOCKING'' ''true'',
     gp_lint = environment_flag env ''CI_LINT_GATE_BLOCKING'' ''false'',
     gp_package = environment_flag env ''CI_PACKAGE_GATE_BLOCKING'' ''false''\<rparr>"

record CIPromotionPolicy =
  pp_version :: string
  pp_required :: bool
  pp_allow_warnings :: bool

definition promotion_policy_from :: "(string \<Rightarrow> string option) \<Rightarrow> CIPromotionPolicy" where
  "promotion_policy_from env =
    \<lparr>pp_version = environment_text env ''CI_GIT_INTEGRATION_VERSION'' ''6.21.3-v1'',
     pp_required = environment_flag env ''CI_PROMOTION_REQUIRED'' ''true'',
     pp_allow_warnings = environment_flag env ''CI_PROMOTION_ALLOW_WARNINGS'' ''true''\<rparr>"

section \<open>Commands and paths\<close>

definition ALLOWED_EXECUTABLES :: "string list" where
  "ALLOWED_EXECUTABLES = [''python'', ''pytest'', ''pip'', ''uv'', ''dotnet'', ''npm'', ''npx'']"

definition FORBIDDEN_TOKENS :: "string list" where
  "FORBIDDEN_TOKENS = [''&&'', ''||'', ''|'', '';'', ''>'', ''<'', [CHR 0x60], ''$('', ''rm'', ''del'', ''erase'', ''curl'', ''eval'']"

text \<open>\<open>CICommandNotAllowed\<close>, \<open>CIPathViolation\<close> and the other errors carry their code as their text.\<close>

definition ci_error :: "string \<Rightarrow> exn" where
  "ci_error code = RuntimeError code"

text \<open>The name up to its last dot, when it ends in one of Windows' suffixes.\<close>

definition normalize_executable :: "string \<Rightarrow> string" where
  "normalize_executable value =
    (let base = casefold (path_name value) in
     if list_ex (ends_with base) [''.exe'', ''.cmd'', ''.bat''] then take (length base - 4) base else base)"

definition validate_ci_command :: "string list \<Rightarrow> exn + string list" where
  "validate_ci_command arguments =
    (let refused = Inl (ci_error ''ci_command_not_allowed'') in
     case arguments of
       [] \<Rightarrow> refused
     | program # rest \<Rightarrow>
         let executable = normalize_executable program; lowered = map casefold arguments in
         if executable \<notin> set ALLOWED_EXECUTABLES then refused
         else if executable \<in> {''powershell'', ''pwsh'', ''cmd'', ''bash'', ''sh''} then refused
         else if list_ex (\<lambda>item. item \<in> set FORBIDDEN_TOKENS) lowered then refused
         else if ''-c'' \<in> set lowered \<and> executable \<in> {''python'', ''bash'', ''sh''} then refused
         else if executable = ''pip'' \<and> rest \<noteq> [] \<and> hd rest \<in> {''install'', ''uninstall''} then refused
         else if executable = ''uv'' \<and> list_ex (\<lambda>item. item \<in> {''pip'', ''add'', ''remove''}) lowered then refused
         else Inr arguments)"

text \<open>A drive of Windows: a letter and a colon, or a share after two slashes.\<close>

fun has_windows_drive :: "string \<Rightarrow> bool" where
  "has_windows_drive (d # c # s) = (c = CHR '':'')"
| "has_windows_drive _ = False"

definition validate_ci_relative_path :: "string option \<Rightarrow> exn + string option" where
  "validate_ci_relative_path path =
    (case path of
       None \<Rightarrow> Inr None
     | Some p \<Rightarrow>
         if strip p = [] then Inr None
         else let raw = strip (replace_char (CHR 0x5C) (CHR ''/'') p); parts = path_parts raw in
           if starts_with raw ''/'' \<or> has_windows_drive raw then Inl (ci_error ''ci_path_violation'')
           else if ''..'' \<in> set parts \<or> list_ex (\<lambda>part. casefold part = ''.git'') parts then Inl (ci_error ''ci_path_violation'')
           else Inr (Some (as_posix raw)))"

section \<open>Gates\<close>

definition GATE_TYPES :: "string list" where
  "GATE_TYPES = [''build'', ''test'', ''lint'', ''package'']"

definition gate_for :: "CIPipelineDefinition \<Rightarrow> CIGatePolicy \<Rightarrow> string \<Rightarrow> bool \<Rightarrow> CIGateDefinition" where
  "gate_for pipeline gate_policy gate_type blocking =
    (let steps = filter (\<lambda>s. st_type s = gate_type) (pl_steps pipeline);
         required = (steps \<noteq> [] \<and> (gate_type \<in> {''build'', ''test''} \<or> list_ex st_required steps)) in
     \<lparr>gd_id = gate_type @ ''-gate'', gd_type = gate_type, gd_required = required, gd_blocking = (blocking \<and> required),
      gd_sources = [gate_type], gd_minimum = (if steps \<noteq> [] \<and> required then Some (length steps) else None),
      gd_allow_skipped = False, gd_version = gp_version gate_policy\<rparr>)"

definition build_ci_gate_definitions :: "CIPipelineDefinition \<Rightarrow> CIGatePolicy \<Rightarrow> CIGateDefinition list" where
  "build_ci_gate_definitions pipeline gate_policy =
    [gate_for pipeline gate_policy ''build'' (gp_build gate_policy), gate_for pipeline gate_policy ''test'' (gp_test gate_policy),
     gate_for pipeline gate_policy ''lint'' (gp_lint gate_policy), gate_for pipeline gate_policy ''package'' (gp_package gate_policy)]"

definition gate_result :: "CIGateDefinition \<Rightarrow> string \<Rightarrow> string \<Rightarrow> string list \<Rightarrow> string option \<Rightarrow> CIGateResult" where
  "gate_result d status reason steps failure =
    \<lparr>gr_id = gd_id d, gr_type = gd_type d, gr_status = status, gr_required = gd_required d, gr_blocking = gd_blocking d,
     gr_reason = reason, gr_steps = steps, gr_failure_type = failure\<rparr>"

definition gate_failure :: "CIGateDefinition \<Rightarrow> string" where
  "gate_failure d = ''ci_'' @ gd_type d @ ''_gate_failed''"

definition evaluate_gate :: "CIStepRun list \<Rightarrow> CIGateDefinition \<Rightarrow> CIGateResult" where
  "evaluate_gate results d =
    (let sources = filter (\<lambda>s. sr_type s \<in> set (gd_sources d)) results; ids = map sr_id sources;
         success_count = length (filter (\<lambda>s. sr_status s = ''passed'') sources);
         minimum = (case gd_minimum d of Some (Suc n) \<Rightarrow> Suc n | _ \<Rightarrow> length sources) in
     if sources = [] then gate_result d ''not_applicable'' ''no_source_steps'' [] None
     else if list_ex (\<lambda>s. sr_status s = ''skipped'') sources \<and> \<not> gd_allow_skipped d
     then gate_result d ''skipped'' ''source_step_skipped'' ids None
     else if success_count \<ge> minimum then gate_result d ''passed'' ''minimum_success_count_met'' ids None
     else if list_ex (\<lambda>s. sr_status s \<in> {''failed'', ''timed_out'', ''cancelled'', ''interrupted''}) sources
     then gate_result d (if gd_blocking d then ''failed'' else ''warning'')
       (if gd_blocking d then ''blocking_source_step_failed'' else ''non_blocking_source_step_failed'') ids (Some (gate_failure d))
     else let status = (if gd_required d \<and> gd_blocking d then ''failed'' else if gd_required d then ''warning'' else ''not_applicable'') in
       gate_result d status ''minimum_success_count_not_met'' ids
         (if status \<in> {''failed'', ''warning''} then Some (gate_failure d) else None))"

definition counted_as :: "string \<Rightarrow> CIGateResult list \<Rightarrow> nat" where
  "counted_as status gates = length (filter (\<lambda>g. gr_status g = status) gates)"

definition evaluate_ci_gates ::
  "CIPipelineDefinition \<Rightarrow> CIStepRun list \<Rightarrow> CIGatePolicy \<Rightarrow> CIGateDefinition list \<Rightarrow> CIGateEvaluation" where
  "evaluate_ci_gates pipeline results gate_policy given =
    (let definitions = (if given = [] then build_ci_gate_definitions pipeline gate_policy else given);
         gates = map (evaluate_gate results) definitions;
         blocking = map_option gr_id (find (\<lambda>g. gr_status g = ''failed'' \<and> gr_blocking g) gates);
         warning = map gr_id (filter (\<lambda>g. gr_status g = ''warning'') gates) in
     \<lparr>ge_version = gp_version gate_policy, ge_gates = gates,
      ge_decision = (if blocking \<noteq> None \<and> blocking \<noteq> Some [] then ''rejected''
        else if warning \<noteq> [] then ''accepted_with_warnings'' else ''accepted''),
      ge_failed = map gr_id (filter (\<lambda>g. gr_status g = ''failed'') gates), ge_warning = warning, ge_blocking = blocking,
      ge_failure_type = Option.bind (find (\<lambda>g. Some (gr_id g) = blocking) gates) gr_failure_type,
      ge_summary = (''total'', length gates)
        # map (\<lambda>s. (s, counted_as s gates)) [''passed'', ''failed'', ''warning'', ''skipped'', ''not_applicable'']
        @ [(''blocking_failed_count'', length (filter (\<lambda>g. gr_status g = ''failed'' \<and> gr_blocking g) gates))]\<rparr>)"

section \<open>Promotion\<close>

definition is_hex :: "char \<Rightarrow> bool" where
  "is_hex c \<longleftrightarrow> is_digit c \<or> c \<in> set ''abcdefABCDEF''"

definition is_sha :: "string \<Rightarrow> bool" where
  "is_sha s \<longleftrightarrow> 40 \<le> length s \<and> length s \<le> 64 \<and> list_all is_hex s"

definition normalize_commit_id :: "string option \<Rightarrow> string option" where
  "normalize_commit_id value =
    (let t = strip (case value of Some v \<Rightarrow> v | None \<Rightarrow> []) in if is_sha t then Some t else None)"

fun first_given :: "string option list \<Rightarrow> string option" where
  "first_given [] = None"
| "first_given (Some (c # s) # rest) = Some (c # s)"
| "first_given (x # rest) = first_given rest"

definition no_run :: "CIPromotionPolicy \<Rightarrow> bool \<Rightarrow> bool \<Rightarrow> string \<Rightarrow> bool \<Rightarrow> string option \<Rightarrow> CIPromotionEligibility" where
  "no_run policy required eligible reason matches target =
    \<lparr>el_required = required, el_eligible = eligible, el_reason = reason, el_commit_match = matches, el_source_commit = None,
     el_target_commit = target, el_run_id = None, el_status = None, el_decision = None, el_blocking_gates = [],
     el_warnings = [], el_gate_version = None, el_pipeline_version = None, el_fingerprint = None,
     el_metadata = [(''policy_version'', PStr (pp_version policy))]\<rparr>"

text \<open>The verdict on a completed run for a target commit: whether it may be promoted, and why.\<close>

definition promotion_verdict :: "CIPromotionPolicy \<Rightarrow> string option \<Rightarrow> string option \<Rightarrow> string option \<Rightarrow> CIPipelineRun \<Rightarrow> bool \<times> string" where
  "promotion_verdict policy mode source_commit target execution =
    (if mode \<noteq> Some ''commit'' \<or> source_commit = None then (False, ''ci_required_for_promotion'')
     else if source_commit \<noteq> target then (False, ''ci_commit_mismatch'')
     else if rn_status execution \<notin> {''passed'', ''failed''} \<or> first_given [rn_decision execution] = None then (False, ''ci_run_not_completed'')
     else if rn_decision execution = Some ''rejected'' then (False, ''ci_promotion_blocked'')
     else if rn_decision execution = Some ''accepted_with_warnings'' \<and> \<not> pp_allow_warnings policy then (False, ''ci_warnings_blocked'')
     else (True, if rn_decision execution = Some ''accepted_with_warnings'' then ''ci_accepted_with_warnings'' else ''ci_accepted''))"

definition evaluate_ci_promotion_eligibility ::
  "string option \<Rightarrow> CIPipelineRun option \<Rightarrow> CIPromotionPolicy \<Rightarrow> CIPromotionEligibility" where
  "evaluate_ci_promotion_eligibility head ci_run policy =
    (let target = normalize_commit_id (first_given [head]) in
     if \<not> pp_required policy then no_run policy False True ''ci_not_required'' True target
     else if target = None then no_run policy True False ''ci_target_commit_missing'' False None
     else (case ci_run of
         None \<Rightarrow> no_run policy True False ''ci_required_for_promotion'' False target
       | Some finished \<Rightarrow>
           let mode = first_given [Some (strip (so_mode (rn_source finished)))];
               source_commit = normalize_commit_id (first_given [so_commit (rn_source finished), rn_validated_commit finished]);
               verdict = promotion_verdict policy mode source_commit target finished in
           \<lparr>el_required = True, el_eligible = fst verdict, el_reason = snd verdict, el_commit_match = (source_commit = target),
            el_source_commit = source_commit, el_target_commit = target, el_run_id = Some (rn_id finished),
            el_status = Some (rn_status finished), el_decision = rn_decision finished,
            el_blocking_gates = (if rn_failed_gates finished \<noteq> [] then rn_failed_gates finished
              else case first_given [rn_blocking_gate finished] of Some g \<Rightarrow> [g] | None \<Rightarrow> []),
            el_warnings = (if rn_warning_gates finished \<noteq> [] then rn_warning_gates finished else rn_warnings finished),
            el_gate_version = rn_gate_version finished, el_pipeline_version = Some (pl_version (rn_pipeline finished)),
            el_fingerprint = Some (rn_fingerprint finished),
            el_metadata = [(''policy_version'', PStr (pp_version policy)), (''failure_type'', opt_str (rn_failure_type finished)),
              (''failed_step'', opt_str (rn_failed_step finished)), (''source_mode'', opt_str mode),
              (''source_commit_valid'', PBool (source_commit \<noteq> None))]\<rparr>))"

section \<open>Repair\<close>

definition INFRASTRUCTURE_CI_FAILURES :: "string list" where
  "INFRASTRUCTURE_CI_FAILURES =
    [''ci_step_timeout'', ''ci_pipeline_timeout'', ''ci_environment_unavailable'', ''ci_execution_interrupted'']"

definition CONFIGURATION_CI_FAILURES :: "string list" where
  "CONFIGURATION_CI_FAILURES =
    [''ci_command_not_allowed'', ''ci_execution_context_invalid'', ''ci_path_violation'', ''ci_pipeline_stale'']"

definition given_text :: "string \<Rightarrow> string option" where
  "given_text s = first_given [Some s]"

definition bounded_failure_summary :: "CIStepRun option \<Rightarrow> CIPipelineRun \<Rightarrow> string option" where
  "bounded_failure_summary step execution =
    (case step of
       None \<Rightarrow> map_option (take 1000) (first_given [rn_failure_message execution])
     | Some s \<Rightarrow> given_text (take 1000 (strip (join [CHR 0x0A]
         (map the (filter (\<lambda>t. first_given [t] \<noteq> None) [sr_failure_message s, sr_stdout s, sr_stderr s]))))))"

text \<open>\<open>gate.replace("-gate", "")\<close>.\<close>

fun erase_from :: "nat \<Rightarrow> string \<Rightarrow> string \<Rightarrow> string" where
  "erase_from 0 pat s = s"
| "erase_from (Suc k) pat [] = []"
| "erase_from (Suc k) pat (c # s) =
     (if starts_with (c # s) pat then erase_from k pat (drop (length pat) (c # s)) else c # erase_from k pat s)"

definition gate_kind :: "string \<Rightarrow> string" where
  "gate_kind gate = erase_from (length gate) ''-gate'' gate"

definition failed_gate_of :: "CIPipelineRun \<Rightarrow> string option" where
  "failed_gate_of execution =
    (case first_given [rn_blocking_gate execution] of Some g \<Rightarrow> Some g
     | None \<Rightarrow> (case rn_failed_gates execution of [] \<Rightarrow> None | g # gs \<Rightarrow> Some g))"

definition failed_step_of :: "CIPipelineRun \<Rightarrow> CIStepRun option" where
  "failed_step_of execution =
    (case find (\<lambda>s. Some (sr_id s) = rn_failed_step execution) (rn_steps execution) of
       Some s \<Rightarrow> Some s
     | None \<Rightarrow> (case first_given [failed_gate_of execution] of
           None \<Rightarrow> None
         | Some g \<Rightarrow> find (\<lambda>s. sr_type s = gate_kind g \<and> sr_status s \<in> {''failed'', ''timed_out'', ''interrupted''}) (rn_steps execution)))"

definition repair_verdict ::
  "CIPipelineRun \<Rightarrow> bool \<Rightarrow> string \<Rightarrow> rat \<Rightarrow> string list \<Rightarrow> string option \<Rightarrow> string option \<Rightarrow> CIStepRun option \<Rightarrow> CIRepairability" where
  "repair_verdict execution repairable category confidence reasons gate step summarized =
    \<lparr>rp_repairable = repairable, rp_category = category, rp_confidence = confidence, rp_reasons = reasons, rp_gate = gate,
     rp_step = step, rp_failure_type = rn_failure_type execution, rp_summary = bounded_failure_summary summarized execution\<rparr>"

definition classify_ci_failure_for_repair :: "CIPipelineRun \<Rightarrow> CIRepairability" where
  "classify_ci_failure_for_repair execution =
    (let failure = rn_failure_type execution;
         named = (\<lambda>names. failure \<in> set (map Some names)) in
     if rn_decision execution \<noteq> Some ''rejected''
     then repair_verdict execution False ''non_repairable'' 1 [''ci_decision_not_rejected''] None None None
     else if named INFRASTRUCTURE_CI_FAILURES \<or> rn_status execution \<in> {''timed_out'', ''interrupted''}
     then repair_verdict execution False ''infrastructure'' (95/100) [''ci_infrastructure_failure''] (rn_blocking_gate execution) (rn_failed_step execution) None
     else if named CONFIGURATION_CI_FAILURES
     then repair_verdict execution False ''configuration'' (9/10) [''ci_configuration_failure''] (rn_blocking_gate execution) (rn_failed_step execution) None
     else
       let gate = failed_gate_of execution; step = failed_step_of execution;
           kind = (case step of Some s \<Rightarrow> sr_type s | None \<Rightarrow> gate_kind (case gate of Some g \<Rightarrow> g | None \<Rightarrow> []));
           step_id = (case step of Some s \<Rightarrow> Some (sr_id s) | None \<Rightarrow> rn_failed_step execution) in
       if kind = ''test'' \<or> named [''ci_tests_failed'', ''ci_test_gate_failed'']
       then repair_verdict execution True ''repairable_tests'' (85/100) [''ci_test_gate_failed'', ''ci_environment_executed''] gate step_id step
       else if kind = ''build'' \<or> named [''ci_build_failed'', ''ci_build_gate_failed'']
       then (let signal = any_in [''timeout'', ''unavailable'', ''network'', ''registry'']
                (casefold (case bounded_failure_summary step execution of Some t \<Rightarrow> t | None \<Rightarrow> [])) in
         if signal then repair_verdict execution False ''infrastructure'' (8/10) [''ci_build_infrastructure_signal''] gate step_id step
         else repair_verdict execution True ''repairable_build'' (75/100) [''ci_build_gate_failed''] gate step_id step)
       else if kind = ''lint'' \<or> named [''ci_lint_failed'', ''ci_lint_gate_failed'']
       then repair_verdict execution True ''repairable_lint'' (8/10) [''ci_lint_gate_failed''] gate step_id step
       else repair_verdict execution False ''unknown'' (3/10) [''ci_failure_unknown''] gate (rn_failed_step execution) step)"

end
