(* ===== verification/GitWorkflow.thy ===== *)
theory GitWorkflow
  imports GraphNodes PyJson
begin

text \<open>
  The git side of a workflow: which changed paths of a project belong to the workflow
  (git_dirty_paths.py), the nodes that prepare and execute a commit and a promotion
  (graph/git_workflow.py), and the reconciliation of a state with an accepted run of continuous
  integration (graph/ci_reconciliation.py). The git tools are reached through the executor of
  tools; the directories of the project are a parameter.
\<close>

section \<open>Repository paths\<close>

definition INFRASTRUCTURE_IGNORED_DIRECTORIES :: "string list" where
  "INFRASTRUCTURE_IGNORED_DIRECTORIES = [''.venv'', ''__pycache__'', ''.pytest_cache'']"

definition INFRASTRUCTURE_IGNORED_FILES :: "string list" where
  "INFRASTRUCTURE_IGNORED_FILES = [''.coverage'']"

fun without_dot_slash :: "string \<Rightarrow> string" where
  "without_dot_slash (a # b # s) = (if a = CHR ''.'' \<and> b = CHR ''/'' then without_dot_slash s else a # b # s)"
| "without_dot_slash s = s"

definition unsafe_repository_path :: "string \<Rightarrow> bool" where
  "unsafe_repository_path path \<longleftrightarrow>
    path = [] \<or> ''..'' \<in> set (path_parts path) \<or> list_ex (\<lambda>part. casefold part = ''.git'') (path_parts path)"

text \<open>\<open>^[A-Za-z]:\<close>.\<close>

fun has_drive :: "string \<Rightarrow> bool" where
  "has_drive (d # c # s) = (is_alpha d \<and> c = CHR '':'')"
| "has_drive _ = False"

definition forward_slashes :: "string \<Rightarrow> string" where
  "forward_slashes = replace_char (CHR 0x5C) (CHR ''/'')"

definition normalize_repository_path :: "string \<Rightarrow> string option" where
  "normalize_repository_path path =
    (let raw = strip_slashes (without_dot_slash (strip (forward_slashes path))) in
     if raw = [] \<or> starts_with raw ''/'' \<or> has_drive raw then None
     else if unsafe_repository_path (as_posix raw) then None else Some (as_posix raw))"

definition is_infrastructure_ignored :: "string \<Rightarrow> bool" where
  "is_infrastructure_ignored path \<longleftrightarrow> path_parts path \<noteq> []
    \<and> (last (path_parts path) \<in> set INFRASTRUCTURE_IGNORED_FILES
       \<or> list_ex (\<lambda>part. part \<in> set INFRASTRUCTURE_IGNORED_DIRECTORIES) (path_parts path))"

section \<open>Changed paths\<close>

text \<open>
  \<open>below d\<close> lists what lies under a directory of the project, as paths relative to its root with
  whether each is a file; it is nothing when \<open>d\<close> is no directory or leads out of the project.
\<close>

type_synonym listing = "string \<Rightarrow> (string \<times> bool) list option"

definition expand_directory_files :: "listing \<Rightarrow> string \<Rightarrow> string list option" where
  "expand_directory_files below directory =
    (case normalize_repository_path directory of
       None \<Rightarrow> None
     | Some d \<Rightarrow> (case below d of
           None \<Rightarrow> None
         | Some entries \<Rightarrow>
             if list_ex (\<lambda>(path, file). unsafe_repository_path path) entries then None
             else Some (map fst (filter (\<lambda>(path, file). file \<and> \<not> is_infrastructure_ignored path) entries))))"

record DirtyPaths =
  dp_allowed :: "string list"
  dp_ignored :: "string list"
  dp_unrelated :: "string list"

definition add_allowed :: "string list \<Rightarrow> DirtyPaths \<Rightarrow> DirtyPaths" where
  "add_allowed paths d = d\<lparr>dp_allowed := paths @ dp_allowed d\<rparr>"

definition add_unrelated :: "string \<Rightarrow> DirtyPaths \<Rightarrow> DirtyPaths" where
  "add_unrelated path d = d\<lparr>dp_unrelated := path # dp_unrelated d\<rparr>"

definition add_ignored :: "string \<Rightarrow> DirtyPaths \<Rightarrow> DirtyPaths" where
  "add_ignored path d = d\<lparr>dp_ignored := path # dp_ignored d\<rparr>"

definition classify_tracked :: "string list \<Rightarrow> string \<Rightarrow> DirtyPaths \<Rightarrow> DirtyPaths" where
  "classify_tracked allowed raw d =
    (case normalize_repository_path raw of
       None \<Rightarrow> add_unrelated (forward_slashes raw) d
     | Some changed \<Rightarrow>
         if is_infrastructure_ignored changed then add_ignored changed d
         else if changed \<in> set allowed then add_allowed [changed] d
         else add_unrelated changed d)"

text \<open>An untracked directory counts as allowed when all its files are; \<open>expand_directory_files\<close> gives
  files only for a directory.\<close>

definition classify_untracked :: "listing \<Rightarrow> string list \<Rightarrow> string \<Rightarrow> DirtyPaths \<Rightarrow> DirtyPaths" where
  "classify_untracked below allowed raw d =
    (case normalize_repository_path (strip (forward_slashes raw)) of
       None \<Rightarrow> add_unrelated (forward_slashes raw) d
     | Some changed \<Rightarrow>
         if is_infrastructure_ignored changed then add_ignored changed d
         else if changed \<in> set allowed then add_allowed [changed] d
         else (case expand_directory_files below changed of
             Some files \<Rightarrow> if set files \<subseteq> set allowed then add_allowed files d else add_unrelated changed d
           | None \<Rightarrow> add_unrelated changed d))"

definition status_values :: "pydict \<Rightarrow> string \<Rightarrow> exn + string list" where
  "status_values status key = bind (list_or_empty (get status key)) str_list"

definition sorted_paths :: "DirtyPaths \<Rightarrow> DirtyPaths" where
  "sorted_paths d =
    \<lparr>dp_allowed = sort (remdups (dp_allowed d)), dp_ignored = sort (remdups (dp_ignored d)),
     dp_unrelated = sort (remdups (dp_unrelated d))\<rparr>"

fun some_of :: "'a option list \<Rightarrow> 'a list" where
  "some_of [] = []"
| "some_of (None # xs) = some_of xs"
| "some_of (Some x # xs) = x # some_of xs"

definition classify_dirty_paths :: "listing \<Rightarrow> pydict \<Rightarrow> string list \<Rightarrow> exn + DirtyPaths" where
  "classify_dirty_paths below status allowed_dirty_paths =
    (let allowed = some_of (map normalize_repository_path allowed_dirty_paths) in
     bind (mapm (status_values status) [''staged'', ''modified'', ''deleted'']) (\<lambda>tracked.
     bind (status_values status ''untracked'') (\<lambda>untracked.
     Inr (sorted_paths (fold (classify_untracked below allowed) untracked
       (fold (classify_tracked allowed) (concat tracked)
         \<lparr>dp_allowed = [], dp_ignored = [], dp_unrelated = []\<rparr>))))))"

section \<open>The paths of a workflow\<close>

definition git_project :: "pydict \<Rightarrow> exn + string" where
  "git_project state = py_str (por (get state ''created_project_name'') (por (get state ''project_name'') (PStr [])))"

definition git_workflow :: "pydict \<Rightarrow> exn + string" where
  "git_workflow state = py_str (por (get state ''workflow_id'') (PStr []))"

definition relative_owned_path :: "string \<Rightarrow> string \<Rightarrow> string option" where
  "relative_owned_path project path =
    (case normalize_repository_path path of
       None \<Rightarrow> None
     | Some n \<Rightarrow> normalize_repository_path
         (if starts_with n (project @ ''/'') then drop (length project + 1) n else n))"

text \<open>The directories of the project of a state: its configured root, or its place in the workspace.\<close>

type_synonym directories = "string option \<Rightarrow> string \<Rightarrow> listing"

definition configured_root :: "pydict \<Rightarrow> exn + string option" where
  "configured_root state = optional_text (por (get state ''project_root'') (get state ''_project_root''))"

definition repairing :: "pydict \<Rightarrow> bool" where
  "repairing state \<longleftrightarrow> truthy (getd state ''repair_attempts'' (PInt 0)) \<and> truthy (get state ''files_updated_during_repair'')"

definition phase_of :: "pydict \<Rightarrow> string" where
  "phase_of state = (if repairing state then ''repair'' else ''implementation'')"

definition owned_paths :: "pydict \<Rightarrow> string \<Rightarrow> exn + string list" where
  "owned_paths state project =
    bind (list_or_empty (get state ''files_updated_during_repair'')) (\<lambda>repaired.
    bind (if repairing state then Inr [] else list_or_empty (get state ''generated_files'')) (\<lambda>generated.
    bind (str_list (generated @ repaired)) (\<lambda>raw.
    Inr (some_of (map (relative_owned_path project) raw)))))"

definition attributed_paths :: "directories \<Rightarrow> pydict \<Rightarrow> pydict \<Rightarrow> exn + string list \<times> string list" where
  "attributed_paths dirs state status =
    bind (git_project state) (\<lambda>project.
    bind (owned_paths state project) (\<lambda>owned.
    bind (configured_root state) (\<lambda>root.
    bind (classify_dirty_paths (dirs root project) status owned) (\<lambda>c.
    Inr (dp_allowed c, dp_unrelated c)))))"

definition squeeze_spaces :: "string \<Rightarrow> string" where
  "squeeze_spaces s = re_sub (plus (Cls is_space)) '' '' s"

definition commit_message :: "pydict \<Rightarrow> string \<Rightarrow> exn + string" where
  "commit_message state phase =
    (if phase = ''repair''
     then bind (py_str (por (get state ''test_failure_summary'') (por (get state ''failure_message'') (PStr ''validated tests''))))
       (\<lambda>detail. Inr (''fix: repair '' @ take 150 (strip (squeeze_spaces detail))))
     else bind (git_project state) (\<lambda>project.
       let name = strip (replace_char (CHR ''-'') (CHR '' '') project) in
       Inr (take 200 (''feat: implement '' @ (if name = [] then ''project'' else name)))))"

section \<open>The nodes of a commit\<close>

definition raised_payload :: "string \<Rightarrow> ToolExecutionOutcome \<Rightarrow> exn + pydict" where
  "raised_payload operation out =
    (case o_payload out of
       None \<Rightarrow> Inl (RuntimeError (operation @ ''_failed''))
     | Some payload \<Rightarrow>
         if o_is_error out \<or> get payload ''success'' = PBool False
         then bind (first_text payload [''error_code''] (operation @ ''_failed'')) (\<lambda>code. Inl (RuntimeError code))
         else Inr payload)"

definition refused :: "ToolExecutionOutcome \<Rightarrow> bool" where
  "refused out \<longleftrightarrow> o_is_error out \<or> get (payload_of out) ''success'' = PBool False"

text \<open>A call of a git tool whose payload is needed.\<close>

definition git_call ::
  "'x GraphDependencies \<Rightarrow> 'x \<Rightarrow> string \<Rightarrow> string \<Rightarrow> pydict \<Rightarrow> pydict \<Rightarrow> approval_mode \<Rightarrow> exn + pydict \<times> 'x" where
  "git_call deps x name operation arguments state mode =
    bind (execute_tool deps x name arguments state mode) (\<lambda>(out, x').
    bind (raised_payload operation out) (\<lambda>payload. Inr (payload, x')))"

definition git_identity :: "string \<Rightarrow> string \<Rightarrow> pydict" where
  "git_identity project workflow = [(''project_id'', PStr project), (''workflow_id'', PStr workflow)]"

definition agent :: "string \<Rightarrow> pydict" where
  "agent name = [(''agent_name'', PStr name)]"

definition initialization_failed :: "pydict \<Rightarrow> exn + pydict" where
  "initialization_failed payload =
    bind (first_text payload [''status'', ''failure_type''] ''git_initialization_failed'') (\<lambda>status.
    bind (first_text payload [''message'', ''error''] ''Git initialization failed.'') (\<lambda>message.
    Inr [(''git_state'', PStr ''git_unavailable''), (''git_workflow_state'', PStr ''git_initialization_failed''),
      (''git_commit_status'', PStr ''unavailable''), (''terminal_status'', PStr ''infrastructure_failed''),
      (''failure_type'', PStr (if status = ''mcp_timeout'' then ''git_initialization_failed'' else status)),
      (''failure_stage'', PStr ''git.init''), (''failure_message'', PStr message)]))"

definition workspace_refused :: "string \<Rightarrow> string \<Rightarrow> pydict" where
  "workspace_refused failure message =
    [(''git_workflow_state'', PStr ''unavailable''), (''git_commit_status'', PStr ''unavailable''),
     (''terminal_status'', PStr ''implementation_failed''), (''failure_type'', PStr failure),
     (''failure_stage'', PStr ''prepare_git_workspace''), (''failure_message'', PStr message)]"

definition branch_failed :: "pydict \<Rightarrow> exn + pydict" where
  "branch_failed payload =
    bind (first_text payload [''failure_type'', ''error_code'', ''status''] ''git_branch_failed'') (\<lambda>failure.
    bind (first_text payload [''message'', ''error''] ''Git workflow branch could not be prepared.'') (\<lambda>message.
    Inr (workspace_refused failure message)))"

definition branch_arguments :: "pydict \<Rightarrow> string \<Rightarrow> string \<Rightarrow> string list \<Rightarrow> exn + pydict" where
  "branch_arguments state project workflow owned =
    (let arguments = git_identity project workflow @ agent ''Developer'' @ [(''allowed_dirty_paths'', pstrs owned)] in
     if \<not> truthy (get state ''fork_origin_checkpoint_id'') then Inr arguments
     else bind (py_str (get state ''fork_origin_checkpoint_id'')) (\<lambda>checkpoint.
       Inr (arguments @ [(''fork_origin_workflow'', PStr workflow), (''fork_origin_commit'', get state ''git_head_commit''),
         (''branch_identity'', PStr (workflow @ '':fork:'' @ checkpoint))])))"

definition workspace_prepared :: "pydict \<Rightarrow> pydict \<Rightarrow> pydict" where
  "workspace_prepared init branch =
    [(''git_state'', PStr ''ready''), (''git_workflow_state'', PStr ''workspace_prepared''), (''git_repository'', PBool True),
     (''git_base_branch'', get branch ''base_branch''), (''git_base_commit'', get branch ''base_commit''),
     (''git_branch'', get branch ''branch''), (''git_workflow_branch'', get branch ''branch''),
     (''git_head_commit'', get init ''head_commit''), (''git_commit_status'', PNone)]"

definition prepare_workspace :: "directories \<Rightarrow> string \<Rightarrow> string \<Rightarrow> 'x node" where
  "prepare_workspace dirs project workflow deps x state =
    (let arguments = git_identity project workflow @ agent ''Developer'' in
     bind (execute_tool deps x ''git__init'' arguments state AlreadyApproved) (\<lambda>(out, x1).
     if refused out then bind (initialization_failed (payload_of out)) (\<lambda>u. Inr (u, x1))
     else bind (raised_payload ''git_init'' out) (\<lambda>init.
       bind (git_call deps x1 ''git__git_status'' ''git_status'' arguments state Prompt) (\<lambda>(status, x2).
       bind (attributed_paths dirs state status) (\<lambda>(owned, unrelated).
       if unrelated \<noteq> [] then Inr (workspace_refused ''git_workspace_dirty_conflict''
           ''Existing working tree contains changes not attributed to this workflow.'', x2)
       else bind (branch_arguments state project workflow owned) (\<lambda>branch_args.
         bind (execute_tool deps x2 ''git__create_workflow_branch'' branch_args state AlreadyApproved) (\<lambda>(out, x3).
         if refused out then bind (branch_failed (payload_of out)) (\<lambda>u. Inr (u, x3))
         else bind (raised_payload ''git_branch'' out) (\<lambda>branch. Inr (workspace_prepared init branch, x3)))))))))"

definition nothing_to_commit :: "string \<Rightarrow> pydict" where
  "nothing_to_commit phase =
    [(''git_workflow_state'', PStr ''no_changes''), (''git_state'', PStr ''ready''), (''git_commit_status'', PStr ''no_changes'')]
    @ (if phase = ''repair''
       then [(''ci_repair_state'', PStr ''failed''), (''terminal_status'', PStr ''ci_failed''),
         (''failure_type'', PStr ''ci_repair_no_changes''), (''failure_stage'', PStr ''prepare_git_commit''),
         (''failure_message'', PStr ''Repair validation passed locally but did not produce a new attributed change for commit.'')]
       else [])"

definition actor_of :: "string \<Rightarrow> string" where
  "actor_of phase = (if phase = ''repair'' then ''Repair'' else ''Developer'')"

definition commit_awaits :: "string \<Rightarrow> string \<Rightarrow> string \<Rightarrow> string list \<Rightarrow> string list \<Rightarrow> pydict \<Rightarrow> pydict" where
  "commit_awaits project workflow phase owned unrelated preview =
    [(''git_state'', PStr ''awaiting_approval''), (''git_workflow_state'', PStr ''awaiting_approval''),
     (''git_staged_files'', pstrs owned), (''git_commit_preview'', PDict preview),
     (''git_commit_approval_id'', get preview ''approval_id''), (''git_commit_status'', PStr ''awaiting_approval''),
     (''git_commit_phase'', PStr phase)]
    @ pending_approval ''git_commit'' ''git__commit''
        (git_identity project workflow @ [(''approval_id'', get preview ''approval_id'')] @ agent (actor_of phase)
          @ [(''phase'', PStr phase)])
        (dmerge preview [(''phase'', PStr phase), (''unrelated_files'', pstrs unrelated)])"

definition prepare_commit :: "directories \<Rightarrow> string \<Rightarrow> string \<Rightarrow> 'x node" where
  "prepare_commit dirs project workflow deps x state =
    (let phase = phase_of state; actor = agent (actor_of phase) in
     bind (git_call deps x ''git__git_status'' ''git_status'' (git_identity project workflow @ agent ''Developer'') state Prompt)
       (\<lambda>(status, x1).
     bind (attributed_paths dirs state status) (\<lambda>(owned, unrelated).
     if owned = [] then Inr (nothing_to_commit phase, x1)
     else bind (git_call deps x1 ''git__stage'' ''git_stage''
         (git_identity project workflow @ [(''paths'', pstrs owned)] @ actor) state AlreadyApproved) (\<lambda>(staged, x2).
       bind (commit_message state phase) (\<lambda>message.
       bind (git_call deps x2 ''git__prepare_commit'' ''git_prepare_commit''
         (git_identity project workflow @ [(''proposed_message'', PStr message)] @ actor) state AlreadyApproved) (\<lambda>(preview, x3).
       Inr (commit_awaits project workflow phase owned unrelated preview, x3)))))))"

definition prepare_git_workflow_node :: "directories \<Rightarrow> 'x node" where
  "prepare_git_workflow_node dirs deps x state =
    bind (git_project state) (\<lambda>project.
    bind (git_workflow state) (\<lambda>workflow.
    if project = [] \<or> workflow = []
    then Inr ([(''git_workflow_state'', PStr ''unavailable''), (''git_commit_status'', PStr ''unavailable'')], x)
    else if get state ''git_workflow_state'' \<in> {PNone, PStr ''not_initialized''}
    then prepare_workspace dirs project workflow deps x state
    else if get state ''tests_passed'' \<noteq> PBool True then Inr ([], x)
    else prepare_commit dirs project workflow deps x state))"

definition commit_phase :: "pydict \<Rightarrow> exn + string" where
  "commit_phase state = py_str (por (get state ''git_commit_phase'') (PStr ''implementation''))"

fun records_commit :: "pyval \<Rightarrow> pyval list \<Rightarrow> exn + bool" where
  "records_commit sha [] = Inr False"
| "records_commit sha (PDict item # items) = (if py_eq (get item ''sha'') sha then Inr True else records_commit sha items)"
| "records_commit sha (item # items) = Inl AttributeError"

definition commit_entry :: "string \<Rightarrow> pydict \<Rightarrow> pyval" where
  "commit_entry phase result =
    PDict [(''phase'', PStr phase), (''agent'', PStr (actor_of phase)), (''sha'', get result ''commit''),
      (''message'', get result ''message''), (''files'', por (get result ''files'') (PList []))]"

definition repair_commit_updates :: "pydict \<Rightarrow> pydict \<Rightarrow> pydict" where
  "repair_commit_updates state result =
    (if py_eq (get result ''commit'') (get state ''ci_repair_source_commit'')
     then [(''ci_repair_state'', PStr ''failed''), (''terminal_status'', PStr ''ci_failed''),
       (''failure_type'', PStr ''ci_repair_commit_not_advanced''), (''failure_stage'', PStr ''git_repair_commit''),
       (''failure_message'', PStr ''Repair commit did not advance the CI source commit.'')]
     else [(''ci_repair_state'', PStr ''running''), (''ci_repair_target_commit'', get result ''commit''),
       (''ci_validated_commit'', PNone), (''ci_promotion_eligible'', PBool False), (''ci_promotion_eligibility'', PNone),
       (''git_promotion_state'', PStr ''not_started''), (''git_promotion_preview'', PNone), (''git_promotion_approval_id'', PNone)])"

definition git_commit_state_updates :: "pydict \<Rightarrow> pydict \<Rightarrow> bool \<Rightarrow> exn + pydict" where
  "git_commit_state_updates state result recovery =
    bind (commit_phase state) (\<lambda>phase.
    bind (list_or_empty (get state ''git_commit_history'')) (\<lambda>history.
    bind (records_commit (get result ''commit'') history) (\<lambda>known.
    let repair = (if phase = ''repair'' then repair_commit_updates state result else []);
        updates = dmerge ([(''git_state'', PStr ''committed''), (''git_workflow_state'', PStr ''committed''),
          (''git_head_commit'', get result ''commit''), (''git_commit_status'', PStr ''committed''),
          (''git_developer_commit_sha'', if phase = ''implementation'' then get result ''commit'' else get state ''git_developer_commit_sha''),
          (''git_repair_commit_sha'', if phase = ''repair'' then get result ''commit'' else get state ''git_repair_commit_sha''),
          (''git_commit_history'', PList (if known then history else history @ [commit_entry phase result]))]
          @ cleared_approval) repair in
    Inr (if recovery then dmerge (dmerge updates [(''terminal_status'', PNone), (''failure_type'', PNone),
           (''failure_stage'', PNone), (''failure_message'', PNone)]) repair else updates))))"

definition execute_git_commit_node :: "'x node" where
  "execute_git_commit_node deps x state =
    bind (git_project state) (\<lambda>project.
    bind (git_workflow state) (\<lambda>workflow.
    bind (commit_phase state) (\<lambda>phase.
    bind (py_str (por (get state ''git_commit_approval_id'') (PStr []))) (\<lambda>approval_id.
    bind (git_call deps x ''git__approve_commit'' ''git_approve_commit''
      [(''workflow_id'', PStr workflow), (''actor'', PStr ''user'')] state AlreadyApproved) (\<lambda>(approved, x1).
    bind (git_call deps x1 ''git__commit'' ''git_commit''
      (git_identity project workflow @ [(''approval_id'', PStr approval_id)] @ agent (actor_of phase) @ [(''phase'', PStr phase)])
      state AlreadyApproved) (\<lambda>(result, x2).
    bind (git_commit_state_updates state result False) (\<lambda>updates. Inr (updates, x2))))))))"

definition reject_git_commit_node :: "'x node" where
  "reject_git_commit_node deps x state =
    bind (git_workflow state) (\<lambda>workflow.
    bind (execute_tool deps x ''git__reject_commit''
      [(''workflow_id'', PStr workflow), (''reason'', get state ''approval_reason''), (''actor'', PStr ''user'')]
      state AlreadyApproved) (\<lambda>(out, x').
    Inr ([(''git_state'', PStr ''rejected''), (''git_workflow_state'', PStr ''rejected''), (''git_commit_status'', PStr ''rejected''),
      (''final_response'', PStr ''Git commit rejected. Staged files were preserved for review.'')], x')))"

section \<open>The nodes of a promotion\<close>

definition promotion_seen :: "string \<Rightarrow> pydict \<Rightarrow> pydict" where
  "promotion_seen promotion preview =
    [(''git_promotion_state'', PStr promotion), (''git_promotion_id'', get preview ''promotion_id''),
     (''git_promotion_preview'', PDict preview), (''git_promotion_approval_id'', get preview ''approval_id''),
     (''git_promotion_strategy'', get preview ''merge_strategy_candidate''),
     (''git_promotion_conflicts'', por (get preview ''conflicting_files'') (PList []))]"

definition promotion_blocked :: pydict where
  "promotion_blocked =
    [(''terminal_status'', PStr ''infrastructure_failed''), (''failure_type'', PStr ''git_promotion_required_not_completed''),
     (''failure_stage'', PStr ''prepare_git_promotion''),
     (''failure_message'', PStr ''Required Git promotion could not be prepared safely.'')]"

definition prepare_git_promotion_node :: "'x node" where
  "prepare_git_promotion_node deps x state =
    bind (git_project state) (\<lambda>project.
    bind (git_workflow state) (\<lambda>workflow.
    bind (git_call deps x ''git__prepare_promotion'' ''git_promotion_prepare''
      (git_identity project workflow @ [(''actor'', PStr ''Orchestrator'')]) state AlreadyApproved) (\<lambda>(preview, x').
    bind (first_text preview [''state''] ''unavailable'') (\<lambda>raw.
    let promotion = (if raw = ''already_promoted'' then ''completed'' else raw); seen = promotion_seen promotion preview in
    Inr (if truthy (get preview ''ready'')
         then dmerge seen ((''git_promotion_state'', PStr ''awaiting_approval'') # pending_approval ''git_merge'' ''git__merge_workflow_branch''
           (git_identity project workflow @ [(''approval_id'', get preview ''approval_id''), (''actor'', PStr ''user'')]) preview)
         else if truthy (get state ''git_promotion_required'') \<and> promotion \<in> {''conflicts'', ''unavailable''}
         then seen @ promotion_blocked else seen, x')))))"

definition execute_git_promotion_node :: "'x node" where
  "execute_git_promotion_node deps x state =
    bind (git_project state) (\<lambda>project.
    bind (git_workflow state) (\<lambda>workflow.
    bind (execute_tool deps x ''git__approve_promotion'' [(''workflow_id'', PStr workflow), (''actor'', PStr ''user'')]
      state AlreadyApproved) (\<lambda>(approved, x1).
    bind (git_call deps x1 ''git__merge_workflow_branch'' ''git_promotion_merge''
      (git_identity project workflow @ [(''approval_id'', get state ''git_promotion_approval_id''), (''actor'', PStr ''user'')])
      state AlreadyApproved) (\<lambda>(result, x2).
    Inr ([(''git_promotion_state'', PStr ''completed''), (''git_promotion_result_commit'', get result ''result_commit''),
      (''git_promotion_strategy'', get result ''strategy''), (''git_head_commit'', get result ''result_commit'')]
      @ cleared_approval, x2)))))"

definition reject_git_promotion_node :: "'x node" where
  "reject_git_promotion_node deps x state =
    bind (git_workflow state) (\<lambda>workflow.
    bind (execute_tool deps x ''git__reject_promotion''
      [(''workflow_id'', PStr workflow), (''reason'', get state ''approval_reason''), (''actor'', PStr ''user'')]
      state AlreadyApproved) (\<lambda>(out, x').
    let optional = \<not> truthy (get state ''git_promotion_required'') in
    Inr ([(''git_promotion_state'', PStr ''rejected''),
      (''terminal_status'', if optional then PNone else get state ''terminal_status''),
      (''user_cancelled'', if optional then PBool False else get state ''user_cancelled''),
      (''failure_type'', if optional then PNone else get state ''failure_type''),
      (''failure_message'', if optional then PNone else get state ''failure_message'')], x')))"

section \<open>Reconciliation with continuous integration\<close>

text \<open>\<open>\b([1-9]\d*)\s+passed\b\<close> and its failing counterpart.\<close>

definition positive_number :: re where
  "positive_number = Cat (Cls (\<lambda>c. is_digit c \<and> c \<noteq> CHR ''0'')) (Star (Cls is_digit))"

definition PASSED_TESTS :: re where
  "PASSED_TESTS = seq [Bound, Grp ''1'' positive_number, plus (Cls is_space), ci_lit ''passed'', Bound]"

definition FAILED_TESTS :: re where
  "FAILED_TESTS = alts
    [seq [Bound, positive_number, plus (Cls is_space), alts [ci_lit ''failed'', ci_lit ''error'', ci_lit ''errors''], Bound],
     seq [Bound, ci_lit ''collection'', plus (Cls is_space), ci_lit ''error'', Bound]]"

definition ACCEPTED_DECISIONS :: "string list" where
  "ACCEPTED_DECISIONS = [''accepted'', ''accepted_with_warnings'']"

record Reconciliation =
  rc_applicable :: bool
  rc_clears :: bool
  rc_updates :: pydict
  rc_reason :: string

definition durable_local_tests_passed :: "pydict \<Rightarrow> bool" where
  "durable_local_tests_passed state =
    (case get state ''final_test_result_summary'' of
       PStr summary \<Rightarrow> re_found PASSED_TESTS summary \<and> \<not> re_found FAILED_TESTS summary | _ \<Rightarrow> False)"

definition is_stale_ci_repair_interrupt :: "pydict \<Rightarrow> bool" where
  "is_stale_ci_repair_interrupt state \<longleftrightarrow>
    get state ''pending_operation'' = PStr ''run_tests'' \<and> get state ''pending_tool_name'' = PStr ''testing__run_tests''
    \<and> get state ''pending_approval_status'' = PStr ''waiting''
    \<and> get state ''ci_repair_state'' \<in> {PStr ''pending'', PStr ''running''} \<and> truthy (get state ''ci_repair_source_run_id'')
    \<and> (get state ''supervisor_decision'' = PStr ''testing_repair'' \<or> get state ''failure_stage'' = PStr ''ci'')"

definition exact_commit :: "pydict \<Rightarrow> pydict \<Rightarrow> string option \<Rightarrow> bool" where
  "exact_commit execution eligibility head \<longleftrightarrow>
    (case head of None \<Rightarrow> False | Some h \<Rightarrow> h \<noteq> [] \<and> get execution ''ci_validated_commit'' = PStr h
       \<and> get eligibility ''source_commit'' = PStr h \<and> get eligibility ''target_commit'' = PStr h
       \<and> get eligibility ''commit_match'' = PBool True)"

definition accepted_run :: "pydict \<Rightarrow> pydict \<Rightarrow> bool" where
  "accepted_run execution eligibility \<longleftrightarrow>
    get execution ''status'' = PStr ''passed'' \<and> get execution ''decision'' \<in> set (map PStr ACCEPTED_DECISIONS)
    \<and> get eligibility ''eligible'' = PBool True"

definition accepted_updates :: "pydict \<Rightarrow> pydict \<Rightarrow> pydict" where
  "accepted_updates execution eligibility =
    [(''ci_state'', PStr ''passed''), (''ci_run_id'', get execution ''ci_run_id''), (''ci_status'', get execution ''status''),
     (''ci_decision'', get execution ''decision''), (''ci_validated_commit'', get execution ''ci_validated_commit''),
     (''ci_failure_type'', PNone), (''ci_failure_message'', PNone),
     (''ci_gate_summary'', PDict (mapping_of (get execution ''gate_summary''))), (''ci_promotion_eligible'', PBool True),
     (''ci_promotion_eligibility'', PDict eligibility)]"

definition cleared_repair :: pydict where
  "cleared_repair =
    [(''ci_repair_state'', PStr ''not_required''), (''ci_repair_failure_type'', PNone), (''ci_repair_failure_message'', PNone),
     (''ci_repair_source_run_id'', PNone), (''ci_repair_source_commit'', PNone), (''ci_repair_target_commit'', PNone),
     (''ci_repair_repairability'', PNone)] @ cleared_approval @
    [(''supervisor_decision'', PNone), (''supervisor_reason'', PNone), (''supervisor_confidence'', PNone),
     (''supervisor_decision_source'', PNone), (''allowed_handoffs'', PList []), (''terminal_status'', PNone),
     (''last_completed_stage'', PStr ''ci_pipeline''), (''last_completed_node'', PStr ''ci_pipeline'')]"

definition cleared_ci_failure :: "pydict \<Rightarrow> pydict" where
  "cleared_ci_failure state =
    (if get state ''failure_stage'' = PStr ''ci''
     then [(''failure_type'', PNone), (''failure_stage'', PNone), (''failure_message'', PNone), (''test_failure_summary'', PNone)]
     else [])"

definition restored_tests :: "pydict \<Rightarrow> pydict" where
  "restored_tests state =
    (if durable_local_tests_passed state
     then [(''tests_executed'', PBool True), (''tests_passed'', PBool True),
       (''testing_result'', PDict (dmerge (mapping_of (get state ''testing_result''))
         [(''tests_executed'', PBool True), (''tests_passed'', PBool True), (''summary'', get state ''final_test_result_summary'')]))]
     else [])"

definition build_ci_success_reconciliation :: "pydict \<Rightarrow> pydict \<Rightarrow> pydict \<Rightarrow> string option \<Rightarrow> Reconciliation" where
  "build_ci_success_reconciliation state execution eligibility head =
    (if \<not> accepted_run execution eligibility \<or> \<not> exact_commit execution eligibility head
     then \<lparr>rc_applicable = False, rc_clears = False, rc_updates = [], rc_reason = ''ci_run_not_accepted_for_current_head''\<rparr>
     else (let stale = is_stale_ci_repair_interrupt state in
       \<lparr>rc_applicable = True, rc_clears = stale,
        rc_updates = accepted_updates execution eligibility
          @ (if stale then cleared_repair @ cleared_ci_failure state @ restored_tests state else []),
        rc_reason = ''accepted_ci_for_current_head''\<rparr>))"

end
