(* ===== verification/CIRun.thy ===== *)
theory CIRun
  imports CIGates GitWorkflow
begin

text \<open>
  The pipeline service of continuous integration (class \<open>CIPipelineService\<close> of
  api/services/ci_service.py), the rows it keeps (api/services/ci_store.py) and the redaction of the
  output it stores (api/services/observability_sanitizer.py). The project on disk, its git, the
  processes, the clock and the digest are parameters; the rows are kept in order of creation.
\<close>

section \<open>Redaction of output\<close>

definition MAX_STRING :: nat where
  "MAX_STRING = 1000"

definition visible_char :: "char \<Rightarrow> bool" where
  "visible_char c \<longleftrightarrow> \<not> is_space c \<and> c \<noteq> CHR '','' \<and> c \<noteq> CHR '';''"

text \<open>\<open>(bearer\s+)[^\s,;]+|\bsk-[a-z0-9_-]{8,}\b|((?:api[_-]?key|password|token)\s*[=:]\s*)[^\s,;]+\<close>,
  whatever the case of its letters.\<close>

definition key_char :: "char \<Rightarrow> bool" where
  "key_char c \<longleftrightarrow> is_digit c \<or> (is_alpha c \<and> of_char c < (128::nat)) \<or> c = CHR ''_'' \<or> c = CHR ''-''"

definition SECRET_VALUE :: re where
  "SECRET_VALUE = alts
    [seq [Grp ''1'' (seq [ci_lit ''bearer'', plus (Cls is_space)]), plus (Cls visible_char)],
     seq [Bound, ci_lit ''sk-'', times_re 8 (Cls key_char), Star (Cls key_char), Bound],
     seq [Grp ''2'' (seq [alts [seq [ci_lit ''api'', opt (Cls (\<lambda>c. c = CHR ''_'' \<or> c = CHR ''-'')), ci_lit ''key''],
            ci_lit ''password'', ci_lit ''token''],
          Star (Cls is_space), Cls (\<lambda>c. c = CHR ''='' \<or> c = CHR '':''), Star (Cls is_space)]),
        plus (Cls visible_char)]]"

fun redact_from :: "nat \<Rightarrow> pos \<Rightarrow> string" where
  "redact_from 0 p = after p"
| "redact_from (Suc n) p =
     (case after p of
        [] \<Rightarrow> []
      | c # cs \<Rightarrow>
          (case match_at SECRET_VALUE p of
             Some m \<Rightarrow> (if group m ''1'' \<noteq> [] then group m ''1'' else group m ''2'') @ ''[REDACTED]'' @ redact_from n (m_end m)
           | None \<Rightarrow> c # redact_from n (advance p)))"

definition sanitize_text :: "string \<Rightarrow> string" where
  "sanitize_text value =
    (let redacted = redact_from (length value) (at_start value) in
     if length redacted \<le> MAX_STRING then redacted else take MAX_STRING redacted @ ''...[TRUNCATED]'')"

lemma sanitize_text_code [code]:
  "sanitize_text value =
    (let redacted = redact_from (length value) (at_start value) in
     if int (length redacted) \<le> 1000 then redacted else take MAX_STRING redacted @ ''...[TRUNCATED]'')"
  by (simp add: sanitize_text_def MAX_STRING_def Let_def)

section \<open>The project\<close>

text \<open>
  What the service sees of a project: which relative paths are files, which exist, which patterns
  match something, the text of package.json, what git answers (\<open>None\<close> when it cannot be run or does
  not return in time), and what lies below a directory.
\<close>

record Checkout =
  co_file :: "string \<Rightarrow> bool"
  co_exists :: "string \<Rightarrow> bool"
  co_glob :: "string \<Rightarrow> bool"
  co_package :: "exn + string"
  co_git :: "string list \<Rightarrow> (int \<times> string) option"
  co_below :: listing

record CIPipelinePolicy =
  pol_version :: string
  pol_pipeline_timeout :: rat
  pol_step_timeout :: rat
  pol_output_max :: nat

definition detect_framework :: "Checkout \<Rightarrow> string" where
  "detect_framework co =
    (if co_file co ''package.json'' then ''node''
     else if co_glob co ''*.sln'' \<or> co_glob co ''**/*.csproj'' then ''dotnet''
     else if co_file co ''pyproject.toml'' \<or> co_file co ''requirements.txt'' \<or> co_glob co ''pytest.ini'' then ''fastapi''
     else ''python'')"

definition required_step :: "string \<Rightarrow> string \<Rightarrow> string \<Rightarrow> string list \<Rightarrow> CIPipelineStep" where
  "required_step step_id name type command =
    \<lparr>st_id = step_id, st_name = name, st_type = type, st_command = command, st_directory = None, st_timeout = None,
     st_required = True, st_continue_on_error = False\<rparr>"

definition python_candidates :: "string list" where
  "python_candidates = [''.venv/Scripts/python.exe'', ''.venv/bin/python'', ''venv/Scripts/python.exe'', ''venv/bin/python'']"

definition python_steps :: "Checkout \<Rightarrow> exn + CIPipelineStep list" where
  "python_steps co =
    (let python = (case find (co_file co) python_candidates of Some p \<Rightarrow> p | None \<Rightarrow> ''python'');
         tests = required_step ''test'' ''Run tests'' ''test'' [python, ''-m'', ''pytest'', ''--rootdir=.''] in
     if co_exists co ''.venv'' \<or> co_exists co ''venv''
     then Inr [required_step ''environment'' ''Validate environment'' ''build'' [python, ''--version''], tests]
     else if \<not> (co_exists co ''requirements.txt'' \<or> co_exists co ''pyproject.toml'')
     then Inl (ci_error ''ci_environment_unavailable'')
     else Inr [tests])"

definition scripts_of :: "pyval \<Rightarrow> pydict" where
  "scripts_of package = (case package of PDict d \<Rightarrow> mapping_of (get d ''scripts'') | _ \<Rightarrow> [])"

definition script_steps :: "pydict \<Rightarrow> CIPipelineStep list" where
  "script_steps scripts =
    (if has_key scripts ''build'' then [required_step ''build'' ''Build'' ''build'' [''npm'', ''run'', ''build'']] else [])
    @ (if has_key scripts ''test'' then [required_step ''test'' ''Test'' ''test'' [''npm'', ''test'']] else [])
    @ (if has_key scripts ''lint''
       then [(required_step ''lint'' ''Lint'' ''lint'' [''npm'', ''run'', ''lint''])\<lparr>st_required := False, st_continue_on_error := True\<rparr>]
       else [])"

definition node_steps :: "Checkout \<Rightarrow> exn + CIPipelineStep list" where
  "node_steps co =
    bind (co_package co) (\<lambda>content.
    bind (json_loads content) (\<lambda>package.
    let steps = script_steps (scripts_of package) in
    if steps = [] then Inl (ci_error ''ci_environment_unavailable'') else Inr steps))"

definition dotnet_steps :: "CIPipelineStep list" where
  "dotnet_steps =
    [required_step ''restore'' ''Restore'' ''build'' [''dotnet'', ''restore''],
     required_step ''build'' ''Build'' ''build'' [''dotnet'', ''build'', ''--no-restore''],
     required_step ''test'' ''Test'' ''test'' [''dotnet'', ''test'', ''--no-build'']]"

definition steps_for :: "Checkout \<Rightarrow> string \<Rightarrow> exn + CIPipelineStep list" where
  "steps_for co framework =
    (if framework = ''node'' then node_steps co else if framework = ''dotnet'' then Inr dotnet_steps else python_steps co)"

definition upper_char :: "char \<Rightarrow> char" where
  "upper_char c = (if 97 \<le> (of_char c :: nat) \<and> of_char c \<le> (122::nat) then char_of (of_char c - (32::nat)) else c)"

text \<open>\<open>str.title\<close> of one of the framework names.\<close>

fun title_of :: "string \<Rightarrow> string" where
  "title_of [] = []"
| "title_of (c # s) = upper_char c # casefold s"

definition check_step :: "CIPipelineStep \<Rightarrow> exn + unit" where
  "check_step s = bind (validate_ci_command (st_command s)) (\<lambda>_. bind (validate_ci_relative_path (st_directory s)) (\<lambda>_. Inr ()))"

definition default_pipeline :: "CIPipelinePolicy \<Rightarrow> Checkout \<Rightarrow> string \<Rightarrow> exn + CIPipelineDefinition" where
  "default_pipeline policy co framework =
    bind (steps_for co framework) (\<lambda>steps.
    bind (mapm check_step steps) (\<lambda>_.
    Inr \<lparr>pl_id = framework @ ''-default'', pl_name = title_of framework @ '' default CI'', pl_version = pol_version policy,
      pl_framework = framework, pl_steps = steps, pl_fail_fast = True, pl_timeout = pol_pipeline_timeout policy\<rparr>))"

section \<open>The revision\<close>

definition git_output :: "Checkout \<Rightarrow> string list \<Rightarrow> string" where
  "git_output co args = (case co_git co args of Some (code, out) \<Rightarrow> if code = 0 then strip out else [] | None \<Rightarrow> [])"

definition nonempty_text :: "string \<Rightarrow> string option" where
  "nonempty_text s = (if s = [] then None else Some s)"

definition porcelain :: "string \<Rightarrow> pydict" where
  "porcelain status =
    (let lines = filter (\<lambda>l. strip l \<noteq> []) (splitlines status);
         paths = (\<lambda>p. pstrs (map (drop 3) (filter p lines))) in
     [(''staged'', paths (\<lambda>l. strip (take 2 l) \<noteq> [] \<and> \<not> starts_with l ''??'')),
      (''modified'', paths (\<lambda>l. starts_with l '' M'')),
      (''deleted'', paths (\<lambda>l. starts_with l '' D'')),
      (''untracked'', paths (\<lambda>l. starts_with l ''??''))])"

text \<open>What pydantic takes for a field of type \<open>str | None\<close>, and its error for anything else.\<close>

definition validation_error :: exn where
  "validation_error = ValueError ''ValidationError''"

fun optional_field :: "pyval \<Rightarrow> exn + string option" where
  "optional_field PNone = Inr None"
| "optional_field (PStr s) = Inr (Some s)"
| "optional_field _ = Inl validation_error"

text \<open>The commit and the branches are the values of the state as they are: \<open>fullmatch\<close> refuses a commit that
  is no text, the model a branch that is none.\<close>

definition source_revision :: "Checkout \<Rightarrow> pyval \<Rightarrow> pyval \<Rightarrow> pyval \<Rightarrow> string option \<Rightarrow> exn + CISourceRevision" where
  "source_revision co source_commit source_branch workflow_branch repository_root =
    (if truthy source_commit
     then (case source_commit of
         PStr commit \<Rightarrow>
           if \<not> is_sha commit then Inl (ci_error ''ci_pipeline_stale'')
           else bind (optional_field source_branch) (\<lambda>branch.
             bind (optional_field workflow_branch) (\<lambda>of_workflow.
             Inr \<lparr>so_mode = ''commit'', so_commit = Some commit, so_branch = branch, so_workflow_branch = of_workflow,
               so_root = repository_root, so_dirty = Some False, so_clean = Some True\<rparr>))
       | _ \<Rightarrow> Inl TypeError)
     else if \<not> co_exists co ''.git''
     then Inr \<lparr>so_mode = ''working_tree'', so_commit = None, so_branch = None, so_workflow_branch = None,
       so_root = repository_root, so_dirty = None, so_clean = None\<rparr>
     else
       let branch = git_output co [''rev-parse'', ''--abbrev-ref'', ''HEAD'']; commit = git_output co [''rev-parse'', ''HEAD''];
           status = git_output co [''status'', ''--porcelain'']; parsed = porcelain status in
       bind (classify_dirty_paths (co_below co) parsed []) (\<lambda>classified.
       bind (optional_field workflow_branch) (\<lambda>of_workflow.
       let clean = (dp_unrelated classified = [] \<and> \<not> truthy (get parsed ''staged'') \<and> \<not> truthy (get parsed ''modified'')
             \<and> \<not> truthy (get parsed ''deleted'')) in
       Inr \<lparr>so_mode = (if commit \<noteq> [] \<and> clean then ''commit'' else ''working_tree''), so_commit = nonempty_text commit,
         so_branch = (if branch = ''HEAD'' then None else Some branch), so_workflow_branch = of_workflow,
         so_root = repository_root, so_dirty = Some (strip status \<noteq> []), so_clean = Some clean\<rparr>)))"

section \<open>The rows of runs\<close>

record CIRow =
  ro_run :: CIPipelineRun
  ro_created :: string
  ro_completed :: "string option"

type_synonym CIStore = "CIRow list"

definition row_id :: "CIRow \<Rightarrow> string" where
  "row_id row = rn_id (ro_run row)"

definition get_run :: "CIStore \<Rightarrow> string \<Rightarrow> CIPipelineRun option" where
  "get_run store run_id = map_option ro_run (find (\<lambda>row. row_id row = run_id) store)"

fun change_row :: "string \<Rightarrow> (CIRow \<Rightarrow> CIRow) \<Rightarrow> CIStore \<Rightarrow> CIStore" where
  "change_row run_id f [] = []"
| "change_row run_id f (row # store) = (if row_id row = run_id then f row else row) # change_row run_id f store"

text \<open>The rows of the steps keep the order of their insertion: an update keeps its place.\<close>

definition put_step :: "CIStepRun \<Rightarrow> CIStepRun list \<Rightarrow> CIStepRun list" where
  "put_step s steps =
    (if sr_id s \<in> set (map sr_id steps) then map (\<lambda>t. if sr_id t = sr_id s then s else t) steps else steps @ [s])"

definition step_row :: "CIStepRun \<Rightarrow> CIRow \<Rightarrow> CIRow" where
  "step_row s row = row\<lparr>ro_run := (ro_run row)\<lparr>rn_steps := put_step s (rn_steps (ro_run row))\<rparr>\<rparr>"

definition upsert_step :: "string \<Rightarrow> CIStepRun \<Rightarrow> CIStore \<Rightarrow> CIStore" where
  "upsert_step run_id s = change_row run_id (step_row s)"

definition create_run :: "string \<Rightarrow> CIPipelineRun \<Rightarrow> CIStore \<Rightarrow> CIStore" where
  "create_run now r store =
    (if get_run store (rn_id r) \<noteq> None then store
     else store @ [\<lparr>ro_run = r\<lparr>rn_steps := fold put_step (rn_steps r) []\<rparr>, ro_created = now, ro_completed = None\<rparr>])"

definition final_row :: "string \<Rightarrow> (CIPipelineRun \<Rightarrow> CIPipelineRun) \<Rightarrow> CIRow \<Rightarrow> CIRow" where
  "final_row now f row = row\<lparr>ro_run := f (ro_run row), ro_completed := Some now\<rparr>"

definition update_run :: "string \<Rightarrow> string \<Rightarrow> (CIPipelineRun \<Rightarrow> CIPipelineRun) \<Rightarrow> CIStore \<Rightarrow> CIStore" where
  "update_run run_id now f = change_row run_id (final_row now f)"

definition interrupted_step :: "CIStepRun \<Rightarrow> CIStepRun" where
  "interrupted_step s =
    (if sr_status s = ''running''
     then s\<lparr>sr_status := ''interrupted'', sr_failure_type := Some ''ci_execution_interrupted'',
       sr_failure_message := Some ''CI step was interrupted before completion.''\<rparr>
     else s)"

definition interrupted_row :: "string \<Rightarrow> CIRow \<Rightarrow> CIRow" where
  "interrupted_row now row =
    (if rn_status (ro_run row) = ''running''
     then row\<lparr>ro_run := (ro_run row)\<lparr>rn_status := ''interrupted'', rn_failure_type := Some ''ci_execution_interrupted'',
         rn_failure_message := Some ''CI execution was interrupted before completion.'',
         rn_steps := map interrupted_step (rn_steps (ro_run row))\<rparr>,
       ro_completed := (case ro_completed row of Some t \<Rightarrow> Some t | None \<Rightarrow> Some now)\<rparr>
     else row)"

definition reconcile_interrupted :: "string \<Rightarrow> CIStore \<Rightarrow> CIStore" where
  "reconcile_interrupted now = map (interrupted_row now)"

text \<open>\<open>ORDER BY completed_at DESC, created_at DESC\<close>: NULL comes last.\<close>

definition completed_later :: "CIRow \<Rightarrow> CIRow \<Rightarrow> bool" where
  "completed_later a b =
    (case (ro_completed a, ro_completed b) of
       (Some s, Some t) \<Rightarrow> s > t \<or> (s = t \<and> ro_created a > ro_created b)
     | (Some s, None) \<Rightarrow> True
     | (None, Some t) \<Rightarrow> False
     | (None, None) \<Rightarrow> ro_created a > ro_created b)"

fun insert_row :: "CIRow \<Rightarrow> CIStore \<Rightarrow> CIStore" where
  "insert_row r [] = [r]"
| "insert_row r (x # xs) = (if completed_later x r then x # insert_row r xs else r # x # xs)"

definition latest_first :: "CIStore \<Rightarrow> CIStore" where
  "latest_first store = foldr insert_row store []"

definition latest_completed_run_for_commit :: "CIStore \<Rightarrow> string \<Rightarrow> string \<Rightarrow> CIPipelineRun option" where
  "latest_completed_run_for_commit store workflow commit =
    find (\<lambda>r. so_commit (rn_source r) = Some commit \<and> first_given [rn_decision r] \<noteq> None)
      (map ro_run (latest_first (filter (\<lambda>row. rn_workflow (ro_run row) = workflow
         \<and> rn_status (ro_run row) \<in> {''passed'', ''failed''}) store)))"

definition promotion_eligibility :: "CIPromotionPolicy \<Rightarrow> CIStore \<Rightarrow> string \<Rightarrow> string option \<Rightarrow> CIPromotionEligibility" where
  "promotion_eligibility policy store workflow target =
    evaluate_ci_promotion_eligibility target
      (case first_given [target] of Some commit \<Rightarrow> latest_completed_run_for_commit store workflow commit | None \<Rightarrow> None) policy"

section \<open>Steps\<close>

text \<open>What a process does: it ends with a code and its two outputs, outlives its time, or cannot run.\<close>

datatype process = Completed int string string | Expired | Unstartable exn

record 'w Machine =
  mc_elapsed :: "'w \<Rightarrow> rat \<times> 'w"
  mc_process :: "'w \<Rightarrow> string list \<Rightarrow> string \<Rightarrow> rat \<Rightarrow> process \<times> 'w"
  mc_scratch :: "'w \<Rightarrow> string \<times> 'w"
  mc_now :: "'w \<Rightarrow> string \<times> 'w"
  mc_resolve :: "string \<Rightarrow> string"

definition is_pytest_command :: "string list \<Rightarrow> bool" where
  "is_pytest_command command =
    (let executable = (case command of [] \<Rightarrow> [] | c # cs \<Rightarrow> normalize_executable c); lowered = map casefold command in
     executable = ''pytest'' \<or> (executable = ''python'' \<and> length lowered \<ge> 3 \<and> take 2 (drop 1 lowered) = [''-m'', ''pytest'']))"

definition isolated_command :: "'w Machine \<Rightarrow> 'w \<Rightarrow> string list \<Rightarrow> string list \<times> 'w" where
  "isolated_command mc w command =
    (if \<not> is_pytest_command command then (command, w)
     else case mc_scratch mc w of (directory, w') \<Rightarrow>
       let configured = (if list_ex (\<lambda>item. item = ''-c'' \<or> starts_with item ''--config-file'') command then command
             else command @ [''-c'', directory @ ''/pytest.ini'']) in
       (if list_ex (\<lambda>item. item = ''--rootdir'' \<or> starts_with item ''--rootdir='') configured then configured
        else configured @ [''--rootdir=.''], w'))"

text \<open>\<open>(?im)^rootdir:\s*(.+?)\s*$\<close>: what follows the colon up to the end of the line its first visible
  character is on; when nothing visible follows, a space of the same line, which strips to nothing.\<close>

definition reported_after :: "string \<Rightarrow> string option" where
  "reported_after rest =
    (let visible = dropWhile is_space rest in
     if visible \<noteq> [] then Some (strip (takeWhile (\<lambda>c. c \<noteq> CHR 0x0A) visible))
     else if list_ex (\<lambda>c. c \<noteq> CHR 0x0A) rest then Some [] else None)"

fun reported_root :: "bool \<Rightarrow> string \<Rightarrow> string option" where
  "reported_root at_line [] = None"
| "reported_root at_line (c # s) =
     (case (if at_line \<and> starts_with (casefold (c # s)) ''rootdir:'' then reported_after (drop 8 (c # s)) else None) of
        Some dir \<Rightarrow> Some dir
      | None \<Rightarrow> reported_root (c = CHR 0x0A) s)"

definition execution_context_invalid :: "'w Machine \<Rightarrow> string list \<Rightarrow> string \<Rightarrow> string \<Rightarrow> string \<Rightarrow> bool" where
  "execution_context_invalid mc command expected_root out err =
    (is_pytest_command command
     \<and> (case reported_root True (out @ CHR 0x0A # err) of None \<Rightarrow> False
        | Some reported \<Rightarrow> mc_resolve mc reported \<noteq> mc_resolve mc expected_root))"

definition summarize_output :: "CIPipelinePolicy \<Rightarrow> string \<Rightarrow> string \<times> bool" where
  "summarize_output policy data =
    (let sanitized = sanitize_text data; truncated = (length sanitized > pol_output_max policy) in
     (if truncated then take (pol_output_max policy) sanitized @ ''...[TRUNCATED]'' else sanitized, truncated))"

definition failure_type_of :: "CIPipelineStep \<Rightarrow> string" where
  "failure_type_of s =
    (if st_type s = ''build'' then ''ci_build_failed'' else if st_type s = ''test'' then ''ci_tests_failed''
     else if st_type s = ''lint'' then ''ci_lint_failed'' else if st_type s = ''package'' then ''ci_package_failed''
     else ''ci_step_failed'')"

definition step_run :: "CIPipelineStep \<Rightarrow> string \<Rightarrow> CIStepRun" where
  "step_run s status =
    \<lparr>sr_id = st_id s, sr_name = st_name s, sr_type = st_type s, sr_status = status, sr_exit_code = None, sr_stdout = None,
     sr_stderr = None, sr_truncated = False, sr_failure_type = None, sr_failure_message = None\<rparr>"

definition failed_step_run :: "CIPipelineStep \<Rightarrow> string \<Rightarrow> string option \<Rightarrow> string \<Rightarrow> CIStepRun" where
  "failed_step_run s status failure message =
    (step_run s status)\<lparr>sr_failure_type := failure, sr_failure_message := Some message\<rparr>"

definition completed_step :: "CIPipelinePolicy \<Rightarrow> CIPipelineStep \<Rightarrow> bool \<Rightarrow> int \<Rightarrow> string \<Rightarrow> string \<Rightarrow> CIStepRun" where
  "completed_step policy s invalid code out err =
    (step_run s (if code = 0 \<and> \<not> invalid then ''passed'' else ''failed''))
      \<lparr>sr_exit_code := Some code, sr_stdout := Some (fst (summarize_output policy out)),
       sr_stderr := Some (fst (summarize_output policy err)),
       sr_truncated := (snd (summarize_output policy out) \<or> snd (summarize_output policy err)),
       sr_failure_type := (if invalid then Some ''ci_execution_context_invalid'' else if code = 0 then None else Some (failure_type_of s)),
       sr_failure_message := (if invalid then Some ''CI test execution root did not match the project repository root.''
         else if code = 0 then None else Some (st_name s @ '' exited with code '' @ int_str code @ ''.''))\<rparr>"

definition expired_step :: "CIPipelineStep \<Rightarrow> bool \<Rightarrow> CIStepRun" where
  "expired_step s whole_pipeline =
    failed_step_run s ''timed_out'' (Some (if whole_pipeline then ''ci_pipeline_timeout'' else ''ci_step_timeout''))
      (st_name s @ '' exceeded its timeout.'')"

definition is_below :: "string \<Rightarrow> string \<Rightarrow> bool" where
  "is_below dir path = (take (length (path_parts dir)) (path_parts path) = path_parts dir)"

definition workdir_of :: "'w Machine \<Rightarrow> string \<Rightarrow> CIPipelineStep \<Rightarrow> exn + string list \<times> string" where
  "workdir_of mc dir s =
    bind (validate_ci_command (st_command s)) (\<lambda>command.
    bind (validate_ci_relative_path (st_directory s)) (\<lambda>relative.
    let workdir = mc_resolve mc (case first_given [relative] of None \<Rightarrow> dir | Some r \<Rightarrow> dir @ ''/'' @ r) in
    if is_below dir workdir then Inr (command, workdir) else Inl (ci_error ''ci_path_violation'')))"

definition execute_step ::
  "CIPipelinePolicy \<Rightarrow> 'w Machine \<Rightarrow> string \<Rightarrow> string \<Rightarrow> CIPipelineStep \<Rightarrow> rat \<Rightarrow> CIStore \<times> 'w
   \<Rightarrow> (exn + CIStepRun) \<times> CIStore \<times> 'w" where
  "execute_step policy mc run_id dir s remaining sw =
    (case sw of (store, w) \<Rightarrow>
       case workdir_of mc dir s of
         Inl e \<Rightarrow> (Inl e, store, w)
       | Inr (command, workdir) \<Rightarrow>
           let limit = min (case st_timeout s of Some t \<Rightarrow> if t = 0 then pol_step_timeout policy else t
                 | None \<Rightarrow> pol_step_timeout policy) (max (1/10) remaining);
               started = upsert_step run_id (step_run s ''running'') store in
           case isolated_command mc w command of (execution_command, w1) \<Rightarrow>
           case mc_process mc w1 execution_command workdir limit of
             (Unstartable e, w2) \<Rightarrow> (Inl e, started, w2)
           | (Completed code out err, w2) \<Rightarrow>
               let result = completed_step policy s (execution_context_invalid mc execution_command workdir out err) code out err in
               (Inr result, upsert_step run_id result started, w2)
           | (Expired, w2) \<Rightarrow>
               let result = expired_step s (limit \<ge> remaining - 1/1000) in (Inr result, upsert_step run_id result started, w2))"

section \<open>A run\<close>

record Progress =
  pg_failed_step :: "string option"
  pg_failure_type :: "string option"
  pg_failure_message :: "string option"
  pg_warnings :: "string list"
  pg_status :: string
  pg_skip :: bool

definition no_progress :: Progress where
  "no_progress = \<lparr>pg_failed_step = None, pg_failure_type = None, pg_failure_message = None, pg_warnings = [],
    pg_status = ''passed'', pg_skip = False\<rparr>"

fun skip_pending :: "string \<Rightarrow> CIPipelineStep list \<Rightarrow> string \<Rightarrow> bool \<Rightarrow> CIStore \<Rightarrow> CIStore" where
  "skip_pending run_id [] current found store = store"
| "skip_pending run_id (s # rest) current found store =
     (if st_id s = current then skip_pending run_id rest current True store
      else skip_pending run_id rest current found (if found then upsert_step run_id
        (failed_step_run s ''skipped'' (Some ''ci_pipeline_timeout'') ''Skipped because the pipeline timed out.'') store else store))"

definition timed_out_at :: "CIPipelineStep \<Rightarrow> Progress \<Rightarrow> Progress" where
  "timed_out_at s pg =
    pg\<lparr>pg_status := ''timed_out'', pg_failed_step := Some (st_id s), pg_failure_type := Some ''ci_pipeline_timeout'',
       pg_failure_message := Some ''CI pipeline exceeded its timeout.''\<rparr>"

definition skipped_step :: "CIPipelineStep \<Rightarrow> Progress \<Rightarrow> CIStepRun" where
  "skipped_step s pg = failed_step_run s ''skipped'' (pg_failure_type pg) ''Skipped because a required previous step failed.''"

definition after_step :: "bool \<Rightarrow> CIPipelineStep \<Rightarrow> CIStepRun \<Rightarrow> Progress \<Rightarrow> Progress" where
  "after_step fail_fast s result pg =
    (if sr_status result \<notin> {''failed'', ''timed_out''} then pg
     else if st_continue_on_error s \<and> \<not> st_required s
     then pg\<lparr>pg_warnings := pg_warnings pg @ [st_id s @ '':'' @
       (case first_given [sr_failure_type result] of Some f \<Rightarrow> f | None \<Rightarrow> sr_status result)]\<rparr>
     else pg\<lparr>pg_failed_step := Some (st_id s), pg_failure_type := sr_failure_type result,
       pg_failure_message := sr_failure_message result,
       pg_status := (if sr_status result = ''timed_out'' \<and> sr_failure_type result = Some ''ci_pipeline_timeout''
         then ''timed_out'' else ''failed''),
       pg_skip := (pg_skip pg \<or> (fail_fast \<and> st_required s))\<rparr>)"

fun run_steps ::
  "CIPipelinePolicy \<Rightarrow> 'w Machine \<Rightarrow> string \<Rightarrow> string \<Rightarrow> CIPipelineDefinition \<Rightarrow> CIPipelineStep list \<Rightarrow> Progress \<Rightarrow> CIStore \<times> 'w
   \<Rightarrow> (exn + Progress) \<times> CIStore \<times> 'w" where
  "run_steps policy mc run_id dir pl [] pg sw = (Inr pg, sw)"
| "run_steps policy mc run_id dir pl (s # rest) pg (store, w) =
     (case mc_elapsed mc w of (elapsed, w1) \<Rightarrow>
        if elapsed \<ge> pl_timeout pl
        then (Inr (timed_out_at s pg), skip_pending run_id (pl_steps pl) (st_id s) False store, w1)
        else if pg_skip pg
        then run_steps policy mc run_id dir pl rest pg (upsert_step run_id (skipped_step s pg) store, w1)
        else (case execute_step policy mc run_id dir s (pl_timeout pl - elapsed) (store, w1) of
            (Inl e, sw') \<Rightarrow> (Inl e, sw')
          | (Inr result, sw') \<Rightarrow>
              run_steps policy mc run_id dir pl rest (after_step (pl_fail_fast pl) s result pg) sw'))"

end
