(* ===== verification/CIService.thy ===== *)
theory CIService
  imports CIRun
begin

text \<open>
  The entry points of the pipeline service (\<open>prepare\<close> and \<open>run\<close> of api/services/ci_service.py) and
  the node of the workflow that calls them (\<open>run_ci_pipeline\<close> of graph/builder.py).
\<close>

section \<open>Preparing a run\<close>

text \<open>
  \<open>sv_checkout w dir\<close> is the project in a directory of the workspace, when there is one;
  \<open>sv_digest\<close> is the fingerprint, the SHA-256 of the canonical JSON of its arguments.
\<close>

record 'w Service =
  sv_workspace :: string
  sv_policy :: CIPipelinePolicy
  sv_gates :: CIGatePolicy
  sv_promotion :: CIPromotionPolicy
  sv_machine :: "'w Machine"
  sv_checkout :: "'w \<Rightarrow> string \<Rightarrow> Checkout option"
  sv_digest :: "string \<Rightarrow> CISourceRevision \<Rightarrow> CIPipelineDefinition \<Rightarrow> CIGateDefinition list \<Rightarrow> string"
  sv_fresh :: "'w \<Rightarrow> string \<times> 'w"

record CIPreview =
  pv_pipeline :: CIPipelineDefinition
  pv_fingerprint :: string
  pv_source :: CISourceRevision
  pv_gates :: "CIGateDefinition list"

record Revision =
  rv_commit :: pyval
  rv_branch :: pyval
  rv_workflow_branch :: pyval
  rv_repository :: "string option"

definition in_workspace :: "'w Service \<Rightarrow> string \<Rightarrow> string" where
  "in_workspace sv relative = mc_resolve (sv_machine sv) (sv_workspace sv @ ''/'' @ relative)"

definition project_dir :: "'w Service \<Rightarrow> 'w \<Rightarrow> string \<Rightarrow> exn + string \<times> Checkout" where
  "project_dir sv w project =
    (let dir = in_workspace sv project in
     if \<not> is_below (sv_workspace sv) dir then Inl (ci_error ''ci_path_violation'')
     else case sv_checkout sv w dir of
         None \<Rightarrow> Inl (ci_error ''ci_project_unavailable'')
       | Some co \<Rightarrow> Inr (dir, co))"

definition execution_dir :: "'w Service \<Rightarrow> 'w \<Rightarrow> string \<Rightarrow> string option \<Rightarrow> exn + string \<times> Checkout \<times> string" where
  "execution_dir sv w project repository =
    bind (project_dir sv w project) (\<lambda>(dir, co).
    bind (validate_ci_relative_path (Some (case first_given [repository] of Some r \<Rightarrow> r | None \<Rightarrow> project))) (\<lambda>relative.
    case first_given [relative] of
      None \<Rightarrow> Inl (ci_error ''ci_path_violation'')
    | Some r \<Rightarrow>
        if \<not> is_below (sv_workspace sv) (in_workspace sv r) \<or> in_workspace sv r \<noteq> dir then Inl (ci_error ''ci_path_violation'')
        else Inr (dir, co, r)))"

definition prepare_run :: "'w Service \<Rightarrow> 'w \<Rightarrow> string \<Rightarrow> Revision \<Rightarrow> exn + CIPreview" where
  "prepare_run sv w project rv =
    bind (execution_dir sv w project (rv_repository rv)) (\<lambda>(dir, co, repository).
    bind (default_pipeline (sv_policy sv) co (detect_framework co)) (\<lambda>pipeline.
    bind (source_revision co (rv_commit rv) (rv_branch rv) (rv_workflow_branch rv) (Some repository)) (\<lambda>source.
    let gates = build_ci_gate_definitions pipeline (sv_gates sv) in
    Inr \<lparr>pv_pipeline = pipeline, pv_fingerprint = sv_digest sv project source pipeline gates, pv_source = source, pv_gates = gates\<rparr>)))"

section \<open>A whole run\<close>

definition validated_commit :: "CISourceRevision \<Rightarrow> string option" where
  "validated_commit source = (if so_mode source = ''commit'' then so_commit source else None)"

definition new_run :: "CIGatePolicy \<Rightarrow> string \<Rightarrow> string \<Rightarrow> string \<Rightarrow> CIPreview \<Rightarrow> CIPipelineRun" where
  "new_run gates run_id workflow project pv =
    \<lparr>rn_id = run_id, rn_workflow = workflow, rn_project = project, rn_pipeline = pv_pipeline pv,
     rn_fingerprint = pv_fingerprint pv, rn_status = ''running'', rn_source = pv_source pv,
     rn_steps = map (\<lambda>s. step_run s ''pending'') (pl_steps (pv_pipeline pv)), rn_failed_step = None, rn_failure_type = None,
     rn_failure_message = None, rn_warnings = [], rn_gate_version = Some (gp_version gates), rn_gates = [], rn_decision = None,
     rn_failed_gates = [], rn_warning_gates = [], rn_blocking_gate = None, rn_gate_summary = [],
     rn_validated_commit = validated_commit (pv_source pv), rn_repairability = None\<rparr>"

definition FINISHED :: "string list" where
  "FINISHED = [''passed'', ''failed'', ''timed_out'', ''cancelled'', ''interrupted'']"

text \<open>A rejection that no step explains is explained by its gate.\<close>

definition gate_progress :: "CIGateEvaluation \<Rightarrow> Progress \<Rightarrow> Progress" where
  "gate_progress ge pg =
    (if ge_decision ge = ''rejected'' \<and> first_given [pg_failure_type pg] = None
     then pg\<lparr>pg_status := ''failed'', pg_failed_step := ge_blocking ge, pg_failure_type := ge_failure_type ge,
       pg_failure_message := Some (''Blocking CI gate failed: '' @ (case ge_blocking ge of Some g \<Rightarrow> g | None \<Rightarrow> ''None'') @ ''.'')\<rparr>
     else pg)"

definition evaluated_run :: "CISourceRevision \<Rightarrow> CIGateEvaluation \<Rightarrow> Progress \<Rightarrow> CIPipelineRun \<Rightarrow> CIPipelineRun" where
  "evaluated_run source ge pg r =
    r\<lparr>rn_status := pg_status pg, rn_failed_step := pg_failed_step pg, rn_failure_type := pg_failure_type pg,
      rn_failure_message := pg_failure_message pg, rn_gate_version := Some (ge_version ge), rn_gates := ge_gates ge,
      rn_decision := Some (ge_decision ge), rn_failed_gates := ge_failed ge, rn_warning_gates := ge_warning ge,
      rn_blocking_gate := ge_blocking ge, rn_gate_summary := ge_summary ge, rn_validated_commit := validated_commit source\<rparr>"

text \<open>The final row: the classification sees the run before its warnings are written.\<close>

definition finished_run :: "CIGatePolicy \<Rightarrow> CIPreview \<Rightarrow> Progress \<Rightarrow> CIPipelineRun \<Rightarrow> CIPipelineRun" where
  "finished_run gates pv pg r =
    (let ge = evaluate_ci_gates (pv_pipeline pv) (rn_steps r) gates (pv_gates pv); pg' = gate_progress ge pg;
         evaluated = evaluated_run (pv_source pv) ge pg' r in
     evaluated\<lparr>rn_warnings := pg_warnings pg',
       rn_repairability := (if ge_decision ge = ''rejected'' then Some (classify_ci_failure_for_repair evaluated) else None)\<rparr>)"

definition finish_run :: "'w Service \<Rightarrow> CIPreview \<Rightarrow> string \<Rightarrow> Progress \<Rightarrow> CIStore \<times> 'w \<Rightarrow> (exn + CIPipelineRun) \<times> CIStore \<times> 'w" where
  "finish_run sv pv run_id pg sw =
    (case sw of (store, w) \<Rightarrow>
       case mc_now (sv_machine sv) w of (now, w1) \<Rightarrow>
       let store' = update_run run_id now (finished_run (sv_gates sv) pv pg) store in
       (case get_run store' run_id of Some r \<Rightarrow> Inr r | None \<Rightarrow> Inl AttributeError, store', w1))"

definition start_run ::
  "'w Service \<Rightarrow> string \<Rightarrow> string \<Rightarrow> CIPreview \<Rightarrow> string option \<Rightarrow> CIStore \<times> 'w \<Rightarrow> (exn + CIPipelineRun) \<times> CIStore \<times> 'w" where
  "start_run sv workflow project pv given sw =
    (case sw of (store, w) \<Rightarrow>
       case (case first_given [given] of Some g \<Rightarrow> (g, w) | None \<Rightarrow> sv_fresh sv w) of (run_id, w1) \<Rightarrow>
       case mc_now (sv_machine sv) w1 of (now, w2) \<Rightarrow>
       let store1 = create_run now (new_run (sv_gates sv) run_id workflow project pv) store in
       case get_run store1 run_id of
         None \<Rightarrow> (Inl AttributeError, store1, w2)
       | Some created \<Rightarrow>
           if rn_status created \<noteq> ''running'' then (Inr created, store1, w2)
           else case execution_dir sv w2 project (so_root (pv_source pv)) of
               Inl e \<Rightarrow> (Inl e, store1, w2)
             | Inr (dir, co, repository) \<Rightarrow>
                 (case run_steps (sv_policy sv) (sv_machine sv) run_id dir (pv_pipeline pv) (pl_steps (pv_pipeline pv)) no_progress
                     (store1, w2) of
                   (Inl e, sw') \<Rightarrow> (Inl e, sw')
                 | (Inr pg, sw') \<Rightarrow> finish_run sv pv run_id pg sw'))"

definition given_finished :: "CIStore \<Rightarrow> string option \<Rightarrow> CIPipelineRun option" where
  "given_finished store given =
    (case Option.bind (first_given [given]) (get_run store) of
       Some r \<Rightarrow> if rn_status r \<in> set FINISHED then Some r else None
     | None \<Rightarrow> None)"

definition ci_run ::
  "'w Service \<Rightarrow> string \<Rightarrow> string \<Rightarrow> string \<Rightarrow> string option \<Rightarrow> Revision \<Rightarrow> CIStore \<times> 'w \<Rightarrow> (exn + CIPipelineRun) \<times> CIStore \<times> 'w" where
  "ci_run sv workflow project fingerprint given rv sw =
    (case given_finished (fst sw) given of
       Some r \<Rightarrow> (Inr r, sw)
     | None \<Rightarrow> (case prepare_run sv (snd sw) project rv of
           Inl e \<Rightarrow> (Inl e, sw)
         | Inr pv \<Rightarrow> if pv_fingerprint pv \<noteq> fingerprint then (Inl (ci_error ''ci_pipeline_stale''), sw)
             else start_run sv workflow project pv given sw))"

section \<open>The node of the workflow\<close>

record CIConfig =
  cf_repair_enabled :: bool
  cf_max_attempts :: int

definition eligibility_dump :: "CIPromotionEligibility \<Rightarrow> pyval" where
  "eligibility_dump e = PDict
    [(''required'', PBool (el_required e)), (''eligible'', PBool (el_eligible e)), (''reason'', PStr (el_reason e)),
     (''commit_match'', PBool (el_commit_match e)), (''source_commit'', opt_str (el_source_commit e)),
     (''target_commit'', opt_str (el_target_commit e)), (''run_id'', opt_str (el_run_id e)),
     (''ci_status'', opt_str (el_status e)), (''ci_decision'', opt_str (el_decision e)),
     (''blocking_gates'', pstrs (el_blocking_gates e)), (''warnings'', pstrs (el_warnings e)),
     (''gate_policy_version'', opt_str (el_gate_version e)), (''pipeline_version'', opt_str (el_pipeline_version e)),
     (''pipeline_fingerprint'', opt_str (el_fingerprint e)), (''metadata'', PDict (el_metadata e))]"

definition repairability_dump :: "CIRepairability \<Rightarrow> pyval" where
  "repairability_dump r = PDict
    [(''repairable'', PBool (rp_repairable r)), (''category'', PStr (rp_category r)), (''confidence'', PFloat (rp_confidence r)),
     (''reason_codes'', pstrs (rp_reasons r)), (''failed_gate'', opt_str (rp_gate r)), (''failed_step'', opt_str (rp_step r)),
     (''failure_type'', opt_str (rp_failure_type r)), (''summary'', opt_str (rp_summary r))]"

definition gate_summary_dump :: "(string \<times> nat) list \<Rightarrow> pyval" where
  "gate_summary_dump summary = PDict (map (\<lambda>(k, n). (k, PInt (int n))) summary)"

text \<open>\<open>xs[-n:]\<close>.\<close>

definition last_items :: "int \<Rightarrow> 'a list \<Rightarrow> 'a list" where
  "last_items n xs = (if n > 0 then drop (length xs - nat n) xs else drop (nat (- n)) xs)"

definition lineage_entry :: "pyval \<Rightarrow> pydict \<Rightarrow> string option \<Rightarrow> string option \<Rightarrow> string option \<Rightarrow> pyval" where
  "lineage_entry attempt state commit run_id decision = PDict
    [(''attempt'', attempt), (''source_run_id'', get state ''ci_repair_source_run_id''),
     (''source_commit'', get state ''ci_repair_source_commit''), (''repair_commit'', opt_str commit),
     (''result_run_id'', opt_str run_id), (''result_decision'', opt_str decision)]"

definition repaired_state :: "pydict \<Rightarrow> pyval" where
  "repaired_state state =
    (if truthy (get state ''ci_repair_source_run_id'') then PStr ''repaired'' else getd state ''ci_repair_state'' (PStr ''not_required''))"

definition already_eligible :: "CIConfig \<Rightarrow> pydict \<Rightarrow> CIPromotionEligibility \<Rightarrow> exn + pydict" where
  "already_eligible cf state e =
    bind (list_or_empty (get state ''ci_repair_lineage'')) (\<lambda>lineage.
    let under_repair = truthy (get state ''ci_repair_source_run_id'')
          \<and> get state ''ci_repair_state'' \<in> {PStr ''pending'', PStr ''running''};
        lineage' = (if under_repair then last_items (cf_max_attempts cf) (lineage
          @ [lineage_entry (getd state ''ci_repair_attempts'' (PInt 0)) state (el_source_commit e) (el_run_id e) (el_decision e)])
          else lineage) in
    Inr [(''ci_state'', PStr ''passed''), (''ci_run_id'', opt_str (el_run_id e)), (''ci_status'', opt_str (el_status e)),
      (''ci_decision'', opt_str (el_decision e)), (''ci_validated_commit'', opt_str (el_source_commit e)),
      (''ci_gate_summary'', PDict []), (''ci_promotion_eligible'', PBool True), (''ci_promotion_eligibility'', eligibility_dump e),
      (''ci_repair_state'', repaired_state state),
      (''ci_repair_target_commit'', if truthy (get state ''ci_repair_source_run_id'') then opt_str (el_source_commit e)
         else get state ''ci_repair_target_commit''),
      (''ci_repair_lineage'', PList lineage'), (''terminal_status'', PNone)])"

definition ci_failed :: "string \<Rightarrow> string \<Rightarrow> string \<Rightarrow> string \<Rightarrow> pydict" where
  "ci_failed ci_state terminal failure message =
    [(''ci_state'', PStr ci_state), (''terminal_status'', PStr terminal), (''failure_stage'', PStr ''ci''),
     (''failure_type'', PStr failure), (''failure_message'', PStr message)]"

text \<open>\<open>getattr(exc, "code", type(exc).__name__)\<close>: the errors of the service carry a code.\<close>

definition CI_ERROR_CODES :: "string list" where
  "CI_ERROR_CODES = [''ci_error'', ''ci_project_unavailable'', ''ci_command_not_allowed'', ''ci_pipeline_stale'',
    ''ci_environment_unavailable'', ''ci_path_violation'']"

fun error_code :: "exn \<Rightarrow> string" where
  "error_code (RuntimeError c) = (if c \<in> set CI_ERROR_CODES then c else ''RuntimeError'')"
| "error_code (ValueError c) = (if ValueError c = json_error then ''JSONDecodeError''
     else if ValueError c = validation_error then ''ValidationError'' else ''ValueError'')"
| "error_code (KeyError k) = ''KeyError''"
| "error_code TypeError = ''TypeError''"
| "error_code AttributeError = ''AttributeError''"
| "error_code TimeoutError = ''TimeoutError''"
| "error_code (ToolError m) = ''ToolError''"
| "error_code EOFError = ''EOFError''"
| "error_code Unmodelled = []"

text \<open>\<open>str(exc)\<close>; the texts of the interpreter's own errors and of pydantic's are left empty.\<close>

fun error_text :: "exn \<Rightarrow> string" where
  "error_text (RuntimeError s) = s"
| "error_text (ValueError s) = (if ValueError s = validation_error then [] else s)"
| "error_text (KeyError s) = s"
| "error_text (ToolError s) = s"
| "error_text _ = []"

definition rejected_run :: "pydict \<Rightarrow> CIPipelineRun \<Rightarrow> CIRepairability \<Rightarrow> CIPromotionEligibility \<Rightarrow> pydict" where
  "rejected_run state r repair e =
    [(''ci_state'', PStr ''failed''), (''ci_run_id'', PStr (rn_id r)), (''ci_status'', PStr (rn_status r)),
     (''ci_decision'', opt_str (rn_decision r)), (''ci_validated_commit'', opt_str (rn_validated_commit r)),
     (''ci_failure_type'', opt_str (rn_failure_type r)), (''ci_failure_message'', opt_str (rn_failure_message r)),
     (''ci_gate_summary'', gate_summary_dump (rn_gate_summary r)), (''ci_promotion_eligible'', PBool False),
     (''ci_promotion_eligibility'', eligibility_dump e), (''ci_repair_repairability'', repairability_dump repair),
     (''ci_repair_failure_type'', opt_str (rn_failure_type r)), (''ci_repair_failure_message'', opt_str (rn_failure_message r)),
     (''ci_repair_source_run_id'', PStr (rn_id r)), (''ci_repair_source_commit'', opt_str (rn_validated_commit r))]"

definition text_or :: "string option list \<Rightarrow> string \<Rightarrow> pyval" where
  "text_or xs dflt = PStr (case first_given xs of Some t \<Rightarrow> t | None \<Rightarrow> dflt)"

definition failed_as :: "string \<Rightarrow> string \<Rightarrow> pyval \<Rightarrow> pyval \<Rightarrow> pydict" where
  "failed_as repair_state terminal failure message =
    [(''ci_repair_state'', PStr repair_state), (''terminal_status'', PStr terminal), (''failure_stage'', PStr ''ci''),
     (''failure_type'', failure), (''failure_message'', message)]"

definition repair_requested :: "pydict \<Rightarrow> int \<Rightarrow> CIPipelineRun \<Rightarrow> CIRepairability \<Rightarrow> exn + pydict" where
  "repair_requested state attempts r repair =
    bind (dict_or_empty (get state ''testing_result'')) (\<lambda>testing.
    Inr [(''ci_repair_state'', PStr ''pending''), (''ci_repair_attempts'', PInt (attempts + 1)), (''terminal_status'', PNone),
      (''tests_executed'', PBool True), (''tests_passed'', PBool False),
      (''testing_result'', PDict (dmerge testing
        [(''tests_executed'', PBool True), (''tests_passed'', PBool False), (''summary'', opt_str (rp_summary repair)),
         (''repair_phase'', getd state ''repair_phase'' (PStr ''not_started'')),
         (''repair_attempts'', getd state ''repair_attempts'' (PInt 0))])),
      (''failure_stage'', PStr ''ci''),
      (''failure_type'', text_or [rn_failure_type r, rp_failure_type repair] ''ci_promotion_blocked''),
      (''failure_message'', text_or [rn_failure_message r, rp_summary repair] ''CI gates rejected the commit.'')])"

definition after_rejection :: "CIConfig \<Rightarrow> pydict \<Rightarrow> CIPipelineRun \<Rightarrow> CIPromotionEligibility \<Rightarrow> exn + pydict" where
  "after_rejection cf state r e =
    (let repair = (case rn_repairability r of Some x \<Rightarrow> x | None \<Rightarrow> classify_ci_failure_for_repair r);
         common = rejected_run state r repair e in
     if rp_category repair = ''infrastructure''
     then Inr (common @ failed_as ''not_repairable'' ''infrastructure_failed'' (text_or [rn_failure_type r] ''ci_infrastructure_failure'')
       (text_or [rn_failure_message r, rp_summary repair] ''CI infrastructure failed.''))
     else if \<not> cf_repair_enabled cf \<or> \<not> rp_repairable repair
     then Inr (common @ failed_as ''not_repairable'' ''ci_failed'' (text_or [rn_failure_type r] ''ci_repair_not_applicable'')
       (text_or [rn_failure_message r, rp_summary repair] ''CI failure is not repairable.''))
     else bind (py_int (getd state ''ci_repair_attempts'' (PInt 0))) (\<lambda>attempts.
       if attempts \<ge> cf_max_attempts cf
       then bind (list_or_empty (get state ''ci_repair_lineage'')) (\<lambda>lineage.
         Inr (common @ (''ci_repair_lineage'', PList (last_items (cf_max_attempts cf) (lineage
             @ [lineage_entry (PInt attempts) state (rn_validated_commit r) (Some (rn_id r)) (rn_decision r)])))
           # failed_as ''exhausted'' ''ci_failed'' (PStr ''ci_repair_exhausted'') (PStr ''CI repair attempts were exhausted.'')))
       else bind (repair_requested state attempts r repair) (\<lambda>updates. Inr (common @ updates))))"

definition after_acceptance :: "pydict \<Rightarrow> CIPipelineRun \<Rightarrow> CIPromotionEligibility \<Rightarrow> pydict" where
  "after_acceptance state r e =
    [(''ci_state'', PStr (if el_eligible e then ''passed'' else ''failed'')), (''ci_run_id'', PStr (rn_id r)),
     (''ci_status'', PStr (rn_status r)), (''ci_decision'', opt_str (rn_decision r)),
     (''ci_validated_commit'', opt_str (rn_validated_commit r)), (''ci_failure_type'', opt_str (rn_failure_type r)),
     (''ci_failure_message'', opt_str (rn_failure_message r)), (''ci_gate_summary'', gate_summary_dump (rn_gate_summary r)),
     (''ci_promotion_eligible'', PBool (el_eligible e)), (''ci_promotion_eligibility'', eligibility_dump e),
     (''ci_repair_state'', repaired_state state),
     (''terminal_status'', if el_eligible e then PNone else PStr ''ci_failed'')]"

definition prepared_run ::
  "'w Service \<Rightarrow> string \<Rightarrow> string \<Rightarrow> Revision \<Rightarrow> CIStore \<times> 'w \<Rightarrow> (exn + CIPipelineRun) \<times> CIStore \<times> 'w" where
  "prepared_run sv workflow project rv sw =
    (case prepare_run sv (snd sw) project rv of
       Inl e \<Rightarrow> (Inl e, sw)
     | Inr pv \<Rightarrow> ci_run sv workflow project (pv_fingerprint pv) None rv sw)"

text \<open>The project and the commit the node is about; \<open>git_workflow\<close> is the workflow as the service is asked for it.\<close>

definition ci_identity :: "pydict \<Rightarrow> exn + string \<times> pyval" where
  "ci_identity state =
    bind (git_project state) (\<lambda>project.
    Inr (project, por (get state ''git_repair_commit_sha'') (por (get state ''git_developer_commit_sha'') (get state ''git_head_commit''))))"

text \<open>
  \<open>promotion_eligibility\<close> for the commit as the state holds it. No row has a commit that is no text;
  the text of a list or a dictionary begins with a bracket and is no commit identifier.
\<close>

definition commit_eligibility :: "'w Service \<Rightarrow> CIStore \<Rightarrow> string \<Rightarrow> pyval \<Rightarrow> CIPromotionEligibility" where
  "commit_eligibility sv store workflow commit =
    (case commit of
       PStr c \<Rightarrow> promotion_eligibility (sv_promotion sv) store workflow (Some c)
     | _ \<Rightarrow> evaluate_ci_promotion_eligibility (case py_str commit of Inr t \<Rightarrow> Some t | Inl _ \<Rightarrow> None) None (sv_promotion sv))"

definition run_commit ::
  "'w Service \<Rightarrow> CIConfig \<Rightarrow> pydict \<Rightarrow> string \<Rightarrow> string \<Rightarrow> pyval \<Rightarrow> CIStore \<times> 'w \<Rightarrow> (exn + pydict) \<times> CIStore \<times> 'w" where
  "run_commit sv cf state workflow project commit sw =
    (let existing = commit_eligibility sv (fst sw) workflow commit; branch = get state ''git_workflow_branch'' in
     if el_eligible existing then (already_eligible cf state existing, sw)
     else case prepared_run sv workflow project
           \<lparr>rv_commit = commit, rv_branch = branch, rv_workflow_branch = branch, rv_repository = Some project\<rparr> sw of
         (Inl e, sw') \<Rightarrow>
           (Inr (ci_failed ''infrastructure_failed'' ''infrastructure_failed'' (error_code e) (error_text e)), sw')
       | (Inr r, sw') \<Rightarrow>
           let e = commit_eligibility sv (fst sw') workflow commit in
           (if rn_decision r = Some ''rejected'' then after_rejection cf state r e else Inr (after_acceptance state r e), sw'))"

definition run_ci_pipeline :: "'w Service option \<Rightarrow> CIConfig \<Rightarrow> pydict \<Rightarrow> CIStore \<times> 'w \<Rightarrow> (exn + pydict) \<times> CIStore \<times> 'w" where
  "run_ci_pipeline service cf state sw =
    (case service of
       None \<Rightarrow> (Inr (ci_failed ''unavailable'' ''infrastructure_failed'' ''ci_service_unavailable'' ''CI service is unavailable.''), sw)
     | Some sv \<Rightarrow> (case ci_identity state of
           Inl e \<Rightarrow> (Inl e, sw)
         | Inr (project, commit) \<Rightarrow>
             if project = [] \<or> \<not> truthy commit
             then (Inr (ci_failed ''failed'' ''ci_failed'' ''ci_commit_missing'' ''CI requires a durable Git commit.''), sw)
             else (case git_workflow state of
                 Inl e \<Rightarrow> (Inl e, sw)
               | Inr workflow \<Rightarrow> run_commit sv cf state workflow project commit sw)))"

end
