(* ===== verification/CIProps.thy ===== *)
theory CIProps
  imports CIService
begin

text \<open>
  What the pipeline service guarantees. \<open>staged\<close> is its contract on one run: the steps run in order,
  and after a required step fails, or the time is up, what follows is skipped. The lemmas show that the
  loop over the steps and its stores keep it, that the default pipelines other than the one for
  dotnet turn it into passed builds and tests, and that the node of the workflow reports no
  other commit as passed.
\<close>

section \<open>Rows\<close>

definition with_steps :: "CIRow \<Rightarrow> CIStepRun list \<Rightarrow> CIRow" where
  "with_steps row ss = row\<lparr>ro_run := (ro_run row)\<lparr>rn_steps := ss\<rparr>\<rparr>"

lemma with_steps_simps [simp]:
  "row_id (with_steps row ss) = row_id row" "rn_steps (ro_run (with_steps row ss)) = ss"
  "rn_decision (ro_run (with_steps row ss)) = rn_decision (ro_run row)"
  "rn_status (ro_run (with_steps row ss)) = rn_status (ro_run row)"
  "rn_pipeline (ro_run (with_steps row ss)) = rn_pipeline (ro_run row)"
  "with_steps (with_steps row ss) ts = with_steps row ts"
  "with_steps row (rn_steps (ro_run row)) = row"
  by (simp_all add: with_steps_def row_id_def)

lemma change_row_last:
  assumes "run_id \<notin> row_id ` set store" and "row_id row = run_id"
  shows "change_row run_id f (store @ [row]) = store @ [f row]"
  using assms by (induction store) auto

lemma upsert_step_last:
  assumes "run_id \<notin> row_id ` set store" and "row_id row = run_id"
  shows "upsert_step run_id s (store @ [row]) = store @ [with_steps row (put_step s (rn_steps (ro_run row)))]"
  unfolding upsert_step_def change_row_last[OF assms] by (simp add: with_steps_def step_row_def)

lemma get_run_last:
  assumes "run_id \<notin> row_id ` set store" and "row_id row = run_id"
  shows "get_run (store @ [row]) run_id = Some (ro_run row)"
proof -
  have "find (\<lambda>row. row_id row = run_id) store = None" using assms(1) by (auto simp: find_None_iff)
  then have "find (\<lambda>row. row_id row = run_id) (store @ [row]) = Some row"
    using assms(2) by (induction store) (auto split: if_splits)
  then show ?thesis by (simp add: get_run_def)
qed

lemma get_run_None_iff: "get_run store run_id = None \<longleftrightarrow> run_id \<notin> row_id ` set store"
  by (auto simp: get_run_def find_None_iff)

lemma put_step_here:
  assumes "sr_id x = sr_id s" and "sr_id s \<notin> sr_id ` set prior" and "sr_id s \<notin> sr_id ` set rest"
  shows "put_step s (prior @ x # rest) = prior @ s # rest"
proof -
  have "map (\<lambda>t. if sr_id t = sr_id s then s else t) ys = ys" if "sr_id s \<notin> sr_id ` set ys" for ys
    using that by (intro map_idI) (metis image_eqI)
  then show ?thesis using assms by (simp add: put_step_def)
qed

lemma put_step_new: "sr_id s \<notin> sr_id ` set steps \<Longrightarrow> put_step s steps = steps @ [s]"
  by (auto simp: put_step_def)

lemma fold_put_step:
  "distinct (map sr_id (steps @ new)) \<Longrightarrow> fold put_step new steps = steps @ new"
  by (induction new arbitrary: steps) (auto simp: put_step_new)

lemma step_run_id [simp]: "sr_id (step_run s status) = st_id s" "sr_type (step_run s status) = st_type s"
    "sr_status (step_run s status) = status"
  by (simp_all add: step_run_def)

lemma failed_step_run_id [simp]: "sr_id (failed_step_run s status f m) = st_id s" "sr_type (failed_step_run s status f m) = st_type s"
    "sr_status (failed_step_run s status f m) = status"
  by (simp_all add: failed_step_run_def step_run_def)

lemma skipped_step_id [simp]: "sr_id (skipped_step s pg) = st_id s" "sr_type (skipped_step s pg) = st_type s"
    "sr_status (skipped_step s pg) = ''skipped''"
  by (simp_all add: skipped_step_def)

lemma finished_step_id [simp]:
  "sr_id (completed_step policy s i c a b) = st_id s" "sr_type (completed_step policy s i c a b) = st_type s"
  "sr_status (completed_step policy s i c a b) = (if c = 0 \<and> \<not> i then ''passed'' else ''failed'')"
  "sr_id (expired_step s p) = st_id s" "sr_type (expired_step s p) = st_type s" "sr_status (expired_step s p) = ''timed_out''"
  by (simp_all add: completed_step_def expired_step_def)

section \<open>The contract of a run\<close>

fun staged :: "bool \<Rightarrow> bool \<Rightarrow> CIPipelineStep list \<Rightarrow> CIStepRun list \<Rightarrow> bool" where
  "staged fail_fast skip [] [] = True"
| "staged fail_fast skip (s # ss) (t # ts) =
     (sr_id t = st_id s \<and> sr_type t = st_type s
      \<and> (if sr_status t = ''passed'' then \<not> skip \<and> staged fail_fast False ss ts
         else if sr_status t = ''skipped'' then skip \<and> staged fail_fast True ss ts
         else if sr_status t = ''pending'' then map sr_type ts = map st_type ss \<and> (\<forall>u \<in> set ts. sr_status u = ''skipped'')
         else sr_status t \<in> {''failed'', ''timed_out''} \<and> \<not> skip \<and> staged fail_fast (fail_fast \<and> st_required s) ss ts))"
| "staged fail_fast skip _ _ = False"

lemma skip_pending_rest:
  assumes "run_id \<notin> row_id ` set store" and "distinct (map st_id rest)" and "cur \<notin> st_id ` set rest"
    and "row_id row = run_id" and "rn_steps (ro_run row) = prior @ map (\<lambda>s. step_run s ''pending'') rest"
    and "sr_id ` set prior \<inter> st_id ` set rest = {}"
  shows "\<exists>ts. skip_pending run_id rest cur True (store @ [row]) = store @ [with_steps row (prior @ ts)]
    \<and> map sr_type ts = map st_type rest \<and> (\<forall>u \<in> set ts. sr_status u = ''skipped'')"
  using assms
proof (induction rest arbitrary: row prior)
  case Nil
  have "with_steps row prior = row" using Nil by (metis append_Nil2 list.simps(8) with_steps_simps(7))
  then show ?case by simp
next
  case (Cons s rest)
  let ?t = "failed_step_run s ''skipped'' (Some ''ci_pipeline_timeout'') ''Skipped because the pipeline timed out.''"
  let ?row = "with_steps row ((prior @ [?t]) @ map (\<lambda>s. step_run s ''pending'') rest)"
  have put: "put_step ?t (rn_steps (ro_run row)) = (prior @ [?t]) @ map (\<lambda>s. step_run s ''pending'') rest"
    unfolding Cons.prems(5) using Cons.prems(2,6) by (simp add: put_step_here image_image) 
  have up: "upsert_step run_id ?t (store @ [row]) = store @ [?row]"
    by (simp only: upsert_step_last[OF Cons.prems(1,4)] put)
  have "\<exists>ts. skip_pending run_id rest cur True (store @ [?row]) = store @ [with_steps ?row ((prior @ [?t]) @ ts)]
      \<and> map sr_type ts = map st_type rest \<and> (\<forall>u \<in> set ts. sr_status u = ''skipped'')"
    using Cons.prems by (intro Cons.IH) auto
  then obtain ts where ts: "skip_pending run_id rest cur True (store @ [?row]) = store @ [with_steps ?row ((prior @ [?t]) @ ts)]"
      "map sr_type ts = map st_type rest" "\<forall>u \<in> set ts. sr_status u = ''skipped''" by blast
  have "skip_pending run_id (s # rest) cur True (store @ [row]) = skip_pending run_id rest cur True (store @ [?row])"
    using Cons.prems(3) up by auto
  then show ?case using ts by (intro exI[of _ "?t # ts"]) simp
qed

lemma skip_pending_before:
  "cur \<notin> st_id ` set prior \<Longrightarrow> skip_pending run_id (prior @ rest) cur False store = skip_pending run_id rest cur False store"
  by (induction prior) auto

text \<open>A step changes its own row only.\<close>

lemma execute_step_row:
  assumes "execute_step policy mc run_id dir s remaining (store @ [row], w) = (res, store', w')"
    and fresh: "run_id \<notin> row_id ` set store" and row: "row_id row = run_id"
    and steps: "rn_steps (ro_run row) = prior @ step_run s ''pending'' # rest"
    and ids: "st_id s \<notin> sr_id ` set prior" "st_id s \<notin> sr_id ` set rest"
  shows "\<exists>t. store' = store @ [with_steps row (prior @ t # rest)]
    \<and> (\<forall>u. res = Inr u \<longrightarrow> t = u \<and> sr_id u = st_id s \<and> sr_type u = st_type s \<and> sr_status u \<in> {''passed'', ''failed'', ''timed_out''})"
proof -
  have put: "put_step u (prior @ x # rest) = prior @ u # rest" if "sr_id u = st_id s" "sr_id x = st_id s" for u x
    using that ids by (simp add: put_step_here)
  have started: "upsert_step run_id (step_run s ''running'') (store @ [row])
      = store @ [with_steps row (prior @ step_run s ''running'' # rest)]"
    by (simp add: upsert_step_last[OF fresh row] steps put)
  have again: "upsert_step run_id u (store @ [with_steps row (prior @ step_run s ''running'' # rest)])
      = store @ [with_steps row (prior @ u # rest)]" if "sr_id u = st_id s" for u
    using that row by (simp add: upsert_step_last[OF fresh] put)
  have same: "store @ [row] = store @ [with_steps row (prior @ step_run s ''pending'' # rest)]"
    using with_steps_simps(7)[of row] steps by simp
  show ?thesis
  proof (cases "workdir_of mc dir s")
    case (Inl e)
    then have "store' = store @ [row]" "res = Inl e" using assms(1) by (auto simp: execute_step_def)
    then show ?thesis using same by (intro exI[of _ "step_run s ''pending''"]) simp
  next
    case (Inr cw)
    obtain command workdir where cw: "cw = (command, workdir)" by (cases cw)
    obtain command' w1 where iso: "isolated_command mc w command = (command', w1)" by (cases "isolated_command mc w command")
    define limit where "limit = min (case st_timeout s of Some t \<Rightarrow> if t = 0 then pol_step_timeout policy else t
                 | None \<Rightarrow> pol_step_timeout policy) (max (1/10) remaining)"
    obtain p w2 where pr: "mc_process mc w1 command' workdir limit = (p, w2)" by (cases "mc_process mc w1 command' workdir limit")
    show ?thesis
      using assms(1) unfolding execute_step_def Inr cw iso limit_def[symmetric] started Let_def
      by (cases p) (auto simp: Inr cw iso limit_def[symmetric] started pr again Let_def)
  qed
qed

text \<open>The loop keeps the contract, whatever the processes and the clock do; when it raises, only its own row changed.\<close>

lemma run_steps_staged:
  assumes "run_steps policy mc run_id dir pl rest pg (store @ [row], w) = (res, store', w')"
    and "run_id \<notin> row_id ` set store" and "row_id row = run_id"
    and "rn_steps (ro_run row) = prior @ map (\<lambda>s. step_run s ''pending'') rest"
    and "pl_steps pl = earlier @ rest" and "map sr_id prior = map st_id earlier" and "distinct (map st_id (pl_steps pl))"
  shows "\<exists>ts. store' = store @ [with_steps row (prior @ ts)]
    \<and> ((\<exists>pg'. res = Inr pg') \<longrightarrow> staged (pl_fail_fast pl) (pg_skip pg) rest ts)"
  using assms
proof (induction rest arbitrary: row w pg prior earlier)
  case Nil
  then show ?case using with_steps_simps(7)[of row] by (intro exI[of _ "[]"]) simp
next
  case (Cons s rest)
  have prior_ids: "sr_id ` set prior = st_id ` set earlier" using Cons.prems(6) by (metis list.set_map)
  have ids: "st_id s \<notin> sr_id ` set prior" "st_id s \<notin> st_id ` set rest" "sr_id ` set prior \<inter> st_id ` set rest = {}"
      "st_id s \<notin> st_id ` set earlier"
    using Cons.prems(5,7) unfolding prior_ids by auto
  have pending_ids: "st_id s \<notin> sr_id ` set (map (\<lambda>s. step_run s ''pending'') rest)" using ids(2) by (simp add: image_image)
  have steps: "rn_steps (ro_run row) = prior @ step_run s ''pending'' # map (\<lambda>s. step_run s ''pending'') rest"
    using Cons.prems(4) by simp
  obtain elapsed w1 where clock: "mc_elapsed mc w = (elapsed, w1)" by (cases "mc_elapsed mc w")
  have onward: "\<exists>ts. store' = store @ [with_steps row (prior @ ts)]
      \<and> ((\<exists>pg'. res = Inr pg') \<longrightarrow> staged (pl_fail_fast pl) (pg_skip pg) (s # rest) ts)"
    if r: "run_steps policy mc run_id dir pl rest pg1
        (store @ [with_steps row (prior @ t # map (\<lambda>s. step_run s ''pending'') rest)], w2) = (res, store', w')"
      and t: "sr_id t = st_id s" "\<And>ts. staged (pl_fail_fast pl) (pg_skip pg1) rest ts
        \<Longrightarrow> staged (pl_fail_fast pl) (pg_skip pg) (s # rest) (t # ts)" for t pg1 w2
  proof -
    have "\<exists>ts. store' = store @ [with_steps (with_steps row (prior @ t # map (\<lambda>s. step_run s ''pending'') rest)) ((prior @ [t]) @ ts)]
        \<and> ((\<exists>pg'. res = Inr pg') \<longrightarrow> staged (pl_fail_fast pl) (pg_skip pg1) rest ts)"
      using r t(1) Cons.prems by (intro Cons.IH[of pg1 _ w2 "prior @ [t]" "earlier @ [s]"]) simp_all
    then obtain ts where ts: "store' = store @ [with_steps row (prior @ t # ts)]"
        "(\<exists>pg'. res = Inr pg') \<longrightarrow> staged (pl_fail_fast pl) (pg_skip pg1) rest ts" by auto
    show ?thesis using ts t(2) by (intro exI[of _ "t # ts"]) blast
  qed
  show ?case
  proof (cases "elapsed \<ge> pl_timeout pl")
    case True
    then have out: "store' = skip_pending run_id (pl_steps pl) (st_id s) False (store @ [row])"
      using Cons.prems(1) clock by simp
    have "skip_pending run_id (pl_steps pl) (st_id s) False (store @ [row]) = skip_pending run_id rest (st_id s) True (store @ [row])"
      unfolding Cons.prems(5) by (simp add: skip_pending_before[OF ids(4)])
    moreover have "\<exists>ts. skip_pending run_id rest (st_id s) True (store @ [row])
          = store @ [with_steps row ((prior @ [step_run s ''pending'']) @ ts)]
        \<and> map sr_type ts = map st_type rest \<and> (\<forall>u \<in> set ts. sr_status u = ''skipped'')"
      using Cons.prems(2,3,7) ids steps unfolding Cons.prems(5) by (intro skip_pending_rest) auto
    ultimately obtain ts where "store' = store @ [with_steps row (prior @ step_run s ''pending'' # ts)]"
        "map sr_type ts = map st_type rest" "\<forall>u \<in> set ts. sr_status u = ''skipped''" using out by auto
    then show ?thesis by (intro exI[of _ "step_run s ''pending'' # ts"]) simp
  next
    case False
    show ?thesis
    proof (cases "pg_skip pg")
      case True
      have "upsert_step run_id (skipped_step s pg) (store @ [row])
          = store @ [with_steps row (prior @ skipped_step s pg # map (\<lambda>s. step_run s ''pending'') rest)]"
        using ids pending_ids by (simp add: upsert_step_last[OF Cons.prems(2,3)] steps put_step_here)
      then show ?thesis using Cons.prems(1) False True clock by (intro onward[of pg "skipped_step s pg" w1]) simp_all
    next
      case run_on: False
      obtain eres st1 w2 where ex: "execute_step policy mc run_id dir s (pl_timeout pl - elapsed) (store @ [row], w1) = (eres, st1, w2)"
        by (cases "execute_step policy mc run_id dir s (pl_timeout pl - elapsed) (store @ [row], w1)") auto
      obtain t where t: "st1 = store @ [with_steps row (prior @ t # map (\<lambda>s. step_run s ''pending'') rest)]"
          "\<forall>u. eres = Inr u \<longrightarrow> t = u \<and> sr_id u = st_id s \<and> sr_type u = st_type s \<and> sr_status u \<in> {''passed'', ''failed'', ''timed_out''}"
        using execute_step_row[OF ex Cons.prems(2,3) steps ids(1) pending_ids] by blast
      show ?thesis
      proof (cases eres)
        case (Inl e)
        then have "store' = st1" "res = Inl e" using Cons.prems(1) False run_on clock ex by simp_all
        then show ?thesis using t(1) by (intro exI[of _ "t # map (\<lambda>s. step_run s ''pending'') rest"]) simp
      next
        case (Inr u)
        then have u: "t = u" "sr_id u = st_id s" "sr_type u = st_type s" "sr_status u \<in> {''passed'', ''failed'', ''timed_out''}"
          using t(2) by simp_all
        have next_skip: "pg_skip (after_step (pl_fail_fast pl) s u pg)
            = (sr_status u \<noteq> ''passed'' \<and> pl_fail_fast pl \<and> st_required s)"
          using u(4) run_on by (auto simp: after_step_def)
        show ?thesis
          using Cons.prems(1) False run_on clock ex Inr t(1) u
          by (intro onward[of "after_step (pl_fail_fast pl) s u pg" u w2]) (auto simp: next_skip)
      qed
    qed
  qed
qed

section \<open>Gates\<close>

lemma gate_result_simps [simp]:
  "gr_status (gate_result d status reason steps f) = status" "gr_id (gate_result d status reason steps f) = gd_id d"
  "gr_blocking (gate_result d status reason steps f) = gd_blocking d"
  by (simp_all add: gate_result_def)

lemma evaluate_gate_id [simp]: "gr_id (evaluate_gate results d) = gd_id d" "gr_blocking (evaluate_gate results d) = gd_blocking d"
  by (simp_all add: evaluate_gate_def Let_def)

text \<open>A gate with one step behind it lets it pass or finds it skipped; anything else fails a blocking gate.\<close>

lemma single_step_gate:
  assumes "filter (\<lambda>s. st_type s = ty) (pl_steps pl) = [s]" and "filter (\<lambda>t. sr_type t = ty) results = [t]"
    and "st_required s" and "gr_status (evaluate_gate results (gate_for pl gp ty True)) \<noteq> ''failed''"
  shows "sr_status t \<in> {''passed'', ''skipped''}"
  using assms by (auto simp: evaluate_gate_def gate_for_def Let_def split: if_splits)

lemma find_in_set: "find P xs = Some x \<Longrightarrow> x \<in> set xs"
  by (induction xs) (auto split: if_splits)

lemma not_rejected_gate:
  assumes "ge_decision (evaluate_ci_gates pl results gp (build_ci_gate_definitions pl gp)) \<noteq> ''rejected''"
    and "g \<in> set (build_ci_gate_definitions pl gp)" and "gd_blocking g"
  shows "gr_status (evaluate_gate results g) \<noteq> ''failed''"
proof
  assume failed: "gr_status (evaluate_gate results g) = ''failed''"
  let ?gates = "map (evaluate_gate results) (build_ci_gate_definitions pl gp)"
  let ?P = "\<lambda>g. gr_status g = ''failed'' \<and> gr_blocking g"
  have "find ?P ?gates \<noteq> None" using failed assms(2,3) by (auto simp: find_None_iff)
  then obtain x where x: "find ?P ?gates = Some x" by auto
  then have "x \<in> set ?gates" by (rule find_in_set)
  then have "gr_id x \<noteq> []" by (auto simp: build_ci_gate_definitions_def gate_for_def Let_def)
  moreover have "build_ci_gate_definitions pl gp \<noteq> []" by (simp add: build_ci_gate_definitions_def)
  ultimately have "ge_decision (evaluate_ci_gates pl results gp (build_ci_gate_definitions pl gp)) = ''rejected''"
    using x by (simp add: evaluate_ci_gates_def Let_def)
  with assms(1) show False by contradiction
qed

section \<open>Pipelines\<close>

text \<open>The build and test steps come first, each type once, and are required.\<close>

definition gated :: "CIPipelineStep \<Rightarrow> bool" where
  "gated s \<longleftrightarrow> st_type s \<in> {''build'', ''test''}"

definition plain_steps :: "CIPipelineStep list \<Rightarrow> bool" where
  "plain_steps steps \<longleftrightarrow> distinct (map st_id steps) \<and> distinct (map st_type steps)
    \<and> (\<exists>front others. steps = front @ others \<and> list_all (\<lambda>s. gated s \<and> st_required s) front \<and> list_all (\<lambda>s. \<not> gated s) others)"

lemma plainI:
  "steps = front @ others \<Longrightarrow> distinct (map st_id steps) \<Longrightarrow> distinct (map st_type steps)
   \<Longrightarrow> list_all (\<lambda>s. gated s \<and> st_required s) front \<Longrightarrow> list_all (\<lambda>s. \<not> gated s) others \<Longrightarrow> plain_steps steps"
  unfolding plain_steps_def by blast

lemma required_step_simps [simp]:
  "st_id (required_step i n ty c) = i" "st_type (required_step i n ty c) = ty" "st_required (required_step i n ty c)"
  by (simp_all add: required_step_def)

lemma python_steps_plain:
  assumes "python_steps co = Inr steps"
  shows "plain_steps steps"
proof -
  obtain a b c d where "steps = [required_step ''environment'' a ''build'' b, required_step ''test'' c ''test'' d]
      \<or> steps = [required_step ''test'' c ''test'' d]"
    using assms by (auto simp: python_steps_def Let_def split: if_splits)
  then show ?thesis by (intro plainI[of steps steps "[]"]) (auto simp: gated_def)
qed

lemma script_steps_plain: "plain_steps (script_steps scripts)"
  unfolding script_steps_def by (rule plainI[OF append_assoc[symmetric]]) (simp_all add: gated_def)

lemma node_steps_plain: "node_steps co = Inr steps \<Longrightarrow> plain_steps steps"
  by (auto simp: node_steps_def Let_def bind_eq_Inr_iff script_steps_plain split: if_splits)

lemma default_pipeline_plain:
  assumes "default_pipeline policy co framework = Inr pl" and "pl_framework pl \<noteq> ''dotnet''"
  shows "plain_steps (pl_steps pl)" "pl_fail_fast pl"
proof -
  obtain steps where steps: "steps_for co framework = Inr steps" "pl_steps pl = steps" "pl_framework pl = framework" "pl_fail_fast pl"
    using assms(1) by (auto simp: default_pipeline_def bind_eq_Inr_iff)
  then show "plain_steps (pl_steps pl)" "pl_fail_fast pl"
    using assms(2) by (auto simp: steps_for_def node_steps_plain python_steps_plain split: if_splits)
qed

section \<open>Accepted runs\<close>

lemma staged_ConsD:
  "staged ff skip (s # ss) (t # ts) \<Longrightarrow> sr_type t = st_type s \<and> (map sr_type ts = map st_type ss \<or> (\<exists>skip'. staged ff skip' ss ts))"
  unfolding staged.simps by metis

lemma staged_types: "staged ff skip ss ts \<Longrightarrow> map sr_type ts = map st_type ss"
proof (induction ss arbitrary: skip ts)
  case Nil
  then show ?case by (cases ts) simp_all
next
  case (Cons s ss)
  then obtain t ts' where ts: "ts = t # ts'" by (cases ts) simp_all
  show ?case using staged_ConsD[OF Cons.prems[unfolded ts]] Cons.IH ts by auto
qed

lemma staged_front_passed:
  assumes "staged ff False (front @ others) ts" and "list_all (\<lambda>s. gated s \<and> st_required s) front" and "list_all (\<lambda>s. \<not> gated s) others"
    and "\<forall>t \<in> set ts. sr_type t \<in> {''build'', ''test''} \<longrightarrow> sr_status t \<in> {''passed'', ''skipped''}"
  shows "\<forall>t \<in> set ts. sr_type t \<in> {''build'', ''test''} \<longrightarrow> sr_status t = ''passed''"
  using assms
proof (induction front arbitrary: ts)
  case Nil
  then have "map sr_type ts = map st_type others" using staged_types by fastforce
  then have "sr_type t \<in> st_type ` set others" if "t \<in> set ts" for t using that by (metis image_eqI list.set_map)
  then have "\<exists>s \<in> set others. sr_type t = st_type s" if "t \<in> set ts" for t using that by blast
  moreover have "\<not> gated s" if "s \<in> set others" for s using that Nil.prems(3) by (simp add: list_all_iff)
  ultimately have "sr_type t \<notin> {''build'', ''test''}" if "t \<in> set ts" for t using that unfolding gated_def by fastforce
  then show ?case by blast
next
  case (Cons s front)
  obtain t ts' where ts: "ts = t # ts'" using Cons.prems(1) by (cases ts) auto
  have "sr_type t \<in> {''build'', ''test''}" using Cons.prems(1,2) ts by (auto simp: gated_def)
  moreover have "t \<in> set ts" using ts by simp
  ultimately have "sr_status t \<in> {''passed'', ''skipped''}" using Cons.prems(4) by blast
  then have passed: "sr_status t = ''passed''" "staged ff False (front @ others) ts'" using Cons.prems(1) ts by (auto split: if_splits)
  then have "\<forall>t \<in> set ts'. sr_type t \<in> {''build'', ''test''} \<longrightarrow> sr_status t = ''passed''"
    using Cons.prems ts by (intro Cons.IH) auto
  then show ?case using passed ts by simp
qed

lemma filter_single:
  "distinct (map f xs) \<Longrightarrow> x \<in> set xs \<Longrightarrow> filter (\<lambda>y. f y = f x) xs = [x]"
  by (induction xs) (auto simp: filter_empty_conv image_iff)

lemma accepted_steps_passed:
  assumes plain: "plain_steps (pl_steps pl)" and staged: "staged ff False (pl_steps pl) ts"
    and policy: "gp_build gp" "gp_test gp"
    and accepted: "ge_decision (evaluate_ci_gates pl ts gp (build_ci_gate_definitions pl gp)) \<noteq> ''rejected''"
  shows "\<forall>t \<in> set ts. sr_type t \<in> {''build'', ''test''} \<longrightarrow> sr_status t = ''passed''"
proof -
  obtain front others where shape: "pl_steps pl = front @ others" "list_all (\<lambda>s. gated s \<and> st_required s) front"
      "list_all (\<lambda>s. \<not> gated s) others" "distinct (map st_type (pl_steps pl))"
    using plain unfolding plain_steps_def by blast
  have types: "map sr_type ts = map st_type (pl_steps pl)" by (rule staged_types[OF staged])
  have "sr_status t \<in> {''passed'', ''skipped''}" if t: "t \<in> set ts" "sr_type t \<in> {''build'', ''test''}" for t
  proof -
    have "sr_type t \<in> st_type ` set (pl_steps pl)" using t(1) types by (metis image_eqI list.set_map)
    then obtain s where s: "s \<in> set (pl_steps pl)" "st_type s = sr_type t" by auto
    then have "s \<in> set front" using shape(1,3) t(2) by (auto simp: list_all_iff gated_def)
    then have required: "st_required s" using shape(2) by (simp add: list_all_iff)
    have "gate_for pl gp (sr_type t) True \<in> set (build_ci_gate_definitions pl gp)"
      using t(2) policy by (auto simp: build_ci_gate_definitions_def)
    moreover have one: "filter (\<lambda>s. st_type s = sr_type t) (pl_steps pl) = [s]"
      using filter_single[OF shape(4) s(1)] s(2) by simp
    moreover have "gd_blocking (gate_for pl gp (sr_type t) True)"
      using one t(2) unfolding gate_for_def Let_def by simp
    ultimately have "gr_status (evaluate_gate ts (gate_for pl gp (sr_type t) True)) \<noteq> ''failed''"
      using not_rejected_gate[OF accepted] by blast
    moreover have "filter (\<lambda>u. sr_type u = sr_type t) ts = [t]"
      using filter_single[of sr_type ts t] t(1) shape(4) types by simp
    ultimately show ?thesis using single_step_gate one required by blast
  qed
  then show ?thesis using staged_front_passed[of ff front others ts] staged shape by auto
qed

end
