(* ===== verification/CIPromotion.thy ===== *)
theory CIPromotion
  imports CIProps
begin

text \<open>
  From the rows of runs to a promotion: the rows stay vetted (\<open>vetted\<close>), and what the node of the
  workflow reports as passed rests on a vetted row for the very commit.
\<close>

section \<open>The invariant of the rows\<close>

definition settled :: "CIPipelineRun \<Rightarrow> bool" where
  "settled r \<longleftrightarrow> rn_decision r \<notin> {None, Some [], Some ''rejected''}"

definition gated_steps_passed :: "CIPipelineRun \<Rightarrow> bool" where
  "gated_steps_passed r \<longleftrightarrow> (\<forall>t \<in> set (rn_steps r). sr_type t \<in> {''build'', ''test''} \<longrightarrow> sr_status t = ''passed'')"

text \<open>
  A row without a decision, as a run that is under way or has raised leaves it, does not count as
  completed; a row with another decision than a rejection has its gated steps passed, unless its
  pipeline is one for dotnet.
\<close>

definition vetted_run :: "CIPipelineRun \<Rightarrow> bool" where
  "vetted_run r \<longleftrightarrow>
    (rn_decision r \<in> {None, Some []} \<longrightarrow> rn_status r \<notin> {''passed'', ''failed''})
    \<and> (settled r \<and> pl_framework (rn_pipeline r) \<noteq> ''dotnet'' \<longrightarrow> gated_steps_passed r)"

definition vetted :: "CIStore \<Rightarrow> bool" where
  "vetted store \<longleftrightarrow> (\<forall>row \<in> set store. vetted_run (ro_run row))"

lemma vetted_append [simp]: "vetted (store @ [row]) \<longleftrightarrow> vetted store \<and> vetted_run (ro_run row)"
  by (auto simp: vetted_def)

lemma new_run_simps [simp]:
  "rn_id (new_run gp i wid p pv) = i" "rn_decision (new_run gp i wid p pv) = None" "rn_workflow (new_run gp i wid p pv) = wid"
  "rn_status (new_run gp i wid p pv) = ''running''" "rn_pipeline (new_run gp i wid p pv) = pv_pipeline pv"
  "rn_source (new_run gp i wid p pv) = pv_source pv"
  "rn_steps (new_run gp i wid p pv) = map (\<lambda>s. step_run s ''pending'') (pl_steps (pv_pipeline pv))"
  by (simp_all add: new_run_def)

lemma finished_run_simps [simp]:
  "rn_id (finished_run gp pv pg r) = rn_id r" "rn_steps (finished_run gp pv pg r) = rn_steps r"
  "rn_workflow (finished_run gp pv pg r) = rn_workflow r" "rn_pipeline (finished_run gp pv pg r) = rn_pipeline r"
  "rn_source (finished_run gp pv pg r) = rn_source r"
  "rn_decision (finished_run gp pv pg r) = Some (ge_decision (evaluate_ci_gates (pv_pipeline pv) (rn_steps r) gp (pv_gates pv)))"
  by (simp_all add: finished_run_def evaluated_run_def Let_def)

lemma prepared_gates:
  assumes "prepare_run sv w project rv = Inr pv"
  shows "pv_gates pv = build_ci_gate_definitions (pv_pipeline pv) (sv_gates sv)"
    and "pl_framework (pv_pipeline pv) \<noteq> ''dotnet'' \<Longrightarrow> plain_steps (pl_steps (pv_pipeline pv)) \<and> pl_fail_fast (pv_pipeline pv)"
    and "distinct (map st_id (pl_steps (pv_pipeline pv)))"
proof -
  obtain co pl where pl: "default_pipeline (sv_policy sv) co (detect_framework co) = Inr pl" "pv_pipeline pv = pl"
      "pv_gates pv = build_ci_gate_definitions pl (sv_gates sv)"
    using assms by (auto simp: prepare_run_def bind_eq_Inr_iff Let_def)
  then show "pv_gates pv = build_ci_gate_definitions (pv_pipeline pv) (sv_gates sv)"
    and plain: "pl_framework (pv_pipeline pv) \<noteq> ''dotnet'' \<Longrightarrow> plain_steps (pl_steps (pv_pipeline pv)) \<and> pl_fail_fast (pv_pipeline pv)"
    using default_pipeline_plain by auto
  have "distinct (map st_id (pl_steps pl))" if "pl_framework pl = ''dotnet''"
  proof -
    have "detect_framework co = ''dotnet''" using pl(1) that by (auto simp: default_pipeline_def bind_eq_Inr_iff)
    then have "pl_steps pl = dotnet_steps" using pl(1) by (auto simp: default_pipeline_def steps_for_def bind_eq_Inr_iff)
    then show ?thesis by (simp add: dotnet_steps_def)
  qed
  then show "distinct (map st_id (pl_steps (pv_pipeline pv)))"
    using plain pl(2) unfolding plain_steps_def by blast
qed

text \<open>The rows stay vetted when the service is started again and marks what was under way as
  interrupted: the gated steps of a settled row have passed and are not under way.\<close>

lemma interrupted_row_vetted: "vetted_run (ro_run row) \<Longrightarrow> vetted_run (ro_run (interrupted_row now row))"
proof -
  assume v: "vetted_run (ro_run row)"
  have "sr_status (interrupted_step t) = ''passed''" if "sr_status t = ''passed''" for t
    using that by (simp add: interrupted_step_def)
  moreover have "sr_type (interrupted_step t) = sr_type t" for t by (simp add: interrupted_step_def)
  ultimately show ?thesis
    using v by (auto simp: interrupted_row_def vetted_run_def settled_def gated_steps_passed_def)
qed

lemma reconcile_vetted: "vetted store \<Longrightarrow> vetted (reconcile_interrupted now store)"
  by (auto simp: vetted_def reconcile_interrupted_def intro: interrupted_row_vetted)

text \<open>A run adds one vetted row, whether it returns or raises.\<close>

lemma start_run_vetted:
  assumes "start_run sv workflow project pv None (store, w) = (res, store', w')"
    and prepared: "prepare_run sv w0 project rv = Inr pv"
    and fresh: "fst (sv_fresh sv w) \<notin> row_id ` set store"
    and policy: "gp_build (sv_gates sv)" "gp_test (sv_gates sv)"
  shows "\<exists>row. store' = store @ [row] \<and> vetted_run (ro_run row) \<and> (\<forall>r. res = Inr r \<longrightarrow> r = ro_run row)"
proof -
  obtain run_id w1 where run_id: "sv_fresh sv w = (run_id, w1)" by (cases "sv_fresh sv w")
  obtain now w2 where now: "mc_now (sv_machine sv) w1 = (now, w2)" by (cases "mc_now (sv_machine sv) w1")
  let ?pl = "pv_pipeline pv" let ?new = "new_run (sv_gates sv) run_id workflow project pv"
  have new: "run_id \<notin> row_id ` set store" using fresh run_id by simp
  have "fold put_step (rn_steps ?new) [] = rn_steps ?new"
    using fold_put_step[of "[]" "rn_steps ?new"] prepared_gates(3)[OF prepared] by (simp add: comp_def)
  define row where "row = \<lparr>ro_run = ?new, ro_created = now, ro_completed = None\<rparr>"
  have row: "row_id row = run_id" "rn_decision (ro_run row) = None" "rn_pipeline (ro_run row) = ?pl"
      "rn_steps (ro_run row) = [] @ map (\<lambda>s. step_run s ''pending'') (pl_steps ?pl)" "rn_status (ro_run row) = ''running''"
    by (simp_all add: row_def row_id_def)
  have created: "create_run now ?new store = store @ [row]"
    using get_run_None_iff[of store run_id] new \<open>fold put_step (rn_steps ?new) [] = rn_steps ?new\<close>
    by (simp add: create_run_def row_def)
  have undecided: "vetted_run (ro_run (with_steps row ss))" for ss by (simp add: vetted_run_def settled_def row)
  show ?thesis
  proof (cases "execution_dir sv w2 project (so_root (pv_source pv))")
    case (Inl e)
    then have "store' = store @ [row]" "res = Inl e"
      using assms(1) by (simp_all add: start_run_def run_id now created get_run_last[OF new row(1)] row(5))
    then show ?thesis by (intro exI[of _ row]) (simp add: vetted_run_def settled_def row)
  next
    case (Inr d)
    obtain dir co repository where d: "d = (dir, co, repository)" by (cases d)
    obtain lres st lw where loop: "run_steps (sv_policy sv) (sv_machine sv) run_id dir ?pl (pl_steps ?pl) no_progress (store @ [row], w2)
        = (lres, st, lw)" by (cases "run_steps (sv_policy sv) (sv_machine sv) run_id dir ?pl (pl_steps ?pl) no_progress (store @ [row], w2)") auto
    obtain ts where ts: "st = store @ [with_steps row ts]"
        "(\<exists>pg'. lres = Inr pg') \<longrightarrow> staged (pl_fail_fast ?pl) False (pl_steps ?pl) ts"
      using run_steps_staged[OF loop new row(1) row(4), of "[]"] prepared_gates(3)[OF prepared] by (auto simp: no_progress_def)
    have out: "(res, store', w') = (case lres of Inl e \<Rightarrow> (Inl e, st, lw) | Inr pg \<Rightarrow> finish_run sv pv run_id pg (st, lw))"
      using assms(1) by (simp add: start_run_def run_id now created get_run_last[OF new row(1)] row(5) Inr d loop split: sum.splits)
    show ?thesis
    proof (cases lres)
      case (Inl e)
      then show ?thesis using out ts(1) undecided by (intro exI[of _ "with_steps row ts"]) simp
    next
      case (Inr pg)
      obtain end_time lw2 where end_time: "mc_now (sv_machine sv) lw = (end_time, lw2)" by (cases "mc_now (sv_machine sv) lw")
      define last where "last = (with_steps row ts)\<lparr>ro_run := finished_run (sv_gates sv) pv pg (ro_run (with_steps row ts)),
        ro_completed := Some end_time\<rparr>"
      have last: "row_id last = run_id" "ro_run last = finished_run (sv_gates sv) pv pg (ro_run (with_steps row ts))"
        using row(1) by (simp_all add: last_def row_id_def with_steps_def)
      have "update_run run_id end_time (finished_run (sv_gates sv) pv pg) st = store @ [last]"
        unfolding ts(1) update_run_def using change_row_last[OF new] row(1) by (simp add: last_def final_row_def)
      then have result: "store' = store @ [last]" "res = Inr (ro_run last)"
        using out Inr get_run_last[OF new last(1)] by (simp_all add: finish_run_def end_time)
      have decided: "rn_decision (ro_run last) \<notin> {None, Some []}"
        by (simp add: last(2) evaluate_ci_gates_def Let_def)
      have "vetted_run (ro_run last)"
        unfolding vetted_run_def
      proof (intro conjI impI)
        assume "rn_decision (ro_run last) \<in> {None, Some []}"
        with decided show "rn_status (ro_run last) \<notin> {''passed'', ''failed''}" by simp
      next
        assume a: "settled (ro_run last) \<and> pl_framework (rn_pipeline (ro_run last)) \<noteq> ''dotnet''"
        then have fw: "pl_framework ?pl \<noteq> ''dotnet''" by (simp add: last(2) row(3))
        have "ge_decision (evaluate_ci_gates ?pl ts (sv_gates sv) (build_ci_gate_definitions ?pl (sv_gates sv))) \<noteq> ''rejected''"
          using a prepared_gates(1)[OF prepared] by (simp add: last(2) settled_def)
        then show "gated_steps_passed (ro_run last)"
          using accepted_steps_passed[of ?pl "pl_fail_fast ?pl" ts "sv_gates sv"] prepared_gates(2)[OF prepared fw] ts(2) Inr policy
          by (simp add: gated_steps_passed_def last(2))
      qed
      then show ?thesis using result by blast
    qed
  qed
qed

lemma run_commit_vetted:
  assumes "run_commit sv cf state workflow project commit (store, w) = (res, store', w')"
    and "\<forall>u. fst (sv_fresh sv u) \<notin> row_id ` set store" and "gp_build (sv_gates sv)" "gp_test (sv_gates sv)" and "vetted store"
  shows "vetted store'"
proof -
  define rv where "rv = \<lparr>rv_commit = commit, rv_branch = get state ''git_workflow_branch'',
    rv_workflow_branch = get state ''git_workflow_branch'', rv_repository = Some project\<rparr>"
  show ?thesis
  proof (cases "el_eligible (commit_eligibility sv store workflow commit)")
    case True
    then show ?thesis using assms(1,5) by (simp add: run_commit_def Let_def)
  next
    case False
    obtain pres st pw where pr: "prepared_run sv workflow project rv (store, w) = (pres, st, pw)"
      by (cases "prepared_run sv workflow project rv (store, w)") auto
    have "vetted st"
    proof (cases "prepare_run sv w project rv")
      case (Inl e)
      then show ?thesis using pr assms(5) by (simp add: prepared_run_def)
    next
      case (Inr pv)
      have "start_run sv workflow project pv None (store, w) = (pres, st, pw)"
        using pr by (simp add: prepared_run_def Inr ci_run_def given_finished_def)
      from start_run_vetted[OF this Inr _ assms(3,4)] assms(2,5) show ?thesis by auto
    qed
    moreover have "store' = st"
      using assms(1) False pr unfolding run_commit_def Let_def rv_def[symmetric] by (auto split: sum.splits)
    ultimately show ?thesis by simp
  qed
qed

lemma run_ci_pipeline_cases:
  assumes "run_ci_pipeline (Some sv) cf state sw = (res, sw')"
  obtains "sw' = sw" and "\<And>updates. res = Inr updates \<Longrightarrow> get updates ''ci_state'' \<noteq> PStr ''passed'' \<and> get updates ''ci_repair_state'' = PNone"
  | workflow project commit where
      "ci_identity state = Inr (project, commit)" "git_workflow state = Inr workflow"
      "run_commit sv cf state workflow project commit sw = (res, sw')"
proof -
  have unpassed: "get (ci_failed ''failed'' t f m) ''ci_state'' \<noteq> PStr ''passed''
      \<and> get (ci_failed ''failed'' t f m) ''ci_repair_state'' = PNone" for t f m by (simp add: ci_failed_def get_def)
  show thesis
  proof (cases "ci_identity state")
    case (Inl e)
    then have "sw' = sw" "res = Inl e" using assms by (simp_all add: run_ci_pipeline_def)
    then show thesis using that(1) by simp
  next
    case (Inr i)
    obtain project commit where i: "i = (project, commit)" by (cases i)
    show thesis
    proof (cases "project = [] \<or> \<not> truthy commit")
      case True
      then have "sw' = sw" "res = Inr (ci_failed ''failed'' ''ci_failed'' ''ci_commit_missing'' ''CI requires a durable Git commit.'')"
        using assms Inr i by (simp_all add: run_ci_pipeline_def)
      then show thesis using that(1) unpassed by blast
    next
      case False
      show thesis
      proof (cases "git_workflow state")
        case (Inl e)
        then have "sw' = sw" "res = Inl e" using assms Inr i False by (simp_all add: run_ci_pipeline_def)
        then show thesis using that(1) by simp
      next
        case workflow: (Inr workflow)
        then show thesis using assms Inr i False that(2)[of project commit workflow] by (simp add: run_ci_pipeline_def)
      qed
    qed
  qed
qed

lemma run_commit_cases:
  assumes "run_commit sv cf state workflow project c sw = (res, sw')"
  obtains (eligible) e where "e = commit_eligibility sv (fst sw) workflow c" "el_eligible e" "sw' = sw"
      "res = already_eligible cf state e"
  | (raised) failure message where "res = Inr (ci_failed ''infrastructure_failed'' ''infrastructure_failed'' failure message)"
  | (rejected) r e where "res = after_rejection cf state r e"
  | (accepted) r e where "e = commit_eligibility sv (fst sw') workflow c" "res = Inr (after_acceptance state r e)"
proof -
  define rv where "rv = \<lparr>rv_commit = c, rv_branch = get state ''git_workflow_branch'',
    rv_workflow_branch = get state ''git_workflow_branch'', rv_repository = Some project\<rparr>"
  obtain pres sw1 where pr: "prepared_run sv workflow project rv sw = (pres, sw1)" by (cases "prepared_run sv workflow project rv sw")
  let ?e0 = "commit_eligibility sv (fst sw) workflow c"
  show thesis
  proof (cases "el_eligible ?e0")
    case True
    then have "sw' = sw" "res = already_eligible cf state ?e0"
      using assms[unfolded run_commit_def Let_def if_P[OF True], symmetric] by (simp_all only: prod.inject)
    then show thesis using that(1) True by blast
  next
    case False
    note run = assms[unfolded run_commit_def Let_def rv_def[symmetric] pr if_not_P[OF False]]
    show thesis
    proof (cases pres)
      case (Inl e)
      then show thesis using run that(2) by auto
    next
      case (Inr r)
      then show thesis using run that(3,4) by (cases "rn_decision r = Some ''rejected''") auto
    qed
  qed
qed

lemma already_eligible_fields:
  assumes "already_eligible cf state e = Inr updates"
  shows "get updates ''ci_state'' = PStr ''passed''" "get updates ''ci_repair_state'' = repaired_state state"
  using assms by (auto simp: already_eligible_def bind_eq_Inr_iff Let_def get_def)

lemma rejected_run_fields:
  "get (rejected_run state r repair e @ rest) ''ci_state'' = PStr ''failed''"
  "get (rejected_run state r repair e @ rest) ''ci_promotion_eligible'' = PBool False"
  "get (rejected_run state r repair e @ rest) ''ci_repair_state'' = get rest ''ci_repair_state''"
  "get (rejected_run state r repair e @ rest) ''ci_repair_attempts'' = get rest ''ci_repair_attempts''"
  by (simp_all add: rejected_run_def)

lemma failed_as_state: "get (failed_as s t f m) ''ci_repair_state'' = PStr s"
  by (simp add: failed_as_def)

lemma repair_requested_fields:
  "repair_requested state n r repair = Inr ups \<Longrightarrow> get ups ''ci_repair_attempts'' = PInt (n + 1)"
  by (auto simp: repair_requested_def bind_eq_Inr_iff)

lemma after_rejection_cases:
  assumes "after_rejection cf state r e = Inr updates"
  obtains (final) repair rest s where "updates = rejected_run state r repair e @ rest" "get rest ''ci_repair_state'' = PStr s"
      "s \<in> {''not_repairable'', ''exhausted''}"
  | (again) repair n ups where "updates = rejected_run state r repair e @ ups" "repair_requested state n r repair = Inr ups"
      "py_int (getd state ''ci_repair_attempts'' (PInt 0)) = Inr n" "n < cf_max_attempts cf" "cf_repair_enabled cf"
proof -
  define repair where "repair = (case rn_repairability r of Some x \<Rightarrow> x | None \<Rightarrow> classify_ci_failure_for_repair r)"
  note out = assms[unfolded after_rejection_def repair_def[symmetric] Let_def]
  show thesis
  proof (cases "rp_category repair = ''infrastructure'' \<or> \<not> cf_repair_enabled cf \<or> \<not> rp_repairable repair")
    case True
    then obtain t f m where "updates = rejected_run state r repair e @ failed_as ''not_repairable'' t f m"
      using out by (auto split: if_splits)
    then show thesis using that(1) failed_as_state by blast
  next
    case False
    then obtain n where n: "py_int (getd state ''ci_repair_attempts'' (PInt 0)) = Inr n"
      using out by (auto simp: bind_eq_Inr_iff)
    show thesis
    proof (cases "n < cf_max_attempts cf")
      case True
      then obtain ups where "repair_requested state n r repair = Inr ups" "updates = rejected_run state r repair e @ ups"
        using out False n by (auto simp: bind_eq_Inr_iff)
      then show thesis using that(2) n True False by blast
    next
      case exhausted: False
      then obtain l where "updates = rejected_run state r repair e
          @ (''ci_repair_lineage'', l) # failed_as ''exhausted'' ''ci_failed'' (PStr ''ci_repair_exhausted'') (PStr ''CI repair attempts were exhausted.'')"
        using out False n by (auto simp: bind_eq_Inr_iff)
      then show thesis by (rule that(1)[of _ _ "''exhausted''"]) (simp_all add: failed_as_state)
    qed
  qed
qed

lemma after_rejection_fields:
  assumes "after_rejection cf state r e = Inr updates"
  shows "get updates ''ci_state'' = PStr ''failed''" "get updates ''ci_promotion_eligible'' = PBool False"
    "get updates ''ci_repair_state'' = PStr ''pending'' \<Longrightarrow>
     \<exists>n. py_int (getd state ''ci_repair_attempts'' (PInt 0)) = Inr n \<and> n < cf_max_attempts cf
       \<and> get updates ''ci_repair_attempts'' = PInt (n + 1) \<and> cf_repair_enabled cf"
  using assms by (cases rule: after_rejection_cases; auto simp: rejected_run_fields repair_requested_fields)+

lemma not_pending: "get state ''ci_repair_state'' \<noteq> PStr ''pending'' \<Longrightarrow> repaired_state state \<noteq> PStr ''pending''"
  by (auto simp: repaired_state_def getd_def get_def split: option.splits)

section \<open>Promotion\<close>

lemma find_holds: "find P xs = Some x \<Longrightarrow> P x"
  by (induction xs) (auto split: if_splits)

lemma set_latest_first [simp]: "set (latest_first store) = set store"
proof -
  have "set (insert_row r xs) = insert r (set xs)" for r xs by (induction xs) auto
  then show ?thesis unfolding latest_first_def by (induction store) auto
qed

text \<open>A commit is eligible only on a row of its workflow that ran on it and was not rejected.\<close>

lemma eligible_row:
  assumes "el_eligible (promotion_eligibility policy store workflow (Some c))" and "pp_required policy"
  shows "\<exists>r \<in> ro_run ` set store. rn_workflow r = workflow \<and> so_commit (rn_source r) = Some c
    \<and> strip (so_mode (rn_source r)) = ''commit'' \<and> settled r"
proof -
  let ?r = "case first_given [Some c] of Some commit \<Rightarrow> latest_completed_run_for_commit store workflow commit | None \<Rightarrow> None"
  obtain t where t: "normalize_commit_id (first_given [Some c]) = Some t"
    using assms by (auto simp: promotion_eligibility_def evaluate_ci_promotion_eligibility_def no_run_def Let_def split: if_splits)
  have given: "first_given [Some c] = Some c" using t by (cases c) (simp_all add: normalize_commit_id_def is_sha_def strip_def strip_by_def)
  obtain r where r: "latest_completed_run_for_commit store workflow c = Some r"
      "fst (promotion_verdict policy (first_given [Some (strip (so_mode (rn_source r)))])
         (normalize_commit_id (first_given [so_commit (rn_source r), rn_validated_commit r])) (Some t) r)"
    using assms t given by (auto simp: promotion_eligibility_def evaluate_ci_promotion_eligibility_def no_run_def Let_def
      split: option.splits if_splits)
  have verdict: "strip (so_mode (rn_source r)) = ''commit''" "first_given [rn_decision r] \<noteq> None" "rn_decision r \<noteq> Some ''rejected''"
    using r(2) by (cases "strip (so_mode (rn_source r))"; auto simp: promotion_verdict_def split: if_splits)+
  have "r \<in> set (map ro_run (latest_first (filter (\<lambda>row. rn_workflow (ro_run row) = workflow
         \<and> rn_status (ro_run row) \<in> {''passed'', ''failed''}) store)))"
    using r(1) unfolding latest_completed_run_for_commit_def by (rule find_in_set)
  then have "r \<in> ro_run ` set store" "rn_workflow r = workflow" by auto
  moreover have "so_commit (rn_source r) = Some c"
    using find_holds[OF r(1)[unfolded latest_completed_run_for_commit_def]] by simp
  moreover have "settled r" using verdict(2,3) by (cases "rn_decision r") (auto simp: settled_def)
  ultimately show ?thesis using verdict(1) by blast
qed

lemma commit_eligible_row:
  assumes "el_eligible (commit_eligibility sv store workflow commit)" and "pp_required (sv_promotion sv)"
  shows "\<exists>c. commit = PStr c \<and> (\<exists>r \<in> ro_run ` set store. rn_workflow r = workflow \<and> so_commit (rn_source r) = Some c
    \<and> settled r)"
proof -
  have unrun: "\<not> el_eligible (evaluate_ci_promotion_eligibility head None (sv_promotion sv))" for head
    by (simp add: evaluate_ci_promotion_eligibility_def no_run_def assms(2) Let_def)
  obtain c where c: "commit = PStr c" using assms(1) unrun by (cases commit) (simp_all add: commit_eligibility_def)
  then have "el_eligible (promotion_eligibility (sv_promotion sv) store workflow (Some c))"
    using assms(1) by (simp add: commit_eligibility_def)
  from eligible_row[OF this assms(2)] show ?thesis unfolding c by (intro exI[of _ c] conjI refl) blast
qed

section \<open>Properties\<close>

text \<open>
  (C0) The rows of the service stay vetted. When the rows were vetted before (as no rows are), the
  build and test gates block (their default) and the identifiers of runs are fresh, then whatever the
  processes, the clock and the project do, and also when the run raises: every row with a decision
  other than a rejection, of a pipeline that is not for dotnet, has each of its build and test
  steps passed; and every row without a decision, as a run that raises leaves one, is neither passed
  nor failed, so it is none a promotion looks at. A restart of the service keeps this.
\<close>

theorem rows_stay_vetted:
  assumes "run_ci_pipeline service cf state (store, w) = (res, store', w')" and "vetted store"
    and "\<forall>sv. service = Some sv \<longrightarrow> gp_build (sv_gates sv) \<and> gp_test (sv_gates sv)
      \<and> (\<forall>u. fst (sv_fresh sv u) \<notin> row_id ` set store)"
  shows "vetted store' \<and> vetted (reconcile_interrupted now store')"
proof -
  have "vetted store'"
  proof (cases service)
    case None
    then show ?thesis using assms(1,2) by (simp add: run_ci_pipeline_def)
  next
    case (Some sv)
    have sv: "gp_build (sv_gates sv)" "gp_test (sv_gates sv)" "\<forall>u. fst (sv_fresh sv u) \<notin> row_id ` set store"
      using assms(3) Some by blast+
    show ?thesis using assms(1)[unfolded Some]
    proof (cases rule: run_ci_pipeline_cases)
      case 1
      then show ?thesis using assms(2) by simp
    next
      case (2 workflow project commit)
      show ?thesis by (rule run_commit_vetted[OF 2(3) sv(3,1,2) assms(2)])
    qed
  qed
  then show ?thesis using reconcile_vetted by blast
qed

text \<open>
  (C0) Where CI is required for a promotion and the build and test gates block (the defaults of the
  settings), with rows that were vetted before and fresh identifiers of runs: when the node reports
  a commit as passed, the rows hold a run of this workflow on exactly that commit with a decision
  that is not a rejection and, unless it is a dotnet pipeline, all its build and test steps
  passed. (Without CI required the node reports any commit as passed.)
\<close>

theorem passed_commit_was_tested:
  assumes "run_ci_pipeline (Some sv) cf state (store, w) = (Inr updates, store', w')"
    and "get updates ''ci_state'' = PStr ''passed''" and "vetted store" and "pp_required (sv_promotion sv)"
    and "gp_build (sv_gates sv)" "gp_test (sv_gates sv)" and "\<forall>u. fst (sv_fresh sv u) \<notin> row_id ` set store"
  shows "\<exists>workflow project c. git_workflow state = Inr workflow \<and> ci_identity state = Inr (project, PStr c)
    \<and> (\<exists>r \<in> ro_run ` set store'. rn_workflow r = workflow \<and> so_commit (rn_source r) = Some c \<and> settled r
      \<and> (pl_framework (rn_pipeline r) \<noteq> ''dotnet'' \<longrightarrow> gated_steps_passed r))"
  using assms(1)
proof (cases rule: run_ci_pipeline_cases)
  case 1
  then show ?thesis using assms(2) by simp
next
  case (2 workflow project commit)
  have vetted: "vetted store'" by (rule run_commit_vetted[OF 2(3) assms(7,5,6,3)])
  have "el_eligible (commit_eligibility sv store' workflow commit)"
    using 2(3)
  proof (cases rule: run_commit_cases)
    case (eligible e)
    then show ?thesis by simp
  next
    case (raised failure message)
    then show ?thesis using assms(2) by (simp add: ci_failed_def get_def)
  next
    case (rejected r e)
    then show ?thesis using after_rejection_fields(1)[of cf state r e updates] assms(2) by simp
  next
    case (accepted r e)
    then show ?thesis using assms(2) by (simp add: after_acceptance_def get_def split: if_splits)
  qed
  then obtain c r where r: "commit = PStr c" "r \<in> ro_run ` set store'" "rn_workflow r = workflow" "so_commit (rn_source r) = Some c"
      "settled r"
    using commit_eligible_row[OF _ assms(4)] by blast
  have "pl_framework (rn_pipeline r) \<noteq> ''dotnet'' \<longrightarrow> gated_steps_passed r"
    using vetted r(2,5) by (auto simp: vetted_def vetted_run_def)
  then show ?thesis using 2(1,2) r by blast
qed

text \<open>
  (C0) A repair of a failed run is asked for at most as often as it is configured: when the node asks for
  one in a state that was not already marked pending, the attempts so far are below the limit, the new one
  is counted, repairs are enabled, and the commit is written as not promotable.
\<close>

theorem ci_repair_attempts_bounded:
  assumes "run_ci_pipeline service cf state (store, w) = (Inr updates, store', w')"
    and "get updates ''ci_repair_state'' = PStr ''pending''" and "get state ''ci_repair_state'' \<noteq> PStr ''pending''"
  shows "\<exists>n. py_int (getd state ''ci_repair_attempts'' (PInt 0)) = Inr n \<and> n < cf_max_attempts cf
    \<and> get updates ''ci_repair_attempts'' = PInt (n + 1) \<and> cf_repair_enabled cf
    \<and> get updates ''ci_promotion_eligible'' = PBool False"
proof (cases service)
  case None
  then show ?thesis using assms by (auto simp: run_ci_pipeline_def ci_failed_def)
next
  case (Some sv)
  show ?thesis using assms(1)[unfolded Some]
  proof (cases rule: run_ci_pipeline_cases)
    case 1
    then show ?thesis using assms(2) by simp
  next
    case (2 workflow project commit)
    show ?thesis using 2(3)
    proof (cases rule: run_commit_cases)
      case (eligible e)
      then show ?thesis using already_eligible_fields(2)[of cf state e updates] not_pending[OF assms(3)] assms(2) by simp
    next
      case (raised failure message)
      then show ?thesis using assms(2) by (simp add: ci_failed_def get_def)
    next
      case (rejected r e)
      then show ?thesis using after_rejection_fields[of cf state r e updates] assms(2) by auto
    next
      case (accepted r e)
      then show ?thesis using not_pending[OF assms(3)] assms(2) by (simp add: after_acceptance_def get_def)
    qed
  qed
qed

text \<open>
  (C0) A \<open>git status\<close> that fails or does not return in time reads as a clean working tree: the run is
  bound to the commit of HEAD, whatever has changed since.
\<close>

theorem unread_status_is_clean:
  assumes "co_exists co ''.git''" and "git_output co [''rev-parse'', ''HEAD''] = c" and "c \<noteq> []"
    and "co_git co [''status'', ''--porcelain''] = None"
  shows "\<exists>source. source_revision co PNone branch (opt_str workflow_branch) repository = Inr source
    \<and> so_mode source = ''commit'' \<and> so_commit source = Some c \<and> so_clean source = Some True"
proof -
  have "porcelain [] = [(''staged'', PList []), (''modified'', PList []), (''deleted'', PList []), (''untracked'', PList [])]"
    by (simp add: porcelain_def splitlines_def)
  moreover have "classify_dirty_paths below (porcelain []) [] = Inr \<lparr>dp_allowed = [], dp_ignored = [], dp_unrelated = []\<rparr>" for below
    by code_simp
  moreover have "git_output co [''status'', ''--porcelain''] = []" by (simp add: git_output_def assms(4))
  moreover have "optional_field (opt_str workflow_branch) = Inr workflow_branch" by (cases workflow_branch) (simp_all)
  ultimately show ?thesis using assms(1-3) by (simp add: source_revision_def nonempty_text_def Let_def)
qed

theorem unread_status_is_clean_witness:
  "\<exists>source. source_revision \<lparr>co_file = (\<lambda>p. False), co_exists = (\<lambda>p. p = ''.git''), co_glob = (\<lambda>p. False),
       co_package = Inl TypeError, co_git = (\<lambda>args. if args = [''rev-parse'', ''HEAD''] then Some (0, ''c0ffee'') else None),
       co_below = (\<lambda>d. None)\<rparr> PNone PNone PNone None = Inr source \<and> so_clean source = Some True"
  using unread_status_is_clean[of "\<lparr>co_file = (\<lambda>p. False), co_exists = (\<lambda>p. p = ''.git''), co_glob = (\<lambda>p. False),
       co_package = Inl TypeError, co_git = (\<lambda>args. if args = [''rev-parse'', ''HEAD''] then Some (0, ''c0ffee'') else None),
       co_below = (\<lambda>d. None)\<rparr>" "''c0ffee''" PNone None None]
  by (simp add: git_output_def strip_def strip_by_def is_space_def) blast

text \<open>
  What is kept of the output of a step has at most 1027 characters, however long the output and
  whatever the policy allows; from a limit of 1014 on, no output is ever marked as truncated.
\<close>

theorem kept_output_is_short:
  "length (fst (summarize_output policy out)) \<le> 1027
   \<and> (pol_output_max policy \<ge> 1014 \<longrightarrow> \<not> snd (summarize_output policy out))"
proof -
  have "length (sanitize_text out) \<le> 1014" by (simp add: sanitize_text_def MAX_STRING_def Let_def)
  then show ?thesis by (auto simp: summarize_output_def Let_def)
qed

theorem kept_output_is_short_witness:
  "\<not> snd (summarize_output \<lparr>pol_version = [], pol_pipeline_timeout = 600, pol_step_timeout = 180, pol_output_max = 20000\<rparr>
     (replicate 5000 (CHR ''x'')))"
  using kept_output_is_short[of "\<lparr>pol_version = [], pol_pipeline_timeout = 600, pol_step_timeout = 180, pol_output_max = 20000\<rparr>"]
  by simp

end
