(* ===== verification/CIDotnet.thy ===== *)
theory CIDotnet
  imports CIPromotion
begin

text \<open>
  The default pipeline for dotnet, whose first two steps are both build steps: what a run of it leaves
  when the first one fails, what its gates make of that, and that the node of the workflow reports
  the commit as passed, for every service, project and state.
\<close>

definition restore_step :: CIPipelineStep where
  "restore_step = required_step ''restore'' ''Restore'' ''build'' [''dotnet'', ''restore'']"

definition dotnet_build_step :: CIPipelineStep where
  "dotnet_build_step = required_step ''build'' ''Build'' ''build'' [''dotnet'', ''build'', ''--no-restore'']"

definition dotnet_test_step :: CIPipelineStep where
  "dotnet_test_step = required_step ''test'' ''Test'' ''test'' [''dotnet'', ''test'', ''--no-build'']"

lemma dotnet_steps_eq: "dotnet_steps = [restore_step, dotnet_build_step, dotnet_test_step]"
  by (simp add: dotnet_steps_def restore_step_def dotnet_build_step_def dotnet_test_step_def)

lemma dotnet_fields [simp]:
  "st_id restore_step = ''restore''" "st_id dotnet_build_step = ''build''" "st_id dotnet_test_step = ''test''"
  "st_type restore_step = ''build''" "st_type dotnet_build_step = ''build''" "st_type dotnet_test_step = ''test''"
  "st_required restore_step" "st_command restore_step = [''dotnet'', ''restore'']" "st_directory restore_step = None"
  by (simp_all add: restore_step_def dotnet_build_step_def dotnet_test_step_def required_step_def)

definition dotnet_pipeline :: "CIPipelinePolicy \<Rightarrow> CIPipelineDefinition" where
  "dotnet_pipeline policy =
    \<lparr>pl_id = ''dotnet-default'', pl_name = ''Dotnet default CI'', pl_version = pol_version policy, pl_framework = ''dotnet'',
     pl_steps = dotnet_steps, pl_fail_fast = True, pl_timeout = pol_pipeline_timeout policy\<rparr>"

lemma default_dotnet_pipeline: "default_pipeline policy co ''dotnet'' = Inr (dotnet_pipeline policy)"
proof -
  have "mapm check_step dotnet_steps = Inr [(), (), ()]" by code_simp
  moreover have "title_of ''dotnet'' @ '' default CI'' = ''Dotnet default CI''" by code_simp
  ultimately show ?thesis by (simp add: default_pipeline_def steps_for_def dotnet_pipeline_def)
qed

section \<open>The run\<close>

text \<open>A restore that ends with another code than 0 is a failed step.\<close>

lemma restore_fails:
  assumes "mc_resolve mc dir = dir"
    and "\<forall>u limit. \<exists>code out err. code \<noteq> 0 \<and> fst (mc_process mc u [''dotnet'', ''restore''] dir limit) = Completed code out err"
  shows "\<exists>t store' w'. execute_step policy mc run_id dir restore_step remaining (store, w) = (Inr t, store', w')
    \<and> sr_status t = ''failed''"
proof -
  have "workdir_of mc dir restore_step = Inr ([''dotnet'', ''restore''], dir)"
  proof -
    have "validate_ci_command [''dotnet'', ''restore''] = Inr [''dotnet'', ''restore'']" by code_simp
    then show ?thesis using assms(1) by (simp add: workdir_of_def validate_ci_relative_path_def is_below_def Let_def)
  qed
  moreover have iso: "isolated_command mc w [''dotnet'', ''restore''] = ([''dotnet'', ''restore''], w)"
  proof -
    have "\<not> is_pytest_command [''dotnet'', ''restore'']" by code_simp
    then show ?thesis by (simp add: isolated_command_def)
  qed
  ultimately show ?thesis
    using assms(2)[rule_format, of w "min (case st_timeout restore_step of Some t \<Rightarrow> if t = 0 then pol_step_timeout policy else t
        | None \<Rightarrow> pol_step_timeout policy) (max (1/10) remaining)"]
    by (auto simp: execute_step_def Let_def split: prod.splits)
qed

lemma dotnet_run_steps:
  assumes "run_id \<notin> row_id ` set store" and "row_id row = run_id"
    and "rn_steps (ro_run row) = map (\<lambda>s. step_run s ''pending'') dotnet_steps"
    and "mc_resolve mc dir = dir" and time: "\<forall>u. fst (mc_elapsed mc u) < pol_pipeline_timeout policy"
    and "\<forall>u limit. \<exists>code out err. code \<noteq> 0 \<and> fst (mc_process mc u [''dotnet'', ''restore''] dir limit) = Completed code out err"
  shows "\<exists>pg ts w'. run_steps policy mc run_id dir (dotnet_pipeline policy) dotnet_steps no_progress (store @ [row], w)
      = (Inr pg, store @ [with_steps row ts], w')
    \<and> pg_status pg = ''failed''
    \<and> map (\<lambda>t. (sr_id t, sr_type t, sr_status t)) ts
        = [(''restore'', ''build'', ''failed''), (''build'', ''build'', ''skipped''), (''test'', ''test'', ''skipped'')]"
proof -
  let ?pending = "\<lambda>s. step_run s ''pending''"
  have start: "rn_steps (ro_run row) = [] @ ?pending restore_step # [?pending dotnet_build_step, ?pending dotnet_test_step]"
    by (simp add: assms(3) dotnet_steps_eq)
  have clock: "\<not> pol_pipeline_timeout policy \<le> fst (mc_elapsed mc u)" for u using time by (simp add: not_le)
  obtain e1 w1 where w1: "mc_elapsed mc w = (e1, w1)" by (cases "mc_elapsed mc w")
  obtain t st w2 where ex: "execute_step policy mc run_id dir restore_step (pol_pipeline_timeout policy - e1) (store @ [row], w1) = (Inr t, st, w2)"
      and t: "sr_status t = ''failed''"
    using restore_fails[OF assms(4,6)] by blast
  have st: "st = store @ [with_steps row (t # [?pending dotnet_build_step, ?pending dotnet_test_step])]"
      and ids: "sr_id t = ''restore''" "sr_type t = ''build''"
    using execute_step_row[OF ex assms(1,2) start] by auto
  define pg where "pg = after_step True restore_step t no_progress"
  have pg: "pg_skip pg" "pg_status pg = ''failed''"
    using t by (simp_all add: pg_def after_step_def no_progress_def)
  obtain e2 w3 where w3: "mc_elapsed mc w2 = (e2, w3)" by (cases "mc_elapsed mc w2")
  obtain e3 w4 where w4: "mc_elapsed mc w3 = (e3, w4)" by (cases "mc_elapsed mc w3")
  have late: "\<not> pol_pipeline_timeout policy \<le> e1" "\<not> pol_pipeline_timeout policy \<le> e2" "\<not> pol_pipeline_timeout policy \<le> e3"
    using clock[of w] clock[of w2] clock[of w3] w1 w3 w4 by simp_all
  let ?b = "skipped_step dotnet_build_step pg" let ?t = "skipped_step dotnet_test_step pg"
  have up1: "upsert_step run_id ?b (store @ [with_steps row [t, ?pending dotnet_build_step, ?pending dotnet_test_step]])
      = store @ [with_steps row [t, ?b, ?pending dotnet_test_step]]"
    using assms(1,2) ids put_step_here[of "?pending dotnet_build_step" ?b "[t]" "[?pending dotnet_test_step]"]
    by (simp add: upsert_step_last)
  have up2: "upsert_step run_id ?t (store @ [with_steps row [t, ?b, ?pending dotnet_test_step]]) = store @ [with_steps row [t, ?b, ?t]]"
    using assms(1,2) ids put_step_here[of "?pending dotnet_test_step" ?t "[t, ?b]" "[]"]
    by (simp add: upsert_step_last)
  have pl: "pl_timeout (dotnet_pipeline policy) = pol_pipeline_timeout policy" "pl_fail_fast (dotnet_pipeline policy)"
    by (simp_all add: dotnet_pipeline_def)
  have "run_steps policy mc run_id dir (dotnet_pipeline policy) dotnet_steps no_progress (store @ [row], w)
      = (Inr pg, store @ [with_steps row [t, ?b, ?t]], w4)"
    using late pg(1) by (simp add: dotnet_steps_eq w1 w3 w4 pl ex st up1 up2 pg_def[symmetric] no_progress_def[THEN arg_cong[of _ _ pg_skip]])
  then show ?thesis using pg(2) ids t by (intro exI[of _ pg] exI[of _ "[t, ?b, ?t]"] exI[of _ w4]) simp
qed

text \<open>A skipped step is counted before a failed one, so no gate fails.\<close>

lemma dotnet_gates:
  assumes "map (\<lambda>t. (sr_id t, sr_type t, sr_status t)) ts
    = [(''restore'', ''build'', ''failed''), (''build'', ''build'', ''skipped''), (''test'', ''test'', ''skipped'')]"
  shows "ge_decision (evaluate_ci_gates (dotnet_pipeline policy) ts gp (build_ci_gate_definitions (dotnet_pipeline policy) gp)) = ''accepted''"
proof -
  obtain a b c where ts: "ts = [a, b, c]" "sr_type a = ''build''" "sr_type b = ''build''" "sr_type c = ''test''"
      "sr_status a = ''failed''" "sr_status b = ''skipped''" "sr_status c = ''skipped''"
    using assms by auto
  have "gr_status (evaluate_gate ts (gate_for (dotnet_pipeline policy) gp ''build'' x)) = ''skipped''"
    "gr_status (evaluate_gate ts (gate_for (dotnet_pipeline policy) gp ''test'' x)) = ''skipped''"
    "gr_status (evaluate_gate ts (gate_for (dotnet_pipeline policy) gp ''lint'' x)) = ''not_applicable''"
    "gr_status (evaluate_gate ts (gate_for (dotnet_pipeline policy) gp ''package'' x)) = ''not_applicable''" for x
    using ts by (simp_all add: evaluate_gate_def gate_for_def Let_def)
  then show ?thesis by (simp add: evaluate_ci_gates_def build_ci_gate_definitions_def Let_def)
qed

lemma dotnet_start_run:
  assumes fresh: "\<forall>u. fst (sv_fresh sv u) \<notin> row_id ` set store"
    and pv: "pv_pipeline pv = dotnet_pipeline (sv_policy sv)" "pv_gates pv = build_ci_gate_definitions (dotnet_pipeline (sv_policy sv)) (sv_gates sv)"
      "so_root (pv_source pv) = Some repository"
    and dirs: "\<forall>u. execution_dir sv u project (Some repository) = Inr (dir, co, repository)"
    and machine: "mc_resolve (sv_machine sv) dir = dir"
      "\<forall>u. fst (mc_elapsed (sv_machine sv) u) < pol_pipeline_timeout (sv_policy sv)"
      "\<forall>u limit. \<exists>code out err. code \<noteq> 0
        \<and> fst (mc_process (sv_machine sv) u [''dotnet'', ''restore''] dir limit) = Completed code out err"
  shows "\<exists>row w'. start_run sv workflow project pv None (store, w) = (Inr (ro_run row), store @ [row], w')
    \<and> rn_workflow (ro_run row) = workflow \<and> rn_source (ro_run row) = pv_source pv \<and> rn_status (ro_run row) = ''failed''
    \<and> rn_decision (ro_run row) = Some ''accepted''
    \<and> rn_validated_commit (ro_run row) = validated_commit (pv_source pv)
    \<and> map (\<lambda>t. (sr_id t, sr_status t)) (rn_steps (ro_run row))
        = [(''restore'', ''failed''), (''build'', ''skipped''), (''test'', ''skipped'')]"
proof -
  obtain run_id w1 where run_id: "sv_fresh sv w = (run_id, w1)" by (cases "sv_fresh sv w")
  obtain now w2 where now: "mc_now (sv_machine sv) w1 = (now, w2)" by (cases "mc_now (sv_machine sv) w1")
  let ?new = "new_run (sv_gates sv) run_id workflow project pv"
  have new: "run_id \<notin> row_id ` set store" using spec[OF fresh, of w] run_id by simp
  have steps: "rn_steps ?new = map (\<lambda>s. step_run s ''pending'') dotnet_steps" by (simp add: pv(1) dotnet_pipeline_def)
  have "fold put_step (rn_steps ?new) [] = rn_steps ?new"
    using fold_put_step[of "[]" "rn_steps ?new"] unfolding steps by (simp add: dotnet_steps_eq)
  define row where "row = \<lparr>ro_run = ?new, ro_created = now, ro_completed = None\<rparr>"
  have row: "row_id row = run_id" "rn_steps (ro_run row) = map (\<lambda>s. step_run s ''pending'') dotnet_steps" "rn_status (ro_run row) = ''running''"
      "rn_workflow (ro_run row) = workflow" "rn_source (ro_run row) = pv_source pv"
    using steps by (simp_all add: row_def row_id_def)
  have created: "create_run now ?new store = store @ [row]"
    using get_run_None_iff[of store run_id] new \<open>fold put_step (rn_steps ?new) [] = rn_steps ?new\<close>
    by (simp add: create_run_def row_def)
  obtain pg ts lw where loop: "run_steps (sv_policy sv) (sv_machine sv) run_id dir (dotnet_pipeline (sv_policy sv)) dotnet_steps no_progress
        (store @ [row], w2) = (Inr pg, store @ [with_steps row ts], lw)"
      and pg: "pg_status pg = ''failed''"
      and ts: "map (\<lambda>t. (sr_id t, sr_type t, sr_status t)) ts
        = [(''restore'', ''build'', ''failed''), (''build'', ''build'', ''skipped''), (''test'', ''test'', ''skipped'')]"
    using dotnet_run_steps[OF new row(1,2) machine, of w2] by (elim exE conjE) (rule that)
  obtain end_time lw2 where end_time: "mc_now (sv_machine sv) lw = (end_time, lw2)" by (cases "mc_now (sv_machine sv) lw")
  define last where "last = (with_steps row ts)\<lparr>ro_run := finished_run (sv_gates sv) pv pg (ro_run (with_steps row ts)),
    ro_completed := Some end_time\<rparr>"
  have last: "row_id last = run_id" "ro_run last = finished_run (sv_gates sv) pv pg (ro_run (with_steps row ts))"
    using row(1) by (simp_all add: last_def row_id_def with_steps_def)
  have "update_run run_id end_time (finished_run (sv_gates sv) pv pg) (store @ [with_steps row ts]) = store @ [last]"
    unfolding update_run_def using change_row_last[OF new] row(1) by (simp add: last_def final_row_def)
  then have finish: "finish_run sv pv run_id pg (store @ [with_steps row ts], lw) = (Inr (ro_run last), store @ [last], lw2)"
    using get_run_last[OF new last(1)] by (simp add: finish_run_def end_time)
  have "pl_steps (dotnet_pipeline (sv_policy sv)) = dotnet_steps" by (simp add: dotnet_pipeline_def)
  then have result: "start_run sv workflow project pv None (store, w) = (Inr (ro_run last), store @ [last], lw2)"
    by (simp add: start_run_def run_id now created get_run_last[OF new row(1)] row(3) pv dirs loop finish)
  have decision: "rn_decision (ro_run last) = Some ''accepted''"
    using dotnet_gates[OF ts] by (simp add: last(2) pv)
  then have "rn_status (ro_run last) = ''failed''"
    using pg by (simp add: last(2) finished_run_def evaluated_run_def gate_progress_def Let_def)
  moreover have "map (\<lambda>t. (sr_id t, sr_status t)) ts = [(''restore'', ''failed''), (''build'', ''skipped''), (''test'', ''skipped'')]"
    using arg_cong[OF ts, of "map (\<lambda>(i, _, status). (i, status))"] by (simp add: comp_def)
  moreover have "rn_workflow (ro_run last) = workflow" "rn_source (ro_run last) = pv_source pv"
    using row(4,5) by (simp_all add: last(2) with_steps_def)
  moreover have "rn_validated_commit (ro_run last) = validated_commit (pv_source pv)"
    by (simp add: last(2) finished_run_def evaluated_run_def Let_def)
  moreover have "rn_steps (ro_run last) = ts" by (simp add: last(2))
  ultimately show ?thesis using result decision by (intro exI[of _ last] exI[of _ lw2]) simp
qed

section \<open>The node\<close>

lemma find_unique:
  assumes "x \<in> set xs" and "P x" and "\<forall>y \<in> set xs. P y \<longrightarrow> y = x"
  shows "find P xs = Some x"
proof (cases "find P xs")
  case None
  then show ?thesis using assms(1,2) by (auto simp: find_None_iff)
next
  case (Some y)
  then have "y = x" using assms(3) find_in_set[OF Some] find_holds[OF Some] by blast
  then show ?thesis using Some by simp
qed

lemma is_sha_text:
  assumes "is_sha c"
  shows "strip c = c" and "c \<noteq> []" and "truthy (PStr c)"
proof -
  have "\<not> is_space d" if "is_hex d" for d
  proof -
    have "list_all (\<lambda>d. \<not> is_space d) ''abcdefABCDEF''" by code_simp
    then show ?thesis using that by (auto simp: is_hex_def is_digit_def is_space_def Let_def list_all_iff)
  qed
  then show "strip c = c" using assms by (intro strip_no_space) (auto simp: is_sha_def list_all_iff)
  show "c \<noteq> []" using assms by (auto simp: is_sha_def)
  then show "truthy (PStr c)" by (cases c) simp_all
qed

text \<open>What a promotion makes of the only row of a commit, and of no row.\<close>

lemma only_row_eligible:
  assumes "is_sha c"
    and "\<forall>row \<in> set store. rn_workflow (ro_run row) = workflow \<longrightarrow> so_commit (rn_source (ro_run row)) \<noteq> Some c"
    and "rn_workflow (ro_run row) = workflow" "so_commit (rn_source (ro_run row)) = Some c" "so_mode (rn_source (ro_run row)) = ''commit''"
      "rn_status (ro_run row) = ''failed''" "rn_decision (ro_run row) = Some ''accepted''"
  shows "el_eligible (promotion_eligibility policy (store @ [row]) workflow (Some c))"
proof -
  let ?mine = "\<lambda>row. rn_workflow (ro_run row) = workflow \<and> rn_status (ro_run row) \<in> {''passed'', ''failed''}"
  have given: "first_given (Some c # rest) = Some c" for rest using is_sha_text(2)[OF assms(1)] by (cases c) simp_all
  have mode: "strip ''commit'' = ''commit''" by code_simp
  have "find (\<lambda>r. so_commit (rn_source r) = Some c \<and> first_given [rn_decision r] \<noteq> None)
      (map ro_run (latest_first (filter ?mine (store @ [row])))) = Some (ro_run row)"
    using assms(2-) by (intro find_unique) auto
  then have "latest_completed_run_for_commit (store @ [row]) workflow c = Some (ro_run row)"
    by (simp add: latest_completed_run_for_commit_def)
  then show ?thesis
    using assms(1,3-) given is_sha_text[OF assms(1)] mode
    by (simp add: promotion_eligibility_def evaluate_ci_promotion_eligibility_def promotion_verdict_def no_run_def
      normalize_commit_id_def Let_def)
qed

lemma no_row_ineligible:
  assumes "pp_required policy"
    and "\<forall>row \<in> set store. rn_workflow (ro_run row) = workflow \<longrightarrow> so_commit (rn_source (ro_run row)) \<noteq> Some c"
  shows "\<not> el_eligible (promotion_eligibility policy store workflow (Some c))"
  using eligible_row[of policy store workflow c] assms by auto

text \<open>
  (C0) Where the guarantee ends. Take any service that requires CI for a promotion, any project that
  has the default pipeline for dotnet, and any commit of it without a run so far; let no identifier be
  used twice and the time not run out. When \<open>dotnet restore\<close> fails, with whatever code and
  output, the build and the tests are skipped, a skipped step counts for its gate as no failure,
  whatever gates block, and the node reports the commit as passed and promotable, on a row with the
  status failed and nothing built or tested.
\<close>

theorem untested_dotnet_commit_passes:
  assumes "pp_required (sv_promotion sv)" and "is_sha c" and "project \<noteq> []"
    and "ci_identity state = Inr (project, PStr c)" and "git_workflow state = Inr workflow"
    and "optional_field (get state ''git_workflow_branch'') = Inr branch"
    and "\<forall>row \<in> set store. rn_workflow (ro_run row) = workflow \<longrightarrow> so_commit (rn_source (ro_run row)) \<noteq> Some c"
    and "\<forall>u. fst (sv_fresh sv u) \<notin> row_id ` set store"
    and "\<forall>u. \<forall>r \<in> {project, repository}. execution_dir sv u project (Some r) = Inr (dir, co, repository)"
    and "detect_framework co = ''dotnet''"
    and "mc_resolve (sv_machine sv) dir = dir"
    and "\<forall>u. fst (mc_elapsed (sv_machine sv) u) < pol_pipeline_timeout (sv_policy sv)"
    and "\<forall>u limit. \<exists>code out err. code \<noteq> 0
      \<and> fst (mc_process (sv_machine sv) u [''dotnet'', ''restore''] dir limit) = Completed code out err"
  shows "\<exists>updates row w'. run_ci_pipeline (Some sv) cf state (store, w) = (Inr updates, store @ [row], w')
    \<and> get updates ''ci_state'' = PStr ''passed'' \<and> get updates ''ci_promotion_eligible'' = PBool True
    \<and> get updates ''ci_validated_commit'' = PStr c
    \<and> so_commit (rn_source (ro_run row)) = Some c \<and> rn_status (ro_run row) = ''failed''
    \<and> map (\<lambda>t. (sr_id t, sr_status t)) (rn_steps (ro_run row))
        = [(''restore'', ''failed''), (''build'', ''skipped''), (''test'', ''skipped'')]"
proof -
  let ?pl = "dotnet_pipeline (sv_policy sv)" let ?branch = "get state ''git_workflow_branch''"
  define rv where "rv = \<lparr>rv_commit = PStr c, rv_branch = ?branch, rv_workflow_branch = ?branch, rv_repository = Some project\<rparr>"
  have dirs: "\<forall>u. execution_dir sv u project (Some repository) = Inr (dir, co, repository)" using assms(9) by blast
  obtain pv where prepared: "prepare_run sv w project rv = Inr pv" and pv: "pv_pipeline pv = ?pl"
      "pv_gates pv = build_ci_gate_definitions ?pl (sv_gates sv)" "so_root (pv_source pv) = Some repository"
      "so_commit (pv_source pv) = Some c" "so_mode (pv_source pv) = ''commit''"
    using assms(2,6,9,10) is_sha_text(3)[OF assms(2)]
    by (auto simp: prepare_run_def rv_def default_dotnet_pipeline source_revision_def Let_def)
  obtain row w' where run: "start_run sv workflow project pv None (store, w) = (Inr (ro_run row), store @ [row], w')"
      and row: "rn_workflow (ro_run row) = workflow" "rn_source (ro_run row) = pv_source pv" "rn_status (ro_run row) = ''failed''"
        "rn_decision (ro_run row) = Some ''accepted''" "rn_validated_commit (ro_run row) = validated_commit (pv_source pv)"
        "map (\<lambda>t. (sr_id t, sr_status t)) (rn_steps (ro_run row))
          = [(''restore'', ''failed''), (''build'', ''skipped''), (''test'', ''skipped'')]"
    using dotnet_start_run[OF assms(8) pv(1-3) dirs assms(11-13), of workflow w] by (elim exE conjE) (rule that)
  have pre: "\<not> el_eligible (commit_eligibility sv store workflow (PStr c))"
    using no_row_ineligible[OF assms(1,7)] by (simp add: commit_eligibility_def)
  let ?e = "commit_eligibility sv (store @ [row]) workflow (PStr c)"
  have post: "el_eligible ?e"
    using only_row_eligible[OF assms(2,7) row(1)] row(2-4) pv(4,5) by (simp add: commit_eligibility_def)
  have "prepared_run sv workflow project rv (store, w) = (Inr (ro_run row), store @ [row], w')"
    by (simp add: prepared_run_def ci_run_def given_finished_def prepared run)
  then have "run_commit sv cf state workflow project (PStr c) (store, w)
      = (Inr (after_acceptance state (ro_run row) ?e), store @ [row], w')"
    using pre row(4) by (simp add: run_commit_def Let_def rv_def[symmetric])
  then have "run_ci_pipeline (Some sv) cf state (store, w) = (Inr (after_acceptance state (ro_run row) ?e), store @ [row], w')"
    using assms(3-5) is_sha_text(3)[OF assms(2)] by (simp add: run_ci_pipeline_def)
  moreover have "rn_validated_commit (ro_run row) = Some c"
    using row(5) pv(4,5) by (simp add: validated_commit_def)
  moreover have "get (after_acceptance state (ro_run row) ?e) ''ci_state'' = PStr ''passed''"
    "get (after_acceptance state (ro_run row) ?e) ''ci_promotion_eligible'' = PBool True"
    using post by (simp_all add: after_acceptance_def get_def)
  ultimately show ?thesis using row pv(4) by (intro exI conjI) (auto simp: after_acceptance_def get_def)
qed

end
