(* ===== verification/CIExample.thy ===== *)
theory CIExample
  imports CIDotnet
begin

text \<open>
  Projects the properties of the pipeline service hold on: a Python project whose tests pass or
  fail, and a dotnet project whose restore fails.
\<close>

definition quiet_checkout :: "(string \<Rightarrow> bool) \<Rightarrow> (string \<Rightarrow> bool) \<Rightarrow> Checkout" where
  "quiet_checkout files patterns =
    \<lparr>co_file = files, co_exists = files, co_glob = patterns, co_package = Inl (RuntimeError ''missing''),
     co_git = (\<lambda>args. None), co_below = (\<lambda>d. None)\<rparr>"

definition fixed_machine :: "process \<Rightarrow> unit Machine" where
  "fixed_machine p =
    \<lparr>mc_elapsed = (\<lambda>w. (0, w)), mc_process = (\<lambda>w command workdir limit. (p, w)), mc_scratch = (\<lambda>w. (''/tmp/s'', w)),
     mc_now = (\<lambda>w. (''t'', w)), mc_resolve = (\<lambda>p. p)\<rparr>"

definition example_service :: "Checkout \<Rightarrow> process \<Rightarrow> unit Service" where
  "example_service co p =
    \<lparr>sv_workspace = ''/ws'',
     sv_policy = \<lparr>pol_version = ''v'', pol_pipeline_timeout = 600, pol_step_timeout = 180, pol_output_max = 100\<rparr>,
     sv_gates = gate_policy_from (\<lambda>_. None), sv_promotion = promotion_policy_from (\<lambda>_. None),
     sv_machine = fixed_machine p, sv_checkout = (\<lambda>w dir. if dir = ''/ws/demo'' then Some co else None),
     sv_digest = (\<lambda>project source pipeline gates. project), sv_fresh = (\<lambda>w. (''run-1'', w))\<rparr>"

definition python_project :: Checkout where
  "python_project = quiet_checkout (\<lambda>p. p = ''requirements.txt'') (\<lambda>p. False)"

definition dotnet_project :: Checkout where
  "dotnet_project = quiet_checkout (\<lambda>p. False) (\<lambda>p. p = ''*.sln'')"

definition ci_demo_state :: pydict where
  "ci_demo_state = [(''workflow_id'', PStr ''w''), (''created_project_name'', PStr ''demo''),
    (''git_head_commit'', PStr (replicate 40 (CHR ''a'')))]"

definition demo_config :: CIConfig where
  "demo_config = \<lparr>cf_repair_enabled = True, cf_max_attempts = 2\<rparr>"

definition statuses :: "CIStore \<Rightarrow> (string \<times> string) list" where
  "statuses store = concat (map (\<lambda>row. map (\<lambda>t. (sr_id t, sr_status t)) (rn_steps (ro_run row))) store)"

definition observed :: "(exn + pydict) \<times> CIStore \<times> unit \<Rightarrow> (pyval list \<times> (string \<times> string) list) option" where
  "observed out = (case out of
     (Inr u, store, w) \<Rightarrow> Some (map (get u) [''ci_state'', ''ci_status'', ''ci_decision'', ''ci_repair_state'', ''ci_repair_attempts''], statuses store)
   | _ \<Rightarrow> None)"

definition ci_demo_run :: "Checkout \<Rightarrow> process \<Rightarrow> (exn + pydict) \<times> CIStore \<times> unit" where
  "ci_demo_run co p = run_ci_pipeline (Some (example_service co p)) demo_config ci_demo_state ([], ())"

lemma python_run_passes:
  "observed (ci_demo_run python_project (Completed 0 [] []))
    = Some ([PStr ''passed'', PStr ''passed'', PStr ''accepted'', PStr ''not_required'', PNone], [(''test'', ''passed'')])"
  by code_simp

lemma python_run_fails:
  "observed (ci_demo_run python_project (Completed 1 [] []))
    = Some ([PStr ''failed'', PStr ''failed'', PStr ''rejected'', PStr ''pending'', PInt 1], [(''test'', ''failed'')])"
  by code_simp

lemma observed_SomeD:
  assumes "observed out = Some (a # b # c # d # rest, ss)"
  shows "\<exists>u store w. out = (Inr u, store, w) \<and> get u ''ci_state'' = a \<and> get u ''ci_repair_state'' = d"
  using assms by (cases out rule: prod_cases3) (auto simp: observed_def split: sum.splits)

lemma example_policy:
  "gp_build (sv_gates (example_service co p))" "gp_test (sv_gates (example_service co p))"
  "pp_required (sv_promotion (example_service co p))" "fst (sv_fresh (example_service co p) u) \<notin> row_id ` set []" "vetted []"
proof -
  show "gp_build (sv_gates (example_service co p))" by (simp add: example_service_def) code_simp
  show "gp_test (sv_gates (example_service co p))" by (simp add: example_service_def) code_simp
  show "pp_required (sv_promotion (example_service co p))" by (simp add: example_service_def) code_simp
qed (simp_all add: vetted_def)

lemma demo_identity:
  "ci_identity ci_demo_state = Inr (''demo'', PStr (replicate 40 (CHR ''a'')))" "git_workflow ci_demo_state = Inr ''w''"
  by code_simp+

theorem rows_stay_vetted_witness:
  "vetted (fst (snd (ci_demo_run python_project (Completed 1 [] []))))
   \<and> vetted (reconcile_interrupted ''later'' (fst (snd (ci_demo_run python_project (Completed 1 [] [])))))"
proof -
  obtain res store' w' where out: "run_ci_pipeline (Some (example_service python_project (Completed 1 [] []))) demo_config ci_demo_state ([], ())
      = (res, store', w')" by (cases "run_ci_pipeline (Some (example_service python_project (Completed 1 [] []))) demo_config ci_demo_state ([], ())") auto
  have "vetted store' \<and> vetted (reconcile_interrupted ''later'' store')"
    by (rule rows_stay_vetted[OF out]) (use example_policy in auto)
  then show ?thesis by (simp add: ci_demo_run_def out)
qed

theorem passed_commit_was_tested_witness:
  "\<exists>r \<in> ro_run ` set (fst (snd (ci_demo_run python_project (Completed 0 [] [])))). settled r \<and> so_commit (rn_source r) = Some (replicate 40 (CHR ''a''))"
proof -
  obtain u store' w' where out: "run_ci_pipeline (Some (example_service python_project (Completed 0 [] []))) demo_config ci_demo_state ([], ())
      = (Inr u, store', w')" "get u ''ci_state'' = PStr ''passed''"
    using observed_SomeD[OF python_run_passes] unfolding ci_demo_run_def by blast
  have "\<exists>workflow project c. git_workflow ci_demo_state = Inr workflow \<and> ci_identity ci_demo_state = Inr (project, PStr c)
    \<and> (\<exists>r \<in> ro_run ` set store'. rn_workflow r = workflow \<and> so_commit (rn_source r) = Some c \<and> settled r
      \<and> (pl_framework (rn_pipeline r) \<noteq> ''dotnet'' \<longrightarrow> gated_steps_passed r))"
    by (rule passed_commit_was_tested[OF out]) (use example_policy in auto)
  then show ?thesis unfolding demo_identity by (auto simp: ci_demo_run_def out)
qed

theorem ci_repair_attempts_bounded_witness:
  "\<exists>u store' w'. ci_demo_run python_project (Completed 1 [] []) = (Inr u, store', w')
    \<and> (\<exists>n. py_int (getd ci_demo_state ''ci_repair_attempts'' (PInt 0)) = Inr n \<and> n < cf_max_attempts demo_config)"
proof -
  obtain u store' w' where out: "run_ci_pipeline (Some (example_service python_project (Completed 1 [] []))) demo_config ci_demo_state ([], ())
      = (Inr u, store', w')" "get u ''ci_repair_state'' = PStr ''pending''"
    using observed_SomeD[OF python_run_fails] unfolding ci_demo_run_def by blast
  have "get ci_demo_state ''ci_repair_state'' \<noteq> PStr ''pending''" by (simp add: ci_demo_state_def)
  from ci_repair_attempts_bounded[OF out this] show ?thesis using out by (auto simp: ci_demo_run_def)
qed

theorem untested_dotnet_commit_passes_witness:
  "\<exists>updates store' w'. ci_demo_run dotnet_project (Completed 1 [] []) = (Inr updates, store', w')
    \<and> get updates ''ci_state'' = PStr ''passed''
    \<and> statuses store' = [(''restore'', ''failed''), (''build'', ''skipped''), (''test'', ''skipped'')]"
proof -
  let ?sv = "example_service dotnet_project (Completed 1 [] [])"
  have dirs: "execution_dir ?sv () ''demo'' (Some ''demo'') = Inr (''/ws/demo'', dotnet_project, ''demo'')"
  proof -
    have "validate_ci_relative_path (Some ''demo'') = Inr (Some ''demo'')" "is_below ''/ws'' ''/ws/demo''" by code_simp+
    then show ?thesis
      by (simp add: execution_dir_def project_dir_def in_workspace_def example_service_def fixed_machine_def Let_def)
  qed
  have framework: "detect_framework dotnet_project = ''dotnet''" by code_simp
  have sha: "is_sha (replicate 40 (CHR ''a''))" by code_simp
  have branch: "optional_field (get ci_demo_state ''git_workflow_branch'') = Inr None" by code_simp
  have machine: "mc_resolve (sv_machine ?sv) dir = dir" "fst (mc_elapsed (sv_machine ?sv) u) < pol_pipeline_timeout (sv_policy ?sv)"
    "fst (mc_process (sv_machine ?sv) u command dir limit) = Completed 1 [] []" for dir u command limit
    by (simp_all add: example_service_def fixed_machine_def)
  obtain updates row where out: "run_ci_pipeline (Some ?sv) demo_config ci_demo_state ([], ()) = (Inr updates, [] @ [row], ())"
      and row: "get updates ''ci_state'' = PStr ''passed''"
        "map (\<lambda>t. (sr_id t, sr_status t)) (rn_steps (ro_run row)) = [(''restore'', ''failed''), (''build'', ''skipped''), (''test'', ''skipped'')]"
    using untested_dotnet_commit_passes[where sv = ?sv and state = ci_demo_state and store = "[]" and w = "()" and cf = demo_config
        and dir = "''/ws/demo''" and co = dotnet_project and repository = "''demo''",
        OF example_policy(3) sha _ demo_identity branch _ _ _ framework machine(1)] dirs machine(2,3) by auto
  then show ?thesis unfolding ci_demo_run_def by (intro exI[of _ updates] exI[of _ "[] @ [row]"] exI[of _ "()"]) (simp add: statuses_def)
qed

end
