(* ===== verification/GitProps.thy ===== *)
theory GitProps
  imports GitWorkflow
begin

text \<open>
  What the git side guarantees: which paths are offered for a commit and when, that no change of the
  project is lost between the three classes, that the history of commits records each commit once, and
  which approvals a reconciliation with continuous integration takes back.
\<close>

section \<open>Paths\<close>

lemma normalize_safe: "normalize_repository_path raw = Some p \<Longrightarrow> \<not> unsafe_repository_path p"
  by (auto simp: normalize_repository_path_def Let_def split: if_splits)

lemma in_some_of [simp]: "x \<in> set (some_of xs) \<longleftrightarrow> Some x \<in> set xs"
  by (induction xs rule: some_of.induct) auto

lemma expanded_files:
  assumes "expand_directory_files below d = Some files" and "f \<in> set files"
  shows "\<not> is_infrastructure_ignored f"
  using assms by (auto simp: expand_directory_files_def split: option.splits if_splits)

definition clean_allowed :: "string list \<Rightarrow> DirtyPaths \<Rightarrow> bool" where
  "clean_allowed allowed d \<longleftrightarrow> (\<forall>p \<in> set (dp_allowed d). p \<in> set allowed \<and> \<not> is_infrastructure_ignored p)"

lemma add_simps [simp]:
  "dp_allowed (add_allowed ps d) = ps @ dp_allowed d" "dp_ignored (add_allowed ps d) = dp_ignored d"
  "dp_unrelated (add_allowed ps d) = dp_unrelated d" "dp_allowed (add_ignored p d) = dp_allowed d"
  "dp_ignored (add_ignored p d) = p # dp_ignored d" "dp_unrelated (add_ignored p d) = dp_unrelated d"
  "dp_allowed (add_unrelated p d) = dp_allowed d" "dp_ignored (add_unrelated p d) = dp_ignored d"
  "dp_unrelated (add_unrelated p d) = p # dp_unrelated d"
  by (simp_all add: add_allowed_def add_ignored_def add_unrelated_def)

lemma classify_tracked_clean: "clean_allowed allowed d \<Longrightarrow> clean_allowed allowed (classify_tracked allowed raw d)"
  by (auto simp: clean_allowed_def classify_tracked_def split: option.splits)

lemma classify_untracked_clean: "clean_allowed allowed d \<Longrightarrow> clean_allowed allowed (classify_untracked below allowed raw d)"
  by (auto simp: clean_allowed_def classify_untracked_def split: option.splits dest: expanded_files)

lemma fold_keeps: "(\<And>x d. P d \<Longrightarrow> P (f x d)) \<Longrightarrow> P d \<Longrightarrow> P (fold f xs d)"
  by (induction xs arbitrary: d) auto

lemma classified_allowed:
  assumes "classify_dirty_paths below status owned = Inr d" and "p \<in> set (dp_allowed d)"
  shows "Some p \<in> normalize_repository_path ` set owned" and "\<not> is_infrastructure_ignored p" and "\<not> unsafe_repository_path p"
proof -
  let ?allowed = "some_of (map normalize_repository_path owned)"
  obtain tracked untracked where d: "d = sorted_paths (fold (classify_untracked below ?allowed) untracked
       (fold (classify_tracked ?allowed) (concat tracked) \<lparr>dp_allowed = [], dp_ignored = [], dp_unrelated = []\<rparr>))"
    using assms(1) by (auto simp: classify_dirty_paths_def Let_def bind_eq_Inr_iff)
  have "clean_allowed ?allowed (fold (classify_untracked below ?allowed) untracked
       (fold (classify_tracked ?allowed) (concat tracked) \<lparr>dp_allowed = [], dp_ignored = [], dp_unrelated = []\<rparr>))"
    by (intro fold_keeps[where P = "clean_allowed ?allowed"] classify_tracked_clean classify_untracked_clean)
      (simp_all add: clean_allowed_def)
  then show "Some p \<in> normalize_repository_path ` set owned" and "\<not> is_infrastructure_ignored p"
    using assms(2) by (auto simp: d sorted_paths_def clean_allowed_def)
  then show "\<not> unsafe_repository_path p" by (metis imageE normalize_safe)
qed

text \<open>Every path a class holds stays in it, and each path is put in one.\<close>

definition accounted :: "DirtyPaths \<Rightarrow> string \<Rightarrow> bool" where
  "accounted d raw \<longleftrightarrow> (case normalize_repository_path raw of
     None \<Rightarrow> forward_slashes raw \<in> set (dp_unrelated d)
   | Some p \<Rightarrow> p \<in> set (dp_allowed d) \<union> set (dp_ignored d) \<union> set (dp_unrelated d))"

lemma classify_tracked_accounts: "accounted (classify_tracked allowed raw d) raw"
  by (auto simp: accounted_def classify_tracked_def split: option.splits)

lemma classify_tracked_keeps: "accounted d raw \<Longrightarrow> accounted (classify_tracked allowed other d) raw"
  by (auto simp: accounted_def classify_tracked_def split: option.splits)

lemma classify_untracked_keeps: "accounted d raw \<Longrightarrow> accounted (classify_untracked below allowed other d) raw"
  by (auto simp: accounted_def classify_untracked_def split: option.splits)

lemma fold_tracked_accounts: "raw \<in> set xs \<Longrightarrow> accounted (fold (classify_tracked allowed) xs d) raw"
proof (induction xs arbitrary: d)
  case (Cons x xs)
  then show ?case
  proof (cases "raw = x")
    case True
    show ?thesis unfolding True
      by simp (rule fold_keeps[where P = "\<lambda>d. accounted d x"], simp_all add: classify_tracked_keeps classify_tracked_accounts)
  qed simp
qed simp

lemma fold_untracked_keeps: "accounted d raw \<Longrightarrow> accounted (fold (classify_untracked below allowed) xs d) raw"
  by (induction xs arbitrary: d) (simp_all add: classify_untracked_keeps)

section \<open>The node\<close>

text \<open>An executor that keeps the calls it is asked for, in their order.\<close>

definition recording :: "'x GraphDependencies \<Rightarrow> ('x \<times> (string \<times> pydict) list) GraphDependencies" where
  "recording deps =
    \<lparr>execute_tool = (\<lambda>(x, calls) name arguments state mode.
       bind (execute_tool deps x name arguments state mode) (\<lambda>(out, x'). Inr (out, (x', calls @ [(name, arguments)])))),
     argument_resolver = argument_resolver deps, model_items = model_items deps, interrupt = interrupt deps, imports_of = imports_of deps\<rparr>"

lemma recorded_tool:
  "execute_tool (recording deps) (x, calls) name arguments state mode = Inr (out, (x', calls')) \<Longrightarrow> calls' = calls @ [(name, arguments)]"
  by (auto simp: recording_def bind_eq_Inr_iff)

lemma recorded_call:
  "git_call (recording deps) (x, calls) name operation arguments state mode = Inr (payload, (x', calls'))
    \<Longrightarrow> calls' = calls @ [(name, arguments)]"
  by (auto simp: git_call_def bind_eq_Inr_iff dest: recorded_tool)

lemma bind_Inr3:
  assumes "bind m f = Inr y"
  obtains a b c where "m = Inr (a, b, c)"
  using assms by (cases m) auto

definition WORKSPACE_TOOLS :: "string list" where
  "WORKSPACE_TOOLS = [''git__init'', ''git__git_status'', ''git__create_workflow_branch'']"

lemma prepare_workspace_calls:
  assumes "prepare_workspace dirs project workflow (recording deps) (x, []) state = Inr (u, (x', calls))"
  shows "fst ` set calls \<subseteq> set WORKSPACE_TOOLS" and "get u ''pending_operation'' = PNone"
proof -
  define ask where "ask = git_identity project workflow @ agent ''Developer''"
  note out = assms[unfolded prepare_workspace_def Let_def, folded ask_def]
  obtain o1 y1 c1 where init: "execute_tool (recording deps) (x, []) ''git__init'' ask state AlreadyApproved = Inr (o1, (y1, c1))"
    by (rule bind_Inr3[OF out])
  have c1: "fst ` set c1 \<subseteq> set WORKSPACE_TOOLS" by (simp add: recorded_tool[OF init] WORKSPACE_TOOLS_def)
  note out = out[unfolded init bind.simps prod.case]
  have "fst ` set calls \<subseteq> set WORKSPACE_TOOLS \<and> get u ''pending_operation'' = PNone"
  proof (cases "refused o1")
    case True
    then show ?thesis using out c1 by (auto elim!: bind_InrE simp: initialization_failed_def)
  next
    case False
    note out = out[unfolded if_not_P[OF False]]
    from out obtain initialized where initialized: "raised_payload ''git_init'' o1 = Inr initialized" by (auto elim!: bind_InrE)
    note out = out[unfolded initialized bind.simps prod.case]
    from out obtain status y2 c2 where status: "git_call (recording deps) (y1, c1) ''git__git_status'' ''git_status'' ask state Prompt
        = Inr (status, (y2, c2))" by (auto elim!: bind_InrE)
    have c2: "fst ` set c2 \<subseteq> set WORKSPACE_TOOLS" using c1 by (simp add: recorded_call[OF status] WORKSPACE_TOOLS_def)
    note out = out[unfolded status bind.simps prod.case]
    from out obtain owned unrelated where att: "attributed_paths dirs state status = Inr (owned, unrelated)"
      by (auto elim!: bind_InrE)
    note out = out[unfolded att bind.simps prod.case]
    show ?thesis
    proof (cases "unrelated = []")
      case False
      then show ?thesis using out c2 by (auto simp: workspace_refused_def)
    next
      case True
      have related: "\<not> unrelated \<noteq> []" using True by simp
      note out = out[unfolded if_not_P[OF related]]
      from out obtain args where args: "branch_arguments state project workflow owned = Inr args" by (auto elim!: bind_InrE)
      note out = out[unfolded args bind.simps prod.case]
      from out obtain o3 y3 c3 where branch: "execute_tool (recording deps) (y2, c2) ''git__create_workflow_branch'' args state AlreadyApproved
          = Inr (o3, (y3, c3))" by (auto elim!: bind_InrE)
      have c3: "fst ` set c3 \<subseteq> set WORKSPACE_TOOLS" using c2 by (simp add: recorded_tool[OF branch] WORKSPACE_TOOLS_def)
      note out = out[unfolded branch bind.simps prod.case]
      then have same: "calls = c3" by (auto elim!: bind_InrE split: if_splits)
      show ?thesis
      proof (cases "refused o3")
        case True
        then show ?thesis using out c3 same
          by (auto elim!: bind_InrE simp: branch_failed_def workspace_refused_def)
      next
        case False
        then show ?thesis using out c3 same by (auto elim!: bind_InrE simp: workspace_prepared_def)
      qed
    qed
  qed
  then show "fst ` set calls \<subseteq> set WORKSPACE_TOOLS" and "get u ''pending_operation'' = PNone" by simp_all
qed

text \<open>The calls of a commit that is prepared: the status, and, when there is something to commit, the staging of exactly
  the attributed paths and the preview.\<close>

lemma prepare_commit_calls:
  assumes "prepare_commit dirs project workflow (recording deps) (x, []) state = Inr (u, (x', calls))"
  obtains status owned unrelated where "attributed_paths dirs state status = Inr (owned, unrelated)" "owned = []"
      "map fst calls = [''git__git_status'']" "get u ''pending_operation'' = PNone"
  | status owned unrelated status_args preview_args where "attributed_paths dirs state status = Inr (owned, unrelated)" "owned \<noteq> []"
      "calls = [(''git__git_status'', status_args),
        (''git__stage'', git_identity project workflow @ [(''paths'', pstrs owned)] @ agent (actor_of (phase_of state))),
        (''git__prepare_commit'', preview_args)]"
      "get u ''git_staged_files'' = pstrs owned" "get u ''pending_operation'' = PStr ''git_commit''"
proof -
  define ask where "ask = git_identity project workflow @ agent ''Developer''"
  define stage where "stage owned = git_identity project workflow @ [(''paths'', pstrs owned)] @ agent (actor_of (phase_of state))" for owned
  define preview_args where "preview_args message = git_identity project workflow @ [(''proposed_message'', PStr message)]
    @ agent (actor_of (phase_of state))" for message
  note out = assms[unfolded prepare_commit_def Let_def, folded ask_def stage_def preview_args_def]
  from out obtain status y1 c1 where status: "git_call (recording deps) (x, []) ''git__git_status'' ''git_status'' ask state Prompt
      = Inr (status, (y1, c1))" by (auto elim!: bind_InrE)
  have c1: "c1 = [(''git__git_status'', ask)]" using recorded_call[OF status] by simp
  note out = out[unfolded status bind.simps prod.case]
  from out obtain owned unrelated where att: "attributed_paths dirs state status = Inr (owned, unrelated)"
    by (auto elim!: bind_InrE)
  note out = out[unfolded att bind.simps prod.case]
  show thesis
  proof (cases "owned = []")
    case True
    then show thesis using out that(1)[OF att True] by (auto simp: c1 nothing_to_commit_def)
  next
    case False
    note out = out[unfolded if_not_P[OF False]]
    from out obtain staged y2 c2 where staged: "git_call (recording deps) (y1, c1) ''git__stage'' ''git_stage'' (stage owned) state AlreadyApproved
        = Inr (staged, (y2, c2))" by (auto elim!: bind_InrE)
    have c2: "c2 = c1 @ [(''git__stage'', stage owned)]" using recorded_call[OF staged] by simp
    note out = out[unfolded staged bind.simps prod.case]
    from out obtain message where message: "commit_message state (phase_of state) = Inr message"
      by (auto elim!: bind_InrE)
    note out = out[unfolded message bind.simps prod.case]
    from out obtain preview y3 c3 where preview: "git_call (recording deps) (y2, c2) ''git__prepare_commit'' ''git_prepare_commit''
        (preview_args message) state AlreadyApproved = Inr (preview, (y3, c3))" by (auto elim!: bind_InrE)
    have c3: "c3 = c2 @ [(''git__prepare_commit'', preview_args message)]" using recorded_call[OF preview] by simp
    have u: "u = commit_awaits project workflow (phase_of state) owned unrelated preview"
        "calls = [(''git__git_status'', ask), (''git__stage'', stage owned), (''git__prepare_commit'', preview_args message)]"
      using out[unfolded preview bind.simps prod.case] by (simp_all add: c1 c2 c3)
    show thesis
    proof (rule that(2)[OF att False])
      show "calls = [(''git__git_status'', ask), (''git__stage'', git_identity project workflow @ [(''paths'', pstrs owned)]
          @ agent (actor_of (phase_of state))), (''git__prepare_commit'', preview_args message)]"
        unfolding u(2) stage_def ..
    qed (simp_all add: u(1) commit_awaits_def pending_approval_def)
  qed
qed

lemma prepare_git_workflow_calls:
  assumes "prepare_git_workflow_node dirs (recording deps) (x, []) state = Inr (u, (x', calls))"
  obtains "fst ` set calls \<subseteq> set WORKSPACE_TOOLS" "get u ''pending_operation'' = PNone"
  | project workflow where "git_project state = Inr project" "git_workflow state = Inr workflow" "get state ''tests_passed'' = PBool True"
      "get state ''git_workflow_state'' \<notin> {PNone, PStr ''not_initialized''}"
      "prepare_commit dirs project workflow (recording deps) (x, []) state = Inr (u, (x', calls))"
proof -
  from assms obtain project where project: "git_project state = Inr project"
    by (auto simp: prepare_git_workflow_node_def bind_eq_Inr_iff)
  from assms project obtain workflow where workflow: "git_workflow state = Inr workflow"
    by (auto simp: prepare_git_workflow_node_def bind_eq_Inr_iff)
  note out = assms[unfolded prepare_git_workflow_node_def project workflow bind.simps]
  show thesis
  proof (cases "project = [] \<or> workflow = []")
    case True
    then show thesis using out that(1) by auto
  next
    case named: False
    note out = out[unfolded if_not_P[OF named]]
    show thesis
    proof (cases "get state ''git_workflow_state'' \<in> {PNone, PStr ''not_initialized''}")
      case True
      have "prepare_workspace dirs project workflow (recording deps) (x, []) state = Inr (u, (x', calls))"
        using out unfolding if_P[OF True] .
      then show thesis by (intro that(1) prepare_workspace_calls)
    next
      case started: False
      note out = out[unfolded if_not_P[OF started]]
      show thesis
      proof (cases "get state ''tests_passed'' = PBool True")
        case True
        then show thesis using out that(2)[OF project workflow True started] by simp
      next
        case False
        then show thesis using out that(1) by simp
      qed
    qed
  qed
qed

section \<open>Properties\<close>

text \<open>A file of the workflow that a commit may hold: one it generated or, in a repair, updated.\<close>

definition committable :: "pydict \<Rightarrow> string \<Rightarrow> bool" where
  "committable state p \<longleftrightarrow>
    (case bind (git_project state) (owned_paths state) of
       Inl e \<Rightarrow> False
     | Inr owned \<Rightarrow> Some p \<in> set (map normalize_repository_path owned)
         \<and> \<not> is_infrastructure_ignored p \<and> \<not> unsafe_repository_path p)"

lemma attributed_committable:
  assumes "attributed_paths dirs state status = Inr (owned, unrelated)" and "p \<in> set owned"
  shows "committable state p"
proof -
  from assms(1) obtain project paths below d where owned: "git_project state = Inr project" "owned_paths state project = Inr paths"
      "classify_dirty_paths below status paths = Inr d" "owned = dp_allowed d"
    by (auto simp: attributed_paths_def bind_eq_Inr_iff)
  then show ?thesis using classified_allowed[OF owned(3)] assms(2) by (auto simp: committable_def)
qed

text \<open>
  (C0) What the node that prepares a commit asks the git server for, read off the calls it makes, whatever
  the server answers: it stages files only once the tests of the state have passed and the step that
  prepares the workspace has been taken, and each path it stages is a file the workflow generated or
  repaired, none of the infrastructure, none that leads out of the project or into its git directory.
  It never commits itself; and it offers a commit for approval exactly when it has staged files, which are
  those it reports.
\<close>

theorem offered_commit_is_tested_and_owned:
  assumes "prepare_git_workflow_node dirs (recording deps) (x, []) state = Inr (u, (x', calls))"
  shows "(\<forall>args. (''git__stage'', args) \<in> set calls \<longrightarrow>
      get state ''tests_passed'' = PBool True \<and> get state ''git_workflow_state'' \<notin> {PNone, PStr ''not_initialized''}
      \<and> (\<exists>paths. get args ''paths'' = pstrs paths \<and> paths \<noteq> [] \<and> (\<forall>p \<in> set paths. committable state p)
           \<and> get u ''git_staged_files'' = pstrs paths))
    \<and> ''git__commit'' \<notin> fst ` set calls
    \<and> (get u ''pending_operation'' = PStr ''git_commit'' \<longleftrightarrow> ''git__stage'' \<in> fst ` set calls)"
  using assms
proof (cases rule: prepare_git_workflow_calls)
  case 1
  then have "''git__stage'' \<notin> fst ` set calls" "''git__commit'' \<notin> fst ` set calls" by (auto simp: WORKSPACE_TOOLS_def)
  then show ?thesis using 1(2) by (auto simp: image_iff)
next
  case (2 project workflow)
  show ?thesis using 2(5)
  proof (cases rule: prepare_commit_calls)
    case (1 status owned unrelated)
    have "set (map fst calls) = {''git__git_status''}" unfolding 1(3) by simp
    then have "''git__stage'' \<notin> fst ` set calls" "''git__commit'' \<notin> fst ` set calls" by simp_all
    then show ?thesis using 1(4) by (auto simp: image_iff)
  next
    case (2 status owned unrelated status_args preview_args)
    have args: "get (git_identity project workflow @ [(''paths'', pstrs owned)] @ agent (actor_of (phase_of state))) ''paths'' = pstrs owned"
      by (simp add: git_identity_def)
    have "\<forall>p \<in> set owned. committable state p" using attributed_committable[OF 2(1)] by blast
    then show ?thesis using 2(2-5) \<open>get state ''tests_passed'' = PBool True\<close>
        \<open>get state ''git_workflow_state'' \<notin> {PNone, PStr ''not_initialized''}\<close> args by auto
  qed
qed

text \<open>
  (C0) No tracked change is lost: each path git reports as staged, modified or deleted ends among the
  owned, the ignored or the unrelated paths, and a path that cannot be normalised is unrelated.
\<close>

theorem no_tracked_change_is_lost:
  assumes "classify_dirty_paths below status owned = Inr d"
    and "key \<in> {''staged'', ''modified'', ''deleted''}" and "status_values status key = Inr values" and "raw \<in> set values"
  shows "case normalize_repository_path raw of
      None \<Rightarrow> forward_slashes raw \<in> set (dp_unrelated d)
    | Some p \<Rightarrow> p \<in> set (dp_allowed d) \<union> set (dp_ignored d) \<union> set (dp_unrelated d)"
proof -
  let ?allowed = "some_of (map normalize_repository_path owned)"
  obtain tracked untracked where tracked: "mapm (status_values status) [''staged'', ''modified'', ''deleted''] = Inr tracked"
    and d: "d = sorted_paths (fold (classify_untracked below ?allowed) untracked
       (fold (classify_tracked ?allowed) (concat tracked) \<lparr>dp_allowed = [], dp_ignored = [], dp_unrelated = []\<rparr>))"
    using assms(1) by (auto simp: classify_dirty_paths_def Let_def bind_eq_Inr_iff)
  have "raw \<in> set (concat tracked)" using tracked assms(2-4) by (auto simp: bind_eq_Inr_iff)
  then have "accounted (fold (classify_tracked ?allowed) (concat tracked) \<lparr>dp_allowed = [], dp_ignored = [], dp_unrelated = []\<rparr>) raw"
    by (rule fold_tracked_accounts)
  then have "accounted (fold (classify_untracked below ?allowed) untracked
       (fold (classify_tracked ?allowed) (concat tracked) \<lparr>dp_allowed = [], dp_ignored = [], dp_unrelated = []\<rparr>)) raw"
    by (rule fold_untracked_keeps)
  then show ?thesis by (simp add: accounted_def d sorted_paths_def split: option.splits)
qed

text \<open>The commits a history records.\<close>

fun recorded_sha :: "pyval \<Rightarrow> string option" where
  "recorded_sha (PDict item) = (case get item ''sha'' of PStr s \<Rightarrow> Some s | _ \<Rightarrow> None)"
| "recorded_sha _ = None"

lemma records_commit_known:
  "None \<notin> recorded_sha ` set hist \<Longrightarrow> records_commit (PStr c) hist = Inr known \<Longrightarrow> known \<longleftrightarrow> Some c \<in> recorded_sha ` set hist"
proof (induction hist)
  case (Cons item items)
  then show ?case by (cases item) (auto split: if_splits pyval.splits)
qed simp

text \<open>
  (C0) The history of commits records each commit once: executing a commit, or recovering one that is
  already recorded, keeps all entries in their order and adds at most the new one, with its phase and
  the agent that made it.
\<close>

theorem commit_history_records_once:
  assumes "git_commit_state_updates state result recovery = Inr u" and "list_or_empty (get state ''git_commit_history'') = Inr hist"
    and "get result ''commit'' = PStr c" and "None \<notin> recorded_sha ` set hist" and "distinct (map recorded_sha hist)"
  shows "\<exists>hist'. get u ''git_commit_history'' = PList hist' \<and> distinct (map recorded_sha hist')
    \<and> None \<notin> recorded_sha ` set hist' \<and> Some c \<in> recorded_sha ` set hist'
    \<and> take (length hist) hist' = hist \<and> length hist' \<le> length hist + 1"
proof -
  obtain phase where phase: "commit_phase state = Inr phase"
    using assms(1) by (auto simp: git_commit_state_updates_def bind_eq_Inr_iff)
  obtain known where known: "records_commit (PStr c) hist = Inr known"
    using assms(1-3) by (auto simp: git_commit_state_updates_def bind_eq_Inr_iff)
  define repair where "repair = (if phase = ''repair'' then repair_commit_updates state result else [])"
  have no_key: "\<not> has_key repair ''git_commit_history''" by (simp add: repair_def repair_commit_updates_def)
  have u: "get u ''git_commit_history'' = PList (if known then hist else hist @ [commit_entry phase result])"
    using assms(1) unfolding git_commit_state_updates_def phase assms(2,3) known bind.simps Let_def repair_def[symmetric]
    by (cases recovery) (auto simp: get_dmerge_other no_key)
  have "recorded_sha (commit_entry phase result) = Some c" using assms(3) by (simp add: commit_entry_def)
  then show ?thesis using u records_commit_known[OF assms(4) known] assms(4,5) by auto
qed

lemma accepted_updates_keys:
  "has_key (accepted_updates execution eligibility) key \<Longrightarrow> starts_with key ''ci_''"
  by (auto simp: accepted_updates_def starts_with_def)

lemma reconciled_keys:
  "dict_ok (accepted_updates execution eligibility @ cleared_repair @ cleared_ci_failure state @ restored_tests state)"
  unfolding dict_ok_def accepted_updates_def cleared_repair_def cleared_approval_def cleared_ci_failure_def restored_tests_def
  by (cases "get state ''failure_stage'' = PStr ''ci''"; cases "durable_local_tests_passed state";
    simp only: if_True if_False list.map append.simps fst_conv; code_simp)

text \<open>
  (C0) A reconciliation changes the state exactly when the run is passed with an accepting decision on a
  commit that is eligible and is, in the run and on both sides of the eligibility, the current head. It
  then changes nothing outside the fields of continuous integration unless the state waits for the approval
  of the test run of a repair of an earlier failed run; there it takes back that approval, and it sets
  the tests to passed only where the durable summary of the tests reports passed tests and no failed one.
\<close>

theorem reconciliation_clears_stale_repairs_only:
  fixes state execution eligibility head
  defines "rc \<equiv> build_ci_success_reconciliation state execution eligibility head"
  defines "after_rc \<equiv> dmerge state (rc_updates rc)"
  shows "(rc_updates rc \<noteq> [] \<longleftrightarrow>
      (\<exists>h. head = Some h \<and> h \<noteq> [] \<and> get execution ''ci_validated_commit'' = PStr h \<and> get eligibility ''source_commit'' = PStr h
        \<and> get eligibility ''target_commit'' = PStr h) \<and> get eligibility ''commit_match'' = PBool True
      \<and> get execution ''status'' = PStr ''passed'' \<and> get eligibility ''eligible'' = PBool True
      \<and> get execution ''decision'' \<in> {PStr ''accepted'', PStr ''accepted_with_warnings''})
    \<and> ((\<exists>key. get after_rc key \<noteq> get state key \<and> \<not> starts_with key ''ci_'') \<longrightarrow>
        get state ''pending_operation'' = PStr ''run_tests'' \<and> get state ''pending_tool_name'' = PStr ''testing__run_tests''
        \<and> get state ''pending_approval_status'' = PStr ''waiting'' \<and> truthy (get state ''ci_repair_source_run_id'')
        \<and> get state ''ci_repair_state'' \<in> {PStr ''pending'', PStr ''running''}
        \<and> (get state ''supervisor_decision'' = PStr ''testing_repair'' \<or> get state ''failure_stage'' = PStr ''ci'')
        \<and> get after_rc ''pending_operation'' = PNone \<and> get after_rc ''pending_approval_status'' = PStr ''none'')
    \<and> (get after_rc ''tests_passed'' \<noteq> get state ''tests_passed'' \<longrightarrow> durable_local_tests_passed state)"
proof (cases "accepted_run execution eligibility \<and> exact_commit execution eligibility head")
  case False
  then have rc: "rc_updates rc = []" by (auto simp: rc_def build_ci_success_reconciliation_def)
  have "\<not> ((\<exists>h. head = Some h \<and> h \<noteq> [] \<and> get execution ''ci_validated_commit'' = PStr h \<and> get eligibility ''source_commit'' = PStr h
        \<and> get eligibility ''target_commit'' = PStr h) \<and> get eligibility ''commit_match'' = PBool True
      \<and> get execution ''status'' = PStr ''passed'' \<and> get eligibility ''eligible'' = PBool True
      \<and> get execution ''decision'' \<in> {PStr ''accepted'', PStr ''accepted_with_warnings''})"
    using False by (auto simp: accepted_run_def exact_commit_def ACCEPTED_DECISIONS_def)
  then show ?thesis by (simp add: after_rc_def rc)
next
  case True
  let ?stale = "is_stale_ci_repair_interrupt state"
  have rc: "rc_updates rc = accepted_updates execution eligibility
      @ (if ?stale then cleared_repair @ cleared_ci_failure state @ restored_tests state else [])"
    using True by (simp add: rc_def build_ci_success_reconciliation_def Let_def)
  have some: "rc_updates rc \<noteq> []" by (simp add: rc accepted_updates_def)
  have accepted: "(\<exists>h. head = Some h \<and> h \<noteq> [] \<and> get execution ''ci_validated_commit'' = PStr h \<and> get eligibility ''source_commit'' = PStr h
        \<and> get eligibility ''target_commit'' = PStr h) \<and> get eligibility ''commit_match'' = PBool True
      \<and> get execution ''status'' = PStr ''passed'' \<and> get eligibility ''eligible'' = PBool True
      \<and> get execution ''decision'' \<in> {PStr ''accepted'', PStr ''accepted_with_warnings''}"
    using True by (auto simp: accepted_run_def exact_commit_def ACCEPTED_DECISIONS_def split: option.splits)
  show ?thesis
  proof (cases ?stale)
    case False
    have same: "get after_rc key = get state key" if "\<not> starts_with key ''ci_''" for key
      using that accepted_updates_keys[of execution eligibility key] False by (auto simp: after_rc_def rc intro: get_dmerge_other)
    have "\<not> starts_with ''tests_passed'' ''ci_''" by code_simp
    then show ?thesis using some accepted same by auto
  next
    case stale: True
    have merged: "get after_rc key = (if has_key (rc_updates rc) key then get (rc_updates rc) key else get state key)" for key
      using get_dmerge[OF reconciled_keys[of execution eligibility state], of state key] stale by (simp add: after_rc_def rc)
    have cleared: "get after_rc ''pending_operation'' = PNone" "get after_rc ''pending_approval_status'' = PStr ''none''"
      using stale by (simp_all add: merged rc has_key_append accepted_updates_def cleared_repair_def cleared_approval_def)
    have "\<not> has_key (rc_updates rc) ''tests_passed''" if "\<not> durable_local_tests_passed state"
      using stale that by (simp add: rc has_key_append accepted_updates_def cleared_repair_def cleared_approval_def cleared_ci_failure_def restored_tests_def)
    then have "get after_rc ''tests_passed'' \<noteq> get state ''tests_passed'' \<longrightarrow> durable_local_tests_passed state"
      using merged[of "''tests_passed''"] by auto
    moreover note stale[unfolded is_stale_ci_repair_interrupt_def]
    ultimately show ?thesis using some accepted cleared by blast
  qed
qed

section \<open>Witnesses\<close>

definition git_tools :: "unit GraphDependencies" where
  "git_tools = \<lparr>execute_tool = (\<lambda>x name args s mode. Inr (\<lparr>o_public_tool_name = name, o_arguments = args,
        o_payload = Some [(''modified'', PList [PStr ''main.py'']), (''approval_id'', PStr ''a'')],
        o_state_updates = [], o_executed_sensitive = False, o_is_error = False\<rparr>, x)),
     argument_resolver = None, model_items = (\<lambda>s d. Inl TypeError), interrupt = (\<lambda>d. PNone), imports_of = (\<lambda>s. None)\<rparr>"

definition tested_state :: pydict where
  "tested_state = [(''workflow_id'', PStr ''w''), (''created_project_name'', PStr ''demo''),
    (''git_workflow_state'', PStr ''workspace_prepared''), (''tests_passed'', PBool True),
    (''generated_files'', PList [PStr ''demo/main.py''])]"

definition no_listing :: directories where
  "no_listing dir project path = None"

theorem offered_commit_is_tested_and_owned_witness:
  "\<exists>u x' calls args. prepare_git_workflow_node no_listing (recording git_tools) ((), []) tested_state = Inr (u, (x', calls))
    \<and> (''git__stage'', args) \<in> set calls \<and> get args ''paths'' = pstrs [''main.py''] \<and> get u ''pending_operation'' = PStr ''git_commit''
    \<and> ''git__commit'' \<notin> fst ` set calls"
proof -
  let ?out = "prepare_git_workflow_node no_listing (recording git_tools) ((), []) tested_state"
  have "(case ?out of Inr (u, (x', calls)) \<Rightarrow> map (\<lambda>(name, args). (name, get args ''paths'')) calls | _ \<Rightarrow> [])
      = [(''git__git_status'', PNone), (''git__stage'', PList [PStr ''main.py'']), (''git__prepare_commit'', PNone)]" by code_simp
  then obtain u x' calls where out: "?out = Inr (u, (x', calls))" and calls: "map (\<lambda>(name, args). (name, get args ''paths'')) calls
      = [(''git__git_status'', PNone), (''git__stage'', PList [PStr ''main.py'']), (''git__prepare_commit'', PNone)]"
    by (auto split: sum.splits prod.splits)
  have "(''git__stage'', PList [PStr ''main.py'']) \<in> set (map (\<lambda>(name, args). (name, get args ''paths'')) calls)"
    unfolding calls by simp
  then obtain args where args: "(''git__stage'', args) \<in> set calls" "get args ''paths'' = PList [PStr ''main.py'']" by auto
  note shown = offered_commit_is_tested_and_owned[OF out]
  have "''git__stage'' \<in> fst ` set calls" using args(1) by (force simp: image_iff)
  then have "get u ''pending_operation'' = PStr ''git_commit''" using shown by blast
  then show ?thesis using out args shown by (intro exI conjI) (assumption | simp)+
qed

definition changed_status :: pydict where
  "changed_status = [(''staged'', PList []), (''modified'', PList [PStr ''main.py'']), (''deleted'', PList []), (''untracked'', PList [])]"

theorem no_tracked_change_is_lost_witness:
  "\<exists>d. classify_dirty_paths (no_listing None ''demo'') changed_status [''demo/x.py''] = Inr d \<and> ''main.py'' \<in> set (dp_unrelated d) \<union> set (dp_allowed d) \<union> set (dp_ignored d)"
proof -
  have "(case classify_dirty_paths (no_listing None ''demo'') changed_status [''demo/x.py''] of Inr d \<Rightarrow> True | Inl e \<Rightarrow> False)" by code_simp
  then obtain d where d: "classify_dirty_paths (no_listing None ''demo'') changed_status [''demo/x.py''] = Inr d" by (auto split: sum.splits)
  have vals: "status_values changed_status ''modified'' = Inr [''main.py'']" by code_simp
  have norm: "normalize_repository_path ''main.py'' = Some ''main.py''" by code_simp
  from no_tracked_change_is_lost[OF d _ vals, of "''main.py''"] norm d show ?thesis by auto
qed

theorem commit_history_records_once_witness:
  "\<exists>u hist. git_commit_state_updates [(''git_commit_history'', PList [PDict [(''sha'', PStr ''c1'')]])] [(''commit'', PStr ''c2'')] True = Inr u
    \<and> get u ''git_commit_history'' = PList hist \<and> distinct (map recorded_sha hist) \<and> Some ''c2'' \<in> recorded_sha ` set hist"
proof -
  let ?out = "git_commit_state_updates [(''git_commit_history'', PList [PDict [(''sha'', PStr ''c1'')]])] [(''commit'', PStr ''c2'')] True"
  have "(case ?out of Inr u \<Rightarrow> True | Inl e \<Rightarrow> False)" by code_simp
  then obtain u where u: "?out = Inr u" by (auto split: sum.splits)
  have hist: "list_or_empty (get [(''git_commit_history'', PList [PDict [(''sha'', PStr ''c1'')]])] ''git_commit_history'')
      = Inr [PDict [(''sha'', PStr ''c1'')]]" by code_simp
  from commit_history_records_once[OF u hist, of "''c2''"] u show ?thesis by auto
qed

definition stale_repair_state :: pydict where
  "stale_repair_state = [(''pending_operation'', PStr ''run_tests''), (''pending_tool_name'', PStr ''testing__run_tests''),
    (''pending_approval_status'', PStr ''waiting''), (''ci_repair_state'', PStr ''pending''), (''ci_repair_source_run_id'', PStr ''r1''),
    (''failure_stage'', PStr ''ci''), (''final_test_result_summary'', PStr ''3 passed in 1s'')]"

theorem reconciliation_clears_stale_repairs_only_witness:
  "\<exists>u. rc_updates (build_ci_success_reconciliation stale_repair_state
      [(''ci_validated_commit'', PStr ''c1''), (''status'', PStr ''passed''), (''decision'', PStr ''accepted'')]
      [(''source_commit'', PStr ''c1''), (''target_commit'', PStr ''c1''), (''commit_match'', PBool True), (''eligible'', PBool True)]
      (Some ''c1'')) = u \<and> u \<noteq> [] \<and> get (dmerge stale_repair_state u) ''pending_operation'' = PNone
    \<and> get (dmerge stale_repair_state u) ''pending_approval_status'' = PStr ''none''
    \<and> durable_local_tests_passed stale_repair_state"
proof -
  let ?execution = "[(''ci_validated_commit'', PStr ''c1''), (''status'', PStr ''passed''), (''decision'', PStr ''accepted'')]"
  let ?eligibility = "[(''source_commit'', PStr ''c1''), (''target_commit'', PStr ''c1''), (''commit_match'', PBool True), (''eligible'', PBool True)]"
  let ?u = "rc_updates (build_ci_success_reconciliation stale_repair_state ?execution ?eligibility (Some ''c1''))"
  have changed: "get (dmerge stale_repair_state ?u) ''pending_operation'' \<noteq> get stale_repair_state ''pending_operation''"
      "get (dmerge stale_repair_state ?u) ''tests_passed'' \<noteq> get stale_repair_state ''tests_passed''"
      "\<not> starts_with ''pending_operation'' ''ci_''" "?u \<noteq> []" by code_simp+
  from reconciliation_clears_stale_repairs_only[of stale_repair_state ?execution ?eligibility "Some ''c1''"] changed
  show ?thesis by blast
qed

end
