(* ===== verification/Spec2Isabelle.thy ===== *)
theory Spec2Isabelle
  imports SupervisorProps KnowledgeProps TestingRepairProps ExecutorRoundTrip WorkspaceProps PlanApprovalProps PlanningExample TestCodeProps ImplementationExample CIExample GitProps
begin

text \<open>
  A verification library of the software factory: a program that turns a request into a Python, .NET or
  Node project by a workflow of agents over LangGraph. The workflow is one state, a dictionary
  (graph/state.py). A supervisor (graph/supervisor/) reads it and hands over to a stage; a stage is
  a subgraph (planning, implementation, testing and repair under graph/subgraphs/), a git node
  (graph/git_workflow.py) or the node that runs continuous integration (graph/builder.py). A stage
  calls tools through an executor (tool_executor.py) that lets the host (host.py) check the call,
  ask a person where the tool is sensitive, send it to an MCP server, and read the answer into the
  state. Every call on files ends in the filesystem server (servers/filesystem_server.py).

  \<^bold>\<open>The language.\<close> \<open>PyPrelude\<close>, \<open>PyText\<close>, \<open>PyFloat\<close>, \<open>PyValue\<close>, \<open>PyRegex\<close> and \<open>PyJson\<close> write
  out what the sources use of Python: values as \<open>pyval\<close>, a dictionary as an association list in
  insertion order, exceptions as the left side of a sum, strings, doubles, regular expressions
  with the backtracking of \<open>re\<close>, and \<open>json\<close>. Every definition computes. \<open>Unmodelled\<close> marks the inputs whose
  text Python computes and the model does not.

  \<^bold>\<open>Theories and sources.\<close>
  \<^item> State: \<open>StateSchema\<close> (graph/state.py).
  \<^item> Supervisor: \<open>SupervisorGuards\<close> (guards.py, models.py), \<open>SupervisorService\<close> (service.py, adapters.py,
    config.py, validators.py, routers.py), \<open>SupervisorProps\<close>.
  \<^item> Host: \<open>HostPaths\<close>, \<open>HostState\<close> (the record \<open>ExecutionState\<close> and the next step), \<open>HostTools\<close> (the guards
    of a call), \<open>HostUpdates\<close> (what an answer changes), \<open>HostCalls\<close> (\<open>handle_function_call\<close>, runs of
    the host), \<open>HostProps\<close>; all of host.py, with clients/tool_registry.py.
  \<^item> Executor: \<open>ToolExecutor\<close> (tool_executor.py), \<open>ExecutorProps\<close>, \<open>ExecutorRoundTrip\<close>. The interface a node
    relies on is the locale \<open>tool_executor\<close>, extended by \<open>repair_executor\<close>; the host's executor
    instantiates both (\<open>host_executor\<close>, \<open>host_repairs\<close>).
  \<^item> Nodes: \<open>GraphNodes\<close> (graph/nodes.py).
  \<^item> Planning: \<open>Planning\<close>, \<open>PlanContract\<close>, \<open>PlanChecks\<close>, \<open>PlanOrder\<close>, \<open>PlanQuality\<close>, \<open>PlanRisk\<close> (with
    graph/planning_approval_policy.py), \<open>PlanningFlow\<close>, \<open>PlanningGraph\<close> (graph/subgraphs/planning/), \<open>PlanSpec\<close> (what a plan that leaves
    planning has to be, written over the plan and not over the checks), \<open>PlanningProps\<close>, \<open>PlanningExample\<close>, and \<open>PlanApproval\<close>, \<open>PlanApprovalProps\<close> (the planning nodes of graph/builder.py and
    the fingerprint of graph/planning_approval_policy.py).
  \<^item> Implementation: \<open>ImplementationPlan\<close> (models.py, policies/dependencies.py), \<open>TestCode\<close> and \<open>TestCodeProps\<close>
    (test_validation.py, policies/testing_patterns.py), \<open>ImplementationChecks\<close> (state.py,
    routers.py, validators.py), \<open>ImplementationGraph\<close> (service.py, builder.py), \<open>ImplementationProps\<close>,
    \<open>ImplementationExample\<close> (graph/subgraphs/implementation/).
  \<^item> Testing and repair: \<open>TestingRepair\<close>, \<open>TestingNodes\<close>, \<open>TestingRepairProps\<close> (graph/subgraphs/testing_repair/,
    graph/failure_injection.py).
  \<^item> Knowledge: \<open>Knowledge\<close>, \<open>KnowledgeProps\<close> (the knowledge.py and repair_knowledge.py of the subgraphs).
  \<^item> Files: \<open>WorkspaceFiles\<close>, \<open>WorkspaceProps\<close> (servers/filesystem_server.py).
  \<^item> Git: \<open>GitWorkflow\<close>, \<open>GitProps\<close> (git_dirty_paths.py, graph/git_workflow.py, graph/ci_reconciliation.py).
  \<^item> Continuous integration: \<open>CIGates\<close> (api/ci_models.py and the functions of api/services/ci_service.py),
    \<open>CIRun\<close> (its class, api/services/ci_store.py, api/services/observability_sanitizer.py), \<open>CIService\<close> (prepare, run,
    and the node \<open>run_ci_pipeline\<close> of graph/builder.py), \<open>CIProps\<close>, \<open>CIPromotion\<close>, \<open>CIDotnet\<close>,
    \<open>CIExample\<close>.

  A function of the source is a definition of the same name where the name is free; a nested function or a
  branch that is long is a definition of its own. A class becomes a record, a node of a graph a
  function from the state to the updates, or to an exception. A graph is a step function on a place and a
  state with its runs as an inductive relation (\<open>planning_run\<close>, \<open>implementation_run\<close>, \<open>testing_run\<close>).

  \<^bold>\<open>What the lemmas show.\<close>
  \<^item> Supervisor: the node waits for an approval, ends a loop, or takes a handoff the policy allows (the
    development probe and the waiting approval are cases of the statements); retries and history are bounded;
    promotion and the finalization of a workflow without a terminal status need the validated commit;
    nothing raises on a state of the declared types; the language model has no influence.
  \<^item> Host: in every run a sensitive call sent with a prompt was approved, a refused call is not sent,
    test runs are bounded, the calls in the phase of a repair are confined to the files it may touch, and a
    call that would repeat a completed step is not sent. Executor: the two states make a round trip.
  \<^item> Subgraphs: every run ends within a number of steps computed from the limits; a plan that leaves
    planning as valid meets the demands of \<open>PlanSpec\<close> or it is marked invalid; a project comes to be
    created only from an approved plan that passed every check; an approval, read off the answers of the
    person, is used once.
  \<^item> Plan: the contract's search for cycles, the topological sort and the existence of an order agree; the policy
    asks for an approval exactly for sensitive plans, and no plan reaches the judge with an approval given to another.
  \<^item> Files: requests change nothing outside the workspace; creating and updating a project are atomic.
  \<^item> Knowledge: a context keeps to its budget, and no retrieved text closes it.
  \<^item> Git and continuous integration: files are staged only after tests passed, and only files of
    the workflow, read off the calls of the node (\<open>recording\<close>); a reconciliation with an accepted run touches
    nothing else than a stale repair. A run of a pipeline refines \<open>staged\<close>, the contract of its steps (in
    order, and nothing after a required failure). Where the build and test gates block, the rows of
    runs stay \<open>vetted\<close>, and where CI is also required, a commit reported as passed was built and tested
    unless its project is a .NET one, for which \<open>untested_dotnet_commit_passes\<close> shows the opposite for every
    project, state and service.

  Each hypothesis of a property is met by a witness theorem on concrete values.

  \<^bold>\<open>Parameters.\<close> Code that is not in the repository enters as an argument: LangGraph's merge of updates
  (with \<open>overwrites\<close>, the documented behaviour of fields without a reducer), the field checks and
  messages of pydantic, the replies of the language model, Python's parser (\<open>ast\<close>), the MCP servers, the JSON
  schema validator, the person who approves (\<open>HostEnv\<close>), the operating system's faults (of writes, mkdir, mkdtemp and
  the move of a directory) and temporary names (\<open>FsEnv\<close>), processes, clock, temporary directories and path resolution (\<open>Machine\<close>), git's answers and
  the directories of a project (\<open>Checkout\<close>, \<open>listing\<close>), fresh ids and the SHA-256 fingerprint (\<open>Service\<close>), and SHA-256 in \<open>PlanApproval\<close>.

  \<^bold>\<open>Bounds and fuel.\<close> The regular expressions bound each repetition by the length of the rest, which
  every iteration shortens; searches bound their starts by the length of the text. The redaction of
  output consumes a character a step. The graphs need no fuel: their termination is a property. In the topological
  sort and the search for cycles the number of tasks bounds the rounds, and \<open>PlanOrder\<close> proves that this is enough.

  \<^bold>\<open>Not modelled.\<close> The parent graph's wiring but for the gate of risky plans, and its state adapters
  (graph/builder.py, graph/subgraph_adapters.py, graph/runtime.py); the git service,
  which drives git as a subprocess; persistence, queries and analytics over SQLite; the evaluation of planners and agents,
  which reports on finished workflows; costs, alerts, notifications, events and spans, which no result
  depends on; the knowledge service behind its tool; the HTTP interface; the other MCP servers,
  which are subprocesses and protocol; scripts and the front end. In the modelled parts events, logs, prompts and
  measured durations are left out, texts are Latin-1, and a tree of files has no symbolic links.
\<close>

end
